(* ===== verification/Prelude.thy ===== *)
theory Prelude imports Main "HOL-Library.Char_ord" "HOL-Library.List_Lexorder" "HOL-Library.Sublist" "HOL-Library.Word" "HOL-Library.Multiset" begin

text \<open>
  The vocabulary every component theory shares: fallible results and the errors the program
  raises, the machine integers, the services of third-party crates the code calls (time
  formatting, identifier parsing, content hashing), and generic facts about lists that several
  components use. No definition here models a component.
\<close>

named_theorems str_simps \<open>evaluation and algebra of the Rust string operations\<close>
named_theorems bt_simps \<open>lookup, membership and order laws of the ordered maps and sets\<close>
named_theorems codec \<open>a decoder applied to the encoding of a value\<close>
named_theorems payload_defs \<open>field lists of the serialised payload structs\<close>

section \<open>Machine integers and time\<close>

type_synonym u64 = "64 word"
type_synonym u16 = "16 word"

text \<open>
  A chrono \<^verbatim>\<open>DateTime<Utc>\<close> is an instant; it is modelled by its number of nanoseconds
  from the epoch. Identifiers of the uuid crate are modelled by their canonical hyphenated text.
\<close>

type_synonym instant = int
type_synonym uuid = string

section \<open>Errors and results\<close>

text \<open>
  \<^verbatim>\<open>anyhow::Result<T>\<close> is \<open>brick_error + 'a\<close>: \<open>Inl\<close> the error, \<open>Inr\<close> the value.
  One constructor per place where the modelled code raises.
\<close>

datatype brick_error =
    Payload_Parse uuid string          \<comment> \<open>event id, event type name\<close>
  | Event_Decode                       \<comment> \<open>a stored row that is no event\<close>
  | Source_Session_Payload             \<comment> \<open>a source-session payload that does not parse\<close>
  | Index_Parse                        \<comment> \<open>an index cache file that does not parse\<close>
  | Trace_Id_Empty
  | Actor_Type_Unsupported string
  | Edge_Role_Unknown string
  | Invalid_Line_Range u64 u64
  | Git_Command_Failed string
  | File_Read_Failed string
  | Numstat_Missing string
  | Numstat_Invalid string string
  | Numstat_Rename_Truncated
  | Numstat_Not_Utf8
  | Range_Missing_Base
  | Range_Missing_Head
  | Invalid_Env string

type_synonym 'a result = "brick_error + 'a"

definition and_then :: "'e + 'a \<Rightarrow> ('a \<Rightarrow> 'e + 'b) \<Rightarrow> 'e + 'b" where
  "and_then r f = (case r of Inl e \<Rightarrow> Inl e | Inr x \<Rightarrow> f x)"

lemma and_then_simps [simp]:
  "and_then (Inl e) f = Inl e"
  "and_then (Inr x) f = f x"
  by (simp_all add: and_then_def)

lemma and_then_Inr_iff:
  "and_then r f = Inr y \<longleftrightarrow> (\<exists>x. r = Inr x \<and> f x = Inr y)"
  by (cases r) auto

definition ok_or :: "'a option \<Rightarrow> 'e \<Rightarrow> 'e + 'a" where
  "ok_or v e = (case v of None \<Rightarrow> Inl e | Some x \<Rightarrow> Inr x)"

lemma ok_or_simps [simp]:
  "ok_or None e = Inl e"
  "ok_or (Some x) e = Inr x"
  by (simp_all add: ok_or_def)

lemma ok_or_Inr_iff: "ok_or v e = Inr x \<longleftrightarrow> v = Some x"
  by (cases v) auto

text \<open>Collecting an iterator of results stops at the first error.\<close>

fun collect_results :: "('a \<Rightarrow> 'e + 'b) \<Rightarrow> 'a list \<Rightarrow> 'e + 'b list" where
  "collect_results f [] = Inr []"
| "collect_results f (x # xs) =
     (case f x of
        Inl e \<Rightarrow> Inl e
      | Inr y \<Rightarrow> (case collect_results f xs of Inl e \<Rightarrow> Inl e | Inr ys \<Rightarrow> Inr (y # ys)))"

lemma collect_results_Inr:
  "collect_results f xs = Inr ys \<longleftrightarrow> list_all2 (\<lambda>x y. f x = Inr y) xs ys"
proof (induction xs arbitrary: ys)
  case (Cons x xs)
  show ?case
  proof (cases "f x")
    case (Inr y)
    show ?thesis
      by (cases "collect_results f xs") (auto simp: Inr list_all2_Cons1 Cons.IH [symmetric])
  qed (auto simp: list_all2_Cons1)
qed auto

fun collect_options :: "('a \<Rightarrow> 'b option) \<Rightarrow> 'a list \<Rightarrow> 'b list option" where
  "collect_options f [] = Some []"
| "collect_options f (x # xs) =
     (case f x of
        None \<Rightarrow> None
      | Some y \<Rightarrow> (case collect_options f xs of None \<Rightarrow> None | Some ys \<Rightarrow> Some (y # ys)))"

lemma collect_options_map:
  assumes "\<And>x. x \<in> set xs \<Longrightarrow> f (g x) = Some x"
  shows "collect_options f (map g xs) = Some xs"
  using assms by (induction xs) auto

section \<open>Services of other crates\<close>

text \<open>
  Code that is not in the repository is a parameter. \<open>rfc3339\<close> is chrono's
  \<^verbatim>\<open>to_rfc3339\<close>, \<open>time_to_json\<close>/\<open>time_of_json\<close> its serde format, \<open>uuid_of_json\<close> the
  uuid crate's parser and \<open>sha256_hex\<close> the sha2 digest printed in lower-case hex. The laws that
  theorems rely on are stated where they are used.
\<close>

record services =
  rfc3339 :: "instant \<Rightarrow> string"
  time_to_json :: "instant \<Rightarrow> string"
  time_of_json :: "string \<Rightarrow> instant option"
  uuid_of_json :: "string \<Rightarrow> uuid option"
  sha256_hex :: "string \<Rightarrow> string"

section \<open>Options\<close>

definition or_else :: "'a option \<Rightarrow> 'a option \<Rightarrow> 'a option" where
  "or_else a b = (case a of None \<Rightarrow> b | Some x \<Rightarrow> Some x)"

lemma or_else_simps [simp]:
  "or_else None b = b"
  "or_else (Some x) b = Some x"
  "or_else a None = a"
  by (simp_all add: or_else_def split: option.split)

lemma or_else_assoc: "or_else (or_else a b) c = or_else a (or_else b c)"
  by (cases a) auto

definition unwrap_or :: "'a option \<Rightarrow> 'a \<Rightarrow> 'a" where
  "unwrap_or a d = (case a of None \<Rightarrow> d | Some x \<Rightarrow> x)"

lemma unwrap_or_simps [simp]:
  "unwrap_or None d = d"
  "unwrap_or (Some x) d = x"
  by (simp_all add: unwrap_or_def)

definition filter_opt :: "('a \<Rightarrow> bool) \<Rightarrow> 'a option \<Rightarrow> 'a option" where
  "filter_opt p a = (case a of None \<Rightarrow> None | Some x \<Rightarrow> if p x then Some x else None)"

lemma filter_opt_simps [simp]:
  "filter_opt p None = None"
  "filter_opt p (Some x) = (if p x then Some x else None)"
  by (simp_all add: filter_opt_def)

section \<open>Removing later duplicates while keeping the first\<close>

text \<open>
  The code's idiom \<^verbatim>\<open>if seen.insert(key(x)) { out.push(x) }\<close>: an element is kept when its key
  has not been seen before, in the initial set or among the earlier elements.
\<close>

fun keep_unseen :: "('a \<Rightarrow> 'k) \<Rightarrow> 'k set \<Rightarrow> 'a list \<Rightarrow> 'a list" where
  "keep_unseen key seen [] = []"
| "keep_unseen key seen (x # xs) =
     (if key x \<in> seen then keep_unseen key seen xs
      else x # keep_unseen key (insert (key x) seen) xs)"

lemma keep_unseen_fresh:
  "x \<in> set (keep_unseen key seen xs) \<Longrightarrow> x \<in> set xs \<and> key x \<notin> seen"
  by (induction xs arbitrary: seen) (auto split: if_splits)

lemma keep_unseen_distinct: "distinct (map key (keep_unseen key seen xs))"
proof (induction xs arbitrary: seen)
  case (Cons x xs)
  have "key x \<notin> key ` set (keep_unseen key (insert (key x) seen) xs)"
    using keep_unseen_fresh by fastforce
  with Cons show ?case by simp
qed simp

lemma keep_unseen_keys:
  "key ` set (keep_unseen key seen xs) = key ` set xs - seen"
  by (induction xs arbitrary: seen) auto

lemma keep_unseen_subseq: "subseq (keep_unseen key seen xs) xs"
  by (induction xs arbitrary: seen) auto

lemma keep_unseen_id:
  "distinct (map key xs) \<Longrightarrow> key ` set xs \<inter> seen = {} \<Longrightarrow> keep_unseen key seen xs = xs"
  by (induction xs arbitrary: seen) auto

lemma keep_unseen_length: "length (keep_unseen key seen xs) \<le> length xs"
  using keep_unseen_subseq list_emb_length by blast

section \<open>Sorting facts\<close>

lemma sort_key_filter_stable:
  "filter (\<lambda>x. f x = k) (sort_key f xs) = filter (\<lambda>x. f x = k) xs"
  by (metis (mono_tags, lifting) filter_cong sort_key_stable)

lemma subseq_sorted: "subseq xs ys \<Longrightarrow> sorted ys \<Longrightarrow> sorted xs"
  by (induction rule: list_emb.induct) (auto dest: list_emb_set)

end
