(* ===== verification/Rust_Str.thy ===== *)
theory Rust_Str imports Prelude begin

text \<open>
  Rust's \<^verbatim>\<open>str\<close> operations. A string is its sequence of UTF-8 bytes, so \<open>length\<close> is
  \<^verbatim>\<open>len()\<close>, the order is the bytewise order of \<^verbatim>\<open>Ord for str\<close>, and searching for ASCII
  or for a whole encoded character is searching for bytes: a leading byte never occurs inside
  another character, so every match is on a character boundary.
\<close>

section \<open>White space\<close>

text \<open>The UTF-8 encodings of the characters with Unicode property White\_Space.\<close>

definition ws_seqs :: "string list" where
  "ws_seqs =
     [[CHR 0x09], [CHR 0x0A], [CHR 0x0B], [CHR 0x0C], [CHR 0x0D], [CHR 0x20],
      [CHR 0xC2, CHR 0x85], [CHR 0xC2, CHR 0xA0], [CHR 0xE1, CHR 0x9A, CHR 0x80],
      [CHR 0xE2, CHR 0x80, CHR 0x80], [CHR 0xE2, CHR 0x80, CHR 0x81],
      [CHR 0xE2, CHR 0x80, CHR 0x82], [CHR 0xE2, CHR 0x80, CHR 0x83],
      [CHR 0xE2, CHR 0x80, CHR 0x84], [CHR 0xE2, CHR 0x80, CHR 0x85],
      [CHR 0xE2, CHR 0x80, CHR 0x86], [CHR 0xE2, CHR 0x80, CHR 0x87],
      [CHR 0xE2, CHR 0x80, CHR 0x88], [CHR 0xE2, CHR 0x80, CHR 0x89],
      [CHR 0xE2, CHR 0x80, CHR 0x8A], [CHR 0xE2, CHR 0x80, CHR 0xA8],
      [CHR 0xE2, CHR 0x80, CHR 0xA9], [CHR 0xE2, CHR 0x80, CHR 0xAF],
      [CHR 0xE2, CHR 0x81, CHR 0x9F], [CHR 0xE3, CHR 0x80, CHR 0x80]]"

text \<open>The number of bytes of the first listed sequence that starts \<open>s\<close>, 0 if none does.\<close>

fun seq_len :: "string list \<Rightarrow> string \<Rightarrow> nat" where
  "seq_len [] s = 0"
| "seq_len (w # ws) s = (if prefix w s then length w else seq_len ws s)"

lemma seq_len_le: "seq_len ws s \<le> length s"
  by (induction ws) (auto simp: prefix_length_le)

function strip_seqs :: "string list \<Rightarrow> string \<Rightarrow> string" where
  "strip_seqs ws s = (if seq_len ws s = 0 then s else strip_seqs ws (drop (seq_len ws s) s))"
  by pat_completeness auto
termination
proof (relation "measure (\<lambda>(ws, s). length s)")
  fix ws s assume "seq_len ws s \<noteq> 0"
  with seq_len_le [of ws s] show "((ws, drop (seq_len ws s) s), (ws, s)) \<in> measure (\<lambda>(ws, s). length s)"
    by simp
qed simp

declare strip_seqs.simps [simp del]

lemma strip_seqs_suffix: "suffix (strip_seqs ws s) s"
proof (induction ws s rule: strip_seqs.induct)
  case (1 ws s)
  then show ?case
    by (subst strip_seqs.simps) (auto intro: suffix_order.trans suffix_drop)
qed

lemma strip_seqs_stops: "seq_len ws (strip_seqs ws s) = 0"
proof (induction ws s rule: strip_seqs.induct)
  case (1 ws s)
  then show ?case by (subst strip_seqs.simps) auto
qed

lemma strip_seqs_idem: "strip_seqs ws (strip_seqs ws s) = strip_seqs ws s"
  by (subst strip_seqs.simps) (simp add: strip_seqs_stops)

definition trim_start :: "string \<Rightarrow> string" where
  "trim_start s = strip_seqs ws_seqs s"

definition trim_end :: "string \<Rightarrow> string" where
  "trim_end s = rev (strip_seqs (map rev ws_seqs) (rev s))"

definition trim :: "string \<Rightarrow> string" where
  "trim s = trim_end (trim_start s)"

lemma trim_end_prefix: "prefix (trim_end s) s"
  using strip_seqs_suffix [of "map rev ws_seqs" "rev s"]
  by (simp add: trim_end_def suffix_to_prefix)

lemma trim_end_idem [simp]: "trim_end (trim_end s) = trim_end s"
  by (simp add: trim_end_def strip_seqs_idem)

lemma seq_len_prefix_zero:
  "prefix t s \<Longrightarrow> seq_len ws s = 0 \<Longrightarrow> [] \<notin> set ws \<Longrightarrow> seq_len ws t = 0"
  by (induction ws) (auto split: if_splits intro: prefix_order.trans)

lemma trim_start_trim: "trim_start (trim s) = trim s"
proof -
  have "seq_len ws_seqs (trim s) = 0"
    unfolding trim_def
  proof (rule seq_len_prefix_zero [OF trim_end_prefix])
    show "seq_len ws_seqs (trim_start s) = 0" by (simp add: trim_start_def strip_seqs_stops)
  qed (simp add: ws_seqs_def)
  then show ?thesis by (simp add: trim_start_def strip_seqs.simps [of ws_seqs "trim s"])
qed

lemma trim_idem [simp]: "trim (trim s) = trim s"
  by (metis trim_def trim_end_idem trim_start_trim)

lemma trim_Nil [simp]: "trim [] = []"
  by (simp add: trim_def trim_start_def trim_end_def strip_seqs.simps ws_seqs_def)

section \<open>Prefixes, splitting and joining\<close>

definition strip_prefix :: "string \<Rightarrow> string \<Rightarrow> string option" where
  "strip_prefix p s = (if prefix p s then Some (drop (length p) s) else None)"

definition strip_suffix :: "string \<Rightarrow> string \<Rightarrow> string option" where
  "strip_suffix p s = (if suffix p s then Some (take (length s - length p) s) else None)"

lemma strip_prefix_append [simp, str_simps]: "strip_prefix p (p @ s) = Some s"
  by (simp add: strip_prefix_def)

lemma strip_suffix_append [simp, str_simps]: "strip_suffix p (s @ p) = Some s"
  by (simp add: strip_suffix_def suffix_def)

lemma strip_prefix_Some_iff: "strip_prefix p s = Some t \<longleftrightarrow> s = p @ t"
  by (auto simp: strip_prefix_def prefix_def)

lemma strip_suffix_Some_iff: "strip_suffix p s = Some t \<longleftrightarrow> s = t @ p"
  by (auto simp: strip_suffix_def suffix_def)

text \<open>\<^verbatim>\<open>trim_start_matches(p)\<close>, \<^verbatim>\<open>trim_end_matches(p)\<close> for a string pattern.\<close>

definition trim_start_matches :: "string \<Rightarrow> string \<Rightarrow> string" where
  "trim_start_matches p s = strip_seqs [p] s"

definition trim_end_matches :: "string \<Rightarrow> string \<Rightarrow> string" where
  "trim_end_matches p s = rev (strip_seqs [rev p] (rev s))"

text \<open>\<^verbatim>\<open>split(c)\<close> on one ASCII character.\<close>

fun split_on :: "char \<Rightarrow> string \<Rightarrow> string list" where
  "split_on c [] = [[]]"
| "split_on c (x # xs) =
     (if x = c then [] # split_on c xs
      else (case split_on c xs of [] \<Rightarrow> [[x]] | y # ys \<Rightarrow> (x # y) # ys))"

lemma split_on_not_Nil [simp]: "split_on c s \<noteq> []"
  by (induction s) (auto split: list.splits)

lemma split_on_no_sep: "c \<notin> set s \<Longrightarrow> split_on c s = [s]"
  by (induction s) auto

lemma split_on_append: "c \<notin> set s \<Longrightarrow> split_on c (s @ c # t) = s # split_on c t"
  by (induction s) auto

lemma split_on_parts: "p \<in> set (split_on c s) \<Longrightarrow> c \<notin> set p"
  by (induction s arbitrary: p) (fastforce split: list.splits if_splits)+

fun join :: "string \<Rightarrow> string list \<Rightarrow> string" where
  "join sep [] = []"
| "join sep [x] = x"
| "join sep (x # y # zs) = x @ sep @ join sep (y # zs)"

lemma join_Cons: "join sep (x # xs) = (if xs = [] then x else x @ sep @ join sep xs)"
  by (cases xs) auto

lemma join_split_on: "join [c] (split_on c s) = s"
  by (induction s) (auto simp: join_Cons split: list.splits if_splits)

lemma split_on_join:
  "xs \<noteq> [] \<Longrightarrow> \<forall>x\<in>set xs. c \<notin> set x \<Longrightarrow> split_on c (join [c] xs) = xs"
  by (induction "[c]" xs rule: join.induct) (auto simp: split_on_append split_on_no_sep)

text \<open>\<^verbatim>\<open>split_once(c)\<close> and \<^verbatim>\<open>splitn(n, c)\<close>.\<close>

fun split_once :: "char \<Rightarrow> string \<Rightarrow> (string \<times> string) option" where
  "split_once c [] = None"
| "split_once c (x # xs) =
     (if x = c then Some ([], xs)
      else (case split_once c xs of None \<Rightarrow> None | Some (a, b) \<Rightarrow> Some (x # a, b)))"

lemma split_once_Some_iff:
  "split_once c s = Some (a, b) \<longleftrightarrow> s = a @ c # b \<and> c \<notin> set a"
proof (induction s arbitrary: a)
  case (Cons x xs)
  show ?case
  proof (cases "x = c")
    case False
    then show ?thesis
      by (cases a; cases "split_once c xs") (use Cons.IH in auto)
  qed (auto simp: Cons_eq_append_conv)
qed simp

lemma split_once_None_iff: "split_once c s = None \<longleftrightarrow> c \<notin> set s"
  by (induction s) (auto split: option.splits)

fun splitn :: "nat \<Rightarrow> char \<Rightarrow> string \<Rightarrow> string list" where
  "splitn 0 c s = []"
| "splitn (Suc 0) c s = [s]"
| "splitn (Suc (Suc n)) c s =
     (case split_once c s of None \<Rightarrow> [s] | Some (a, b) \<Rightarrow> a # splitn (Suc n) c b)"

text \<open>
  \<^verbatim>\<open>lines()\<close>: a line that ends in \<^verbatim>\<open>\n\<close> loses it and then one \<^verbatim>\<open>\r\<close> before it; what
  follows the last \<^verbatim>\<open>\n\<close> is a line when it is not empty.
\<close>

definition strip_cr :: "string \<Rightarrow> string" where
  "strip_cr s = unwrap_or (strip_suffix [CHR 0x0D] s) s"

definition lines :: "string \<Rightarrow> string list" where
  "lines s =
     (let parts = split_on (CHR 0x0A) s
      in map strip_cr (butlast parts) @ (if last parts = [] then [] else [last parts]))"

lemma strip_cr_id: "s = [] \<or> last s \<noteq> CHR 0x0D \<Longrightarrow> strip_cr s = s"
  by (auto simp: strip_cr_def strip_suffix_def suffix_def)

lemma lines_Nil [simp]: "lines [] = []"
  by (simp add: lines_def)

lemma lines_step:
  "CHR 0x0A \<notin> set l \<Longrightarrow> lines (l @ CHR 0x0A # s) = strip_cr l # lines s"
  by (simp add: lines_def Let_def split_on_append)

lemma lines_join:
  assumes "\<forall>l\<in>set ls. CHR 0x0A \<notin> set l \<and> (l = [] \<or> last l \<noteq> CHR 0x0D)"
  shows "lines (concat (map (\<lambda>l. l @ [CHR 0x0A]) ls)) = ls"
  using assms by (induction ls) (auto simp: lines_step strip_cr_id)

text \<open>\<^verbatim>\<open>split_whitespace()\<close>: the maximal runs without white space.\<close>

function split_ws :: "string \<Rightarrow> string \<Rightarrow> string list" where
  "split_ws cur s =
     (if s = [] then (if cur = [] then [] else [rev cur])
      else if seq_len ws_seqs s = 0 then split_ws (hd s # cur) (tl s)
      else (if cur = [] then [] else [rev cur]) @ split_ws [] (drop (seq_len ws_seqs s) s))"
  by pat_completeness auto
termination
  by (relation "measure (\<lambda>(cur, s). length s)") auto

declare split_ws.simps [simp del]

definition split_whitespace :: "string \<Rightarrow> string list" where
  "split_whitespace s = split_ws [] s"

fun contains :: "string \<Rightarrow> string \<Rightarrow> bool" where
  "contains s [] = (s = [])"
| "contains s (x # xs) = (prefix s (x # xs) \<or> contains s xs)"

lemma contains_iff: "contains s t \<longleftrightarrow> (\<exists>a b. t = a @ s @ b)"
proof (induction t)
  case (Cons x xs)
  have "(\<exists>a b. x # xs = a @ s @ b) \<longleftrightarrow> prefix s (x # xs) \<or> (\<exists>a b. xs = a @ s @ b)"
    unfolding prefix_def by (metis append_Cons append_Nil append_eq_Cons_conv)
  then show ?case using Cons by simp
qed auto

text \<open>\<^verbatim>\<open>find(pat)\<close>: the byte offset of the first occurrence.\<close>

fun find_sub :: "string \<Rightarrow> string \<Rightarrow> nat option" where
  "find_sub p [] = (if p = [] then Some 0 else None)"
| "find_sub p (x # xs) = (if prefix p (x # xs) then Some 0 else map_option Suc (find_sub p xs))"

lemma find_sub_Some:
  "find_sub p s = Some i \<Longrightarrow> prefix p (drop i s) \<and> (\<forall>j<i. \<not> prefix p (drop j s))"
proof (induction s arbitrary: i)
  case (Cons x xs)
  show ?case
  proof (cases "prefix p (x # xs)")
    case False
    with Cons.prems obtain k where k: "i = Suc k" "find_sub p xs = Some k" by auto
    have "\<not> prefix p (drop j (x # xs))" if "j < i" for j
      using that False Cons.IH [OF k(2)] k(1) by (cases j) auto
    with Cons.IH [OF k(2)] k(1) show ?thesis by simp
  qed (use Cons.prems in auto)
qed (simp split: if_splits)

text \<open>The first occurrence of a pattern that starts with \<open>c\<close> is after a text without \<open>c\<close>.\<close>

lemma find_sub_skip: "c \<notin> set s \<Longrightarrow> find_sub (c # p) (s @ c # p @ t) = Some (length s)"
  by (induction s) auto

section \<open>UTF-8\<close>

text \<open>
  \<open>utf8_step s\<close> reads one character: the number of bytes, and whether they are one. If they are
  not, they are the longest prefix that could have been one, which \<^verbatim>\<open>from_utf8_lossy\<close> replaces
  by U+FFFD.
\<close>

definition cont_byte :: "nat \<Rightarrow> nat \<Rightarrow> string \<Rightarrow> bool" where
  "cont_byte lo hi s = (case s of [] \<Rightarrow> False | c # _ \<Rightarrow> lo \<le> of_char c \<and> of_char c \<le> hi)"

definition utf8_step :: "string \<Rightarrow> nat \<times> bool" where
  "utf8_step s =
     (let b = of_char (hd s) :: nat; any = cont_byte 128 191 in
      if b < 128 then (1, True)
      else if 194 \<le> b \<and> b \<le> 223 then (if any (drop 1 s) then (2, True) else (1, False))
      else if 224 \<le> b \<and> b \<le> 239 then
        (let second = (if b = 224 then cont_byte 160 191 else if b = 237 then cont_byte 128 159 else any)
         in if \<not> second (drop 1 s) then (1, False)
            else if any (drop 2 s) then (3, True) else (2, False))
      else if 240 \<le> b \<and> b \<le> 244 then
        (let second = (if b = 240 then cont_byte 144 191 else if b = 244 then cont_byte 128 143 else any)
         in if \<not> second (drop 1 s) then (1, False)
            else if \<not> any (drop 2 s) then (2, False)
            else if any (drop 3 s) then (4, True) else (3, False))
      else (1, False))"

lemma utf8_step_pos: "0 < fst (utf8_step s)"
  by (simp add: utf8_step_def Let_def)

function utf8_valid :: "string \<Rightarrow> bool" where
  "utf8_valid s =
     (if s = [] then True else snd (utf8_step s) \<and> utf8_valid (drop (fst (utf8_step s)) s))"
  by pat_completeness auto
termination
  by (relation "measure length") (auto simp: utf8_step_pos)

function from_utf8_lossy :: "string \<Rightarrow> string" where
  "from_utf8_lossy s =
     (if s = [] then []
      else (if snd (utf8_step s) then take (fst (utf8_step s)) s else [CHR 0xEF, CHR 0xBF, CHR 0xBD]) @
           from_utf8_lossy (drop (fst (utf8_step s)) s))"
  by pat_completeness auto
termination
  by (relation "measure length") (auto simp: utf8_step_pos)

declare utf8_valid.simps [simp del] from_utf8_lossy.simps [simp del]

lemma from_utf8_lossy_valid: "utf8_valid s \<Longrightarrow> from_utf8_lossy s = s"
proof (induction s rule: utf8_valid.induct)
  case (1 s)
  then show ?case
    by (subst from_utf8_lossy.simps) (auto simp: utf8_valid.simps [of s] split: if_splits)
qed

lemma utf8_valid_ascii: "\<forall>c\<in>set s. of_char c < (128 :: nat) \<Longrightarrow> utf8_valid s"
proof (induction s)
  case (Cons c s)
  then show ?case by (subst utf8_valid.simps) (simp add: utf8_step_def)
qed (simp add: utf8_valid.simps [of "[]"])

text \<open>Visible ASCII characters: no white-space sequence starts or ends with one.\<close>

definition graph_char :: "char \<Rightarrow> bool" where
  "graph_char c \<longleftrightarrow> 33 \<le> (of_char c :: nat) \<and> of_char c \<le> (126 :: nat)"

lemma seq_len_eq_0: "(\<And>w. w \<in> set ws \<Longrightarrow> \<not> prefix w s) \<Longrightarrow> seq_len ws s = 0"
  by (induction ws) auto

lemma graph_char_not_ws: "graph_char c \<Longrightarrow> seq_len ws_seqs (c # s) = 0"
  by (rule seq_len_eq_0) (auto simp: ws_seqs_def graph_char_def)

lemma graph_char_not_rev_ws: "graph_char c \<Longrightarrow> seq_len (map rev ws_seqs) (c # s) = 0"
  by (rule seq_len_eq_0) (auto simp: ws_seqs_def graph_char_def)

lemma strip_seqs_id: "seq_len ws s = 0 \<Longrightarrow> strip_seqs ws s = s"
  by (subst strip_seqs.simps) simp

lemma trim_start_graph: "graph_char c \<Longrightarrow> trim_start (c # s) = c # s"
  by (simp add: trim_start_def strip_seqs_id graph_char_not_ws)

lemma trim_end_graph: "graph_char c \<Longrightarrow> trim_end (s @ [c]) = s @ [c]"
  by (simp add: trim_end_def strip_seqs_id graph_char_not_rev_ws)

lemma trim_graph: "s \<noteq> [] \<Longrightarrow> graph_char (hd s) \<Longrightarrow> graph_char (last s) \<Longrightarrow> trim s = s"
  by (metis append_butlast_last_id list.exhaust_sel trim_def trim_end_graph trim_start_graph)

lemma split_ws_word:
  "\<forall>c\<in>set w. graph_char c \<Longrightarrow> w \<noteq> [] \<or> cur \<noteq> [] \<Longrightarrow> split_ws cur w = [rev cur @ w]"
  by (induction w arbitrary: cur) (simp_all add: split_ws.simps graph_char_not_ws)

lemma split_ws_step:
  "\<forall>c\<in>set w. graph_char c \<Longrightarrow> w \<noteq> [] \<or> cur \<noteq> [] \<Longrightarrow>
   split_ws cur (w @ CHR '' '' # s) = (rev cur @ w) # split_ws [] s"
proof (induction w arbitrary: cur)
  case Nil
  have "seq_len ws_seqs (CHR '' '' # s) = 1" by (simp add: ws_seqs_def)
  with Nil show ?case by (subst split_ws.simps) simp
next
  case (Cons c w)
  then show ?case by (subst split_ws.simps) (simp add: graph_char_not_ws)
qed

section \<open>Numbers\<close>

definition digit_val :: "char \<Rightarrow> nat option" where
  "digit_val c =
     (if CHR ''0'' \<le> c \<and> c \<le> CHR ''9'' then Some (of_char c - 48) else None)"

fun parse_digits :: "nat \<Rightarrow> string \<Rightarrow> nat option" where
  "parse_digits acc [] = Some acc"
| "parse_digits acc (c # cs) =
     (case digit_val c of None \<Rightarrow> None | Some d \<Rightarrow> parse_digits (10 * acc + d) cs)"

definition parse_nat :: "string \<Rightarrow> nat option" where
  "parse_nat s = (if s = [] then None else parse_digits 0 s)"

text \<open>
  \<^verbatim>\<open>str::parse::<u64>()\<close>: one leading \<open>+\<close> is accepted, then at least one digit; a value above
  \<open>2 ^ 64 - 1\<close> is an error.
\<close>

definition parse_u64 :: "string \<Rightarrow> u64 option" where
  "parse_u64 s =
     (case parse_nat (unwrap_or (strip_prefix ''+'' s) s) of
        None \<Rightarrow> None
      | Some n \<Rightarrow> if n < 2 ^ 64 then Some (of_nat n) else None)"

definition digit_char :: "nat \<Rightarrow> char" where
  "digit_char d = char_of (48 + d)"

fun show_nat :: "nat \<Rightarrow> string" where
  "show_nat n = (if n < 10 then [digit_char n] else show_nat (n div 10) @ [digit_char (n mod 10)])"

declare show_nat.simps [simp del]

definition show_u64 :: "u64 \<Rightarrow> string" where
  "show_u64 w = show_nat (unat w)"

lemma digit_val_digit_char: "d < 10 \<Longrightarrow> digit_val (digit_char d) = Some d"
  by (auto simp: digit_val_def digit_char_def less_eq_char_def)

lemma parse_digits_append:
  "parse_digits a (s @ t) = (case parse_digits a s of None \<Rightarrow> None | Some b \<Rightarrow> parse_digits b t)"
  by (induction a s rule: parse_digits.induct) (auto split: option.splits)

lemma show_nat_not_Nil [simp]: "show_nat n \<noteq> []"
  by (simp add: show_nat.simps [of n])

lemma parse_digits_show_nat: "parse_digits 0 (show_nat n) = Some n"
proof (induction n rule: show_nat.induct)
  case (1 n)
  then show ?case
    by (subst show_nat.simps) (auto simp: parse_digits_append digit_val_digit_char)
qed

lemma show_nat_digits: "c \<in> set (show_nat n) \<Longrightarrow> 48 \<le> (of_char c :: nat) \<and> of_char c \<le> (57 :: nat)"
proof (induction n arbitrary: c rule: show_nat.induct)
  case (1 n)
  from 1(2) show ?case
    by (subst (asm) show_nat.simps) (auto simp: digit_char_def split: if_splits dest: 1(1))
qed

lemma parse_nat_show_nat [simp, str_simps]: "parse_nat (show_nat n) = Some n"
  by (simp add: parse_nat_def parse_digits_show_nat)

lemma strip_plus_show_nat: "strip_prefix ''+'' (show_nat n) = None"
proof -
  have "CHR ''+'' \<notin> set (show_nat n)" using show_nat_digits [of "CHR ''+''" n] by auto
  then show ?thesis by (cases "show_nat n") (auto simp: strip_prefix_def)
qed

lemma parse_u64_show_u64 [simp, str_simps]: "parse_u64 (show_u64 w) = Some w"
  using unsigned_less [of w] by (simp add: parse_u64_def show_u64_def strip_plus_show_nat)

lemma show_nat_graph: "c \<in> set (show_nat n) \<Longrightarrow> graph_char c"
  using show_nat_digits [of c n] by (simp add: graph_char_def)

lemma trim_show_u64 [simp, str_simps]: "trim (show_u64 w) = show_u64 w"
  unfolding show_u64_def
  by (rule trim_graph) (simp_all add: show_nat_graph [OF hd_in_set] show_nat_graph [OF last_in_set])

lemma show_u64_chars: "c \<in> set (show_u64 w) \<Longrightarrow> graph_char c \<and> (of_char c :: nat) \<in> {48..57}"
  using show_nat_digits [of c "unat w"] by (auto simp: show_u64_def show_nat_graph)

lemma show_u64_not_Nil [simp]: "show_u64 w \<noteq> []"
  by (simp add: show_u64_def)

lemma utf8_valid_ascii_append:
  "\<forall>c\<in>set s. of_char c < (128 :: nat) \<Longrightarrow> utf8_valid (s @ t) = utf8_valid t"
proof (induction s)
  case (Cons c s)
  then show ?case by (subst utf8_valid.simps) (simp add: utf8_step_def)
qed simp

end
