(* ===== verification/BTree.thy ===== *)
theory BTree imports Prelude begin

text \<open>
  The standard library's ordered and hashed containers. A \<^verbatim>\<open>BTreeMap\<close> is the association
  list of its entries in key order, which is also its iteration and serialisation order; a
  \<^verbatim>\<open>BTreeSet\<close> is the sorted list of its members; a \<^verbatim>\<open>HashMap\<close>, whose iteration order the
  code never relies on where it is modelled so, is a partial function. The interface
  \<open>kv_store\<close> holds what clients need of either map.
\<close>

section \<open>The interface of a key-value store\<close>

locale kv_store =
  fixes empty :: 'm
    and get :: "'m \<Rightarrow> 'k \<Rightarrow> 'v option"
    and put :: "'k \<Rightarrow> 'v \<Rightarrow> 'm \<Rightarrow> 'm"
  assumes get_empty: "get empty k = None"
    and get_put: "get (put k v m) = (get m)(k \<mapsto> v)"
begin

lemma get_put_same: "get (put k v m) k = Some v"
  by (simp add: get_put)

lemma get_put_other: "k' \<noteq> k \<Longrightarrow> get (put k v m) k' = get m k'"
  by (simp add: get_put)

text \<open>Inserting a list of entries: the last entry of a key wins.\<close>

lemma get_puts: "get (fold (\<lambda>(k, v). put k v) kvs m) = get m ++ map_of (rev kvs)"
proof (induction kvs arbitrary: m)
  case (Cons kv kvs)
  then show ?case by (cases kv) (auto simp: get_put map_add_def fun_eq_iff split: option.splits)
qed simp

lemma get_puts_empty:
  "distinct (map fst kvs) \<Longrightarrow> get (fold (\<lambda>(k, v). put k v) kvs empty) = map_of kvs"
proof -
  assume "distinct (map fst kvs)"
  then have "map_of (rev kvs) = map_of kvs"
    by (subst map_of_inject_set) (simp_all add: rev_map [symmetric])
  then show ?thesis by (simp add: get_puts get_empty fun_eq_iff map_add_def split: option.splits)
qed

lemma dom_put: "dom (get (put k v m)) = insert k (dom (get m))"
  by (simp add: get_put)

end

section \<open>Ordered maps\<close>

type_synonym ('k, 'v) btree = "('k \<times> 'v) list"

fun bt_insert :: "'k::linorder \<Rightarrow> 'v \<Rightarrow> ('k, 'v) btree \<Rightarrow> ('k, 'v) btree" where
  "bt_insert k v [] = [(k, v)]"
| "bt_insert k v ((k', v') # m) =
     (if k < k' then (k, v) # (k', v') # m
      else if k = k' then (k, v) # m
      else (k', v') # bt_insert k v m)"

abbreviation bt_get :: "('k, 'v) btree \<Rightarrow> 'k \<Rightarrow> 'v option" where
  "bt_get \<equiv> map_of"

definition bt_inv :: "('k::linorder, 'v) btree \<Rightarrow> bool" where
  "bt_inv m \<longleftrightarrow> sorted_wrt (<) (map fst m)"

lemma bt_inv_Nil [simp, bt_simps]: "bt_inv []"
  by (simp add: bt_inv_def)

lemma map_of_bt_insert [simp, bt_simps]: "map_of (bt_insert k v m) = (map_of m)(k \<mapsto> v)"
  by (induction k v m rule: bt_insert.induct) (auto simp: fun_eq_iff)

lemma bt_insert_keys: "fst ` set (bt_insert k v m) = insert k (fst ` set m)"
  by (induction k v m rule: bt_insert.induct) auto

lemma bt_insert_inv [simp, bt_simps]: "bt_inv m \<Longrightarrow> bt_inv (bt_insert k v m)"
proof (induction k v m rule: bt_insert.induct)
  case (2 k v k' v' m)
  have "\<forall>x\<in>fst ` set (bt_insert k v m). k' < x" if "k' < k" "\<forall>x\<in>fst ` set m. k' < x"
    using that by (simp add: bt_insert_keys)
  with 2 show ?case by (auto simp: bt_inv_def)
qed (simp add: bt_inv_def)

lemma bt_inv_distinct: "bt_inv m \<Longrightarrow> distinct (map fst m)"
  unfolding bt_inv_def using strict_sorted_iff by blast

lemma bt_get_iff: "bt_inv m \<Longrightarrow> bt_get m k = Some v \<longleftrightarrow> (k, v) \<in> set m"
  by (simp add: bt_inv_distinct)

lemma bt_values: "bt_inv m \<Longrightarrow> set (map snd m) = ran (bt_get m)"
  by (force simp: ran_def bt_get_iff image_iff)

interpretation btree: kv_store "[] :: ('k::linorder \<times> 'v) list" bt_get bt_insert
  by unfold_locales simp_all

text \<open>\<^verbatim>\<open>collect()\<close> of pairs, and serde's insertion of struct fields into a map.\<close>

definition bt_of_list :: "('k::linorder \<times> 'v) list \<Rightarrow> ('k, 'v) btree" where
  "bt_of_list kvs = fold (\<lambda>(k, v). bt_insert k v) kvs []"

lemma map_of_bt_of_list: "distinct (map fst kvs) \<Longrightarrow> map_of (bt_of_list kvs) = map_of kvs"
  unfolding bt_of_list_def by (rule btree.get_puts_empty)

lemma bt_of_list_inv: "bt_inv (bt_of_list kvs)"
proof -
  have "bt_inv m \<Longrightarrow> bt_inv (fold (\<lambda>(k, v). bt_insert k v) kvs m)" for m :: "('a \<times> 'b) list"
    by (induction kvs arbitrary: m) auto
  then show ?thesis by (simp add: bt_of_list_def)
qed

text \<open>\<^verbatim>\<open>entry(k).or_insert_with(blank)\<close> followed by a modification, and \<^verbatim>\<open>get_mut(k)\<close>.\<close>

definition bt_upsert :: "'k::linorder \<Rightarrow> 'v \<Rightarrow> ('v \<Rightarrow> 'v) \<Rightarrow> ('k, 'v) btree \<Rightarrow> ('k, 'v) btree" where
  "bt_upsert k blank f m = bt_insert k (f (unwrap_or (bt_get m k) blank)) m"

definition bt_adjust :: "'k::linorder \<Rightarrow> ('v \<Rightarrow> 'v) \<Rightarrow> ('k, 'v) btree \<Rightarrow> ('k, 'v) btree" where
  "bt_adjust k f m = (case bt_get m k of None \<Rightarrow> m | Some v \<Rightarrow> bt_insert k (f v) m)"

lemma map_of_bt_upsert [bt_simps]:
  "map_of (bt_upsert k b f m) = (map_of m)(k \<mapsto> f (unwrap_or (bt_get m k) b))"
  by (simp add: bt_upsert_def)

lemma map_of_bt_adjust [bt_simps]:
  "map_of (bt_adjust k f m) = (map_of m)(k := map_option f (bt_get m k))"
  by (auto simp: bt_adjust_def fun_eq_iff split: option.split)

lemma bt_upsert_inv [simp, bt_simps]: "bt_inv m \<Longrightarrow> bt_inv (bt_upsert k b f m)"
  by (simp add: bt_upsert_def)

lemma bt_adjust_inv [simp, bt_simps]: "bt_inv m \<Longrightarrow> bt_inv (bt_adjust k f m)"
  by (simp add: bt_adjust_def split: option.split)

section \<open>Ordered sets\<close>

definition bs_insert :: "'a::linorder \<Rightarrow> 'a list \<Rightarrow> 'a list" where
  "bs_insert x xs = List.insort_insert x xs"

definition bs_inv :: "'a::linorder list \<Rightarrow> bool" where
  "bs_inv xs \<longleftrightarrow> sorted_wrt (<) xs"

lemma set_bs_insert [simp, bt_simps]: "set (bs_insert x xs) = insert x (set xs)"
  by (simp add: bs_insert_def set_insort_insert)

lemma bs_insert_inv [simp, bt_simps]: "bs_inv xs \<Longrightarrow> bs_inv (bs_insert x xs)"
  by (simp add: bs_inv_def bs_insert_def strict_sorted_iff sorted_insort_insert distinct_insort_insert)

definition bs_of_list :: "'a::linorder list \<Rightarrow> 'a list" where
  "bs_of_list xs = fold bs_insert xs []"

lemma fold_bs_insert: "set (fold bs_insert xs ys) = set xs \<union> set ys"
  by (induction xs arbitrary: ys) auto

lemma set_bs_of_list [simp, bt_simps]: "set (bs_of_list xs) = set xs"
  by (simp add: bs_of_list_def fold_bs_insert)

lemma bs_of_list_inv: "bs_inv (bs_of_list xs)"
proof -
  have "bs_inv ys \<Longrightarrow> bs_inv (fold bs_insert xs ys)" for ys :: "'a list"
    by (induction xs arbitrary: ys) auto
  then show ?thesis by (simp add: bs_of_list_def bs_inv_def)
qed

section \<open>Hashed maps\<close>

interpretation hmap: kv_store "Map.empty :: 'k \<Rightarrow> 'v option" "\<lambda>m. m" "\<lambda>k v m. m(k \<mapsto> v)"
  by unfold_locales simp_all

end
