(* ===== verification/Json.thy ===== *)
theory Json imports Rust_Str BTree "HOL-Library.Monad_Syntax" begin

text \<open>
  The \<^verbatim>\<open>serde_json::Value\<close> data model and what \<^verbatim>\<open>#[derive(Serialize, Deserialize)]\<close> generates
  for the structs and enums of the protocol: the primitives below are put together per type in
  the theories that follow. serde_json is used with its default features, so an object is a
  \<^verbatim>\<open>BTreeMap\<close> and its entries are in key order.
\<close>

section \<open>Values\<close>

text \<open>
  A number is a non-negative integer below \<open>2 ^ 64\<close>, a negative \<^verbatim>\<open>i64\<close>, or a finite double,
  kept as its bit pattern.
\<close>

datatype number = PosInt u64 | NegInt "64 word" | Float "64 word"

datatype json =
    JNull
  | JBool bool
  | JNum number
  | JStr string
  | JArr "json list"
  | JObj "(string \<times> json) list"

section \<open>Serialising\<close>

definition enc_opt :: "('a \<Rightarrow> json) \<Rightarrow> 'a option \<Rightarrow> json" where
  "enc_opt e v = (case v of None \<Rightarrow> JNull | Some x \<Rightarrow> e x)"

definition enc_u64 :: "u64 \<Rightarrow> json" where
  "enc_u64 n = JNum (PosInt n)"

definition enc_u16 :: "u16 \<Rightarrow> json" where
  "enc_u16 n = JNum (PosInt (ucast n))"

definition enc_vec :: "('a \<Rightarrow> json) \<Rightarrow> 'a list \<Rightarrow> json" where
  "enc_vec e xs = JArr (map e xs)"

text \<open>A struct is the object of its fields; \<^verbatim>\<open>skip_serializing_if\<close> leaves a field out.\<close>

definition enc_struct :: "(string \<times> json) list \<Rightarrow> json" where
  "enc_struct fs = JObj (bt_of_list fs)"

definition skip_if :: "bool \<Rightarrow> string \<times> json \<Rightarrow> (string \<times> json) list" where
  "skip_if b field = (if b then [] else [field])"

section \<open>Deserialising\<close>

definition dec_str :: "json \<Rightarrow> string option" where
  "dec_str j = (case j of JStr s \<Rightarrow> Some s | _ \<Rightarrow> None)"

definition dec_bool :: "json \<Rightarrow> bool option" where
  "dec_bool j = (case j of JBool b \<Rightarrow> Some b | _ \<Rightarrow> None)"

definition dec_u64 :: "json \<Rightarrow> u64 option" where
  "dec_u64 j = (case j of JNum (PosInt n) \<Rightarrow> Some n | _ \<Rightarrow> None)"

definition dec_u16 :: "json \<Rightarrow> u16 option" where
  "dec_u16 j =
     (case j of JNum (PosInt n) \<Rightarrow> if unat n < 2 ^ 16 then Some (ucast n) else None | _ \<Rightarrow> None)"

definition dec_vec :: "(json \<Rightarrow> 'a option) \<Rightarrow> json \<Rightarrow> 'a list option" where
  "dec_vec d j = (case j of JArr xs \<Rightarrow> collect_options d xs | _ \<Rightarrow> None)"

text \<open>A unit variant is its name, or the object with that name as single key and value null.\<close>

definition dec_enum :: "(string \<times> 'a) list \<Rightarrow> json \<Rightarrow> 'a option" where
  "dec_enum variants j =
     (case j of
        JStr s \<Rightarrow> map_of variants s
      | JObj [(s, v)] \<Rightarrow> (case map_of variants s of None \<Rightarrow> None | Some x \<Rightarrow> if v = JNull then Some x else None)
      | _ \<Rightarrow> None)"

text \<open>
  A struct is read from an object, whose other keys are ignored, or from an array with the fields
  in order, which may only leave out trailing fields that have \<^verbatim>\<open>#[serde(default)]\<close>.
  \<open>struct_src spec j\<close> is the lookup of a field's value; \<open>spec\<close> lists the fields and whether
  they have a default.
\<close>

definition struct_src :: "(string \<times> bool) list \<Rightarrow> json \<Rightarrow> (string \<Rightarrow> json option) option" where
  "struct_src spec j =
     (case j of
        JObj fs \<Rightarrow> Some (map_of fs)
      | JArr xs \<Rightarrow>
          if length xs \<le> length spec \<and> list_all snd (drop (length xs) spec)
          then Some (map_of (zip (map fst spec) xs)) else None
      | _ \<Rightarrow> None)"

definition req :: "(json \<Rightarrow> 'a option) \<Rightarrow> json option \<Rightarrow> 'a option" where
  "req d v = (case v of None \<Rightarrow> None | Some j \<Rightarrow> d j)"

definition opt :: "(json \<Rightarrow> 'a option) \<Rightarrow> json option \<Rightarrow> 'a option option" where
  "opt d v =
     (case v of
        None \<Rightarrow> Some None
      | Some j \<Rightarrow> if j = JNull then Some None else map_option Some (d j))"

definition dflt :: "'a \<Rightarrow> (json \<Rightarrow> 'a option) \<Rightarrow> json option \<Rightarrow> 'a option" where
  "dflt dv d v = (case v of None \<Rightarrow> Some dv | Some j \<Rightarrow> d j)"

section \<open>Decoding an encoding\<close>

lemma dec_str_enc [simp, codec]: "dec_str (JStr s) = Some s"
  by (simp add: dec_str_def)

lemma dec_bool_enc [simp, codec]: "dec_bool (JBool b) = Some b"
  by (simp add: dec_bool_def)

lemma dec_u64_enc [simp, codec]: "dec_u64 (enc_u64 n) = Some n"
  by (simp add: dec_u64_def enc_u64_def)

lemma dec_u16_enc [simp, codec]: "dec_u16 (enc_u16 n) = Some n"
proof -
  have bound: "unat n < 2 ^ 16" using unsigned_less [of n] by simp
  then have w: "unat (ucast n :: u64) = unat n"
    by (simp add: unsigned_ucast_eq unsigned_take_bit_eq take_bit_nat_eq_self_iff)
  have "unat (ucast (ucast n :: u64) :: u16) = unat n"
    using bound by (simp add: unsigned_ucast_eq unsigned_take_bit_eq w take_bit_nat_eq_self_iff)
  then have "(ucast (ucast n :: u64) :: u16) = n" by (simp add: word_unat_eq_iff)
  then show ?thesis using bound by (simp add: dec_u16_def enc_u16_def w)
qed

lemma dec_vec_enc [codec]:
  assumes "\<And>x. x \<in> set xs \<Longrightarrow> d (e x) = Some x"
  shows "dec_vec d (enc_vec e xs) = Some xs"
  using assms by (simp add: dec_vec_def enc_vec_def collect_options_map)

lemma struct_src_enc:
  "distinct (map fst fs) \<Longrightarrow> struct_src spec (enc_struct fs) = Some (map_of fs)"
  by (simp add: struct_src_def enc_struct_def map_of_bt_of_list)

lemma req_Some [simp, codec]: "req d (Some j) = d j"
  by (simp add: req_def)

lemma dflt_simps [simp, codec]: "dflt dv d None = Some dv" "dflt dv d (Some j) = d j"
  by (simp_all add: dflt_def)

lemma opt_None [simp, codec]: "opt d None = Some None"
  by (simp add: opt_def)

lemma opt_enc_opt [codec]:
  assumes "\<And>x. v = Some x \<Longrightarrow> d (e x) = Some x \<and> e x \<noteq> JNull"
  shows "opt d (Some (enc_opt e v)) = Some v"
  using assms by (cases v) (auto simp: opt_def enc_opt_def)

lemma opt_enc_str [simp, codec]: "opt dec_str (Some (enc_opt JStr v)) = Some v"
  by (rule opt_enc_opt) simp

lemma opt_enc_u64 [simp, codec]: "opt dec_u64 (Some (enc_opt enc_u64 v)) = Some v"
  by (rule opt_enc_opt) (simp add: enc_u64_def dec_u64_def)

lemma opt_enc_json [codec]: "v \<noteq> Some JNull \<Longrightarrow> opt Some (Some (enc_opt (\<lambda>j. j) v)) = Some v"
  by (rule opt_enc_opt) auto

lemma dec_vec_json [simp, codec]: "dec_vec Some (JArr xs) = Some xs"
proof -
  have "collect_options Some xs = Some xs" by (induction xs) auto
  then show ?thesis by (simp add: dec_vec_def)
qed

lemma opt_JNull [simp, codec]: "opt d (Some JNull) = Some None"
  by (simp add: opt_def)

lemma skip_if_simps [simp, codec]: "skip_if True f = []" "skip_if False f = [f]"
  by (simp_all add: skip_if_def)

lemma enc_struct_not_JNull [simp, codec]: "enc_struct f \<noteq> JNull"
  by (simp add: enc_struct_def)

end
