(* ===== verification/Protocol_Types.thy ===== *)
theory Protocol_Types imports Json begin

text \<open>
  The wire types of the crate \<^verbatim>\<open>brick-protocol\<close>: the enumerations of
  \<^verbatim>\<open>events.rs\<close> and \<^verbatim>\<open>actor.rs\<close>, the typed identifiers of \<^verbatim>\<open>ids.rs\<close> and the
  payload structs of \<^verbatim>\<open>payloads.rs\<close>. A typed identifier is a transparent wrapper, so it is
  its string. Record fields carry a short prefix per struct, since Isabelle's field names are
  global.
\<close>

section \<open>Typed identifiers\<close>

text \<open>
  \<^verbatim>\<open>new()\<close> puts the type's prefix before a fresh uuid, which is an argument here;
  \<^verbatim>\<open>from_str\<close> refuses a blank string and keeps any other one as it is.
\<close>

datatype trace_id_type =
    OrgId | ProjectId | MissionId | SessionId | ArtifactId
  | AttachmentId | LogRefId | RepoContextId | ExternalRefId | FileRefId

fun id_prefix :: "trace_id_type \<Rightarrow> string" where
  "id_prefix OrgId = ''org_''"
| "id_prefix ProjectId = ''project_''"
| "id_prefix MissionId = ''mission_''"
| "id_prefix SessionId = ''session_''"
| "id_prefix ArtifactId = ''artifact_''"
| "id_prefix AttachmentId = ''attach_''"
| "id_prefix LogRefId = ''logref_''"
| "id_prefix RepoContextId = ''repoctx_''"
| "id_prefix ExternalRefId = ''extref_''"
| "id_prefix FileRefId = ''fileref_''"

definition new_id :: "trace_id_type \<Rightarrow> uuid \<Rightarrow> string" where
  "new_id t fresh = id_prefix t @ fresh"

definition id_from_str :: "string \<Rightarrow> string result" where
  "id_from_str s = (if trim s = [] then Inl Trace_Id_Empty else Inr s)"

section \<open>Enumerations\<close>

datatype actor_type =
    Human | Agent | System

definition actor_type_names :: "(string \<times> actor_type) list" where
  "actor_type_names =
     [(''human'', Human),
      (''agent'', Agent),
      (''system'', System)]"

fun actor_type_wire :: "actor_type \<Rightarrow> string" where
  "actor_type_wire Human = ''human''"
| "actor_type_wire Agent = ''agent''"
| "actor_type_wire System = ''system''"

datatype confidence_level =
    Conf_Explicit | Conf_Observed | Conf_Imported | Conf_Inferred | Conf_Unknown

definition confidence_level_names :: "(string \<times> confidence_level) list" where
  "confidence_level_names =
     [(''explicit'', Conf_Explicit),
      (''observed'', Conf_Observed),
      (''imported'', Conf_Imported),
      (''inferred'', Conf_Inferred),
      (''unknown'', Conf_Unknown)]"

fun confidence_level_wire :: "confidence_level \<Rightarrow> string" where
  "confidence_level_wire Conf_Explicit = ''explicit''"
| "confidence_level_wire Conf_Observed = ''observed''"
| "confidence_level_wire Conf_Imported = ''imported''"
| "confidence_level_wire Conf_Inferred = ''inferred''"
| "confidence_level_wire Conf_Unknown = ''unknown''"

datatype context_mode =
    Ctx_AttachedCurrentBranch | Ctx_CreatedWorktree | Ctx_DetachedHead | Ctx_Unknown

definition context_mode_names :: "(string \<times> context_mode) list" where
  "context_mode_names =
     [(''attached_current_branch'', Ctx_AttachedCurrentBranch),
      (''created_worktree'', Ctx_CreatedWorktree),
      (''detached_head'', Ctx_DetachedHead),
      (''unknown'', Ctx_Unknown)]"

fun context_mode_wire :: "context_mode \<Rightarrow> string" where
  "context_mode_wire Ctx_AttachedCurrentBranch = ''attached_current_branch''"
| "context_mode_wire Ctx_CreatedWorktree = ''created_worktree''"
| "context_mode_wire Ctx_DetachedHead = ''detached_head''"
| "context_mode_wire Ctx_Unknown = ''unknown''"

datatype mission_status =
    Mission_Planned | Mission_Active | Mission_Blocked | Mission_Completed | Mission_Archived

definition mission_status_names :: "(string \<times> mission_status) list" where
  "mission_status_names =
     [(''planned'', Mission_Planned),
      (''active'', Mission_Active),
      (''blocked'', Mission_Blocked),
      (''completed'', Mission_Completed),
      (''archived'', Mission_Archived)]"

fun mission_status_wire :: "mission_status \<Rightarrow> string" where
  "mission_status_wire Mission_Planned = ''planned''"
| "mission_status_wire Mission_Active = ''active''"
| "mission_status_wire Mission_Blocked = ''blocked''"
| "mission_status_wire Mission_Completed = ''completed''"
| "mission_status_wire Mission_Archived = ''archived''"

datatype artifact_kind =
    Kind_Decision | Kind_FileRef | Kind_Patch | Kind_Review | Kind_TestResult | Kind_Acceptance | Kind_Note

definition artifact_kind_names :: "(string \<times> artifact_kind) list" where
  "artifact_kind_names =
     [(''decision'', Kind_Decision),
      (''file_ref'', Kind_FileRef),
      (''patch'', Kind_Patch),
      (''review'', Kind_Review),
      (''test_result'', Kind_TestResult),
      (''acceptance'', Kind_Acceptance),
      (''note'', Kind_Note)]"

fun artifact_kind_wire :: "artifact_kind \<Rightarrow> string" where
  "artifact_kind_wire Kind_Decision = ''decision''"
| "artifact_kind_wire Kind_FileRef = ''file_ref''"
| "artifact_kind_wire Kind_Patch = ''patch''"
| "artifact_kind_wire Kind_Review = ''review''"
| "artifact_kind_wire Kind_TestResult = ''test_result''"
| "artifact_kind_wire Kind_Acceptance = ''acceptance''"
| "artifact_kind_wire Kind_Note = ''note''"

datatype diff_target =
    Target_Working | Target_Staged | Target_Range

definition diff_target_names :: "(string \<times> diff_target) list" where
  "diff_target_names =
     [(''working'', Target_Working),
      (''staged'', Target_Staged),
      (''range'', Target_Range)]"

fun diff_target_wire :: "diff_target \<Rightarrow> string" where
  "diff_target_wire Target_Working = ''working''"
| "diff_target_wire Target_Staged = ''staged''"
| "diff_target_wire Target_Range = ''range''"

datatype diff_file_change_kind =
    Change_Added | Change_Modified | Change_Deleted | Change_Renamed | Change_Copied | Change_TypeChanged | Change_Unknown

definition diff_file_change_kind_names :: "(string \<times> diff_file_change_kind) list" where
  "diff_file_change_kind_names =
     [(''added'', Change_Added),
      (''modified'', Change_Modified),
      (''deleted'', Change_Deleted),
      (''renamed'', Change_Renamed),
      (''copied'', Change_Copied),
      (''type_changed'', Change_TypeChanged),
      (''unknown'', Change_Unknown)]"

fun diff_file_change_kind_wire :: "diff_file_change_kind \<Rightarrow> string" where
  "diff_file_change_kind_wire Change_Added = ''added''"
| "diff_file_change_kind_wire Change_Modified = ''modified''"
| "diff_file_change_kind_wire Change_Deleted = ''deleted''"
| "diff_file_change_kind_wire Change_Renamed = ''renamed''"
| "diff_file_change_kind_wire Change_Copied = ''copied''"
| "diff_file_change_kind_wire Change_TypeChanged = ''type_changed''"
| "diff_file_change_kind_wire Change_Unknown = ''unknown''"

datatype session_log_format =
    Format_Text | Format_Jsonl | Format_Markdown | Format_Unknown

definition session_log_format_names :: "(string \<times> session_log_format) list" where
  "session_log_format_names =
     [(''text'', Format_Text),
      (''jsonl'', Format_Jsonl),
      (''markdown'', Format_Markdown),
      (''unknown'', Format_Unknown)]"

fun session_log_format_wire :: "session_log_format \<Rightarrow> string" where
  "session_log_format_wire Format_Text = ''text''"
| "session_log_format_wire Format_Jsonl = ''jsonl''"
| "session_log_format_wire Format_Markdown = ''markdown''"
| "session_log_format_wire Format_Unknown = ''unknown''"

datatype evidence_availability =
    LocalPointer | LocalBlob | RemoteBlob

definition evidence_availability_names :: "(string \<times> evidence_availability) list" where
  "evidence_availability_names =
     [(''local_pointer'', LocalPointer),
      (''local_blob'', LocalBlob),
      (''remote_blob'', RemoteBlob)]"

fun evidence_availability_wire :: "evidence_availability \<Rightarrow> string" where
  "evidence_availability_wire LocalPointer = ''local_pointer''"
| "evidence_availability_wire LocalBlob = ''local_blob''"
| "evidence_availability_wire RemoteBlob = ''remote_blob''"

datatype event_type =
    OrgCreated
  | OrgUpdated
  | ProjectCreated
  | ProjectUpdated
  | MissionCreated
  | MissionUpdated
  | SessionStarted
  | SessionLinkedToMission
  | SessionLogUploaded
  | ArtifactCreated
  | ArtifactUpdated
  | ArtifactLinkedToMission
  | ArtifactFileRefRecorded
  | ArtifactAttachmentUploaded
  | ArtifactReviewed
  | ArtifactAccepted
  | RepoContextCaptured
  | DiffCaptured
  | ExternalRefLinked
  | SourceSessionObserved

definition event_type_names :: "(string \<times> event_type) list" where
  "event_type_names =
     [(''org.created'', OrgCreated),
      (''org.updated'', OrgUpdated),
      (''project.created'', ProjectCreated),
      (''project.updated'', ProjectUpdated),
      (''mission.created'', MissionCreated),
      (''mission.updated'', MissionUpdated),
      (''session.started'', SessionStarted),
      (''session.linked_to_mission'', SessionLinkedToMission),
      (''session.log_uploaded'', SessionLogUploaded),
      (''artifact.created'', ArtifactCreated),
      (''artifact.updated'', ArtifactUpdated),
      (''artifact.linked_to_mission'', ArtifactLinkedToMission),
      (''artifact.file_ref_recorded'', ArtifactFileRefRecorded),
      (''artifact.attachment_uploaded'', ArtifactAttachmentUploaded),
      (''artifact.reviewed'', ArtifactReviewed),
      (''artifact.accepted'', ArtifactAccepted),
      (''repo_context.captured'', RepoContextCaptured),
      (''diff.captured'', DiffCaptured),
      (''external_ref.linked'', ExternalRefLinked),
      (''source.session_observed'', SourceSessionObserved)]"

fun event_type_wire :: "event_type \<Rightarrow> string" where
  "event_type_wire OrgCreated = ''org.created''"
| "event_type_wire OrgUpdated = ''org.updated''"
| "event_type_wire ProjectCreated = ''project.created''"
| "event_type_wire ProjectUpdated = ''project.updated''"
| "event_type_wire MissionCreated = ''mission.created''"
| "event_type_wire MissionUpdated = ''mission.updated''"
| "event_type_wire SessionStarted = ''session.started''"
| "event_type_wire SessionLinkedToMission = ''session.linked_to_mission''"
| "event_type_wire SessionLogUploaded = ''session.log_uploaded''"
| "event_type_wire ArtifactCreated = ''artifact.created''"
| "event_type_wire ArtifactUpdated = ''artifact.updated''"
| "event_type_wire ArtifactLinkedToMission = ''artifact.linked_to_mission''"
| "event_type_wire ArtifactFileRefRecorded = ''artifact.file_ref_recorded''"
| "event_type_wire ArtifactAttachmentUploaded = ''artifact.attachment_uploaded''"
| "event_type_wire ArtifactReviewed = ''artifact.reviewed''"
| "event_type_wire ArtifactAccepted = ''artifact.accepted''"
| "event_type_wire RepoContextCaptured = ''repo_context.captured''"
| "event_type_wire DiffCaptured = ''diff.captured''"
| "event_type_wire ExternalRefLinked = ''external_ref.linked''"
| "event_type_wire SourceSessionObserved = ''source.session_observed''"

section \<open>Actors\<close>

definition actor_type_from_str :: "string \<Rightarrow> actor_type result" where
  "actor_type_from_str s =
     (if s = ''human'' then Inr Human
      else if s = ''agent'' then Inr Agent
      else if s = ''system'' then Inr System
      else Inl (Actor_Type_Unsupported s))"

record actor_ref =
  actor_type :: actor_type
  actor_id :: string
  display_name :: "string option"

section \<open>Payload structs\<close>

record session_source =
  ss_app_id :: "string option"
  ss_app_session_id :: "string option"
  ss_app_session_name :: "string option"
  ss_runtime_id :: "string option"

record org_created_payload =
  oc_name :: string
  oc_description :: "string option"
  oc_repo_context_id :: "string option"

record org_updated_payload =
  ou_name :: "string option"
  ou_description :: "string option"
  ou_repo_context_id :: "string option"

record project_created_payload =
  pc_org_id :: string
  pc_name :: string
  pc_description :: "string option"
  pc_repo_context_id :: "string option"

record project_updated_payload =
  pu_org_id :: "string option"
  pu_name :: "string option"
  pu_description :: "string option"
  pu_repo_context_id :: "string option"

record mission_created_payload =
  mc_project_id :: string
  mc_title :: string
  mc_description :: "string option"
  mc_status :: mission_status
  mc_repo_context_id :: "string option"

record mission_updated_payload =
  mu_project_id :: "string option"
  mu_title :: "string option"
  mu_description :: "string option"
  mu_status :: "mission_status option"
  mu_repo_context_id :: "string option"

record session_started_payload =
  st_session_name :: "string option"
  st_source :: session_source
  st_repo_context_id :: "string option"

record session_linked_payload =
  sl_relationship :: string
  sl_repo_context_id :: "string option"

record session_log_uploaded_payload =
  lu_log_ref_id :: string
  lu_original_path :: string
  lu_format :: session_log_format
  lu_source :: string
  lu_sha256 :: string
  lu_size_bytes :: u64
  lu_storage_uri :: string
  lu_local_path :: string
  lu_external_uri :: "string option"
  lu_availability :: evidence_availability
  lu_repo_context_id :: "string option"

record artifact_created_payload =
  ac_artifact_kind :: artifact_kind
  ac_title :: string
  ac_body :: "string option"
  ac_repo_context_id :: "string option"

record artifact_updated_payload =
  au_title :: "string option"
  au_body :: "string option"
  au_artifact_kind :: "artifact_kind option"
  au_repo_context_id :: "string option"

record artifact_linked_payload =
  al_relationship :: string
  al_repo_context_id :: "string option"

record artifact_file_ref_payload =
  fr_file_ref_id :: string
  fr_path :: string
  fr_repo_context_id :: "string option"

record artifact_attachment_payload =
  at_attachment_id :: string
  at_name :: string
  at_original_path :: string
  at_content_type :: "string option"
  at_sha256 :: string
  at_size_bytes :: u64
  at_storage_uri :: string
  at_external_uri :: "string option"
  at_availability :: evidence_availability
  at_repo_context_id :: "string option"

record repo_context_payload =
  rc_repo_root :: string
  rc_work_dir :: string
  rc_remote_url :: "string option"
  rc_branch :: "string option"
  rc_upstream_branch :: "string option"
  rc_head_commit :: "string option"
  rc_merge_base_commit :: "string option"
  rc_dirty :: bool
  rc_context_mode :: context_mode

record diff_hunk =
  dh_old_start :: u64
  dh_old_lines :: u64
  dh_new_start :: u64
  dh_new_lines :: u64
  dh_header :: "string option"

record diff_file_change =
  fc_path :: string
  fc_old_path :: "string option"
  fc_change_kind :: diff_file_change_kind
  fc_additions :: "u64 option"
  fc_deletions :: "u64 option"
  fc_hunks :: "diff_hunk list"
  fc_patch_id :: "string option"

record diff_captured_payload =
  dc_diff_target :: diff_target
  dc_base_commit :: "string option"
  dc_head_commit :: "string option"
  dc_patch_id :: "string option"
  dc_summary_hash :: string
  dc_file_changes :: "diff_file_change list"
  dc_repo_context_id :: "string option"

record external_ref_payload =
  er_external_ref_id :: string
  er_provider :: string
  er_ref_type :: string
  er_target :: string
  er_repo_context_id :: "string option"

record source_session_payload =
  so_source_id :: string
  so_external_session_id :: string
  so_title :: "string option"
  so_name :: "string option"
  so_source_path :: "string option"
  so_source_uri :: "string option"
  so_source_mtime :: "string option"
  so_source_size :: "u64 option"
  so_source_fingerprint :: "string option"
  so_parser_version :: "string option"
  so_session_created_at :: "string option"
  so_session_updated_at :: "string option"
  so_model :: "string option"
  so_input_tokens :: "u64 option"
  so_output_tokens :: "u64 option"
  so_repo_path :: "string option"
  so_branch :: "string option"
  so_files_changed :: "u64 option"
  so_lines_added :: "u64 option"
  so_lines_removed :: "u64 option"
  so_touched_files :: "string list"
  so_metadata_json :: "json option"
  so_normalized_chunks :: "json list"

end
