(* ===== verification/Payload_Codec.thy ===== *)
theory Payload_Codec imports Protocol_Types begin

text \<open>
  What serde's derive macros generate for the types of \<^verbatim>\<open>Protocol_Types\<close>: an encoder and a
  decoder per type, and for each the law that decoding an encoding gives the value back. The
  attributes \<^verbatim>\<open>default\<close> and \<^verbatim>\<open>skip_serializing_if\<close> of the source are the flags of the
  field lists and the \<open>skip_if\<close> entries.
\<close>

section \<open>Enumerations\<close>

definition enc_actor_type :: "actor_type \<Rightarrow> json" where
  "enc_actor_type x = JStr (actor_type_wire x)"

definition dec_actor_type :: "json \<Rightarrow> actor_type option" where
  "dec_actor_type j = dec_enum actor_type_names j"

lemma dec_actor_type_enc [simp, codec]:
  "dec_actor_type (enc_actor_type x) = Some x" "enc_actor_type x \<noteq> JNull"
  by (cases x; simp add: dec_actor_type_def enc_actor_type_def dec_enum_def actor_type_names_def)+

definition enc_confidence_level :: "confidence_level \<Rightarrow> json" where
  "enc_confidence_level x = JStr (confidence_level_wire x)"

definition dec_confidence_level :: "json \<Rightarrow> confidence_level option" where
  "dec_confidence_level j = dec_enum confidence_level_names j"

lemma dec_confidence_level_enc [simp, codec]:
  "dec_confidence_level (enc_confidence_level x) = Some x" "enc_confidence_level x \<noteq> JNull"
  by (cases x; simp add: dec_confidence_level_def enc_confidence_level_def dec_enum_def confidence_level_names_def)+

definition enc_context_mode :: "context_mode \<Rightarrow> json" where
  "enc_context_mode x = JStr (context_mode_wire x)"

definition dec_context_mode :: "json \<Rightarrow> context_mode option" where
  "dec_context_mode j = dec_enum context_mode_names j"

lemma dec_context_mode_enc [simp, codec]:
  "dec_context_mode (enc_context_mode x) = Some x" "enc_context_mode x \<noteq> JNull"
  by (cases x; simp add: dec_context_mode_def enc_context_mode_def dec_enum_def context_mode_names_def)+

definition enc_mission_status :: "mission_status \<Rightarrow> json" where
  "enc_mission_status x = JStr (mission_status_wire x)"

definition dec_mission_status :: "json \<Rightarrow> mission_status option" where
  "dec_mission_status j = dec_enum mission_status_names j"

lemma dec_mission_status_enc [simp, codec]:
  "dec_mission_status (enc_mission_status x) = Some x" "enc_mission_status x \<noteq> JNull"
  by (cases x; simp add: dec_mission_status_def enc_mission_status_def dec_enum_def mission_status_names_def)+

definition enc_artifact_kind :: "artifact_kind \<Rightarrow> json" where
  "enc_artifact_kind x = JStr (artifact_kind_wire x)"

definition dec_artifact_kind :: "json \<Rightarrow> artifact_kind option" where
  "dec_artifact_kind j = dec_enum artifact_kind_names j"

lemma dec_artifact_kind_enc [simp, codec]:
  "dec_artifact_kind (enc_artifact_kind x) = Some x" "enc_artifact_kind x \<noteq> JNull"
  by (cases x; simp add: dec_artifact_kind_def enc_artifact_kind_def dec_enum_def artifact_kind_names_def)+

definition enc_diff_target :: "diff_target \<Rightarrow> json" where
  "enc_diff_target x = JStr (diff_target_wire x)"

definition dec_diff_target :: "json \<Rightarrow> diff_target option" where
  "dec_diff_target j = dec_enum diff_target_names j"

lemma dec_diff_target_enc [simp, codec]:
  "dec_diff_target (enc_diff_target x) = Some x" "enc_diff_target x \<noteq> JNull"
  by (cases x; simp add: dec_diff_target_def enc_diff_target_def dec_enum_def diff_target_names_def)+

definition enc_diff_file_change_kind :: "diff_file_change_kind \<Rightarrow> json" where
  "enc_diff_file_change_kind x = JStr (diff_file_change_kind_wire x)"

definition dec_diff_file_change_kind :: "json \<Rightarrow> diff_file_change_kind option" where
  "dec_diff_file_change_kind j = dec_enum diff_file_change_kind_names j"

lemma dec_diff_file_change_kind_enc [simp, codec]:
  "dec_diff_file_change_kind (enc_diff_file_change_kind x) = Some x" "enc_diff_file_change_kind x \<noteq> JNull"
  by (cases x; simp add: dec_diff_file_change_kind_def enc_diff_file_change_kind_def dec_enum_def diff_file_change_kind_names_def)+

definition enc_session_log_format :: "session_log_format \<Rightarrow> json" where
  "enc_session_log_format x = JStr (session_log_format_wire x)"

definition dec_session_log_format :: "json \<Rightarrow> session_log_format option" where
  "dec_session_log_format j = dec_enum session_log_format_names j"

lemma dec_session_log_format_enc [simp, codec]:
  "dec_session_log_format (enc_session_log_format x) = Some x" "enc_session_log_format x \<noteq> JNull"
  by (cases x; simp add: dec_session_log_format_def enc_session_log_format_def dec_enum_def session_log_format_names_def)+

definition enc_evidence_availability :: "evidence_availability \<Rightarrow> json" where
  "enc_evidence_availability x = JStr (evidence_availability_wire x)"

definition dec_evidence_availability :: "json \<Rightarrow> evidence_availability option" where
  "dec_evidence_availability j = dec_enum evidence_availability_names j"

lemma dec_evidence_availability_enc [simp, codec]:
  "dec_evidence_availability (enc_evidence_availability x) = Some x" "enc_evidence_availability x \<noteq> JNull"
  by (cases x; simp add: dec_evidence_availability_def enc_evidence_availability_def dec_enum_def evidence_availability_names_def)+

definition enc_event_type :: "event_type \<Rightarrow> json" where
  "enc_event_type x = JStr (event_type_wire x)"

definition dec_event_type :: "json \<Rightarrow> event_type option" where
  "dec_event_type j = dec_enum event_type_names j"

lemma dec_event_type_enc [simp, codec]:
  "dec_event_type (enc_event_type x) = Some x" "enc_event_type x \<noteq> JNull"
  by (cases x; simp add: dec_event_type_def enc_event_type_def dec_enum_def event_type_names_def)+

section \<open>Structs\<close>

definition enc_session_source :: "session_source \<Rightarrow> json" where
  "enc_session_source x = enc_struct
      ([(''app_id'', enc_opt JStr (ss_app_id x)),
        (''app_session_id'', enc_opt JStr (ss_app_session_id x)),
        (''app_session_name'', enc_opt JStr (ss_app_session_name x)),
        (''runtime_id'', enc_opt JStr (ss_runtime_id x))])"

definition dec_session_source :: "json \<Rightarrow> session_source option" where
  "dec_session_source j = do {
     src \<leftarrow> struct_src
       [(''app_id'', False),
        (''app_session_id'', False),
        (''app_session_name'', False),
        (''runtime_id'', False)] j;
     v_app_id \<leftarrow> opt dec_str (src ''app_id'');
     v_app_session_id \<leftarrow> opt dec_str (src ''app_session_id'');
     v_app_session_name \<leftarrow> opt dec_str (src ''app_session_name'');
     v_runtime_id \<leftarrow> opt dec_str (src ''runtime_id'');
     Some \<lparr>ss_app_id = v_app_id,
       ss_app_session_id = v_app_session_id,
       ss_app_session_name = v_app_session_name,
       ss_runtime_id = v_runtime_id\<rparr>
   }"

lemma dec_session_source_enc [simp, codec]: "dec_session_source (enc_session_source x) = Some x"
  by (simp add: dec_session_source_def enc_session_source_def struct_src_enc codec)

lemma enc_session_source_not_JNull [simp, codec]: "enc_session_source x \<noteq> JNull"
  by (simp add: enc_session_source_def)

definition enc_org_created_payload :: "org_created_payload \<Rightarrow> json" where
  "enc_org_created_payload x = enc_struct
      ([(''name'', JStr (oc_name x)),
        (''description'', enc_opt JStr (oc_description x)),
        (''repo_context_id'', enc_opt JStr (oc_repo_context_id x))])"

definition dec_org_created_payload :: "json \<Rightarrow> org_created_payload option" where
  "dec_org_created_payload j = do {
     src \<leftarrow> struct_src
       [(''name'', False),
        (''description'', False),
        (''repo_context_id'', False)] j;
     v_name \<leftarrow> req dec_str (src ''name'');
     v_description \<leftarrow> opt dec_str (src ''description'');
     v_repo_context_id \<leftarrow> opt dec_str (src ''repo_context_id'');
     Some \<lparr>oc_name = v_name,
       oc_description = v_description,
       oc_repo_context_id = v_repo_context_id\<rparr>
   }"

lemma dec_org_created_payload_enc [simp, codec]: "dec_org_created_payload (enc_org_created_payload x) = Some x"
  by (simp add: dec_org_created_payload_def enc_org_created_payload_def struct_src_enc codec)

lemma enc_org_created_payload_not_JNull [simp, codec]: "enc_org_created_payload x \<noteq> JNull"
  by (simp add: enc_org_created_payload_def)

definition enc_org_updated_payload :: "org_updated_payload \<Rightarrow> json" where
  "enc_org_updated_payload x = enc_struct
      ([(''name'', enc_opt JStr (ou_name x)),
        (''description'', enc_opt JStr (ou_description x)),
        (''repo_context_id'', enc_opt JStr (ou_repo_context_id x))])"

definition dec_org_updated_payload :: "json \<Rightarrow> org_updated_payload option" where
  "dec_org_updated_payload j = do {
     src \<leftarrow> struct_src
       [(''name'', False),
        (''description'', False),
        (''repo_context_id'', False)] j;
     v_name \<leftarrow> opt dec_str (src ''name'');
     v_description \<leftarrow> opt dec_str (src ''description'');
     v_repo_context_id \<leftarrow> opt dec_str (src ''repo_context_id'');
     Some \<lparr>ou_name = v_name,
       ou_description = v_description,
       ou_repo_context_id = v_repo_context_id\<rparr>
   }"

lemma dec_org_updated_payload_enc [simp, codec]: "dec_org_updated_payload (enc_org_updated_payload x) = Some x"
  by (simp add: dec_org_updated_payload_def enc_org_updated_payload_def struct_src_enc codec)

lemma enc_org_updated_payload_not_JNull [simp, codec]: "enc_org_updated_payload x \<noteq> JNull"
  by (simp add: enc_org_updated_payload_def)

definition enc_project_created_payload :: "project_created_payload \<Rightarrow> json" where
  "enc_project_created_payload x = enc_struct
      ([(''org_id'', JStr (pc_org_id x)),
        (''name'', JStr (pc_name x)),
        (''description'', enc_opt JStr (pc_description x)),
        (''repo_context_id'', enc_opt JStr (pc_repo_context_id x))])"

definition dec_project_created_payload :: "json \<Rightarrow> project_created_payload option" where
  "dec_project_created_payload j = do {
     src \<leftarrow> struct_src
       [(''org_id'', False),
        (''name'', False),
        (''description'', False),
        (''repo_context_id'', False)] j;
     v_org_id \<leftarrow> req dec_str (src ''org_id'');
     v_name \<leftarrow> req dec_str (src ''name'');
     v_description \<leftarrow> opt dec_str (src ''description'');
     v_repo_context_id \<leftarrow> opt dec_str (src ''repo_context_id'');
     Some \<lparr>pc_org_id = v_org_id,
       pc_name = v_name,
       pc_description = v_description,
       pc_repo_context_id = v_repo_context_id\<rparr>
   }"

lemma dec_project_created_payload_enc [simp, codec]: "dec_project_created_payload (enc_project_created_payload x) = Some x"
  by (simp add: dec_project_created_payload_def enc_project_created_payload_def struct_src_enc codec)

lemma enc_project_created_payload_not_JNull [simp, codec]: "enc_project_created_payload x \<noteq> JNull"
  by (simp add: enc_project_created_payload_def)

definition enc_project_updated_payload :: "project_updated_payload \<Rightarrow> json" where
  "enc_project_updated_payload x = enc_struct
      ([(''org_id'', enc_opt JStr (pu_org_id x)),
        (''name'', enc_opt JStr (pu_name x)),
        (''description'', enc_opt JStr (pu_description x)),
        (''repo_context_id'', enc_opt JStr (pu_repo_context_id x))])"

definition dec_project_updated_payload :: "json \<Rightarrow> project_updated_payload option" where
  "dec_project_updated_payload j = do {
     src \<leftarrow> struct_src
       [(''org_id'', False),
        (''name'', False),
        (''description'', False),
        (''repo_context_id'', False)] j;
     v_org_id \<leftarrow> opt dec_str (src ''org_id'');
     v_name \<leftarrow> opt dec_str (src ''name'');
     v_description \<leftarrow> opt dec_str (src ''description'');
     v_repo_context_id \<leftarrow> opt dec_str (src ''repo_context_id'');
     Some \<lparr>pu_org_id = v_org_id,
       pu_name = v_name,
       pu_description = v_description,
       pu_repo_context_id = v_repo_context_id\<rparr>
   }"

lemma dec_project_updated_payload_enc [simp, codec]: "dec_project_updated_payload (enc_project_updated_payload x) = Some x"
  by (simp add: dec_project_updated_payload_def enc_project_updated_payload_def struct_src_enc codec)

lemma enc_project_updated_payload_not_JNull [simp, codec]: "enc_project_updated_payload x \<noteq> JNull"
  by (simp add: enc_project_updated_payload_def)

definition enc_mission_created_payload :: "mission_created_payload \<Rightarrow> json" where
  "enc_mission_created_payload x = enc_struct
      ([(''project_id'', JStr (mc_project_id x)),
        (''title'', JStr (mc_title x)),
        (''description'', enc_opt JStr (mc_description x)),
        (''status'', enc_mission_status (mc_status x)),
        (''repo_context_id'', enc_opt JStr (mc_repo_context_id x))])"

definition dec_mission_created_payload :: "json \<Rightarrow> mission_created_payload option" where
  "dec_mission_created_payload j = do {
     src \<leftarrow> struct_src
       [(''project_id'', False),
        (''title'', False),
        (''description'', False),
        (''status'', False),
        (''repo_context_id'', False)] j;
     v_project_id \<leftarrow> req dec_str (src ''project_id'');
     v_title \<leftarrow> req dec_str (src ''title'');
     v_description \<leftarrow> opt dec_str (src ''description'');
     v_status \<leftarrow> req dec_mission_status (src ''status'');
     v_repo_context_id \<leftarrow> opt dec_str (src ''repo_context_id'');
     Some \<lparr>mc_project_id = v_project_id,
       mc_title = v_title,
       mc_description = v_description,
       mc_status = v_status,
       mc_repo_context_id = v_repo_context_id\<rparr>
   }"

lemma dec_mission_created_payload_enc [simp, codec]: "dec_mission_created_payload (enc_mission_created_payload x) = Some x"
  by (simp add: dec_mission_created_payload_def enc_mission_created_payload_def struct_src_enc codec)

lemma enc_mission_created_payload_not_JNull [simp, codec]: "enc_mission_created_payload x \<noteq> JNull"
  by (simp add: enc_mission_created_payload_def)

definition enc_mission_updated_payload :: "mission_updated_payload \<Rightarrow> json" where
  "enc_mission_updated_payload x = enc_struct
      ([(''project_id'', enc_opt JStr (mu_project_id x)),
        (''title'', enc_opt JStr (mu_title x)),
        (''description'', enc_opt JStr (mu_description x)),
        (''status'', enc_opt enc_mission_status (mu_status x)),
        (''repo_context_id'', enc_opt JStr (mu_repo_context_id x))])"

definition dec_mission_updated_payload :: "json \<Rightarrow> mission_updated_payload option" where
  "dec_mission_updated_payload j = do {
     src \<leftarrow> struct_src
       [(''project_id'', False),
        (''title'', False),
        (''description'', False),
        (''status'', False),
        (''repo_context_id'', False)] j;
     v_project_id \<leftarrow> opt dec_str (src ''project_id'');
     v_title \<leftarrow> opt dec_str (src ''title'');
     v_description \<leftarrow> opt dec_str (src ''description'');
     v_status \<leftarrow> opt dec_mission_status (src ''status'');
     v_repo_context_id \<leftarrow> opt dec_str (src ''repo_context_id'');
     Some \<lparr>mu_project_id = v_project_id,
       mu_title = v_title,
       mu_description = v_description,
       mu_status = v_status,
       mu_repo_context_id = v_repo_context_id\<rparr>
   }"

lemma dec_mission_updated_payload_enc [simp, codec]: "dec_mission_updated_payload (enc_mission_updated_payload x) = Some x"
  by (simp add: dec_mission_updated_payload_def enc_mission_updated_payload_def struct_src_enc codec)

lemma enc_mission_updated_payload_not_JNull [simp, codec]: "enc_mission_updated_payload x \<noteq> JNull"
  by (simp add: enc_mission_updated_payload_def)

definition enc_session_started_payload :: "session_started_payload \<Rightarrow> json" where
  "enc_session_started_payload x = enc_struct
      ([(''session_name'', enc_opt JStr (st_session_name x)),
        (''source'', enc_session_source (st_source x)),
        (''repo_context_id'', enc_opt JStr (st_repo_context_id x))])"

definition dec_session_started_payload :: "json \<Rightarrow> session_started_payload option" where
  "dec_session_started_payload j = do {
     src \<leftarrow> struct_src
       [(''session_name'', False),
        (''source'', False),
        (''repo_context_id'', False)] j;
     v_session_name \<leftarrow> opt dec_str (src ''session_name'');
     v_source \<leftarrow> req dec_session_source (src ''source'');
     v_repo_context_id \<leftarrow> opt dec_str (src ''repo_context_id'');
     Some \<lparr>st_session_name = v_session_name,
       st_source = v_source,
       st_repo_context_id = v_repo_context_id\<rparr>
   }"

lemma dec_session_started_payload_enc [simp, codec]: "dec_session_started_payload (enc_session_started_payload x) = Some x"
  by (simp add: dec_session_started_payload_def enc_session_started_payload_def struct_src_enc codec)

lemma enc_session_started_payload_not_JNull [simp, codec]: "enc_session_started_payload x \<noteq> JNull"
  by (simp add: enc_session_started_payload_def)

definition enc_session_linked_payload :: "session_linked_payload \<Rightarrow> json" where
  "enc_session_linked_payload x = enc_struct
      ([(''relationship'', JStr (sl_relationship x)),
        (''repo_context_id'', enc_opt JStr (sl_repo_context_id x))])"

definition dec_session_linked_payload :: "json \<Rightarrow> session_linked_payload option" where
  "dec_session_linked_payload j = do {
     src \<leftarrow> struct_src
       [(''relationship'', False),
        (''repo_context_id'', False)] j;
     v_relationship \<leftarrow> req dec_str (src ''relationship'');
     v_repo_context_id \<leftarrow> opt dec_str (src ''repo_context_id'');
     Some \<lparr>sl_relationship = v_relationship,
       sl_repo_context_id = v_repo_context_id\<rparr>
   }"

lemma dec_session_linked_payload_enc [simp, codec]: "dec_session_linked_payload (enc_session_linked_payload x) = Some x"
  by (simp add: dec_session_linked_payload_def enc_session_linked_payload_def struct_src_enc codec)

lemma enc_session_linked_payload_not_JNull [simp, codec]: "enc_session_linked_payload x \<noteq> JNull"
  by (simp add: enc_session_linked_payload_def)

definition enc_session_log_uploaded_payload :: "session_log_uploaded_payload \<Rightarrow> json" where
  "enc_session_log_uploaded_payload x = enc_struct
      ([(''log_ref_id'', JStr (lu_log_ref_id x)),
        (''original_path'', JStr (lu_original_path x)),
        (''format'', enc_session_log_format (lu_format x)),
        (''source'', JStr (lu_source x)),
        (''sha256'', JStr (lu_sha256 x)),
        (''size_bytes'', enc_u64 (lu_size_bytes x)),
        (''storage_uri'', JStr (lu_storage_uri x)),
        (''local_path'', JStr (lu_local_path x)),
        (''external_uri'', enc_opt JStr (lu_external_uri x)),
        (''availability'', enc_evidence_availability (lu_availability x)),
        (''repo_context_id'', enc_opt JStr (lu_repo_context_id x))])"

definition dec_session_log_uploaded_payload :: "json \<Rightarrow> session_log_uploaded_payload option" where
  "dec_session_log_uploaded_payload j = do {
     src \<leftarrow> struct_src
       [(''log_ref_id'', False),
        (''original_path'', False),
        (''format'', False),
        (''source'', False),
        (''sha256'', False),
        (''size_bytes'', False),
        (''storage_uri'', False),
        (''local_path'', False),
        (''external_uri'', False),
        (''availability'', False),
        (''repo_context_id'', False)] j;
     v_log_ref_id \<leftarrow> req dec_str (src ''log_ref_id'');
     v_original_path \<leftarrow> req dec_str (src ''original_path'');
     v_format \<leftarrow> req dec_session_log_format (src ''format'');
     v_source \<leftarrow> req dec_str (src ''source'');
     v_sha256 \<leftarrow> req dec_str (src ''sha256'');
     v_size_bytes \<leftarrow> req dec_u64 (src ''size_bytes'');
     v_storage_uri \<leftarrow> req dec_str (src ''storage_uri'');
     v_local_path \<leftarrow> req dec_str (src ''local_path'');
     v_external_uri \<leftarrow> opt dec_str (src ''external_uri'');
     v_availability \<leftarrow> req dec_evidence_availability (src ''availability'');
     v_repo_context_id \<leftarrow> opt dec_str (src ''repo_context_id'');
     Some \<lparr>lu_log_ref_id = v_log_ref_id,
       lu_original_path = v_original_path,
       lu_format = v_format,
       lu_source = v_source,
       lu_sha256 = v_sha256,
       lu_size_bytes = v_size_bytes,
       lu_storage_uri = v_storage_uri,
       lu_local_path = v_local_path,
       lu_external_uri = v_external_uri,
       lu_availability = v_availability,
       lu_repo_context_id = v_repo_context_id\<rparr>
   }"

lemma dec_session_log_uploaded_payload_enc [simp, codec]: "dec_session_log_uploaded_payload (enc_session_log_uploaded_payload x) = Some x"
  by (simp add: dec_session_log_uploaded_payload_def enc_session_log_uploaded_payload_def struct_src_enc codec)

lemma enc_session_log_uploaded_payload_not_JNull [simp, codec]: "enc_session_log_uploaded_payload x \<noteq> JNull"
  by (simp add: enc_session_log_uploaded_payload_def)

definition enc_artifact_created_payload :: "artifact_created_payload \<Rightarrow> json" where
  "enc_artifact_created_payload x = enc_struct
      ([(''artifact_kind'', enc_artifact_kind (ac_artifact_kind x)),
        (''title'', JStr (ac_title x)),
        (''body'', enc_opt JStr (ac_body x)),
        (''repo_context_id'', enc_opt JStr (ac_repo_context_id x))])"

definition dec_artifact_created_payload :: "json \<Rightarrow> artifact_created_payload option" where
  "dec_artifact_created_payload j = do {
     src \<leftarrow> struct_src
       [(''artifact_kind'', False),
        (''title'', False),
        (''body'', False),
        (''repo_context_id'', False)] j;
     v_artifact_kind \<leftarrow> req dec_artifact_kind (src ''artifact_kind'');
     v_title \<leftarrow> req dec_str (src ''title'');
     v_body \<leftarrow> opt dec_str (src ''body'');
     v_repo_context_id \<leftarrow> opt dec_str (src ''repo_context_id'');
     Some \<lparr>ac_artifact_kind = v_artifact_kind,
       ac_title = v_title,
       ac_body = v_body,
       ac_repo_context_id = v_repo_context_id\<rparr>
   }"

lemma dec_artifact_created_payload_enc [simp, codec]: "dec_artifact_created_payload (enc_artifact_created_payload x) = Some x"
  by (simp add: dec_artifact_created_payload_def enc_artifact_created_payload_def struct_src_enc codec)

lemma enc_artifact_created_payload_not_JNull [simp, codec]: "enc_artifact_created_payload x \<noteq> JNull"
  by (simp add: enc_artifact_created_payload_def)

definition enc_artifact_updated_payload :: "artifact_updated_payload \<Rightarrow> json" where
  "enc_artifact_updated_payload x = enc_struct
      ([(''title'', enc_opt JStr (au_title x)),
        (''body'', enc_opt JStr (au_body x)),
        (''artifact_kind'', enc_opt enc_artifact_kind (au_artifact_kind x)),
        (''repo_context_id'', enc_opt JStr (au_repo_context_id x))])"

definition dec_artifact_updated_payload :: "json \<Rightarrow> artifact_updated_payload option" where
  "dec_artifact_updated_payload j = do {
     src \<leftarrow> struct_src
       [(''title'', False),
        (''body'', False),
        (''artifact_kind'', False),
        (''repo_context_id'', False)] j;
     v_title \<leftarrow> opt dec_str (src ''title'');
     v_body \<leftarrow> opt dec_str (src ''body'');
     v_artifact_kind \<leftarrow> opt dec_artifact_kind (src ''artifact_kind'');
     v_repo_context_id \<leftarrow> opt dec_str (src ''repo_context_id'');
     Some \<lparr>au_title = v_title,
       au_body = v_body,
       au_artifact_kind = v_artifact_kind,
       au_repo_context_id = v_repo_context_id\<rparr>
   }"

lemma dec_artifact_updated_payload_enc [simp, codec]: "dec_artifact_updated_payload (enc_artifact_updated_payload x) = Some x"
  by (simp add: dec_artifact_updated_payload_def enc_artifact_updated_payload_def struct_src_enc codec)

lemma enc_artifact_updated_payload_not_JNull [simp, codec]: "enc_artifact_updated_payload x \<noteq> JNull"
  by (simp add: enc_artifact_updated_payload_def)

definition enc_artifact_linked_payload :: "artifact_linked_payload \<Rightarrow> json" where
  "enc_artifact_linked_payload x = enc_struct
      ([(''relationship'', JStr (al_relationship x)),
        (''repo_context_id'', enc_opt JStr (al_repo_context_id x))])"

definition dec_artifact_linked_payload :: "json \<Rightarrow> artifact_linked_payload option" where
  "dec_artifact_linked_payload j = do {
     src \<leftarrow> struct_src
       [(''relationship'', False),
        (''repo_context_id'', False)] j;
     v_relationship \<leftarrow> req dec_str (src ''relationship'');
     v_repo_context_id \<leftarrow> opt dec_str (src ''repo_context_id'');
     Some \<lparr>al_relationship = v_relationship,
       al_repo_context_id = v_repo_context_id\<rparr>
   }"

lemma dec_artifact_linked_payload_enc [simp, codec]: "dec_artifact_linked_payload (enc_artifact_linked_payload x) = Some x"
  by (simp add: dec_artifact_linked_payload_def enc_artifact_linked_payload_def struct_src_enc codec)

lemma enc_artifact_linked_payload_not_JNull [simp, codec]: "enc_artifact_linked_payload x \<noteq> JNull"
  by (simp add: enc_artifact_linked_payload_def)

definition enc_artifact_file_ref_payload :: "artifact_file_ref_payload \<Rightarrow> json" where
  "enc_artifact_file_ref_payload x = enc_struct
      ([(''file_ref_id'', JStr (fr_file_ref_id x)),
        (''path'', JStr (fr_path x)),
        (''repo_context_id'', enc_opt JStr (fr_repo_context_id x))])"

definition dec_artifact_file_ref_payload :: "json \<Rightarrow> artifact_file_ref_payload option" where
  "dec_artifact_file_ref_payload j = do {
     src \<leftarrow> struct_src
       [(''file_ref_id'', False),
        (''path'', False),
        (''repo_context_id'', False)] j;
     v_file_ref_id \<leftarrow> req dec_str (src ''file_ref_id'');
     v_path \<leftarrow> req dec_str (src ''path'');
     v_repo_context_id \<leftarrow> opt dec_str (src ''repo_context_id'');
     Some \<lparr>fr_file_ref_id = v_file_ref_id,
       fr_path = v_path,
       fr_repo_context_id = v_repo_context_id\<rparr>
   }"

lemma dec_artifact_file_ref_payload_enc [simp, codec]: "dec_artifact_file_ref_payload (enc_artifact_file_ref_payload x) = Some x"
  by (simp add: dec_artifact_file_ref_payload_def enc_artifact_file_ref_payload_def struct_src_enc codec)

lemma enc_artifact_file_ref_payload_not_JNull [simp, codec]: "enc_artifact_file_ref_payload x \<noteq> JNull"
  by (simp add: enc_artifact_file_ref_payload_def)

definition enc_artifact_attachment_payload :: "artifact_attachment_payload \<Rightarrow> json" where
  "enc_artifact_attachment_payload x = enc_struct
      ([(''attachment_id'', JStr (at_attachment_id x)),
        (''name'', JStr (at_name x)),
        (''original_path'', JStr (at_original_path x)),
        (''content_type'', enc_opt JStr (at_content_type x)),
        (''sha256'', JStr (at_sha256 x)),
        (''size_bytes'', enc_u64 (at_size_bytes x)),
        (''storage_uri'', JStr (at_storage_uri x)),
        (''external_uri'', enc_opt JStr (at_external_uri x)),
        (''availability'', enc_evidence_availability (at_availability x)),
        (''repo_context_id'', enc_opt JStr (at_repo_context_id x))])"

definition dec_artifact_attachment_payload :: "json \<Rightarrow> artifact_attachment_payload option" where
  "dec_artifact_attachment_payload j = do {
     src \<leftarrow> struct_src
       [(''attachment_id'', False),
        (''name'', False),
        (''original_path'', False),
        (''content_type'', False),
        (''sha256'', False),
        (''size_bytes'', False),
        (''storage_uri'', False),
        (''external_uri'', False),
        (''availability'', False),
        (''repo_context_id'', False)] j;
     v_attachment_id \<leftarrow> req dec_str (src ''attachment_id'');
     v_name \<leftarrow> req dec_str (src ''name'');
     v_original_path \<leftarrow> req dec_str (src ''original_path'');
     v_content_type \<leftarrow> opt dec_str (src ''content_type'');
     v_sha256 \<leftarrow> req dec_str (src ''sha256'');
     v_size_bytes \<leftarrow> req dec_u64 (src ''size_bytes'');
     v_storage_uri \<leftarrow> req dec_str (src ''storage_uri'');
     v_external_uri \<leftarrow> opt dec_str (src ''external_uri'');
     v_availability \<leftarrow> req dec_evidence_availability (src ''availability'');
     v_repo_context_id \<leftarrow> opt dec_str (src ''repo_context_id'');
     Some \<lparr>at_attachment_id = v_attachment_id,
       at_name = v_name,
       at_original_path = v_original_path,
       at_content_type = v_content_type,
       at_sha256 = v_sha256,
       at_size_bytes = v_size_bytes,
       at_storage_uri = v_storage_uri,
       at_external_uri = v_external_uri,
       at_availability = v_availability,
       at_repo_context_id = v_repo_context_id\<rparr>
   }"

lemma dec_artifact_attachment_payload_enc [simp, codec]: "dec_artifact_attachment_payload (enc_artifact_attachment_payload x) = Some x"
  by (simp add: dec_artifact_attachment_payload_def enc_artifact_attachment_payload_def struct_src_enc codec)

lemma enc_artifact_attachment_payload_not_JNull [simp, codec]: "enc_artifact_attachment_payload x \<noteq> JNull"
  by (simp add: enc_artifact_attachment_payload_def)

definition enc_repo_context_payload :: "repo_context_payload \<Rightarrow> json" where
  "enc_repo_context_payload x = enc_struct
      ([(''repo_root'', JStr (rc_repo_root x)),
        (''work_dir'', JStr (rc_work_dir x)),
        (''remote_url'', enc_opt JStr (rc_remote_url x)),
        (''branch'', enc_opt JStr (rc_branch x)),
        (''upstream_branch'', enc_opt JStr (rc_upstream_branch x)),
        (''head_commit'', enc_opt JStr (rc_head_commit x)),
        (''merge_base_commit'', enc_opt JStr (rc_merge_base_commit x)),
        (''dirty'', JBool (rc_dirty x)),
        (''context_mode'', enc_context_mode (rc_context_mode x))])"

definition dec_repo_context_payload :: "json \<Rightarrow> repo_context_payload option" where
  "dec_repo_context_payload j = do {
     src \<leftarrow> struct_src
       [(''repo_root'', False),
        (''work_dir'', False),
        (''remote_url'', False),
        (''branch'', False),
        (''upstream_branch'', False),
        (''head_commit'', False),
        (''merge_base_commit'', False),
        (''dirty'', False),
        (''context_mode'', False)] j;
     v_repo_root \<leftarrow> req dec_str (src ''repo_root'');
     v_work_dir \<leftarrow> req dec_str (src ''work_dir'');
     v_remote_url \<leftarrow> opt dec_str (src ''remote_url'');
     v_branch \<leftarrow> opt dec_str (src ''branch'');
     v_upstream_branch \<leftarrow> opt dec_str (src ''upstream_branch'');
     v_head_commit \<leftarrow> opt dec_str (src ''head_commit'');
     v_merge_base_commit \<leftarrow> opt dec_str (src ''merge_base_commit'');
     v_dirty \<leftarrow> req dec_bool (src ''dirty'');
     v_context_mode \<leftarrow> req dec_context_mode (src ''context_mode'');
     Some \<lparr>rc_repo_root = v_repo_root,
       rc_work_dir = v_work_dir,
       rc_remote_url = v_remote_url,
       rc_branch = v_branch,
       rc_upstream_branch = v_upstream_branch,
       rc_head_commit = v_head_commit,
       rc_merge_base_commit = v_merge_base_commit,
       rc_dirty = v_dirty,
       rc_context_mode = v_context_mode\<rparr>
   }"

lemma dec_repo_context_payload_enc [simp, codec]: "dec_repo_context_payload (enc_repo_context_payload x) = Some x"
  by (simp add: dec_repo_context_payload_def enc_repo_context_payload_def struct_src_enc codec)

lemma enc_repo_context_payload_not_JNull [simp, codec]: "enc_repo_context_payload x \<noteq> JNull"
  by (simp add: enc_repo_context_payload_def)

definition enc_diff_hunk :: "diff_hunk \<Rightarrow> json" where
  "enc_diff_hunk x = enc_struct
      ([(''old_start'', enc_u64 (dh_old_start x)),
        (''old_lines'', enc_u64 (dh_old_lines x)),
        (''new_start'', enc_u64 (dh_new_start x)),
        (''new_lines'', enc_u64 (dh_new_lines x)),
        (''header'', enc_opt JStr (dh_header x))])"

definition dec_diff_hunk :: "json \<Rightarrow> diff_hunk option" where
  "dec_diff_hunk j = do {
     src \<leftarrow> struct_src
       [(''old_start'', False),
        (''old_lines'', False),
        (''new_start'', False),
        (''new_lines'', False),
        (''header'', False)] j;
     v_old_start \<leftarrow> req dec_u64 (src ''old_start'');
     v_old_lines \<leftarrow> req dec_u64 (src ''old_lines'');
     v_new_start \<leftarrow> req dec_u64 (src ''new_start'');
     v_new_lines \<leftarrow> req dec_u64 (src ''new_lines'');
     v_header \<leftarrow> opt dec_str (src ''header'');
     Some \<lparr>dh_old_start = v_old_start,
       dh_old_lines = v_old_lines,
       dh_new_start = v_new_start,
       dh_new_lines = v_new_lines,
       dh_header = v_header\<rparr>
   }"

lemma dec_diff_hunk_enc [simp, codec]: "dec_diff_hunk (enc_diff_hunk x) = Some x"
  by (simp add: dec_diff_hunk_def enc_diff_hunk_def struct_src_enc codec)

lemma enc_diff_hunk_not_JNull [simp, codec]: "enc_diff_hunk x \<noteq> JNull"
  by (simp add: enc_diff_hunk_def)

definition enc_diff_file_change :: "diff_file_change \<Rightarrow> json" where
  "enc_diff_file_change x = enc_struct
      ([(''path'', JStr (fc_path x)),
        (''old_path'', enc_opt JStr (fc_old_path x)),
        (''change_kind'', enc_diff_file_change_kind (fc_change_kind x)),
        (''additions'', enc_opt enc_u64 (fc_additions x)),
        (''deletions'', enc_opt enc_u64 (fc_deletions x))] @
       skip_if (fc_hunks x = []) (''hunks'', enc_vec enc_diff_hunk (fc_hunks x)) @
       skip_if (fc_patch_id x = None) (''patch_id'', enc_opt JStr (fc_patch_id x)))"

definition dec_diff_file_change :: "json \<Rightarrow> diff_file_change option" where
  "dec_diff_file_change j = do {
     src \<leftarrow> struct_src
       [(''path'', False),
        (''old_path'', False),
        (''change_kind'', False),
        (''additions'', False),
        (''deletions'', False),
        (''hunks'', True),
        (''patch_id'', True)] j;
     v_path \<leftarrow> req dec_str (src ''path'');
     v_old_path \<leftarrow> opt dec_str (src ''old_path'');
     v_change_kind \<leftarrow> req dec_diff_file_change_kind (src ''change_kind'');
     v_additions \<leftarrow> opt dec_u64 (src ''additions'');
     v_deletions \<leftarrow> opt dec_u64 (src ''deletions'');
     v_hunks \<leftarrow> dflt [] (dec_vec dec_diff_hunk) (src ''hunks'');
     v_patch_id \<leftarrow> opt dec_str (src ''patch_id'');
     Some \<lparr>fc_path = v_path,
       fc_old_path = v_old_path,
       fc_change_kind = v_change_kind,
       fc_additions = v_additions,
       fc_deletions = v_deletions,
       fc_hunks = v_hunks,
       fc_patch_id = v_patch_id\<rparr>
   }"

lemma dec_diff_file_change_enc [simp, codec]: "dec_diff_file_change (enc_diff_file_change x) = Some x"
  by (simp add: dec_diff_file_change_def enc_diff_file_change_def struct_src_enc skip_if_def codec)

lemma enc_diff_file_change_not_JNull [simp, codec]: "enc_diff_file_change x \<noteq> JNull"
  by (simp add: enc_diff_file_change_def)

definition enc_diff_captured_payload :: "diff_captured_payload \<Rightarrow> json" where
  "enc_diff_captured_payload x = enc_struct
      ([(''diff_target'', enc_diff_target (dc_diff_target x)),
        (''base_commit'', enc_opt JStr (dc_base_commit x)),
        (''head_commit'', enc_opt JStr (dc_head_commit x)),
        (''patch_id'', enc_opt JStr (dc_patch_id x)),
        (''summary_hash'', JStr (dc_summary_hash x)),
        (''file_changes'', enc_vec enc_diff_file_change (dc_file_changes x)),
        (''repo_context_id'', enc_opt JStr (dc_repo_context_id x))])"

definition dec_diff_captured_payload :: "json \<Rightarrow> diff_captured_payload option" where
  "dec_diff_captured_payload j = do {
     src \<leftarrow> struct_src
       [(''diff_target'', False),
        (''base_commit'', False),
        (''head_commit'', False),
        (''patch_id'', False),
        (''summary_hash'', False),
        (''file_changes'', False),
        (''repo_context_id'', False)] j;
     v_diff_target \<leftarrow> req dec_diff_target (src ''diff_target'');
     v_base_commit \<leftarrow> opt dec_str (src ''base_commit'');
     v_head_commit \<leftarrow> opt dec_str (src ''head_commit'');
     v_patch_id \<leftarrow> opt dec_str (src ''patch_id'');
     v_summary_hash \<leftarrow> req dec_str (src ''summary_hash'');
     v_file_changes \<leftarrow> req (dec_vec dec_diff_file_change) (src ''file_changes'');
     v_repo_context_id \<leftarrow> opt dec_str (src ''repo_context_id'');
     Some \<lparr>dc_diff_target = v_diff_target,
       dc_base_commit = v_base_commit,
       dc_head_commit = v_head_commit,
       dc_patch_id = v_patch_id,
       dc_summary_hash = v_summary_hash,
       dc_file_changes = v_file_changes,
       dc_repo_context_id = v_repo_context_id\<rparr>
   }"

lemma dec_diff_captured_payload_enc [simp, codec]: "dec_diff_captured_payload (enc_diff_captured_payload x) = Some x"
  by (simp add: dec_diff_captured_payload_def enc_diff_captured_payload_def struct_src_enc codec)

lemma enc_diff_captured_payload_not_JNull [simp, codec]: "enc_diff_captured_payload x \<noteq> JNull"
  by (simp add: enc_diff_captured_payload_def)

definition enc_external_ref_payload :: "external_ref_payload \<Rightarrow> json" where
  "enc_external_ref_payload x = enc_struct
      ([(''external_ref_id'', JStr (er_external_ref_id x)),
        (''provider'', JStr (er_provider x)),
        (''ref_type'', JStr (er_ref_type x)),
        (''target'', JStr (er_target x)),
        (''repo_context_id'', enc_opt JStr (er_repo_context_id x))])"

definition dec_external_ref_payload :: "json \<Rightarrow> external_ref_payload option" where
  "dec_external_ref_payload j = do {
     src \<leftarrow> struct_src
       [(''external_ref_id'', False),
        (''provider'', False),
        (''ref_type'', False),
        (''target'', False),
        (''repo_context_id'', False)] j;
     v_external_ref_id \<leftarrow> req dec_str (src ''external_ref_id'');
     v_provider \<leftarrow> req dec_str (src ''provider'');
     v_ref_type \<leftarrow> req dec_str (src ''ref_type'');
     v_target \<leftarrow> req dec_str (src ''target'');
     v_repo_context_id \<leftarrow> opt dec_str (src ''repo_context_id'');
     Some \<lparr>er_external_ref_id = v_external_ref_id,
       er_provider = v_provider,
       er_ref_type = v_ref_type,
       er_target = v_target,
       er_repo_context_id = v_repo_context_id\<rparr>
   }"

lemma dec_external_ref_payload_enc [simp, codec]: "dec_external_ref_payload (enc_external_ref_payload x) = Some x"
  by (simp add: dec_external_ref_payload_def enc_external_ref_payload_def struct_src_enc codec)

lemma enc_external_ref_payload_not_JNull [simp, codec]: "enc_external_ref_payload x \<noteq> JNull"
  by (simp add: enc_external_ref_payload_def)

definition enc_source_session_payload :: "source_session_payload \<Rightarrow> json" where
  "enc_source_session_payload x = enc_struct
      ([(''source_id'', JStr (so_source_id x)),
        (''external_session_id'', JStr (so_external_session_id x)),
        (''title'', enc_opt JStr (so_title x))] @
       skip_if (so_name x = None) (''name'', enc_opt JStr (so_name x)) @
       [(''source_path'', enc_opt JStr (so_source_path x)),
        (''source_uri'', enc_opt JStr (so_source_uri x)),
        (''source_mtime'', enc_opt JStr (so_source_mtime x)),
        (''source_size'', enc_opt enc_u64 (so_source_size x)),
        (''source_fingerprint'', enc_opt JStr (so_source_fingerprint x)),
        (''parser_version'', enc_opt JStr (so_parser_version x)),
        (''session_created_at'', enc_opt JStr (so_session_created_at x)),
        (''session_updated_at'', enc_opt JStr (so_session_updated_at x)),
        (''model'', enc_opt JStr (so_model x)),
        (''input_tokens'', enc_opt enc_u64 (so_input_tokens x)),
        (''output_tokens'', enc_opt enc_u64 (so_output_tokens x)),
        (''repo_path'', enc_opt JStr (so_repo_path x)),
        (''branch'', enc_opt JStr (so_branch x)),
        (''files_changed'', enc_opt enc_u64 (so_files_changed x)),
        (''lines_added'', enc_opt enc_u64 (so_lines_added x)),
        (''lines_removed'', enc_opt enc_u64 (so_lines_removed x))] @
       skip_if (so_touched_files x = []) (''touched_files'', enc_vec JStr (so_touched_files x)) @
       skip_if (so_metadata_json x = None) (''metadata_json'', enc_opt (\<lambda>j. j) (so_metadata_json x)) @
       skip_if (so_normalized_chunks x = []) (''normalized_chunks'', JArr (so_normalized_chunks x)))"

definition dec_source_session_payload :: "json \<Rightarrow> source_session_payload option" where
  "dec_source_session_payload j = do {
     src \<leftarrow> struct_src
       [(''source_id'', False),
        (''external_session_id'', False),
        (''title'', False),
        (''name'', True),
        (''source_path'', False),
        (''source_uri'', False),
        (''source_mtime'', False),
        (''source_size'', False),
        (''source_fingerprint'', False),
        (''parser_version'', False),
        (''session_created_at'', False),
        (''session_updated_at'', False),
        (''model'', False),
        (''input_tokens'', False),
        (''output_tokens'', False),
        (''repo_path'', False),
        (''branch'', False),
        (''files_changed'', False),
        (''lines_added'', False),
        (''lines_removed'', False),
        (''touched_files'', True),
        (''metadata_json'', True),
        (''normalized_chunks'', True)] j;
     v_source_id \<leftarrow> req dec_str (src ''source_id'');
     v_external_session_id \<leftarrow> req dec_str (src ''external_session_id'');
     v_title \<leftarrow> opt dec_str (src ''title'');
     v_name \<leftarrow> opt dec_str (src ''name'');
     v_source_path \<leftarrow> opt dec_str (src ''source_path'');
     v_source_uri \<leftarrow> opt dec_str (src ''source_uri'');
     v_source_mtime \<leftarrow> opt dec_str (src ''source_mtime'');
     v_source_size \<leftarrow> opt dec_u64 (src ''source_size'');
     v_source_fingerprint \<leftarrow> opt dec_str (src ''source_fingerprint'');
     v_parser_version \<leftarrow> opt dec_str (src ''parser_version'');
     v_session_created_at \<leftarrow> opt dec_str (src ''session_created_at'');
     v_session_updated_at \<leftarrow> opt dec_str (src ''session_updated_at'');
     v_model \<leftarrow> opt dec_str (src ''model'');
     v_input_tokens \<leftarrow> opt dec_u64 (src ''input_tokens'');
     v_output_tokens \<leftarrow> opt dec_u64 (src ''output_tokens'');
     v_repo_path \<leftarrow> opt dec_str (src ''repo_path'');
     v_branch \<leftarrow> opt dec_str (src ''branch'');
     v_files_changed \<leftarrow> opt dec_u64 (src ''files_changed'');
     v_lines_added \<leftarrow> opt dec_u64 (src ''lines_added'');
     v_lines_removed \<leftarrow> opt dec_u64 (src ''lines_removed'');
     v_touched_files \<leftarrow> dflt [] (dec_vec dec_str) (src ''touched_files'');
     v_metadata_json \<leftarrow> opt Some (src ''metadata_json'');
     v_normalized_chunks \<leftarrow> dflt [] (dec_vec Some) (src ''normalized_chunks'');
     Some \<lparr>so_source_id = v_source_id,
       so_external_session_id = v_external_session_id,
       so_title = v_title,
       so_name = v_name,
       so_source_path = v_source_path,
       so_source_uri = v_source_uri,
       so_source_mtime = v_source_mtime,
       so_source_size = v_source_size,
       so_source_fingerprint = v_source_fingerprint,
       so_parser_version = v_parser_version,
       so_session_created_at = v_session_created_at,
       so_session_updated_at = v_session_updated_at,
       so_model = v_model,
       so_input_tokens = v_input_tokens,
       so_output_tokens = v_output_tokens,
       so_repo_path = v_repo_path,
       so_branch = v_branch,
       so_files_changed = v_files_changed,
       so_lines_added = v_lines_added,
       so_lines_removed = v_lines_removed,
       so_touched_files = v_touched_files,
       so_metadata_json = v_metadata_json,
       so_normalized_chunks = v_normalized_chunks\<rparr>
   }"

lemma dec_source_session_payload_enc [codec]: "so_metadata_json x \<noteq> Some JNull \<Longrightarrow> dec_source_session_payload (enc_source_session_payload x) = Some x"
  by (simp add: dec_source_session_payload_def enc_source_session_payload_def struct_src_enc skip_if_def codec)

lemma enc_source_session_payload_not_JNull [simp, codec]: "enc_source_session_payload x \<noteq> JNull"
  by (simp add: enc_source_session_payload_def)

end
