(* ===== verification/Trace_Event.thy ===== *)
theory Trace_Event imports Payload_Codec begin

text \<open>
  The event envelope of \<^verbatim>\<open>trace_event.rs\<close>, its constructors, and its serialised form. A
  constructor reads the clock and draws a uuid; both are arguments here (record \<open>fresh\<close>).
  The payload encoders are total, so the source's \<^verbatim>\<open>serde_json::Result\<close> is always the value.
\<close>

section \<open>The envelope\<close>

definition event_schema_version :: u16 where
  "event_schema_version = 1"

record trace_event =
  te_event_id :: uuid
  te_event_type :: event_type
  te_schema_version :: u16
  te_payload_schema_version :: u16
  te_occurred_at :: instant
  te_recorded_at :: instant
  te_actor :: actor_ref
  te_repo_id :: "string option"
  te_org_id :: "string option"
  te_project_id :: "string option"
  te_mission_id :: "string option"
  te_session_id :: "string option"
  te_artifact_id :: "string option"
  te_repo_context_id :: "string option"
  te_confidence :: confidence_level
  te_payload :: json

record fresh =
  fresh_now :: instant
  fresh_uuid :: uuid

section \<open>Constructors\<close>

definition from_payload :: "event_type \<Rightarrow> fresh \<Rightarrow> actor_ref \<Rightarrow> json \<Rightarrow> trace_event" where
  "from_payload ty fr actor payload =
     \<lparr>te_event_id = fresh_uuid fr, te_event_type = ty,
      te_schema_version = event_schema_version,
      te_payload_schema_version = event_schema_version,
      te_occurred_at = fresh_now fr, te_recorded_at = fresh_now fr, te_actor = actor,
      te_repo_id = None, te_org_id = None, te_project_id = None, te_mission_id = None,
      te_session_id = None, te_artifact_id = None, te_repo_context_id = None,
      te_confidence = Conf_Explicit, te_payload = payload\<rparr>"

definition org_created :: "fresh \<Rightarrow> actor_ref \<Rightarrow> string \<Rightarrow> org_created_payload \<Rightarrow> trace_event" where
  "org_created fr actor org p =
     (from_payload OrgCreated fr actor (enc_org_created_payload p))
       \<lparr>te_org_id := Some org, te_repo_context_id := oc_repo_context_id p\<rparr>"

definition org_updated :: "fresh \<Rightarrow> actor_ref \<Rightarrow> string \<Rightarrow> org_updated_payload \<Rightarrow> trace_event" where
  "org_updated fr actor org p =
     (from_payload OrgUpdated fr actor (enc_org_updated_payload p))
       \<lparr>te_org_id := Some org, te_repo_context_id := ou_repo_context_id p\<rparr>"

definition project_created :: "fresh \<Rightarrow> actor_ref \<Rightarrow> string \<Rightarrow> project_created_payload \<Rightarrow> trace_event" where
  "project_created fr actor project p =
     (from_payload ProjectCreated fr actor (enc_project_created_payload p))
       \<lparr>te_org_id := Some (pc_org_id p), te_project_id := Some project, te_repo_context_id := pc_repo_context_id p\<rparr>"

definition project_updated :: "fresh \<Rightarrow> actor_ref \<Rightarrow> string \<Rightarrow> project_updated_payload \<Rightarrow> trace_event" where
  "project_updated fr actor project p =
     (from_payload ProjectUpdated fr actor (enc_project_updated_payload p))
       \<lparr>te_org_id := pu_org_id p, te_project_id := Some project, te_repo_context_id := pu_repo_context_id p\<rparr>"

definition mission_created :: "fresh \<Rightarrow> actor_ref \<Rightarrow> string \<Rightarrow> mission_created_payload \<Rightarrow> trace_event" where
  "mission_created fr actor mission p =
     (from_payload MissionCreated fr actor (enc_mission_created_payload p))
       \<lparr>te_project_id := Some (mc_project_id p), te_mission_id := Some mission, te_repo_context_id := mc_repo_context_id p\<rparr>"

definition mission_updated :: "fresh \<Rightarrow> actor_ref \<Rightarrow> string \<Rightarrow> mission_updated_payload \<Rightarrow> trace_event" where
  "mission_updated fr actor mission p =
     (from_payload MissionUpdated fr actor (enc_mission_updated_payload p))
       \<lparr>te_project_id := mu_project_id p, te_mission_id := Some mission, te_repo_context_id := mu_repo_context_id p\<rparr>"

definition session_started :: "fresh \<Rightarrow> actor_ref \<Rightarrow> string \<Rightarrow> string option \<Rightarrow> session_started_payload \<Rightarrow> trace_event" where
  "session_started fr actor session mission p =
     (from_payload SessionStarted fr actor (enc_session_started_payload p))
       \<lparr>te_mission_id := mission, te_session_id := Some session, te_repo_context_id := st_repo_context_id p\<rparr>"

definition session_linked_to_mission :: "fresh \<Rightarrow> actor_ref \<Rightarrow> string \<Rightarrow> string \<Rightarrow> session_linked_payload \<Rightarrow> trace_event" where
  "session_linked_to_mission fr actor session mission p =
     (from_payload SessionLinkedToMission fr actor (enc_session_linked_payload p))
       \<lparr>te_mission_id := Some mission, te_session_id := Some session, te_repo_context_id := sl_repo_context_id p\<rparr>"

definition session_log_uploaded :: "fresh \<Rightarrow> actor_ref \<Rightarrow> string \<Rightarrow> session_log_uploaded_payload \<Rightarrow> trace_event" where
  "session_log_uploaded fr actor session p =
     (from_payload SessionLogUploaded fr actor (enc_session_log_uploaded_payload p))
       \<lparr>te_session_id := Some session, te_repo_context_id := lu_repo_context_id p\<rparr>"

definition artifact_created :: "fresh \<Rightarrow> actor_ref \<Rightarrow> string \<Rightarrow> string option \<Rightarrow> string option \<Rightarrow> artifact_created_payload \<Rightarrow> trace_event" where
  "artifact_created fr actor artifact mission session p =
     (from_payload ArtifactCreated fr actor (enc_artifact_created_payload p))
       \<lparr>te_mission_id := mission, te_session_id := session, te_artifact_id := Some artifact, te_repo_context_id := ac_repo_context_id p\<rparr>"

definition artifact_updated :: "fresh \<Rightarrow> actor_ref \<Rightarrow> string \<Rightarrow> string option \<Rightarrow> artifact_updated_payload \<Rightarrow> trace_event" where
  "artifact_updated fr actor artifact session p =
     (from_payload ArtifactUpdated fr actor (enc_artifact_updated_payload p))
       \<lparr>te_session_id := session, te_artifact_id := Some artifact, te_repo_context_id := au_repo_context_id p\<rparr>"

definition artifact_linked_to_mission :: "fresh \<Rightarrow> actor_ref \<Rightarrow> string \<Rightarrow> string \<Rightarrow> artifact_linked_payload \<Rightarrow> trace_event" where
  "artifact_linked_to_mission fr actor artifact mission p =
     (from_payload ArtifactLinkedToMission fr actor (enc_artifact_linked_payload p))
       \<lparr>te_mission_id := Some mission, te_artifact_id := Some artifact, te_repo_context_id := al_repo_context_id p\<rparr>"

definition artifact_file_ref_recorded :: "fresh \<Rightarrow> actor_ref \<Rightarrow> string \<Rightarrow> string option \<Rightarrow> artifact_file_ref_payload \<Rightarrow> trace_event" where
  "artifact_file_ref_recorded fr actor artifact session p =
     (from_payload ArtifactFileRefRecorded fr actor (enc_artifact_file_ref_payload p))
       \<lparr>te_session_id := session, te_artifact_id := Some artifact, te_repo_context_id := fr_repo_context_id p\<rparr>"

definition artifact_attachment_uploaded :: "fresh \<Rightarrow> actor_ref \<Rightarrow> string \<Rightarrow> string option \<Rightarrow> artifact_attachment_payload \<Rightarrow> trace_event" where
  "artifact_attachment_uploaded fr actor artifact session p =
     (from_payload ArtifactAttachmentUploaded fr actor (enc_artifact_attachment_payload p))
       \<lparr>te_session_id := session, te_artifact_id := Some artifact, te_repo_context_id := at_repo_context_id p\<rparr>"

definition repo_context_captured :: "fresh \<Rightarrow> actor_ref \<Rightarrow> string \<Rightarrow> repo_context_payload \<Rightarrow> trace_event" where
  "repo_context_captured fr actor ctx p =
     (from_payload RepoContextCaptured fr actor (enc_repo_context_payload p))
       \<lparr>te_repo_context_id := Some ctx\<rparr>"

definition diff_captured :: "fresh \<Rightarrow> actor_ref \<Rightarrow> string \<Rightarrow> string option \<Rightarrow> string option \<Rightarrow> diff_captured_payload \<Rightarrow> trace_event" where
  "diff_captured fr actor artifact session mission p =
     (from_payload DiffCaptured fr actor (enc_diff_captured_payload p))
       \<lparr>te_artifact_id := Some artifact, te_session_id := session, te_mission_id := mission, te_repo_context_id := dc_repo_context_id p\<rparr>"

definition external_ref_linked :: "fresh \<Rightarrow> actor_ref \<Rightarrow> string option \<Rightarrow> string option \<Rightarrow> string option \<Rightarrow> external_ref_payload \<Rightarrow> trace_event" where
  "external_ref_linked fr actor mission session artifact p =
     (from_payload ExternalRefLinked fr actor (enc_external_ref_payload p))
       \<lparr>te_mission_id := mission, te_session_id := session, te_artifact_id := artifact, te_repo_context_id := er_repo_context_id p\<rparr>"

definition source_session_observed :: "fresh \<Rightarrow> actor_ref \<Rightarrow> source_session_payload \<Rightarrow> trace_event" where
  "source_session_observed fr actor p =
     (from_payload SourceSessionObserved fr actor (enc_source_session_payload p))
       \<lparr>te_confidence := Conf_Observed\<rparr>"

lemmas event_constructors =
  org_created_def
  org_updated_def
  project_created_def
  project_updated_def
  mission_created_def
  mission_updated_def
  session_started_def
  session_linked_to_mission_def
  session_log_uploaded_def
  artifact_created_def
  artifact_updated_def
  artifact_linked_to_mission_def
  artifact_file_ref_recorded_def
  artifact_attachment_uploaded_def
  repo_context_captured_def
  diff_captured_def
  external_ref_linked_def
  source_session_observed_def

section \<open>Typed payloads\<close>

text \<open>
  The payload slot is untyped; which struct an event's payload is read as depends on its type.
  Reviewed and accepted events have no struct of their own.
\<close>

datatype payload =
    P_OrgCreated org_created_payload
  | P_OrgUpdated org_updated_payload
  | P_ProjectCreated project_created_payload
  | P_ProjectUpdated project_updated_payload
  | P_MissionCreated mission_created_payload
  | P_MissionUpdated mission_updated_payload
  | P_SessionStarted session_started_payload
  | P_SessionLinkedToMission session_linked_payload
  | P_SessionLogUploaded session_log_uploaded_payload
  | P_ArtifactCreated artifact_created_payload
  | P_ArtifactUpdated artifact_updated_payload
  | P_ArtifactLinkedToMission artifact_linked_payload
  | P_ArtifactFileRefRecorded artifact_file_ref_payload
  | P_ArtifactAttachmentUploaded artifact_attachment_payload
  | P_RepoContextCaptured repo_context_payload
  | P_DiffCaptured diff_captured_payload
  | P_ExternalRefLinked external_ref_payload
  | P_SourceSessionObserved source_session_payload
  | P_Untyped json

fun dec_payload :: "event_type \<Rightarrow> json \<Rightarrow> payload option" where
  "dec_payload OrgCreated j = map_option P_OrgCreated (dec_org_created_payload j)"
| "dec_payload OrgUpdated j = map_option P_OrgUpdated (dec_org_updated_payload j)"
| "dec_payload ProjectCreated j = map_option P_ProjectCreated (dec_project_created_payload j)"
| "dec_payload ProjectUpdated j = map_option P_ProjectUpdated (dec_project_updated_payload j)"
| "dec_payload MissionCreated j = map_option P_MissionCreated (dec_mission_created_payload j)"
| "dec_payload MissionUpdated j = map_option P_MissionUpdated (dec_mission_updated_payload j)"
| "dec_payload SessionStarted j = map_option P_SessionStarted (dec_session_started_payload j)"
| "dec_payload SessionLinkedToMission j = map_option P_SessionLinkedToMission (dec_session_linked_payload j)"
| "dec_payload SessionLogUploaded j = map_option P_SessionLogUploaded (dec_session_log_uploaded_payload j)"
| "dec_payload ArtifactCreated j = map_option P_ArtifactCreated (dec_artifact_created_payload j)"
| "dec_payload ArtifactUpdated j = map_option P_ArtifactUpdated (dec_artifact_updated_payload j)"
| "dec_payload ArtifactLinkedToMission j = map_option P_ArtifactLinkedToMission (dec_artifact_linked_payload j)"
| "dec_payload ArtifactFileRefRecorded j = map_option P_ArtifactFileRefRecorded (dec_artifact_file_ref_payload j)"
| "dec_payload ArtifactAttachmentUploaded j = map_option P_ArtifactAttachmentUploaded (dec_artifact_attachment_payload j)"
| "dec_payload RepoContextCaptured j = map_option P_RepoContextCaptured (dec_repo_context_payload j)"
| "dec_payload DiffCaptured j = map_option P_DiffCaptured (dec_diff_captured_payload j)"
| "dec_payload ExternalRefLinked j = map_option P_ExternalRefLinked (dec_external_ref_payload j)"
| "dec_payload SourceSessionObserved j = map_option P_SourceSessionObserved (dec_source_session_payload j)"
| "dec_payload ArtifactReviewed j = Some (P_Untyped j)"
| "dec_payload ArtifactAccepted j = Some (P_Untyped j)"

fun enc_payload :: "payload \<Rightarrow> json" where
  "enc_payload (P_OrgCreated p) = enc_org_created_payload p"
| "enc_payload (P_OrgUpdated p) = enc_org_updated_payload p"
| "enc_payload (P_ProjectCreated p) = enc_project_created_payload p"
| "enc_payload (P_ProjectUpdated p) = enc_project_updated_payload p"
| "enc_payload (P_MissionCreated p) = enc_mission_created_payload p"
| "enc_payload (P_MissionUpdated p) = enc_mission_updated_payload p"
| "enc_payload (P_SessionStarted p) = enc_session_started_payload p"
| "enc_payload (P_SessionLinkedToMission p) = enc_session_linked_payload p"
| "enc_payload (P_SessionLogUploaded p) = enc_session_log_uploaded_payload p"
| "enc_payload (P_ArtifactCreated p) = enc_artifact_created_payload p"
| "enc_payload (P_ArtifactUpdated p) = enc_artifact_updated_payload p"
| "enc_payload (P_ArtifactLinkedToMission p) = enc_artifact_linked_payload p"
| "enc_payload (P_ArtifactFileRefRecorded p) = enc_artifact_file_ref_payload p"
| "enc_payload (P_ArtifactAttachmentUploaded p) = enc_artifact_attachment_payload p"
| "enc_payload (P_RepoContextCaptured p) = enc_repo_context_payload p"
| "enc_payload (P_DiffCaptured p) = enc_diff_captured_payload p"
| "enc_payload (P_ExternalRefLinked p) = enc_external_ref_payload p"
| "enc_payload (P_SourceSessionObserved p) = enc_source_session_payload p"
| "enc_payload (P_Untyped j) = j"

fun payload_type :: "payload \<Rightarrow> event_type" where
  "payload_type (P_OrgCreated p) = OrgCreated"
| "payload_type (P_OrgUpdated p) = OrgUpdated"
| "payload_type (P_ProjectCreated p) = ProjectCreated"
| "payload_type (P_ProjectUpdated p) = ProjectUpdated"
| "payload_type (P_MissionCreated p) = MissionCreated"
| "payload_type (P_MissionUpdated p) = MissionUpdated"
| "payload_type (P_SessionStarted p) = SessionStarted"
| "payload_type (P_SessionLinkedToMission p) = SessionLinkedToMission"
| "payload_type (P_SessionLogUploaded p) = SessionLogUploaded"
| "payload_type (P_ArtifactCreated p) = ArtifactCreated"
| "payload_type (P_ArtifactUpdated p) = ArtifactUpdated"
| "payload_type (P_ArtifactLinkedToMission p) = ArtifactLinkedToMission"
| "payload_type (P_ArtifactFileRefRecorded p) = ArtifactFileRefRecorded"
| "payload_type (P_ArtifactAttachmentUploaded p) = ArtifactAttachmentUploaded"
| "payload_type (P_RepoContextCaptured p) = RepoContextCaptured"
| "payload_type (P_DiffCaptured p) = DiffCaptured"
| "payload_type (P_ExternalRefLinked p) = ExternalRefLinked"
| "payload_type (P_SourceSessionObserved p) = SourceSessionObserved"
| "payload_type (P_Untyped j) = ArtifactReviewed"

text \<open>
  A source session whose \<open>metadata_json\<close> is the JSON value null reads back as one without
  metadata, so that one value is left out.
\<close>

fun faithful_payload :: "payload \<Rightarrow> bool" where
  "faithful_payload (P_SourceSessionObserved p) = (so_metadata_json p \<noteq> Some JNull)"
| "faithful_payload _ = True"

text \<open>
  A typed payload written into an event's payload slot and read back as the struct of the
  event's type is the same payload, for every event type.
\<close>

theorem payload_roundtrip:
  assumes "faithful_payload p"
  shows "dec_payload (payload_type p) (enc_payload p) = Some p"
  using assms by (cases p) (simp_all add: dec_source_session_payload_enc)

theorem payload_roundtrip_witness:
  "dec_payload OrgCreated (enc_payload (P_OrgCreated
      \<lparr>oc_name = ''acme'', oc_description = None, oc_repo_context_id = Some ''repoctx_1''\<rparr>)) =
   Some (P_OrgCreated \<lparr>oc_name = ''acme'', oc_description = None, oc_repo_context_id = Some ''repoctx_1''\<rparr>)"
  using payload_roundtrip [of "P_OrgCreated
      \<lparr>oc_name = ''acme'', oc_description = None, oc_repo_context_id = Some ''repoctx_1''\<rparr>"]
  by simp

section \<open>Well-formed events\<close>

text \<open>
  What every constructor promises of its event: the payload reads back, the ids that the event's
  type is about are in the envelope, and they agree with the ids of the payload.
\<close>

fun envelope_ids :: "payload \<Rightarrow> trace_event \<Rightarrow> bool" where
  "envelope_ids (P_OrgCreated p) e = (te_org_id e \<noteq> None \<and>
     te_repo_context_id e = oc_repo_context_id p)"
| "envelope_ids (P_OrgUpdated p) e = (te_org_id e \<noteq> None \<and>
     te_repo_context_id e = ou_repo_context_id p)"
| "envelope_ids (P_ProjectCreated p) e = (te_org_id e = Some (pc_org_id p) \<and> te_project_id e \<noteq> None \<and>
     te_repo_context_id e = pc_repo_context_id p)"
| "envelope_ids (P_ProjectUpdated p) e = (te_org_id e = pu_org_id p \<and> te_project_id e \<noteq> None \<and>
     te_repo_context_id e = pu_repo_context_id p)"
| "envelope_ids (P_MissionCreated p) e = (te_project_id e = Some (mc_project_id p) \<and> te_mission_id e \<noteq> None \<and>
     te_repo_context_id e = mc_repo_context_id p)"
| "envelope_ids (P_MissionUpdated p) e = (te_project_id e = mu_project_id p \<and> te_mission_id e \<noteq> None \<and>
     te_repo_context_id e = mu_repo_context_id p)"
| "envelope_ids (P_SessionStarted p) e = (te_session_id e \<noteq> None \<and>
     te_repo_context_id e = st_repo_context_id p)"
| "envelope_ids (P_SessionLinkedToMission p) e = (te_session_id e \<noteq> None \<and> te_mission_id e \<noteq> None \<and>
     te_repo_context_id e = sl_repo_context_id p)"
| "envelope_ids (P_SessionLogUploaded p) e = (te_session_id e \<noteq> None \<and>
     te_repo_context_id e = lu_repo_context_id p)"
| "envelope_ids (P_ArtifactCreated p) e = (te_artifact_id e \<noteq> None \<and>
     te_repo_context_id e = ac_repo_context_id p)"
| "envelope_ids (P_ArtifactUpdated p) e = (te_artifact_id e \<noteq> None \<and>
     te_repo_context_id e = au_repo_context_id p)"
| "envelope_ids (P_ArtifactLinkedToMission p) e = (te_artifact_id e \<noteq> None \<and> te_mission_id e \<noteq> None \<and>
     te_repo_context_id e = al_repo_context_id p)"
| "envelope_ids (P_ArtifactFileRefRecorded p) e = (te_artifact_id e \<noteq> None \<and>
     te_repo_context_id e = fr_repo_context_id p)"
| "envelope_ids (P_ArtifactAttachmentUploaded p) e = (te_artifact_id e \<noteq> None \<and>
     te_repo_context_id e = at_repo_context_id p)"
| "envelope_ids (P_RepoContextCaptured p) e = (te_repo_context_id e \<noteq> None)"
| "envelope_ids (P_DiffCaptured p) e = (te_artifact_id e \<noteq> None \<and>
     te_repo_context_id e = dc_repo_context_id p)"
| "envelope_ids (P_ExternalRefLinked p) e = (True \<and>
     te_repo_context_id e = er_repo_context_id p)"
| "envelope_ids (P_SourceSessionObserved p) e = (te_confidence e = Conf_Observed)"
| "envelope_ids (P_Untyped j) e = True"

definition well_formed_event :: "trace_event \<Rightarrow> bool" where
  "well_formed_event e =
     (case dec_payload (te_event_type e) (te_payload e) of
        None \<Rightarrow> False
      | Some p \<Rightarrow> envelope_ids p e)"

text \<open>
  Every constructor builds a well-formed event: the typed payload can be read back from the
  slot, the envelope carries the ids the event is about, and an id that the payload also holds
  (the org of a project, the project of a mission, the repo context) is the envelope's.
\<close>

theorem constructors_well_formed:
  "well_formed_event (org_created fr actor org p_oc) \<and>
   well_formed_event (org_updated fr actor org p_ou) \<and>
   well_formed_event (project_created fr actor project p_pc) \<and>
   well_formed_event (project_updated fr actor project p_pu) \<and>
   well_formed_event (mission_created fr actor mission p_mc) \<and>
   well_formed_event (mission_updated fr actor mission p_mu) \<and>
   well_formed_event (session_started fr actor session om p_st) \<and>
   well_formed_event (session_linked_to_mission fr actor session mission p_sl) \<and>
   well_formed_event (session_log_uploaded fr actor session p_lu) \<and>
   well_formed_event (artifact_created fr actor artifact om os p_ac) \<and>
   well_formed_event (artifact_updated fr actor artifact os p_au) \<and>
   well_formed_event (artifact_linked_to_mission fr actor artifact mission p_al) \<and>
   well_formed_event (artifact_file_ref_recorded fr actor artifact os p_fr) \<and>
   well_formed_event (artifact_attachment_uploaded fr actor artifact os p_at) \<and>
   well_formed_event (repo_context_captured fr actor ctx p_rx) \<and>
   well_formed_event (diff_captured fr actor artifact os om p_dc) \<and>
   well_formed_event (external_ref_linked fr actor om os oa p_er)"
  by (simp_all add: event_constructors from_payload_def well_formed_event_def)

section \<open>The serialised event\<close>

definition enc_actor_ref :: "actor_ref \<Rightarrow> json" where
  "enc_actor_ref a = enc_struct
     [(''actor_type'', enc_actor_type (actor_type a)), (''actor_id'', JStr (actor_id a)),
      (''display_name'', enc_opt JStr (display_name a))]"

definition dec_actor_ref :: "json \<Rightarrow> actor_ref option" where
  "dec_actor_ref j = do {
     src \<leftarrow> struct_src [(''actor_type'', False), (''actor_id'', False), (''display_name'', False)] j;
     v_actor_type \<leftarrow> req dec_actor_type (src ''actor_type'');
     v_actor_id \<leftarrow> req dec_str (src ''actor_id'');
     v_display_name \<leftarrow> opt dec_str (src ''display_name'');
     Some \<lparr>actor_type = v_actor_type, actor_id = v_actor_id, display_name = v_display_name\<rparr>
   }"

lemma dec_actor_ref_enc [simp, codec]: "dec_actor_ref (enc_actor_ref a) = Some a"
  by (simp add: dec_actor_ref_def enc_actor_ref_def struct_src_enc codec)

definition enc_trace_event :: "services \<Rightarrow> trace_event \<Rightarrow> json" where
  "enc_trace_event svc e = enc_struct
     [(''event_id'', JStr (te_event_id e)),
      (''event_type'', enc_event_type (te_event_type e)),
      (''schema_version'', enc_u16 (te_schema_version e)),
      (''payload_schema_version'', enc_u16 (te_payload_schema_version e)),
      (''occurred_at'', JStr (time_to_json svc (te_occurred_at e))),
      (''recorded_at'', JStr (time_to_json svc (te_recorded_at e))),
      (''actor'', enc_actor_ref (te_actor e)),
      (''repo_id'', enc_opt JStr (te_repo_id e)),
      (''org_id'', enc_opt JStr (te_org_id e)),
      (''project_id'', enc_opt JStr (te_project_id e)),
      (''mission_id'', enc_opt JStr (te_mission_id e)),
      (''session_id'', enc_opt JStr (te_session_id e)),
      (''artifact_id'', enc_opt JStr (te_artifact_id e)),
      (''repo_context_id'', enc_opt JStr (te_repo_context_id e)),
      (''confidence'', enc_confidence_level (te_confidence e)),
      (''payload'', te_payload e)]"

definition event_fields :: "(string \<times> bool) list" where
  "event_fields =
     [(''event_id'', False), (''event_type'', False), (''schema_version'', False),
      (''payload_schema_version'', False), (''occurred_at'', False), (''recorded_at'', False),
      (''actor'', False), (''repo_id'', False), (''org_id'', False), (''project_id'', False),
      (''mission_id'', False), (''session_id'', False), (''artifact_id'', False),
      (''repo_context_id'', False), (''confidence'', False), (''payload'', False)]"

definition dec_time :: "services \<Rightarrow> json \<Rightarrow> instant option" where
  "dec_time svc j = dec_str j \<bind> time_of_json svc"

definition dec_uuid :: "services \<Rightarrow> json \<Rightarrow> uuid option" where
  "dec_uuid svc j = dec_str j \<bind> uuid_of_json svc"

definition dec_trace_event :: "services \<Rightarrow> json \<Rightarrow> trace_event option" where
  "dec_trace_event svc j = do {
     src \<leftarrow> struct_src event_fields j;
     v_event_id \<leftarrow> req (dec_uuid svc) (src ''event_id'');
     v_event_type \<leftarrow> req dec_event_type (src ''event_type'');
     v_schema \<leftarrow> req dec_u16 (src ''schema_version'');
     v_payload_schema \<leftarrow> req dec_u16 (src ''payload_schema_version'');
     v_occurred \<leftarrow> req (dec_time svc) (src ''occurred_at'');
     v_recorded \<leftarrow> req (dec_time svc) (src ''recorded_at'');
     v_actor \<leftarrow> req dec_actor_ref (src ''actor'');
     v_repo \<leftarrow> opt dec_str (src ''repo_id'');
     v_org \<leftarrow> opt dec_str (src ''org_id'');
     v_project \<leftarrow> opt dec_str (src ''project_id'');
     v_mission \<leftarrow> opt dec_str (src ''mission_id'');
     v_session \<leftarrow> opt dec_str (src ''session_id'');
     v_artifact \<leftarrow> opt dec_str (src ''artifact_id'');
     v_ctx \<leftarrow> opt dec_str (src ''repo_context_id'');
     v_confidence \<leftarrow> req dec_confidence_level (src ''confidence'');
     v_payload \<leftarrow> req Some (src ''payload'');
     Some \<lparr>te_event_id = v_event_id, te_event_type = v_event_type,
       te_schema_version = v_schema, te_payload_schema_version = v_payload_schema,
       te_occurred_at = v_occurred, te_recorded_at = v_recorded, te_actor = v_actor,
       te_repo_id = v_repo, te_org_id = v_org, te_project_id = v_project,
       te_mission_id = v_mission, te_session_id = v_session, te_artifact_id = v_artifact,
       te_repo_context_id = v_ctx, te_confidence = v_confidence, te_payload = v_payload\<rparr>
   }"

text \<open>
  The documented behaviour of chrono's and uuid's serde formats that the round trip needs, for
  the values of one event: a printed instant and a printed uuid parse back.
\<close>

definition services_read_back :: "services \<Rightarrow> trace_event \<Rightarrow> bool" where
  "services_read_back svc e \<longleftrightarrow>
     time_of_json svc (time_to_json svc (te_occurred_at e)) = Some (te_occurred_at e) \<and>
     time_of_json svc (time_to_json svc (te_recorded_at e)) = Some (te_recorded_at e) \<and>
     uuid_of_json svc (te_event_id e) = Some (te_event_id e)"

lemma trace_event_read_back:
  "services_read_back svc e \<Longrightarrow> dec_trace_event svc (enc_trace_event svc e) = Some e"
  by (simp add: dec_trace_event_def enc_trace_event_def event_fields_def struct_src_enc codec
        dec_time_def dec_uuid_def services_read_back_def)

text \<open>
  C37: an event written as JSON reads back as the same event, whatever its payload, when the
  printed times and the printed uuid parse back.
\<close>

theorem trace_event_roundtrip:
  assumes "services_read_back svc e"
  shows "dec_trace_event svc (enc_trace_event svc e) = Some e"
  using assms by (rule trace_event_read_back)

text \<open>
  A concrete instance of the services, for the witnesses: an instant is printed as its decimal
  number with a sign, and every string is a uuid.
\<close>

definition show_int :: "int \<Rightarrow> string" where
  "show_int t = (if t < 0 then ''-'' @ show_nat (nat (- t)) else ''+'' @ show_nat (nat t))"

definition parse_int :: "string \<Rightarrow> int option" where
  "parse_int s =
     (case s of
        [] \<Rightarrow> None
      | c # cs \<Rightarrow>
          if c = CHR ''-'' then map_option (\<lambda>n. - int n) (parse_nat cs)
          else if c = CHR ''+'' then map_option int (parse_nat cs) else None)"

lemma parse_int_show_int [simp]: "parse_int (show_int t) = Some t"
  by (simp add: parse_int_def show_int_def)

definition plain_services :: services where
  "plain_services =
     \<lparr>rfc3339 = show_int, time_to_json = show_int, time_of_json = parse_int,
      uuid_of_json = Some, sha256_hex = (\<lambda>s. s)\<rparr>"

lemma plain_services_read_back: "services_read_back plain_services e"
  by (simp add: services_read_back_def plain_services_def)

theorem trace_event_roundtrip_witness:
  "let a = \<lparr>actor_type = Agent, actor_id = ''agent-1'', display_name = None\<rparr>;
       e = artifact_linked_to_mission \<lparr>fresh_now = 1700000000, fresh_uuid = ''u1''\<rparr> a
             ''artifact_1'' ''mission_1''
             \<lparr>al_relationship = ''delivers'', al_repo_context_id = None\<rparr>
   in dec_trace_event plain_services (enc_trace_event plain_services e) = Some e"
  unfolding Let_def by (rule trace_event_roundtrip [OF plain_services_read_back])

end
