(* ===== verification/Index_Types.thy ===== *)
theory Index_Types imports Trace_Event begin

text \<open>
  The data model of the rebuildable index (\<^verbatim>\<open>index_types.rs\<close>): one record per indexed
  entity, with its edges to other entities as ordered sets of ids, the index as ten ordered maps,
  and the blank entities that a first mention of an id creates. A \<^verbatim>\<open>usize\<close> counter counts
  the elements of a list that is in memory, so it is a \<open>nat\<close>.
\<close>

definition index_schema_version :: u16 where
  "index_schema_version = 1"

record indexed_org =
  io_org_id :: string
  io_name :: "string option"
  io_description :: "string option"
  io_project_ids :: "string list"
  io_repo_context_ids :: "string list"
  io_created_at :: instant
  io_last_event_at :: instant

record indexed_project =
  ip_project_id :: string
  ip_org_id :: "string option"
  ip_name :: "string option"
  ip_description :: "string option"
  ip_mission_ids :: "string list"
  ip_repo_context_ids :: "string list"
  ip_created_at :: instant
  ip_last_event_at :: instant

record indexed_mission =
  im_mission_id :: string
  im_project_id :: "string option"
  im_title :: "string option"
  im_description :: "string option"
  im_status :: mission_status
  im_session_ids :: "string list"
  im_artifact_ids :: "string list"
  im_repo_context_ids :: "string list"
  im_created_at :: instant
  im_last_event_at :: instant

record indexed_session =
  isn_session_id :: string
  isn_session_name :: "string option"
  isn_actor_id :: "string option"
  isn_actor_type :: "actor_type option"
  isn_source :: session_source
  isn_mission_ids :: "string list"
  isn_artifact_ids :: "string list"
  isn_log_ref_ids :: "string list"
  isn_repo_context_ids :: "string list"
  isn_started_at :: instant
  isn_last_event_at :: instant

record indexed_artifact =
  ia_artifact_id :: string
  ia_artifact_kind :: "artifact_kind option"
  ia_title :: "string option"
  ia_body :: "string option"
  ia_mission_ids :: "string list"
  ia_session_ids :: "string list"
  ia_file_paths :: "string list"
  ia_attachment_ids :: "string list"
  ia_diff_ids :: "string list"
  ia_repo_context_ids :: "string list"
  ia_created_at :: instant
  ia_last_event_at :: instant

record indexed_attachment =
  iat_attachment_id :: string
  iat_artifact_id :: string
  iat_session_id :: "string option"
  iat_name :: string
  iat_original_path :: string
  iat_content_type :: "string option"
  iat_sha256 :: string
  iat_size_bytes :: u64
  iat_storage_uri :: string
  iat_external_uri :: "string option"
  iat_availability :: evidence_availability
  iat_repo_context_id :: "string option"
  iat_uploaded_at :: instant

record indexed_diff_file_change =
  ich_path :: string
  ich_old_path :: "string option"
  ich_change_kind :: diff_file_change_kind
  ich_additions :: "u64 option"
  ich_deletions :: "u64 option"
  ich_hunks :: "diff_hunk list"

record indexed_diff =
  idf_diff_id :: string
  idf_artifact_id :: string
  idf_session_id :: "string option"
  idf_mission_id :: "string option"
  idf_diff_target :: diff_target
  idf_base_commit :: "string option"
  idf_head_commit :: "string option"
  idf_patch_id :: "string option"
  idf_summary_hash :: string
  idf_file_count :: nat
  idf_additions :: u64
  idf_deletions :: u64
  idf_binary_file_count :: nat
  idf_repo_context_id :: "string option"
  idf_captured_at :: instant
  idf_file_changes :: "indexed_diff_file_change list"

record indexed_session_log =
  isl_log_ref_id :: string
  isl_session_id :: string
  isl_original_path :: string
  isl_format :: session_log_format
  isl_source :: string
  isl_sha256 :: string
  isl_size_bytes :: u64
  isl_storage_uri :: string
  isl_local_path :: string
  isl_external_uri :: "string option"
  isl_availability :: evidence_availability
  isl_repo_context_id :: "string option"
  isl_uploaded_at :: instant

record indexed_file_ref =
  ifr_file_ref_id :: string
  ifr_artifact_id :: string
  ifr_session_id :: "string option"
  ifr_repo_context_id :: "string option"
  ifr_recorded_at :: instant

record indexed_file =
  ifl_path :: string
  ifl_file_refs :: "indexed_file_ref list"

record indexed_repo_context =
  irc_repo_context_id :: string
  irc_branch :: "string option"
  irc_head_commit :: "string option"
  irc_dirty :: bool
  irc_captured_at :: instant

record trace_index =
  ti_schema_version :: u16
  ti_rebuilt_at :: instant
  ti_event_count :: nat
  ti_orgs :: "(string, indexed_org) btree"
  ti_projects :: "(string, indexed_project) btree"
  ti_missions :: "(string, indexed_mission) btree"
  ti_sessions :: "(string, indexed_session) btree"
  ti_artifacts :: "(string, indexed_artifact) btree"
  ti_attachments :: "(string, indexed_attachment) btree"
  ti_diffs :: "(string, indexed_diff) btree"
  ti_session_logs :: "(string, indexed_session_log) btree"
  ti_files :: "(string, indexed_file) btree"
  ti_repo_contexts :: "(string, indexed_repo_context) btree"

record index_status =
  ist_exists :: bool
  ist_event_count :: nat
  ist_rebuilt_at :: "instant option"

section \<open>Blank entities\<close>

definition default_session_source :: session_source where
  "default_session_source =
     \<lparr>ss_app_id = None, ss_app_session_id = None, ss_app_session_name = None, ss_runtime_id = None\<rparr>"

definition blank_org :: "string \<Rightarrow> instant \<Rightarrow> indexed_org" where
  "blank_org i t =
     \<lparr>io_org_id = i,
      io_name = None,
      io_description = None,
      io_project_ids = [],
      io_repo_context_ids = [],
      io_created_at = t,
      io_last_event_at = t\<rparr>"

definition blank_project :: "string \<Rightarrow> instant \<Rightarrow> indexed_project" where
  "blank_project i t =
     \<lparr>ip_project_id = i,
      ip_org_id = None,
      ip_name = None,
      ip_description = None,
      ip_mission_ids = [],
      ip_repo_context_ids = [],
      ip_created_at = t,
      ip_last_event_at = t\<rparr>"

definition blank_mission :: "string \<Rightarrow> instant \<Rightarrow> indexed_mission" where
  "blank_mission i t =
     \<lparr>im_mission_id = i,
      im_project_id = None,
      im_title = None,
      im_description = None,
      im_status = Mission_Planned,
      im_session_ids = [],
      im_artifact_ids = [],
      im_repo_context_ids = [],
      im_created_at = t,
      im_last_event_at = t\<rparr>"

definition blank_artifact :: "string \<Rightarrow> instant \<Rightarrow> indexed_artifact" where
  "blank_artifact i t =
     \<lparr>ia_artifact_id = i,
      ia_artifact_kind = None,
      ia_title = None,
      ia_body = None,
      ia_mission_ids = [],
      ia_session_ids = [],
      ia_file_paths = [],
      ia_attachment_ids = [],
      ia_diff_ids = [],
      ia_repo_context_ids = [],
      ia_created_at = t,
      ia_last_event_at = t\<rparr>"

definition blank_session :: "string \<Rightarrow> instant \<Rightarrow> actor_ref \<Rightarrow> indexed_session" where
  "blank_session i t actor =
     \<lparr>isn_session_id = i,
      isn_session_name = None,
      isn_actor_id = Some (actor_id actor),
      isn_actor_type = Some (actor_type actor),
      isn_source = default_session_source,
      isn_mission_ids = [],
      isn_artifact_ids = [],
      isn_log_ref_ids = [],
      isn_repo_context_ids = [],
      isn_started_at = t,
      isn_last_event_at = t\<rparr>"

definition blank_file :: "string \<Rightarrow> indexed_file" where
  "blank_file path = \<lparr>ifl_path = path, ifl_file_refs = []\<rparr>"

lemmas blank_defs =
  blank_org_def blank_project_def blank_mission_def blank_artifact_def blank_session_def
  blank_file_def

end
