(* ===== verification/Trace_Index.thy ===== *)
theory Trace_Index imports Index_Types begin

text \<open>
  The projection of the event log into the index (\<^verbatim>\<open>index.rs\<close>): one definition per
  \<^verbatim>\<open>apply_*\<close> handler and per \<^verbatim>\<open>link_*\<close> helper, \<open>apply_event\<close> which dispatches on the
  event's type, and \<open>build_index\<close> which folds it over the log and stops at the first payload that
  does not parse. \<open>with_org\<close> to \<open>with_file\<close> are the code's
  \<^verbatim>\<open>entry(id).or_insert_with(new_*)\<close> followed by assignments. Sums of line counts are
  \<^verbatim>\<open>u64\<close> and wrap around as in a release build.
\<close>

section \<open>Helpers\<close>

definition insert_optional :: "string option \<Rightarrow> string list \<Rightarrow> string list" where
  "insert_optional v ids = (case v of None \<Rightarrow> ids | Some x \<Rightarrow> bs_insert x ids)"

definition typed_payload :: "(json \<Rightarrow> 'a option) \<Rightarrow> trace_event \<Rightarrow> 'a result" where
  "typed_payload dec ev =
     ok_or (dec (te_payload ev)) (Payload_Parse (te_event_id ev) (event_type_wire (te_event_type ev)))"

definition new_org :: "string \<Rightarrow> trace_event \<Rightarrow> indexed_org" where
  "new_org i ev = blank_org i (te_recorded_at ev)"

definition new_project :: "string \<Rightarrow> trace_event \<Rightarrow> indexed_project" where
  "new_project i ev = blank_project i (te_recorded_at ev)"

definition new_mission :: "string \<Rightarrow> trace_event \<Rightarrow> indexed_mission" where
  "new_mission i ev = blank_mission i (te_recorded_at ev)"

definition new_session :: "string \<Rightarrow> trace_event \<Rightarrow> indexed_session" where
  "new_session i ev = blank_session i (te_recorded_at ev) (te_actor ev)"

definition new_artifact :: "string \<Rightarrow> trace_event \<Rightarrow> indexed_artifact" where
  "new_artifact i ev = blank_artifact i (te_recorded_at ev)"

definition with_org where
  "with_org i ev f idx = idx\<lparr>ti_orgs := bt_upsert i (new_org i ev) f (ti_orgs idx)\<rparr>"

definition with_project where
  "with_project i ev f idx = idx\<lparr>ti_projects := bt_upsert i (new_project i ev) f (ti_projects idx)\<rparr>"

definition with_mission where
  "with_mission i ev f idx = idx\<lparr>ti_missions := bt_upsert i (new_mission i ev) f (ti_missions idx)\<rparr>"

definition with_session where
  "with_session i ev f idx = idx\<lparr>ti_sessions := bt_upsert i (new_session i ev) f (ti_sessions idx)\<rparr>"

definition with_artifact where
  "with_artifact i ev f idx = idx\<lparr>ti_artifacts := bt_upsert i (new_artifact i ev) f (ti_artifacts idx)\<rparr>"

text \<open>\<^verbatim>\<open>if let Some(org) = self.orgs.get_mut(id)\<close> and its like.\<close>

definition adjust_org where
  "adjust_org i f idx = idx\<lparr>ti_orgs := bt_adjust i f (ti_orgs idx)\<rparr>"

definition adjust_mission where
  "adjust_mission i f idx = idx\<lparr>ti_missions := bt_adjust i f (ti_missions idx)\<rparr>"

definition adjust_session where
  "adjust_session i f idx = idx\<lparr>ti_sessions := bt_adjust i f (ti_sessions idx)\<rparr>"

definition adjust_artifact where
  "adjust_artifact i f idx = idx\<lparr>ti_artifacts := bt_adjust i f (ti_artifacts idx)\<rparr>"

definition with_file where
  "with_file path r idx =
     idx\<lparr>ti_files := bt_upsert path (blank_file path)
            (\<lambda>file. file\<lparr>ifl_file_refs := ifl_file_refs file @ [r]\<rparr>) (ti_files idx)\<rparr>"

section \<open>Links\<close>

definition link_project_to_org :: "string \<Rightarrow> string \<Rightarrow> trace_event \<Rightarrow> trace_index \<Rightarrow> trace_index" where
  "link_project_to_org project_id org_id ev idx =
     with_project project_id ev
       (\<lambda>project. project\<lparr>ip_org_id := Some org_id, ip_last_event_at := te_recorded_at ev\<rparr>)
     (with_org org_id ev
       (\<lambda>org. org\<lparr>io_project_ids := bs_insert project_id (io_project_ids org),
                  io_last_event_at := te_recorded_at ev\<rparr>) idx)"

definition link_mission_to_project :: "string \<Rightarrow> string \<Rightarrow> trace_event \<Rightarrow> trace_index \<Rightarrow> trace_index" where
  "link_mission_to_project mission_id project_id ev idx =
     with_mission mission_id ev
       (\<lambda>mission. mission\<lparr>im_project_id := Some project_id, im_last_event_at := te_recorded_at ev\<rparr>)
     (with_project project_id ev
       (\<lambda>project. project\<lparr>ip_mission_ids := bs_insert mission_id (ip_mission_ids project),
                          ip_last_event_at := te_recorded_at ev\<rparr>) idx)"

definition link_session_to_mission :: "string \<Rightarrow> string \<Rightarrow> trace_event \<Rightarrow> trace_index \<Rightarrow> trace_index" where
  "link_session_to_mission session_id mission_id ev idx =
     with_session session_id ev
       (\<lambda>session. session\<lparr>isn_mission_ids := bs_insert mission_id (isn_mission_ids session),
                          isn_last_event_at := te_recorded_at ev\<rparr>)
     (with_mission mission_id ev
       (\<lambda>mission. mission\<lparr>im_session_ids := bs_insert session_id (im_session_ids mission),
                          im_last_event_at := te_recorded_at ev\<rparr>) idx)"

definition link_artifact_to_mission :: "string \<Rightarrow> string \<Rightarrow> trace_event \<Rightarrow> trace_index \<Rightarrow> trace_index" where
  "link_artifact_to_mission artifact_id mission_id ev idx =
     with_artifact artifact_id ev
       (\<lambda>artifact. artifact\<lparr>ia_mission_ids := bs_insert mission_id (ia_mission_ids artifact),
                            ia_last_event_at := te_recorded_at ev\<rparr>)
     (with_mission mission_id ev
       (\<lambda>mission. mission\<lparr>im_artifact_ids := bs_insert artifact_id (im_artifact_ids mission),
                          im_last_event_at := te_recorded_at ev\<rparr>) idx)"

definition link_artifact_to_session :: "string \<Rightarrow> string \<Rightarrow> trace_event \<Rightarrow> trace_index \<Rightarrow> trace_index" where
  "link_artifact_to_session artifact_id session_id ev idx =
     with_artifact artifact_id ev
       (\<lambda>artifact. artifact\<lparr>ia_session_ids := bs_insert session_id (ia_session_ids artifact),
                            ia_last_event_at := te_recorded_at ev\<rparr>)
     (with_session session_id ev
       (\<lambda>session. session\<lparr>isn_artifact_ids := bs_insert artifact_id (isn_artifact_ids session),
                          isn_last_event_at := te_recorded_at ev\<rparr>) idx)"

text \<open>\<^verbatim>\<open>if let Some(id) = event.session_id.as_ref()\<close> before a link.\<close>

definition if_some :: "'a option \<Rightarrow> ('a \<Rightarrow> 'b \<Rightarrow> 'b) \<Rightarrow> 'b \<Rightarrow> 'b" where
  "if_some v f x = (case v of None \<Rightarrow> x | Some i \<Rightarrow> f i x)"

lemma if_some_simps [simp]: "if_some None f x = x" "if_some (Some i) f x = f i x"
  by (simp_all add: if_some_def)

section \<open>Handlers\<close>

definition apply_org_created :: "trace_event \<Rightarrow> trace_index \<Rightarrow> trace_index result" where
  "apply_org_created ev idx =
     (case te_org_id ev of
        None \<Rightarrow> Inr idx
      | Some org_id \<Rightarrow>
          and_then (typed_payload dec_org_created_payload ev) (\<lambda>p.
          Inr (with_org org_id ev
            (\<lambda>org. org\<lparr>io_name := Some (oc_name p), io_description := oc_description p,
               io_repo_context_ids := insert_optional (oc_repo_context_id p) (io_repo_context_ids org),
               io_last_event_at := te_recorded_at ev\<rparr>) idx)))"

definition apply_org_updated :: "trace_event \<Rightarrow> trace_index \<Rightarrow> trace_index result" where
  "apply_org_updated ev idx =
     (case te_org_id ev of
        None \<Rightarrow> Inr idx
      | Some org_id \<Rightarrow>
          and_then (typed_payload dec_org_updated_payload ev) (\<lambda>p.
          Inr (with_org org_id ev
            (\<lambda>org. org\<lparr>io_name := or_else (ou_name p) (io_name org),
               io_description := or_else (ou_description p) (io_description org),
               io_repo_context_ids := insert_optional (ou_repo_context_id p) (io_repo_context_ids org),
               io_last_event_at := te_recorded_at ev\<rparr>) idx)))"

definition apply_project_created :: "trace_event \<Rightarrow> trace_index \<Rightarrow> trace_index result" where
  "apply_project_created ev idx =
     (case te_project_id ev of
        None \<Rightarrow> Inr idx
      | Some project_id \<Rightarrow>
          and_then (typed_payload dec_project_created_payload ev) (\<lambda>p.
          let idx = with_project project_id ev
                (\<lambda>project. project\<lparr>ip_org_id := Some (pc_org_id p), ip_name := Some (pc_name p),
                   ip_description := pc_description p,
                   ip_repo_context_ids :=
                     insert_optional (pc_repo_context_id p) (ip_repo_context_ids project),
                   ip_last_event_at := te_recorded_at ev\<rparr>) idx;
              idx = link_project_to_org project_id (pc_org_id p) ev idx
          in Inr (adjust_org (pc_org_id p)
                (\<lambda>org. org\<lparr>io_repo_context_ids :=
                   insert_optional (pc_repo_context_id p) (io_repo_context_ids org)\<rparr>) idx)))"

definition apply_project_updated :: "trace_event \<Rightarrow> trace_index \<Rightarrow> trace_index result" where
  "apply_project_updated ev idx =
     (case te_project_id ev of
        None \<Rightarrow> Inr idx
      | Some project_id \<Rightarrow>
          and_then (typed_payload dec_project_updated_payload ev) (\<lambda>p.
          let idx = if_some (pu_org_id p) (\<lambda>org_id. link_project_to_org project_id org_id ev) idx
          in Inr (with_project project_id ev
               (\<lambda>project. project\<lparr>ip_org_id := or_else (pu_org_id p) (ip_org_id project),
                  ip_name := or_else (pu_name p) (ip_name project),
                  ip_description := or_else (pu_description p) (ip_description project),
                  ip_repo_context_ids :=
                    insert_optional (pu_repo_context_id p) (ip_repo_context_ids project),
                  ip_last_event_at := te_recorded_at ev\<rparr>) idx)))"

definition apply_mission_created :: "trace_event \<Rightarrow> trace_index \<Rightarrow> trace_index result" where
  "apply_mission_created ev idx =
     (case te_mission_id ev of
        None \<Rightarrow> Inr idx
      | Some mission_id \<Rightarrow>
          and_then (typed_payload dec_mission_created_payload ev) (\<lambda>p.
          let idx = link_mission_to_project mission_id (mc_project_id p) ev idx
          in Inr (with_mission mission_id ev
               (\<lambda>mission. mission\<lparr>im_project_id := Some (mc_project_id p),
                  im_title := Some (mc_title p), im_description := mc_description p,
                  im_status := mc_status p,
                  im_repo_context_ids :=
                    insert_optional (mc_repo_context_id p) (im_repo_context_ids mission),
                  im_last_event_at := te_recorded_at ev\<rparr>) idx)))"

definition apply_mission_updated :: "trace_event \<Rightarrow> trace_index \<Rightarrow> trace_index result" where
  "apply_mission_updated ev idx =
     (case te_mission_id ev of
        None \<Rightarrow> Inr idx
      | Some mission_id \<Rightarrow>
          and_then (typed_payload dec_mission_updated_payload ev) (\<lambda>p.
          let idx = if_some (mu_project_id p) (\<lambda>project_id. link_mission_to_project mission_id project_id ev) idx
          in Inr (with_mission mission_id ev
               (\<lambda>mission. mission\<lparr>im_project_id := or_else (mu_project_id p) (im_project_id mission),
                  im_title := or_else (mu_title p) (im_title mission),
                  im_description := or_else (mu_description p) (im_description mission),
                  im_status := unwrap_or (mu_status p) (im_status mission),
                  im_repo_context_ids :=
                    insert_optional (mu_repo_context_id p) (im_repo_context_ids mission),
                  im_last_event_at := te_recorded_at ev\<rparr>) idx)))"

definition apply_session_started :: "trace_event \<Rightarrow> trace_index \<Rightarrow> trace_index result" where
  "apply_session_started ev idx =
     (case te_session_id ev of
        None \<Rightarrow> Inr idx
      | Some session_id \<Rightarrow>
          and_then (typed_payload dec_session_started_payload ev) (\<lambda>p.
          let idx = with_session session_id ev
                (\<lambda>session. session\<lparr>isn_session_name := st_session_name p,
                   isn_actor_id := Some (actor_id (te_actor ev)),
                   isn_actor_type := Some (actor_type (te_actor ev)),
                   isn_source := st_source p,
                   isn_repo_context_ids :=
                     insert_optional (st_repo_context_id p) (isn_repo_context_ids session),
                   isn_last_event_at := te_recorded_at ev\<rparr>) idx
          in Inr (if_some (te_mission_id ev) (\<lambda>mission_id. link_session_to_mission session_id mission_id ev) idx)))"

definition apply_session_linked :: "trace_event \<Rightarrow> trace_index \<Rightarrow> trace_index result" where
  "apply_session_linked ev idx =
     (case te_session_id ev of
        None \<Rightarrow> Inr idx
      | Some session_id \<Rightarrow>
     (case te_mission_id ev of
        None \<Rightarrow> Inr idx
      | Some mission_id \<Rightarrow>
          and_then (typed_payload dec_session_linked_payload ev) (\<lambda>p.
          let idx = link_session_to_mission session_id mission_id ev idx;
              idx = adjust_session session_id
                (\<lambda>session. session\<lparr>isn_repo_context_ids :=
                   insert_optional (sl_repo_context_id p) (isn_repo_context_ids session)\<rparr>) idx
          in Inr (adjust_mission mission_id
                (\<lambda>mission. mission\<lparr>im_repo_context_ids :=
                   insert_optional (sl_repo_context_id p) (im_repo_context_ids mission)\<rparr>) idx))))"

definition apply_session_log_uploaded :: "trace_event \<Rightarrow> trace_index \<Rightarrow> trace_index result" where
  "apply_session_log_uploaded ev idx =
     (case te_session_id ev of
        None \<Rightarrow> Inr idx
      | Some session_id \<Rightarrow>
          and_then (typed_payload dec_session_log_uploaded_payload ev) (\<lambda>p.
          let idx = idx\<lparr>ti_session_logs := bt_insert (lu_log_ref_id p)
                \<lparr>isl_log_ref_id = lu_log_ref_id p, isl_session_id = session_id,
                 isl_original_path = lu_original_path p, isl_format = lu_format p,
                 isl_source = lu_source p, isl_sha256 = lu_sha256 p,
                 isl_size_bytes = lu_size_bytes p, isl_storage_uri = lu_storage_uri p,
                 isl_local_path = lu_local_path p, isl_external_uri = lu_external_uri p,
                 isl_availability = lu_availability p,
                 isl_repo_context_id = lu_repo_context_id p,
                 isl_uploaded_at = te_recorded_at ev\<rparr> (ti_session_logs idx)\<rparr>
          in Inr (with_session session_id ev
               (\<lambda>session. session\<lparr>isn_log_ref_ids := bs_insert (lu_log_ref_id p) (isn_log_ref_ids session),
                  isn_repo_context_ids :=
                    insert_optional (lu_repo_context_id p) (isn_repo_context_ids session),
                  isn_last_event_at := te_recorded_at ev\<rparr>) idx)))"

definition apply_artifact_created :: "trace_event \<Rightarrow> trace_index \<Rightarrow> trace_index result" where
  "apply_artifact_created ev idx =
     (case te_artifact_id ev of
        None \<Rightarrow> Inr idx
      | Some artifact_id \<Rightarrow>
          and_then (typed_payload dec_artifact_created_payload ev) (\<lambda>p.
          let idx = with_artifact artifact_id ev
                (\<lambda>artifact. artifact\<lparr>ia_artifact_kind := Some (ac_artifact_kind p),
                   ia_title := Some (ac_title p), ia_body := ac_body p,
                   ia_repo_context_ids :=
                     insert_optional (ac_repo_context_id p) (ia_repo_context_ids artifact),
                   ia_last_event_at := te_recorded_at ev\<rparr>) idx;
              idx = if_some (te_mission_id ev) (\<lambda>mission_id. link_artifact_to_mission artifact_id mission_id ev) idx
          in Inr (if_some (te_session_id ev) (\<lambda>session_id. link_artifact_to_session artifact_id session_id ev) idx)))"

definition apply_artifact_updated :: "trace_event \<Rightarrow> trace_index \<Rightarrow> trace_index result" where
  "apply_artifact_updated ev idx =
     (case te_artifact_id ev of
        None \<Rightarrow> Inr idx
      | Some artifact_id \<Rightarrow>
          and_then (typed_payload dec_artifact_updated_payload ev) (\<lambda>p.
          let idx = with_artifact artifact_id ev
                (\<lambda>artifact. artifact\<lparr>ia_title := or_else (au_title p) (ia_title artifact),
                   ia_body := or_else (au_body p) (ia_body artifact),
                   ia_artifact_kind := or_else (au_artifact_kind p) (ia_artifact_kind artifact),
                   ia_repo_context_ids :=
                     insert_optional (au_repo_context_id p) (ia_repo_context_ids artifact),
                   ia_last_event_at := te_recorded_at ev\<rparr>) idx
          in Inr (if_some (te_session_id ev) (\<lambda>session_id. link_artifact_to_session artifact_id session_id ev) idx)))"

definition apply_artifact_linked :: "trace_event \<Rightarrow> trace_index \<Rightarrow> trace_index result" where
  "apply_artifact_linked ev idx =
     (case te_artifact_id ev of
        None \<Rightarrow> Inr idx
      | Some artifact_id \<Rightarrow>
     (case te_mission_id ev of
        None \<Rightarrow> Inr idx
      | Some mission_id \<Rightarrow>
          and_then (typed_payload dec_artifact_linked_payload ev) (\<lambda>p.
          let idx = link_artifact_to_mission artifact_id mission_id ev idx;
              idx = adjust_artifact artifact_id
                (\<lambda>artifact. artifact\<lparr>ia_repo_context_ids :=
                   insert_optional (al_repo_context_id p) (ia_repo_context_ids artifact)\<rparr>) idx
          in Inr (adjust_mission mission_id
                (\<lambda>mission. mission\<lparr>im_repo_context_ids :=
                   insert_optional (al_repo_context_id p) (im_repo_context_ids mission)\<rparr>) idx))))"

text \<open>
  A file reference updates the artifact only when the index already holds it
  (\<^verbatim>\<open>get_mut\<close>), unlike the attachment and diff handlers below.
\<close>

definition apply_artifact_file_ref :: "trace_event \<Rightarrow> trace_index \<Rightarrow> trace_index result" where
  "apply_artifact_file_ref ev idx =
     (case te_artifact_id ev of
        None \<Rightarrow> Inr idx
      | Some artifact_id \<Rightarrow>
          and_then (typed_payload dec_artifact_file_ref_payload ev) (\<lambda>p.
          let idx = with_file (fr_path p)
                \<lparr>ifr_file_ref_id = fr_file_ref_id p, ifr_artifact_id = artifact_id,
                 ifr_session_id = te_session_id ev, ifr_repo_context_id = fr_repo_context_id p,
                 ifr_recorded_at = te_recorded_at ev\<rparr> idx;
              idx = adjust_artifact artifact_id
                (\<lambda>artifact. artifact\<lparr>ia_file_paths := bs_insert (fr_path p) (ia_file_paths artifact),
                   ia_repo_context_ids :=
                     insert_optional (fr_repo_context_id p) (ia_repo_context_ids artifact),
                   ia_last_event_at := te_recorded_at ev\<rparr>) idx
          in Inr (if_some (te_session_id ev) (\<lambda>session_id. link_artifact_to_session artifact_id session_id ev) idx)))"

definition apply_artifact_attachment_uploaded :: "trace_event \<Rightarrow> trace_index \<Rightarrow> trace_index result" where
  "apply_artifact_attachment_uploaded ev idx =
     (case te_artifact_id ev of
        None \<Rightarrow> Inr idx
      | Some artifact_id \<Rightarrow>
          and_then (typed_payload dec_artifact_attachment_payload ev) (\<lambda>p.
          let idx = idx\<lparr>ti_attachments := bt_insert (at_attachment_id p)
                \<lparr>iat_attachment_id = at_attachment_id p, iat_artifact_id = artifact_id,
                 iat_session_id = te_session_id ev, iat_name = at_name p,
                 iat_original_path = at_original_path p, iat_content_type = at_content_type p,
                 iat_sha256 = at_sha256 p, iat_size_bytes = at_size_bytes p,
                 iat_storage_uri = at_storage_uri p, iat_external_uri = at_external_uri p,
                 iat_availability = at_availability p,
                 iat_repo_context_id = at_repo_context_id p,
                 iat_uploaded_at = te_recorded_at ev\<rparr> (ti_attachments idx)\<rparr>;
              idx = with_artifact artifact_id ev
                (\<lambda>artifact. artifact\<lparr>ia_attachment_ids :=
                     bs_insert (at_attachment_id p) (ia_attachment_ids artifact),
                   ia_repo_context_ids :=
                     insert_optional (at_repo_context_id p) (ia_repo_context_ids artifact),
                   ia_last_event_at := te_recorded_at ev\<rparr>) idx
          in Inr (if_some (te_session_id ev) (\<lambda>session_id. link_artifact_to_session artifact_id session_id ev) idx)))"

definition indexed_change :: "diff_file_change \<Rightarrow> indexed_diff_file_change" where
  "indexed_change c =
     \<lparr>ich_path = fc_path c, ich_old_path = fc_old_path c, ich_change_kind = fc_change_kind c,
      ich_additions = fc_additions c, ich_deletions = fc_deletions c, ich_hunks = fc_hunks c\<rparr>"

definition indexed_diff_of :: "trace_event \<Rightarrow> string \<Rightarrow> diff_captured_payload \<Rightarrow> indexed_diff" where
  "indexed_diff_of ev artifact_id p =
     \<lparr>idf_diff_id = te_event_id ev, idf_artifact_id = artifact_id,
      idf_session_id = te_session_id ev, idf_mission_id = te_mission_id ev,
      idf_diff_target = dc_diff_target p, idf_base_commit = dc_base_commit p,
      idf_head_commit = dc_head_commit p, idf_patch_id = dc_patch_id p,
      idf_summary_hash = dc_summary_hash p, idf_file_count = length (dc_file_changes p),
      idf_additions = sum_list (List.map_filter fc_additions (dc_file_changes p)),
      idf_deletions = sum_list (List.map_filter fc_deletions (dc_file_changes p)),
      idf_binary_file_count =
        length (filter (\<lambda>c. fc_additions c = None \<or> fc_deletions c = None) (dc_file_changes p)),
      idf_repo_context_id = dc_repo_context_id p, idf_captured_at = te_recorded_at ev,
      idf_file_changes = map indexed_change (dc_file_changes p)\<rparr>"

definition diff_file_ref :: "trace_event \<Rightarrow> string \<Rightarrow> diff_captured_payload \<Rightarrow> indexed_file_ref" where
  "diff_file_ref ev artifact_id p =
     \<lparr>ifr_file_ref_id = te_event_id ev, ifr_artifact_id = artifact_id,
      ifr_session_id = te_session_id ev, ifr_repo_context_id = dc_repo_context_id p,
      ifr_recorded_at = te_recorded_at ev\<rparr>"

definition record_diff :: "trace_event \<Rightarrow> string \<Rightarrow> diff_captured_payload \<Rightarrow> trace_index \<Rightarrow> trace_index" where
  "record_diff ev artifact_id p idx =
     (let idx = idx\<lparr>ti_diffs := bt_insert (te_event_id ev) (indexed_diff_of ev artifact_id p) (ti_diffs idx)\<rparr>;
          idx = with_artifact artifact_id ev
            (\<lambda>artifact. artifact\<lparr>ia_diff_ids := bs_insert (te_event_id ev) (ia_diff_ids artifact),
               ia_repo_context_ids :=
                 insert_optional (dc_repo_context_id p) (ia_repo_context_ids artifact),
               ia_last_event_at := te_recorded_at ev,
               ia_file_paths := fold (\<lambda>c. bs_insert (fc_path c)) (dc_file_changes p) (ia_file_paths artifact)\<rparr>) idx
      in fold (\<lambda>c. with_file (fc_path c) (diff_file_ref ev artifact_id p)) (dc_file_changes p) idx)"

definition apply_diff_captured :: "trace_event \<Rightarrow> trace_index \<Rightarrow> trace_index result" where
  "apply_diff_captured ev idx =
     (case te_artifact_id ev of
        None \<Rightarrow> Inr idx
      | Some artifact_id \<Rightarrow>
          and_then (typed_payload dec_diff_captured_payload ev) (\<lambda>p.
          let idx = record_diff ev artifact_id p idx;
              idx = if_some (te_session_id ev) (\<lambda>session_id. link_artifact_to_session artifact_id session_id ev) idx
          in Inr (if_some (te_mission_id ev) (\<lambda>mission_id. link_artifact_to_mission artifact_id mission_id ev) idx)))"

definition apply_repo_context_captured :: "trace_event \<Rightarrow> trace_index \<Rightarrow> trace_index result" where
  "apply_repo_context_captured ev idx =
     (case te_repo_context_id ev of
        None \<Rightarrow> Inr idx
      | Some repo_context_id \<Rightarrow>
          and_then (typed_payload dec_repo_context_payload ev) (\<lambda>p.
          Inr (idx\<lparr>ti_repo_contexts := bt_insert repo_context_id
            \<lparr>irc_repo_context_id = repo_context_id, irc_branch = rc_branch p,
             irc_head_commit = rc_head_commit p, irc_dirty = rc_dirty p,
             irc_captured_at = te_recorded_at ev\<rparr> (ti_repo_contexts idx)\<rparr>)))"

section \<open>Dispatch and build\<close>

definition apply_event :: "trace_event \<Rightarrow> trace_index \<Rightarrow> trace_index result" where
  "apply_event ev idx =
     (case te_event_type ev of
        OrgCreated \<Rightarrow> apply_org_created ev idx
      | OrgUpdated \<Rightarrow> apply_org_updated ev idx
      | ProjectCreated \<Rightarrow> apply_project_created ev idx
      | ProjectUpdated \<Rightarrow> apply_project_updated ev idx
      | MissionCreated \<Rightarrow> apply_mission_created ev idx
      | MissionUpdated \<Rightarrow> apply_mission_updated ev idx
      | SessionStarted \<Rightarrow> apply_session_started ev idx
      | SessionLinkedToMission \<Rightarrow> apply_session_linked ev idx
      | SessionLogUploaded \<Rightarrow> apply_session_log_uploaded ev idx
      | ArtifactCreated \<Rightarrow> apply_artifact_created ev idx
      | ArtifactUpdated \<Rightarrow> apply_artifact_updated ev idx
      | ArtifactLinkedToMission \<Rightarrow> apply_artifact_linked ev idx
      | ArtifactFileRefRecorded \<Rightarrow> apply_artifact_file_ref ev idx
      | ArtifactAttachmentUploaded \<Rightarrow> apply_artifact_attachment_uploaded ev idx
      | DiffCaptured \<Rightarrow> apply_diff_captured ev idx
      | RepoContextCaptured \<Rightarrow> apply_repo_context_captured ev idx
      | ArtifactReviewed \<Rightarrow> Inr idx
      | ArtifactAccepted \<Rightarrow> Inr idx
      | ExternalRefLinked \<Rightarrow> Inr idx
      | SourceSessionObserved \<Rightarrow> Inr idx)"

definition empty_index :: "instant \<Rightarrow> nat \<Rightarrow> trace_index" where
  "empty_index now n =
     \<lparr>ti_schema_version = index_schema_version, ti_rebuilt_at = now, ti_event_count = n,
      ti_orgs = [], ti_projects = [], ti_missions = [], ti_sessions = [], ti_artifacts = [],
      ti_attachments = [], ti_diffs = [], ti_session_logs = [], ti_files = [], ti_repo_contexts = []\<rparr>"

fun apply_events :: "trace_event list \<Rightarrow> trace_index \<Rightarrow> trace_index result" where
  "apply_events [] idx = Inr idx"
| "apply_events (ev # evs) idx =
     (case apply_event ev idx of Inl e \<Rightarrow> Inl e | Inr idx' \<Rightarrow> apply_events evs idx')"

definition build_index :: "instant \<Rightarrow> trace_event list \<Rightarrow> trace_index result" where
  "build_index now evs = apply_events evs (empty_index now (length evs))"

lemmas with_defs =
  with_org_def with_project_def with_mission_def with_session_def with_artifact_def with_file_def

lemmas adjust_defs =
  adjust_org_def adjust_mission_def adjust_session_def adjust_artifact_def

lemmas new_defs = new_org_def new_project_def new_mission_def new_session_def new_artifact_def

lemmas link_defs =
  link_project_to_org_def link_mission_to_project_def link_session_to_mission_def
  link_artifact_to_mission_def link_artifact_to_session_def

lemmas handler_defs =
  apply_org_created_def apply_org_updated_def apply_project_created_def apply_project_updated_def
  apply_mission_created_def apply_mission_updated_def apply_session_started_def
  apply_session_linked_def apply_session_log_uploaded_def apply_artifact_created_def
  apply_artifact_updated_def apply_artifact_linked_def apply_artifact_file_ref_def
  apply_artifact_attachment_uploaded_def apply_diff_captured_def apply_repo_context_captured_def

end
