(* ===== verification/Index_Graph.thy ===== *)
theory Index_Graph imports Trace_Index begin

text \<open>
  The graph that the index materialises. Each edge set of an entity is read as a function from
  ids to sets of ids, and each is characterised by the events alone: \<open>*_links ev\<close> are the edges
  that one event declares, and the edges of a built index are the union over the log.
\<close>

section \<open>Edges\<close>

definition edge_set :: "('v \<Rightarrow> string list) \<Rightarrow> (string, 'v) btree \<Rightarrow> string \<Rightarrow> string set" where
  "edge_set sel m k = (case bt_get m k of None \<Rightarrow> {} | Some v \<Rightarrow> set (sel v))"

lemma edge_set_upsert:
  "edge_set sel (bt_upsert k b f m) =
     (edge_set sel m)(k := set (sel (f (unwrap_or (bt_get m k) b))))"
  by (auto simp: edge_set_def map_of_bt_upsert fun_eq_iff)

lemma edge_set_adjust:
  "(\<And>v. set (sel (f v)) = set (sel v)) \<Longrightarrow> edge_set sel (bt_adjust k f m) = edge_set sel m"
  by (auto simp: edge_set_def map_of_bt_adjust fun_eq_iff split: option.splits)

lemma edge_set_at: "sel b = [] \<Longrightarrow> set (sel (unwrap_or (bt_get m k) b)) = edge_set sel m k"
  by (simp add: edge_set_def split: option.split)

definition org_projects :: "trace_index \<Rightarrow> string \<Rightarrow> string set" where
  "org_projects idx = edge_set io_project_ids (ti_orgs idx)"

definition project_missions :: "trace_index \<Rightarrow> string \<Rightarrow> string set" where
  "project_missions idx = edge_set ip_mission_ids (ti_projects idx)"

definition mission_sessions :: "trace_index \<Rightarrow> string \<Rightarrow> string set" where
  "mission_sessions idx = edge_set im_session_ids (ti_missions idx)"

definition mission_artifacts :: "trace_index \<Rightarrow> string \<Rightarrow> string set" where
  "mission_artifacts idx = edge_set im_artifact_ids (ti_missions idx)"

definition session_missions :: "trace_index \<Rightarrow> string \<Rightarrow> string set" where
  "session_missions idx = edge_set isn_mission_ids (ti_sessions idx)"

definition session_artifacts :: "trace_index \<Rightarrow> string \<Rightarrow> string set" where
  "session_artifacts idx = edge_set isn_artifact_ids (ti_sessions idx)"

definition session_log_refs :: "trace_index \<Rightarrow> string \<Rightarrow> string set" where
  "session_log_refs idx = edge_set isn_log_ref_ids (ti_sessions idx)"

definition artifact_missions :: "trace_index \<Rightarrow> string \<Rightarrow> string set" where
  "artifact_missions idx = edge_set ia_mission_ids (ti_artifacts idx)"

definition artifact_sessions :: "trace_index \<Rightarrow> string \<Rightarrow> string set" where
  "artifact_sessions idx = edge_set ia_session_ids (ti_artifacts idx)"

definition artifact_attachments :: "trace_index \<Rightarrow> string \<Rightarrow> string set" where
  "artifact_attachments idx = edge_set ia_attachment_ids (ti_artifacts idx)"

definition artifact_diffs :: "trace_index \<Rightarrow> string \<Rightarrow> string set" where
  "artifact_diffs idx = edge_set ia_diff_ids (ti_artifacts idx)"

lemmas view_defs =
  org_projects_def project_missions_def mission_sessions_def mission_artifacts_def
  session_missions_def session_artifacts_def session_log_refs_def artifact_missions_def
  artifact_sessions_def artifact_attachments_def artifact_diffs_def

lemmas edge_at =
  edge_set_at [where sel = io_project_ids] edge_set_at [where sel = ip_mission_ids]
  edge_set_at [where sel = im_session_ids] edge_set_at [where sel = im_artifact_ids]
  edge_set_at [where sel = isn_mission_ids] edge_set_at [where sel = isn_artifact_ids]
  edge_set_at [where sel = isn_log_ref_ids] edge_set_at [where sel = ia_mission_ids]
  edge_set_at [where sel = ia_session_ids] edge_set_at [where sel = ia_attachment_ids]
  edge_set_at [where sel = ia_diff_ids]

lemma new_edges [simp]:
  "io_project_ids (new_org i ev) = []"
  "ip_mission_ids (new_project i ev) = []"
  "im_session_ids (new_mission i ev) = []" "im_artifact_ids (new_mission i ev) = []"
  "isn_mission_ids (new_session i ev) = []" "isn_artifact_ids (new_session i ev) = []"
  "isn_log_ref_ids (new_session i ev) = []"
  "ia_mission_ids (new_artifact i ev) = []" "ia_session_ids (new_artifact i ev) = []"
  "ia_attachment_ids (new_artifact i ev) = []" "ia_diff_ids (new_artifact i ev) = []"
  by (simp_all add: new_defs blank_defs)

lemma fold_with_file:
  "\<exists>fs. fold (\<lambda>c. with_file (g c) r) cs idx = idx\<lparr>ti_files := fs\<rparr>"
proof (induction cs arbitrary: idx)
  case Nil
  show ?case by (rule exI [of _ "ti_files idx"]) simp
next
  case (Cons c cs)
  then obtain fs where "fold (\<lambda>c. with_file (g c) r) cs (with_file (g c) r idx) =
      (with_file (g c) r idx)\<lparr>ti_files := fs\<rparr>" by blast
  moreover have "\<exists>gs. with_file (g c) r idx = idx\<lparr>ti_files := gs\<rparr>" by (auto simp: with_file_def)
  ultimately show ?case by auto
qed

lemma fold_with_file_views [simp]:
  "ti_orgs (fold (\<lambda>c. with_file (g c) r) cs idx) = ti_orgs idx"
  "ti_projects (fold (\<lambda>c. with_file (g c) r) cs idx) = ti_projects idx"
  "ti_missions (fold (\<lambda>c. with_file (g c) r) cs idx) = ti_missions idx"
  "ti_sessions (fold (\<lambda>c. with_file (g c) r) cs idx) = ti_sessions idx"
  "ti_artifacts (fold (\<lambda>c. with_file (g c) r) cs idx) = ti_artifacts idx"
  "ti_attachments (fold (\<lambda>c. with_file (g c) r) cs idx) = ti_attachments idx"
  "ti_diffs (fold (\<lambda>c. with_file (g c) r) cs idx) = ti_diffs idx"
  "ti_session_logs (fold (\<lambda>c. with_file (g c) r) cs idx) = ti_session_logs idx"
  "ti_repo_contexts (fold (\<lambda>c. with_file (g c) r) cs idx) = ti_repo_contexts idx"
  "ti_event_count (fold (\<lambda>c. with_file (g c) r) cs idx) = ti_event_count idx"
  "ti_schema_version (fold (\<lambda>c. with_file (g c) r) cs idx) = ti_schema_version idx"
  "ti_rebuilt_at (fold (\<lambda>c. with_file (g c) r) cs idx) = ti_rebuilt_at idx"
  using fold_with_file [of g r cs idx] by auto

text \<open>The laws of the views under each way a handler touches the index.\<close>

lemmas edge_laws =
  view_defs edge_set_upsert edge_set_adjust edge_at with_defs adjust_defs link_defs

section \<open>The edges an event declares\<close>

definition add_links :: "(string \<times> string) set \<Rightarrow> (string \<Rightarrow> string set) \<Rightarrow> string \<Rightarrow> string set" where
  "add_links L R a = R a \<union> {b. (a, b) \<in> L}"

definition opt_pair :: "string option \<Rightarrow> string option \<Rightarrow> (string \<times> string) set" where
  "opt_pair a b = {(x, y). a = Some x \<and> b = Some y}"

lemma opt_pair_simps [simp]:
  "opt_pair None b = {}" "opt_pair a None = {}" "opt_pair (Some x) (Some y) = {(x, y)}"
  by (auto simp: opt_pair_def)

lemma add_links_simps [simp]:
  "add_links {} R = R"
  "R(a := insert b (R a)) = add_links {(a, b)} R"
  "(add_links {(a, b)} R)(a := insert b (R a)) = add_links {(a, b)} R"
  "add_links L R a = R a \<union> {b. (a, b) \<in> L}"
  "{(x, y)}\<inverse> = {(y, x)}"
  by (auto simp: add_links_def fun_eq_iff)

definition session_mission_links :: "trace_event \<Rightarrow> (string \<times> string) set" where
  "session_mission_links ev =
     (if te_event_type ev \<in> {SessionStarted, SessionLinkedToMission}
      then opt_pair (te_session_id ev) (te_mission_id ev) else {})"

definition artifact_mission_links :: "trace_event \<Rightarrow> (string \<times> string) set" where
  "artifact_mission_links ev =
     (if te_event_type ev \<in> {ArtifactCreated, ArtifactLinkedToMission, DiffCaptured}
      then opt_pair (te_artifact_id ev) (te_mission_id ev) else {})"

definition artifact_session_links :: "trace_event \<Rightarrow> (string \<times> string) set" where
  "artifact_session_links ev =
     (if te_event_type ev \<in> {ArtifactCreated, ArtifactUpdated, ArtifactFileRefRecorded,
           ArtifactAttachmentUploaded, DiffCaptured}
      then opt_pair (te_artifact_id ev) (te_session_id ev) else {})"

definition artifact_diff_links :: "trace_event \<Rightarrow> (string \<times> string) set" where
  "artifact_diff_links ev =
     (if te_event_type ev = DiffCaptured
      then opt_pair (te_artifact_id ev) (Some (te_event_id ev)) else {})"

definition payload_links :: "trace_event \<Rightarrow> (payload \<Rightarrow> (string \<times> string) set) \<Rightarrow> (string \<times> string) set" where
  "payload_links ev f =
     (case dec_payload (te_event_type ev) (te_payload ev) of None \<Rightarrow> {} | Some p \<Rightarrow> f p)"

definition org_project_links :: "trace_event \<Rightarrow> (string \<times> string) set" where
  "org_project_links ev = payload_links ev (\<lambda>p. case p of
       P_ProjectCreated q \<Rightarrow> opt_pair (Some (pc_org_id q)) (te_project_id ev)
     | P_ProjectUpdated q \<Rightarrow> opt_pair (pu_org_id q) (te_project_id ev)
     | _ \<Rightarrow> {})"

definition project_mission_links :: "trace_event \<Rightarrow> (string \<times> string) set" where
  "project_mission_links ev = payload_links ev (\<lambda>p. case p of
       P_MissionCreated q \<Rightarrow> opt_pair (Some (mc_project_id q)) (te_mission_id ev)
     | P_MissionUpdated q \<Rightarrow> opt_pair (mu_project_id q) (te_mission_id ev)
     | _ \<Rightarrow> {})"

definition session_log_links :: "trace_event \<Rightarrow> (string \<times> string) set" where
  "session_log_links ev = payload_links ev (\<lambda>p. case p of
       P_SessionLogUploaded q \<Rightarrow> opt_pair (te_session_id ev) (Some (lu_log_ref_id q))
     | _ \<Rightarrow> {})"

definition artifact_attachment_links :: "trace_event \<Rightarrow> (string \<times> string) set" where
  "artifact_attachment_links ev = payload_links ev (\<lambda>p. case p of
       P_ArtifactAttachmentUploaded q \<Rightarrow> opt_pair (te_artifact_id ev) (Some (at_attachment_id q))
     | _ \<Rightarrow> {})"

lemmas link_sets =
  session_mission_links_def artifact_mission_links_def artifact_session_links_def
  artifact_diff_links_def payload_links_def org_project_links_def project_mission_links_def
  session_log_links_def artifact_attachment_links_def

definition links_added :: "trace_event \<Rightarrow> trace_index \<Rightarrow> trace_index \<Rightarrow> bool" where
  "links_added ev idx idx' \<longleftrightarrow>
     org_projects idx' = add_links (org_project_links ev) (org_projects idx) \<and>
     project_missions idx' = add_links (project_mission_links ev) (project_missions idx) \<and>
     session_missions idx' = add_links (session_mission_links ev) (session_missions idx) \<and>
     mission_sessions idx' = add_links ((session_mission_links ev)\<inverse>) (mission_sessions idx) \<and>
     artifact_missions idx' = add_links (artifact_mission_links ev) (artifact_missions idx) \<and>
     mission_artifacts idx' = add_links ((artifact_mission_links ev)\<inverse>) (mission_artifacts idx) \<and>
     artifact_sessions idx' = add_links (artifact_session_links ev) (artifact_sessions idx) \<and>
     session_artifacts idx' = add_links ((artifact_session_links ev)\<inverse>) (session_artifacts idx) \<and>
     session_log_refs idx' = add_links (session_log_links ev) (session_log_refs idx) \<and>
     artifact_attachments idx' = add_links (artifact_attachment_links ev) (artifact_attachments idx) \<and>
     artifact_diffs idx' = add_links (artifact_diff_links ev) (artifact_diffs idx)"

lemmas handler_laws =
  links_added_def handler_defs typed_payload_def ok_or_Inr_iff and_then_Inr_iff Let_def link_sets edge_laws

lemma apply_org_created_links:
  "te_event_type ev = OrgCreated \<Longrightarrow> apply_org_created ev idx = Inr idx' \<Longrightarrow> links_added ev idx idx'"
  by (auto simp: handler_laws split: option.splits)

lemma apply_org_updated_links:
  "te_event_type ev = OrgUpdated \<Longrightarrow> apply_org_updated ev idx = Inr idx' \<Longrightarrow> links_added ev idx idx'"
  by (auto simp: handler_laws split: option.splits)

lemma apply_project_created_links:
  "te_event_type ev = ProjectCreated \<Longrightarrow> apply_project_created ev idx = Inr idx' \<Longrightarrow> links_added ev idx idx'"
  by (auto simp: handler_laws split: option.splits)

lemma apply_project_updated_links:
  "te_event_type ev = ProjectUpdated \<Longrightarrow> apply_project_updated ev idx = Inr idx' \<Longrightarrow> links_added ev idx idx'"
  by (cases "te_project_id ev"; cases "dec_project_updated_payload (te_payload ev)";
      cases "pu_org_id (the (dec_project_updated_payload (te_payload ev)))") (auto simp: handler_laws)

lemma apply_mission_created_links:
  "te_event_type ev = MissionCreated \<Longrightarrow> apply_mission_created ev idx = Inr idx' \<Longrightarrow> links_added ev idx idx'"
  by (auto simp: handler_laws split: option.splits)

lemma apply_mission_updated_links:
  "te_event_type ev = MissionUpdated \<Longrightarrow> apply_mission_updated ev idx = Inr idx' \<Longrightarrow> links_added ev idx idx'"
  by (cases "te_mission_id ev"; cases "dec_mission_updated_payload (te_payload ev)";
      cases "mu_project_id (the (dec_mission_updated_payload (te_payload ev)))") (auto simp: handler_laws)

lemma apply_session_started_links:
  "te_event_type ev = SessionStarted \<Longrightarrow> apply_session_started ev idx = Inr idx' \<Longrightarrow> links_added ev idx idx'"
  by (cases "te_session_id ev"; cases "te_mission_id ev") (auto simp: handler_laws split: option.splits)

lemma apply_session_linked_links:
  "te_event_type ev = SessionLinkedToMission \<Longrightarrow> apply_session_linked ev idx = Inr idx' \<Longrightarrow> links_added ev idx idx'"
  by (cases "te_session_id ev"; cases "te_mission_id ev") (auto simp: handler_laws split: option.splits)

lemma apply_session_log_uploaded_links:
  "te_event_type ev = SessionLogUploaded \<Longrightarrow> apply_session_log_uploaded ev idx = Inr idx' \<Longrightarrow> links_added ev idx idx'"
  by (auto simp: handler_laws split: option.splits)

lemma apply_artifact_created_links:
  "te_event_type ev = ArtifactCreated \<Longrightarrow> apply_artifact_created ev idx = Inr idx' \<Longrightarrow> links_added ev idx idx'"
  by (cases "te_artifact_id ev"; cases "te_mission_id ev"; cases "te_session_id ev") (auto simp: handler_laws split: option.splits)

lemma apply_artifact_updated_links:
  "te_event_type ev = ArtifactUpdated \<Longrightarrow> apply_artifact_updated ev idx = Inr idx' \<Longrightarrow> links_added ev idx idx'"
  by (cases "te_artifact_id ev"; cases "te_session_id ev") (auto simp: handler_laws split: option.splits)

lemma apply_artifact_linked_links:
  "te_event_type ev = ArtifactLinkedToMission \<Longrightarrow> apply_artifact_linked ev idx = Inr idx' \<Longrightarrow> links_added ev idx idx'"
  by (cases "te_artifact_id ev"; cases "te_mission_id ev") (auto simp: handler_laws split: option.splits)

lemma apply_artifact_file_ref_links:
  "te_event_type ev = ArtifactFileRefRecorded \<Longrightarrow> apply_artifact_file_ref ev idx = Inr idx' \<Longrightarrow> links_added ev idx idx'"
  by (cases "te_artifact_id ev"; cases "te_session_id ev") (auto simp: handler_laws split: option.splits)

lemma apply_artifact_attachment_uploaded_links:
  "te_event_type ev = ArtifactAttachmentUploaded \<Longrightarrow> apply_artifact_attachment_uploaded ev idx = Inr idx' \<Longrightarrow> links_added ev idx idx'"
  by (cases "te_artifact_id ev"; cases "te_session_id ev") (auto simp: handler_laws split: option.splits)

lemma record_diff_views:
  "ti_orgs (record_diff ev a p idx) = ti_orgs idx"
  "ti_projects (record_diff ev a p idx) = ti_projects idx"
  "ti_missions (record_diff ev a p idx) = ti_missions idx"
  "ti_sessions (record_diff ev a p idx) = ti_sessions idx"
  "edge_set ia_mission_ids (ti_artifacts (record_diff ev a p idx)) = artifact_missions idx"
  "edge_set ia_session_ids (ti_artifacts (record_diff ev a p idx)) = artifact_sessions idx"
  "edge_set ia_attachment_ids (ti_artifacts (record_diff ev a p idx)) = artifact_attachments idx"
  "edge_set ia_diff_ids (ti_artifacts (record_diff ev a p idx)) =
     add_links {(a, te_event_id ev)} (artifact_diffs idx)"
  by (simp_all add: record_diff_def Let_def edge_laws)

lemma record_diff_links:
  assumes "te_event_type ev = DiffCaptured" "te_artifact_id ev = Some a"
    "dec_diff_captured_payload (te_payload ev) = Some p"
  shows "te_mission_id ev = None \<Longrightarrow> te_session_id ev = None \<Longrightarrow> links_added ev idx (record_diff ev a p idx)"
    "te_mission_id ev = None \<Longrightarrow> te_session_id ev = Some s \<Longrightarrow>
     links_added ev idx (link_artifact_to_session a s ev (record_diff ev a p idx))"
    "te_mission_id ev = Some m \<Longrightarrow> te_session_id ev = None \<Longrightarrow>
     links_added ev idx (link_artifact_to_mission a m ev (record_diff ev a p idx))"
    "te_mission_id ev = Some m \<Longrightarrow> te_session_id ev = Some s \<Longrightarrow>
     links_added ev idx (link_artifact_to_mission a m ev
       (link_artifact_to_session a s ev (record_diff ev a p idx)))"
  using assms by (simp_all add: links_added_def link_sets edge_laws record_diff_views)

lemma apply_diff_captured_links:
  assumes "te_event_type ev = DiffCaptured" "apply_diff_captured ev idx = Inr idx'"
  shows "links_added ev idx idx'"
proof (cases "te_artifact_id ev")
  case None
  with assms show ?thesis
    by (auto simp: apply_diff_captured_def links_added_def link_sets split: option.splits)
next
  case (Some a)
  with assms(2) obtain p where p: "dec_diff_captured_payload (te_payload ev) = Some p"
    and idx': "idx' = if_some (te_mission_id ev) (\<lambda>m. link_artifact_to_mission a m ev)
        (if_some (te_session_id ev) (\<lambda>s. link_artifact_to_session a s ev) (record_diff ev a p idx))"
    by (auto simp: apply_diff_captured_def and_then_Inr_iff typed_payload_def ok_or_Inr_iff Let_def)
  show ?thesis
    by (cases "te_mission_id ev"; cases "te_session_id ev")
      (simp_all only: idx' if_some_simps record_diff_links [OF assms(1) Some p])
qed

lemma apply_repo_context_captured_links:
  "te_event_type ev = RepoContextCaptured \<Longrightarrow> apply_repo_context_captured ev idx = Inr idx' \<Longrightarrow> links_added ev idx idx'"
  by (auto simp: handler_laws split: option.splits)

lemma untouched_links:
  "te_event_type ev \<in> {ArtifactReviewed, ArtifactAccepted, ExternalRefLinked, SourceSessionObserved} \<Longrightarrow>
   links_added ev idx idx"
  by (cases "dec_external_ref_payload (te_payload ev)"; cases "dec_source_session_payload (te_payload ev)";
      elim insertE emptyE; simp add: links_added_def link_sets)

lemmas handler_links =
  apply_org_created_links apply_org_updated_links apply_project_created_links
  apply_project_updated_links apply_mission_created_links apply_mission_updated_links
  apply_session_started_links apply_session_linked_links apply_session_log_uploaded_links
  apply_artifact_created_links apply_artifact_updated_links apply_artifact_linked_links
  apply_artifact_file_ref_links apply_artifact_attachment_uploaded_links
  apply_diff_captured_links apply_repo_context_captured_links

lemma apply_event_links: "apply_event ev idx = Inr idx' \<Longrightarrow> links_added ev idx idx'"
  by (cases "te_event_type ev") (simp_all add: apply_event_def handler_links untouched_links)

section \<open>Projections of the log\<close>

text \<open>
  A view of the index that every event extends by the links it declares. Whatever the order of
  the log, the view of a built index is the union of the links of its events.
\<close>

locale index_view =
  fixes view :: "trace_index \<Rightarrow> string \<Rightarrow> string set"
    and links :: "trace_event \<Rightarrow> (string \<times> string) set"
  assumes view_step: "apply_event ev idx = Inr idx' \<Longrightarrow> view idx' = add_links (links ev) (view idx)"
    and view_empty: "view (empty_index now n) a = {}"
begin

lemma view_events:
  "apply_events evs idx = Inr idx' \<Longrightarrow>
   view idx' a = view idx a \<union> {b. \<exists>ev\<in>set evs. (a, b) \<in> links ev}"
proof (induction evs arbitrary: idx)
  case (Cons ev evs)
  then obtain mid where "apply_event ev idx = Inr mid" "apply_events evs mid = Inr idx'"
    by (auto split: sum.splits)
  with Cons.IH show ?case by (auto simp: view_step [of ev idx mid])
qed simp

lemma view_build:
  "build_index now evs = Inr idx \<Longrightarrow> view idx a = {b. \<exists>ev\<in>set evs. (a, b) \<in> links ev}"
  using view_events [of evs "empty_index now (length evs)" idx a]
  by (simp add: build_index_def view_empty)

lemma view_order_irrelevant:
  assumes "build_index now evs = Inr idx" "build_index now' evs' = Inr idx'" "set evs = set evs'"
  shows "view idx = view idx'"
  using assms by (auto simp: view_build fun_eq_iff)

end

text \<open>Two views whose links are converse to each other show the same edges from both ends.\<close>

locale index_view_pair =
  fwd: index_view view links + bwd: index_view rview "\<lambda>ev. (links ev)\<inverse>"
  for view :: "trace_index \<Rightarrow> string \<Rightarrow> string set"
    and rview :: "trace_index \<Rightarrow> string \<Rightarrow> string set"
    and links :: "trace_event \<Rightarrow> (string \<times> string) set"
begin

lemma pair_symmetric:
  "build_index now evs = Inr idx \<Longrightarrow> b \<in> view idx a \<longleftrightarrow> a \<in> rview idx b"
  by (simp add: fwd.view_build bwd.view_build)

end

lemma empty_views:
  "org_projects (empty_index now n) a = {}" "project_missions (empty_index now n) a = {}"
  "session_missions (empty_index now n) a = {}" "mission_sessions (empty_index now n) a = {}"
  "artifact_missions (empty_index now n) a = {}" "mission_artifacts (empty_index now n) a = {}"
  "artifact_sessions (empty_index now n) a = {}" "session_artifacts (empty_index now n) a = {}"
  "session_log_refs (empty_index now n) a = {}" "artifact_attachments (empty_index now n) a = {}"
  "artifact_diffs (empty_index now n) a = {}"
  by (simp_all add: view_defs empty_index_def edge_set_def)

interpretation org_projects: index_view org_projects org_project_links
  by unfold_locales (auto dest!: apply_event_links simp: links_added_def empty_views)

interpretation project_missions: index_view project_missions project_mission_links
  by unfold_locales (auto dest!: apply_event_links simp: links_added_def empty_views)

interpretation session_mission: index_view_pair session_missions mission_sessions session_mission_links
  by unfold_locales (auto dest!: apply_event_links simp: links_added_def empty_views)

interpretation artifact_mission: index_view_pair artifact_missions mission_artifacts artifact_mission_links
  by unfold_locales (auto dest!: apply_event_links simp: links_added_def empty_views)

interpretation artifact_session: index_view_pair artifact_sessions session_artifacts artifact_session_links
  by unfold_locales (auto dest!: apply_event_links simp: links_added_def empty_views)

interpretation session_logs: index_view session_log_refs session_log_links
  by unfold_locales (auto dest!: apply_event_links simp: links_added_def empty_views)

interpretation artifact_attachments: index_view artifact_attachments artifact_attachment_links
  by unfold_locales (auto dest!: apply_event_links simp: links_added_def empty_views)

interpretation artifact_diffs: index_view artifact_diffs artifact_diff_links
  by unfold_locales (auto dest!: apply_event_links simp: links_added_def empty_views)

section \<open>What a built index shows\<close>

text \<open>
  C29: in an index built from a log, the missions of a session are exactly those that some
  session-started or session-linked event of the log names together with it, and the sessions of
  a mission are the same pairs read the other way. Order and repetition of events do not matter.
\<close>

theorem session_mission_edges:
  assumes "build_index now evs = Inr idx"
  shows "session_missions idx s = {m. \<exists>ev\<in>set evs. (s, m) \<in> session_mission_links ev} \<and>
     mission_sessions idx m = {s. \<exists>ev\<in>set evs. (s, m) \<in> session_mission_links ev}"
  using session_mission.fwd.view_build [OF assms] session_mission.bwd.view_build [OF assms] by auto

text \<open>
  An artifact lists a mission exactly when the mission lists the artifact, and lists a
  session exactly when the session lists it, and each such edge comes from an event of the log.
\<close>

theorem artifact_edges:
  assumes "build_index now evs = Inr idx"
  shows "(m \<in> artifact_missions idx a \<longleftrightarrow> a \<in> mission_artifacts idx m) \<and>
     (s \<in> artifact_sessions idx a \<longleftrightarrow> a \<in> session_artifacts idx s) \<and>
     (m \<in> artifact_missions idx a \<longleftrightarrow> (\<exists>ev\<in>set evs. (a, m) \<in> artifact_mission_links ev)) \<and>
     (s \<in> artifact_sessions idx a \<longleftrightarrow> (\<exists>ev\<in>set evs. (a, s) \<in> artifact_session_links ev))"
  using artifact_mission.pair_symmetric [OF assms] artifact_session.pair_symmetric [OF assms]
    artifact_mission.fwd.view_build [OF assms] artifact_session.fwd.view_build [OF assms]
  by auto

text \<open>
  The projects of an org, and the missions of a project, are all that any created or updated
  event of the log ever placed there. In particular an update that moves a project to another
  org leaves the project in the old org's list.
\<close>

theorem container_edges:
  assumes "build_index now evs = Inr idx"
  shows "org_projects idx i = {p. \<exists>ev\<in>set evs. (i, p) \<in> org_project_links ev} \<and>
     project_missions idx i = {m. \<exists>ev\<in>set evs. (i, m) \<in> project_mission_links ev}"
  using org_projects.view_build [OF assms] project_missions.view_build [OF assms] by auto

text \<open>
  The log references of a session, and the attachments and diffs of an artifact, are exactly
  those recorded by the log's events for it.
\<close>

theorem evidence_edges:
  assumes "build_index now evs = Inr idx"
  shows "session_log_refs idx i = {r. \<exists>ev\<in>set evs. (i, r) \<in> session_log_links ev} \<and>
     artifact_attachments idx i = {r. \<exists>ev\<in>set evs. (i, r) \<in> artifact_attachment_links ev} \<and>
     artifact_diffs idx i = {r. \<exists>ev\<in>set evs. (i, r) \<in> artifact_diff_links ev}"
  using session_logs.view_build [OF assms] artifact_attachments.view_build [OF assms]
    artifact_diffs.view_build [OF assms] by auto

end
