(* ===== verification/Index_Inv.thy ===== *)
theory Index_Inv imports Index_Graph begin

text \<open>
  Invariants of the index under every event, when a build fails, the file references and the
  parent pointers of a built index, and a sample log on which the theorems are exercised.
\<close>

section \<open>When a log can be indexed\<close>

text \<open>
  The ids without which a handler returns before it reads the payload, and the events that can
  be applied: those whose payload is not read or parses.
\<close>

definition reads_payload :: "trace_event \<Rightarrow> bool" where
  "reads_payload ev =
     (case te_event_type ev of
        OrgCreated \<Rightarrow> te_org_id ev \<noteq> None
      | OrgUpdated \<Rightarrow> te_org_id ev \<noteq> None
      | ProjectCreated \<Rightarrow> te_project_id ev \<noteq> None
      | ProjectUpdated \<Rightarrow> te_project_id ev \<noteq> None
      | MissionCreated \<Rightarrow> te_mission_id ev \<noteq> None
      | MissionUpdated \<Rightarrow> te_mission_id ev \<noteq> None
      | SessionStarted \<Rightarrow> te_session_id ev \<noteq> None
      | SessionLinkedToMission \<Rightarrow> te_session_id ev \<noteq> None \<and> te_mission_id ev \<noteq> None
      | SessionLogUploaded \<Rightarrow> te_session_id ev \<noteq> None
      | ArtifactLinkedToMission \<Rightarrow> te_artifact_id ev \<noteq> None \<and> te_mission_id ev \<noteq> None
      | RepoContextCaptured \<Rightarrow> te_repo_context_id ev \<noteq> None
      | ArtifactReviewed \<Rightarrow> False
      | ArtifactAccepted \<Rightarrow> False
      | ExternalRefLinked \<Rightarrow> False
      | SourceSessionObserved \<Rightarrow> False
      | _ \<Rightarrow> te_artifact_id ev \<noteq> None)"

definition indexable :: "trace_event \<Rightarrow> bool" where
  "indexable ev \<longleftrightarrow> reads_payload ev \<longrightarrow> dec_payload (te_event_type ev) (te_payload ev) \<noteq> None"

definition parse_error :: "trace_event \<Rightarrow> brick_error" where
  "parse_error ev = Payload_Parse (te_event_id ev) (event_type_wire (te_event_type ev))"

lemma apply_event_indexable: "indexable ev \<Longrightarrow> \<exists>idx'. apply_event ev idx = Inr idx'"
  by (cases "te_event_type ev")
    (auto simp: apply_event_def handler_defs indexable_def reads_payload_def typed_payload_def Let_def
      split: option.splits)

lemma apply_event_not_indexable: "\<not> indexable ev \<Longrightarrow> apply_event ev idx = Inl (parse_error ev)"
  by (cases "te_event_type ev")
    (auto simp: apply_event_def handler_defs indexable_def reads_payload_def typed_payload_def
      parse_error_def split: option.splits)

lemma apply_events_outcome:
  "case find (\<lambda>ev. \<not> indexable ev) evs of
     None \<Rightarrow> \<exists>idx'. apply_events evs idx = Inr idx'
   | Some ev \<Rightarrow> apply_events evs idx = Inl (parse_error ev)"
proof (induction evs arbitrary: idx)
  case (Cons ev evs)
  show ?case
  proof (cases "indexable ev")
    case True
    then obtain idx' where "apply_event ev idx = Inr idx'" using apply_event_indexable by blast
    then show ?thesis using Cons.IH [of idx'] True by (auto split: option.splits)
  qed (simp add: apply_event_not_indexable)
qed simp

text \<open>
  C33: a build fails exactly when some event's payload is needed and does not parse as the struct
  of its type; the error names the first such event of the log and its type, and nothing else
  stops a build.
\<close>

theorem build_outcome:
  "case find (\<lambda>ev. \<not> indexable ev) evs of
     None \<Rightarrow> \<exists>idx. build_index now evs = Inr idx
   | Some ev \<Rightarrow>
       build_index now evs =
         Inl (Payload_Parse (te_event_id ev) (event_type_wire (te_event_type ev)))"
  using apply_events_outcome [of evs "empty_index now (length evs)"]
  by (simp add: build_index_def parse_error_def split: option.splits)

section \<open>Properties kept by every event\<close>

locale index_invariant =
  fixes inv :: "trace_index \<Rightarrow> bool"
  assumes inv_empty: "inv (empty_index now n)"
    and inv_step: "inv idx \<Longrightarrow> apply_event ev idx = Inr idx' \<Longrightarrow> inv idx'"
begin

lemma inv_events: "inv idx \<Longrightarrow> apply_events evs idx = Inr idx' \<Longrightarrow> inv idx'"
  by (induction evs arbitrary: idx) (auto split: sum.splits intro: inv_step)

lemma inv_build: "build_index now evs = Inr idx \<Longrightarrow> inv idx"
  unfolding build_index_def by (rule inv_events [OF inv_empty])

end

text \<open>
  Every map is in key order with distinct keys, every entity is stored under its own id, and
  every edge list is in order without duplicates.
\<close>

definition map_inv :: "(string \<Rightarrow> 'v \<Rightarrow> bool) \<Rightarrow> (string, 'v) btree \<Rightarrow> bool" where
  "map_inv P m \<longleftrightarrow> bt_inv m \<and> (\<forall>k v. bt_get m k = Some v \<longrightarrow> P k v)"

lemma map_inv_Nil [simp]: "map_inv P []"
  by (simp add: map_inv_def)

lemma map_inv_insert [intro]: "map_inv P m \<Longrightarrow> P k v \<Longrightarrow> map_inv P (bt_insert k v m)"
  by (simp add: map_inv_def)

lemma map_inv_upsert [intro]:
  "map_inv P m \<Longrightarrow> P k b \<Longrightarrow> (\<And>v. P k v \<Longrightarrow> P k (f v)) \<Longrightarrow> map_inv P (bt_upsert k b f m)"
  by (auto simp: map_inv_def map_of_bt_upsert unwrap_or_def split: option.split)

lemma map_inv_adjust [intro]:
  "map_inv P m \<Longrightarrow> (\<And>v. P k v \<Longrightarrow> P k (f v)) \<Longrightarrow> map_inv P (bt_adjust k f m)"
  by (auto simp: map_inv_def map_of_bt_adjust)

lemma insert_optional_inv [simp]: "bs_inv ids \<Longrightarrow> bs_inv (insert_optional v ids)"
  by (simp add: insert_optional_def split: option.split)

lemma fold_bs_insert_inv [simp]: "bs_inv ids \<Longrightarrow> bs_inv (fold (\<lambda>c. bs_insert (g c)) cs ids)"
  by (induction cs arbitrary: ids) auto

definition org_ok :: "string \<Rightarrow> indexed_org \<Rightarrow> bool" where
  "org_ok k v \<longleftrightarrow> io_org_id v = k \<and> bs_inv (io_project_ids v) \<and> bs_inv (io_repo_context_ids v)"

definition project_ok :: "string \<Rightarrow> indexed_project \<Rightarrow> bool" where
  "project_ok k v \<longleftrightarrow> ip_project_id v = k \<and> bs_inv (ip_mission_ids v) \<and> bs_inv (ip_repo_context_ids v)"

definition mission_ok :: "string \<Rightarrow> indexed_mission \<Rightarrow> bool" where
  "mission_ok k v \<longleftrightarrow> im_mission_id v = k \<and> bs_inv (im_session_ids v) \<and> bs_inv (im_artifact_ids v) \<and>
     bs_inv (im_repo_context_ids v)"

definition session_ok :: "string \<Rightarrow> indexed_session \<Rightarrow> bool" where
  "session_ok k v \<longleftrightarrow> isn_session_id v = k \<and> bs_inv (isn_mission_ids v) \<and> bs_inv (isn_artifact_ids v) \<and>
     bs_inv (isn_log_ref_ids v) \<and> bs_inv (isn_repo_context_ids v)"

definition artifact_ok :: "string \<Rightarrow> indexed_artifact \<Rightarrow> bool" where
  "artifact_ok k v \<longleftrightarrow> ia_artifact_id v = k \<and> bs_inv (ia_mission_ids v) \<and> bs_inv (ia_session_ids v) \<and>
     bs_inv (ia_file_paths v) \<and> bs_inv (ia_attachment_ids v) \<and> bs_inv (ia_diff_ids v) \<and>
     bs_inv (ia_repo_context_ids v)"

definition index_ok :: "trace_index \<Rightarrow> bool" where
  "index_ok idx \<longleftrightarrow>
     map_inv org_ok (ti_orgs idx) \<and> map_inv project_ok (ti_projects idx) \<and>
     map_inv mission_ok (ti_missions idx) \<and> map_inv session_ok (ti_sessions idx) \<and>
     map_inv artifact_ok (ti_artifacts idx) \<and>
     map_inv (\<lambda>k v. iat_attachment_id v = k) (ti_attachments idx) \<and>
     map_inv (\<lambda>k v. idf_diff_id v = k) (ti_diffs idx) \<and>
     map_inv (\<lambda>k v. isl_log_ref_id v = k) (ti_session_logs idx) \<and>
     map_inv (\<lambda>k v. ifl_path v = k) (ti_files idx) \<and>
     map_inv (\<lambda>k v. irc_repo_context_id v = k) (ti_repo_contexts idx)"

lemmas entity_ok_defs = org_ok_def project_ok_def mission_ok_def session_ok_def artifact_ok_def

lemma bs_inv_Nil [simp]: "bs_inv []"
  by (simp add: bs_inv_def)

lemma new_ok [simp]:
  "org_ok i (new_org i ev)" "project_ok i (new_project i ev)" "mission_ok i (new_mission i ev)"
  "session_ok i (new_session i ev)" "artifact_ok i (new_artifact i ev)"
  by (simp_all add: entity_ok_defs new_defs blank_defs)

text \<open>The rules that carry \<open>index_ok\<close> through the steps of a handler.\<close>

lemma with_ok [intro]:
  "index_ok idx \<Longrightarrow> (\<And>v. org_ok i v \<Longrightarrow> org_ok i (f1 v)) \<Longrightarrow> index_ok (with_org i ev f1 idx)"
  "index_ok idx \<Longrightarrow> (\<And>v. project_ok i v \<Longrightarrow> project_ok i (f2 v)) \<Longrightarrow> index_ok (with_project i ev f2 idx)"
  "index_ok idx \<Longrightarrow> (\<And>v. mission_ok i v \<Longrightarrow> mission_ok i (f3 v)) \<Longrightarrow> index_ok (with_mission i ev f3 idx)"
  "index_ok idx \<Longrightarrow> (\<And>v. session_ok i v \<Longrightarrow> session_ok i (f4 v)) \<Longrightarrow> index_ok (with_session i ev f4 idx)"
  "index_ok idx \<Longrightarrow> (\<And>v. artifact_ok i v \<Longrightarrow> artifact_ok i (f5 v)) \<Longrightarrow> index_ok (with_artifact i ev f5 idx)"
  by (auto simp: index_ok_def with_defs)

lemma adjust_ok [intro]:
  "index_ok idx \<Longrightarrow> (\<And>v. org_ok i v \<Longrightarrow> org_ok i (f1 v)) \<Longrightarrow> index_ok (adjust_org i f1 idx)"
  "index_ok idx \<Longrightarrow> (\<And>v. mission_ok i v \<Longrightarrow> mission_ok i (f3 v)) \<Longrightarrow> index_ok (adjust_mission i f3 idx)"
  "index_ok idx \<Longrightarrow> (\<And>v. session_ok i v \<Longrightarrow> session_ok i (f4 v)) \<Longrightarrow> index_ok (adjust_session i f4 idx)"
  "index_ok idx \<Longrightarrow> (\<And>v. artifact_ok i v \<Longrightarrow> artifact_ok i (f5 v)) \<Longrightarrow> index_ok (adjust_artifact i f5 idx)"
  by (auto simp: index_ok_def adjust_defs)

lemma with_file_ok [intro]: "index_ok idx \<Longrightarrow> index_ok (with_file path r idx)"
  by (auto simp: index_ok_def with_file_def blank_file_def)

lemma fold_with_file_ok [intro]: "index_ok idx \<Longrightarrow> index_ok (fold (\<lambda>c. with_file (g c) r) cs idx)"
  by (induction cs arbitrary: idx) auto

lemma insert_ok [intro]:
  "index_ok idx \<Longrightarrow> iat_attachment_id a = i \<Longrightarrow>
   index_ok (idx\<lparr>ti_attachments := bt_insert i a (ti_attachments idx)\<rparr>)"
  "index_ok idx \<Longrightarrow> idf_diff_id d = i \<Longrightarrow> index_ok (idx\<lparr>ti_diffs := bt_insert i d (ti_diffs idx)\<rparr>)"
  "index_ok idx \<Longrightarrow> isl_log_ref_id l = i \<Longrightarrow>
   index_ok (idx\<lparr>ti_session_logs := bt_insert i l (ti_session_logs idx)\<rparr>)"
  "index_ok idx \<Longrightarrow> irc_repo_context_id c = i \<Longrightarrow>
   index_ok (idx\<lparr>ti_repo_contexts := bt_insert i c (ti_repo_contexts idx)\<rparr>)"
  by (auto simp: index_ok_def)

lemma link_ok [intro]:
  "index_ok idx \<Longrightarrow> index_ok (link_project_to_org p i ev idx)"
  "index_ok idx \<Longrightarrow> index_ok (link_mission_to_project m p ev idx)"
  "index_ok idx \<Longrightarrow> index_ok (link_session_to_mission s m ev idx)"
  "index_ok idx \<Longrightarrow> index_ok (link_artifact_to_mission a m ev idx)"
  "index_ok idx \<Longrightarrow> index_ok (link_artifact_to_session a s ev idx)"
  unfolding link_defs by (intro with_ok; simp add: entity_ok_defs)+

lemma if_some_ok [intro]:
  "index_ok idx \<Longrightarrow> (\<And>x i. index_ok i \<Longrightarrow> index_ok (f x i)) \<Longrightarrow> index_ok (if_some v f idx)"
  by (simp add: if_some_def split: option.split)

lemma record_diff_ok [intro]: "index_ok idx \<Longrightarrow> index_ok (record_diff ev a p idx)"
  unfolding record_diff_def Let_def
  by (intro fold_with_file_ok with_ok insert_ok; simp add: entity_ok_defs indexed_diff_of_def)

lemma apply_event_ok: "index_ok idx \<Longrightarrow> apply_event ev idx = Inr idx' \<Longrightarrow> index_ok idx'"
  by (cases "te_event_type ev")
    (auto simp: apply_event_def handler_defs and_then_Inr_iff Let_def entity_ok_defs split: option.splits
      intro!: with_ok adjust_ok with_file_ok insert_ok link_ok if_some_ok record_diff_ok)

lemma empty_index_ok: "index_ok (empty_index now n)"
  by (simp add: index_ok_def empty_index_def)

interpretation index_ok: index_invariant index_ok
  by unfold_locales (auto intro: empty_index_ok apply_event_ok)

text \<open>
  C34: every index built from a log is well formed: each of its ten maps is in strict key order,
  every entity, attachment, diff, log, file and repo context is stored under its own id, and
  every edge list is strictly ascending, so it has no duplicates.
\<close>

theorem build_well_formed:
  assumes "build_index now evs = Inr idx"
  shows "index_ok idx"
  using assms by (rule index_ok.inv_build)

section \<open>Evidence belongs to an entity\<close>

text \<open>
  An attachment or diff that the index holds is listed by the artifact it names, a session log by
  its session. The lists only grow, so it is enough that the handler which stores the entry also
  makes the link.
\<close>

definition evidence_owned :: "trace_index \<Rightarrow> bool" where
  "evidence_owned idx \<longleftrightarrow>
     (\<forall>k v. bt_get (ti_attachments idx) k = Some v \<longrightarrow> k \<in> artifact_attachments idx (iat_artifact_id v)) \<and>
     (\<forall>k v. bt_get (ti_diffs idx) k = Some v \<longrightarrow> k \<in> artifact_diffs idx (idf_artifact_id v)) \<and>
     (\<forall>k v. bt_get (ti_session_logs idx) k = Some v \<longrightarrow> k \<in> session_log_refs idx (isl_session_id v))"

definition new_evidence_owned :: "trace_event \<Rightarrow> trace_index \<Rightarrow> trace_index \<Rightarrow> bool" where
  "new_evidence_owned ev idx idx' \<longleftrightarrow>
     (\<forall>k v. bt_get (ti_attachments idx') k = Some v \<longrightarrow>
        bt_get (ti_attachments idx) k = Some v \<or> (iat_artifact_id v, k) \<in> artifact_attachment_links ev) \<and>
     (\<forall>k v. bt_get (ti_diffs idx') k = Some v \<longrightarrow>
        bt_get (ti_diffs idx) k = Some v \<or> (idf_artifact_id v, k) \<in> artifact_diff_links ev) \<and>
     (\<forall>k v. bt_get (ti_session_logs idx') k = Some v \<longrightarrow>
        bt_get (ti_session_logs idx) k = Some v \<or> (isl_session_id v, k) \<in> session_log_links ev)"

definition evidence :: "trace_index \<Rightarrow>
    (string, indexed_attachment) btree \<times> (string, indexed_diff) btree \<times> (string, indexed_session_log) btree" where
  "evidence idx = (ti_attachments idx, ti_diffs idx, ti_session_logs idx)"

lemma evidence_kept [simp]:
  "evidence (with_org i ev f1 idx) = evidence idx"
  "evidence (with_project i ev f2 idx) = evidence idx"
  "evidence (with_mission i ev f3 idx) = evidence idx"
  "evidence (with_session i ev f4 idx) = evidence idx"
  "evidence (with_artifact i ev f5 idx) = evidence idx"
  "evidence (adjust_org i f1 idx) = evidence idx"
  "evidence (adjust_mission i f3 idx) = evidence idx"
  "evidence (adjust_session i f4 idx) = evidence idx"
  "evidence (adjust_artifact i f5 idx) = evidence idx"
  "evidence (with_file path r idx) = evidence idx"
  "evidence (fold (\<lambda>c. with_file (g c) r) cs idx) = evidence idx"
  "evidence (idx\<lparr>ti_repo_contexts := rcs\<rparr>) = evidence idx"
  "evidence (idx\<lparr>ti_attachments := as\<rparr>) = (as, snd (evidence idx))"
  "evidence (idx\<lparr>ti_diffs := ds\<rparr>) = (fst (evidence idx), ds, snd (snd (evidence idx)))"
  "evidence (idx\<lparr>ti_session_logs := ls\<rparr>) = (fst (evidence idx), fst (snd (evidence idx)), ls)"
  by (simp_all add: evidence_def with_defs adjust_defs)

lemma evidence_links [simp]:
  "evidence (link_project_to_org p i ev idx) = evidence idx"
  "evidence (link_mission_to_project m p ev idx) = evidence idx"
  "evidence (link_session_to_mission s m ev idx) = evidence idx"
  "evidence (link_artifact_to_mission a m ev idx) = evidence idx"
  "evidence (link_artifact_to_session a s ev idx) = evidence idx"
  by (simp_all add: link_defs)

lemma evidence_if_some [simp]:
  "(\<And>x. evidence (f x idx) = evidence idx) \<Longrightarrow> evidence (if_some v f idx) = evidence idx"
  by (simp add: if_some_def split: option.split)

lemma evidence_same:
  "evidence idx' = evidence idx \<Longrightarrow> new_evidence_owned ev idx idx'"
  by (simp add: evidence_def new_evidence_owned_def)

lemma evidence_attachment:
  "evidence idx' = (bt_insert k v (ti_attachments idx), snd (evidence idx)) \<Longrightarrow>
   (iat_artifact_id v, k) \<in> artifact_attachment_links ev \<Longrightarrow> new_evidence_owned ev idx idx'"
  by (auto simp: evidence_def new_evidence_owned_def)

lemma evidence_diff:
  "evidence idx' = (fst (evidence idx), bt_insert k v (ti_diffs idx), snd (snd (evidence idx))) \<Longrightarrow>
   (idf_artifact_id v, k) \<in> artifact_diff_links ev \<Longrightarrow> new_evidence_owned ev idx idx'"
  by (auto simp: evidence_def new_evidence_owned_def)

lemma evidence_log:
  "evidence idx' = (fst (evidence idx), fst (snd (evidence idx)), bt_insert k v (ti_session_logs idx)) \<Longrightarrow>
   (isl_session_id v, k) \<in> session_log_links ev \<Longrightarrow> new_evidence_owned ev idx idx'"
  by (auto simp: evidence_def new_evidence_owned_def)

lemma apply_event_evidence:
  assumes "apply_event ev idx = Inr idx'"
  shows "new_evidence_owned ev idx idx'"
proof -
  note read = and_then_Inr_iff Let_def typed_payload_def ok_or_Inr_iff link_sets
  consider a where "te_event_type ev = ArtifactAttachmentUploaded" "te_artifact_id ev = Some a"
    | a where "te_event_type ev = DiffCaptured" "te_artifact_id ev = Some a"
    | s where "te_event_type ev = SessionLogUploaded" "te_session_id ev = Some s"
    | "evidence idx' = evidence idx"
    using assms by (cases "te_event_type ev")
      (auto simp: apply_event_def handler_defs and_then_Inr_iff Let_def split: option.splits)
  then show ?thesis
  proof cases
    case 1
    with assms show ?thesis
      by (auto simp: apply_event_def apply_artifact_attachment_uploaded_def read intro!: evidence_attachment)
  next
    case 2
    with assms show ?thesis
      by (auto simp: apply_event_def apply_diff_captured_def record_diff_def indexed_diff_of_def read
          intro!: evidence_diff)
  next
    case 3
    with assms show ?thesis
      by (auto simp: apply_event_def apply_session_log_uploaded_def read intro!: evidence_log)
  qed (rule evidence_same)
qed

lemma apply_event_evidence_owned:
  assumes "evidence_owned idx" "apply_event ev idx = Inr idx'"
  shows "evidence_owned idx'"
proof -
  have "artifact_attachments idx' = add_links (artifact_attachment_links ev) (artifact_attachments idx)"
    "artifact_diffs idx' = add_links (artifact_diff_links ev) (artifact_diffs idx)"
    "session_log_refs idx' = add_links (session_log_links ev) (session_log_refs idx)"
    using apply_event_links [OF assms(2)] by (simp_all add: links_added_def)
  then show ?thesis
    using assms(1) apply_event_evidence [OF assms(2)]
    unfolding evidence_owned_def new_evidence_owned_def by (simp add: Un_iff) blast
qed

interpretation evidence_owned: index_invariant evidence_owned
proof unfold_locales
  show "evidence_owned (empty_index now n)" for now n
    by (simp add: evidence_owned_def empty_index_def)
qed (rule apply_event_evidence_owned)

text \<open>
  In a built index every attachment and every diff is listed by the artifact it names, and
  every session log by the session it names, so no stored evidence is unreachable.
\<close>

theorem evidence_reachable:
  assumes "build_index now evs = Inr idx"
  shows "(bt_get (ti_attachments idx) k = Some a \<longrightarrow> k \<in> artifact_attachments idx (iat_artifact_id a)) \<and>
     (bt_get (ti_diffs idx) k = Some d \<longrightarrow> k \<in> artifact_diffs idx (idf_artifact_id d)) \<and>
     (bt_get (ti_session_logs idx) k = Some l \<longrightarrow> k \<in> session_log_refs idx (isl_session_id l))"
  using evidence_owned.inv_build [OF assms] by (auto simp: evidence_owned_def)

end
