(* ===== verification/Index_Props.thy ===== *)
theory Index_Props imports Index_Inv begin

text \<open>
  What a built index says per file and per parent pointer, and a sample log on which the theorems
  about the index are exercised.
\<close>

section \<open>Views that an event updates\<close>

locale index_fold =
  fixes view :: "trace_index \<Rightarrow> string \<Rightarrow> 'a"
    and upd :: "trace_event \<Rightarrow> string \<Rightarrow> 'a \<Rightarrow> 'a"
    and start :: 'a
  assumes fold_step: "apply_event ev idx = Inr idx' \<Longrightarrow> view idx' k = upd ev k (view idx k)"
    and fold_empty: "view (empty_index now n) k = start"
begin

lemma fold_events: "apply_events evs idx = Inr idx' \<Longrightarrow> view idx' k = fold (\<lambda>ev. upd ev k) evs (view idx k)"
  by (induction evs arbitrary: idx) (auto simp: fold_step split: sum.splits)

lemma fold_build: "build_index now evs = Inr idx \<Longrightarrow> view idx k = fold (\<lambda>ev. upd ev k) evs start"
  by (simp add: build_index_def fold_events fold_empty)

end

section \<open>File references\<close>

definition file_refs :: "trace_index \<Rightarrow> string \<Rightarrow> indexed_file_ref list" where
  "file_refs idx path = (case bt_get (ti_files idx) path of None \<Rightarrow> [] | Some f \<Rightarrow> ifl_file_refs f)"

text \<open>The references to a path that one event contributes: one per changed file of a diff.\<close>

definition event_file_refs :: "trace_event \<Rightarrow> string \<Rightarrow> indexed_file_ref list" where
  "event_file_refs ev path =
     (case (te_artifact_id ev, dec_payload (te_event_type ev) (te_payload ev)) of
        (Some a, Some (P_ArtifactFileRefRecorded p)) \<Rightarrow>
          if fr_path p = path
          then [\<lparr>ifr_file_ref_id = fr_file_ref_id p, ifr_artifact_id = a, ifr_session_id = te_session_id ev,
                 ifr_repo_context_id = fr_repo_context_id p, ifr_recorded_at = te_recorded_at ev\<rparr>] else []
      | (Some a, Some (P_DiffCaptured p)) \<Rightarrow>
          map (\<lambda>_. diff_file_ref ev a p) (filter (\<lambda>c. fc_path c = path) (dc_file_changes p))
      | _ \<Rightarrow> [])"

lemma file_refs_kept [simp]:
  "file_refs (with_org i ev f1 idx) = file_refs idx"
  "file_refs (with_project i ev f2 idx) = file_refs idx"
  "file_refs (with_mission i ev f3 idx) = file_refs idx"
  "file_refs (with_session i ev f4 idx) = file_refs idx"
  "file_refs (with_artifact i ev f5 idx) = file_refs idx"
  "file_refs (adjust_org i f1 idx) = file_refs idx"
  "file_refs (adjust_mission i f3 idx) = file_refs idx"
  "file_refs (adjust_session i f4 idx) = file_refs idx"
  "file_refs (adjust_artifact i f5 idx) = file_refs idx"
  "file_refs (idx\<lparr>ti_repo_contexts := rcs\<rparr>) = file_refs idx"
  "file_refs (idx\<lparr>ti_attachments := as\<rparr>) = file_refs idx"
  "file_refs (idx\<lparr>ti_diffs := ds\<rparr>) = file_refs idx"
  "file_refs (idx\<lparr>ti_session_logs := ls\<rparr>) = file_refs idx"
  by (simp_all add: with_defs adjust_defs file_refs_def fun_eq_iff)

lemma file_refs_links [simp]:
  "file_refs (link_project_to_org p i ev idx) = file_refs idx"
  "file_refs (link_mission_to_project m p ev idx) = file_refs idx"
  "file_refs (link_session_to_mission s m ev idx) = file_refs idx"
  "file_refs (link_artifact_to_mission a m ev idx) = file_refs idx"
  "file_refs (link_artifact_to_session a s ev idx) = file_refs idx"
  by (simp_all add: link_defs)

lemma file_refs_if_some [simp]:
  "(\<And>x. file_refs (f x idx) = file_refs idx) \<Longrightarrow> file_refs (if_some v f idx) = file_refs idx"
  by (simp add: if_some_def split: option.split)

lemma file_refs_with_file:
  "file_refs (with_file p r idx) path = file_refs idx path @ (if path = p then [r] else [])"
  by (auto simp: file_refs_def with_file_def map_of_bt_upsert blank_file_def unwrap_or_def
      split: option.split)

lemma file_refs_fold:
  "file_refs (fold (\<lambda>c. with_file (g c) r) cs idx) path =
     file_refs idx path @ map (\<lambda>_. r) (filter (\<lambda>c. g c = path) cs)"
  by (induction cs arbitrary: idx) (auto simp: file_refs_with_file)

lemma file_refs_record_diff:
  "file_refs (record_diff ev a p idx) path =
     file_refs idx path @ map (\<lambda>_. diff_file_ref ev a p) (filter (\<lambda>c. fc_path c = path) (dc_file_changes p))"
  by (simp add: record_diff_def Let_def file_refs_fold)

lemma apply_event_file_refs:
  assumes "apply_event ev idx = Inr idx'"
  shows "file_refs idx' path = file_refs idx path @ event_file_refs ev path"
proof -
  note read = and_then_Inr_iff Let_def typed_payload_def ok_or_Inr_iff event_file_refs_def
  consider a where "te_event_type ev = ArtifactFileRefRecorded" "te_artifact_id ev = Some a"
    | a where "te_event_type ev = DiffCaptured" "te_artifact_id ev = Some a"
    | "file_refs idx' = file_refs idx" "event_file_refs ev path = []"
    using assms by (cases "te_event_type ev")
      (auto simp: apply_event_def handler_defs and_then_Inr_iff Let_def event_file_refs_def split: option.splits)
  then show ?thesis
  proof cases
    case 1
    with assms show ?thesis
      by (auto simp: apply_event_def apply_artifact_file_ref_def read file_refs_with_file)
  next
    case 2
    with assms show ?thesis
      by (auto simp: apply_event_def apply_diff_captured_def read file_refs_record_diff)
  qed simp
qed

lemma file_refs_empty: "file_refs (empty_index now n) path = []"
  by (simp add: file_refs_def empty_index_def)

interpretation file_refs: index_fold file_refs "\<lambda>ev path refs. refs @ event_file_refs ev path" "[]"
  by unfold_locales (auto simp: apply_event_file_refs file_refs_empty)

lemma fold_append_concat: "fold (\<lambda>x acc. acc @ f x) xs ys = ys @ concat (map f xs)"
  by (induction xs arbitrary: ys) auto

text \<open>
  The references of a file are those of the log's file-reference and diff events for that
  path, in the order of the log, one for each change of the path in a diff, whether or not the
  artifact was known when the event was applied.
\<close>

theorem file_refs_in_log_order:
  assumes "build_index now evs = Inr idx"
  shows "file_refs idx path = concat (map (\<lambda>ev. event_file_refs ev path) evs)"
  using file_refs.fold_build [OF assms] by (simp add: fold_append_concat)

section \<open>Parent pointers\<close>

definition field_of :: "('v \<Rightarrow> 'a option) \<Rightarrow> (string, 'v) btree \<Rightarrow> string \<Rightarrow> 'a option" where
  "field_of sel m k = (case bt_get m k of None \<Rightarrow> None | Some v \<Rightarrow> sel v)"

lemma field_of_upsert:
  "field_of sel (bt_upsert k b f m) = (field_of sel m)(k := sel (f (unwrap_or (bt_get m k) b)))"
  by (auto simp: field_of_def map_of_bt_upsert fun_eq_iff)

lemma field_of_adjust:
  "(\<And>v. sel (f v) = sel v) \<Longrightarrow> field_of sel (bt_adjust k f m) = field_of sel m"
  by (auto simp: field_of_def map_of_bt_adjust fun_eq_iff split: option.splits)

lemma field_of_at: "sel b = None \<Longrightarrow> sel (unwrap_or (bt_get m k) b) = field_of sel m k"
  by (simp add: field_of_def split: option.split)

definition project_org :: "trace_index \<Rightarrow> string \<Rightarrow> string option" where
  "project_org idx = field_of ip_org_id (ti_projects idx)"

definition mission_project :: "trace_index \<Rightarrow> string \<Rightarrow> string option" where
  "mission_project idx = field_of im_project_id (ti_missions idx)"

definition declared_org :: "string \<Rightarrow> trace_event \<Rightarrow> string option" where
  "declared_org k ev =
     (if te_project_id ev = Some k
      then (case dec_payload (te_event_type ev) (te_payload ev) of
              Some (P_ProjectCreated p) \<Rightarrow> Some (pc_org_id p)
            | Some (P_ProjectUpdated p) \<Rightarrow> pu_org_id p
            | _ \<Rightarrow> None)
      else None)"

definition declared_project :: "string \<Rightarrow> trace_event \<Rightarrow> string option" where
  "declared_project k ev =
     (if te_mission_id ev = Some k
      then (case dec_payload (te_event_type ev) (te_payload ev) of
              Some (P_MissionCreated p) \<Rightarrow> Some (mc_project_id p)
            | Some (P_MissionUpdated p) \<Rightarrow> mu_project_id p
            | _ \<Rightarrow> None)
      else None)"

lemma new_parents [simp]: "ip_org_id (new_project i ev) = None" "im_project_id (new_mission i ev) = None"
  by (simp_all add: new_defs blank_defs)

lemmas field_laws =
  project_org_def mission_project_def field_of_upsert field_of_adjust
  field_of_at [where sel = ip_org_id] field_of_at [where sel = im_project_id]
  with_defs adjust_defs link_defs

lemma record_diff_fields [simp]:
  "ti_projects (record_diff ev a p idx) = ti_projects idx"
  "ti_missions (record_diff ev a p idx) = ti_missions idx"
  by (simp_all add: record_diff_def Let_def with_defs)

lemma apply_event_parents:
  assumes "apply_event ev idx = Inr idx'"
  shows "project_org idx' k = or_else (declared_org k ev) (project_org idx k)"
    and "mission_project idx' k = or_else (declared_project k ev) (mission_project idx k)"
  using assms
  by (cases "te_event_type ev";
      auto simp: apply_event_def handler_defs typed_payload_def and_then_Inr_iff ok_or_Inr_iff Let_def
        declared_org_def declared_project_def field_laws if_some_def split: option.splits)+

lemma empty_parents:
  "project_org (empty_index now n) k = None" "mission_project (empty_index now n) k = None"
  by (simp_all add: project_org_def mission_project_def field_of_def empty_index_def)

interpretation project_org: index_fold project_org "\<lambda>ev k. or_else (declared_org k ev)" None
  by unfold_locales (simp_all add: apply_event_parents empty_parents)

interpretation mission_project: index_fold mission_project "\<lambda>ev k. or_else (declared_project k ev)" None
  by unfold_locales (simp_all add: apply_event_parents empty_parents)

definition last_declared :: "('a \<Rightarrow> 'b option) \<Rightarrow> 'a list \<Rightarrow> 'b option" where
  "last_declared d xs =
     (let ys = List.map_filter d xs in if ys = [] then None else Some (last ys))"

lemma fold_or_else: "fold (\<lambda>x. or_else (d x)) xs acc = or_else (last_declared d xs) acc"
proof (induction xs arbitrary: acc)
  case (Cons x xs)
  then show ?case
    by (cases "d x") (simp_all add: last_declared_def map_filter_simps Let_def)
qed (simp add: last_declared_def map_filter_simps)

text \<open>
  A project's org, and a mission's project, is the one that the last event of the log to
  name one declares; an update without one leaves it as it was.
\<close>

theorem last_parent_wins:
  assumes "build_index now evs = Inr idx"
  shows "project_org idx k = last_declared (declared_org k) evs \<and>
     mission_project idx k = last_declared (declared_project k) evs"
  using project_org.fold_build [OF assms] mission_project.fold_build [OF assms]
  by (simp_all add: fold_or_else)

section \<open>The header of the index\<close>

definition index_header :: "trace_index \<Rightarrow> u16 \<times> instant \<times> nat" where
  "index_header idx = (ti_schema_version idx, ti_rebuilt_at idx, ti_event_count idx)"

lemma header_kept [simp]:
  "index_header (with_org i ev f1 idx) = index_header idx"
  "index_header (with_project i ev f2 idx) = index_header idx"
  "index_header (with_mission i ev f3 idx) = index_header idx"
  "index_header (with_session i ev f4 idx) = index_header idx"
  "index_header (with_artifact i ev f5 idx) = index_header idx"
  "index_header (adjust_org i f1 idx) = index_header idx"
  "index_header (adjust_mission i f3 idx) = index_header idx"
  "index_header (adjust_session i f4 idx) = index_header idx"
  "index_header (adjust_artifact i f5 idx) = index_header idx"
  "index_header (with_file path r idx) = index_header idx"
  "index_header (fold (\<lambda>c. with_file (g c) r) cs idx) = index_header idx"
  "index_header (idx\<lparr>ti_repo_contexts := rcs\<rparr>) = index_header idx"
  "index_header (idx\<lparr>ti_attachments := as\<rparr>) = index_header idx"
  "index_header (idx\<lparr>ti_diffs := ds\<rparr>) = index_header idx"
  "index_header (idx\<lparr>ti_session_logs := ls\<rparr>) = index_header idx"
  by (simp_all add: index_header_def with_defs adjust_defs)

lemma header_if_some [simp]:
  "(\<And>x i. index_header (f x i) = index_header i) \<Longrightarrow> index_header (if_some v f idx) = index_header idx"
  by (simp add: if_some_def split: option.split)

lemma apply_event_header: "apply_event ev idx = Inr idx' \<Longrightarrow> index_header idx' = index_header idx"
  by (cases "te_event_type ev")
    (auto simp: apply_event_def handler_defs link_defs record_diff_def and_then_Inr_iff Let_def split: option.splits)

lemma apply_events_header: "apply_events evs idx = Inr idx' \<Longrightarrow> index_header idx' = index_header idx"
  by (induction evs arbitrary: idx) (auto dest: apply_event_header split: sum.splits)

text \<open>Rebuilding counts the events it was given, which is what staleness is decided by.\<close>

lemma build_event_count:
  assumes "build_index now evs = Inr idx"
  shows "ti_event_count idx = length evs" "ti_schema_version idx = index_schema_version"
    "ti_rebuilt_at idx = now"
  using apply_events_header [OF assms [unfolded build_index_def]]
  by (simp_all add: index_header_def empty_index_def)

section \<open>A sample log\<close>

definition sample_actor :: actor_ref where
  "sample_actor = \<lparr>actor_type = Agent, actor_id = ''agent-1'', display_name = None\<rparr>"

definition at_time :: "nat \<Rightarrow> fresh" where
  "at_time n = \<lparr>fresh_now = int n, fresh_uuid = ''event-'' @ [''0123456789'' ! n]\<rparr>"

definition sample_file_ref :: trace_event where
  "sample_file_ref =
     artifact_file_ref_recorded (at_time 6) sample_actor ''artifact_1'' (Some ''session_1'')
       \<lparr>fr_file_ref_id = ''fileref_1'', fr_path = ''src/lib.rs'', fr_repo_context_id = None\<rparr>"

definition sample_artifact :: trace_event where
  "sample_artifact =
     artifact_created (at_time 5) sample_actor ''artifact_1'' (Some ''mission_1'') (Some ''session_1'')
       \<lparr>ac_artifact_kind = Kind_Patch, ac_title = ''Patch'', ac_body = None, ac_repo_context_id = None\<rparr>"

definition sample_diff :: trace_event where
  "sample_diff =
     diff_captured (at_time 8) sample_actor ''artifact_1'' (Some ''session_1'') None
       \<lparr>dc_diff_target = Target_Working, dc_base_commit = None, dc_head_commit = Some ''head'',
        dc_patch_id = None, dc_summary_hash = ''h'',
        dc_file_changes = [\<lparr>fc_path = ''src/lib.rs'', fc_old_path = None, fc_change_kind = Change_Modified,
          fc_additions = Some 3, fc_deletions = Some 1, fc_hunks = [], fc_patch_id = None\<rparr>],
        dc_repo_context_id = None\<rparr>"

definition sample_log :: "trace_event list" where
  "sample_log =
     [org_created (at_time 1) sample_actor ''org_1''
        \<lparr>oc_name = ''Acme'', oc_description = None, oc_repo_context_id = None\<rparr>,
      project_created (at_time 2) sample_actor ''project_1''
        \<lparr>pc_org_id = ''org_1'', pc_name = ''Core'', pc_description = None, pc_repo_context_id = None\<rparr>,
      mission_created (at_time 3) sample_actor ''mission_1''
        \<lparr>mc_project_id = ''project_1'', mc_title = ''Ship'', mc_description = None,
         mc_status = Mission_Active, mc_repo_context_id = None\<rparr>,
      session_started (at_time 4) sample_actor ''session_1'' (Some ''mission_1'')
        \<lparr>st_session_name = Some ''s'', st_source = default_session_source, st_repo_context_id = None\<rparr>,
      sample_artifact, sample_file_ref,
      artifact_attachment_uploaded (at_time 7) sample_actor ''artifact_1'' (Some ''session_1'')
        \<lparr>at_attachment_id = ''attach_1'', at_name = ''r.txt'', at_original_path = ''/r.txt'',
         at_content_type = None, at_sha256 = ''00'', at_size_bytes = 5, at_storage_uri = ''u'',
         at_external_uri = None, at_availability = LocalBlob, at_repo_context_id = None\<rparr>,
      sample_diff,
      project_updated (at_time 9) sample_actor ''project_1''
        \<lparr>pu_org_id = Some ''org_2'', pu_name = None, pu_description = None, pu_repo_context_id = None\<rparr>]"

lemmas sample_simps =
  sample_log_def sample_artifact_def sample_file_ref_def sample_diff_def event_constructors
  from_payload_def at_time_def link_sets

lemma sample_log_builds: "\<exists>idx. build_index 0 sample_log = Inr idx"
  using apply_events_outcome [of sample_log "empty_index 0 (length sample_log)"]
  by (simp add: build_index_def sample_simps indexable_def)

lemma with_sample_index:
  "(\<And>idx. build_index 0 sample_log = Inr idx \<Longrightarrow> P idx) \<Longrightarrow> \<exists>idx. build_index 0 sample_log = Inr idx \<and> P idx"
  using sample_log_builds by blast

theorem session_mission_edges_witness:
  "\<exists>idx. build_index 0 sample_log = Inr idx \<and>
     session_missions idx ''session_1'' = {''mission_1''} \<and> mission_sessions idx ''mission_1'' = {''session_1''}"
  by (rule with_sample_index) (simp add: session_mission_edges [of 0 sample_log] sample_simps)

theorem artifact_edges_witness:
  "\<exists>idx. build_index 0 sample_log = Inr idx \<and>
     ''artifact_1'' \<in> mission_artifacts idx ''mission_1'' \<and> ''session_1'' \<in> artifact_sessions idx ''artifact_1''"
  by (rule with_sample_index) (use artifact_edges [of 0 sample_log] in \<open>fastforce simp: sample_simps\<close>)

theorem container_edges_witness:
  "\<exists>idx. build_index 0 sample_log = Inr idx \<and>
     org_projects idx ''org_1'' = {''project_1''} \<and> org_projects idx ''org_2'' = {''project_1''}"
  by (rule with_sample_index) (simp add: container_edges [of 0 sample_log] sample_simps)

theorem evidence_edges_witness:
  "\<exists>idx. build_index 0 sample_log = Inr idx \<and>
     artifact_attachments idx ''artifact_1'' = {''attach_1''} \<and> session_log_refs idx ''session_1'' = {}"
  by (rule with_sample_index) (simp add: evidence_edges [of 0 sample_log] sample_simps)

theorem build_well_formed_witness:
  "\<exists>idx. build_index 0 sample_log = Inr idx \<and> index_ok idx"
  using sample_log_builds build_well_formed [of 0 sample_log] by blast

theorem file_refs_witness:
  "\<exists>idx. build_index 0 sample_log = Inr idx \<and>
     map ifr_file_ref_id (file_refs idx ''src/lib.rs'') = [''fileref_1'', ''event-8'']"
  by (rule with_sample_index) (simp add: file_refs_in_log_order [of 0 sample_log] sample_simps event_file_refs_def
      diff_file_ref_def)

theorem last_parent_wins_witness:
  "\<exists>idx. build_index 0 sample_log = Inr idx \<and>
     project_org idx ''project_1'' = Some ''org_2'' \<and> mission_project idx ''mission_1'' = Some ''project_1''"
  by (rule with_sample_index) (simp add: last_parent_wins [of 0 sample_log] last_declared_def declared_org_def
      declared_project_def sample_simps map_filter_simps)


text \<open>The diff of the sample log is stored, so the claim about it is not empty.\<close>

lemma sample_diff_stored:
  "build_index 0 sample_log = Inr idx \<Longrightarrow> bt_get (ti_diffs idx) ''event-8'' \<noteq> None"
  by (auto simp: build_index_def sample_simps apply_event_def handler_defs typed_payload_def Let_def
      record_diff_def with_defs adjust_defs link_defs empty_index_def)

theorem evidence_reachable_witness:
  "\<exists>idx d. build_index 0 sample_log = Inr idx \<and> bt_get (ti_diffs idx) ''event-8'' = Some d \<and>
     ''event-8'' \<in> artifact_diffs idx (idf_artifact_id d)"
  using sample_log_builds sample_diff_stored evidence_reachable [of 0 sample_log] by blast

section \<open>File paths of an artifact\<close>

definition artifact_paths :: "trace_index \<Rightarrow> string \<Rightarrow> string set" where
  "artifact_paths idx = edge_set ia_file_paths (ti_artifacts idx)"

lemma new_artifact_paths [simp]: "ia_file_paths (new_artifact i ev) = []"
  by (simp add: new_defs blank_defs)

text \<open>
  A file-reference event adds its path to the artifact's file paths only if the index
  already holds the artifact. If the reference comes before the artifact, the path is not added,
  although the file itself lists the reference (the session link, if any, then creates the
  artifact without it).
\<close>

theorem file_ref_needs_known_artifact:
  assumes "te_event_type ev = ArtifactFileRefRecorded" "te_artifact_id ev = Some a"
    and "dec_payload (te_event_type ev) (te_payload ev) = Some (P_ArtifactFileRefRecorded p)"
    and "apply_event ev idx = Inr idx'"
  shows "artifact_paths idx' a =
     (if bt_get (ti_artifacts idx) a = None then {} else insert (fr_path p) (artifact_paths idx a))"
proof -
  have p: "dec_artifact_file_ref_payload (te_payload ev) = Some p" using assms(1,3) by auto
  have idx': "idx' = if_some (te_session_id ev) (\<lambda>s. link_artifact_to_session a s ev)
      (adjust_artifact a
        (\<lambda>artifact. artifact\<lparr>ia_file_paths := bs_insert (fr_path p) (ia_file_paths artifact),
           ia_repo_context_ids := insert_optional (fr_repo_context_id p) (ia_repo_context_ids artifact),
           ia_last_event_at := te_recorded_at ev\<rparr>)
        (with_file (fr_path p)
          \<lparr>ifr_file_ref_id = fr_file_ref_id p, ifr_artifact_id = a, ifr_session_id = te_session_id ev,
           ifr_repo_context_id = fr_repo_context_id p, ifr_recorded_at = te_recorded_at ev\<rparr> idx))"
    using assms by (simp add: p apply_event_def apply_artifact_file_ref_def typed_payload_def Let_def)
  show ?thesis
    by (cases "te_session_id ev"; cases "bt_get (ti_artifacts idx) a")
      (auto simp: idx' artifact_paths_def edge_set_def with_defs adjust_defs link_defs bt_simps)
qed

theorem file_ref_needs_known_artifact_witness:
  "\<exists>idx. apply_event sample_file_ref (empty_index 0 1) = Inr idx \<and> artifact_paths idx ''artifact_1'' = {}"
proof -
  obtain idx where "apply_event sample_file_ref (empty_index 0 1) = Inr idx"
    using apply_event_indexable [of sample_file_ref] by (auto simp: sample_simps indexable_def)
  moreover from this have "artifact_paths idx ''artifact_1'' = {}"
    using file_ref_needs_known_artifact [of sample_file_ref "''artifact_1''"
        "\<lparr>fr_file_ref_id = ''fileref_1'', fr_path = ''src/lib.rs'', fr_repo_context_id = None\<rparr>"
        "empty_index 0 1" idx]
    by (simp add: sample_simps empty_index_def)
  ultimately show ?thesis by blast
qed

end
