(* ===== verification/Session_Query.thy ===== *)
theory Session_Query imports Index_Props "HOL-Library.Product_Lexorder" begin

text \<open>
  Session discovery over the index (\<^verbatim>\<open>session_query.rs\<close>): the filters, and the result in
  newest-first order. Rust's \<^verbatim>\<open>sort_by\<close> is stable, so it is \<open>sort_key\<close> on the pair that the
  comparator compares, with the instant negated.
\<close>

record session_query =
  sq_app_id :: "string option"
  sq_app_session_id :: "string option"
  sq_app_session_name :: "string option"
  sq_runtime_id :: "string option"
  sq_actor_id :: "string option"

definition matches_optional :: "string option \<Rightarrow> string option \<Rightarrow> bool" where
  "matches_optional expected actual = (case expected of Some e \<Rightarrow> actual = Some e | None \<Rightarrow> True)"

definition query_matches :: "session_query \<Rightarrow> indexed_session \<Rightarrow> bool" where
  "query_matches q s \<longleftrightarrow>
     matches_optional (sq_app_id q) (ss_app_id (isn_source s)) \<and>
     matches_optional (sq_app_session_id q) (ss_app_session_id (isn_source s)) \<and>
     matches_optional (sq_app_session_name q) (ss_app_session_name (isn_source s)) \<and>
     matches_optional (sq_runtime_id q) (ss_runtime_id (isn_source s)) \<and>
     matches_optional (sq_actor_id q) (isn_actor_id s)"

definition query_indexed_sessions :: "trace_index \<Rightarrow> session_query \<Rightarrow> indexed_session list" where
  "query_indexed_sessions idx q =
     sort_key (\<lambda>s. (- isn_last_event_at s, isn_session_id s))
       (filter (query_matches q) (map snd (ti_sessions idx)))"

text \<open>Newest first, and by ascending id among sessions last touched at the same instant.\<close>

definition newer_first :: "indexed_session \<Rightarrow> indexed_session \<Rightarrow> bool" where
  "newer_first a b \<longleftrightarrow>
     isn_last_event_at b < isn_last_event_at a \<or>
     isn_last_event_at a = isn_last_event_at b \<and> isn_session_id a < isn_session_id b"

lemma index_ok_session_values:
  assumes "index_ok idx"
  shows "distinct (map isn_session_id (map snd (ti_sessions idx)))"
    and "set (map snd (ti_sessions idx)) = {s. bt_get (ti_sessions idx) (isn_session_id s) = Some s}"
proof -
  have inv: "map_inv session_ok (ti_sessions idx)" using assms by (simp add: index_ok_def)
  then have bt: "bt_inv (ti_sessions idx)" by (simp add: map_inv_def)
  have key: "isn_session_id v = k" if "(k, v) \<in> set (ti_sessions idx)" for k v
    using inv that by (simp add: map_inv_def session_ok_def bt_get_iff)
  then have keys: "map isn_session_id (map snd (ti_sessions idx)) = map fst (ti_sessions idx)" by auto
  show "distinct (map isn_session_id (map snd (ti_sessions idx)))"
    unfolding keys by (rule bt_inv_distinct [OF bt])
  show "set (map snd (ti_sessions idx)) = {s. bt_get (ti_sessions idx) (isn_session_id s) = Some s}"
  proof (intro equalityI subsetI)
    fix s assume "s \<in> set (map snd (ti_sessions idx))"
    then obtain k where "(k, s) \<in> set (ti_sessions idx)" by auto
    then show "s \<in> {s. bt_get (ti_sessions idx) (isn_session_id s) = Some s}"
      using key [of k s] by (simp add: bt_get_iff [OF bt])
  next
    fix s assume "s \<in> {s. bt_get (ti_sessions idx) (isn_session_id s) = Some s}"
    then have "(isn_session_id s, s) \<in> set (ti_sessions idx)" by (simp add: bt_get_iff [OF bt])
    then show "s \<in> set (map snd (ti_sessions idx))" by (metis image_eqI list.set_map snd_conv)
  qed
qed

lemma sort_key_strict:
  assumes "distinct (map g xs)" "\<And>x y. x \<in> set xs \<Longrightarrow> y \<in> set xs \<Longrightarrow> f x = f y \<Longrightarrow> g x = g y"
  shows "sorted_wrt (\<lambda>a b. f a < f b) (sort_key f xs)"
proof -
  have "distinct xs" using assms(1) by (simp add: distinct_map)
  moreover have "inj_on f (set xs)"
    using assms by (meson distinct_map inj_onD inj_onI)
  ultimately have "distinct (map f (sort_key f xs))"
    by (intro distinct_map [THEN iffD2] conjI) simp_all
  moreover have "sorted (map f (sort_key f xs))" by (rule sorted_sort_key)
  ultimately have "sorted_wrt (<) (map f (sort_key f xs))"
    by (simp only: strict_sorted_iff simp_thms)
  then show ?thesis by (simp only: sorted_wrt_map)
qed

text \<open>
  For an index built from a log, a session query returns exactly the indexed sessions that
  match every given filter, each once, strictly ordered from the most recently touched one, with
  the id deciding between sessions touched at the same instant.
\<close>

theorem session_query_correct:
  assumes "build_index now evs = Inr idx"
  shows "set (query_indexed_sessions idx q) =
      {s. bt_get (ti_sessions idx) (isn_session_id s) = Some s \<and> query_matches q s} \<and>
    sorted_wrt newer_first (query_indexed_sessions idx q)"
proof
  have ok: "index_ok idx" by (rule index_ok.inv_build [OF assms])
  show "set (query_indexed_sessions idx q) =
      {s. bt_get (ti_sessions idx) (isn_session_id s) = Some s \<and> query_matches q s}"
    using index_ok_session_values(2) [OF ok] by (auto simp: query_indexed_sessions_def)
  let ?xs = "filter (query_matches q) (map snd (ti_sessions idx))"
  have "distinct (map isn_session_id ?xs)"
    using index_ok_session_values(1) [OF ok] by (rule distinct_map_filter)
  then have "sorted_wrt (\<lambda>a b. (- isn_last_event_at a, isn_session_id a) < (- isn_last_event_at b, isn_session_id b))
      (query_indexed_sessions idx q)"
    unfolding query_indexed_sessions_def by (rule sort_key_strict) simp
  moreover have "(\<lambda>a b. (- isn_last_event_at a, isn_session_id a) < (- isn_last_event_at b, isn_session_id b)) = newer_first"
    by (auto simp: newer_first_def fun_eq_iff)
  ultimately show "sorted_wrt newer_first (query_indexed_sessions idx q)" by simp
qed

theorem session_query_correct_witness:
  "\<exists>idx. build_index 0 sample_log = Inr idx \<and>
     sorted_wrt newer_first (query_indexed_sessions idx
       \<lparr>sq_app_id = None, sq_app_session_id = None, sq_app_session_name = None, sq_runtime_id = None,
        sq_actor_id = Some ''agent-1''\<rparr>)"
  by (rule with_sample_index) (use session_query_correct [of 0 sample_log] in blast)

end
