(* ===== verification/Event_Store.thy ===== *)
theory Event_Store imports Trace_Event "HOL-Library.Product_Lexorder" "HOL-Library.Option_ord" begin

text \<open>
  The SQLite event and chunk database (\<^verbatim>\<open>local_event_store.rs\<close>). A database file is absent
  (\<open>None\<close>) or holds two tables, each the list of its rows in insertion order; a JSON text column is
  represented by its JSON value. Text columns compare bytewise and NULL sorts first, as in SQLite,
  so \<^verbatim>\<open>ORDER BY\<close> is \<open>sort_key\<close> on tuples. A transaction is one function on the database.
  The time that a row is inserted at is an argument.
\<close>

section \<open>Tables\<close>

record event_row =
  row_event_id :: string
  row_repo_id :: string
  row_org_id :: "string option"
  row_occurred_at :: string
  row_event_json :: json
  row_inserted_at :: string

record chunk_row =
  ch_event_id :: string
  ch_repo_id :: string
  ch_org_id :: "string option"
  ch_source_id :: string
  ch_external_session_id :: string
  ch_chunk_index :: nat
  ch_chunk_kind :: "string option"
  ch_role :: "string option"
  ch_actor_id :: "string option"
  ch_occurred_at :: "string option"
  ch_text :: "string option"
  ch_raw :: json

record event_db =
  db_events :: "event_row list"
  db_chunks :: "chunk_row list"

type_synonym db_file = "event_db option"

definition empty_db :: event_db where
  "empty_db = \<lparr>db_events = [], db_chunks = []\<rparr>"

text \<open>\<^verbatim>\<open>init\<close>: the file and its tables exist afterwards; existing rows stay.\<close>

definition init_db :: "db_file \<Rightarrow> event_db" where
  "init_db f = (case f of None \<Rightarrow> empty_db | Some db \<Rightarrow> db)"

section \<open>Chunks of a source session\<close>

text \<open>\<^verbatim>\<open>Value::get\<close> with a string key and \<^verbatim>\<open>Value::pointer\<close> with non-numeric tokens.\<close>

definition json_get :: "string \<Rightarrow> json \<Rightarrow> json option" where
  "json_get k j = (case j of JObj fs \<Rightarrow> map_of fs k | _ \<Rightarrow> None)"

fun json_pointer :: "string list \<Rightarrow> json \<Rightarrow> json option" where
  "json_pointer [] j = Some j"
| "json_pointer (k # ks) j = (case json_get k j of None \<Rightarrow> None | Some j' \<Rightarrow> json_pointer ks j')"

text \<open>
  The first path that is present decides, even when its value is not a string; that is the code's
  chain of \<^verbatim>\<open>or_else\<close> before \<^verbatim>\<open>and_then(Value::as_str)\<close>.
\<close>

fun first_pointer :: "string list list \<Rightarrow> json \<Rightarrow> json option" where
  "first_pointer [] j = None"
| "first_pointer (p # ps) j = or_else (json_pointer p j) (first_pointer ps j)"

definition first_str :: "string list list \<Rightarrow> json \<Rightarrow> string option" where
  "first_str ps j = first_pointer ps j \<bind> dec_str"

definition chunk_kind :: "json \<Rightarrow> string option" where
  "chunk_kind raw = first_str [[''action_type''], [''kind''], [''type''], [''function'']] raw"

definition chunk_role :: "json \<Rightarrow> string option" where
  "chunk_role raw =
     first_str [[''role''], [''result'', ''role''], [''result'', ''message'', ''role'']] raw"

definition chunk_actor_id :: "json \<Rightarrow> string option" where
  "chunk_actor_id raw = first_str [[''actor_id''], [''actor'', ''actor_id'']] raw"

definition chunk_time :: "json \<Rightarrow> string option" where
  "chunk_time raw = first_str [[''created_at''], [''occurred_at''], [''timestamp'']] raw"

definition chunk_text :: "json \<Rightarrow> string option" where
  "chunk_text raw =
     first_str [[''text''], [''content''], [''message'', ''content''], [''result'', ''content''],
       [''result'', ''message'', ''content''], [''result'', ''observation''], [''result'', ''output'']] raw"

definition event_chunk :: "trace_event \<Rightarrow> source_session_payload \<Rightarrow> nat \<times> json \<Rightarrow> chunk_row" where
  "event_chunk ev p = (\<lambda>(i, raw).
     \<lparr>ch_event_id = te_event_id ev, ch_repo_id = unwrap_or (te_repo_id ev) [],
      ch_org_id = te_org_id ev, ch_source_id = so_source_id p,
      ch_external_session_id = so_external_session_id p, ch_chunk_index = i,
      ch_chunk_kind = chunk_kind raw, ch_role = chunk_role raw, ch_actor_id = chunk_actor_id raw,
      ch_occurred_at = chunk_time raw, ch_text = chunk_text raw, ch_raw = raw\<rparr>)"

text \<open>A source-session event is stored without its chunks, which become rows of their own.\<close>

definition compact_event_and_chunks :: "trace_event \<Rightarrow> (trace_event \<times> chunk_row list) result" where
  "compact_event_and_chunks ev =
     (if te_event_type ev \<noteq> SourceSessionObserved then Inr (ev, [])
      else case dec_source_session_payload (te_payload ev) of
             None \<Rightarrow> Inl Source_Session_Payload
           | Some p \<Rightarrow>
               Inr (ev\<lparr>te_payload := enc_source_session_payload (p\<lparr>so_normalized_chunks := []\<rparr>)\<rparr>,
                    map (event_chunk ev p) (List.enumerate 0 (so_normalized_chunks p))))"

section \<open>Writing\<close>

text \<open>\<^verbatim>\<open>INSERT OR IGNORE\<close> on the primary key \<^verbatim>\<open>event_id\<close>.\<close>

definition insert_or_ignore :: "event_row \<Rightarrow> event_row list \<Rightarrow> event_row list" where
  "insert_or_ignore r rows =
     (if row_event_id r \<in> set (map row_event_id rows) then rows else rows @ [r])"

definition stamp_repo :: "string \<Rightarrow> trace_event \<Rightarrow> trace_event" where
  "stamp_repo repo ev = (if te_repo_id ev = None then ev\<lparr>te_repo_id := Some repo\<rparr> else ev)"

definition event_row_of :: "services \<Rightarrow> instant \<Rightarrow> string \<Rightarrow> trace_event \<Rightarrow> trace_event \<Rightarrow> event_row" where
  "event_row_of svc now repo ev compact =
     \<lparr>row_event_id = te_event_id ev, row_repo_id = unwrap_or (te_repo_id ev) repo,
      row_org_id = te_org_id ev, row_occurred_at = rfc3339 svc (te_occurred_at ev),
      row_event_json = enc_trace_event svc compact, row_inserted_at = rfc3339 svc now\<rparr>"

definition append_event :: "services \<Rightarrow> instant \<Rightarrow> string \<Rightarrow> trace_event \<Rightarrow> db_file \<Rightarrow> event_db \<times> unit result" where
  "append_event svc now repo ev0 f =
     (let db = init_db f; ev = stamp_repo repo ev0
      in case compact_event_and_chunks ev of
           Inl e \<Rightarrow> (db, Inl e)
         | Inr (compact, chunks) \<Rightarrow>
             (\<lparr>db_events = insert_or_ignore (event_row_of svc now repo ev compact) (db_events db),
               db_chunks = filter (\<lambda>c. ch_event_id c \<noteq> te_event_id ev) (db_chunks db) @ chunks\<rparr>,
              Inr ()))"

fun append_events :: "services \<Rightarrow> instant \<Rightarrow> string \<Rightarrow> trace_event list \<Rightarrow> db_file \<Rightarrow> db_file \<times> unit result" where
  "append_events svc now repo [] f = (f, Inr ())"
| "append_events svc now repo (ev # evs) f =
     (case append_event svc now repo ev f of
        (db, Inl e) \<Rightarrow> (Some db, Inl e)
      | (db, Inr _) \<Rightarrow> append_events svc now repo evs (Some db))"

section \<open>Reading\<close>

definition repo_matches :: "string option \<Rightarrow> event_row \<Rightarrow> bool" where
  "repo_matches repo r = (case repo of None \<Rightarrow> True | Some i \<Rightarrow> row_repo_id r = i)"

definition select_rows :: "string option \<Rightarrow> db_file \<Rightarrow> event_row list" where
  "select_rows repo f =
     (case f of
        None \<Rightarrow> []
      | Some db \<Rightarrow>
          sort_key (\<lambda>r. (row_occurred_at r, row_event_id r)) (filter (repo_matches repo) (db_events db)))"

definition decode_row :: "services \<Rightarrow> event_row \<Rightarrow> trace_event result" where
  "decode_row svc r = ok_or (dec_trace_event svc (row_event_json r)) Event_Decode"

definition read_events_for_repo :: "services \<Rightarrow> string option \<Rightarrow> db_file \<Rightarrow> trace_event list result" where
  "read_events_for_repo svc repo f = collect_results (decode_row svc) (select_rows repo f)"

definition chunks_of :: "string \<Rightarrow> event_db \<Rightarrow> json list" where
  "chunks_of i db =
     map ch_raw (sort_key ch_chunk_index (filter (\<lambda>c. ch_event_id c = i) (db_chunks db)))"

text \<open>The chunks are put back into the payload object of a source-session event.\<close>

definition hydrate :: "event_db \<Rightarrow> trace_event \<Rightarrow> trace_event" where
  "hydrate db ev =
     (if te_event_type ev \<noteq> SourceSessionObserved then ev
      else case te_payload ev of
             JObj fs \<Rightarrow>
               ev\<lparr>te_payload := JObj (bt_insert ''normalized_chunks'' (JArr (chunks_of (te_event_id ev) db)) fs)\<rparr>
           | _ \<Rightarrow> ev)"

definition read_events_with_chunks :: "services \<Rightarrow> string option \<Rightarrow> db_file \<Rightarrow> trace_event list result" where
  "read_events_with_chunks svc repo f =
     and_then (read_events_for_repo svc repo f) (\<lambda>evs.
       if list_all (\<lambda>ev. te_event_type ev \<noteq> SourceSessionObserved) evs then Inr evs
       else case f of None \<Rightarrow> Inr evs | Some db \<Rightarrow> Inr (map (hydrate db) evs))"

definition event_count_for_repo :: "string option \<Rightarrow> db_file \<Rightarrow> nat" where
  "event_count_for_repo repo f =
     (case f of None \<Rightarrow> 0 | Some db \<Rightarrow> length (filter (repo_matches repo) (db_events db)))"

definition repo_ids :: "db_file \<Rightarrow> string list" where
  "repo_ids f =
     (case f of None \<Rightarrow> [] | Some db \<Rightarrow> bs_of_list (filter (\<lambda>i. i \<noteq> []) (map row_repo_id (db_events db))))"

definition read_session_chunks :: "string \<Rightarrow> string \<Rightarrow> db_file \<Rightarrow> chunk_row list" where
  "read_session_chunks source session f =
     (case f of
        None \<Rightarrow> []
      | Some db \<Rightarrow>
          sort_key (\<lambda>c. (ch_chunk_index c, ch_occurred_at c, ch_event_id c))
            (filter (\<lambda>c. ch_source_id c = source \<and> ch_external_session_id c = session) (db_chunks db)))"

definition event_exists :: "string \<Rightarrow> db_file \<Rightarrow> bool" where
  "event_exists i f = (case f of None \<Rightarrow> False | Some db \<Rightarrow> i \<in> set (map row_event_id (db_events db)))"

section \<open>Invariants of the database\<close>

definition db_inv :: "event_db \<Rightarrow> bool" where
  "db_inv db \<longleftrightarrow>
     distinct (map row_event_id (db_events db)) \<and>
     distinct (map (\<lambda>c. (ch_event_id c, ch_chunk_index c)) (db_chunks db)) \<and>
     ch_event_id ` set (db_chunks db) \<subseteq> row_event_id ` set (db_events db)"

lemma empty_db_inv: "db_inv empty_db"
  by (simp add: db_inv_def empty_db_def)

lemma insert_or_ignore_ids:
  "row_event_id ` set (insert_or_ignore r rows) = insert (row_event_id r) (row_event_id ` set rows)"
  by (auto simp: insert_or_ignore_def)

lemma insert_or_ignore_distinct:
  "distinct (map row_event_id rows) \<Longrightarrow> distinct (map row_event_id (insert_or_ignore r rows))"
  by (simp add: insert_or_ignore_def)

lemma insert_or_ignore_prefix: "prefix rows (insert_or_ignore r rows)"
  by (simp add: insert_or_ignore_def)

lemma stamp_repo_simps [simp]:
  "te_event_id (stamp_repo repo ev) = te_event_id ev"
  "te_event_type (stamp_repo repo ev) = te_event_type ev"
  "te_payload (stamp_repo repo ev) = te_payload ev"
  "te_occurred_at (stamp_repo repo ev) = te_occurred_at ev"
  "te_repo_id (stamp_repo repo ev) = Some (unwrap_or (te_repo_id ev) repo)"
  by (auto simp: stamp_repo_def unwrap_or_def split: option.split)

lemma event_row_id [simp]: "row_event_id (event_row_of svc now repo ev compact) = te_event_id ev"
  by (simp add: event_row_of_def)

lemma event_chunk_simps [simp]:
  "ch_event_id (event_chunk ev p ix) = te_event_id ev"
  "ch_chunk_index (event_chunk ev p ix) = fst ix"
  "ch_raw (event_chunk ev p ix) = snd ix"
  by (simp_all add: event_chunk_def split: prod.split)

lemma insert_or_ignore_idem:
  "row_event_id r = row_event_id r' \<Longrightarrow>
   insert_or_ignore r (insert_or_ignore r' rows) = insert_or_ignore r' rows"
  by (simp add: insert_or_ignore_def)

lemma compact_chunks:
  assumes "compact_event_and_chunks ev = Inr (compact, chunks)"
  shows "\<forall>c\<in>set chunks. ch_event_id c = te_event_id ev"
    and "map ch_chunk_index chunks = [0..<length chunks]"
  using assms
  by (auto simp: compact_event_and_chunks_def comp_def split: if_splits option.splits)

lemma append_event_inv:
  assumes "db_inv (init_db f)" "append_event svc now repo ev f = (db, r)"
  shows "db_inv db"
proof (cases "compact_event_and_chunks (stamp_repo repo ev)")
  case (Inl e)
  then show ?thesis using assms by (simp add: append_event_def Let_def)
next
  case (Inr x)
  obtain compact chunks where x: "x = (compact, chunks)" by (cases x)
  note c = compact_chunks [OF Inr [unfolded x]]
  define olds where "olds = filter (\<lambda>c. ch_event_id c \<noteq> te_event_id ev) (db_chunks (init_db f))"
  have db: "db = \<lparr>db_events = insert_or_ignore (event_row_of svc now repo (stamp_repo repo ev) compact)
        (db_events (init_db f)), db_chunks = olds @ chunks\<rparr>"
    using assms(2) by (simp add: append_event_def Let_def Inr x olds_def)
  have "distinct (map ch_chunk_index chunks)" by (simp only: c(2) distinct_upt)
  then have "distinct (map (\<lambda>c. (ch_event_id c, ch_chunk_index c)) chunks)"
    by (simp add: distinct_map inj_on_def)
  moreover have "distinct (map (\<lambda>c. (ch_event_id c, ch_chunk_index c)) olds)"
    using assms(1) unfolding olds_def db_inv_def by (blast intro: distinct_map_filter)
  moreover have "\<forall>o1\<in>set olds. \<forall>c1\<in>set chunks. ch_event_id o1 \<noteq> ch_event_id c1"
    using c(1) by (auto simp: olds_def)
  ultimately have "distinct (map (\<lambda>c. (ch_event_id c, ch_chunk_index c)) (olds @ chunks))"
    by auto
  moreover have "ch_event_id ` set olds \<subseteq> row_event_id ` set (db_events (init_db f))"
    using assms(1) by (auto simp: olds_def db_inv_def)
  ultimately show ?thesis
    using assms(1) c(1) by (auto simp: db_inv_def db insert_or_ignore_distinct insert_or_ignore_ids)
qed


text \<open>
  Appending the same event a second time, at any later time, changes nothing, its chunks
  included.
\<close>

theorem append_event_idempotent:
  assumes "append_event svc now repo ev f = (db, r)"
  shows "append_event svc now' repo ev (Some db) = (db, r)"
proof (cases "compact_event_and_chunks (stamp_repo repo ev)")
  case (Inl e)
  with assms show ?thesis by (auto simp: append_event_def Let_def init_db_def)
next
  case (Inr x)
  obtain compact chunks where x: "x = (compact, chunks)" by (cases x)
  have "filter (\<lambda>c. ch_event_id c \<noteq> te_event_id ev) chunks = []"
    using compact_chunks(1) [OF Inr [unfolded x]] by (simp add: filter_empty_conv)
  then show ?thesis
    using assms by (auto simp: append_event_def Let_def Inr x init_db_def [of "Some _"] insert_or_ignore_idem)
qed

section \<open>Reads\<close>

lemma select_rows_simps:
  "select_rows repo None = []"
  "set (select_rows repo (Some db)) = {r \<in> set (db_events db). repo_matches repo r}"
  by (auto simp: select_rows_def)

lemma length_select_rows: "length (select_rows repo f) = event_count_for_repo repo f"
  by (simp add: select_rows_def event_count_for_repo_def split: option.split)

lemma read_events_length:
  "read_events_for_repo svc repo f = Inr evs \<Longrightarrow> length evs = event_count_for_repo repo f"
  by (simp add: read_events_for_repo_def collect_results_Inr list_all2_lengthD
      length_select_rows [symmetric])

text \<open>
  A stored row is the encoding of an event of the same id; every row that \<open>append_event\<close> writes
  is one when the services read back.
\<close>

definition row_faithful :: "services \<Rightarrow> event_row \<Rightarrow> bool" where
  "row_faithful svc r \<longleftrightarrow>
     (\<exists>ev. dec_trace_event svc (row_event_json r) = Some ev \<and> te_event_id ev = row_event_id r \<and>
           rfc3339 svc (te_occurred_at ev) = row_occurred_at r)"

definition db_faithful :: "services \<Rightarrow> event_db \<Rightarrow> bool" where
  "db_faithful svc db \<longleftrightarrow> list_all (row_faithful svc) (db_events db)"

lemma compact_read_back:
  assumes "compact_event_and_chunks ev = Inr (compact, chunks)" "services_read_back svc ev"
  shows "dec_trace_event svc (enc_trace_event svc compact) = Some compact"
    "te_event_id compact = te_event_id ev" "te_occurred_at compact = te_occurred_at ev"
proof -
  have same: "te_event_id compact = te_event_id ev" "te_occurred_at compact = te_occurred_at ev"
    "te_recorded_at compact = te_recorded_at ev"
    using assms(1) by (auto simp: compact_event_and_chunks_def split: if_splits option.splits)
  then have "services_read_back svc compact" using assms(2) by (simp add: services_read_back_def)
  then show "dec_trace_event svc (enc_trace_event svc compact) = Some compact"
    by (rule trace_event_read_back)
qed (use assms(1) in \<open>auto simp: compact_event_and_chunks_def split: if_splits option.splits\<close>)

lemma stamp_repo_read_back: "services_read_back svc ev \<Longrightarrow> services_read_back svc (stamp_repo repo ev)"
  by (simp add: services_read_back_def stamp_repo_def)

lemma append_event_faithful:
  assumes "db_faithful svc (init_db f)" "services_read_back svc ev"
    and "append_event svc now repo ev f = (db, r)"
  shows "db_faithful svc db"
proof (cases "compact_event_and_chunks (stamp_repo repo ev)")
  case (Inr x)
  obtain compact chunks where x: "x = (compact, chunks)" by (cases x)
  have "row_faithful svc (event_row_of svc now repo (stamp_repo repo ev) compact)"
    using compact_read_back [OF Inr [unfolded x] stamp_repo_read_back [OF assms(2)]]
    by (simp add: row_faithful_def event_row_of_def)
  then show ?thesis
    using assms by (auto simp: append_event_def Let_def Inr x db_faithful_def insert_or_ignore_def)
qed (use assms in \<open>auto simp: append_event_def Let_def\<close>)

lemma row_faithful_decode:
  "row_faithful svc r \<Longrightarrow>
   \<exists>ev. decode_row svc r = Inr ev \<and> te_event_id ev = row_event_id r \<and>
     rfc3339 svc (te_occurred_at ev) = row_occurred_at r"
  by (auto simp: row_faithful_def decode_row_def)

lemma collect_faithful:
  "list_all (row_faithful svc) rows \<Longrightarrow>
   \<exists>evs. collect_results (decode_row svc) rows = Inr evs \<and>
     map te_event_id evs = map row_event_id rows \<and>
     map (\<lambda>ev. rfc3339 svc (te_occurred_at ev)) evs = map row_occurred_at rows"
proof (induction rows)
  case (Cons r rows)
  then obtain ev evs where "decode_row svc r = Inr ev" "te_event_id ev = row_event_id r"
    "rfc3339 svc (te_occurred_at ev) = row_occurred_at r" "collect_results (decode_row svc) rows = Inr evs"
    "map te_event_id evs = map row_event_id rows"
    "map (\<lambda>ev. rfc3339 svc (te_occurred_at ev)) evs = map row_occurred_at rows"
    using row_faithful_decode [of svc r] by auto
  then show ?case by (intro exI [of _ "ev # evs"]) simp
qed simp

lemma read_faithful:
  assumes "db_faithful svc db"
  shows "\<exists>evs. read_events_for_repo svc repo (Some db) = Inr evs \<and>
    map te_event_id evs = map row_event_id (select_rows repo (Some db)) \<and>
    map (\<lambda>ev. rfc3339 svc (te_occurred_at ev)) evs = map row_occurred_at (select_rows repo (Some db))"
  unfolding read_events_for_repo_def
  by (rule collect_faithful)
    (use assms in \<open>simp add: list_all_iff select_rows_simps db_faithful_def\<close>)

text \<open>
  Reading a repository's events returns exactly the stored events of that repository, each
  once, in the order of their printed time and then their id.
\<close>

theorem read_events_sorted:
  assumes "db_inv db" "db_faithful svc db"
  shows "\<exists>evs. read_events_for_repo svc (Some repo) (Some db) = Inr evs \<and>
    set (map te_event_id evs) = {row_event_id r | r. r \<in> set (db_events db) \<and> row_repo_id r = repo} \<and>
    distinct (map te_event_id evs) \<and>
    sorted (map (\<lambda>ev. (rfc3339 svc (te_occurred_at ev), te_event_id ev)) evs)"
proof -
  let ?rows = "select_rows (Some repo) (Some db)"
  obtain evs where evs: "read_events_for_repo svc (Some repo) (Some db) = Inr evs"
    "map te_event_id evs = map row_event_id ?rows"
    "map (\<lambda>ev. rfc3339 svc (te_occurred_at ev)) evs = map row_occurred_at ?rows"
    using read_faithful [OF assms(2)] by blast
  have "mset ?rows = mset (filter (repo_matches (Some repo)) (db_events db))"
    by (simp add: select_rows_def)
  then have "mset (map row_event_id ?rows) = mset (map row_event_id (filter (repo_matches (Some repo)) (db_events db)))"
    by simp
  moreover have "distinct (map row_event_id (filter (repo_matches (Some repo)) (db_events db)))"
    using assms(1) unfolding db_inv_def by (blast intro: distinct_map_filter)
  ultimately have "distinct (map row_event_id ?rows)" by (metis mset_eq_imp_distinct_iff)
  moreover have "map (\<lambda>ev. (rfc3339 svc (te_occurred_at ev), te_event_id ev)) evs =
      map (\<lambda>r. (row_occurred_at r, row_event_id r)) ?rows"
    using zip_map_map [of "\<lambda>ev. rfc3339 svc (te_occurred_at ev)" evs te_event_id evs]
      zip_map_map [of row_occurred_at ?rows row_event_id ?rows] evs(2,3)
    by (simp add: zip_same_conv_map comp_def)
  moreover have "sorted (map (\<lambda>r. (row_occurred_at r, row_event_id r)) ?rows)"
    unfolding select_rows_def by simp
  moreover have "set (map row_event_id ?rows) = {row_event_id r | r. r \<in> set (db_events db) \<and> row_repo_id r = repo}"
    by (auto simp: select_rows_simps repo_matches_def)
  ultimately show ?thesis
    by (intro exI [of _ evs]) (simp only: evs simp_thms)
qed

section \<open>Chunks come back\<close>

lemma list_all2_witness: "list_all2 P xs ys \<Longrightarrow> x \<in> set xs \<Longrightarrow> \<exists>y\<in>set ys. P x y"
  by (induction rule: list_all2_induct) auto

lemma chunks_of_append:
  assumes "compact_event_and_chunks (stamp_repo repo ev) = Inr (compact, chunks)"
    and "append_event svc now repo ev f = (db, r)"
  shows "chunks_of (te_event_id ev) db = map ch_raw chunks"
proof -
  note c = compact_chunks [OF assms(1)]
  have "filter (\<lambda>c. ch_event_id c = te_event_id ev) (db_chunks db) = chunks"
    using assms(2) c(1) by (auto simp: append_event_def Let_def assms(1) filter_id_conv)
  moreover have "sort_key ch_chunk_index chunks = chunks"
    by (rule sort_key_id_if_sorted) (simp only: c(2) sorted_upt)
  ultimately show ?thesis by (simp add: chunks_of_def)
qed

lemma struct_src_insert:
  "distinct (map fst fs) \<Longrightarrow>
   struct_src spec (JObj (bt_insert k v (bt_of_list fs))) = Some ((map_of fs)(k \<mapsto> v))"
  by (simp add: struct_src_def map_of_bt_of_list)

text \<open>Putting the chunks back into a compact payload gives the payload.\<close>

lemma payload_with_chunks:
  assumes "so_metadata_json p \<noteq> Some JNull"
    and "enc_source_session_payload (p\<lparr>so_normalized_chunks := []\<rparr>) = JObj fs"
  shows "dec_source_session_payload
     (JObj (bt_insert ''normalized_chunks'' (JArr (so_normalized_chunks p)) fs)) = Some p"
  using assms
  by (auto simp: enc_source_session_payload_def enc_struct_def dec_source_session_payload_def
      struct_src_insert skip_if_def codec)

text \<open>
  C6: a source-session event appended under a fresh id is stored without its chunks, and reading
  with chunks gives back an event whose payload is the one that was appended, chunks included
  and in order.
\<close>

theorem chunks_round_trip:
  assumes "te_event_type ev = SourceSessionObserved"
    and "te_payload ev = enc_source_session_payload p" and "so_metadata_json p \<noteq> Some JNull"
    and "services_read_back svc ev" and "\<not> event_exists (te_event_id ev) f"
    and "append_event svc now repo ev f = (db, Inr ())"
    and "read_events_with_chunks svc None (Some db) = Inr evs"
  shows "\<exists>ev'\<in>set evs. te_event_id ev' = te_event_id ev \<and>
    dec_source_session_payload (te_payload ev') = Some p"
proof -
  define compact where "compact =
    (stamp_repo repo ev)\<lparr>te_payload := enc_source_session_payload (p\<lparr>so_normalized_chunks := []\<rparr>)\<rparr>"
  define chunks where "chunks = map (event_chunk (stamp_repo repo ev) p) (List.enumerate 0 (so_normalized_chunks p))"
  have dec: "dec_source_session_payload (te_payload ev) = Some p"
    using assms(2,3) by (simp add: dec_source_session_payload_enc)
  have cc: "compact_event_and_chunks (stamp_repo repo ev) = Inr (compact, chunks)"
    using assms(1) by (simp add: compact_event_and_chunks_def dec compact_def chunks_def)
  have raws: "chunks_of (te_event_id ev) db = so_normalized_chunks p"
    using chunks_of_append [OF cc assms(6)] by (simp add: chunks_def comp_def)
  have row: "event_row_of svc now repo (stamp_repo repo ev) compact \<in> set (db_events db)"
    using assms(5,6)
    by (auto simp: append_event_def Let_def cc insert_or_ignore_def event_exists_def init_db_def
        empty_db_def split: option.splits)
  obtain raw_evs where reads: "read_events_for_repo svc None (Some db) = Inr raw_evs"
    using assms(7) by (auto simp: read_events_with_chunks_def and_then_Inr_iff)
  have "list_all2 (\<lambda>r e. decode_row svc r = Inr e) (select_rows None (Some db)) raw_evs"
    using reads by (simp add: read_events_for_repo_def collect_results_Inr)
  moreover have "event_row_of svc now repo (stamp_repo repo ev) compact \<in> set (select_rows None (Some db))"
    using row by (simp add: select_rows_simps repo_matches_def)
  ultimately have "\<exists>e\<in>set raw_evs.
      decode_row svc (event_row_of svc now repo (stamp_repo repo ev) compact) = Inr e"
    by (rule list_all2_witness)
  then obtain e where e: "e \<in> set raw_evs"
    "decode_row svc (event_row_of svc now repo (stamp_repo repo ev) compact) = Inr e" ..
  then have e_compact: "e = compact"
    using compact_read_back(1) [OF cc stamp_repo_read_back [OF assms(4)]]
    by (simp add: decode_row_def event_row_of_def)
  have "te_event_type compact = SourceSessionObserved" using assms(1) by (simp add: compact_def)
  then have evs: "evs = map (hydrate db) raw_evs"
    using assms(7) reads e(1) e_compact
    by (auto simp: read_events_with_chunks_def list_all_iff split: if_splits)
  obtain fs where fs: "enc_source_session_payload (p\<lparr>so_normalized_chunks := []\<rparr>) = JObj fs"
    by (auto simp: enc_source_session_payload_def enc_struct_def)
  have "te_event_id (hydrate db compact) = te_event_id ev" "te_payload (hydrate db compact) =
      JObj (bt_insert ''normalized_chunks'' (JArr (so_normalized_chunks p)) fs)"
    using assms(1) by (simp_all add: hydrate_def compact_def fs raws)
  then show ?thesis
    using e(1) by (auto simp: evs e_compact payload_with_chunks [OF assms(3) fs])
qed

section \<open>A sample source session\<close>

definition sample_session_payload :: source_session_payload where
  "sample_session_payload =
     \<lparr>so_source_id = ''claude_code'', so_external_session_id = ''s1'', so_title = Some ''T'', so_name = None,
      so_source_path = None, so_source_uri = None, so_source_mtime = None, so_source_size = None,
      so_source_fingerprint = None, so_parser_version = None, so_session_created_at = None,
      so_session_updated_at = None, so_model = None, so_input_tokens = Some 10, so_output_tokens = None,
      so_repo_path = None, so_branch = None, so_files_changed = None, so_lines_added = None,
      so_lines_removed = None, so_touched_files = [], so_metadata_json = None,
      so_normalized_chunks = [JObj [(''kind'', JStr ''user''), (''text'', JStr ''hi'')], JNull]\<rparr>"

definition sample_session_event :: trace_event where
  "sample_session_event =
     source_session_observed \<lparr>fresh_now = 7, fresh_uuid = ''event-7''\<rparr>
       \<lparr>actor_type = System, actor_id = ''brick'', display_name = None\<rparr> sample_session_payload"

definition sample_db :: event_db where
  "sample_db = fst (append_event plain_services 9 ''repo-1'' sample_session_event None)"

lemma sample_event_simps:
  "te_event_id sample_session_event = ''event-7''"
  "te_event_type sample_session_event = SourceSessionObserved"
  "te_payload sample_session_event = enc_source_session_payload sample_session_payload"
  "so_metadata_json sample_session_payload = None"
  by (simp_all add: sample_session_event_def source_session_observed_def from_payload_def
      sample_session_payload_def)

lemma sample_append: "append_event plain_services 9 ''repo-1'' sample_session_event None = (sample_db, Inr ())"
  by (simp add: sample_db_def append_event_def Let_def compact_event_and_chunks_def sample_event_simps
      dec_source_session_payload_enc)

lemma sample_db_inv: "db_inv sample_db"
  using append_event_inv [OF _ sample_append] by (simp add: init_db_def empty_db_inv)

lemma sample_db_faithful: "db_faithful plain_services sample_db"
  using append_event_faithful [OF _ plain_services_read_back sample_append]
  by (simp add: db_faithful_def init_db_def empty_db_def)


theorem append_event_idempotent_witness:
  "append_event plain_services 20 ''repo-1'' sample_session_event (Some sample_db) = (sample_db, Inr ())"
  by (rule append_event_idempotent [OF sample_append])

theorem read_events_sorted_witness:
  "\<exists>evs. read_events_for_repo plain_services (Some ''repo-1'') (Some sample_db) = Inr evs \<and>
     distinct (map te_event_id evs)"
  using read_events_sorted [OF sample_db_inv sample_db_faithful] by blast

theorem chunks_round_trip_witness:
  "\<exists>evs ev'. read_events_with_chunks plain_services None (Some sample_db) = Inr evs \<and> ev' \<in> set evs \<and>
     dec_source_session_payload (te_payload ev') = Some sample_session_payload"
proof -
  have "\<exists>evs. read_events_with_chunks plain_services None (Some sample_db) = Inr evs"
    using read_faithful [OF sample_db_faithful, of None] by (auto simp: read_events_with_chunks_def)
  then obtain evs where "read_events_with_chunks plain_services None (Some sample_db) = Inr evs" ..
  moreover from chunks_round_trip [OF sample_event_simps(2,3) _ plain_services_read_back _ sample_append this]
  obtain ev' where "ev' \<in> set evs" "dec_source_session_payload (te_payload ev') = Some sample_session_payload"
    by (auto simp: sample_event_simps event_exists_def)
  ultimately show ?thesis by blast
qed

end
