(* ===== verification/Local_Store.thy ===== *)
theory Local_Store imports Event_Store Index_Props begin

text \<open>
  The store of one repository (\<^verbatim>\<open>store.rs\<close>): the shared event database, the cached index file
  with its staleness rule, and the Markdown views. The database is shared by all repositories and
  processes, so between two operations of one store any number of appends can happen; \<open>log_step\<close>
  is one of them.
\<close>

section \<open>The store\<close>

datatype index_file = No_Index | Corrupt_Index | Index_File trace_index

record store_env =
  se_services :: services
  se_repo_id :: string
  se_repo_root :: string

record local_store =
  ls_db :: db_file
  ls_config :: "(string \<times> string) option"
  ls_index :: index_file
  ls_views :: "((string \<times> string) \<times> string) list"

text \<open>\<^verbatim>\<open>init\<close> writes the repository's configuration once, with the time of its creation.\<close>

definition store_init :: "store_env \<Rightarrow> instant \<Rightarrow> local_store \<Rightarrow> local_store" where
  "store_init env now st =
     st\<lparr>ls_db := Some (init_db (ls_db st)),
        ls_config := Some (unwrap_or (ls_config st) (se_repo_root env, rfc3339 (se_services env) now))\<rparr>"

definition store_append_event ::
  "store_env \<Rightarrow> instant \<Rightarrow> trace_event \<Rightarrow> local_store \<Rightarrow> local_store \<times> unit result" where
  "store_append_event env now ev st0 =
     (let st = store_init env now st0;
          (db, r) = append_event (se_services env) now (se_repo_id env) ev (ls_db st)
      in (st\<lparr>ls_db := Some db\<rparr>, r))"

definition read_local_events :: "store_env \<Rightarrow> local_store \<Rightarrow> trace_event list result" where
  "read_local_events env st =
     read_events_with_chunks (se_services env) (Some (se_repo_id env)) (ls_db st)"

definition read_all_events :: "store_env \<Rightarrow> local_store \<Rightarrow> trace_event list result" where
  "read_all_events env st = read_events_for_repo (se_services env) (Some (se_repo_id env)) (ls_db st)"

definition event_id_set :: "trace_event list \<Rightarrow> string list" where
  "event_id_set evs = bs_of_list (map te_event_id evs)"

definition known_event_ids :: "store_env \<Rightarrow> local_store \<Rightarrow> string list result" where
  "known_event_ids env st = and_then (read_all_events env st) (\<lambda>evs. Inr (event_id_set evs))"

definition dedupe_remote_events ::
  "store_env \<Rightarrow> trace_event list \<Rightarrow> local_store \<Rightarrow> trace_event list result" where
  "dedupe_remote_events env remote st =
     and_then (known_event_ids env st) (\<lambda>known. Inr (keep_unseen te_event_id (set known) remote))"

definition append_remote_events ::
  "store_env \<Rightarrow> instant \<Rightarrow> trace_event list \<Rightarrow> local_store \<Rightarrow> local_store \<times> unit result" where
  "append_remote_events env now evs st0 =
     (let st = store_init env now st0;
          (f, r) = append_events (se_services env) now (se_repo_id env) evs (ls_db st)
      in (st\<lparr>ls_db := f\<rparr>, r))"

definition recent_events :: "store_env \<Rightarrow> nat \<Rightarrow> local_store \<Rightarrow> trace_event list result" where
  "recent_events env limit st =
     and_then (read_all_events env st) (\<lambda>evs. Inr (drop (length evs - min limit (length evs)) evs))"

record event_store_status =
  ess_initialized :: bool
  ess_event_count :: nat
  ess_store_files :: nat

definition store_status :: "store_env \<Rightarrow> local_store \<Rightarrow> event_store_status" where
  "store_status env st =
     \<lparr>ess_initialized = (ls_db st \<noteq> None),
      ess_event_count = event_count_for_repo (Some (se_repo_id env)) (ls_db st),
      ess_store_files = (if ls_db st = None then 0 else 1)\<rparr>"

section \<open>Views\<close>

definition join_set :: "string list \<Rightarrow> string" where
  "join_set ids = join '', '' ids"

fun mission_status_debug :: "mission_status \<Rightarrow> string" where
  "mission_status_debug Mission_Planned = ''Planned''"
| "mission_status_debug Mission_Active = ''Active''"
| "mission_status_debug Mission_Blocked = ''Blocked''"
| "mission_status_debug Mission_Completed = ''Completed''"
| "mission_status_debug Mission_Archived = ''Archived''"

fun actor_type_debug :: "actor_type \<Rightarrow> string" where
  "actor_type_debug Human = ''Human''"
| "actor_type_debug Agent = ''Agent''"
| "actor_type_debug System = ''System''"

fun artifact_kind_debug :: "artifact_kind \<Rightarrow> string" where
  "artifact_kind_debug Kind_Decision = ''Decision''"
| "artifact_kind_debug Kind_FileRef = ''FileRef''"
| "artifact_kind_debug Kind_Patch = ''Patch''"
| "artifact_kind_debug Kind_Review = ''Review''"
| "artifact_kind_debug Kind_TestResult = ''TestResult''"
| "artifact_kind_debug Kind_Acceptance = ''Acceptance''"
| "artifact_kind_debug Kind_Note = ''Note''"

definition option_debug :: "('a \<Rightarrow> string) \<Rightarrow> 'a option \<Rightarrow> string" where
  "option_debug f v = (case v of None \<Rightarrow> ''None'' | Some x \<Rightarrow> ''Some('' @ f x @ '')'')"

definition nl :: string where
  "nl = [CHR 0x0A]"

definition heading :: "string option \<Rightarrow> string \<Rightarrow> string" where
  "heading title untitled = ''# '' @ unwrap_or title untitled @ nl @ nl"

definition view_field :: "string \<Rightarrow> string \<Rightarrow> string" where
  "view_field label v = label @ '': '' @ v @ nl"

definition readme_view :: "services \<Rightarrow> trace_index \<Rightarrow> string" where
  "readme_view svc idx =
     ''# Brick Views'' @ nl @ nl @
     view_field ''Schema version'' (show_nat (unat (ti_schema_version idx))) @
     view_field ''Events'' (show_nat (ti_event_count idx)) @
     view_field ''Rebuilt at'' (rfc3339 svc (ti_rebuilt_at idx)) @ nl @
     ''These files are derived from the unified local event/chunk database. Delete and rebuild them at any time.'' @ nl"

definition org_view :: "services \<Rightarrow> indexed_org \<Rightarrow> string" where
  "org_view svc x =
     heading (io_name x) ''Untitled org'' @
     view_field ''Org ID'' (io_org_id x) @
     view_field ''Description'' (unwrap_or (io_description x) []) @
     view_field ''Projects'' (join_set (io_project_ids x)) @
     view_field ''Repo contexts'' (join_set (io_repo_context_ids x)) @
     view_field ''Updated'' (rfc3339 svc (io_last_event_at x))"

definition project_view :: "services \<Rightarrow> indexed_project \<Rightarrow> string" where
  "project_view svc x =
     heading (ip_name x) ''Untitled project'' @
     view_field ''Project ID'' (ip_project_id x) @
     view_field ''Org ID'' (unwrap_or (ip_org_id x) []) @
     view_field ''Description'' (unwrap_or (ip_description x) []) @
     view_field ''Missions'' (join_set (ip_mission_ids x)) @
     view_field ''Repo contexts'' (join_set (ip_repo_context_ids x)) @
     view_field ''Updated'' (rfc3339 svc (ip_last_event_at x))"

definition mission_view :: "services \<Rightarrow> indexed_mission \<Rightarrow> string" where
  "mission_view svc x =
     heading (im_title x) ''Untitled mission'' @
     view_field ''Mission ID'' (im_mission_id x) @
     view_field ''Project ID'' (unwrap_or (im_project_id x) []) @
     view_field ''Status'' (mission_status_debug (im_status x)) @
     view_field ''Description'' (unwrap_or (im_description x) []) @
     view_field ''Sessions'' (join_set (im_session_ids x)) @
     view_field ''Artifacts'' (join_set (im_artifact_ids x)) @
     view_field ''Repo contexts'' (join_set (im_repo_context_ids x)) @
     view_field ''Updated'' (rfc3339 svc (im_last_event_at x))"

definition session_view :: "services \<Rightarrow> indexed_session \<Rightarrow> string" where
  "session_view svc x =
     heading (isn_session_name x) ''Untitled session'' @
     view_field ''Session ID'' (isn_session_id x) @
     view_field ''Actor'' (unwrap_or (isn_actor_id x) [] @ '' ('' @
       option_debug actor_type_debug (isn_actor_type x) @ '')'') @
     view_field ''App'' (unwrap_or (ss_app_id (isn_source x)) []) @
     view_field ''App session ID'' (unwrap_or (ss_app_session_id (isn_source x)) []) @
     view_field ''Missions'' (join_set (isn_mission_ids x)) @
     view_field ''Artifacts'' (join_set (isn_artifact_ids x)) @
     view_field ''Logs'' (join_set (isn_log_ref_ids x)) @
     view_field ''Repo contexts'' (join_set (isn_repo_context_ids x)) @
     view_field ''Updated'' (rfc3339 svc (isn_last_event_at x))"

definition artifact_view :: "services \<Rightarrow> indexed_artifact \<Rightarrow> string" where
  "artifact_view svc x =
     heading (ia_title x) ''Untitled artifact'' @
     view_field ''Artifact ID'' (ia_artifact_id x) @
     view_field ''Kind'' (option_debug artifact_kind_debug (ia_artifact_kind x)) @
     view_field ''Missions'' (join_set (ia_mission_ids x)) @
     view_field ''Sessions'' (join_set (ia_session_ids x)) @
     view_field ''Files'' (join_set (ia_file_paths x)) @
     view_field ''Attachments'' (join_set (ia_attachment_ids x)) @
     view_field ''Diffs'' (join_set (ia_diff_ids x)) @
     view_field ''Repo contexts'' (join_set (ia_repo_context_ids x)) @
     view_field ''Updated'' (rfc3339 svc (ia_last_event_at x)) @ nl @
     unwrap_or (ia_body x) [] @ nl"

text \<open>
  The files written below the views directory, as (directory, file name) and contents in writing
  order; the directory is emptied first. A file name with a slash is not given a meaning.
\<close>

definition md :: "string \<Rightarrow> string \<Rightarrow> string \<times> string" where
  "md dir i = (dir, i @ ''.md'')"

definition agent_views :: "services \<Rightarrow> trace_index \<Rightarrow> ((string \<times> string) \<times> string) list" where
  "agent_views svc idx =
     [(([], ''README.md''), readme_view svc idx)] @
     map (\<lambda>x. (md ''orgs'' (io_org_id x), org_view svc x)) (map snd (ti_orgs idx)) @
     map (\<lambda>x. (md ''projects'' (ip_project_id x), project_view svc x)) (map snd (ti_projects idx)) @
     map (\<lambda>x. (md ''missions'' (im_mission_id x), mission_view svc x)) (map snd (ti_missions idx)) @
     map (\<lambda>x. (md ''sessions'' (isn_session_id x), session_view svc x)) (map snd (ti_sessions idx)) @
     map (\<lambda>x. (md ''artifacts'' (ia_artifact_id x), artifact_view svc x)) (map snd (ti_artifacts idx))"

section \<open>The cached index\<close>

definition rebuild_index :: "store_env \<Rightarrow> instant \<Rightarrow> local_store \<Rightarrow> local_store \<times> trace_index result" where
  "rebuild_index env now st0 =
     (let st = store_init env now st0
      in case read_all_events env st of
           Inl e \<Rightarrow> (st, Inl e)
         | Inr evs \<Rightarrow>
             (case build_index now evs of
                Inl e \<Rightarrow> (st, Inl e)
              | Inr idx \<Rightarrow>
                  (st\<lparr>ls_index := Index_File idx, ls_views := agent_views (se_services env) idx\<rparr>, Inr idx)))"

definition read_index :: "local_store \<Rightarrow> trace_index option result" where
  "read_index st =
     (case ls_index st of
        No_Index \<Rightarrow> Inr None
      | Corrupt_Index \<Rightarrow> Inl Index_Parse
      | Index_File idx \<Rightarrow> Inr (Some idx))"

definition load_or_rebuild_index ::
  "store_env \<Rightarrow> instant \<Rightarrow> local_store \<Rightarrow> local_store \<times> trace_index result" where
  "load_or_rebuild_index env now st =
     (case read_index st of
        Inl e \<Rightarrow> (st, Inl e)
      | Inr None \<Rightarrow> rebuild_index env now st
      | Inr (Some idx) \<Rightarrow>
          (case read_all_events env st of
             Inl e \<Rightarrow> (st, Inl e)
           | Inr evs \<Rightarrow>
               if ti_event_count idx = length evs then (st, Inr idx)
               else rebuild_index env now st))"

definition store_index_status :: "local_store \<Rightarrow> index_status result" where
  "store_index_status st =
     and_then (read_index st) (\<lambda>i. Inr (case i of
        None \<Rightarrow> \<lparr>ist_exists = False, ist_event_count = 0, ist_rebuilt_at = None\<rparr>
      | Some idx \<Rightarrow> \<lparr>ist_exists = True, ist_event_count = ti_event_count idx,
                     ist_rebuilt_at = Some (ti_rebuilt_at idx)\<rparr>))"

section \<open>Logs that only grow\<close>

text \<open>
  What a reader of the event log may rely on while other writers append: the number of its rows
  never falls, and rows whose number is the same are the same. Then a cached count tells whether
  anything was added.
\<close>

locale event_log =
  fixes rows :: "'s \<Rightarrow> 'r list"
    and step :: "'s \<Rightarrow> 's \<Rightarrow> bool"
  assumes rows_grow: "step s s' \<Longrightarrow> length (rows s) \<le> length (rows s')"
    and rows_same: "step s s' \<Longrightarrow> length (rows s') = length (rows s) \<Longrightarrow> rows s' = rows s"
begin

lemma steps_grow: "step\<^sup>*\<^sup>* s s' \<Longrightarrow> length (rows s) \<le> length (rows s')"
  by (induction rule: rtranclp_induct) (auto dest: rows_grow)

lemma same_count_same_rows:
  "step\<^sup>*\<^sup>* s s' \<Longrightarrow> length (rows s') = length (rows s) \<Longrightarrow> rows s' = rows s"
proof (induction rule: rtranclp_induct)
  case (step mid s')
  have "length (rows mid) = length (rows s)"
    using steps_grow [OF step.hyps(1)] rows_grow [OF step.hyps(2)] step.prems by simp
  with step show ?case by (metis rows_same)
qed simp

end

inductive log_step :: "services \<Rightarrow> db_file \<Rightarrow> db_file \<Rightarrow> bool" for svc where
  step_init: "log_step svc f (Some (init_db f))"
| step_append: "append_event svc now repo ev f = (db, r) \<Longrightarrow> log_step svc f (Some db)"

inductive_cases log_stepE: "log_step svc f f'"

lemma select_rows_init: "select_rows repo (Some (init_db f)) = select_rows repo f"
  by (cases f) (simp_all add: select_rows_def init_db_def empty_db_def)

lemma append_event_rows:
  assumes "append_event svc now repo ev f = (db, r)"
  shows "db_events db = db_events (init_db f) \<or> (\<exists>row. db_events db = db_events (init_db f) @ [row])"
  using assms by (auto simp: append_event_def Let_def insert_or_ignore_def split: sum.splits if_splits)

lemma select_rows_append:
  assumes "append_event svc now repo ev f = (db, r)"
  shows "select_rows i (Some db) = select_rows i f \<or>
    length (select_rows i (Some db)) = Suc (length (select_rows i f))"
  unfolding select_rows_init [of i f, symmetric]
  using append_event_rows [OF assms] by (auto simp: select_rows_def)

lemma log_step_rows:
  "log_step svc f f' \<Longrightarrow>
   select_rows i f' = select_rows i f \<or> length (select_rows i f') = Suc (length (select_rows i f))"
  by (elim log_stepE) (use select_rows_init select_rows_append in blast)+

interpretation repo_log: event_log "select_rows i" "log_step svc" for i svc
proof
  fix f f' assume "log_step svc f f'"
  then show "length (select_rows i f) \<le> length (select_rows i f')"
    and "length (select_rows i f') = length (select_rows i f) \<Longrightarrow> select_rows i f' = select_rows i f"
    using log_step_rows [of svc f f' i] by auto
qed

section \<open>The cached index is never stale\<close>

lemma store_init_simps [simp]:
  "ls_index (store_init env now st) = ls_index st" "ls_views (store_init env now st) = ls_views st"
  "ls_db (store_init env now st) = Some (init_db (ls_db st))"
  by (simp_all add: store_init_def)

lemma read_all_rows:
  "read_all_events env st = collect_results (decode_row (se_services env)) (select_rows (Some (se_repo_id env)) (ls_db st))"
  by (simp add: read_all_events_def read_events_for_repo_def)

lemma read_all_init [simp]: "read_all_events env (store_init env now st) = read_all_events env st"
  by (simp add: read_all_rows select_rows_init)

lemma read_all_length:
  "read_all_events env st = Inr evs \<Longrightarrow> length (select_rows (Some (se_repo_id env)) (ls_db st)) = length evs"
  by (simp add: read_all_rows collect_results_Inr list_all2_lengthD)

lemma rebuild_index_Inr:
  assumes "rebuild_index env now st = (st', Inr idx)"
  obtains evs where "read_all_events env st = Inr evs" "build_index now evs = Inr idx"
    "ls_index st' = Index_File idx" "ls_views st' = agent_views (se_services env) idx"
    "select_rows i (ls_db st') = select_rows i (ls_db st)"
  using assms by (auto simp: rebuild_index_def Let_def select_rows_init split: sum.splits)

lemma read_all_cong:
  "select_rows (Some (se_repo_id env)) (ls_db st) = select_rows (Some (se_repo_id env)) (ls_db st') \<Longrightarrow>
   read_all_events env st = read_all_events env st'"
  by (simp add: read_all_rows)

text \<open>
  C3: after an index was rebuilt, whatever any process appends to the shared database for any
  repository, the index that \<open>load_or_rebuild_index\<close> returns is the projection of exactly the
  events that the repository then has, and it is the cached one. The comparison of counts alone
  is enough because rows are only ever added.
\<close>

theorem load_index_fresh:
  assumes built: "rebuild_index env t0 st = (st1, Inr idx)"
    and others: "(log_step svc)\<^sup>*\<^sup>* (ls_db st1) f"
    and load: "load_or_rebuild_index env t1 (st1\<lparr>ls_db := f\<rparr>) = (st3, Inr idx')"
  shows "\<exists>now evs. read_all_events env st3 = Inr evs \<and> build_index now evs = Inr idx' \<and>
    ls_index st3 = Index_File idx'"
proof -
  let ?rows = "select_rows (Some (se_repo_id env))"
  obtain evs0 where b: "read_all_events env st = Inr evs0" "build_index t0 evs0 = Inr idx"
    "ls_index st1 = Index_File idx" "?rows (ls_db st1) = ?rows (ls_db st)"
    using rebuild_index_Inr [OF built, where i = "Some (se_repo_id env)"] by metis
  have st1: "read_all_events env st1 = Inr evs0" using read_all_cong [OF b(4)] b(1) by simp
  obtain evs where evs: "read_all_events env (st1\<lparr>ls_db := f\<rparr>) = Inr evs"
    using load by (auto simp: load_or_rebuild_index_def read_index_def b(3) split: sum.splits)
  show ?thesis
  proof (cases "ti_event_count idx = length evs")
    case True
    then have "length (?rows f) = length (?rows (ls_db st1))"
      using build_event_count(1) [OF b(2)] read_all_length [OF st1] read_all_length [OF evs] by simp
    then have "?rows f = ?rows (ls_db st1)" by (rule repo_log.same_count_same_rows [OF others])
    then have "evs = evs0" using evs st1 by (simp add: read_all_rows)
    then show ?thesis
      using load evs b True by (auto simp: load_or_rebuild_index_def read_index_def)
  next
    case False
    then have "rebuild_index env t1 (st1\<lparr>ls_db := f\<rparr>) = (st3, Inr idx')"
      using load evs b(3) by (simp add: load_or_rebuild_index_def read_index_def)
    then obtain evs' where "read_all_events env (st1\<lparr>ls_db := f\<rparr>) = Inr evs'" "build_index t1 evs' = Inr idx'"
      "ls_index st3 = Index_File idx'" "?rows (ls_db st3) = ?rows f"
      by (rule rebuild_index_Inr [where i = "Some (se_repo_id env)"]) simp
    then show ?thesis
      by (intro exI [of _ t1] exI [of _ evs']) (auto simp: read_all_rows)
  qed
qed

text \<open>
  A rebuild that fails, because a row does not decode or a payload does not parse, leaves
  the cached index and the views as they were; one that succeeds replaces both from the same
  index.
\<close>

theorem rebuild_index_all_or_nothing:
  "case rebuild_index env now st of
     (st', Inl e) \<Rightarrow> ls_index st' = ls_index st \<and> ls_views st' = ls_views st
   | (st', Inr idx) \<Rightarrow> ls_index st' = Index_File idx \<and> ls_views st' = agent_views (se_services env) idx"
  by (simp add: rebuild_index_def Let_def split: sum.split prod.split)

section \<open>Remote events\<close>

text \<open>
  Of the events a remote sends, those kept are the first occurrence of every id that the
  repository does not know, in the order they came; nothing else is dropped.
\<close>

theorem dedupe_remote_correct:
  assumes "known_event_ids env st = Inr known" "dedupe_remote_events env remote st = Inr kept"
  shows "subseq kept remote \<and> distinct (map te_event_id kept) \<and>
    te_event_id ` set kept = te_event_id ` set remote - set known"
proof -
  have "kept = keep_unseen te_event_id (set known) remote"
    using assms by (simp add: dedupe_remote_events_def)
  then show ?thesis by (simp add: keep_unseen_subseq keep_unseen_distinct keep_unseen_keys)
qed

lemma repo_ids_known:
  assumes "ls_db st = Some db" "db_faithful (se_services env) db"
  shows "\<exists>known. known_event_ids env st = Inr known \<and>
    set known = {row_event_id r | r. r \<in> set (db_events db) \<and> row_repo_id r = se_repo_id env}"
proof -
  obtain evs where "read_events_for_repo (se_services env) (Some (se_repo_id env)) (Some db) = Inr evs"
    "map te_event_id evs = map row_event_id (select_rows (Some (se_repo_id env)) (Some db))"
    using read_faithful [OF assms(2), of "Some (se_repo_id env)"] by blast
  moreover from this(2) have "set (map te_event_id evs) =
      {row_event_id r | r. r \<in> set (db_events db) \<and> row_repo_id r = se_repo_id env}"
    by (auto simp: select_rows_simps repo_matches_def)
  ultimately show ?thesis
    by (simp add: known_event_ids_def read_all_events_def assms(1) event_id_set_def)
qed

text \<open>
  Ids are known per repository but unique in the whole database. A remote event whose id is
  already stored under another repository is therefore kept as new, and appending it stores no
  row: the repository's events are the same as before.
\<close>

theorem foreign_event_not_stored:
  assumes "ls_db st = Some db" "db_inv db" "db_faithful (se_services env) db"
    and "r \<in> set (db_events db)" "row_event_id r = te_event_id ev" "row_repo_id r \<noteq> se_repo_id env"
    and "append_remote_events env now [ev] st = (st', res)"
  shows "dedupe_remote_events env [ev] st = Inr [ev] \<and> read_all_events env st' = read_all_events env st"
proof
  obtain known where known: "known_event_ids env st = Inr known"
    "set known = {row_event_id r | r. r \<in> set (db_events db) \<and> row_repo_id r = se_repo_id env}"
    using repo_ids_known [OF assms(1,3)] by blast
  have "te_event_id ev \<notin> set known"
  proof
    assume "te_event_id ev \<in> set known"
    then obtain r' where "r' \<in> set (db_events db)" "row_event_id r' = row_event_id r"
      "row_repo_id r' = se_repo_id env"
      using known(2) assms(5) by auto
    moreover have "inj_on row_event_id (set (db_events db))"
      using assms(2) by (simp add: db_inv_def distinct_map)
    ultimately have "r' = r" using assms(4) by (auto dest: inj_onD)
    with \<open>row_repo_id r' = se_repo_id env\<close> assms(6) show False by simp
  qed
  then show "dedupe_remote_events env [ev] st = Inr [ev]"
    by (simp add: dedupe_remote_events_def known(1))
  obtain db' res' where app: "append_event (se_services env) now (se_repo_id env) ev (Some db) = (db', res')"
    by (cases "append_event (se_services env) now (se_repo_id env) ev (Some db)")
  have "te_event_id ev \<in> row_event_id ` set (db_events db)"
    using assms(4) by (simp add: assms(5) [symmetric])
  with app have "db_events db' = db_events db"
    by (auto simp: append_event_def Let_def init_db_def insert_or_ignore_def split: sum.splits)
  moreover have "ls_db st' = Some db'"
    using assms(1,7) app
    by (auto simp: append_remote_events_def init_db_def split: prod.splits sum.splits)
  ultimately show "read_all_events env st' = read_all_events env st"
    by (simp add: read_all_rows select_rows_def assms(1))
qed

text \<open>The recent events are the last ones of the repository's log, as many as there are up to the limit.\<close>

theorem recent_events_suffix:
  assumes "read_all_events env st = Inr evs" "recent_events env limit st = Inr recent"
  shows "suffix recent evs \<and> length recent = min limit (length evs)"
  using assms by (auto simp: recent_events_def suffix_drop)

section \<open>A sample store\<close>

definition sample_env :: "string \<Rightarrow> store_env" where
  "sample_env repo = \<lparr>se_services = plain_services, se_repo_id = repo, se_repo_root = ''/work''\<rparr>"

definition sample_store :: "db_file \<Rightarrow> local_store" where
  "sample_store f = \<lparr>ls_db = f, ls_config = None, ls_index = No_Index, ls_views = []\<rparr>"

lemma sample_env_simps [simp]:
  "se_services (sample_env repo) = plain_services" "se_repo_id (sample_env repo) = repo"
  "ls_db (sample_store f) = f" "ls_index (sample_store f) = No_Index"
  by (simp_all add: sample_env_def sample_store_def)

lemma sample_db_rows:
  "\<exists>row. db_events sample_db = [row] \<and> row_event_id row = ''event-7'' \<and> row_repo_id row = ''repo-1''"
  by (simp add: sample_db_def append_event_def Let_def compact_event_and_chunks_def sample_event_simps
      dec_source_session_payload_enc init_db_def empty_db_def insert_or_ignore_def event_row_of_def)
    (simp add: sample_session_event_def source_session_observed_def from_payload_def)

lemma sample_other_repo: "select_rows (Some ''repo-2'') (Some sample_db) = []"
  using sample_db_rows by (auto simp: select_rows_def repo_matches_def)

theorem load_index_fresh_witness:
  "\<exists>st1 idx st3. rebuild_index (sample_env ''repo-2'') 1 (sample_store None) = (st1, Inr idx) \<and>
     log_step plain_services (ls_db st1) (Some sample_db) \<and>
     load_or_rebuild_index (sample_env ''repo-2'') 2 (st1\<lparr>ls_db := Some sample_db\<rparr>) = (st3, Inr idx) \<and>
     (\<exists>evs now. read_all_events (sample_env ''repo-2'') st3 = Inr evs \<and> build_index now evs = Inr idx)"
proof -
  define idx where "idx = empty_index 1 0"
  define st1 where "st1 = fst (rebuild_index (sample_env ''repo-2'') 1 (sample_store None))"
  define st3 where "st3 = st1\<lparr>ls_db := Some sample_db\<rparr>"
  have r: "rebuild_index (sample_env ''repo-2'') 1 (sample_store None) = (st1, Inr idx)"
    by (simp add: st1_def rebuild_index_def Let_def read_all_rows select_rows_simps select_rows_init
        build_index_def idx_def)
  have db1: "ls_db st1 = Some empty_db"
    by (simp add: st1_def rebuild_index_def Let_def read_all_rows select_rows_simps select_rows_init
        build_index_def) (simp add: init_db_def)
  have step: "log_step plain_services (ls_db st1) (Some sample_db)"
    unfolding db1 by (rule step_append [where r = "Inr ()"])
      (use sample_append in \<open>simp add: append_event_def init_db_def Let_def\<close>)
  have cached: "ls_index st1 = Index_File idx"
    by (rule rebuild_index_Inr [OF r])
  have load: "load_or_rebuild_index (sample_env ''repo-2'') 2 (st1\<lparr>ls_db := Some sample_db\<rparr>) = (st3, Inr idx)"
    by (simp add: load_or_rebuild_index_def read_index_def read_all_rows sample_other_repo st3_def cached)
      (simp add: idx_def empty_index_def)
  show ?thesis
    using r step load load_index_fresh [OF r r_into_rtranclp [of "log_step plain_services", OF step] load] by blast
qed

theorem dedupe_remote_correct_witness:
  "\<exists>kept. dedupe_remote_events (sample_env ''repo-1'') [sample_session_event] (sample_store (Some sample_db)) = Inr kept \<and>
     kept = []"
proof -
  obtain known where known: "known_event_ids (sample_env ''repo-1'') (sample_store (Some sample_db)) = Inr known"
    "set known = {row_event_id r | r. r \<in> set (db_events sample_db) \<and> row_repo_id r = ''repo-1''}"
    using repo_ids_known [of "sample_store (Some sample_db)" sample_db "sample_env ''repo-1''"] sample_db_faithful
    by auto
  obtain kept where kept: "dedupe_remote_events (sample_env ''repo-1'') [sample_session_event] (sample_store (Some sample_db)) = Inr kept"
    by (auto simp: dedupe_remote_events_def known(1))
  have "''event-7'' \<in> set known" using known(2) sample_db_rows by auto
  then have "kept = []"
    using dedupe_remote_correct [OF known(1) kept] by (auto simp: sample_event_simps)
  with kept show ?thesis by blast
qed

theorem foreign_event_not_stored_witness:
  "dedupe_remote_events (sample_env ''repo-2'') [sample_session_event] (sample_store (Some sample_db)) =
     Inr [sample_session_event]"
proof -
  obtain row where "db_events sample_db = [row]" "row_event_id row = ''event-7''" "row_repo_id row = ''repo-1''"
    using sample_db_rows by blast
  then show ?thesis
    using foreign_event_not_stored [of "sample_store (Some sample_db)" sample_db "sample_env ''repo-2''" row
        sample_session_event 3 "fst (append_remote_events (sample_env ''repo-2'') 3 [sample_session_event] (sample_store (Some sample_db)))"
        "snd (append_remote_events (sample_env ''repo-2'') 3 [sample_session_event] (sample_store (Some sample_db)))"]
    by (simp add: sample_db_inv sample_db_faithful sample_event_simps)
qed

theorem recent_events_suffix_witness:
  "\<exists>evs recent. read_all_events (sample_env ''repo-1'') (sample_store (Some sample_db)) = Inr evs \<and>
     recent_events (sample_env ''repo-1'') 5 (sample_store (Some sample_db)) = Inr recent \<and>
     suffix recent evs \<and> length recent = 1"
proof -
  obtain evs where evs: "read_all_events (sample_env ''repo-1'') (sample_store (Some sample_db)) = Inr evs"
    using read_faithful [OF sample_db_faithful, of "Some ''repo-1''"] by (auto simp: read_all_events_def)
  obtain recent where recent: "recent_events (sample_env ''repo-1'') 5 (sample_store (Some sample_db)) = Inr recent"
    by (auto simp: recent_events_def evs)
  have "length evs = 1"
    using read_all_length [OF evs] sample_db_rows by (auto simp: select_rows_def repo_matches_def)
  then show ?thesis using evs recent recent_events_suffix [OF evs recent] by auto
qed

end
