(* ===== verification/Git.thy ===== *)
theory Git imports Rust_Str begin

text \<open>
  The git program, which the code runs as a subprocess in the repository, is a parameter: what a
  command with given arguments (and standard input) answers. A run ends with its standard output,
  with a failure status and its standard error, or could not be started at all.
\<close>

datatype git_outcome = Git_Ok string | Git_Failed string | Git_Unavailable

record git =
  git_run :: "string list \<Rightarrow> git_outcome"
  git_pipe :: "string list \<Rightarrow> string \<Rightarrow> git_outcome"

text \<open>The output of a run that has to succeed; \<open>what\<close> names the command in the error.\<close>

definition git_stdout :: "string \<Rightarrow> git_outcome \<Rightarrow> string result" where
  "git_stdout what r =
     (case r of
        Git_Ok out \<Rightarrow> Inr out
      | Git_Failed err \<Rightarrow> Inl (Git_Command_Failed (what @ '' failed: '' @ trim (from_utf8_lossy err)))
      | Git_Unavailable \<Rightarrow> Inl (Git_Command_Failed (''failed to run '' @ what)))"

text \<open>The first word that \<^verbatim>\<open>git patch-id\<close> prints.\<close>

definition first_word :: "string \<Rightarrow> string option" where
  "first_word s = (case split_whitespace s of [] \<Rightarrow> None | w # _ \<Rightarrow> Some w)"

definition last_word :: "string \<Rightarrow> string option" where
  "last_word s = (let ws = split_whitespace s in if ws = [] then None else Some (last ws))"

end
