(* ===== verification/Diff_Capture.thy ===== *)
theory Diff_Capture imports Git Trace_Event "HOL-Library.Product_Lexorder" "HOL-Library.Option_ord" begin

text \<open>
  Capturing a git diff as metadata (\<^verbatim>\<open>diff_capture.rs\<close>): parsing of \<^verbatim>\<open>--numstat -z\<close>,
  \<^verbatim>\<open>--summary\<close> and unified output, patch ids, and the summary hash. Git's answers come from the
  parameter \<open>git\<close>, the digest from \<open>services\<close>.
\<close>

section \<open>Requests\<close>

record diff_request =
  dr_target :: diff_target
  dr_base_commit :: "string option"
  dr_head_commit :: "string option"
  dr_repo_context_id :: "string option"

definition diff_target_args :: "diff_request \<Rightarrow> string list result" where
  "diff_target_args rq =
     (case dr_target rq of
        Target_Working \<Rightarrow> Inr []
      | Target_Staged \<Rightarrow> Inr [''--cached'']
      | Target_Range \<Rightarrow>
          and_then (ok_or (dr_base_commit rq) Range_Missing_Base) (\<lambda>base.
          and_then (ok_or (dr_head_commit rq) Range_Missing_Head) (\<lambda>head.
          Inr [base @ ''..'' @ head])))"

definition git_diff_output :: "git \<Rightarrow> diff_request \<Rightarrow> string \<Rightarrow> string result" where
  "git_diff_output g rq option =
     and_then (diff_target_args rq) (\<lambda>args.
     git_stdout (''git diff '' @ option) (git_run g ([''diff'', ''-z'', option] @ args)))"

definition git_diff_unified :: "git \<Rightarrow> diff_request \<Rightarrow> string result" where
  "git_diff_unified g rq =
     and_then (diff_target_args rq) (\<lambda>args.
     git_stdout ''git diff --unified=0'' (git_run g ([''diff'', ''--no-color'', ''--unified=0''] @ args)))"

definition compute_patch_id :: "git \<Rightarrow> diff_request \<Rightarrow> string option result" where
  "compute_patch_id g rq =
     and_then (diff_target_args rq) (\<lambda>args.
     case git_run g ([''diff''] @ args) of
       Git_Unavailable \<Rightarrow> Inl (Git_Command_Failed ''failed to run git diff for patch-id'')
     | Git_Failed _ \<Rightarrow> Inr None
     | Git_Ok out \<Rightarrow>
         if out = [] then Inr None
         else (case git_pipe g [''patch-id'', ''--stable''] out of
                 Git_Unavailable \<Rightarrow> Inl (Git_Command_Failed ''failed to run git patch-id'')
               | Git_Failed _ \<Rightarrow> Inr None
               | Git_Ok ids \<Rightarrow> Inr (first_word (from_utf8_lossy ids))))"

definition file_patch_id :: "git \<Rightarrow> diff_request \<Rightarrow> string \<Rightarrow> string option" where
  "file_patch_id g rq path =
     (case diff_target_args rq of
        Inl _ \<Rightarrow> None
      | Inr args \<Rightarrow>
          (case git_run g ([''diff'', ''--no-color''] @ args @ [''--'', path]) of
             Git_Ok out \<Rightarrow>
               if out = [] then None
               else (case git_pipe g [''patch-id'', ''--stable''] out of
                       Git_Ok ids \<Rightarrow> first_word (from_utf8_lossy ids)
                     | _ \<Rightarrow> None)
           | _ \<Rightarrow> None))"

section \<open>File summaries\<close>

definition parse_numstat_count :: "string option \<Rightarrow> string \<Rightarrow> u64 option result" where
  "parse_numstat_count value label =
     (case value of
        None \<Rightarrow> Inl (Numstat_Missing label)
      | Some raw \<Rightarrow>
          if raw = ''-'' then Inr None
          else (case parse_u64 (trim raw) of
                  None \<Rightarrow> Inl (Numstat_Invalid label raw)
                | Some n \<Rightarrow> Inr (Some n)))"

definition nth_part :: "nat \<Rightarrow> string list \<Rightarrow> string option" where
  "nth_part i xs = (if i < length xs then Some (xs ! i) else None)"

definition parse_numstat_header :: "string \<Rightarrow> (u64 option \<times> u64 option \<times> string) result" where
  "parse_numstat_header header =
     (let parts = splitn 3 (CHR 0x09) header
      in and_then (parse_numstat_count (nth_part 0 parts) ''additions'') (\<lambda>additions.
         and_then (parse_numstat_count (nth_part 1 parts) ''deletions'') (\<lambda>deletions.
         Inr (additions, deletions, unwrap_or (nth_part 2 parts) []))))"

definition numstat_change :: "string \<Rightarrow> string option \<Rightarrow> diff_file_change_kind \<Rightarrow> u64 option \<Rightarrow> u64 option \<Rightarrow> diff_file_change" where
  "numstat_change path old_path kind additions deletions =
     \<lparr>fc_path = path, fc_old_path = old_path, fc_change_kind = kind, fc_additions = additions,
      fc_deletions = deletions, fc_hunks = [], fc_patch_id = None\<rparr>"

text \<open>An entry with an empty path is a rename or copy, whose two paths are the next two fields.\<close>

fun parse_numstat_fields :: "string list \<Rightarrow> diff_file_change list result" where
  "parse_numstat_fields [] = Inr []"
| "parse_numstat_fields (header # fs) =
     and_then (parse_numstat_header header) (\<lambda>(additions, deletions, first_path).
       if first_path = [] then
         (case fs of
            old_path # path # fs' \<Rightarrow>
              and_then (parse_numstat_fields fs') (\<lambda>changes.
              Inr (numstat_change path (Some old_path) Change_Renamed additions deletions # changes))
          | _ \<Rightarrow> Inl Numstat_Rename_Truncated)
       else
         and_then (parse_numstat_fields fs) (\<lambda>changes.
         Inr (numstat_change first_path None Change_Modified additions deletions # changes)))"

definition nul :: char where
  "nul = CHR 0x00"

definition nul_fields :: "string \<Rightarrow> string list" where
  "nul_fields out = filter (\<lambda>f. f \<noteq> []) (split_on nul out)"

definition parse_numstat :: "string \<Rightarrow> diff_file_change list result" where
  "parse_numstat out =
     (if out = [] then Inr []
      else if list_all utf8_valid (nul_fields out) then parse_numstat_fields (nul_fields out)
      else Inl Numstat_Not_Utf8)"

fun set_kind :: "string \<Rightarrow> diff_file_change_kind \<Rightarrow> diff_file_change list \<Rightarrow> diff_file_change list" where
  "set_kind path kind [] = []"
| "set_kind path kind (c # cs) =
     (if fc_path c = path then c\<lparr>fc_change_kind := kind\<rparr> # cs else c # set_kind path kind cs)"

definition set_moved_kind :: "diff_file_change_kind \<Rightarrow> diff_file_change list \<Rightarrow> diff_file_change list" where
  "set_moved_kind kind =
     map (\<lambda>c. if fc_old_path c \<noteq> None then c\<lparr>fc_change_kind := kind\<rparr> else c)"

definition word_after :: "string \<Rightarrow> string \<Rightarrow> string option" where
  "word_after p s = (case strip_prefix p s of None \<Rightarrow> None | Some rest \<Rightarrow> last_word rest)"

definition apply_summary_line :: "string \<Rightarrow> diff_file_change list \<Rightarrow> diff_file_change list" where
  "apply_summary_line field changes =
     (let trimmed = trim field
      in case word_after ''create mode '' trimmed of
           Some path \<Rightarrow> set_kind path Change_Added changes
         | None \<Rightarrow>
         (case word_after ''delete mode '' trimmed of
            Some path \<Rightarrow> set_kind path Change_Deleted changes
          | None \<Rightarrow>
              if prefix ''rename '' trimmed then set_moved_kind Change_Renamed changes
              else if prefix ''copy '' trimmed then set_moved_kind Change_Copied changes
              else (case word_after ''mode change '' trimmed of
                      Some path \<Rightarrow> set_kind path Change_TypeChanged changes
                    | None \<Rightarrow> changes)))"

definition apply_summary :: "string \<Rightarrow> diff_file_change list \<Rightarrow> diff_file_change list" where
  "apply_summary out changes =
     (if out = [] \<or> \<not> list_all utf8_valid (nul_fields out) then changes
      else fold apply_summary_line (nul_fields out) changes)"

section \<open>Hunks\<close>

definition parse_range_pair :: "string \<Rightarrow> (u64 \<times> u64) option" where
  "parse_range_pair raw =
     (case split_once (CHR '','') raw of
        None \<Rightarrow> map_option (\<lambda>start. (start, 1)) (parse_u64 raw)
      | Some (a, b) \<Rightarrow>
          (case parse_u64 a of
             None \<Rightarrow> None
           | Some start \<Rightarrow> map_option (\<lambda>count. (start, count)) (parse_u64 b)))"

definition parse_hunk_header :: "string \<Rightarrow> diff_hunk option" where
  "parse_hunk_header line =
     (case strip_prefix ''@@ '' line of None \<Rightarrow> None | Some after \<Rightarrow>
     (case find_sub '' @@'' after of None \<Rightarrow> None | Some close \<Rightarrow>
        (let ranges = take close after; header = trim (drop (close + 3) after)
         in case split_whitespace ranges of
              old # new # _ \<Rightarrow>
                (case strip_prefix ''-'' old of None \<Rightarrow> None | Some old \<Rightarrow>
                (case strip_prefix ''+'' new of None \<Rightarrow> None | Some new \<Rightarrow>
                (case parse_range_pair old of None \<Rightarrow> None | Some (old_start, old_lines) \<Rightarrow>
                (case parse_range_pair new of None \<Rightarrow> None | Some (new_start, new_lines) \<Rightarrow>
                   Some \<lparr>dh_old_start = old_start, dh_old_lines = old_lines, dh_new_start = new_start,
                         dh_new_lines = new_lines, dh_header = (if header = [] then None else Some header)\<rparr>))))
            | _ \<Rightarrow> None)))"

definition strip_diff_path_prefix :: "string \<Rightarrow> string option" where
  "strip_diff_path_prefix raw =
     (if raw = ''/dev/null'' then None
      else Some (unwrap_or (or_else (strip_prefix ''a/'' raw) (strip_prefix ''b/'' raw)) raw))"

type_synonym hunk_map = "string \<Rightarrow> diff_hunk list option"

definition scan_diff_line :: "string \<Rightarrow> string option \<times> hunk_map \<Rightarrow> string option \<times> hunk_map" where
  "scan_diff_line raw_line = (\<lambda>(current_path, by_path).
     let line = trim_start raw_line
     in case strip_prefix ''+++ '' line of
          Some rest \<Rightarrow> (strip_diff_path_prefix (trim rest), by_path)
        | None \<Rightarrow>
            if prefix ''@@ '' line then
              (case (current_path, parse_hunk_header line) of
                 (Some path, Some hunk) \<Rightarrow>
                   (current_path, by_path(path \<mapsto> unwrap_or (by_path path) [] @ [hunk]))
               | _ \<Rightarrow> (current_path, by_path))
            else (current_path, by_path))"

definition parse_unified_hunks :: "string \<Rightarrow> hunk_map" where
  "parse_unified_hunks text = snd (fold scan_diff_line (lines text) (None, Map.empty))"

definition apply_hunks :: "git \<Rightarrow> diff_request \<Rightarrow> diff_file_change list \<Rightarrow> diff_file_change list result" where
  "apply_hunks g rq changes =
     and_then (git_diff_unified g rq) (\<lambda>unified.
     let by_path = parse_unified_hunks (from_utf8_lossy unified)
     in Inr (map (\<lambda>c. case by_path (fc_path c) of None \<Rightarrow> c | Some hunks \<Rightarrow> c\<lparr>fc_hunks := hunks\<rparr>) changes))"

definition apply_file_patch_ids :: "git \<Rightarrow> diff_request \<Rightarrow> diff_file_change list \<Rightarrow> diff_file_change list" where
  "apply_file_patch_ids g rq = map (\<lambda>c. c\<lparr>fc_patch_id := file_patch_id g rq (fc_path c)\<rparr>)"

section \<open>The summary hash\<close>

fun diff_target_debug :: "diff_target \<Rightarrow> string" where
  "diff_target_debug Target_Working = ''Working''"
| "diff_target_debug Target_Staged = ''Staged''"
| "diff_target_debug Target_Range = ''Range''"

fun change_kind_debug :: "diff_file_change_kind \<Rightarrow> string" where
  "change_kind_debug Change_Added = ''Added''"
| "change_kind_debug Change_Modified = ''Modified''"
| "change_kind_debug Change_Deleted = ''Deleted''"
| "change_kind_debug Change_Renamed = ''Renamed''"
| "change_kind_debug Change_Copied = ''Copied''"
| "change_kind_debug Change_TypeChanged = ''TypeChanged''"
| "change_kind_debug Change_Unknown = ''Unknown''"

definition count_text :: "u64 option \<Rightarrow> string" where
  "count_text v = (case v of None \<Rightarrow> ''-'' | Some n \<Rightarrow> show_u64 n)"

definition tab :: string where
  "tab = [CHR 0x09]"

definition newline :: string where
  "newline = [CHR 0x0A]"

definition hunk_text :: "diff_hunk \<Rightarrow> string" where
  "hunk_text h =
     tab @ ''hunk'' @ tab @ show_u64 (dh_old_start h) @ tab @ show_u64 (dh_old_lines h) @ tab @
     show_u64 (dh_new_start h) @ tab @ show_u64 (dh_new_lines h) @ newline"

definition change_text :: "diff_file_change \<Rightarrow> string" where
  "change_text c =
     unwrap_or (fc_old_path c) [] @ tab @ fc_path c @ tab @ change_kind_debug (fc_change_kind c) @ tab @
     count_text (fc_additions c) @ tab @ count_text (fc_deletions c) @ newline @
     concat (map hunk_text (fc_hunks c))"

definition summary_text :: "diff_target \<Rightarrow> string option \<Rightarrow> string option \<Rightarrow> diff_file_change list \<Rightarrow> string" where
  "summary_text target base head changes =
     ''target='' @ diff_target_debug target @ newline @
     ''base='' @ unwrap_or base [] @ newline @
     ''head='' @ unwrap_or head [] @ newline @
     concat (map change_text (sort_key (\<lambda>c. (fc_path c, fc_old_path c)) changes))"

definition compute_summary_hash ::
  "services \<Rightarrow> diff_target \<Rightarrow> string option \<Rightarrow> string option \<Rightarrow> diff_file_change list \<Rightarrow> string" where
  "compute_summary_hash svc target base head changes =
     sha256_hex svc (summary_text target base head changes)"

section \<open>Capture\<close>

definition capture_diff :: "services \<Rightarrow> git \<Rightarrow> diff_request \<Rightarrow> diff_captured_payload result" where
  "capture_diff svc g rq =
     and_then (git_diff_output g rq ''--numstat'') (\<lambda>numstat_output.
     and_then (git_diff_output g rq ''--summary'') (\<lambda>summary_output.
     and_then (parse_numstat numstat_output) (\<lambda>parsed.
     and_then (apply_hunks g rq (apply_summary summary_output parsed)) (\<lambda>with_hunks.
     let changes = apply_file_patch_ids g rq with_hunks
     in and_then (compute_patch_id g rq) (\<lambda>patch_id.
        Inr \<lparr>dc_diff_target = dr_target rq, dc_base_commit = dr_base_commit rq,
             dc_head_commit = dr_head_commit rq, dc_patch_id = patch_id,
             dc_summary_hash = compute_summary_hash svc (dr_target rq) (dr_base_commit rq)
               (dr_head_commit rq) changes,
             dc_file_changes = changes, dc_repo_context_id = dr_repo_context_id rq\<rparr>)))))"

section \<open>Numstat: parsing what git prints\<close>

text \<open>
  The documented form of \<^verbatim>\<open>git diff --numstat -z\<close>: two counts and a path, each field ended by a
  NUL; a rename has an empty path and its two paths in the next two fields.
\<close>

definition count_columns :: "diff_file_change \<Rightarrow> string" where
  "count_columns c = count_text (fc_additions c) @ tab @ count_text (fc_deletions c) @ tab"

definition numstat_fields :: "diff_file_change \<Rightarrow> string list" where
  "numstat_fields c =
     (case fc_old_path c of
        None \<Rightarrow> [count_columns c @ fc_path c]
      | Some old \<Rightarrow> [count_columns c, old, fc_path c])"

definition numstat_output :: "diff_file_change list \<Rightarrow> string" where
  "numstat_output changes = concat (map (\<lambda>f. f @ [nul]) (concat (map numstat_fields changes)))"

definition printable_path :: "string \<Rightarrow> bool" where
  "printable_path p \<longleftrightarrow> p \<noteq> [] \<and> nul \<notin> set p \<and> utf8_valid p"

definition numstat_entry :: "diff_file_change \<Rightarrow> bool" where
  "numstat_entry c \<longleftrightarrow>
     printable_path (fc_path c) \<and> fc_hunks c = [] \<and> fc_patch_id c = None \<and>
     (case fc_old_path c of
        None \<Rightarrow> fc_change_kind c = Change_Modified
      | Some old \<Rightarrow> printable_path old \<and> fc_change_kind c = Change_Renamed)"

lemma count_text_chars: "c \<in> set (count_text v) \<Longrightarrow> graph_char c"
  by (auto simp: count_text_def graph_char_def dest: show_u64_chars split: option.splits)

lemma count_text_no_tab [simp]: "CHR 0x09 \<notin> set (count_text v)" "nul \<notin> set (count_text v)"
  using count_text_chars [of "CHR 0x09" v] count_text_chars [of nul v]
  by (auto simp: graph_char_def nul_def)

lemma show_u64_not_dash: "show_u64 n \<noteq> ''-''"
  using show_u64_chars [of "CHR ''-''" n] by auto

lemma parse_count_text [simp]: "parse_numstat_count (Some (count_text v)) label = Inr v"
  by (simp add: parse_numstat_count_def count_text_def show_u64_not_dash split: option.split)

lemma parse_header_columns: "parse_numstat_header (count_columns c @ path) =
    Inr (fc_additions c, fc_deletions c, path)"
proof -
  have once: "split_once (CHR 0x09) (count_text v @ CHR 0x09 # t) = Some (count_text v, t)" for v t
    by (simp add: split_once_Some_iff)
  have "splitn 3 (CHR 0x09) (count_columns c @ path) =
      [count_text (fc_additions c), count_text (fc_deletions c), path]"
    by (simp add: count_columns_def tab_def numeral_3_eq_3 once)
  then show ?thesis by (simp add: parse_numstat_header_def nth_part_def)
qed

lemma numstat_entry_eq:
  "numstat_entry c \<Longrightarrow>
   numstat_change (fc_path c) (fc_old_path c) (fc_change_kind c) (fc_additions c) (fc_deletions c) = c"
  by (cases c) (simp add: numstat_entry_def numstat_change_def)

lemma parse_fields_entries:
  "list_all numstat_entry cs \<Longrightarrow> parse_numstat_fields (concat (map numstat_fields cs)) = Inr cs"
proof (induction cs)
  case (Cons c cs)
  then have c: "numstat_entry c" and rest: "parse_numstat_fields (concat (map numstat_fields cs)) = Inr cs"
    by auto
  show ?case
  proof (cases "fc_old_path c")
    case None
    then show ?thesis
      using c rest numstat_entry_eq [OF c]
      by (simp add: numstat_fields_def [of c] parse_header_columns numstat_entry_def printable_path_def)
  next
    case (Some old)
    have "parse_numstat_header (count_columns c) = Inr (fc_additions c, fc_deletions c, [])"
      using parse_header_columns [of c "[]"] by simp
    then show ?thesis
      using c rest Some numstat_entry_eq [OF c] by (simp add: numstat_fields_def [of c] numstat_entry_def)
  qed
qed simp

lemma split_on_terminated:
  "\<forall>f\<in>set fs. c \<notin> set f \<Longrightarrow> split_on c (concat (map (\<lambda>f. f @ [c]) fs)) = fs @ [[]]"
  by (induction fs) (auto simp: split_on_append)

lemma count_columns_ascii: "\<forall>c\<in>set (count_columns x). of_char c < (128 :: nat)"
  using count_text_chars by (fastforce simp: count_columns_def tab_def graph_char_def)

lemma numstat_fields_ok:
  assumes "numstat_entry c" "f \<in> set (numstat_fields c)"
  shows "f \<noteq> [] \<and> nul \<notin> set f \<and> utf8_valid f"
proof -
  have "utf8_valid (count_columns c)" by (rule utf8_valid_ascii [OF count_columns_ascii])
  moreover have "utf8_valid (count_columns c @ fc_path c)"
    using assms(1) by (simp add: utf8_valid_ascii_append [OF count_columns_ascii] numstat_entry_def printable_path_def)
  moreover have "nul \<notin> set (count_columns c)" "count_columns c \<noteq> []"
    by (simp_all add: count_columns_def tab_def) (simp add: nul_def)
  ultimately show ?thesis
    using assms by (auto simp: numstat_fields_def numstat_entry_def printable_path_def split: option.splits)
qed

lemma parse_printed_numstat:
  assumes "list_all numstat_entry changes"
  shows "parse_numstat (numstat_output changes) = Inr changes"
proof (cases "changes = []")
  case True
  then show ?thesis by (simp add: parse_numstat_def numstat_output_def)
next
  case False
  let ?fs = "concat (map numstat_fields changes)"
  have ok: "\<forall>f\<in>set ?fs. f \<noteq> [] \<and> nul \<notin> set f \<and> utf8_valid f"
    using assms numstat_fields_ok by (fastforce simp: list_all_iff)
  then have "split_on nul (numstat_output changes) = ?fs @ [[]]"
    unfolding numstat_output_def by (intro split_on_terminated) blast
  then have "nul_fields (numstat_output changes) = ?fs"
    using ok by (simp add: nul_fields_def filter_id_conv)
  moreover have "numstat_output changes \<noteq> []"
    using False by (cases changes) (auto simp: numstat_output_def numstat_fields_def split: option.splits)
  ultimately show ?thesis
    using ok parse_fields_entries [OF assms] by (simp add: parse_numstat_def list_all_iff)
qed

text \<open>
  C39: parsing what git prints for any list of changes gives those changes back: counts, binary
  files without counts, renames with both paths, paths with tabs or spaces.
\<close>

theorem numstat_roundtrip:
  assumes "list_all numstat_entry changes"
  shows "parse_numstat (numstat_output changes) = Inr changes"
  using assms by (rule parse_printed_numstat)

definition sample_change :: diff_file_change where
  "sample_change = numstat_change ''src/lib.rs'' None Change_Modified (Some 3) (Some 1)"

definition sample_rename :: diff_file_change where
  "sample_rename = numstat_change ''b.rs'' (Some ''a.rs'') Change_Renamed None None"

theorem numstat_roundtrip_witness:
  "parse_numstat (numstat_output [sample_change, sample_rename]) = Inr [sample_change, sample_rename]"
  by (rule numstat_roundtrip)
    (simp add: numstat_entry_def printable_path_def sample_change_def sample_rename_def numstat_change_def
      nul_def utf8_valid_ascii)

section \<open>Hunk headers\<close>

definition range_text :: "u64 \<Rightarrow> u64 \<Rightarrow> string" where
  "range_text a n = show_u64 a @ '','' @ show_u64 n"

definition hunk_header_line :: "diff_hunk \<Rightarrow> string" where
  "hunk_header_line h =
     ''@@ -'' @ range_text (dh_old_start h) (dh_old_lines h) @ '' +'' @
     range_text (dh_new_start h) (dh_new_lines h) @ '' @@'' @
     (case dh_header h of None \<Rightarrow> [] | Some t \<Rightarrow> '' '' @ t)"

definition trimmed_header :: "diff_hunk \<Rightarrow> bool" where
  "trimmed_header h \<longleftrightarrow> (case dh_header h of None \<Rightarrow> True | Some t \<Rightarrow> t \<noteq> [] \<and> trim ('' '' @ t) = t)"

lemma range_text_chars: "c \<in> set (range_text a b) \<Longrightarrow> graph_char c \<and> c \<noteq> CHR ''@''"
  by (auto simp: range_text_def graph_char_def dest!: show_u64_chars)

lemma show_u64_no_comma: "CHR '','' \<notin> set (show_u64 n)"
  using show_u64_chars [of "CHR '',''" n] by auto

lemma parse_range_text [simp]: "parse_range_pair (range_text a b) = Some (a, b)"
proof -
  have "split_once (CHR '','') (range_text a b) = Some (show_u64 a, show_u64 b)"
    by (simp add: split_once_Some_iff range_text_def show_u64_no_comma)
  then show ?thesis by (simp add: parse_range_pair_def)
qed

lemma find_close: "CHR ''@'' \<notin> set s \<Longrightarrow> find_sub '' @@'' (s @ '' @@'' @ t) = Some (length s)"
proof (induction s)
  case (Cons c s)
  have "\<not> prefix '' @@'' ((c # s) @ '' @@'' @ t)"
    using Cons.prems by (cases s) auto
  with Cons show ?case by simp
qed simp

lemma parse_hunk_header_parts:
  assumes "find_sub '' @@'' (pre @ '' @@'' @ rest) = Some (length pre)"
    and "split_whitespace pre = [CHR ''-'' # range_text a n, CHR ''+'' # range_text b m]"
  shows "parse_hunk_header (''@@ '' @ pre @ '' @@'' @ rest) =
    Some \<lparr>dh_old_start = a, dh_old_lines = n, dh_new_start = b, dh_new_lines = m,
          dh_header = (if trim rest = [] then None else Some (trim rest))\<rparr>"
proof -
  have sp: "strip_prefix ''@@ '' (''@@ '' @ x) = Some x" "strip_prefix ''-'' (CHR ''-'' # y) = Some y"
    "strip_prefix ''+'' (CHR ''+'' # y) = Some y" for x y
    by (simp_all add: strip_prefix_def)
  show ?thesis
    unfolding parse_hunk_header_def sp(1) using assms by (simp add: sp(2,3) Let_def)
qed

lemma parse_hunk_header_line:
  assumes "trimmed_header h"
  shows "parse_hunk_header (hunk_header_line h) = Some h"
proof -
  define old where "old = CHR ''-'' # range_text (dh_old_start h) (dh_old_lines h)"
  define new where "new = CHR ''+'' # range_text (dh_new_start h) (dh_new_lines h)"
  define rest where "rest = (case dh_header h of None \<Rightarrow> [] | Some t \<Rightarrow> '' '' @ t)"
  define pre where "pre = old @ CHR '' '' # new"
  have line: "hunk_header_line h = ''@@ '' @ pre @ '' @@'' @ rest"
    by (simp add: hunk_header_line_def pre_def old_def new_def rest_def)
  have graph: "\<forall>c\<in>set old. graph_char c \<and> c \<noteq> CHR ''@''" "\<forall>c\<in>set new. graph_char c \<and> c \<noteq> CHR ''@''"
    using range_text_chars by (auto simp: old_def new_def graph_char_def)
  have ne: "old \<noteq> []" "new \<noteq> []" by (simp_all add: old_def new_def)
  have find: "find_sub '' @@'' (pre @ '' @@'' @ rest) = Some (length pre)"
    unfolding pre_def using graph by (intro find_close) auto
  have words: "split_whitespace pre = [old, new]"
    using graph ne by (simp add: pre_def split_whitespace_def split_ws_step split_ws_word)
  have "(if trim rest = [] then None else Some (trim rest)) = dh_header h"
    using assms by (simp add: rest_def trimmed_header_def split: option.splits)
  then show ?thesis
    unfolding line parse_hunk_header_parts [OF find words [unfolded old_def new_def]] by (cases h) simp
qed

section \<open>Unified diffs\<close>

text \<open>
  A unified diff of one file: other header lines, the new path, and per hunk its header and the
  changed lines. \<open>plain_line\<close> is a line that the scan cannot take for a header.
\<close>

record file_diff =
  fd_intro :: "string list"
  fd_path :: string
  fd_hunks :: "(diff_hunk \<times> string list) list"

definition plain_line :: "string \<Rightarrow> bool" where
  "plain_line l \<longleftrightarrow> \<not> prefix ''+++ '' (trim_start l) \<and> \<not> prefix ''@@ '' (trim_start l)"

definition file_diff_lines :: "file_diff \<Rightarrow> string list" where
  "file_diff_lines d =
     fd_intro d @ (''+++ b/'' @ fd_path d) # concat (map (\<lambda>(h, body). hunk_header_line h # body) (fd_hunks d))"

definition readable_diff :: "file_diff \<Rightarrow> bool" where
  "readable_diff d \<longleftrightarrow>
     (\<forall>l\<in>set (fd_intro d). plain_line l) \<and> trim (''b/'' @ fd_path d) = ''b/'' @ fd_path d \<and>
     (\<forall>(h, body)\<in>set (fd_hunks d). trimmed_header h \<and> (\<forall>l\<in>set body. plain_line l))"

lemma scan_plain: "plain_line l \<Longrightarrow> scan_diff_line l st = st"
  by (simp add: scan_diff_line_def plain_line_def strip_prefix_def Let_def split: prod.split)

lemma fold_scan_plain: "\<forall>l\<in>set ls. plain_line l \<Longrightarrow> fold scan_diff_line ls st = st"
  by (induction ls arbitrary: st) (simp_all add: scan_plain)

lemma graph_at: "graph_char CHR ''@''" "graph_char CHR ''+''"
  by (simp_all add: graph_char_def)

lemma scan_hunk:
  assumes "trimmed_header h"
  shows "scan_diff_line (hunk_header_line h) (Some path, m) = (Some path, m(path \<mapsto> unwrap_or (m path) [] @ [h]))"
proof -
  have line: "trim_start (hunk_header_line h) = hunk_header_line h"
    unfolding hunk_header_line_def by (simp add: trim_start_graph graph_at)
  have "strip_prefix ''+++ '' (hunk_header_line h) = None" "prefix ''@@ '' (hunk_header_line h)"
    by (simp_all add: hunk_header_line_def strip_prefix_def)
  then show ?thesis
    by (simp add: scan_diff_line_def line parse_hunk_header_line [OF assms] Let_def)
qed

lemma scan_path:
  assumes "trim (''b/'' @ path) = ''b/'' @ path"
  shows "scan_diff_line (''+++ b/'' @ path) (cur, m) = (Some path, m)"
proof -
  have "trim_start (''+++ b/'' @ path) = ''+++ b/'' @ path"
    by (simp add: trim_start_graph graph_at)
  moreover have "strip_diff_path_prefix (''b/'' @ path) = Some path"
    by (simp add: strip_diff_path_prefix_def strip_prefix_def)
  ultimately show ?thesis
    using assms by (simp add: scan_diff_line_def strip_prefix_def Let_def)
qed

lemma scan_hunks:
  "\<forall>(h, body)\<in>set hs. trimmed_header h \<and> (\<forall>l\<in>set body. plain_line l) \<Longrightarrow>
   fold scan_diff_line (concat (map (\<lambda>(h, body). hunk_header_line h # body) hs)) (Some path, m) =
     (Some path, if hs = [] then m else m(path \<mapsto> unwrap_or (m path) [] @ map fst hs))"
proof (induction hs arbitrary: m)
  case (Cons hb hs)
  obtain h body where hb: "hb = (h, body)" by (cases hb)
  with Cons.prems have "trimmed_header h" "\<forall>l\<in>set body. plain_line l" by auto
  then show ?case
    using Cons by (auto simp: hb scan_hunk fold_scan_plain)
qed simp

lemma scan_file:
  assumes "readable_diff d"
  shows "fold scan_diff_line (file_diff_lines d) (cur, m) =
    (Some (fd_path d),
     if fd_hunks d = [] then m else m(fd_path d \<mapsto> unwrap_or (m (fd_path d)) [] @ map fst (fd_hunks d)))"
  using assms
  by (simp add: file_diff_lines_def readable_diff_def fold_scan_plain scan_path [simplified] scan_hunks)

lemma scan_files:
  "list_all readable_diff ds \<Longrightarrow> distinct (map fd_path ds) \<Longrightarrow> \<forall>d\<in>set ds. m (fd_path d) = None \<Longrightarrow>
   snd (fold scan_diff_line (concat (map file_diff_lines ds)) (cur, m)) =
     m ++ map_of (map (\<lambda>d. (fd_path d, map fst (fd_hunks d))) (filter (\<lambda>d. fd_hunks d \<noteq> []) ds))"
proof (induction ds arbitrary: cur m)
  case (Cons d ds)
  let ?m = "if fd_hunks d = [] then m else m(fd_path d \<mapsto> map fst (fd_hunks d))"
  have "snd (fold scan_diff_line (concat (map file_diff_lines (d # ds))) (cur, m)) =
      snd (fold scan_diff_line (concat (map file_diff_lines ds)) (Some (fd_path d), ?m))"
    using Cons.prems by (simp add: scan_file)
  also have "\<dots> = ?m ++ map_of (map (\<lambda>d. (fd_path d, map fst (fd_hunks d))) (filter (\<lambda>d. fd_hunks d \<noteq> []) ds))"
    using Cons.prems by (intro Cons.IH) (auto simp: image_iff)
  also have "\<dots> = m ++ map_of (map (\<lambda>d. (fd_path d, map fst (fd_hunks d))) (filter (\<lambda>d. fd_hunks d \<noteq> []) (d # ds)))"
    using Cons.prems(2)
    by (auto simp: fun_eq_iff map_add_def map_of_eq_None_iff image_iff split: option.split
        dest!: map_of_SomeD)
  finally show ?case .
qed simp

text \<open>
  Scanning a unified diff of distinct files attaches to each new path exactly its hunks, in
  order, with the numbers and trailers of their headers, when no changed line looks like a header
  of its own.
\<close>

theorem unified_hunks_roundtrip:
  assumes "list_all readable_diff ds" "distinct (map fd_path ds)"
    and "lines text = concat (map file_diff_lines ds)"
  shows "parse_unified_hunks text =
    map_of (map (\<lambda>d. (fd_path d, map fst (fd_hunks d))) (filter (\<lambda>d. fd_hunks d \<noteq> []) ds))"
  using scan_files [OF assms(1,2), of Map.empty None] by (simp add: parse_unified_hunks_def assms(3))

definition sample_hunk :: diff_hunk where
  "sample_hunk = \<lparr>dh_old_start = 10, dh_old_lines = 2, dh_new_start = 10, dh_new_lines = 3, dh_header = None\<rparr>"

definition sample_file_diff :: file_diff where
  "sample_file_diff =
     \<lparr>fd_intro = [''index 11..22 100644'', ''--- a/a.rs''], fd_path = ''a.rs'',
      fd_hunks = [(sample_hunk, [''-old'', ''+new''])]\<rparr>"

lemma sample_diff_readable: "readable_diff sample_file_diff"
  by (simp add: readable_diff_def sample_file_diff_def plain_line_def sample_hunk_def trimmed_header_def
      trim_start_graph trim_graph graph_char_def)

lemma sample_diff_text: "lines (join newline (file_diff_lines sample_file_diff)) = file_diff_lines sample_file_diff"
  by code_simp

theorem unified_hunks_roundtrip_witness:
  "parse_unified_hunks (join newline (file_diff_lines sample_file_diff)) = [''a.rs'' \<mapsto> [sample_hunk]]"
  using unified_hunks_roundtrip [of "[sample_file_diff]" "join newline (file_diff_lines sample_file_diff)"]
    sample_diff_readable sample_diff_text by (simp add: sample_file_diff_def)

text \<open>
  An added line whose text is \<open>++\<close>, a blank and some words is printed with its own plus sign,
  so the scan takes it for the header of a new file: every later hunk of the file is attached to
  those words as a path, and the file loses it.
\<close>

theorem added_line_taken_for_header:
  assumes "lines text = [''+++ b/'' @ path, hunk_header_line h1, ''+++ '' @ words, hunk_header_line h2]"
    and "trimmed_header h1" "trimmed_header h2" "trim (''b/'' @ path) = ''b/'' @ path"
    and "strip_diff_path_prefix (trim words) = Some other" "other \<noteq> path"
  shows "parse_unified_hunks text = [path \<mapsto> [h1], other \<mapsto> [h2]]"
proof -
  have "scan_diff_line (''+++ '' @ words) (Some path, m) = (Some other, m)" for m
    using assms(5) by (simp add: scan_diff_line_def trim_start_graph graph_at strip_prefix_def)
  then show ?thesis
    using assms(2-4,6)
    by (simp add: parse_unified_hunks_def assms(1) scan_hunk scan_path [simplified])
qed

theorem added_line_taken_for_header_witness:
  "parse_unified_hunks (join newline [''+++ b/a.rs'', hunk_header_line sample_hunk, ''+++ i;'', hunk_header_line sample_hunk]) =
     [''a.rs'' \<mapsto> [sample_hunk], ''i;'' \<mapsto> [sample_hunk]]"
  by (rule added_line_taken_for_header [where words = "''i;''"]; code_simp)

section \<open>Kinds from the summary\<close>

text \<open>
  Git ends each line of \<^verbatim>\<open>--summary\<close> with a newline, also under \<^verbatim>\<open>-z\<close>: created files are printed
  as \<open>created_summary\<close>.
\<close>

definition created_block :: "(string \<times> string) list \<Rightarrow> string" where
  "created_block fs = join (newline @ '' '') (map (\<lambda>(mode, path). ''create mode '' @ mode @ '' '' @ path) fs)"

definition created_summary :: "(string \<times> string) list \<Rightarrow> string" where
  "created_summary fs = '' '' @ created_block fs @ newline"

definition graph_word :: "string \<Rightarrow> bool" where
  "graph_word w \<longleftrightarrow> w \<noteq> [] \<and> (\<forall>c\<in>set w. graph_char c)"

lemma split_ws_line:
  assumes "\<forall>c\<in>set w. graph_char c" "w \<noteq> [] \<or> cur \<noteq> []"
  shows "split_ws cur (w @ CHR 0x0A # CHR '' '' # s) = (rev cur @ w) # split_ws [] s"
  using assms
proof (induction w arbitrary: cur)
  case Nil
  have "seq_len ws_seqs (CHR 0x0A # CHR '' '' # s) = 1" "seq_len ws_seqs (CHR '' '' # s) = 1"
    by (simp_all add: ws_seqs_def)
  with Nil show ?case by (subst split_ws.simps, simp, subst split_ws.simps) simp
next
  case (Cons c w)
  then show ?case by (subst split_ws.simps) (simp add: graph_char_not_ws)
qed

lemma graph_words: "graph_word ''create''" "graph_word ''mode''"
  by (simp_all add: graph_word_def graph_char_def)

lemma split_word_step:
  "graph_word w \<Longrightarrow> split_ws [] (w @ CHR '' '' # s) = w # split_ws [] s"
  "graph_word w \<Longrightarrow> split_ws [] (w @ CHR 0x0A # CHR '' '' # s) = w # split_ws [] s"
  "graph_word w \<Longrightarrow> split_ws [] w = [w]"
  by (simp_all add: graph_word_def split_ws_step split_ws_line split_ws_word)

lemma split_created_block:
  "list_all (\<lambda>(mode, path). graph_word mode \<and> graph_word path) fs \<Longrightarrow> fs \<noteq> [] \<Longrightarrow>
   split_ws [] (created_block fs) = concat (map (\<lambda>(mode, path). [''create'', ''mode'', mode, path]) fs)"
proof (induction fs)
  case (Cons f fs)
  obtain mode path where f: "f = (mode, path)" by (cases f)
  have block: "created_block (f # fs) = ''create'' @ CHR '' '' # ''mode'' @ CHR '' '' # mode @ CHR '' '' #
      (if fs = [] then path else path @ CHR 0x0A # CHR '' '' # created_block fs)"
    by (simp add: created_block_def join_Cons f newline_def)
  show ?case
    unfolding block using Cons graph_words by (simp add: f split_word_step del: append.simps)
qed simp

definition line_char :: "char \<Rightarrow> bool" where
  "line_char c \<longleftrightarrow> graph_char c \<or> c = CHR '' '' \<or> c = CHR 0x0A"

lemma created_block_ascii:
  "list_all (\<lambda>(mode, path). graph_word mode \<and> graph_word path) fs \<Longrightarrow> \<forall>c\<in>set (created_block fs). line_char c"
proof (induction fs)
  case (Cons f fs)
  obtain mode path where f: "f = (mode, path)" by (cases f)
  have fixed: "\<forall>c\<in>set ''create mode ''. line_char c" "\<forall>c\<in>set (newline @ '' ''). line_char c"
    by (simp_all add: line_char_def graph_char_def newline_def)
  have words: "\<forall>c\<in>set (mode @ '' '' @ path). line_char c"
    using Cons.prems by (auto simp: f graph_word_def line_char_def)
  have "created_block (f # fs) = ''create mode '' @ (mode @ '' '' @ path) @
      (if fs = [] then [] else (newline @ '' '') @ created_block fs)"
    by (simp add: created_block_def join_Cons f)
  with fixed words Cons show ?case by (simp only: set_append ball_Un) (auto split: if_splits)
qed (simp add: created_block_def)

lemma created_block_ends:
  "list_all (\<lambda>(mode, path). graph_word mode \<and> graph_word path) fs \<Longrightarrow> fs \<noteq> [] \<Longrightarrow>
   \<exists>s c. created_block fs = s @ [c] \<and> graph_char c"
proof (induction fs)
  case (Cons f fs)
  obtain mode path where f: "f = (mode, path)" by (cases f)
  show ?case
  proof (cases "fs = []")
    case True
    obtain p c where "path = p @ [c]" "graph_char c"
      using Cons.prems by (cases path rule: rev_cases) (auto simp: f graph_word_def)
    then show ?thesis
      by (intro exI [of _ "''create mode '' @ mode @ '' '' @ p"] exI [of _ c]) (simp add: created_block_def f True)
  next
    case False
    with Cons obtain s c where "created_block fs = s @ [c]" "graph_char c" by auto
    then show ?thesis
      by (intro exI [of _ "''create mode '' @ mode @ '' '' @ path @ newline @ '' '' @ s"] exI [of _ c])
        (use False in \<open>simp add: created_block_def f join_Cons\<close>)
  qed
qed simp

lemma trim_created_summary:
  assumes "list_all (\<lambda>(mode, path). graph_word mode \<and> graph_word path) fs" "fs \<noteq> []"
  shows "trim (created_summary fs) = created_block fs"
proof -
  obtain s c where sc: "created_block fs = s @ [c]" "graph_char c"
    using created_block_ends [OF assms] by blast
  have "\<exists>t. created_block fs = CHR ''c'' # t"
    using assms(2) by (cases fs) (auto simp: created_block_def join_Cons split: prod.splits if_splits)
  then obtain t where t: "created_block fs = CHR ''c'' # t" by blast
  have trims1: "trim_start (CHR '' '' # x) = trim_start x" for x
    unfolding trim_start_def by (subst strip_seqs.simps) (simp add: ws_seqs_def)
  have trims2: "trim_start (CHR ''c'' # t @ newline) = CHR ''c'' # t @ newline"
    by (rule trim_start_graph) (simp add: graph_char_def)
  have trims3: "trim_end (x @ newline) = trim_end x" for x
    unfolding trim_end_def newline_def by (subst strip_seqs.simps) (simp add: ws_seqs_def)
  note trims = trims1 trims2 trims3
  have "trim (created_summary fs) = trim_end (CHR ''c'' # t @ newline)"
    by (simp add: trim_def created_summary_def t trims)
  also have "\<dots> = trim_end (created_block fs)"
    using trims(3) [of "CHR ''c'' # t"] by (simp add: t)
  finally have "trim (created_summary fs) = trim_end (created_block fs)" .
  then show ?thesis
    unfolding sc(1) by (simp only: trim_end_graph [OF sc(2)])
qed

text \<open>
  When git reports several created files, only the last one of the report is marked as added;
  the others keep the kind that the numstat gave them.
\<close>

theorem only_last_created_is_added:
  assumes "list_all (\<lambda>(mode, path). graph_word mode \<and> graph_word path) fs" "fs \<noteq> []"
  shows "apply_summary (created_summary fs) changes = set_kind (snd (last fs)) Change_Added changes"
proof -
  let ?out = "created_summary fs"
  have chars: "\<forall>c\<in>set ?out. line_char c"
    using created_block_ascii [OF assms(1)] by (simp add: created_summary_def newline_def line_char_def)
  then have no_nul: "nul \<notin> set ?out"
    by (auto simp: nul_def line_char_def graph_char_def)
  have "of_char c < (128 :: nat)" if "line_char c" for c
    using that by (auto simp: line_char_def graph_char_def)
  with chars have "utf8_valid ?out" by (intro utf8_valid_ascii) blast
  have fields: "nul_fields ?out = [?out]" "?out \<noteq> []"
    unfolding nul_fields_def split_on_no_sep [OF no_nul] by (simp_all add: created_summary_def)
  define rest where "rest = drop (length ''create mode '') (created_block fs)"
  obtain mode path gs where fs: "fs = (mode, path) # gs" using assms(2) by (cases fs) auto
  have block: "created_block fs = ''create mode '' @ rest"
    by (simp add: rest_def fs created_block_def join_Cons)
  have "split_ws [] (created_block fs) = ''create'' # ''mode'' # split_ws [] rest"
    using split_word_step(1) [OF graph_words(1), of "''mode'' @ CHR '' '' # rest"]
      split_word_step(1) [OF graph_words(2), of rest] by (simp add: block)
  with split_created_block [OF assms] have words:
    "''create'' # ''mode'' # split_ws [] rest = concat (map (\<lambda>(mode, path). [''create'', ''mode'', mode, path]) fs)"
    by simp
  have "last (concat (map (\<lambda>(mode, path). [''create'', ''mode'', mode, path]) fs)) = snd (last fs)"
    using assms(2) by (cases fs rule: rev_cases) (auto split: prod.split)
  with words have "last_word rest = Some (snd (last fs))"
    by (auto simp: last_word_def split_whitespace_def fs split: if_splits)
  then have "word_after ''create mode '' (trim ?out) = Some (snd (last fs))"
    by (simp add: word_after_def trim_created_summary [OF assms] block strip_prefix_append del: append.simps)
  then show ?thesis
    using \<open>utf8_valid ?out\<close> by (simp add: apply_summary_def fields apply_summary_line_def)
qed

theorem only_last_created_is_added_witness:
  "apply_summary (created_summary [(''100644'', ''a.rs''), (''100644'', ''b.rs'')])
     [numstat_change ''a.rs'' None Change_Modified (Some 1) (Some 0),
      numstat_change ''b.rs'' None Change_Modified (Some 1) (Some 0)] =
     [numstat_change ''a.rs'' None Change_Modified (Some 1) (Some 0),
      numstat_change ''b.rs'' None Change_Added (Some 1) (Some 0)]"
  by (subst only_last_created_is_added)
    (simp_all add: graph_word_def graph_char_def numstat_change_def)

section \<open>The summary hash and the captured payload\<close>

text \<open>
  The summary hash does not depend on the order in which git lists the changes.
\<close>

theorem summary_hash_order:
  assumes "mset cs = mset ds" "distinct (map (\<lambda>c. (fc_path c, fc_old_path c)) cs)"
  shows "compute_summary_hash svc target base head cs = compute_summary_hash svc target base head ds"
proof -
  let ?k = "\<lambda>c. (fc_path c, fc_old_path c)"
  have "sort_key ?k cs = sort_key ?k ds"
    by (rule sort_key_inj_key_eq) (use assms in \<open>simp_all add: distinct_map\<close>)
  then show ?thesis by (simp add: compute_summary_hash_def summary_text_def)
qed

theorem summary_hash_order_witness:
  "compute_summary_hash plain_services Target_Working None None [sample_change, sample_rename] =
     compute_summary_hash plain_services Target_Working None None [sample_rename, sample_change]"
  by (rule summary_hash_order) (simp_all add: sample_change_def sample_rename_def numstat_change_def)

definition counts :: "diff_file_change \<Rightarrow> string \<times> string option \<times> u64 option \<times> u64 option" where
  "counts c = (fc_path c, fc_old_path c, fc_additions c, fc_deletions c)"

lemma set_kind_counts:
  "map counts (set_kind path kind cs) = map counts cs"
  "map fc_hunks (set_kind path kind cs) = map fc_hunks cs"
  by (induction cs) (simp_all add: counts_def)

lemma set_moved_kind_counts:
  "map counts (set_moved_kind kind cs) = map counts cs"
  "map fc_hunks (set_moved_kind kind cs) = map fc_hunks cs"
  by (induction cs) (simp_all add: set_moved_kind_def counts_def)

lemma apply_summary_line_counts:
  "map counts (apply_summary_line field cs) = map counts cs"
  "map fc_hunks (apply_summary_line field cs) = map fc_hunks cs"
  by (simp_all add: apply_summary_line_def Let_def set_kind_counts set_moved_kind_counts split: option.split)

lemma apply_summary_counts:
  "map counts (apply_summary out cs) = map counts cs"
  "map fc_hunks (apply_summary out cs) = map fc_hunks cs"
proof -
  have "map counts (fold apply_summary_line fs cs) = map counts cs \<and>
      map fc_hunks (fold apply_summary_line fs cs) = map fc_hunks cs" for fs
    by (induction fs arbitrary: cs) (simp_all add: apply_summary_line_counts)
  then show "map counts (apply_summary out cs) = map counts cs"
    "map fc_hunks (apply_summary out cs) = map fc_hunks cs"
    by (simp_all add: apply_summary_def)
qed

lemma parse_fields_no_hunks: "parse_numstat_fields fs = Inr cs \<Longrightarrow> list_all (\<lambda>c. fc_hunks c = []) cs"
proof (induction fs arbitrary: cs rule: parse_numstat_fields.induct)
  case (2 header fs)
  from "2.prems" obtain a d first where head: "parse_numstat_header header = Inr (a, d, first)"
    by (cases "parse_numstat_header header") auto
  show ?case
  proof (cases "first = []")
    case True
    with "2.prems" head obtain old path fs' where fs: "fs = old # path # fs'"
      by (auto split: list.splits)
    with "2.prems" head True obtain cs' where "parse_numstat_fields fs' = Inr cs'"
      "cs = numstat_change path (Some old) Change_Renamed a d # cs'"
      by (auto simp: and_then_Inr_iff)
    with "2.IH"(1) [OF True fs refl] show ?thesis
      by (simp add: numstat_change_def)
  next
    case False
    with "2.prems" head obtain cs' where "parse_numstat_fields fs = Inr cs'"
      "cs = numstat_change first None Change_Modified a d # cs'"
      by (auto simp: and_then_Inr_iff)
    with "2.IH"(2) [OF False] show ?thesis
      by (simp add: numstat_change_def)
  qed
qed simp

lemma parse_numstat_no_hunks: "parse_numstat out = Inr cs \<Longrightarrow> list_all (\<lambda>c. fc_hunks c = []) cs"
  by (auto simp: parse_numstat_def dest: parse_fields_no_hunks split: if_splits)

text \<open>
  A captured payload describes exactly the files of git's numstat, with their counts and old
  paths; each file has the hunks of the unified diff for its new path and its own patch id, the
  request is copied, the hash is that of the stored changes, and a range has both its ends.
\<close>

theorem capture_diff_content:
  assumes "capture_diff svc g rq = Inr p"
  shows "\<exists>out parsed unified.
    git_diff_output g rq ''--numstat'' = Inr out \<and> parse_numstat out = Inr parsed \<and>
    git_diff_unified g rq = Inr unified \<and>
    map counts (dc_file_changes p) = map counts parsed \<and>
    list_all (\<lambda>c. fc_hunks c = unwrap_or (parse_unified_hunks (from_utf8_lossy unified) (fc_path c)) [] \<and>
                  fc_patch_id c = file_patch_id g rq (fc_path c)) (dc_file_changes p) \<and>
    compute_patch_id g rq = Inr (dc_patch_id p) \<and>
    dc_summary_hash p = compute_summary_hash svc (dr_target rq) (dr_base_commit rq) (dr_head_commit rq) (dc_file_changes p) \<and>
    (dc_diff_target p, dc_base_commit p, dc_head_commit p, dc_repo_context_id p) =
      (dr_target rq, dr_base_commit rq, dr_head_commit rq, dr_repo_context_id rq) \<and>
    (dr_target rq = Target_Range \<longrightarrow> dr_base_commit rq \<noteq> None \<and> dr_head_commit rq \<noteq> None)"
proof -
  from assms obtain out summary parsed unified pid where
    steps: "git_diff_output g rq ''--numstat'' = Inr out" "parse_numstat out = Inr parsed"
      "git_diff_unified g rq = Inr unified" "compute_patch_id g rq = Inr pid"
    and p: "p = \<lparr>dc_diff_target = dr_target rq, dc_base_commit = dr_base_commit rq,
             dc_head_commit = dr_head_commit rq, dc_patch_id = pid,
             dc_summary_hash = compute_summary_hash svc (dr_target rq) (dr_base_commit rq) (dr_head_commit rq) (dc_file_changes p),
             dc_file_changes = dc_file_changes p, dc_repo_context_id = dr_repo_context_id rq\<rparr>"
    and changes: "dc_file_changes p = apply_file_patch_ids g rq
        (map (\<lambda>c. case parse_unified_hunks (from_utf8_lossy unified) (fc_path c) of None \<Rightarrow> c
                 | Some hunks \<Rightarrow> c\<lparr>fc_hunks := hunks\<rparr>) (apply_summary summary parsed))"
    by (auto simp: capture_diff_def apply_hunks_def and_then_Inr_iff Let_def)
  have "map fc_hunks (apply_summary summary parsed) = map fc_hunks parsed"
    by (rule apply_summary_counts(2))
  with parse_numstat_no_hunks [OF steps(2)] have "set (map fc_hunks (apply_summary summary parsed)) \<subseteq> {[]}"
    by (auto simp: list_all_iff)
  then have none: "c \<in> set (apply_summary summary parsed) \<Longrightarrow> fc_hunks c = []" for c
    by auto
  have "map counts (dc_file_changes p) = map counts (apply_summary summary parsed)"
    by (auto simp: changes apply_file_patch_ids_def counts_def split: option.split)
  moreover have "list_all (\<lambda>c. fc_hunks c = unwrap_or (parse_unified_hunks (from_utf8_lossy unified) (fc_path c)) [] \<and>
      fc_patch_id c = file_patch_id g rq (fc_path c)) (dc_file_changes p)"
    using none by (auto simp: changes apply_file_patch_ids_def list_all_iff split: option.split)
  moreover have "dr_target rq = Target_Range \<longrightarrow> dr_base_commit rq \<noteq> None \<and> dr_head_commit rq \<noteq> None"
    using steps(1) by (auto simp: git_diff_output_def diff_target_args_def and_then_Inr_iff ok_or_Inr_iff)
  moreover have "(dc_diff_target p, dc_base_commit p, dc_head_commit p, dc_repo_context_id p) =
      (dr_target rq, dr_base_commit rq, dr_head_commit rq, dr_repo_context_id rq)" "dc_patch_id p = pid"
    "dc_summary_hash p = compute_summary_hash svc (dr_target rq) (dr_base_commit rq) (dr_head_commit rq) (dc_file_changes p)"
    by (subst p, simp)+
  ultimately show ?thesis
    using steps by (simp add: apply_summary_counts(1))
qed

text \<open>A git that knows one modified file.\<close>

definition sample_git :: git where
  "sample_git =
     \<lparr>git_run = (\<lambda>args.
        if ''--numstat'' \<in> set args then Git_Ok (numstat_output [sample_change])
        else if ''--unified=0'' \<in> set args then Git_Ok (join newline [''+++ b/src/lib.rs'', hunk_header_line sample_hunk])
        else Git_Ok []),
      git_pipe = (\<lambda>_ _. Git_Unavailable)\<rparr>"

definition sample_request :: diff_request where
  "sample_request = \<lparr>dr_target = Target_Range, dr_base_commit = Some ''c1'', dr_head_commit = Some ''c2'',
     dr_repo_context_id = None\<rparr>"

definition sample_payload :: diff_captured_payload where
  "sample_payload = (case capture_diff plain_services sample_git sample_request of Inr p \<Rightarrow> p)"

lemma parse_sample: "parse_numstat (numstat_output [sample_change]) = Inr [sample_change]"
  by (rule parse_printed_numstat)
    (simp add: numstat_entry_def printable_path_def sample_change_def numstat_change_def nul_def utf8_valid_ascii)

lemma sample_capture: "capture_diff plain_services sample_git sample_request = Inr sample_payload"
proof -
  have "git_diff_output sample_git sample_request ''--numstat'' = Inr (numstat_output [sample_change])"
    "git_diff_output sample_git sample_request ''--summary'' = Inr []"
    by (simp_all add: git_diff_output_def diff_target_args_def sample_request_def sample_git_def git_stdout_def)
  moreover have "git_diff_unified sample_git sample_request =
      Inr (join newline [''+++ b/src/lib.rs'', hunk_header_line sample_hunk])"
    by (simp add: git_diff_unified_def diff_target_args_def sample_request_def sample_git_def git_stdout_def)
  moreover have "compute_patch_id sample_git sample_request = Inr None"
    by (simp add: compute_patch_id_def diff_target_args_def sample_request_def sample_git_def)
  ultimately have "\<exists>p. capture_diff plain_services sample_git sample_request = Inr p"
    by (simp add: capture_diff_def parse_sample apply_hunks_def Let_def)
  then show ?thesis by (auto simp: sample_payload_def)
qed

theorem capture_diff_content_witness:
  "map counts (dc_file_changes sample_payload) = [counts sample_change] \<and>
   dc_diff_target sample_payload = Target_Range"
proof -
  have "git_diff_output sample_git sample_request ''--numstat'' = Inr (numstat_output [sample_change])"
    by (simp add: git_diff_output_def diff_target_args_def sample_request_def sample_git_def git_stdout_def)
  then show ?thesis
    using capture_diff_content [OF sample_capture] parse_sample by (auto simp: sample_request_def)
qed

end
