(* ===== verification/Paths.thy ===== *)
theory Paths imports Rust_Str begin

text \<open>
  Unix paths as strings, and the file system as a parameter: which text a path holds, when it can
  be read as UTF-8.
\<close>

type_synonym file_texts = "string \<Rightarrow> string option"

definition path_is_absolute :: "string \<Rightarrow> bool" where
  "path_is_absolute p \<longleftrightarrow> prefix ''/'' p"

text \<open>\<^verbatim>\<open>Path::join\<close>: an absolute argument replaces the path; else a separator is added if missing.\<close>

definition path_join :: "string \<Rightarrow> string \<Rightarrow> string" where
  "path_join p q =
     (if path_is_absolute q then q
      else if p = [] \<or> last p = CHR ''/'' then p @ q
      else p @ ''/'' @ q)"

lemma path_join_absolute [simp]: "path_is_absolute q \<Longrightarrow> path_join p q = q"
  by (simp add: path_join_def)

lemma path_join_prefix: "\<not> path_is_absolute q \<Longrightarrow> prefix p (path_join p q) \<and> suffix q (path_join p q)"
  by (simp add: path_join_def suffix_def)

lemma path_is_absolute_join [simp]: "path_is_absolute p \<Longrightarrow> path_is_absolute (path_join p q)"
  by (auto simp: path_join_def path_is_absolute_def)

text \<open>\<^verbatim>\<open>PathBuf::pop\<close> on an absolute path without repeated separators: the root has no parent.\<close>

definition path_parent :: "string \<Rightarrow> string option" where
  "path_parent p =
     (if p = [] \<or> p = ''/'' then None
      else let up = rev (tl (dropWhile (\<lambda>c. c \<noteq> CHR ''/'') (rev p)))
           in if up = [] \<and> path_is_absolute p then Some ''/'' else Some up)"

lemma path_parent_shorter: "path_parent p = Some q \<Longrightarrow> length q < length p"
proof -
  assume q: "path_parent p = Some q"
  then have p: "p \<noteq> []" "p \<noteq> ''/''" by (auto simp: path_parent_def)
  have len: "length (dropWhile f xs) \<le> length xs" for f and xs :: string
    by (simp add: length_dropWhile_le)
  have "length (rev (tl (dropWhile (\<lambda>c. c \<noteq> CHR ''/'') (rev p)))) < length p"
    using len [of "\<lambda>c. c \<noteq> CHR ''/''" "rev p"] p by (cases p) auto
  moreover have "length ''/'' < length p" if "path_is_absolute p"
    using that p by (cases p; cases "tl p") (auto simp: path_is_absolute_def)
  ultimately show ?thesis
    using q p by (auto simp: path_parent_def Let_def split: if_splits)
qed

end
