(* ===== verification/Blame.thy ===== *)
theory Blame imports Local_Store Diff_Capture Paths begin

text \<open>
  Line-level attribution (\<^verbatim>\<open>blame.rs\<close>): git maps a line to its commit, the commit's slice of the
  file to a patch id, and the log maps the patch id to the session that captured the change; lines
  git reports as uncommitted get the hunks of the last working diff.
\<close>

section \<open>Attribution records\<close>

datatype blame_confidence = Blame_Commit | Blame_Working | Blame_Unattributed

record blame_line =
  bl_line_no :: u64
  bl_session_id :: "string option"
  bl_actor_type :: "string option"
  bl_actor_id :: "string option"
  bl_mission_id :: "string option"
  bl_commit :: "string option"
  bl_occurred_at :: "string option"
  bl_source_event_id :: "string option"
  bl_confidence :: blame_confidence

record session_touch =
  to_commit :: string
  to_subject :: "string option"
  to_committed_at :: "string option"
  to_session_id :: "string option"
  to_actor_type :: "string option"
  to_actor_id :: "string option"
  to_mission_id :: "string option"
  to_occurred_at :: "string option"
  to_source_event_id :: "string option"
  to_attributed :: bool

record attribution =
  at_session_id :: "string option"
  at_actor_type :: string
  at_actor_id :: string
  at_mission_id :: "string option"
  at_occurred_at :: string
  at_event_id :: string

text \<open>The debug name of the actor type in lower case.\<close>

fun actor_type_lower :: "actor_type \<Rightarrow> string" where
  "actor_type_lower Human = ''human''"
| "actor_type_lower Agent = ''agent''"
| "actor_type_lower System = ''system''"

definition attribution_of :: "services \<Rightarrow> trace_event \<Rightarrow> attribution" where
  "attribution_of svc ev =
     \<lparr>at_session_id = te_session_id ev, at_actor_type = actor_type_lower (actor_type (te_actor ev)),
      at_actor_id = actor_id (te_actor ev), at_mission_id = te_mission_id ev,
      at_occurred_at = rfc3339 svc (te_occurred_at ev), at_event_id = te_event_id ev\<rparr>"

definition apply_attr :: "attribution \<Rightarrow> blame_confidence \<Rightarrow> blame_line \<Rightarrow> blame_line" where
  "apply_attr a conf l =
     l\<lparr>bl_session_id := at_session_id a, bl_actor_type := Some (at_actor_type a),
       bl_actor_id := Some (at_actor_id a), bl_mission_id := at_mission_id a,
       bl_occurred_at := Some (at_occurred_at a), bl_source_event_id := Some (at_event_id a),
       bl_confidence := conf\<rparr>"

definition blank_line :: "u64 \<Rightarrow> blame_line" where
  "blank_line n =
     \<lparr>bl_line_no = n, bl_session_id = None, bl_actor_type = None, bl_actor_id = None,
      bl_mission_id = None, bl_commit = None, bl_occurred_at = None, bl_source_event_id = None,
      bl_confidence = Blame_Unattributed\<rparr>"

section \<open>The captured diffs of a file\<close>

definition touches_path :: "string \<Rightarrow> diff_captured_payload \<Rightarrow> bool" where
  "touches_path rel p \<longleftrightarrow> list_ex (\<lambda>c. fc_path c = rel) (dc_file_changes p)"

definition diff_event_payload :: "string \<Rightarrow> trace_event \<Rightarrow> (trace_event \<times> diff_captured_payload) option" where
  "diff_event_payload rel ev =
     (if te_event_type ev \<noteq> DiffCaptured then None
      else case dec_diff_captured_payload (te_payload ev) of
             None \<Rightarrow> None
           | Some p \<Rightarrow> if touches_path rel p then Some (ev, p) else None)"

definition collect_diff_events :: "trace_event list \<Rightarrow> string \<Rightarrow> (trace_event \<times> diff_captured_payload) list" where
  "collect_diff_events evs rel = List.map_filter (diff_event_payload rel) evs"

type_synonym patch_map = "string \<Rightarrow> attribution option"

definition changes_of :: "string \<Rightarrow> diff_captured_payload \<Rightarrow> diff_file_change list" where
  "changes_of rel p = filter (\<lambda>c. fc_path c = rel) (dc_file_changes p)"

definition index_changes :: "string \<Rightarrow> attribution \<Rightarrow> diff_captured_payload \<Rightarrow> patch_map \<Rightarrow> patch_map" where
  "index_changes rel a p =
     fold (\<lambda>c m. case fc_patch_id c of None \<Rightarrow> m | Some pid \<Rightarrow> m(pid \<mapsto> a)) (changes_of rel p)"

definition index_captures ::
  "services \<Rightarrow> string \<Rightarrow> (trace_event \<times> diff_captured_payload) list \<Rightarrow>
   patch_map \<times> (attribution \<times> diff_captured_payload) option" where
  "index_captures svc rel des =
     fold (\<lambda>(ev, p) (m, working).
       (index_changes rel (attribution_of svc ev) p m,
        if dc_diff_target p = Target_Working then Some (attribution_of svc ev, p) else working))
       des (Map.empty, None)"

section \<open>What git knows\<close>

definition hex_digit :: "char \<Rightarrow> bool" where
  "hex_digit c \<longleftrightarrow>
     (CHR ''0'' \<le> c \<and> c \<le> CHR ''9'') \<or> (CHR ''a'' \<le> c \<and> c \<le> CHR ''f'') \<or> (CHR ''A'' \<le> c \<and> c \<le> CHR ''F'')"

definition commit_sha :: "string \<Rightarrow> bool" where
  "commit_sha s \<longleftrightarrow> length s = 40 \<and> list_all hex_digit s"

definition is_zero_sha :: "string \<Rightarrow> bool" where
  "is_zero_sha s \<longleftrightarrow> list_all (\<lambda>c. c = CHR ''0'') s"

type_synonym line_commits = "u64 \<Rightarrow> string option"

definition porcelain_line :: "string \<Rightarrow> line_commits \<Rightarrow> line_commits" where
  "porcelain_line l m =
     (case split_whitespace l of
        [] \<Rightarrow> m
      | sha # parts \<Rightarrow>
          if \<not> commit_sha sha then m
          else (case parts of
                  _ # final_line # _ \<Rightarrow>
                    (case parse_u64 final_line of None \<Rightarrow> m | Some n \<Rightarrow> m(n \<mapsto> sha))
                | _ \<Rightarrow> m))"

definition parse_porcelain :: "string \<Rightarrow> line_commits" where
  "parse_porcelain text = fold porcelain_line (lines text) Map.empty"

definition git_blame_line_commits :: "git \<Rightarrow> string \<Rightarrow> line_commits result" where
  "git_blame_line_commits g rel =
     and_then (git_stdout ''git blame'' (git_run g [''blame'', ''--line-porcelain'', ''--'', rel])) (\<lambda>out.
     Inr (parse_porcelain (from_utf8_lossy out)))"

definition patch_id_of :: "git \<Rightarrow> string \<Rightarrow> string option" where
  "patch_id_of g diff =
     (case git_pipe g [''patch-id'', ''--stable''] diff of
        Git_Ok out \<Rightarrow> first_word (from_utf8_lossy out)
      | _ \<Rightarrow> None)"

definition commit_file_patch_id :: "git \<Rightarrow> string \<Rightarrow> string \<Rightarrow> string option" where
  "commit_file_patch_id g commit rel =
     (case git_run g [''show'', ''--no-color'', commit, ''--'', rel] of
        Git_Ok out \<Rightarrow> if out = [] then None else patch_id_of g out
      | _ \<Rightarrow> None)"

definition current_line_count :: "file_texts \<Rightarrow> string \<Rightarrow> string \<Rightarrow> u64 result" where
  "current_line_count texts root rel =
     and_then (ok_or (texts (path_join root rel)) (File_Read_Failed (path_join root rel))) (\<lambda>text.
     Inr (of_nat (length (lines text))))"

section \<open>Blaming a file\<close>

text \<open>The patch id of a commit is computed once and kept in a cache.\<close>

type_synonym patch_cache = "string \<Rightarrow> string option option"

definition cached_patch_id :: "git \<Rightarrow> string \<Rightarrow> string \<Rightarrow> patch_cache \<Rightarrow> string option \<times> patch_cache" where
  "cached_patch_id g rel sha cache =
     (case cache sha of
        Some pid \<Rightarrow> (pid, cache)
      | None \<Rightarrow> (let pid = commit_file_patch_id g sha rel in (pid, cache(sha \<mapsto> pid))))"

definition committed_line ::
  "git \<Rightarrow> string \<Rightarrow> line_commits \<Rightarrow> patch_map \<Rightarrow> u64 \<Rightarrow> patch_cache \<Rightarrow> blame_line \<times> patch_cache" where
  "committed_line g rel commits patches n cache =
     (case commits n of
        None \<Rightarrow> (blank_line n, cache)
      | Some sha \<Rightarrow>
          if is_zero_sha sha then (blank_line n, cache)
          else (let line = (blank_line n)\<lparr>bl_commit := Some sha\<rparr>;
                    (pid, cache) = cached_patch_id g rel sha cache
                in case pid of
                     None \<Rightarrow> (line, cache)
                   | Some pid \<Rightarrow>
                       (case patches pid of
                          None \<Rightarrow> (line, cache)
                        | Some a \<Rightarrow> (apply_attr a Blame_Commit line, cache))))"

fun committed_lines ::
  "git \<Rightarrow> string \<Rightarrow> line_commits \<Rightarrow> patch_map \<Rightarrow> u64 list \<Rightarrow> patch_cache \<Rightarrow> blame_line list" where
  "committed_lines g rel commits patches [] cache = []"
| "committed_lines g rel commits patches (n # ns) cache =
     (let (line, cache) = committed_line g rel commits patches n cache
      in line # committed_lines g rel commits patches ns cache)"

definition uncommitted :: "line_commits \<Rightarrow> u64 \<Rightarrow> bool" where
  "uncommitted commits n \<longleftrightarrow> unwrap_or (map_option is_zero_sha (commits n)) True"

definition in_hunk :: "diff_hunk \<Rightarrow> u64 \<Rightarrow> bool" where
  "in_hunk h n \<longleftrightarrow> dh_new_start h \<le> n \<and> n \<le> dh_new_start h + dh_new_lines h - 1"

definition overlay_hunk :: "line_commits \<Rightarrow> attribution \<Rightarrow> diff_hunk \<Rightarrow> blame_line list \<Rightarrow> blame_line list" where
  "overlay_hunk commits a h ls =
     (if dh_new_lines h = 0 then ls
      else map (\<lambda>l. if uncommitted commits (bl_line_no l) \<and> in_hunk h (bl_line_no l)
                    then apply_attr a Blame_Working l else l) ls)"

definition overlay_working ::
  "line_commits \<Rightarrow> string \<Rightarrow> (attribution \<times> diff_captured_payload) option \<Rightarrow> blame_line list \<Rightarrow> blame_line list" where
  "overlay_working commits rel working ls =
     (case working of
        None \<Rightarrow> ls
      | Some (a, p) \<Rightarrow> fold (\<lambda>c. fold (overlay_hunk commits a) (fc_hunks c)) (changes_of rel p) ls)"

definition line_numbers :: "u64 \<Rightarrow> u64 list" where
  "line_numbers n = map of_nat [1..<Suc (unat n)]"

definition blame_file ::
  "store_env \<Rightarrow> local_store \<Rightarrow> git \<Rightarrow> file_texts \<Rightarrow> string \<Rightarrow> string \<Rightarrow> blame_line list result" where
  "blame_file env st g texts root rel =
     and_then (read_all_events env st) (\<lambda>evs.
     let (patches, working) = index_captures (se_services env) rel (collect_diff_events evs rel)
     in and_then (current_line_count texts root rel) (\<lambda>n.
        let commits = (case git_blame_line_commits g rel of Inr m \<Rightarrow> m | Inl _ \<Rightarrow> Map.empty)
        in Inr (overlay_working commits rel working
                  (committed_lines g rel commits patches (line_numbers n) Map.empty))))"

section \<open>The history of a line range\<close>

record range_commit =
  rc_sha :: string
  rc_subject :: "string option"
  rc_committed_at :: "string option"

definition unit_sep :: char where
  "unit_sep = CHR 0x1F"

definition nonempty_part :: "nat \<Rightarrow> string list \<Rightarrow> string option" where
  "nonempty_part i parts = filter_opt (\<lambda>s. s \<noteq> []) (nth_part i parts)"

definition parse_range_commit :: "string \<Rightarrow> range_commit option" where
  "parse_range_commit line =
     (let parts = split_on unit_sep line
      in if commit_sha (hd parts)
         then Some \<lparr>rc_sha = hd parts, rc_subject = nonempty_part 1 parts, rc_committed_at = nonempty_part 2 parts\<rparr>
         else None)"

definition git_log_line_range_commits :: "git \<Rightarrow> string \<Rightarrow> u64 \<Rightarrow> u64 \<Rightarrow> range_commit list result" where
  "git_log_line_range_commits g rel lo hi =
     (let range = show_u64 lo @ '','' @ show_u64 hi @ '':'' @ rel
      in and_then (git_stdout ''git log -L''
                     (git_run g [''log'', ''-L'', range, ''--no-patch'', ''--format=%H%x1f%s%x1f%cI''])) (\<lambda>out.
         Inr (List.map_filter parse_range_commit (lines (from_utf8_lossy out)))))"

text \<open>Here only the first patch id of each event is indexed.\<close>

definition index_first_change :: "string \<Rightarrow> attribution \<Rightarrow> diff_captured_payload \<Rightarrow> patch_map \<Rightarrow> patch_map" where
  "index_first_change rel a p m =
     (case List.map_filter fc_patch_id (changes_of rel p) of [] \<Rightarrow> m | pid # _ \<Rightarrow> m(pid \<mapsto> a))"

definition index_first_captures :: "services \<Rightarrow> string \<Rightarrow> (trace_event \<times> diff_captured_payload) list \<Rightarrow> patch_map" where
  "index_first_captures svc rel des =
     fold (\<lambda>(ev, p). index_first_change rel (attribution_of svc ev) p) des Map.empty"

definition touch_of_commit :: "range_commit \<Rightarrow> attribution option \<Rightarrow> session_touch" where
  "touch_of_commit c owner =
     \<lparr>to_commit = rc_sha c, to_subject = rc_subject c, to_committed_at = rc_committed_at c,
      to_session_id = (case owner of None \<Rightarrow> None | Some a \<Rightarrow> at_session_id a),
      to_actor_type = map_option at_actor_type owner, to_actor_id = map_option at_actor_id owner,
      to_mission_id = (case owner of None \<Rightarrow> None | Some a \<Rightarrow> at_mission_id a),
      to_occurred_at = map_option at_occurred_at owner, to_source_event_id = map_option at_event_id owner,
      to_attributed = (owner \<noteq> None)\<rparr>"

definition blame_line_range_history ::
  "store_env \<Rightarrow> local_store \<Rightarrow> git \<Rightarrow> string \<Rightarrow> u64 \<Rightarrow> u64 \<Rightarrow> session_touch list result" where
  "blame_line_range_history env st g rel lo hi =
     (if lo = 0 \<or> hi < lo then Inl (Invalid_Line_Range lo hi)
      else
        and_then (read_all_events env st) (\<lambda>evs.
        let patches = index_first_captures (se_services env) rel (collect_diff_events evs rel)
        in and_then (git_log_line_range_commits g rel lo hi) (\<lambda>commits.
           Inr (map (\<lambda>c. touch_of_commit c
                  (case commit_file_patch_id g (rc_sha c) rel of None \<Rightarrow> None | Some pid \<Rightarrow> patches pid)) commits))))"

section \<open>What a blame promises\<close>

text \<open>
  The abstract contract: a line that git has committed is attributed to the last event of the log
  that captured the commit's slice of the file; any other line to the last working diff of the
  file, when one of its hunks covers the line.
\<close>

definition captured_diff :: "string \<Rightarrow> trace_event \<Rightarrow> diff_captured_payload option" where
  "captured_diff rel ev = map_option snd (diff_event_payload rel ev)"

definition captures_patch :: "string \<Rightarrow> string \<Rightarrow> trace_event \<Rightarrow> bool" where
  "captures_patch rel pid ev \<longleftrightarrow>
     (case captured_diff rel ev of
        None \<Rightarrow> False
      | Some p \<Rightarrow> list_ex (\<lambda>c. fc_path c = rel \<and> fc_patch_id c = Some pid) (dc_file_changes p))"

definition captures_working :: "string \<Rightarrow> trace_event \<Rightarrow> bool" where
  "captures_working rel ev \<longleftrightarrow>
     (case captured_diff rel ev of None \<Rightarrow> False | Some p \<Rightarrow> dc_diff_target p = Target_Working)"

definition covers_line :: "string \<Rightarrow> trace_event \<Rightarrow> u64 \<Rightarrow> bool" where
  "covers_line rel ev n \<longleftrightarrow>
     (case captured_diff rel ev of
        None \<Rightarrow> False
      | Some p \<Rightarrow> list_ex (\<lambda>c. fc_path c = rel \<and> list_ex (\<lambda>h. dh_new_lines h \<noteq> 0 \<and> in_hunk h n) (fc_hunks c))
                   (dc_file_changes p))"

definition last_event :: "(trace_event \<Rightarrow> bool) \<Rightarrow> trace_event list \<Rightarrow> trace_event option" where
  "last_event q evs = (let hits = filter q evs in if hits = [] then None else Some (last hits))"

definition commit_owner :: "git \<Rightarrow> string \<Rightarrow> trace_event list \<Rightarrow> string \<Rightarrow> trace_event option" where
  "commit_owner g rel evs sha =
     (case commit_file_patch_id g sha rel of
        None \<Rightarrow> None
      | Some pid \<Rightarrow> last_event (captures_patch rel pid) evs)"

definition working_owner :: "string \<Rightarrow> trace_event list \<Rightarrow> u64 \<Rightarrow> trace_event option" where
  "working_owner rel evs n = filter_opt (\<lambda>ev. covers_line rel ev n) (last_event (captures_working rel) evs)"

definition attributed :: "services \<Rightarrow> blame_confidence \<Rightarrow> trace_event option \<Rightarrow> blame_line \<Rightarrow> blame_line" where
  "attributed svc conf owner l =
     (case owner of None \<Rightarrow> l | Some ev \<Rightarrow> apply_attr (attribution_of svc ev) conf l)"

definition blame_line_spec ::
  "services \<Rightarrow> git \<Rightarrow> string \<Rightarrow> trace_event list \<Rightarrow> line_commits \<Rightarrow> u64 \<Rightarrow> blame_line" where
  "blame_line_spec svc g rel evs commits n =
     (case filter_opt (\<lambda>sha. \<not> is_zero_sha sha) (commits n) of
        Some sha \<Rightarrow> attributed svc Blame_Commit (commit_owner g rel evs sha) ((blank_line n)\<lparr>bl_commit := Some sha\<rparr>)
      | None \<Rightarrow> attributed svc Blame_Working (working_owner rel evs n) (blank_line n))"

subsection \<open>The index of captures\<close>

lemma last_event_append:
  "last_event q (evs @ [ev]) = (if q ev then Some ev else last_event q evs)"
  by (simp add: last_event_def)

lemma last_event_Nil [simp]: "last_event q [] = None"
  by (simp add: last_event_def)

lemma index_changes_lookup:
  "index_changes rel a p m pid =
     (if list_ex (\<lambda>c. fc_path c = rel \<and> fc_patch_id c = Some pid) (dc_file_changes p) then Some a else m pid)"
proof -
  have "fold (\<lambda>c m. case fc_patch_id c of None \<Rightarrow> m | Some pid \<Rightarrow> m(pid \<mapsto> a)) cs m pid =
      (if list_ex (\<lambda>c. fc_patch_id c = Some pid) cs then Some a else m pid)" for cs
    by (induction cs arbitrary: m) (auto split: option.split)
  note this [of "changes_of rel p"]
  moreover have "list_ex (\<lambda>c. fc_patch_id c = Some pid) (changes_of rel p) =
      list_ex (\<lambda>c. fc_path c = rel \<and> fc_patch_id c = Some pid) (dc_file_changes p)"
    by (auto simp: changes_of_def list_ex_iff)
  ultimately show ?thesis by (simp add: index_changes_def)
qed

lemma captured_diff_simps:
  "diff_event_payload rel ev = None \<Longrightarrow> captured_diff rel ev = None"
  "diff_event_payload rel ev = Some (ev', p) \<Longrightarrow> captured_diff rel ev = Some p"
  by (simp_all add: captured_diff_def)

lemma captures_simps:
  "captured_diff rel ev = None \<Longrightarrow> \<not> captures_patch rel pid ev"
  "captured_diff rel ev = None \<Longrightarrow> \<not> captures_working rel ev"
  "captured_diff rel ev = Some p \<Longrightarrow> captures_patch rel pid ev =
     list_ex (\<lambda>c. fc_path c = rel \<and> fc_patch_id c = Some pid) (dc_file_changes p)"
  "captured_diff rel ev = Some p \<Longrightarrow> captures_working rel ev = (dc_diff_target p = Target_Working)"
  by (simp_all add: captures_patch_def captures_working_def)

lemma collect_append:
  "collect_diff_events (evs @ [ev]) rel =
     collect_diff_events evs rel @ (case diff_event_payload rel ev of None \<Rightarrow> [] | Some d \<Rightarrow> [d])"
  by (simp add: collect_diff_events_def List.map_filter_def split: option.split)

lemma diff_event_fst: "diff_event_payload rel ev = Some (ev', p) \<Longrightarrow> ev' = ev"
  by (auto simp: diff_event_payload_def split: if_splits option.splits)

lemma index_captures_append:
  "index_captures svc rel (des @ [(ev, p)]) =
     (index_changes rel (attribution_of svc ev) p (fst (index_captures svc rel des)),
      if dc_diff_target p = Target_Working then Some (attribution_of svc ev, p)
      else snd (index_captures svc rel des))"
  by (simp add: index_captures_def split: prod.split)

lemma index_captures_spec:
  "fst (index_captures svc rel (collect_diff_events evs rel)) pid =
     map_option (attribution_of svc) (last_event (captures_patch rel pid) evs)"
  "snd (index_captures svc rel (collect_diff_events evs rel)) =
     (case last_event (captures_working rel) evs of
        None \<Rightarrow> None
      | Some ev \<Rightarrow> map_option (\<lambda>p. (attribution_of svc ev, p)) (captured_diff rel ev))"
proof (induction evs rule: rev_induct)
  case Nil
  { case 1 show ?case by (simp add: collect_diff_events_def List.map_filter_def index_captures_def) }
  { case 2 show ?case by (simp add: collect_diff_events_def List.map_filter_def index_captures_def) }
next
  case (snoc ev evs)
  show "fst (index_captures svc rel (collect_diff_events (evs @ [ev]) rel)) pid =
      map_option (attribution_of svc) (last_event (captures_patch rel pid) (evs @ [ev]))"
  proof (cases "diff_event_payload rel ev")
    case None
    then show ?thesis
      using snoc(1) by (simp add: collect_append last_event_append captures_simps captured_diff_simps)
  next
    case (Some d)
    then obtain p where d: "diff_event_payload rel ev = Some (ev, p)"
      using diff_event_fst by (cases d) blast
    show ?thesis
      using snoc(1) d by (simp add: collect_append last_event_append captures_simps captured_diff_simps
          index_captures_append index_changes_lookup)
  qed
  show "snd (index_captures svc rel (collect_diff_events (evs @ [ev]) rel)) =
     (case last_event (captures_working rel) (evs @ [ev]) of
        None \<Rightarrow> None
      | Some ev \<Rightarrow> map_option (\<lambda>p. (attribution_of svc ev, p)) (captured_diff rel ev))"
  proof (cases "diff_event_payload rel ev")
    case None
    then show ?thesis
      using snoc(2) by (simp add: collect_append last_event_append captures_simps captured_diff_simps)
  next
    case (Some d)
    then obtain p where d: "diff_event_payload rel ev = Some (ev, p)"
      using diff_event_fst by (cases d) blast
    show ?thesis
      using snoc(2) d by (simp add: collect_append last_event_append captures_simps captured_diff_simps
          index_captures_append)
  qed
qed

subsection \<open>Committed lines: the cache is transparent\<close>

definition committed_spec :: "git \<Rightarrow> string \<Rightarrow> line_commits \<Rightarrow> patch_map \<Rightarrow> u64 \<Rightarrow> blame_line" where
  "committed_spec g rel commits patches n =
     (case filter_opt (\<lambda>sha. \<not> is_zero_sha sha) (commits n) of
        None \<Rightarrow> blank_line n
      | Some sha \<Rightarrow>
          (case Option.bind (commit_file_patch_id g sha rel) patches of
             None \<Rightarrow> (blank_line n)\<lparr>bl_commit := Some sha\<rparr>
           | Some a \<Rightarrow> apply_attr a Blame_Commit ((blank_line n)\<lparr>bl_commit := Some sha\<rparr>)))"

definition cache_exact :: "git \<Rightarrow> string \<Rightarrow> patch_cache \<Rightarrow> bool" where
  "cache_exact g rel cache \<longleftrightarrow> (\<forall>sha pid. cache sha = Some pid \<longrightarrow> pid = commit_file_patch_id g sha rel)"

lemma cached_patch_id_exact:
  assumes "cache_exact g rel cache"
  shows "fst (cached_patch_id g rel sha cache) = commit_file_patch_id g sha rel"
    and "cache_exact g rel (snd (cached_patch_id g rel sha cache))"
  using assms by (auto simp: cached_patch_id_def cache_exact_def Let_def split: option.splits)

lemma committed_line_exact:
  assumes "cache_exact g rel cache"
  shows "fst (committed_line g rel commits patches n cache) = committed_spec g rel commits patches n"
    and "cache_exact g rel (snd (committed_line g rel commits patches n cache))"
proof -
  have "fst (committed_line g rel commits patches n cache) = committed_spec g rel commits patches n \<and>
      cache_exact g rel (snd (committed_line g rel commits patches n cache))"
  proof (cases "commits n")
    case None
    then show ?thesis using assms by (simp add: committed_line_def committed_spec_def)
  next
    case (Some sha)
    obtain pid cache' where step: "cached_patch_id g rel sha cache = (pid, cache')"
      by (cases "cached_patch_id g rel sha cache")
    with cached_patch_id_exact [OF assms, of sha] have "pid = commit_file_patch_id g sha rel" "cache_exact g rel cache'"
      by simp_all
    with Some step assms show ?thesis
      by (cases pid) (auto simp: committed_line_def committed_spec_def Let_def split: option.split)
  qed
  then show "fst (committed_line g rel commits patches n cache) = committed_spec g rel commits patches n"
    "cache_exact g rel (snd (committed_line g rel commits patches n cache))" by simp_all
qed

lemma committed_lines_exact:
  "cache_exact g rel cache \<Longrightarrow>
   committed_lines g rel commits patches ns cache = map (committed_spec g rel commits patches) ns"
proof (induction ns arbitrary: cache)
  case (Cons n ns)
  show ?case
    using committed_line_exact [OF Cons.prems, of commits patches n] Cons.IH
    by (cases "committed_line g rel commits patches n cache") simp
qed simp

subsection \<open>The working overlay\<close>

lemma bl_line_no_simps [simp]:
  "bl_line_no (apply_attr a conf l) = bl_line_no l" "bl_line_no (blank_line n) = n"
  by (simp_all add: apply_attr_def blank_line_def)

lemma apply_attr_idem [simp]: "apply_attr a conf (apply_attr a conf l) = apply_attr a conf l"
  by (simp add: apply_attr_def)

definition overlaid :: "line_commits \<Rightarrow> attribution \<Rightarrow> diff_hunk list \<Rightarrow> blame_line \<Rightarrow> blame_line" where
  "overlaid commits a hs l =
     (if uncommitted commits (bl_line_no l) \<and> list_ex (\<lambda>h. dh_new_lines h \<noteq> 0 \<and> in_hunk h (bl_line_no l)) hs
      then apply_attr a Blame_Working l else l)"

lemma overlay_hunks: "fold (overlay_hunk commits a) hs ls = map (overlaid commits a hs) ls"
proof (induction hs arbitrary: ls)
  case Nil
  show ?case by (simp add: overlaid_def)
next
  case (Cons h hs)
  have "overlay_hunk commits a h ls = map (overlaid commits a [h]) ls"
    by (simp add: overlay_hunk_def overlaid_def map_idI)
  moreover have "overlaid commits a hs (overlaid commits a [h] l) = overlaid commits a (h # hs) l" for l
    by (auto simp: overlaid_def)
  ultimately show ?case by (simp add: Cons)
qed

lemma overlay_changes:
  "fold (\<lambda>c. fold (overlay_hunk commits a) (fc_hunks c)) cs ls = map (overlaid commits a (concat (map fc_hunks cs))) ls"
proof -
  have "fold (\<lambda>c. fold (overlay_hunk commits a) (fc_hunks c)) cs ls =
      fold (overlay_hunk commits a) (concat (map fc_hunks cs)) ls"
    by (induction cs arbitrary: ls) simp_all
  then show ?thesis by (simp add: overlay_hunks)
qed

lemma uncommitted_iff: "uncommitted commits n \<longleftrightarrow> filter_opt (\<lambda>sha. \<not> is_zero_sha sha) (commits n) = None"
  by (cases "commits n") (simp_all add: uncommitted_def)

lemma committed_spec_eq:
  assumes "\<And>pid. patches pid = map_option (attribution_of svc) (last_event (captures_patch rel pid) evs)"
  shows "committed_spec g rel commits patches n =
    (if uncommitted commits n then blank_line n else blame_line_spec svc g rel evs commits n)"
proof (cases "filter_opt (\<lambda>sha. \<not> is_zero_sha sha) (commits n)")
  case None
  then show ?thesis by (simp add: uncommitted_iff committed_spec_def)
next
  case (Some sha)
  then show ?thesis
    by (cases "commit_file_patch_id g sha rel")
      (auto simp: uncommitted_iff committed_spec_def blame_line_spec_def commit_owner_def attributed_def assms
        split: option.split)
qed

lemma covers_line_changes:
  "captured_diff rel ev = Some p \<Longrightarrow> covers_line rel ev n =
     list_ex (\<lambda>h. dh_new_lines h \<noteq> 0 \<and> in_hunk h n) (concat (map fc_hunks (changes_of rel p)))"
  by (auto simp: covers_line_def changes_of_def list_ex_iff)

lemma last_event_holds: "last_event q evs = Some ev \<Longrightarrow> q ev \<and> ev \<in> set evs"
  using last_in_set [of "filter q evs"] by (auto simp: last_event_def Let_def split: if_splits)

text \<open>
  C5: blaming a file answers, for each of its lines in order, what the contract says: the last
  capture of the commit's patch for a committed line, the last working diff that covers it for a
  line git reports as uncommitted, nothing otherwise. The patch-id cache and the order of the two
  passes do not matter.
\<close>

theorem blame_file_meets_spec:
  assumes "read_all_events env st = Inr evs" "texts (path_join root rel) = Some content"
  shows "blame_file env st g texts root rel =
    Inr (map (blame_line_spec (se_services env) g rel evs
               (case git_blame_line_commits g rel of Inr m \<Rightarrow> m | Inl _ \<Rightarrow> Map.empty))
          (line_numbers (of_nat (length (lines content)))))"
proof -
  define commits where "commits = (case git_blame_line_commits g rel of Inr m \<Rightarrow> m | Inl _ \<Rightarrow> Map.empty)"
  define svc where "svc = se_services env"
  obtain patches working where index: "index_captures svc rel (collect_diff_events evs rel) = (patches, working)"
    by (cases "index_captures svc rel (collect_diff_events evs rel)")
  have patches: "patches = (\<lambda>pid. map_option (attribution_of svc) (last_event (captures_patch rel pid) evs))"
    using index_captures_spec(1) [of svc rel evs] by (simp add: index fun_eq_iff)
  have working: "working = (case last_event (captures_working rel) evs of None \<Rightarrow> None
      | Some ev \<Rightarrow> map_option (\<lambda>p. (attribution_of svc ev, p)) (captured_diff rel ev))"
    using index_captures_spec(2) [of svc rel evs] by (simp add: index)
  have committed: "committed_spec g rel commits patches n =
      (if uncommitted commits n then blank_line n else blame_line_spec svc g rel evs commits n)" for n
    by (rule committed_spec_eq) (simp add: patches)
  have overlay: "overlay_working commits rel working (map (committed_spec g rel commits patches) ns) =
      map (blame_line_spec svc g rel evs commits) ns" for ns
  proof (cases "last_event (captures_working rel) evs")
    case None
    then show ?thesis
      by (simp add: overlay_working_def working committed uncommitted_iff blame_line_spec_def working_owner_def
          attributed_def)
  next
    case (Some ev)
    then obtain p where p: "captured_diff rel ev = Some p"
      using last_event_holds [OF Some] by (cases "captured_diff rel ev") (auto simp: captures_simps)
    have "overlaid commits (attribution_of svc ev) (concat (map fc_hunks (changes_of rel p)))
        (committed_spec g rel commits patches n) = blame_line_spec svc g rel evs commits n" for n
    proof (cases "uncommitted commits n")
      case True
      then have "filter_opt (\<lambda>sha. \<not> is_zero_sha sha) (commits n) = None"
        by (simp add: uncommitted_iff)
      then show ?thesis
        using True by (simp add: committed overlaid_def blame_line_spec_def working_owner_def Some attributed_def
            covers_line_changes [OF p])
    next
      case False
      then have "bl_line_no (blame_line_spec svc g rel evs commits n) = n"
        by (auto simp: uncommitted_iff blame_line_spec_def attributed_def blank_line_def apply_attr_def split: option.splits)
      then show ?thesis using False by (simp add: committed overlaid_def)
    qed
    then show ?thesis
      by (simp add: overlay_working_def working Some p overlay_changes)
  qed
  show ?thesis
    using assms overlay
    by (simp add: blame_file_def index [unfolded svc_def] current_line_count_def committed_lines_exact cache_exact_def
        commits_def svc_def)
qed

section \<open>Reading git's porcelain\<close>

record porcelain_entry =
  pe_sha :: string
  pe_original :: u64
  pe_final :: u64
  pe_group :: "u64 option"
  pe_rest :: "string list"

definition porcelain_header :: "porcelain_entry \<Rightarrow> string" where
  "porcelain_header e =
     pe_sha e @ '' '' @ show_u64 (pe_original e) @ '' '' @ show_u64 (pe_final e) @
     (case pe_group e of None \<Rightarrow> [] | Some n \<Rightarrow> '' '' @ show_u64 n)"

definition quiet_line :: "string \<Rightarrow> bool" where
  "quiet_line l \<longleftrightarrow> (case split_whitespace l of [] \<Rightarrow> True | w # _ \<Rightarrow> \<not> commit_sha w)"

lemma hex_graph: "hex_digit c \<Longrightarrow> graph_char c"
  by (auto simp: hex_digit_def graph_char_def less_eq_char_def)

lemma commit_sha_word: "commit_sha s \<Longrightarrow> graph_word s"
  by (auto simp: commit_sha_def graph_word_def list_all_iff hex_graph)

lemma show_u64_word: "graph_word (show_u64 n)"
  by (auto simp: graph_word_def dest: show_u64_chars)

lemma porcelain_header_step:
  assumes "commit_sha (pe_sha e)"
  shows "porcelain_line (porcelain_header e) m = m(pe_final e \<mapsto> pe_sha e)"
proof -
  have "split_whitespace (porcelain_header e) =
      pe_sha e # show_u64 (pe_original e) # show_u64 (pe_final e) #
      (case pe_group e of None \<Rightarrow> [] | Some n \<Rightarrow> [show_u64 n])"
    by (simp add: porcelain_header_def split_whitespace_def split_word_step commit_sha_word [OF assms] show_u64_word
        split: option.split)
  then show ?thesis using assms by (simp add: porcelain_line_def)
qed

lemma quiet_line_skip: "quiet_line l \<Longrightarrow> porcelain_line l m = m"
  by (cases "split_whitespace l") (simp_all add: porcelain_line_def quiet_line_def)

lemma quiet_lines_skip: "list_all quiet_line ls \<Longrightarrow> fold porcelain_line ls m = m"
  by (induction ls) (simp_all add: quiet_line_skip)

lemma fold_porcelain_entries:
  "list_all (\<lambda>e. commit_sha (pe_sha e) \<and> list_all quiet_line (pe_rest e)) es \<Longrightarrow>
   fold porcelain_line (concat (map (\<lambda>e. porcelain_header e # pe_rest e) es)) m =
     m ++ map_of (rev (map (\<lambda>e. (pe_final e, pe_sha e)) es))"
  by (induction es arbitrary: m) (simp_all add: porcelain_header_step quiet_lines_skip)

text \<open>
  Reading the porcelain of a blame gives back, for every line of the file, the commit that git
  printed for it, as long as no other line of the output starts with a 40-digit word.
\<close>

theorem porcelain_roundtrip:
  assumes "lines text = concat (map (\<lambda>e. porcelain_header e # pe_rest e) es)"
    and "list_all (\<lambda>e. commit_sha (pe_sha e) \<and> list_all quiet_line (pe_rest e)) es"
    and "distinct (map pe_final es)"
  shows "parse_porcelain text = map_of (map (\<lambda>e. (pe_final e, pe_sha e)) es)"
proof -
  have "parse_porcelain text = map_of (rev (map (\<lambda>e. (pe_final e, pe_sha e)) es))"
    using fold_porcelain_entries [OF assms(2)] by (simp add: parse_porcelain_def assms(1))
  also have "\<dots> = map_of (map (\<lambda>e. (pe_final e, pe_sha e)) es)"
    by (subst map_of_inject_set) (use assms(3) in \<open>simp_all add: rev_map [symmetric] comp_def\<close>)
  finally show ?thesis .
qed

definition sample_sha :: string where
  "sample_sha = replicate 40 (CHR ''a'')"

definition zero_sha :: string where
  "zero_sha = replicate 40 (CHR ''0'')"

lemma sample_shas: "commit_sha sample_sha" "commit_sha zero_sha" "\<not> is_zero_sha sample_sha" "is_zero_sha zero_sha"
  by (simp_all add: commit_sha_def sample_sha_def zero_sha_def hex_digit_def less_eq_char_def is_zero_sha_def
      list_all_iff)

text \<open>
  A line of the file itself is not always skipped: when its first word has 40 hexadecimal
  digits and its third is a number, the scan reads it as a header and reattributes that line of the
  file to the quoted commit.
\<close>

theorem quoted_commit_misread:
  assumes "commit_sha (pe_sha e)" "lines text = [porcelain_header e, tab @ sha @ '' '' @ w @ '' '' @ show_u64 n]"
    and "commit_sha sha" "graph_word w"
  shows "parse_porcelain text = [pe_final e \<mapsto> pe_sha e, n \<mapsto> sha]"
proof -
  have "split_ws [] (CHR 0x09 # s) = split_ws [] s" for s
    by (subst split_ws.simps) (simp add: ws_seqs_def)
  then have "split_whitespace (tab @ sha @ '' '' @ w @ '' '' @ show_u64 n) = [sha, w, show_u64 n]"
    using assms(3,4)
    by (simp add: split_whitespace_def tab_def split_word_step commit_sha_word show_u64_word)
  then have "porcelain_line (tab @ sha @ '' '' @ w @ '' '' @ show_u64 n) m = m(n \<mapsto> sha)" for m
    using assms(3) by (simp add: porcelain_line_def)
  then show ?thesis
    by (simp add: parse_porcelain_def assms(2) porcelain_header_step [OF assms(1)])
qed

section \<open>The history of a range\<close>

definition first_patch :: "string \<Rightarrow> trace_event \<Rightarrow> string option" where
  "first_patch rel ev =
     (case captured_diff rel ev of
        None \<Rightarrow> None
      | Some p \<Rightarrow> (case List.map_filter fc_patch_id (changes_of rel p) of [] \<Rightarrow> None | pid # _ \<Rightarrow> Some pid))"

lemma index_first_spec:
  "index_first_captures svc rel (collect_diff_events evs rel) pid =
     map_option (attribution_of svc) (last_event (\<lambda>ev. first_patch rel ev = Some pid) evs)"
proof (induction evs rule: rev_induct)
  case Nil
  show ?case by (simp add: collect_diff_events_def List.map_filter_def index_first_captures_def)
next
  case (snoc ev evs)
  show ?case
  proof (cases "diff_event_payload rel ev")
    case None
    then show ?thesis
      using snoc by (simp add: collect_append last_event_append first_patch_def captured_diff_simps)
  next
    case (Some d)
    then obtain p where d: "diff_event_payload rel ev = Some (ev, p)"
      using diff_event_fst by (cases d) blast
    show ?thesis
      using snoc captured_diff_simps(2) [OF d] d
      by (auto simp: collect_append last_event_append first_patch_def index_first_captures_def index_first_change_def
          split: list.split)
  qed
qed

text \<open>
  The history of a valid line range lists every commit that git walks through, in git's order,
  each owned by the last event whose first recorded patch for the file is the commit's; a range
  that starts at line 0 or ends before it starts is an error.
\<close>

theorem range_history_complete:
  assumes "read_all_events env st = Inr evs" "git_log_line_range_commits g rel lo hi = Inr commits"
  shows "blame_line_range_history env st g rel lo hi =
    (if lo = 0 \<or> hi < lo then Inl (Invalid_Line_Range lo hi)
     else Inr (map (\<lambda>c. touch_of_commit c
            (case commit_file_patch_id g (rc_sha c) rel of
               None \<Rightarrow> None
             | Some pid \<Rightarrow> map_option (attribution_of (se_services env))
                             (last_event (\<lambda>ev. first_patch rel ev = Some pid) evs))) commits))"
  by (simp add: blame_line_range_history_def assms index_first_spec cong: option.case_cong)

section \<open>A sample blame\<close>

definition sample_diff_event :: trace_event where
  "sample_diff_event =
     (diff_captured \<lparr>fresh_now = 5, fresh_uuid = ''event-5''\<rparr>
       \<lparr>actor_type = Agent, actor_id = ''claude'', display_name = None\<rparr> ''artifact_1'' (Some ''session_1'') None
       \<lparr>dc_diff_target = Target_Working, dc_base_commit = None, dc_head_commit = None, dc_patch_id = None,
        dc_summary_hash = ''h'', dc_file_changes =
          [(numstat_change ''a.rs'' None Change_Modified (Some 1) None)
             \<lparr>fc_patch_id := Some ''p1'',
              fc_hunks := [\<lparr>dh_old_start = 1, dh_old_lines = 0, dh_new_start = 2, dh_new_lines = 1, dh_header = None\<rparr>]\<rparr>],
        dc_repo_context_id = None\<rparr>)\<lparr>te_repo_id := Some ''repo-1''\<rparr>"

definition sample_blame_store :: local_store where
  "sample_blame_store =
     sample_store (Some \<lparr>db_events = [event_row_of plain_services 9 ''repo-1'' sample_diff_event sample_diff_event],
                         db_chunks = []\<rparr>)"

definition sample_entry :: porcelain_entry where
  "sample_entry = \<lparr>pe_sha = sample_sha, pe_original = 3, pe_final = 1, pe_group = Some 1,
     pe_rest = [''author A'', tab @ ''x'']\<rparr>"

lemma sample_entry_quiet: "list_all quiet_line (pe_rest sample_entry)"
  by code_simp

definition zero_entry :: porcelain_entry where
  "zero_entry = \<lparr>pe_sha = zero_sha, pe_original = 2, pe_final = 2, pe_group = None, pe_rest = []\<rparr>"

definition sample_porcelain :: string where
  "sample_porcelain = concat (map (\<lambda>l. l @ newline)
     (concat (map (\<lambda>e. porcelain_header e # pe_rest e) [sample_entry, zero_entry])))"

lemma sample_porcelain_parsed: "parse_porcelain (from_utf8_lossy sample_porcelain) = [1 \<mapsto> sample_sha, 2 \<mapsto> zero_sha]"
proof -
  let ?ls = "concat (map (\<lambda>e. porcelain_header e # pe_rest e) [sample_entry, zero_entry])"
  have "from_utf8_lossy sample_porcelain = sample_porcelain" by code_simp
  moreover have "lines sample_porcelain = ?ls" by code_simp
  moreover have "fold porcelain_line ?ls Map.empty = Map.empty ++ map_of (rev (map (\<lambda>e. (pe_final e, pe_sha e)) [sample_entry, zero_entry]))"
    by (rule fold_porcelain_entries) (use sample_entry_quiet sample_shas in \<open>simp add: sample_entry_def zero_entry_def\<close>)
  ultimately show ?thesis
    by (simp add: parse_porcelain_def sample_entry_def zero_entry_def fun_eq_iff)
qed

definition sample_blame_git :: git where
  "sample_blame_git =
     \<lparr>git_run = (\<lambda>args. case args of
         [] \<Rightarrow> Git_Unavailable
       | cmd # _ \<Rightarrow>
           if cmd = ''blame'' then Git_Ok sample_porcelain
           else if cmd = ''show'' then Git_Ok ''diff''
           else if cmd = ''log'' then Git_Ok (sample_sha @ [unit_sep] @ ''fix'' @ [unit_sep] @ newline)
           else Git_Unavailable),
      git_pipe = (\<lambda>_ _. Git_Ok ''p1 c1'')\<rparr>"

definition sample_texts :: file_texts where
  "sample_texts = [''/work/a.rs'' \<mapsto> ''x'' @ newline @ ''y'' @ newline]"

lemma sample_blame_events: "read_all_events (sample_env ''repo-1'') sample_blame_store = Inr [sample_diff_event]"
proof -
  have "dec_trace_event plain_services (enc_trace_event plain_services sample_diff_event) = Some sample_diff_event"
    by (rule trace_event_read_back [OF plain_services_read_back])
  then show ?thesis
    by (simp add: read_all_events_def read_events_for_repo_def sample_blame_store_def select_rows_def repo_matches_def
        event_row_of_def decode_row_def sample_diff_event_def)
qed

lemma sample_text_at: "sample_texts (path_join ''/work'' ''a.rs'') = Some (''x'' @ newline @ ''y'' @ newline)"
  by (simp add: sample_texts_def path_join_def path_is_absolute_def)

lemma sample_commits: "git_blame_line_commits sample_blame_git ''a.rs'' = Inr [1 \<mapsto> sample_sha, 2 \<mapsto> zero_sha]"
  by (simp add: git_blame_line_commits_def sample_blame_git_def git_stdout_def sample_porcelain_parsed)

text \<open>Line 1 is committed and owned through its patch; line 2 is uncommitted and covered by the hunk.\<close>

theorem blame_file_meets_spec_witness:
  "\<exists>ls. blame_file (sample_env ''repo-1'') sample_blame_store sample_blame_git sample_texts ''/work'' ''a.rs'' = Inr ls \<and>
     map (\<lambda>l. (bl_line_no l, bl_session_id l, bl_confidence l)) ls =
       [(1, Some ''session_1'', Blame_Commit), (2, Some ''session_1'', Blame_Working)]"
proof -
  have "line_numbers (of_nat (length (lines (''x'' @ newline @ ''y'' @ newline)))) = [1, 2]"
    by code_simp
  moreover have "map (\<lambda>n. (\<lambda>l. (bl_line_no l, bl_session_id l, bl_confidence l))
      (blame_line_spec plain_services sample_blame_git ''a.rs'' [sample_diff_event] [1 \<mapsto> sample_sha, 2 \<mapsto> zero_sha] n)) [1, 2] =
      [(1, Some ''session_1'', Blame_Commit), (2, Some ''session_1'', Blame_Working)]"
    by code_simp
  ultimately show ?thesis
    using blame_file_meets_spec [of "sample_env ''repo-1''" sample_blame_store "[sample_diff_event]" sample_texts "''/work''" "''a.rs''",
        OF sample_blame_events sample_text_at, of sample_blame_git]
    by (simp add: sample_commits)
qed

theorem range_history_complete_witness:
  "\<exists>ts. blame_line_range_history (sample_env ''repo-1'') sample_blame_store sample_blame_git ''a.rs'' 1 1 = Inr ts \<and>
     map to_commit ts = [sample_sha] \<and> map to_attributed ts = [True]"
proof -
  define c where "c = \<lparr>rc_sha = sample_sha, rc_subject = Some ''fix'', rc_committed_at = None\<rparr>"
  have "git_log_line_range_commits sample_blame_git ''a.rs'' 1 1 = Inr [c]"
    unfolding c_def by code_simp
  moreover have "commit_file_patch_id sample_blame_git sample_sha ''a.rs'' = Some ''p1''"
    by code_simp
  moreover have "first_patch ''a.rs'' sample_diff_event = Some ''p1''"
    by code_simp
  ultimately show ?thesis
    using range_history_complete [of "sample_env ''repo-1''" sample_blame_store, OF sample_blame_events]
    by (simp add: touch_of_commit_def c_def last_event_def)
qed

theorem porcelain_roundtrip_witness:
  "parse_porcelain (join newline (porcelain_header sample_entry # pe_rest sample_entry)) = [1 \<mapsto> sample_sha]"
proof -
  have "lines (join newline (porcelain_header sample_entry # pe_rest sample_entry)) =
      concat (map (\<lambda>e. porcelain_header e # pe_rest e) [sample_entry])"
    by code_simp
  from porcelain_roundtrip [OF this] show ?thesis
    using sample_entry_quiet sample_shas(1) by (simp add: sample_entry_def)
qed

theorem quoted_commit_misread_witness:
  "parse_porcelain (join newline [porcelain_header sample_entry, tab @ zero_sha @ '' '' @ ''is'' @ '' '' @ show_u64 9]) =
     [1 \<mapsto> sample_sha, 9 \<mapsto> zero_sha]"
proof -
  have "lines (join newline [porcelain_header sample_entry, tab @ zero_sha @ '' '' @ ''is'' @ '' '' @ show_u64 9]) =
      [porcelain_header sample_entry, tab @ zero_sha @ '' '' @ ''is'' @ '' '' @ show_u64 9]"
    by code_simp
  from quoted_commit_misread [OF _ this] show ?thesis
    using sample_shas by (simp add: sample_entry_def graph_word_def graph_char_def)
qed

end
