(* ===== verification/Explain.thy ===== *)
theory Explain imports Blame begin

text \<open>
  File-history timelines (\<^verbatim>\<open>explain.rs\<close>): an anchor (file, line, range, or a direct id) is
  resolved to events, the events become steps of a capped timeline, and source-session rows of the
  metadata database are merged into it.
\<close>

section \<open>Types\<close>

datatype evidence_kind = Runtime_Event | Source_Metadata

fun evidence_kind_str :: "evidence_kind \<Rightarrow> string" where
  "evidence_kind_str Runtime_Event = ''runtime_event''"
| "evidence_kind_str Source_Metadata = ''source_metadata''"

record file_session_row =
  fb_file_path :: string
  fb_session_id :: "string option"
  fb_external_session_id :: "string option"
  fb_source_id :: "string option"
  fb_app_id :: "string option"
  fb_actor_id :: "string option"
  fb_actor_type :: "string option"
  fb_evidence_kind :: evidence_kind
  fb_last_seen_at :: string
  fb_occurred_at :: "string option"
  fb_title :: "string option"
  fb_lines_added :: "u64 option"
  fb_lines_removed :: "u64 option"
  fb_files_changed :: "u64 option"
  fb_confidence :: "string option"
  fb_source_pointer :: "json option"

definition default_explain_depth :: nat where
  "default_explain_depth = 3"

definition max_explain_depth :: nat where
  "max_explain_depth = 8"

definition event_type_source_session :: string where
  "event_type_source_session = ''source.session''"

datatype anchor_kind = Anchor_Event | Anchor_Artifact | Anchor_Mission | Anchor_FileLine | Anchor_File

record explain_anchor =
  ea_kind :: anchor_kind
  ea_input :: string
  ea_resolved_events :: "string list"
  ea_blame_confidence :: "string option"

record transcript_pointer =
  tp_source :: "string option"
  tp_session_ref :: "string option"
  tp_session_id :: "string option"
  tp_read_session :: "string option"

record causal_step =
  cs_event_id :: string
  cs_event_type :: string
  cs_title :: "string option"
  cs_actor_type :: "string option"
  cs_actor_id :: "string option"
  cs_session_id :: "string option"
  cs_mission_id :: "string option"
  cs_mission_title :: "string option"
  cs_occurred_at :: string
  cs_relation :: "string option"
  cs_note :: "string option"
  cs_confidence :: string
  cs_evidence :: "json option"
  cs_transcript :: "transcript_pointer option"
  cs_depth :: nat

record causal_chain =
  cc_anchor :: explain_anchor
  cc_steps :: "causal_step list"
  cc_truncated :: bool

section \<open>Names on the wire\<close>

fun serde_event_str :: "event_type \<Rightarrow> string option" where
  "serde_event_str OrgCreated = Some ''org.created''"
| "serde_event_str OrgUpdated = Some ''org.updated''"
| "serde_event_str ProjectCreated = Some ''project.created''"
| "serde_event_str ProjectUpdated = Some ''project.updated''"
| "serde_event_str MissionCreated = Some ''mission.created''"
| "serde_event_str MissionUpdated = Some ''mission.updated''"
| "serde_event_str SessionStarted = Some ''session.started''"
| "serde_event_str SessionLinkedToMission = Some ''session.linked_to_mission''"
| "serde_event_str SessionLogUploaded = Some ''session.log_uploaded''"
| "serde_event_str ArtifactCreated = Some ''artifact.created''"
| "serde_event_str ArtifactUpdated = Some ''artifact.updated''"
| "serde_event_str ArtifactLinkedToMission = Some ''artifact.linked_to_mission''"
| "serde_event_str ArtifactFileRefRecorded = Some ''artifact.file_ref_recorded''"
| "serde_event_str ArtifactAttachmentUploaded = Some ''artifact.attachment_uploaded''"
| "serde_event_str ArtifactReviewed = Some ''artifact.reviewed''"
| "serde_event_str ArtifactAccepted = Some ''artifact.accepted''"
| "serde_event_str RepoContextCaptured = Some ''repo_context.captured''"
| "serde_event_str DiffCaptured = Some ''diff.captured''"
| "serde_event_str ExternalRefLinked = Some ''external_ref.linked''"
| "serde_event_str SourceSessionObserved = Some ''source.session_observed''"

definition step_event_type :: "event_type \<Rightarrow> string" where
  "step_event_type t = unwrap_or (serde_event_str t) ''unknown''"

lemma step_event_type_wire: "step_event_type t = event_type_wire t"
  by (cases t) (simp_all add: step_event_type_def)

definition actor_static :: "string \<Rightarrow> string" where
  "actor_static v = (if v = ''human'' then ''human'' else if v = ''agent'' then ''agent'' else ''system'')"

definition step_actor_type :: "trace_event \<Rightarrow> string" where
  "step_actor_type ev =
     unwrap_or (map_option actor_static (dec_str (enc_actor_type (actor_type (te_actor ev))))) ''system''"

definition confidence_wire :: "trace_event \<Rightarrow> string" where
  "confidence_wire ev = unwrap_or (dec_str (enc_confidence_level (te_confidence ev))) ''unknown''"

fun blame_confidence_wire :: "blame_confidence \<Rightarrow> string" where
  "blame_confidence_wire Blame_Commit = ''commit''"
| "blame_confidence_wire Blame_Working = ''working''"
| "blame_confidence_wire Blame_Unattributed = ''unattributed''"

section \<open>Source-session rows as steps\<close>

definition row_source :: "file_session_row \<Rightarrow> string" where
  "row_source row = unwrap_or (or_else (fb_app_id row) (fb_source_id row)) []"

definition row_external :: "file_session_row \<Rightarrow> string" where
  "row_external row = unwrap_or (fb_external_session_id row) []"

definition row_step_id :: "file_session_row \<Rightarrow> string" where
  "row_step_id row = ''source-session:'' @ row_source row @ '':'' @ row_external row"

definition nonempty :: "string \<Rightarrow> string option" where
  "nonempty s = (if s = [] then None else Some s)"

definition row_title :: "file_session_row \<Rightarrow> string" where
  "row_title row =
     (case filter_opt (\<lambda>t. t \<noteq> []) (map_option trim (fb_title row)) of
        Some t \<Rightarrow> t
      | None \<Rightarrow> ''touched '' @ last (split_on (CHR ''/'') (fb_file_path row)) @ '' in '' @ row_source row @ '' session'')"

definition row_step :: "nat \<Rightarrow> file_session_row \<Rightarrow> causal_step" where
  "row_step depth row =
     \<lparr>cs_event_id = row_step_id row, cs_event_type = event_type_source_session,
      cs_title = Some (row_title row), cs_actor_type = fb_actor_type row,
      cs_actor_id = or_else (fb_actor_id row) (Some (row_source row)),
      cs_session_id = nonempty (row_external row), cs_mission_id = None, cs_mission_title = None,
      cs_occurred_at = unwrap_or (fb_occurred_at row) (fb_last_seen_at row),
      cs_relation = None, cs_note = None, cs_confidence = ''observed'',
      cs_evidence = Option.bind (fb_source_pointer row) (json_get ''evidence''),
      cs_transcript = Some \<lparr>tp_source = nonempty (row_source row),
        tp_session_ref = Option.bind (Option.bind (fb_source_pointer row) (json_get ''source_path'')) dec_str,
        tp_session_id = nonempty (row_external row), tp_read_session = None\<rparr>,
      cs_depth = depth\<rparr>"

fun source_rows_loop :: "nat \<Rightarrow> string set \<Rightarrow> causal_step list \<Rightarrow> file_session_row list \<Rightarrow> causal_step list" where
  "source_rows_loop start seen steps [] = steps"
| "source_rows_loop start seen steps (row # rows) =
     (if row_step_id row \<in> seen then source_rows_loop start seen steps rows
      else source_rows_loop start (insert (row_step_id row) seen)
             (steps @ [row_step (start + length steps) row]) rows)"

definition source_sessions_to_steps :: "file_session_row list \<Rightarrow> nat \<Rightarrow> causal_step list" where
  "source_sessions_to_steps rows start = source_rows_loop start {} [] rows"

text \<open>A stable sort by descending key.\<close>

definition sort_desc :: "('a \<Rightarrow> 'k::linorder) \<Rightarrow> 'a list \<Rightarrow> 'a list" where
  "sort_desc f xs = rev (sort_key f (rev xs))"

definition renumber :: "causal_step list \<Rightarrow> causal_step list" where
  "renumber steps = map (\<lambda>(d, s). s\<lparr>cs_depth := d\<rparr>) (List.enumerate 0 steps)"

definition linked_session_ids :: "causal_step list \<Rightarrow> string set" where
  "linked_session_ids steps = set (List.map_filter cs_session_id steps)"

definition already_linked :: "string set \<Rightarrow> causal_step \<Rightarrow> bool" where
  "already_linked ids s \<longleftrightarrow> (case cs_session_id s of None \<Rightarrow> False | Some i \<Rightarrow> i \<in> ids)"

definition merge_source_steps_into :: "causal_step list \<Rightarrow> causal_step list \<Rightarrow> causal_step list" where
  "merge_source_steps_into chain source =
     renumber (sort_desc cs_occurred_at
       (chain @ filter (\<lambda>s. \<not> already_linked (linked_session_ids chain) s) source))"

section \<open>Resolving an anchor\<close>

definition direct_anchor :: "anchor_kind \<Rightarrow> string \<Rightarrow> (trace_event \<Rightarrow> bool) \<Rightarrow> trace_event list \<Rightarrow> explain_anchor" where
  "direct_anchor kind input q evs =
     \<lparr>ea_kind = kind, ea_input = input, ea_resolved_events = map te_event_id (filter q evs),
      ea_blame_confidence = None\<rparr>"

definition resolve_direct_anchor :: "trace_event list \<Rightarrow> string \<Rightarrow> explain_anchor" where
  "resolve_direct_anchor evs input =
     (let trimmed = trim input
      in if prefix ''artifact_'' trimmed
         then direct_anchor Anchor_Artifact trimmed (\<lambda>ev. te_artifact_id ev = Some trimmed) evs
         else if prefix ''mission_'' trimmed
         then direct_anchor Anchor_Mission trimmed (\<lambda>ev. te_mission_id ev = Some trimmed) evs
         else direct_anchor Anchor_Event trimmed (\<lambda>ev. te_event_id ev = trimmed) evs)"

definition strip_dot :: "string \<Rightarrow> string" where
  "strip_dot p = unwrap_or (strip_prefix ''./'' p) p"

definition path_matches_rel :: "string \<Rightarrow> string \<Rightarrow> bool" where
  "path_matches_rel path rel =
     (let path = strip_dot path; rel = strip_dot rel
      in path = rel \<or> suffix (''/'' @ rel) path \<or> suffix (''/'' @ path) rel)"

definition change_paths :: "json \<Rightarrow> string list" where
  "change_paths payload =
     (case json_get ''file_changes'' payload of
        Some (JArr changes) \<Rightarrow> List.map_filter (\<lambda>c. Option.bind (json_get ''path'' c) dec_str) changes
      | _ \<Rightarrow> [])"

definition diff_event_touches :: "trace_event \<Rightarrow> string \<Rightarrow> bool" where
  "diff_event_touches ev rel = list_ex (\<lambda>p. path_matches_rel p rel) (change_paths (te_payload ev))"

definition source_session_event_touches :: "trace_event \<Rightarrow> string \<Rightarrow> bool" where
  "source_session_event_touches ev rel =
     (case dec_source_session_payload (te_payload ev) of
        None \<Rightarrow> False
      | Some p \<Rightarrow> list_ex (\<lambda>path. path_matches_rel path rel) (so_touched_files p))"

definition event_touches :: "string \<Rightarrow> trace_event \<Rightarrow> bool" where
  "event_touches rel ev =
     (case te_event_type ev of
        DiffCaptured \<Rightarrow> diff_event_touches ev rel
      | SourceSessionObserved \<Rightarrow> source_session_event_touches ev rel
      | _ \<Rightarrow> False)"

definition resolve_file_anchor :: "trace_event list \<Rightarrow> string \<Rightarrow> explain_anchor" where
  "resolve_file_anchor evs path =
     (let rel = trim_start_matches ''./'' (trim path)
      in \<lparr>ea_kind = Anchor_File, ea_input = path,
          ea_resolved_events = map te_event_id (sort_desc te_occurred_at (filter (event_touches rel) evs)),
          ea_blame_confidence = None\<rparr>)"

definition resolve_file_line_anchor ::
  "store_env \<Rightarrow> local_store \<Rightarrow> git \<Rightarrow> file_texts \<Rightarrow> string \<Rightarrow> string \<Rightarrow> u64 \<Rightarrow> explain_anchor result" where
  "resolve_file_line_anchor env st g texts root rel line =
     and_then (blame_file env st g texts root rel) (\<lambda>ls.
     let hit = find (\<lambda>l. bl_line_no l = line) ls
     in Inr \<lparr>ea_kind = Anchor_FileLine, ea_input = rel @ '':'' @ show_u64 line,
             ea_resolved_events = (case hit of None \<Rightarrow> [] | Some l \<Rightarrow>
               (case bl_source_event_id l of None \<Rightarrow> [] | Some i \<Rightarrow> [i])),
             ea_blame_confidence = map_option (\<lambda>l. blame_confidence_wire (bl_confidence l)) hit\<rparr>)"

definition confidence_rank :: "string option \<Rightarrow> nat" where
  "confidence_rank c =
     (if c = Some ''commit'' then 3 else if c = Some ''working'' then 2 else if c \<noteq> None then 1 else 0)"

definition range_line_step ::
  "blame_line \<Rightarrow> string list \<times> string set \<times> nat \<times> string option \<Rightarrow> string list \<times> string set \<times> nat \<times> string option" where
  "range_line_step l = (\<lambda>(resolved, seen, best_rank, best).
     let (resolved, seen) =
           (case bl_source_event_id l of
              None \<Rightarrow> (resolved, seen)
            | Some i \<Rightarrow> if i \<in> seen then (resolved, seen) else (resolved @ [i], insert i seen));
         conf = Some (blame_confidence_wire (bl_confidence l)); rank = confidence_rank conf
     in if best_rank < rank then (resolved, seen, rank, conf) else (resolved, seen, best_rank, best))"

definition resolve_file_range_anchor ::
  "store_env \<Rightarrow> local_store \<Rightarrow> git \<Rightarrow> file_texts \<Rightarrow> string \<Rightarrow> string \<Rightarrow> u64 \<Rightarrow> u64 \<Rightarrow> explain_anchor result" where
  "resolve_file_range_anchor env st g texts root rel line_start line_end =
     (let (lo, hi) = (if line_start \<le> line_end then (line_start, line_end) else (line_end, line_start))
      in and_then (blame_file env st g texts root rel) (\<lambda>ls.
         let (resolved, _, _, best) =
               fold range_line_step (filter (\<lambda>l. lo \<le> bl_line_no l \<and> bl_line_no l \<le> hi) ls) ([], {}, 0, None)
         in Inr \<lparr>ea_kind = Anchor_FileLine, ea_input = rel @ '':'' @ show_u64 lo @ ''-'' @ show_u64 hi,
                 ea_resolved_events = resolved, ea_blame_confidence = best\<rparr>))"

section \<open>The timeline\<close>

definition explain_step_identity :: "trace_event option \<Rightarrow> string \<Rightarrow> string" where
  "explain_step_identity event event_id =
     (case event of
        None \<Rightarrow> event_id
      | Some ev \<Rightarrow>
          if te_event_type ev \<noteq> SourceSessionObserved then event_id
          else (case dec_source_session_payload (te_payload ev) of
                  None \<Rightarrow> event_id
                | Some p \<Rightarrow>
                    if so_source_id p = [] \<or> so_external_session_id p = [] then event_id
                    else ''source-session:'' @ so_source_id p @ '':'' @ so_external_session_id p))"

definition mission_title_step :: "trace_event \<Rightarrow> (string, string) btree \<Rightarrow> (string, string) btree" where
  "mission_title_step ev titles =
     (if te_event_type ev = MissionCreated \<or> te_event_type ev = MissionUpdated then
        (case te_mission_id ev of
           None \<Rightarrow> titles
         | Some mission_id \<Rightarrow>
             (case filter_opt (\<lambda>t. t \<noteq> []) (Option.bind (json_get ''title'' (te_payload ev)) dec_str) of
                None \<Rightarrow> titles
              | Some title \<Rightarrow> bt_insert mission_id title titles))
      else titles)"

definition mission_title_index :: "trace_event list \<Rightarrow> (string, string) btree" where
  "mission_title_index evs = fold mission_title_step evs []"

definition mission_title_for :: "trace_event \<Rightarrow> (string, string) btree \<Rightarrow> string option" where
  "mission_title_for ev titles = Option.bind (te_mission_id ev) (bt_get titles)"

definition transcript_pointer_of :: "trace_event \<Rightarrow> transcript_pointer option" where
  "transcript_pointer_of ev =
     map_option (\<lambda>i. \<lparr>tp_source = None, tp_session_ref = None, tp_session_id = Some i, tp_read_session = None\<rparr>)
       (te_session_id ev)"

definition payload_title :: "trace_event \<Rightarrow> string option" where
  "payload_title ev = Option.bind (json_get ''title'' (te_payload ev)) dec_str"

definition describe_event :: "trace_event \<Rightarrow> string option" where
  "describe_event ev =
     (case te_event_type ev of
        DiffCaptured \<Rightarrow>
          (let paths = change_paths (te_payload ev)
           in if paths = [] then Some ''captured a diff'' else Some (''changed '' @ join '', '' paths))
      | ArtifactCreated \<Rightarrow> payload_title ev
      | ArtifactUpdated \<Rightarrow> payload_title ev
      | MissionCreated \<Rightarrow> payload_title ev
      | MissionUpdated \<Rightarrow> payload_title ev
      | SourceSessionObserved \<Rightarrow> payload_title ev
      | _ \<Rightarrow> None)"

definition build_source_session_step :: "services \<Rightarrow> trace_event \<Rightarrow> string \<Rightarrow> nat \<Rightarrow> causal_step" where
  "build_source_session_step svc ev event_id depth =
     (let payload = dec_source_session_payload (te_payload ev);
          source = filter_opt (\<lambda>s. s \<noteq> []) (map_option so_source_id payload);
          external = filter_opt (\<lambda>s. s \<noteq> []) (map_option so_external_session_id payload)
      in \<lparr>cs_event_id = event_id, cs_event_type = step_event_type (te_event_type ev),
          cs_title = Option.bind payload so_title, cs_actor_type = Some (step_actor_type ev),
          cs_actor_id = Some (actor_id (te_actor ev)), cs_session_id = external,
          cs_mission_id = None, cs_mission_title = None,
          cs_occurred_at = unwrap_or (Option.bind payload so_session_updated_at) (rfc3339 svc (te_occurred_at ev)),
          cs_relation = None, cs_note = None, cs_confidence = confidence_wire ev, cs_evidence = None,
          cs_transcript = Some \<lparr>tp_source = source, tp_session_ref = Option.bind payload so_source_path,
            tp_session_id = external, tp_read_session = None\<rparr>,
          cs_depth = depth\<rparr>)"

definition build_step :: "services \<Rightarrow> (string, string) btree \<Rightarrow> trace_event option \<Rightarrow> string \<Rightarrow> nat \<Rightarrow> causal_step" where
  "build_step svc titles event event_id depth =
     (case event of
        Some ev \<Rightarrow>
          if te_event_type ev = SourceSessionObserved then build_source_session_step svc ev event_id depth
          else \<lparr>cs_event_id = event_id, cs_event_type = step_event_type (te_event_type ev),
                cs_title = describe_event ev, cs_actor_type = Some (step_actor_type ev),
                cs_actor_id = Some (actor_id (te_actor ev)), cs_session_id = te_session_id ev,
                cs_mission_id = te_mission_id ev, cs_mission_title = mission_title_for ev titles,
                cs_occurred_at = rfc3339 svc (te_occurred_at ev), cs_relation = None, cs_note = None,
                cs_confidence = confidence_wire ev, cs_evidence = None,
                cs_transcript = transcript_pointer_of ev, cs_depth = depth\<rparr>
      | None \<Rightarrow>
          \<lparr>cs_event_id = event_id, cs_event_type = ''unknown'', cs_title = None, cs_actor_type = None,
           cs_actor_id = None, cs_session_id = None, cs_mission_id = None, cs_mission_title = None,
           cs_occurred_at = [], cs_relation = None, cs_note = None, cs_confidence = ''unknown'',
           cs_evidence = None, cs_transcript = None, cs_depth = depth\<rparr>)"

fun explain_loop ::
  "services \<Rightarrow> (string \<Rightarrow> trace_event option) \<Rightarrow> (string, string) btree \<Rightarrow> nat \<Rightarrow> string set \<Rightarrow>
   causal_step list \<Rightarrow> string list \<Rightarrow> causal_step list \<times> bool" where
  "explain_loop svc by_id titles limit seen steps [] = (steps, False)"
| "explain_loop svc by_id titles limit seen steps (i # ids) =
     (let key = explain_step_identity (by_id i) i
      in if key \<in> seen then explain_loop svc by_id titles limit seen steps ids
         else if limit \<le> length steps then (steps, True)
         else explain_loop svc by_id titles limit (insert key seen)
                (steps @ [build_step svc titles (by_id i) i (length steps)]) ids)"

definition events_by_id :: "trace_event list \<Rightarrow> string \<Rightarrow> trace_event option" where
  "events_by_id evs = fold (\<lambda>ev m. m(te_event_id ev \<mapsto> ev)) evs Map.empty"

definition explain_from_events :: "services \<Rightarrow> trace_event list \<Rightarrow> explain_anchor \<Rightarrow> nat \<Rightarrow> causal_chain" where
  "explain_from_events svc evs anchor depth =
     (let limit = min depth max_explain_depth + 1;
          (steps, truncated) = explain_loop svc (events_by_id evs) (mission_title_index evs) limit {} []
            (ea_resolved_events anchor)
      in \<lparr>cc_anchor = anchor, cc_steps = steps, cc_truncated = truncated\<rparr>)"

section \<open>Properties of the timeline\<close>

lemma explain_loop_spec:
  "length steps \<le> limit \<Longrightarrow>
   explain_loop svc by_id titles limit seen steps ids =
     (let fresh = keep_unseen (\<lambda>i. explain_step_identity (by_id i) i) seen ids
      in (steps @ map (\<lambda>(d, i). build_step svc titles (by_id i) i d)
            (List.enumerate (length steps) (take (limit - length steps) fresh)),
          limit - length steps < length fresh))"
proof (induction ids arbitrary: seen steps)
  case (Cons i ids)
  show ?case
  proof (cases "explain_step_identity (by_id i) i \<in> seen")
    case True
    then show ?thesis using Cons by (simp add: Let_def)
  next
    case False
    show ?thesis
    proof (cases "limit = length steps")
      case True
      then show ?thesis using False by (simp add: Let_def)
    next
      case neq: False
      with Cons.prems have less: "length steps < limit" by simp
      then obtain k where "limit = Suc (length steps + k)"
        using less_imp_Suc_add by blast
      with False less show ?thesis
        using Cons.IH [of "steps @ [build_step svc titles (by_id i) i (length steps)]"] by (simp add: Let_def)
    qed
  qed
qed simp


section \<open>Path matching\<close>

lemma split_on_sep: "split_on c (a @ c # b) = split_on c a @ split_on c b"
proof (induction a)
  case (Cons x a)
  then show ?case by (auto split: list.splits simp: Cons_eq_append_conv)
qed simp

lemma suffix_components: "suffix (CHR ''/'' # r) p \<longleftrightarrow> (\<exists>xs. xs \<noteq> [] \<and> split_on (CHR ''/'') p = xs @ split_on (CHR ''/'') r)"
proof
  assume "suffix (CHR ''/'' # r) p"
  then obtain a where "p = a @ CHR ''/'' # r" by (auto simp: suffix_def)
  then have "split_on (CHR ''/'') p = split_on (CHR ''/'') a @ split_on (CHR ''/'') r"
    by (simp add: split_on_sep)
  then show "\<exists>xs. xs \<noteq> [] \<and> split_on (CHR ''/'') p = xs @ split_on (CHR ''/'') r"
    by (intro exI [of _ "split_on (CHR ''/'') a"]) simp
next
  assume "\<exists>xs. xs \<noteq> [] \<and> split_on (CHR ''/'') p = xs @ split_on (CHR ''/'') r"
  then obtain xs where xs: "xs \<noteq> []" "split_on (CHR ''/'') p = xs @ split_on (CHR ''/'') r" by blast
  have join_app: "xs \<noteq> [] \<Longrightarrow> ys \<noteq> [] \<Longrightarrow> join [c] (xs @ ys) = join [c] xs @ c # join [c] ys" for xs ys and c :: char
    by (induction xs) (auto simp: join_Cons)
  have "p = join ''/'' (split_on (CHR ''/'') p)"
    by (simp add: join_split_on)
  also have "\<dots> = join ''/'' xs @ CHR ''/'' # r"
    using xs by (simp add: join_app join_split_on)
  finally show "suffix (CHR ''/'' # r) p" by (auto simp: suffix_def)
qed

text \<open>
  A recorded path matches an anchor exactly when the components of one are the last components
  of the other, whole components only, after one leading dot directory is dropped from each.
\<close>

theorem path_matches_components:
  "path_matches_rel path rel \<longleftrightarrow>
     suffix (split_on (CHR ''/'') (strip_dot rel)) (split_on (CHR ''/'') (strip_dot path)) \<or>
     suffix (split_on (CHR ''/'') (strip_dot path)) (split_on (CHR ''/'') (strip_dot rel))"
proof -
  have inj: "split_on (CHR ''/'') a = split_on (CHR ''/'') b \<longleftrightarrow> a = b" for a b
    by (metis join_split_on)
  have "suffix (split_on (CHR ''/'') a) (split_on (CHR ''/'') b) \<longleftrightarrow> a = b \<or> suffix (CHR ''/'' # a) b" for a b
    unfolding suffix_components by (auto simp: suffix_def inj)
  then show ?thesis by (auto simp: path_matches_rel_def Let_def)
qed

section \<open>Newest first\<close>

lemma sort_desc_mset [simp]: "mset (sort_desc f xs) = mset xs"
  by (simp add: sort_desc_def)

lemma sort_desc_set [simp]: "set (sort_desc f xs) = set xs"
  by (simp add: sort_desc_def)

lemma sort_desc_length [simp]: "length (sort_desc f xs) = length xs"
  by (simp add: sort_desc_def)

lemma sort_desc_sorted: "sorted_wrt (\<lambda>a b. f b \<le> f a) (sort_desc f xs)"
  using sorted_sort_key [of f "rev xs"] by (simp add: sort_desc_def sorted_wrt_rev sorted_map)

lemma sort_desc_stable: "filter (\<lambda>x. f x = k) (sort_desc f xs) = filter (\<lambda>x. f x = k) xs"
  by (simp add: sort_desc_def rev_filter [symmetric] sort_key_filter_stable)

lemma sort_desc_id: "sorted_wrt (\<lambda>a b. f b \<le> f a) xs \<Longrightarrow> sort_desc f xs = xs"
  by (simp add: sort_desc_def sorted_sort_id sorted_map sorted_wrt_rev sort_key_id_if_sorted)

text \<open>
  A file anchor resolves to exactly the events that touch the file, newest first, and events
  of the same time in log order.
\<close>

theorem file_anchor_newest_first:
  "let rel = trim_start_matches ''./'' (trim path); touching = filter (event_touches rel) evs
   in \<exists>hits. ea_resolved_events (resolve_file_anchor evs path) = map te_event_id hits \<and>
      mset hits = mset touching \<and> sorted_wrt (\<lambda>a b. te_occurred_at b \<le> te_occurred_at a) hits \<and>
      (\<forall>t. filter (\<lambda>ev. te_occurred_at ev = t) hits = filter (\<lambda>ev. te_occurred_at ev = t) touching)"
proof -
  let ?hits = "sort_desc te_occurred_at (filter (event_touches (trim_start_matches ''./'' (trim path))) evs)"
  show ?thesis
    unfolding Let_def
    by (intro exI [of _ ?hits] conjI allI)
      (simp_all only: resolve_file_anchor_def Let_def explain_anchor.simps sort_desc_mset sort_desc_sorted sort_desc_stable)
qed

lemma length_renumber [simp]: "length (renumber steps) = length steps"
  by (simp add: renumber_def)

lemma depth_renumber: "map cs_depth (renumber steps) = [0..<length steps]"
  by (rule nth_equalityI) (simp_all add: renumber_def nth_enumerate_eq)

lemma map_renumber: "(\<And>s d. f (s\<lparr>cs_depth := d\<rparr>) = f s) \<Longrightarrow> map f (renumber steps) = map f steps"
  by (rule nth_equalityI) (simp_all add: renumber_def nth_enumerate_eq)

lemma renumber_sorted:
  "sorted_wrt (\<lambda>a b. cs_occurred_at b \<le> cs_occurred_at a) (renumber steps) =
   sorted_wrt (\<lambda>a b. cs_occurred_at b \<le> cs_occurred_at a) steps"
proof -
  have "map cs_occurred_at (renumber steps) = map cs_occurred_at steps"
    by (rule map_renumber) simp
  moreover have "sorted_wrt (\<lambda>a b. b \<le> a) (map cs_occurred_at xs) =
      sorted_wrt (\<lambda>a b. cs_occurred_at b \<le> cs_occurred_at a) xs" for xs
    by (simp add: sorted_wrt_map)
  ultimately show ?thesis by metis
qed

lemma renumber_idem: "map cs_depth steps = [0..<length steps] \<Longrightarrow> renumber steps = steps"
proof (rule nth_equalityI)
  fix i assume d: "map cs_depth steps = [0..<length steps]" and i: "i < length (renumber steps)"
  then have "map cs_depth steps ! i = [0..<length steps] ! i" by simp
  then have "cs_depth (steps ! i) = i" using i by simp
  then show "renumber steps ! i = steps ! i" using i by (simp add: renumber_def nth_enumerate_eq)
qed simp

definition undated :: "causal_step \<Rightarrow> causal_step" where
  "undated s = s\<lparr>cs_depth := 0\<rparr>"

lemma linked_ids_iff: "i \<in> linked_session_ids xs \<longleftrightarrow> Some i \<in> set (map cs_session_id xs)"
  by (induction xs) (auto simp: linked_session_ids_def map_filter_simps split: option.splits)

lemma linked_renumber: "linked_session_ids (renumber steps) = linked_session_ids steps"
proof -
  have "map cs_session_id (renumber steps) = map cs_session_id steps"
    by (rule map_renumber) simp
  then show ?thesis by (simp only: set_eq_iff linked_ids_iff) simp
qed

text \<open>
  Merging source sessions into a chain gives one timeline, newest first, with depths counting
  up from 0; it holds every step of the chain and every source step whose session the chain does
  not already have, each once and otherwise unchanged.
\<close>

theorem merge_is_one_timeline:
  "let merged = merge_source_steps_into chain source
   in sorted_wrt (\<lambda>a b. cs_occurred_at b \<le> cs_occurred_at a) merged \<and>
      map cs_depth merged = [0..<length merged] \<and>
      mset (map undated merged) = mset (map undated chain) +
        mset (map undated (filter (\<lambda>s. \<not> already_linked (linked_session_ids chain) s) source))"
proof -
  let ?new = "filter (\<lambda>s. \<not> already_linked (linked_session_ids chain) s) source"
  have "map undated (merge_source_steps_into chain source) = map undated (sort_desc cs_occurred_at (chain @ ?new))"
    unfolding merge_source_steps_into_def by (rule map_renumber) (simp add: undated_def)
  then have "mset (map undated (merge_source_steps_into chain source)) = mset (map undated (sort_desc cs_occurred_at (chain @ ?new)))"
    by simp
  also have "\<dots> = mset (map undated chain) + mset (map undated ?new)"
    by (simp only: mset_map sort_desc_mset mset_append image_mset_union)
  finally have content: "mset (map undated (merge_source_steps_into chain source)) =
      mset (map undated chain) + mset (map undated ?new)" .
  have sorted: "sorted_wrt (\<lambda>a b. cs_occurred_at b \<le> cs_occurred_at a) (merge_source_steps_into chain source)"
    by (simp add: merge_source_steps_into_def renumber_sorted sort_desc_sorted)
  have depths: "map cs_depth (merge_source_steps_into chain source) = [0..<length (merge_source_steps_into chain source)]"
    by (simp add: merge_source_steps_into_def depth_renumber)
  show ?thesis
    unfolding Let_def using content sorted depths by (intro conjI)
qed

text \<open>Merging the same sessions a second time changes nothing.\<close>

lemma merge_again:
  assumes "list_all (\<lambda>s. cs_session_id s \<noteq> None) source"
  shows "merge_source_steps_into (merge_source_steps_into chain source) source = merge_source_steps_into chain source"
proof -
  let ?m = "merge_source_steps_into chain source"
  have "linked_session_ids ?m = linked_session_ids
      (chain @ filter (\<lambda>s. \<not> already_linked (linked_session_ids chain) s) source)"
    by (auto simp: set_eq_iff merge_source_steps_into_def linked_renumber linked_ids_iff)
  then have "already_linked (linked_session_ids ?m) s" if "s \<in> set source" for s
    using that assms
    by (cases "already_linked (linked_session_ids chain) s")
      (force simp: already_linked_def linked_ids_iff list_all_iff image_iff split: option.splits)+
  then have none: "filter (\<lambda>s. \<not> already_linked (linked_session_ids ?m) s) source = []"
    by simp
  have "sort_desc cs_occurred_at ?m = ?m"
    by (rule sort_desc_id) (simp add: merge_source_steps_into_def renumber_sorted sort_desc_sorted)
  moreover have "renumber ?m = ?m"
    by (rule renumber_idem) (simp add: merge_source_steps_into_def depth_renumber)
  ultimately show ?thesis
    by (subst merge_source_steps_into_def) (simp add: none)
qed

section \<open>Direct anchors\<close>

lemma events_by_id_map: "events_by_id evs = map_of (rev (map (\<lambda>ev. (te_event_id ev, ev)) evs))"
proof -
  have "fold (\<lambda>ev m. m(te_event_id ev \<mapsto> ev)) evs m = m ++ map_of (rev (map (\<lambda>ev. (te_event_id ev, ev)) evs))" for m
    by (induction evs arbitrary: m) simp_all
  then show ?thesis by (simp add: events_by_id_def)
qed

lemma events_by_id_mem:
  assumes "distinct (map te_event_id evs)" "ev \<in> set evs"
  shows "events_by_id evs (te_event_id ev) = Some ev"
  unfolding events_by_id_map
  by (rule map_of_is_SomeI) (use assms in \<open>simp_all add: rev_map [symmetric] comp_def\<close>)

text \<open>
  An artifact or mission id resolves to its events in log order, oldest first. When there are
  more of them than the timeline may hold, the timeline shows the oldest ones, leaves the newest
  out and is marked truncated.
\<close>

theorem direct_anchor_oldest_first:
  assumes "hits = filter (\<lambda>ev. te_mission_id ev = Some i) evs" "trim i = i" "prefix ''mission_'' i"
    and "distinct (map te_event_id evs)" "list_all (\<lambda>ev. te_event_type ev \<noteq> SourceSessionObserved) hits"
    and "min depth 8 + 1 < length hits"
  shows "map cs_event_id (cc_steps (explain_from_events svc evs (resolve_direct_anchor evs i) depth)) =
      take (min depth 8 + 1) (map te_event_id hits) \<and>
    te_event_id (last hits) \<notin>
      set (map cs_event_id (cc_steps (explain_from_events svc evs (resolve_direct_anchor evs i) depth))) \<and>
    cc_truncated (explain_from_events svc evs (resolve_direct_anchor evs i) depth)"
proof -
  let ?ids = "map te_event_id hits" and ?n = "min depth 8 + 1"
  have resolved: "ea_resolved_events (resolve_direct_anchor evs i) = ?ids"
    using assms(1-3) by (auto simp: resolve_direct_anchor_def direct_anchor_def Let_def prefix_def)
  have dist: "distinct ?ids" using assms(1,4) by (simp add: distinct_map_filter)
  have key: "explain_step_identity (events_by_id evs x) x = x" if "x \<in> set ?ids" for x
  proof -
    from that obtain ev where ev: "ev \<in> set hits" "te_event_id ev = x" by auto
    with assms(1,4) have "events_by_id evs x = Some ev" using events_by_id_mem by fastforce
    then show ?thesis using ev assms(5) by (auto simp: explain_step_identity_def list_all_iff)
  qed
  then have "map (\<lambda>x. explain_step_identity (events_by_id evs x) x) ?ids = ?ids"
    by (intro map_idI) blast
  then have fresh: "keep_unseen (\<lambda>x. explain_step_identity (events_by_id evs x) x) {} ?ids = ?ids"
    using dist by (intro keep_unseen_id) (simp_all only: Int_empty_right)
  have step_id: "cs_event_id (build_step svc titles event x d) = x" for titles event x d
    by (simp add: build_step_def build_source_session_step_def Let_def split: option.split)
  have ids: "map cs_event_id (cc_steps (explain_from_events svc evs (resolve_direct_anchor evs i) depth)) = take ?n ?ids"
    by (rule nth_equalityI)
      (simp_all add: explain_from_events_def explain_loop_spec resolved fresh Let_def max_explain_depth_def
        nth_enumerate_eq step_id)
  have trunc: "cc_truncated (explain_from_events svc evs (resolve_direct_anchor evs i) depth)"
    using assms(6) by (simp add: explain_from_events_def explain_loop_spec resolved fresh Let_def max_explain_depth_def)
  have "drop ?n ?ids \<noteq> []" using assms(6) by simp
  have "last ?ids \<in> set (drop ?n ?ids)"
    using last_in_set [OF \<open>drop ?n ?ids \<noteq> []\<close>] assms(6) by (simp only: last_drop length_map)
  moreover have "set (take ?n ?ids) \<inter> set (drop ?n ?ids) = {}"
    using dist by (rule set_take_disj_set_drop_if_distinct) simp
  moreover have "hits \<noteq> []" using assms(6) by auto
  ultimately have "te_event_id (last hits) \<notin> set (take ?n ?ids)"
    by (metis disjoint_iff last_map)
  then show ?thesis by (simp only: ids trunc simp_thms)
qed

definition mission_event :: "string \<Rightarrow> instant \<Rightarrow> trace_event" where
  "mission_event i t =
     session_started \<lparr>fresh_now = t, fresh_uuid = i\<rparr>
       \<lparr>actor_type = Agent, actor_id = ''claude'', display_name = None\<rparr> ''session_1'' (Some ''mission_1'')
       \<lparr>st_session_name = None, st_source = default_session_source, st_repo_context_id = None\<rparr>"

lemma mission_event_simps [simp]:
  "te_event_id (mission_event i t) = i" "te_mission_id (mission_event i t) = Some ''mission_1''"
  "te_event_type (mission_event i t) = SessionStarted"
  by (simp_all add: mission_event_def session_started_def from_payload_def)

theorem direct_anchor_oldest_first_witness:
  "let evs = [mission_event ''e1'' 1, mission_event ''e2'' 2];
       chain = explain_from_events plain_services evs (resolve_direct_anchor evs ''mission_1'') 0
   in map cs_event_id (cc_steps chain) = [''e1''] \<and> cc_truncated chain"
  using direct_anchor_oldest_first [of "[mission_event ''e1'' 1, mission_event ''e2'' 2]" "''mission_1''"
      "[mission_event ''e1'' 1, mission_event ''e2'' 2]" 0 plain_services]
  by (simp add: trim_graph graph_char_def)

end
