(* ===== verification/Server_Store.thy ===== *)
theory Server_Store imports Trace_Event begin

text \<open>
  The server's append-only event log (\<^verbatim>\<open>crates/server/src/store.rs\<close>) and the wire messages it
  answers with (\<^verbatim>\<open>crates/sync/src/wire.rs\<close>): pushing with duplicate detection, cursor pages, the
  first-binding-wins projection from repositories to orgs with its cache and file, and org members.
  A file is modelled by its lines or by the value serde reads from it; failing disk writes are left
  out.
\<close>

section \<open>Wire messages\<close>

record push_response =
  pr_accepted :: "string list"
  pr_duplicate :: "string list"

definition accepted_count :: "push_response \<Rightarrow> nat" where
  "accepted_count r = length (pr_accepted r)"

definition duplicate_count :: "push_response \<Rightarrow> nat" where
  "duplicate_count r = length (pr_duplicate r)"

record events_page =
  ep_events :: "trace_event list"
  ep_cursor :: "string option"
  ep_next_cursor :: "string option"

definition page_all :: "trace_event list \<Rightarrow> events_page" where
  "page_all evs = \<lparr>ep_events = evs, ep_cursor = None, ep_next_cursor = None\<rparr>"

section \<open>State\<close>

datatype server_error =
    Server_Log_Parse nat
  | Projection_Parse
  | Members_Parse
  | Invalid_Cursor string
  | Repo_Mismatch string string string   \<comment> \<open>event id, its repository, the route's\<close>
  | Index_Build brick_error

type_synonym 'a server_result = "server_error + 'a"

text \<open>A line of the log is blank, an event's JSON, or text that is no JSON.\<close>

datatype log_line = Blank_Line | Json_Line json | Broken_Line

text \<open>A JSON map file: absent, blank, a map, or unreadable.\<close>

datatype 'v map_file = No_File | Blank_File | Map_File "(string, 'v) btree" | Corrupt_File

record server_store =
  sv_log :: "log_line list option"
  sv_repo_org_file :: "string map_file"
  sv_repo_org :: "(string, string) btree option"
  sv_members_file :: "string list map_file"
  sv_members :: "(string, string list) btree option"

definition new_server_store :: "log_line list option \<Rightarrow> string map_file \<Rightarrow> string list map_file \<Rightarrow> server_store" where
  "new_server_store log repo_file members_file =
     \<lparr>sv_log = log, sv_repo_org_file = repo_file, sv_repo_org = None,
      sv_members_file = members_file, sv_members = None\<rparr>"

section \<open>Reading the log\<close>

definition repo_matches_server :: "string option \<Rightarrow> string option \<Rightarrow> bool" where
  "repo_matches_server event_repo wanted = (case wanted of Some r \<Rightarrow> event_repo = Some r | None \<Rightarrow> True)"

text \<open>The sequence number of an event is the number of its line, counted from 1.\<close>

fun read_lines :: "services \<Rightarrow> nat \<Rightarrow> log_line list \<Rightarrow> (u64 \<times> trace_event) list server_result" where
  "read_lines svc i [] = Inr []"
| "read_lines svc i (Blank_Line # ls) = read_lines svc (Suc i) ls"
| "read_lines svc i (Broken_Line # ls) = Inl (Server_Log_Parse (Suc i))"
| "read_lines svc i (Json_Line j # ls) =
     (case dec_trace_event svc j of
        None \<Rightarrow> Inl (Server_Log_Parse (Suc i))
      | Some ev \<Rightarrow> and_then (read_lines svc (Suc i) ls) (\<lambda>evs. Inr ((of_nat (Suc i), ev) # evs)))"

definition read_sequenced_events :: "services \<Rightarrow> server_store \<Rightarrow> (u64 \<times> trace_event) list server_result" where
  "read_sequenced_events svc st = (case sv_log st of None \<Rightarrow> Inr [] | Some ls \<Rightarrow> read_lines svc 0 ls)"

definition read_server_events :: "services \<Rightarrow> server_store \<Rightarrow> trace_event list server_result" where
  "read_server_events svc st = and_then (read_sequenced_events svc st) (\<lambda>es. Inr (map snd es))"

definition read_server_events_for_repo :: "services \<Rightarrow> string option \<Rightarrow> server_store \<Rightarrow> trace_event list server_result" where
  "read_server_events_for_repo svc repo st =
     and_then (read_sequenced_events svc st) (\<lambda>es.
     Inr (map snd (filter (\<lambda>(s, ev). repo_matches_server (te_repo_id ev) repo) es)))"

section \<open>Pages\<close>

definition default_event_limit :: nat where
  "default_event_limit = 100"

definition max_event_limit :: nat where
  "max_event_limit = 1000"

definition clamp :: "nat \<Rightarrow> nat \<Rightarrow> nat \<Rightarrow> nat" where
  "clamp lo hi n = max lo (min hi n)"

definition parse_cursor :: "string option \<Rightarrow> u64 server_result" where
  "parse_cursor cursor =
     (case cursor of
        None \<Rightarrow> Inr 0
      | Some v \<Rightarrow>
          if trim v = [] then Inr 0
          else (case parse_u64 v of None \<Rightarrow> Inl (Invalid_Cursor v) | Some n \<Rightarrow> Inr n))"

fun page_loop ::
  "string option \<Rightarrow> u64 \<Rightarrow> nat \<Rightarrow> trace_event list \<Rightarrow> u64 option \<Rightarrow> (u64 \<times> trace_event) list \<Rightarrow>
   trace_event list \<times> u64 option \<times> bool" where
  "page_loop repo after n page last_seq [] = (page, last_seq, False)"
| "page_loop repo after n page last_seq ((s, ev) # es) =
     (if s \<le> after then page_loop repo after n page last_seq es
      else if \<not> repo_matches_server (te_repo_id ev) repo then page_loop repo after n page last_seq es
      else if length page = n then (page, last_seq, True)
      else page_loop repo after n (page @ [ev]) (Some s) es)"

definition list_events_page ::
  "services \<Rightarrow> server_store \<Rightarrow> string option \<Rightarrow> string option \<Rightarrow> nat option \<Rightarrow> events_page server_result" where
  "list_events_page svc st repo after limit =
     and_then (parse_cursor after) (\<lambda>after_seq.
     and_then (read_sequenced_events svc st) (\<lambda>es.
     let n = clamp 1 max_event_limit (unwrap_or limit default_event_limit);
         (page, last_seq, has_more) = page_loop repo after_seq n [] None es
     in Inr \<lparr>ep_events = page, ep_cursor = after,
             ep_next_cursor = (if has_more then map_option show_u64 last_seq else None)\<rparr>))"

section \<open>The projection from repositories to orgs\<close>

definition load_map_file :: "server_error \<Rightarrow> 'v map_file \<Rightarrow> (string, 'v) btree option server_result" where
  "load_map_file err f =
     (case f of
        No_File \<Rightarrow> Inr None
      | Blank_File \<Rightarrow> Inr (Some [])
      | Map_File m \<Rightarrow> Inr (Some m)
      | Corrupt_File \<Rightarrow> Inl err)"

definition bind_first :: "string \<times> string \<Rightarrow> (string, string) btree \<Rightarrow> (string, string) btree" where
  "bind_first = (\<lambda>(repo, org) m. case bt_get m repo of None \<Rightarrow> bt_insert repo org m | Some _ \<Rightarrow> m)"

definition event_binding :: "trace_event \<Rightarrow> (string \<times> string) option" where
  "event_binding ev =
     (case (te_repo_id ev, te_org_id ev) of (Some repo, Some org) \<Rightarrow> Some (repo, org) | _ \<Rightarrow> None)"

definition rebuild_repo_org_from_log :: "services \<Rightarrow> server_store \<Rightarrow> (string, string) btree server_result" where
  "rebuild_repo_org_from_log svc st =
     and_then (read_sequenced_events svc st) (\<lambda>es.
     Inr (fold bind_first (List.map_filter (\<lambda>(s, ev). event_binding ev) es) []))"

definition ensure_repo_org_loaded :: "services \<Rightarrow> server_store \<Rightarrow> server_store \<times> unit server_result" where
  "ensure_repo_org_loaded svc st =
     (if sv_repo_org st \<noteq> None then (st, Inr ())
      else (case load_map_file Projection_Parse (sv_repo_org_file st) of
              Inl e \<Rightarrow> (st, Inl e)
            | Inr (Some m) \<Rightarrow> (st\<lparr>sv_repo_org := Some m\<rparr>, Inr ())
            | Inr None \<Rightarrow>
                (case rebuild_repo_org_from_log svc st of
                   Inl e \<Rightarrow> (st, Inl e)
                 | Inr m \<Rightarrow> (st\<lparr>sv_repo_org_file := Map_File m, sv_repo_org := Some m\<rparr>, Inr ()))))"

fun bind_all :: "(string \<times> string) list \<Rightarrow> (string, string) btree \<Rightarrow> bool \<Rightarrow> (string, string) btree \<times> bool" where
  "bind_all [] m changed = (m, changed)"
| "bind_all ((repo, org) # bs) m changed =
     (case bt_get m repo of
        None \<Rightarrow> bind_all bs (bt_insert repo org m) True
      | Some _ \<Rightarrow> bind_all bs m changed)"

definition record_repo_orgs :: "services \<Rightarrow> (string \<times> string) list \<Rightarrow> server_store \<Rightarrow> server_store \<times> unit server_result" where
  "record_repo_orgs svc bindings st0 =
     (case ensure_repo_org_loaded svc st0 of
        (st, Inl e) \<Rightarrow> (st, Inl e)
      | (st, Inr _) \<Rightarrow>
          (let (m, changed) = bind_all bindings (unwrap_or (sv_repo_org st) []) False;
               st = st\<lparr>sv_repo_org := Some m\<rparr>
           in (if changed then st\<lparr>sv_repo_org_file := Map_File m\<rparr> else st, Inr ())))"

definition resolve_repo_org :: "services \<Rightarrow> string \<Rightarrow> server_store \<Rightarrow> server_store \<times> string option" where
  "resolve_repo_org svc repo st0 =
     (case sv_repo_org st0 of
        Some m \<Rightarrow> (st0, bt_get m repo)
      | None \<Rightarrow>
          (case ensure_repo_org_loaded svc st0 of
             (st, Inl _) \<Rightarrow> (st, None)
           | (st, Inr _) \<Rightarrow> (st, Option.bind (sv_repo_org st) (\<lambda>m. bt_get m repo))))"

definition claim_repo_org :: "services \<Rightarrow> string \<Rightarrow> string \<Rightarrow> server_store \<Rightarrow> server_store \<times> unit server_result" where
  "claim_repo_org svc repo org st = record_repo_orgs svc [(repo, org)] st"

section \<open>Members of orgs\<close>

definition ensure_org_members_loaded :: "server_store \<Rightarrow> server_store \<times> unit server_result" where
  "ensure_org_members_loaded st =
     (if sv_members st \<noteq> None then (st, Inr ())
      else (case load_map_file Members_Parse (sv_members_file st) of
              Inl e \<Rightarrow> (st, Inl e)
            | Inr m \<Rightarrow> (st\<lparr>sv_members := Some (unwrap_or m [])\<rparr>, Inr ())))"

definition add_org_member :: "string \<Rightarrow> string \<Rightarrow> server_store \<Rightarrow> server_store \<times> unit server_result" where
  "add_org_member org user st0 =
     (case ensure_org_members_loaded st0 of
        (st, Inl e) \<Rightarrow> (st, Inl e)
      | (st, Inr _) \<Rightarrow>
          (let m = unwrap_or (sv_members st) []; users = unwrap_or (bt_get m org) [];
               m' = bt_insert org (bs_insert user users) m; st' = st\<lparr>sv_members := Some m'\<rparr>
           in (if user \<in> set users then st' else st'\<lparr>sv_members_file := Map_File m'\<rparr>, Inr ())))"

definition remove_org_member :: "string \<Rightarrow> string \<Rightarrow> server_store \<Rightarrow> server_store \<times> bool server_result" where
  "remove_org_member org user st0 =
     (case ensure_org_members_loaded st0 of
        (st, Inl e) \<Rightarrow> (st, Inl e)
      | (st, Inr _) \<Rightarrow>
          (let m = unwrap_or (sv_members st) [];
               removed = (case bt_get m org of None \<Rightarrow> False | Some users \<Rightarrow> user \<in> set users);
               m' = bt_adjust org (filter (\<lambda>u. u \<noteq> user)) m; st' = st\<lparr>sv_members := Some m'\<rparr>
           in (if removed then st'\<lparr>sv_members_file := Map_File m'\<rparr> else st', Inr removed)))"

definition org_members :: "string \<Rightarrow> server_store \<Rightarrow> server_store \<times> string list server_result" where
  "org_members org st0 =
     (case ensure_org_members_loaded st0 of
        (st, Inl e) \<Rightarrow> (st, Inl e)
      | (st, Inr _) \<Rightarrow> (st, Inr (unwrap_or (Option.bind (sv_members st) (\<lambda>m. bt_get m org)) [])))"

definition is_org_member :: "string \<Rightarrow> string \<Rightarrow> server_store \<Rightarrow> server_store \<times> bool" where
  "is_org_member org user st0 =
     (case org_members org st0 of
        (st, Inl _) \<Rightarrow> (st, False)
      | (st, Inr users) \<Rightarrow> (st, user \<in> set users))"

section \<open>Pushing\<close>

definition scope_to_route :: "string \<Rightarrow> trace_event \<Rightarrow> trace_event server_result" where
  "scope_to_route route ev =
     (case te_repo_id ev of
        None \<Rightarrow> Inr (ev\<lparr>te_repo_id := Some route\<rparr>)
      | Some r \<Rightarrow> if r \<noteq> route then Inl (Repo_Mismatch (te_event_id ev) r route) else Inr ev)"

definition normalize_repo_events :: "string option \<Rightarrow> trace_event list \<Rightarrow> trace_event list server_result" where
  "normalize_repo_events repo evs =
     (case repo of None \<Rightarrow> Inr evs | Some route \<Rightarrow> collect_results (scope_to_route route) evs)"

fun push_loop ::
  "string set \<Rightarrow> string set \<Rightarrow> trace_event list \<Rightarrow> trace_event list \<times> string list" where
  "push_loop existing seen [] = ([], [])"
| "push_loop existing seen (ev # evs) =
     (if te_event_id ev \<in> existing \<or> te_event_id ev \<in> seen
      then (let (acc, dup) = push_loop existing seen evs in (acc, te_event_id ev # dup))
      else (let (acc, dup) = push_loop existing (insert (te_event_id ev) seen) evs in (ev # acc, dup)))"

definition append_events_for_repo ::
  "services \<Rightarrow> string option \<Rightarrow> trace_event list \<Rightarrow> server_store \<Rightarrow> server_store \<times> push_response server_result" where
  "append_events_for_repo svc repo evs0 st =
     (case normalize_repo_events repo evs0 of
        Inl e \<Rightarrow> (st, Inl e)
      | Inr evs \<Rightarrow>
          (case read_server_events svc st of
             Inl e \<Rightarrow> (st, Inl e)
           | Inr stored \<Rightarrow>
               (let (acc, dup) = push_loop (te_event_id ` set stored) {} evs;
                    st1 = st\<lparr>sv_log := Some (unwrap_or (sv_log st) [] @ map (\<lambda>ev. Json_Line (enc_trace_event svc ev)) acc)\<rparr>;
                    bindings = List.map_filter event_binding acc;
                    resp = \<lparr>pr_accepted = map te_event_id acc, pr_duplicate = dup\<rparr>
                in if bindings = [] then (st1, Inr resp)
                   else (case record_repo_orgs svc bindings st1 of
                           (st2, Inl e) \<Rightarrow> (st2, Inl e)
                         | (st2, Inr _) \<Rightarrow> (st2, Inr resp)))))"

definition append_server_events :: "services \<Rightarrow> trace_event list \<Rightarrow> server_store \<Rightarrow> server_store \<times> push_response server_result" where
  "append_server_events svc = append_events_for_repo svc None"

section \<open>The log only grows\<close>

definition log_lines :: "server_store \<Rightarrow> log_line list" where
  "log_lines st = unwrap_or (sv_log st) []"

lemma read_sequenced_lines: "read_sequenced_events svc st = read_lines svc 0 (log_lines st)"
  by (simp add: read_sequenced_events_def log_lines_def split: option.split)

lemma ensure_repo_org_log [simp]: "sv_log (fst (ensure_repo_org_loaded svc st)) = sv_log st"
  by (simp add: ensure_repo_org_loaded_def split: sum.split option.split)

lemma ensure_members_log [simp]: "sv_log (fst (ensure_org_members_loaded st)) = sv_log st"
  by (simp add: ensure_org_members_loaded_def split: sum.split)

lemma record_repo_orgs_log [simp]: "sv_log (fst (record_repo_orgs svc bs st)) = sv_log st"
proof -
  obtain st1 r where ens: "ensure_repo_org_loaded svc st = (st1, r)"
    by (cases "ensure_repo_org_loaded svc st")
  then have "sv_log st1 = sv_log st" using ensure_repo_org_log [of svc st] by simp
  then show ?thesis
    by (cases r) (simp_all add: record_repo_orgs_def ens split_beta Let_def)
qed

lemma push_loop_accepts: "fst (push_loop existing seen evs) = keep_unseen te_event_id (existing \<union> seen) evs"
  by (induction existing seen evs rule: push_loop.induct) (auto simp: Let_def split: prod.splits)

lemma push_loop_partition:
  "mset (map te_event_id (fst (push_loop existing seen evs))) + mset (snd (push_loop existing seen evs)) =
     mset (map te_event_id evs)"
  by (induction existing seen evs rule: push_loop.induct) (auto simp: Let_def split: prod.splits)

lemma push_loop_all_known:
  "te_event_id ` set evs \<subseteq> existing \<Longrightarrow> push_loop existing seen evs = ([], map te_event_id evs)"
  by (induction existing seen evs rule: push_loop.induct) auto

definition number_from :: "nat \<Rightarrow> trace_event list \<Rightarrow> (u64 \<times> trace_event) list" where
  "number_from i evs = map (\<lambda>(k, ev). (of_nat (Suc k), ev)) (List.enumerate i evs)"

lemma number_from_simps [simp]:
  "number_from i [] = []" "number_from i (ev # evs) = (of_nat (Suc i), ev) # number_from (Suc i) evs"
  "map snd (number_from i evs) = evs"
  by (simp_all add: number_from_def) (induction evs arbitrary: i; simp)

lemma read_pushed_lines:
  "\<forall>ev\<in>set evs. services_read_back svc ev \<Longrightarrow>
   read_lines svc i (map (\<lambda>ev. Json_Line (enc_trace_event svc ev)) evs) = Inr (number_from i evs)"
  by (induction evs arbitrary: i) (simp_all add: trace_event_read_back)

lemma read_lines_append:
  "read_lines svc i ls = Inr es \<Longrightarrow> read_lines svc (i + length ls) ls' = Inr es' \<Longrightarrow>
   read_lines svc i (ls @ ls') = Inr (es @ es')"
  by (induction svc i ls arbitrary: es rule: read_lines.induct)
    (auto simp: and_then_Inr_iff split: option.splits)

lemma append_events_cases:
  assumes "append_events_for_repo svc repo evs0 st = (st', r)"
  obtains (rejected) e where "st' = st" "r = Inl e"
  | (stored) evs stored where "normalize_repo_events repo evs0 = Inr evs" "read_server_events svc st = Inr stored"
      "log_lines st' = log_lines st @ map (\<lambda>ev. Json_Line (enc_trace_event svc ev))
         (keep_unseen te_event_id (te_event_id ` set stored) evs)"
      "\<And>resp. r = Inr resp \<Longrightarrow>
         resp = \<lparr>pr_accepted = map te_event_id (keep_unseen te_event_id (te_event_id ` set stored) evs),
                 pr_duplicate = snd (push_loop (te_event_id ` set stored) {} evs)\<rparr>"
proof (cases "normalize_repo_events repo evs0")
  case (Inl e)
  then show ?thesis using assms rejected [of e] by (auto simp: append_events_for_repo_def)
next
  case norm: (Inr evs)
  show ?thesis
  proof (cases "read_server_events svc st")
    case (Inl e)
    then show ?thesis using assms norm rejected [of e] by (auto simp: append_events_for_repo_def)
  next
    case (Inr old)
    obtain acc dup where loop: "push_loop (te_event_id ` set old) {} evs = (acc, dup)"
      by (cases "push_loop (te_event_id ` set old) {} evs")
    then have acc: "acc = keep_unseen te_event_id (te_event_id ` set old) evs"
      using push_loop_accepts [of "te_event_id ` set old" "{}" evs] by simp
    define st1 where "st1 = st\<lparr>sv_log := Some (log_lines st @ map (\<lambda>ev. Json_Line (enc_trace_event svc ev)) acc)\<rparr>"
    define resp where "resp = \<lparr>pr_accepted = map te_event_id acc, pr_duplicate = dup\<rparr>"
    define bs where "bs = List.map_filter event_binding acc"
    have "(st', r) = (if bs = [] then (st1, Inr resp)
        else (case record_repo_orgs svc bs st1 of (st2, Inl e) \<Rightarrow> (st2, Inl e) | (st2, Inr _) \<Rightarrow> (st2, Inr resp)))"
      unfolding st1_def resp_def bs_def
      using assms [symmetric] by (simp add: append_events_for_repo_def norm Inr loop log_lines_def Let_def)
    moreover have "sv_log (fst (record_repo_orgs svc bs st1)) = sv_log st1" by simp
    ultimately have "sv_log st' = sv_log st1 \<and> (\<forall>x. r = Inr x \<longrightarrow> x = resp)"
      by (cases "record_repo_orgs svc bs st1") (auto split: if_splits sum.splits)
    then show ?thesis
      by (intro stored [OF norm Inr]) (simp_all add: st1_def log_lines_def acc resp_def loop)
  qed
qed


text \<open>
  Pushing the same request again changes nothing: no line is added and every id is answered as
  a duplicate, so a client may retry a push whose answer it has not seen.
\<close>

theorem push_retry_harmless:
  assumes "append_events_for_repo svc (Some repo) evs st = (st', Inr resp)"
    and "\<forall>ev. services_read_back svc ev" and "read_server_events svc st = Inr old"
    and "append_events_for_repo svc (Some repo) evs st' = (st'', r)"
  shows "r = Inr \<lparr>pr_accepted = [], pr_duplicate = map te_event_id evs\<rparr> \<and>
    log_lines st'' = log_lines st' \<and> sv_repo_org st'' = sv_repo_org st' \<and> sv_repo_org_file st'' = sv_repo_org_file st'"
  using assms(1)
proof (cases rule: append_events_cases)
  case (stored evs' stored)
  let ?acc = "keep_unseen te_event_id (te_event_id ` set old) evs'"
  have old: "stored = old" using stored(2) assms(3) by simp
  obtain es where es: "read_lines svc 0 (log_lines st) = Inr es" "old = map snd es"
    using assms(3) by (auto simp: read_server_events_def read_sequenced_lines and_then_Inr_iff)
  have "read_lines svc 0 (log_lines st') = Inr (es @ number_from (length (log_lines st)) ?acc)"
    unfolding stored(3) old
    by (rule read_lines_append [OF es(1)]) (use assms(2) in \<open>simp add: read_pushed_lines\<close>)
  then have read: "read_server_events svc st' = Inr (old @ ?acc)"
    by (simp add: read_server_events_def read_sequenced_lines es(2))
  define known where "known = old @ ?acc"
  have "te_event_id ` set evs' \<subseteq> te_event_id ` set known"
    using keep_unseen_keys [of te_event_id "te_event_id ` set old" evs'] by (auto simp: known_def)
  then have again: "push_loop (te_event_id ` set known) {} evs' = ([], map te_event_id evs')"
    by (rule push_loop_all_known)
  have "list_all2 (\<lambda>ev ev'. scope_to_route repo ev = Inr ev') evs evs'"
    using stored(1) by (simp add: normalize_repo_events_def collect_results_Inr)
  then have ids: "map te_event_id evs' = map te_event_id evs"
    by (induction rule: list_all2_induct) (auto simp: scope_to_route_def split: option.splits if_splits)
  show ?thesis
    using assms(4) ids
    by (auto simp: append_events_for_repo_def stored(1) read [folded known_def] again log_lines_def map_filter_simps)
qed simp

section \<open>Paging through the log\<close>

definition after_cursor :: "string option \<Rightarrow> u64 \<Rightarrow> u64 \<times> trace_event \<Rightarrow> bool" where
  "after_cursor repo after = (\<lambda>(s, ev). after < s \<and> repo_matches_server (te_repo_id ev) repo)"

lemma page_loop_spec:
  "length page \<le> n \<Longrightarrow> 0 < n \<Longrightarrow> page_loop repo after n page last_seq es =
     (let c = filter (after_cursor repo after) es; k = n - length page
      in (page @ map snd (take k c), if take k c = [] then last_seq else Some (fst (last (take k c))), k < length c))"
proof (induction repo after n page last_seq es rule: page_loop.induct)
  case (2 repo after n page last_seq s ev es)
  show ?case
  proof (cases "after_cursor repo after (s, ev)")
    case False
    then show ?thesis using 2 by (auto simp: after_cursor_def not_le Let_def)
  next
    case True
    show ?thesis
    proof (cases "length page = n")
      case full: True
      then show ?thesis using True by (simp add: after_cursor_def linorder_not_le [symmetric] Let_def)
    next
      case False
      with "2.prems" obtain k where k: "n - length page = Suc k"
        by (cases "n - length page") auto
      have "page_loop repo after n page last_seq ((s, ev) # es) = page_loop repo after n (page @ [ev]) (Some s) es"
        using True False by (simp add: after_cursor_def linorder_not_le [symmetric])
      also have "\<dots> = (let c = filter (after_cursor repo after) es
          in ((page @ [ev]) @ map snd (take k c), if take k c = [] then Some s else Some (fst (last (take k c))), k < length c))"
      proof -
        have cond: "\<not> s \<le> after" "\<not> \<not> repo_matches_server (te_repo_id ev) repo"
          using True by (auto simp: after_cursor_def not_le)
        have "length (page @ [ev]) \<le> n" "n - length (page @ [ev]) = k" using k by simp_all
        with "2.IH"(3) [OF cond False _ "2.prems"(2)] show ?thesis by (simp only: Let_def)
      qed
      finally show ?thesis using True k by (simp add: Let_def)
    qed
  qed
qed simp

lemma read_lines_increasing:
  "read_lines svc i ls = Inr es \<Longrightarrow> i + length ls < 2 ^ 64 \<Longrightarrow>
   sorted_wrt (<) (map fst es) \<and> (\<forall>s\<in>fst ` set es. i < unat s)"
proof (induction svc i ls arbitrary: es rule: read_lines.induct)
  case (4 svc i j ls)
  from 4(2) obtain ev es' where ev: "dec_trace_event svc j = Some ev"
    and es': "read_lines svc (Suc i) ls = Inr es'" "es = (of_nat (Suc i), ev) # es'"
    by (auto simp: and_then_Inr_iff split: option.splits)
  have num: "unat (of_nat (Suc i) :: u64) = Suc i"
    using 4(3) by (simp add: unat_of_nat del: of_nat_Suc)
  have IH: "sorted_wrt (<) (map fst es')" "\<forall>s\<in>fst ` set es'. Suc i < unat s"
    using 4(1) [OF ev es'(1)] 4(3) by auto
  then have "\<forall>s\<in>fst ` set es'. (of_nat (Suc i) :: u64) < s"
    by (simp only: word_less_nat_alt num)
  with IH show ?case using es'(2) num by (auto simp del: of_nat_Suc)
next
  case (2 svc i ls)
  then have "sorted_wrt (<) (map fst es) \<and> (\<forall>s\<in>fst ` set es. Suc i < unat s)" by simp
  then show ?case by auto
qed auto

section \<open>Ownership of repositories\<close>

text \<open>
  The operations of a running server, and a restart, which loses the caches and keeps the files.
\<close>

inductive server_step :: "services \<Rightarrow> server_store \<Rightarrow> server_store \<Rightarrow> bool" for svc where
  push: "append_events_for_repo svc repo evs st = (st', r) \<Longrightarrow> server_step svc st st'"
| resolve: "resolve_repo_org svc repo st = (st', own) \<Longrightarrow> server_step svc st st'"
| claim: "claim_repo_org svc repo org st = (st', r) \<Longrightarrow> server_step svc st st'"
| add_member: "add_org_member org user st = (st', r) \<Longrightarrow> server_step svc st st'"
| remove_member: "remove_org_member org user st = (st', b) \<Longrightarrow> server_step svc st st'"
| check_member: "is_org_member org user st = (st', b) \<Longrightarrow> server_step svc st st'"
| restart: "server_step svc st (new_server_store (sv_log st) (sv_repo_org_file st) (sv_members_file st))"

inductive_cases server_stepE: "server_step svc st st'"

text \<open>What the server answers for the owner of a repository, and that the cache is the file's map.\<close>

definition owner_of :: "services \<Rightarrow> server_store \<Rightarrow> string \<Rightarrow> string option" where
  "owner_of svc st repo = snd (resolve_repo_org svc repo st)"

definition cache_is_file :: "server_store \<Rightarrow> bool" where
  "cache_is_file st \<longleftrightarrow>
     (\<forall>m. sv_repo_org st = Some m \<longrightarrow> load_map_file Projection_Parse (sv_repo_org_file st) = Inr (Some m))"

text \<open>The map in force: the cache, else the file, else what the log says.\<close>

definition bindings_of :: "services \<Rightarrow> server_store \<Rightarrow> (string, string) btree option" where
  "bindings_of svc st =
     (case sv_repo_org st of
        Some m \<Rightarrow> Some m
      | None \<Rightarrow>
          (case load_map_file Projection_Parse (sv_repo_org_file st) of
             Inl _ \<Rightarrow> None
           | Inr (Some m) \<Rightarrow> Some m
           | Inr None \<Rightarrow> (case rebuild_repo_org_from_log svc st of Inl _ \<Rightarrow> None | Inr m \<Rightarrow> Some m)))"

lemma ensure_repo_org_spec:
  assumes "cache_is_file st" "ensure_repo_org_loaded svc st = (st', r)"
  shows "bindings_of svc st' = bindings_of svc st" "cache_is_file st'"
    "(\<exists>e. r = Inl e) \<longleftrightarrow> bindings_of svc st = None" "r = Inr () \<Longrightarrow> sv_repo_org st' = bindings_of svc st"
    "r = Inr () \<Longrightarrow> load_map_file Projection_Parse (sv_repo_org_file st') = Inr (sv_repo_org st')"
    "sv_log st' = sv_log st" "sv_members_file st' = sv_members_file st" "sv_members st' = sv_members st"
proof -
  consider (cached) m where "sv_repo_org st = Some m" "st' = st" "r = Inr ()"
    | (broken) e where "sv_repo_org st = None" "load_map_file Projection_Parse (sv_repo_org_file st) = Inl e"
        "st' = st" "r = Inl e"
    | (on_disk) m where "sv_repo_org st = None" "load_map_file Projection_Parse (sv_repo_org_file st) = Inr (Some m)"
        "st' = st\<lparr>sv_repo_org := Some m\<rparr>" "r = Inr ()"
    | (unread) e where "sv_repo_org st = None" "load_map_file Projection_Parse (sv_repo_org_file st) = Inr None"
        "rebuild_repo_org_from_log svc st = Inl e" "st' = st" "r = Inl e"
    | (rebuilt) m where "sv_repo_org st = None" "load_map_file Projection_Parse (sv_repo_org_file st) = Inr None"
        "rebuild_repo_org_from_log svc st = Inr m" "r = Inr ()"
        "st' = st\<lparr>sv_repo_org_file := Map_File m, sv_repo_org := Some m\<rparr>"
    using assms(2) by (auto simp: ensure_repo_org_loaded_def split: if_splits sum.splits option.splits)
  note cases = this
  show "bindings_of svc st' = bindings_of svc st"
    by (rule cases) (auto simp: bindings_of_def)
  show "cache_is_file st'"
    by (rule cases) (use assms(1) in \<open>auto simp: cache_is_file_def load_map_file_def\<close>)
  show "(\<exists>e. r = Inl e) \<longleftrightarrow> bindings_of svc st = None"
    by (rule cases) (auto simp: bindings_of_def)
  show "r = Inr () \<Longrightarrow> sv_repo_org st' = bindings_of svc st"
    by (rule cases) (auto simp: bindings_of_def)
  show "r = Inr () \<Longrightarrow> load_map_file Projection_Parse (sv_repo_org_file st') = Inr (sv_repo_org st')"
    by (rule cases) (use assms(1) in \<open>auto simp: cache_is_file_def load_map_file_def\<close>)
  show "sv_log st' = sv_log st" by (rule cases) auto
  show "sv_members_file st' = sv_members_file st" by (rule cases) auto
  show "sv_members st' = sv_members st" by (rule cases) auto
qed

lemma owner_of_bindings: "cache_is_file st \<Longrightarrow> owner_of svc st repo = Option.bind (bindings_of svc st) (\<lambda>m. bt_get m repo)"
proof -
  assume cf: "cache_is_file st"
  obtain st' r where ens: "ensure_repo_org_loaded svc st = (st', r)" by (cases "ensure_repo_org_loaded svc st")
  note spec = ensure_repo_org_spec [OF cf ens]
  show ?thesis
  proof (cases "sv_repo_org st")
    case (Some m)
    then show ?thesis by (simp add: owner_of_def resolve_repo_org_def bindings_of_def)
  next
    case None
    then show ?thesis
      using spec(3,4) by (cases r) (auto simp: owner_of_def resolve_repo_org_def ens)
  qed
qed

lemma bind_all_stable:
  "bt_get m repo = Some org \<Longrightarrow> bt_get (fst (bind_all bs m ch)) repo = Some org"
proof (induction bs m ch rule: bind_all.induct)
  case (2 repo' org' bs m changed)
  then show ?case by (cases "bt_get m repo'"; cases "repo = repo'") simp_all
qed simp

lemma bind_all_changed: "snd (bind_all bs m True)"
proof -
  have "ch \<Longrightarrow> snd (bind_all bs m ch)" for ch
    by (induction bs m ch rule: bind_all.induct) (simp_all split: option.split)
  then show ?thesis by simp
qed

lemma bind_all_unchanged: "\<not> snd (bind_all bs m ch) \<Longrightarrow> fst (bind_all bs m ch) = m"
proof (induction bs m ch rule: bind_all.induct)
  case (2 repo org bs m changed)
  then show ?case by (auto simp: bind_all_changed split: option.splits)
qed simp

lemma bind_first_stable: "bt_get m \<subseteq>\<^sub>m bt_get (fold bind_first bs m)"
proof (induction bs arbitrary: m)
  case (Cons b bs)
  have "bt_get m \<subseteq>\<^sub>m bt_get (bind_first b m)"
    by (cases b) (auto simp: bind_first_def map_le_def split: option.split)
  also have "\<dots> \<subseteq>\<^sub>m bt_get (fold bind_first bs (bind_first b m))" by (rule Cons.IH)
  finally show ?case by simp
qed simp

lemma record_repo_orgs_spec:
  assumes "cache_is_file st" "record_repo_orgs svc bs st = (st', r)"
  shows "cache_is_file st'"
    "bindings_of svc st = Some m \<Longrightarrow> bindings_of svc st' = Some (fst (bind_all bs m False))"
    "bindings_of svc st = None \<Longrightarrow> bindings_of svc st' = None"
proof -
  obtain st1 r1 where ens: "ensure_repo_org_loaded svc st = (st1, r1)" by (cases "ensure_repo_org_loaded svc st")
  note spec = ensure_repo_org_spec [OF assms(1) ens]
  have goal: "cache_is_file st' \<and> (\<forall>m. bindings_of svc st = Some m \<longrightarrow> bindings_of svc st' = Some (fst (bind_all bs m False))) \<and>
      (bindings_of svc st = None \<longrightarrow> bindings_of svc st' = None)"
  proof (cases r1)
    case (Inl e)
    then have "st' = st1" using assms(2) by (simp add: record_repo_orgs_def ens)
    then show ?thesis using spec(1,2,3) Inl by auto
  next
    case (Inr u)
    then obtain m where m: "bindings_of svc st = Some m" using spec(3) by auto
    then have cached: "sv_repo_org st1 = Some m" "load_map_file Projection_Parse (sv_repo_org_file st1) = Inr (Some m)"
      using spec(4,5) Inr by auto
    obtain m' ch where all: "bind_all bs m False = (m', ch)" by (cases "bind_all bs m False")
    have "st' = (if ch then st1\<lparr>sv_repo_org := Some m', sv_repo_org_file := Map_File m'\<rparr> else st1\<lparr>sv_repo_org := Some m'\<rparr>)"
      using assms(2) Inr by (auto simp: record_repo_orgs_def ens cached all)
    moreover have "\<not> ch \<Longrightarrow> m' = m" using bind_all_unchanged [of bs m False] by (simp add: all)
    ultimately have "bindings_of svc st' = Some m'" "cache_is_file st'"
      using cached by (auto simp: bindings_of_def cache_is_file_def load_map_file_def)
    then show ?thesis by (simp add: m all)
  qed
  then show "cache_is_file st'"
    "bindings_of svc st = Some m \<Longrightarrow> bindings_of svc st' = Some (fst (bind_all bs m False))"
    "bindings_of svc st = None \<Longrightarrow> bindings_of svc st' = None"
    by blast+
qed

lemma rebuild_after_push:
  assumes "\<forall>ev. services_read_back svc ev" "rebuild_repo_org_from_log svc st = Inr m"
    and "log_lines st' = log_lines st @ map (\<lambda>ev. Json_Line (enc_trace_event svc ev)) acc"
  shows "\<exists>m'. rebuild_repo_org_from_log svc st' = Inr m' \<and> bt_get m \<subseteq>\<^sub>m bt_get m'"
proof -
  obtain es where es: "read_lines svc 0 (log_lines st) = Inr es"
    "m = fold bind_first (List.map_filter (\<lambda>(s, ev). event_binding ev) es) []"
    using assms(2) by (auto simp: rebuild_repo_org_from_log_def read_sequenced_lines and_then_Inr_iff)
  have "read_lines svc 0 (log_lines st') = Inr (es @ number_from (length (log_lines st)) acc)"
    unfolding assms(3)
    by (rule read_lines_append [OF es(1)]) (use assms(1) in \<open>simp add: read_pushed_lines\<close>)
  then show ?thesis
    using bind_first_stable [of m]
    by (simp add: rebuild_repo_org_from_log_def read_sequenced_lines es(2) List.map_filter_def)
qed

lemma push_bindings:
  assumes "\<forall>ev. services_read_back svc ev" "cache_is_file st" "bindings_of svc st = Some m"
    and "append_events_for_repo svc repo evs st = (st', r)"
  shows "cache_is_file st' \<and> (\<exists>m'. bindings_of svc st' = Some m' \<and> bt_get m \<subseteq>\<^sub>m bt_get m')"
proof -
  have grow: "cache_is_file (st\<lparr>sv_log := Some (log_lines st @ map (\<lambda>ev. Json_Line (enc_trace_event svc ev)) acc)\<rparr>) \<and>
      (\<exists>m'. bindings_of svc (st\<lparr>sv_log := Some (log_lines st @ map (\<lambda>ev. Json_Line (enc_trace_event svc ev)) acc)\<rparr>) = Some m' \<and>
        bt_get m \<subseteq>\<^sub>m bt_get m')" (is "?cf \<and> ?b") for acc
  proof
    let ?st1 = "st\<lparr>sv_log := Some (log_lines st @ map (\<lambda>ev. Json_Line (enc_trace_event svc ev)) acc)\<rparr>"
    show ?cf using assms(2) by (simp add: cache_is_file_def)
    have rebuilt: "rebuild_repo_org_from_log svc st = Inr m \<Longrightarrow>
        \<exists>m'. rebuild_repo_org_from_log svc ?st1 = Inr m' \<and> bt_get m \<subseteq>\<^sub>m bt_get m'"
      by (rule rebuild_after_push [OF assms(1), where acc = acc]) (simp_all add: log_lines_def)
    show ?b
      using assms(3) rebuilt
      by (auto simp: bindings_of_def split: option.splits sum.splits)
  qed
  have stable: "bt_get m' \<subseteq>\<^sub>m bt_get (fst (bind_all bs m' False))" for m' bs
    using bind_all_stable by (auto simp: map_le_def)
  show ?thesis
  proof (cases "\<exists>e. normalize_repo_events repo evs = Inl e \<or> read_server_events svc st = Inl e")
    case True
    then have "st' = st" using assms(4) by (auto simp: append_events_for_repo_def split: sum.splits)
    then show ?thesis using assms(2,3) by (simp add: map_le_def)
  next
    case False
    then obtain evs' old where ok: "normalize_repo_events repo evs = Inr evs'" "read_server_events svc st = Inr old"
      by (meson sum.exhaust)
    obtain acc dup where loop: "push_loop (te_event_id ` set old) {} evs' = (acc, dup)"
      by (cases "push_loop (te_event_id ` set old) {} evs'")
    define st1 where "st1 = st\<lparr>sv_log := Some (log_lines st @ map (\<lambda>ev. Json_Line (enc_trace_event svc ev)) acc)\<rparr>"
    obtain m1 where m1: "cache_is_file st1" "bindings_of svc st1 = Some m1" "bt_get m \<subseteq>\<^sub>m bt_get m1"
      using grow [of acc] by (auto simp: st1_def)
    obtain st2 r2 where rec: "record_repo_orgs svc (List.map_filter event_binding acc) st1 = (st2, r2)"
      by (cases "record_repo_orgs svc (List.map_filter event_binding acc) st1")
    have "st' = st1 \<or> st' = st2"
      using assms(4) rec
      by (auto simp: append_events_for_repo_def ok loop Let_def st1_def log_lines_def split: if_splits sum.splits)
    then show ?thesis
      using m1 record_repo_orgs_spec [OF m1(1) rec] stable [of m1 "List.map_filter event_binding acc"]
      by (auto intro: map_le_trans)
  qed
qed

lemma members_keep_projection:
  "add_org_member org user st = (st', r) \<Longrightarrow>
     sv_log st' = sv_log st \<and> sv_repo_org st' = sv_repo_org st \<and> sv_repo_org_file st' = sv_repo_org_file st"
  "remove_org_member org user st = (st', b) \<Longrightarrow>
     sv_log st' = sv_log st \<and> sv_repo_org st' = sv_repo_org st \<and> sv_repo_org_file st' = sv_repo_org_file st"
  "is_org_member org user st = (st', c) \<Longrightarrow>
     sv_log st' = sv_log st \<and> sv_repo_org st' = sv_repo_org st \<and> sv_repo_org_file st' = sv_repo_org_file st"
  by (auto simp: add_org_member_def remove_org_member_def is_org_member_def org_members_def
      ensure_org_members_loaded_def Let_def split: if_splits sum.splits)

lemma same_projection:
  assumes "sv_log st' = sv_log st" "sv_repo_org st' = sv_repo_org st" "sv_repo_org_file st' = sv_repo_org_file st"
  shows "bindings_of svc st' = bindings_of svc st" "cache_is_file st' = cache_is_file st"
proof -
  have "rebuild_repo_org_from_log svc st' = rebuild_repo_org_from_log svc st"
    by (simp add: rebuild_repo_org_from_log_def read_sequenced_events_def assms(1))
  then show "bindings_of svc st' = bindings_of svc st" "cache_is_file st' = cache_is_file st"
    by (simp_all add: bindings_of_def cache_is_file_def assms(2,3) split: option.split sum.split)
qed

lemma server_step_bindings:
  assumes "server_step svc st st'" "\<forall>ev. services_read_back svc ev" "cache_is_file st" "bindings_of svc st = Some m"
  shows "cache_is_file st' \<and> (\<exists>m'. bindings_of svc st' = Some m' \<and> bt_get m \<subseteq>\<^sub>m bt_get m')"
  using assms(1)
proof cases
  case (push repo evs r)
  then show ?thesis using push_bindings assms(2-4) by blast
next
  case (resolve repo own)
  obtain st1 r where ens: "ensure_repo_org_loaded svc st = (st1, r)" by (cases "ensure_repo_org_loaded svc st")
  have "st' = st \<or> st' = st1"
    using resolve by (auto simp: resolve_repo_org_def ens split: option.splits sum.splits)
  then show ?thesis using ensure_repo_org_spec(1,2) [OF assms(3) ens] assms(3,4) by auto
next
  case (claim repo org r)
  then show ?thesis
    using record_repo_orgs_spec [OF assms(3), of svc "[(repo, org)]" st' r] assms(4)
      bind_all_stable [of m _ _ "[(repo, org)]" False]
    by (auto simp: claim_repo_org_def map_le_def simp del: bind_all.simps)
next
  case (add_member org user r)
  then show ?thesis using members_keep_projection(1) same_projection assms(3,4) by (metis map_le_refl)
next
  case (remove_member org user b)
  then show ?thesis using members_keep_projection(2) same_projection assms(3,4) by (metis map_le_refl)
next
  case (check_member org user b)
  then show ?thesis using members_keep_projection(3) same_projection assms(3,4) by (metis map_le_refl)
next
  case restart
  have "rebuild_repo_org_from_log svc st' = rebuild_repo_org_from_log svc st"
    by (simp add: restart rebuild_repo_org_from_log_def read_sequenced_events_def new_server_store_def)
  then have "bindings_of svc st' = Some m"
    using assms(3,4) unfolding restart
    by (cases "sv_repo_org st")
      (simp_all add: bindings_of_def cache_is_file_def new_server_store_def cong: option.case_cong sum.case_cong)
  then show ?thesis using restart by (simp add: cache_is_file_def new_server_store_def)
qed


section \<open>Members\<close>

text \<open>The members in force: the cache, else the file; a missing file has none.\<close>

definition members_in_force :: "server_store \<Rightarrow> (string, string list) btree option" where
  "members_in_force st =
     (case sv_members st of
        Some m \<Rightarrow> Some m
      | None \<Rightarrow> (case load_map_file Members_Parse (sv_members_file st) of Inl _ \<Rightarrow> None | Inr m \<Rightarrow> Some (unwrap_or m [])))"

definition member_of :: "server_store \<Rightarrow> string \<Rightarrow> string \<Rightarrow> bool" where
  "member_of st org user \<longleftrightarrow> snd (is_org_member org user st)"

lemma ensure_members_spec:
  "ensure_org_members_loaded st = (st', Inr u) \<Longrightarrow>
     \<exists>m. members_in_force st = Some m \<and> sv_members st' = Some m \<and> sv_members_file st' = sv_members_file st"
  "ensure_org_members_loaded st = (st', Inl e) \<Longrightarrow> st' = st \<and> members_in_force st = None"
  by (auto simp: ensure_org_members_loaded_def members_in_force_def split: if_splits sum.splits option.splits)

lemma member_of_force:
  "member_of st org user \<longleftrightarrow>
     (case members_in_force st of None \<Rightarrow> False | Some m \<Rightarrow> user \<in> set (unwrap_or (bt_get m org) []))"
proof -
  obtain st1 r where ens: "ensure_org_members_loaded st = (st1, r)" by (cases "ensure_org_members_loaded st")
  then show ?thesis
    using ensure_members_spec [of st st1] by (cases r) (auto simp: member_of_def is_org_member_def org_members_def)
qed

text \<open>
  Adding or removing a member takes effect at once, for that user in that org and for nobody
  else, and a removal answers whether the user was a member.
\<close>

theorem membership_changes:
  assumes "add_org_member org user st = (st1, Inr ())" "remove_org_member org user st = (st2, Inr b)"
  shows "(member_of st1 o' u' \<longleftrightarrow> member_of st o' u' \<or> o' = org \<and> u' = user) \<and>
    (member_of st2 o' u' \<longleftrightarrow> member_of st o' u' \<and> \<not> (o' = org \<and> u' = user)) \<and>
    b = member_of st org user"
proof -
  obtain st0 r where ens: "ensure_org_members_loaded st = (st0, r)" by (cases "ensure_org_members_loaded st")
  with assms(1) have r: "r = Inr ()" by (cases r) (simp_all add: add_org_member_def)
  with ensure_members_spec(1) [of st st0] ens obtain m where m: "members_in_force st = Some m" "sv_members st0 = Some m"
    by auto
  have st1: "members_in_force st1 = Some (bt_insert org (bs_insert user (unwrap_or (bt_get m org) [])) m)"
    using assms(1) by (auto simp: add_org_member_def ens r m Let_def members_in_force_def split: if_splits)
  have st2: "members_in_force st2 = Some (bt_adjust org (filter (\<lambda>u. u \<noteq> user)) m)"
    "b = (case bt_get m org of None \<Rightarrow> False | Some users \<Rightarrow> user \<in> set users)"
    using assms(2) by (auto simp: remove_org_member_def ens r m Let_def members_in_force_def split: if_splits)
  have "bt_get (bt_adjust org (filter (\<lambda>u. u \<noteq> user)) m) = (bt_get m)(org := map_option (filter (\<lambda>u. u \<noteq> user)) (bt_get m org))"
    by (rule map_of_bt_adjust)
  then show ?thesis
    unfolding member_of_force st1 st2 m(1) by (cases "bt_get m org") auto
qed

section \<open>A sample server\<close>

definition sample_push :: "string \<Rightarrow> string option \<Rightarrow> string option \<Rightarrow> trace_event" where
  "sample_push i repo org =
     (artifact_linked_to_mission \<lparr>fresh_now = 1700000000, fresh_uuid = i\<rparr>
        \<lparr>actor_type = Agent, actor_id = ''agent-1'', display_name = None\<rparr> ''artifact_1'' ''mission_1''
        \<lparr>al_relationship = ''delivers'', al_repo_context_id = None\<rparr>)\<lparr>te_repo_id := repo, te_org_id := org\<rparr>"

lemma sample_push_simps [simp]:
  "te_event_id (sample_push i repo org) = i" "te_repo_id (sample_push i repo org) = repo"
  "te_org_id (sample_push i repo org) = org"
  "(sample_push i repo org)\<lparr>te_repo_id := repo'\<rparr> = sample_push i repo' org"
  by (simp_all add: sample_push_def artifact_linked_to_mission_def from_payload_def)

definition fresh_server :: server_store where
  "fresh_server = new_server_store None No_File No_File"

lemma fresh_server_simps [simp]:
  "sv_log fresh_server = None" "log_lines fresh_server = []" "read_server_events svc fresh_server = Inr []"
  "read_sequenced_events svc fresh_server = Inr []"
  by (simp_all add: fresh_server_def new_server_store_def log_lines_def read_server_events_def read_sequenced_events_def)

text \<open>The server after one push of two events with the same id to \<^verbatim>\<open>repo-1\<close>, bound to \<^verbatim>\<open>org-1\<close>.\<close>

definition pushed_server :: server_store where
  "pushed_server =
     fresh_server\<lparr>sv_log := Some [Json_Line (enc_trace_event plain_services (sample_push ''e1'' (Some ''repo-1'') (Some ''org-1'')))],
       sv_repo_org_file := Map_File [(''repo-1'', ''org-1'')], sv_repo_org := Some [(''repo-1'', ''org-1'')]\<rparr>"

lemma sample_push_result:
  "append_events_for_repo plain_services (Some ''repo-1'')
     [sample_push ''e1'' None (Some ''org-1''), sample_push ''e1'' (Some ''repo-1'') None] fresh_server =
   (pushed_server, Inr \<lparr>pr_accepted = [''e1''], pr_duplicate = [''e1'']\<rparr>)"
proof -
  let ?e = "sample_push ''e1'' (Some ''repo-1'') (Some ''org-1'')"
  have norm: "normalize_repo_events (Some ''repo-1'')
      [sample_push ''e1'' None (Some ''org-1''), sample_push ''e1'' (Some ''repo-1'') None] =
      Inr [?e, sample_push ''e1'' (Some ''repo-1'') None]"
    by (simp add: normalize_repo_events_def scope_to_route_def)
  have read: "dec_trace_event plain_services (enc_trace_event plain_services ?e) = Some ?e"
    by (rule trace_event_read_back) (rule plain_services_read_back)
  have bind: "event_binding ?e = Some (''repo-1'', ''org-1'')" by (simp add: event_binding_def)
  let ?st1 = "fresh_server\<lparr>sv_log := Some [Json_Line (enc_trace_event plain_services ?e)]\<rparr>"
  have "rebuild_repo_org_from_log plain_services ?st1 = Inr [(''repo-1'', ''org-1'')]"
    by (simp add: rebuild_repo_org_from_log_def read_sequenced_events_def read map_filter_simps bind bind_first_def)
  then have "ensure_repo_org_loaded plain_services ?st1 = (pushed_server, Inr ())"
    by (simp add: ensure_repo_org_loaded_def load_map_file_def)
      (simp add: pushed_server_def fresh_server_def new_server_store_def load_map_file_def)
  then have "record_repo_orgs plain_services [(''repo-1'', ''org-1'')] ?st1 = (pushed_server, Inr ())"
    by (simp add: record_repo_orgs_def) (simp add: pushed_server_def)
  then show ?thesis
    by (simp add: append_events_for_repo_def norm bind map_filter_simps)
qed


theorem push_retry_harmless_witness:
  "snd (append_events_for_repo plain_services (Some ''repo-1'')
     [sample_push ''e1'' None (Some ''org-1''), sample_push ''e1'' (Some ''repo-1'') None] pushed_server) =
   Inr \<lparr>pr_accepted = [], pr_duplicate = [''e1'', ''e1'']\<rparr>"
  using push_retry_harmless [OF sample_push_result, of "[]", OF _ _ prod.collapse [symmetric]]
  by (simp add: plain_services_read_back)


theorem membership_changes_witness:
  "\<exists>st1 st2. add_org_member ''org-1'' ''ann'' fresh_server = (st1, Inr ()) \<and>
     remove_org_member ''org-1'' ''ann'' fresh_server = (st2, Inr False) \<and>
     member_of st1 ''org-1'' ''ann'' \<and> \<not> member_of st1 ''org-2'' ''ann''"
proof -
  obtain st1 st2 where ops: "add_org_member ''org-1'' ''ann'' fresh_server = (st1, Inr ())"
    "remove_org_member ''org-1'' ''ann'' fresh_server = (st2, Inr False)"
    by (simp add: fresh_server_def new_server_store_def add_org_member_def remove_org_member_def
        ensure_org_members_loaded_def load_map_file_def Let_def)
  have "\<not> member_of fresh_server ''org-2'' ''ann''"
    by (simp add: member_of_force members_in_force_def fresh_server_def new_server_store_def load_map_file_def)
  with ops show ?thesis
    using membership_changes [OF ops, of "''org-1''" "''ann''"] membership_changes [OF ops, of "''org-2''" "''ann''"]
    by auto
qed

end
