(* ===== verification/Server_Auth.thy ===== *)
theory Server_Auth imports Server_Store begin

text \<open>
  Token authorization of the server (\<^verbatim>\<open>crates/server/src/auth.rs\<close>) and the commands that manage
  the token table and the audit log (\<^verbatim>\<open>crates/server/src/main.rs\<close>). The check of a Supabase token's
  signature, issuer and expiry is the \<^verbatim>\<open>jsonwebtoken\<close> crate's: it is the parameter that gives the
  claims of a valid token. \<^verbatim>\<open>generate_token\<close> gets its random seed as an argument.
\<close>

section \<open>Access levels and scopes\<close>

datatype access = Read | Write

fun permits :: "access \<Rightarrow> access \<Rightarrow> bool" where
  "permits Write _ = True"
| "permits Read Read = True"
| "permits Read Write = False"

datatype scope = Scope_All | Scope_Org string | Scope_Repo string

datatype resource_target = Target_Repo string "string option" | Target_Global

fun scope_matches :: "scope \<Rightarrow> resource_target \<Rightarrow> bool" where
  "scope_matches Scope_All _ = True"
| "scope_matches (Scope_Repo allowed) (Target_Repo repo _) = (allowed = repo)"
| "scope_matches (Scope_Org allowed) (Target_Repo _ org) = (org = Some allowed)"
| "scope_matches (Scope_Org _) Target_Global = False"
| "scope_matches (Scope_Repo _) Target_Global = False"

record token_record =
  tk_label :: string
  tk_sha256 :: string
  tk_scopes :: "scope list"
  tk_access :: access
  tk_expires_at :: "instant option"
  tk_actor_id :: "string option"

definition authorizes :: "token_record \<Rightarrow> resource_target \<Rightarrow> access \<Rightarrow> bool" where
  "authorizes t target required \<longleftrightarrow>
     permits (tk_access t) required \<and> list_ex (\<lambda>s. scope_matches s target) (tk_scopes t)"

definition is_expired :: "token_record \<Rightarrow> instant \<Rightarrow> bool" where
  "is_expired t now = (case tk_expires_at t of Some e \<Rightarrow> now \<ge> e | None \<Rightarrow> False)"

definition hash_token :: "services \<Rightarrow> string \<Rightarrow> string" where
  "hash_token svc plaintext = sha256_hex svc plaintext"

section \<open>The token table\<close>

type_synonym token_store = "token_record list"

definition has_org_scope :: "token_store \<Rightarrow> bool" where
  "has_org_scope ts = list_ex (\<lambda>t. list_ex (\<lambda>s. case s of Scope_Org _ \<Rightarrow> True | _ \<Rightarrow> False) (tk_scopes t)) ts"

definition add_token :: "token_record \<Rightarrow> token_store \<Rightarrow> token_store" where
  "add_token t ts = ts @ [t]"

definition token_labels :: "token_store \<Rightarrow> string list" where
  "token_labels ts = map tk_label ts"

fun rotate_by_label :: "string \<Rightarrow> string \<Rightarrow> instant option \<Rightarrow> token_store \<Rightarrow> token_store \<times> bool" where
  "rotate_by_label label new_sha expires [] = ([], False)"
| "rotate_by_label label new_sha expires (t # ts) =
     (if tk_label t = label then (t\<lparr>tk_sha256 := new_sha, tk_expires_at := expires\<rparr> # ts, True)
      else (let (ts', found) = rotate_by_label label new_sha expires ts in (t # ts', found)))"

definition expiry_for_label :: "string \<Rightarrow> token_store \<Rightarrow> instant option option" where
  "expiry_for_label label ts = map_option tk_expires_at (List.find (\<lambda>t. tk_label t = label) ts)"

definition remove_by_label :: "string \<Rightarrow> token_store \<Rightarrow> token_store \<times> bool" where
  "remove_by_label label ts =
     (let ts' = filter (\<lambda>t. tk_label t \<noteq> label) ts in (ts', length ts' \<noteq> length ts))"

definition lookup_token :: "services \<Rightarrow> string \<Rightarrow> token_store \<Rightarrow> token_record option" where
  "lookup_token svc plaintext ts = List.find (\<lambda>t. tk_sha256 t = hash_token svc plaintext) ts"

datatype auth_kind = Local_Token | Supabase string "string option"   \<comment> \<open>user id, email\<close>

record authed_identity =
  ai_label :: string
  ai_actor_id :: "string option"
  ai_kind :: auth_kind

datatype auth_denial = Unknown_Token | Expired | Forbidden

definition authorize_at ::
  "services \<Rightarrow> token_store \<Rightarrow> string \<Rightarrow> resource_target \<Rightarrow> access \<Rightarrow> instant \<Rightarrow> auth_denial + authed_identity" where
  "authorize_at svc ts plaintext target required now =
     (case lookup_token svc plaintext ts of
        None \<Rightarrow> Inl Unknown_Token
      | Some t \<Rightarrow>
          if is_expired t now then Inl Expired
          else if authorizes t target required
          then Inr \<lparr>ai_label = tk_label t, ai_actor_id = tk_actor_id t, ai_kind = Local_Token\<rparr>
          else Inl Forbidden)"

text \<open>The claims of a token that the JWT library accepts: subject and email.\<close>

type_synonym jwt_claims = "string \<Rightarrow> (string \<times> string option) option"

definition verify_supabase :: "jwt_claims \<Rightarrow> string \<Rightarrow> auth_denial + authed_identity" where
  "verify_supabase claims token =
     (case claims token of
        None \<Rightarrow> Inl Unknown_Token
      | Some (sub, email) \<Rightarrow>
          if trim sub = [] then Inl Unknown_Token
          else Inr \<lparr>ai_label = ''supabase:'' @ sub, ai_actor_id = None, ai_kind = Supabase sub email\<rparr>)"

section \<open>Scope text\<close>

datatype auth_error =
    Token_Table_Parse
  | Empty_Scope string
  | Label_Taken string
  | No_Such_Label string

definition ensure_non_empty :: "string \<Rightarrow> string \<Rightarrow> auth_error + unit" where
  "ensure_non_empty v kind = (if v = [] then Inl (Empty_Scope kind) else Inr ())"

definition parse_scope :: "string \<Rightarrow> auth_error + scope" where
  "parse_scope v =
     (let t = trim v in
      if t = ''*'' \<or> t = ''all'' then Inr Scope_All
      else (case strip_prefix ''org:'' t of
              Some org \<Rightarrow> and_then (ensure_non_empty org ''org'') (\<lambda>_. Inr (Scope_Org org))
            | None \<Rightarrow>
                (case strip_prefix ''repo:'' t of
                   Some repo \<Rightarrow> and_then (ensure_non_empty repo ''repo'') (\<lambda>_. Inr (Scope_Repo repo))
                 | None \<Rightarrow> and_then (ensure_non_empty t ''repo'') (\<lambda>_. Inr (Scope_Repo t)))))"

fun describe_scope :: "scope \<Rightarrow> string" where
  "describe_scope Scope_All = ''*''"
| "describe_scope (Scope_Org org) = ''org:'' @ org"
| "describe_scope (Scope_Repo repo) = ''repo:'' @ repo"

definition token_summary :: "services \<Rightarrow> token_record \<Rightarrow> string" where
  "token_summary svc t =
     (case tk_access t of Read \<Rightarrow> ''read'' | Write \<Rightarrow> ''write'') @ '' ['' @
     join '','' (map describe_scope (tk_scopes t)) @ '']'' @
     (case tk_expires_at t of Some at \<Rightarrow> '' expires='' @ rfc3339 svc at | None \<Rightarrow> []) @
     (case tk_actor_id t of Some a \<Rightarrow> '' actor='' @ a | None \<Rightarrow> [])"

definition scope_summary :: "services \<Rightarrow> token_store \<Rightarrow> (string, string) btree" where
  "scope_summary svc ts = fold (\<lambda>t. bt_insert (tk_label t) (token_summary svc t)) ts []"

definition generate_token :: "services \<Rightarrow> string \<Rightarrow> string" where
  "generate_token svc seed = ''brick_'' @ take 32 (hash_token svc seed)"

section \<open>Requests and targets\<close>

datatype http_method = GET | HEAD | OPTIONS | POST | Other_Method string

definition required_access :: "http_method \<Rightarrow> access" where
  "required_access m = (case m of GET \<Rightarrow> Read | HEAD \<Rightarrow> Read | OPTIONS \<Rightarrow> Read | _ \<Rightarrow> Write)"

definition repo_id_for_path :: "string \<Rightarrow> string option" where
  "repo_id_for_path path =
     (case split_on (CHR 0x2F) (trim_start_matches ''/'' path) of
        v # rs # repo # _ \<Rightarrow> if v = ''v1'' \<and> rs = ''repos'' \<and> repo \<noteq> [] then Some repo else None
      | _ \<Rightarrow> None)"

definition resource_target_for_path :: "string \<Rightarrow> bool \<Rightarrow> (string \<Rightarrow> string option) \<Rightarrow> resource_target" where
  "resource_target_for_path path needs_org resolve_org =
     (case repo_id_for_path path of
        Some repo \<Rightarrow> Target_Repo repo (if needs_org then resolve_org repo else None)
      | None \<Rightarrow> Target_Global)"

section \<open>The audit log\<close>

record audit_entry =
  au_at :: instant
  au_token_label :: string
  au_actor_id :: "string option"
  au_method :: string
  au_path :: string

text \<open>A line of the audit log: an entry, a blank line, or text that is no entry.\<close>

datatype audit_line = Audit_Line audit_entry | Audit_Blank | Audit_Broken

definition audit_record :: "audit_entry \<Rightarrow> audit_line list \<Rightarrow> audit_line list" where
  "audit_record e ls = ls @ [Audit_Line e]"

definition audit_read_all :: "audit_line list \<Rightarrow> audit_entry list" where
  "audit_read_all ls = List.map_filter (\<lambda>l. case l of Audit_Line e \<Rightarrow> Some e | _ \<Rightarrow> None) ls"

definition shown_audit :: "nat option \<Rightarrow> audit_line list \<Rightarrow> audit_entry list" where
  "shown_audit limit ls =
     (let es = audit_read_all ls;
          start = (case limit of Some n \<Rightarrow> if n < length es then length es - n else 0 | None \<Rightarrow> 0)
      in drop start es)"

section \<open>Commands on the table\<close>

text \<open>The table's file: absent, blank, a table, or unreadable.\<close>

datatype token_file = No_Token_File | Blank_Token_File | Token_File token_store | Corrupt_Token_File

fun load_tokens :: "token_file \<Rightarrow> auth_error + token_store" where
  "load_tokens No_Token_File = Inr []"
| "load_tokens Blank_Token_File = Inr []"
| "load_tokens (Token_File ts) = Inr ts"
| "load_tokens Corrupt_Token_File = Inl Token_Table_Parse"

definition days_after :: "instant \<Rightarrow> nat \<Rightarrow> instant" where
  "days_after now days = now + int days * (86400 * 1000000000)"

definition create_token ::
  "services \<Rightarrow> instant \<Rightarrow> string \<Rightarrow> string \<Rightarrow> string list \<Rightarrow> bool \<Rightarrow> nat option \<Rightarrow> string option \<Rightarrow>
   token_file \<Rightarrow> token_file \<times> (auth_error + string)" where
  "create_token svc now seed label scopes can_write expires_in_days actor tf =
     (case load_tokens tf of
        Inl e \<Rightarrow> (tf, Inl e)
      | Inr ts \<Rightarrow>
          if label \<in> set (token_labels ts) then (tf, Inl (Label_Taken label))
          else (case (if scopes = [] then Inr [Scope_All] else collect_results parse_scope scopes) of
                  Inl e \<Rightarrow> (tf, Inl e)
                | Inr parsed \<Rightarrow>
                    (let plaintext = generate_token svc seed;
                         t = \<lparr>tk_label = label, tk_sha256 = hash_token svc plaintext, tk_scopes = parsed,
                              tk_access = (if can_write then Write else Read),
                              tk_expires_at = map_option (days_after now) expires_in_days, tk_actor_id = actor\<rparr>
                     in (Token_File (add_token t ts), Inr plaintext))))"

definition revoke_token :: "string \<Rightarrow> token_file \<Rightarrow> token_file \<times> (auth_error + bool)" where
  "revoke_token label tf =
     (case load_tokens tf of
        Inl e \<Rightarrow> (tf, Inl e)
      | Inr ts \<Rightarrow>
          (let (ts', removed) = remove_by_label label ts
           in (if removed then Token_File ts' else tf, Inr removed)))"

definition rotate_token ::
  "services \<Rightarrow> instant \<Rightarrow> string \<Rightarrow> string \<Rightarrow> nat option \<Rightarrow> token_file \<Rightarrow> token_file \<times> (auth_error + string)" where
  "rotate_token svc now seed label expires_in_days tf =
     (case load_tokens tf of
        Inl e \<Rightarrow> (tf, Inl e)
      | Inr ts \<Rightarrow>
          (case (case expires_in_days of
                   None \<Rightarrow> ok_or (expiry_for_label label ts) (No_Such_Label label)
                 | Some days \<Rightarrow> Inr (if days = 0 then None else Some (days_after now days))) of
             Inl e \<Rightarrow> (tf, Inl e)
           | Inr expires \<Rightarrow>
               (let plaintext = generate_token svc seed;
                    (ts', found) = rotate_by_label label (hash_token svc plaintext) expires ts
                in if found then (Token_File ts', Inr plaintext) else (tf, Inl (No_Such_Label label)))))"

section \<open>The gate of a serving process\<close>

record auth_config =
  ac_tokens :: token_store
  ac_supabase :: "jwt_claims option"
  ac_needs_org :: bool

definition new_auth_config :: "token_store \<Rightarrow> jwt_claims option \<Rightarrow> auth_config" where
  "new_auth_config ts supabase = \<lparr>ac_tokens = ts, ac_supabase = supabase, ac_needs_org = has_org_scope ts\<rparr>"

definition legacy_token :: "services \<Rightarrow> string \<Rightarrow> token_record" where
  "legacy_token svc plaintext =
     \<lparr>tk_label = ''legacy-auth-token'', tk_sha256 = hash_token svc plaintext, tk_scopes = [Scope_All],
      tk_access = Write, tk_expires_at = None, tk_actor_id = None\<rparr>"

definition supabase_issuer :: "string \<Rightarrow> string" where
  "supabase_issuer project_url = trim_end_matches ''/'' project_url @ ''/auth/v1''"

text \<open>\<^verbatim>\<open>new_verifier issuer secret\<close> is the library's verifier for an issuer and its HS256 secret.\<close>

definition resolve_serve_auth ::
  "services \<Rightarrow> (string \<Rightarrow> string \<Rightarrow> jwt_claims) \<Rightarrow> token_file \<Rightarrow> string option \<Rightarrow> string option \<Rightarrow> string option \<Rightarrow>
   auth_error + auth_config option" where
  "resolve_serve_auth svc new_verifier tf auth_token supabase_url supabase_secret =
     and_then (load_tokens tf) (\<lambda>ts0.
     let ts = (case filter_opt (\<lambda>t. t \<noteq> []) auth_token of
                 Some plaintext \<Rightarrow> add_token (legacy_token svc plaintext) ts0
               | None \<Rightarrow> ts0);
         supabase = (case (supabase_url, supabase_secret) of
                       (Some url, Some secret) \<Rightarrow>
                         if trim url \<noteq> [] \<and> trim secret \<noteq> [] then Some (new_verifier (supabase_issuer url) secret) else None
                     | _ \<Rightarrow> None)
     in Inr (if ts = [] \<and> supabase = None then None else Some (new_auth_config ts supabase)))"

definition config_authorize ::
  "services \<Rightarrow> auth_config \<Rightarrow> string \<Rightarrow> resource_target \<Rightarrow> access \<Rightarrow> instant \<Rightarrow> auth_denial + authed_identity" where
  "config_authorize svc ac token target required now =
     (case authorize_at svc (ac_tokens ac) token target required now of
        Inr identity \<Rightarrow> Inr identity
      | Inl Unknown_Token \<Rightarrow>
          (case ac_supabase ac of
             None \<Rightarrow> Inl Unknown_Token
           | Some claims \<Rightarrow>
               and_then (verify_supabase claims token) (\<lambda>identity.
               case target of Target_Repo _ _ \<Rightarrow> Inr identity | Target_Global \<Rightarrow> Inl Forbidden))
      | Inl d \<Rightarrow> Inl d)"

section \<open>Scope text reads back\<close>

definition plain_id :: "string \<Rightarrow> bool" where
  "plain_id i \<longleftrightarrow> i \<noteq> [] \<and> list_all graph_char i"

fun scope_plain :: "scope \<Rightarrow> bool" where
  "scope_plain Scope_All = True"
| "scope_plain (Scope_Org i) = plain_id i"
| "scope_plain (Scope_Repo i) = plain_id i"

lemma trim_tagged:
  assumes "plain_id i" "tag \<noteq> []" "list_all graph_char tag"
  shows "trim (tag @ i) = tag @ i"
  using assms by (intro trim_graph) (auto simp: plain_id_def list_all_iff)

lemma scope_read_back:
  assumes "scope_plain s"
  shows "parse_scope (describe_scope s) = Inr s"
proof (cases s)
  case Scope_All
  have "trim ''*'' = ''*''" by (rule trim_graph) (simp_all add: graph_char_def)
  then show ?thesis by (simp add: Scope_All parse_scope_def)
next
  case (Scope_Org i)
  then have "trim (''org:'' @ i) = ''org:'' @ i" "i \<noteq> []"
    using assms trim_tagged [of i "''org:''"] by (auto simp: graph_char_def plain_id_def)
  then show ?thesis by (simp add: Scope_Org parse_scope_def strip_prefix_def ensure_non_empty_def)
next
  case (Scope_Repo i)
  then have "trim (''repo:'' @ i) = ''repo:'' @ i" "i \<noteq> []"
    using assms trim_tagged [of i "''repo:''"] by (auto simp: graph_char_def plain_id_def)
  then show ?thesis by (simp add: Scope_Repo parse_scope_def strip_prefix_def ensure_non_empty_def)
qed

text \<open>
  What list-tokens prints for a scope is accepted by \<^verbatim>\<open>--scope\<close> and gives the same scope, so no
  printed scope changes its kind or its id on the way back.
\<close>

theorem scope_text_roundtrip:
  assumes "scope_plain s"
  shows "parse_scope (describe_scope s) = Inr s"
  using assms by (rule scope_read_back)

section \<open>The life of a token\<close>

inductive token_step :: "services \<Rightarrow> token_file \<Rightarrow> token_file \<Rightarrow> bool" for svc where
  create: "create_token svc now seed label scopes w days actor tf = (tf', r) \<Longrightarrow> token_step svc tf tf'"
| revoke: "revoke_token label tf = (tf', r) \<Longrightarrow> token_step svc tf tf'"
| rotate: "rotate_token svc now seed label days tf = (tf', r) \<Longrightarrow> token_step svc tf tf'"

inductive_cases token_stepE: "token_step svc tf tf'"

definition labels_unique :: "token_file \<Rightarrow> bool" where
  "labels_unique tf \<longleftrightarrow> (\<forall>ts. load_tokens tf = Inr ts \<longrightarrow> distinct (token_labels ts))"

lemma rotate_by_label_spec:
  "distinct (token_labels ts) \<Longrightarrow>
   rotate_by_label label h e ts =
     (map (\<lambda>t. if tk_label t = label then t\<lparr>tk_sha256 := h, tk_expires_at := e\<rparr> else t) ts,
      label \<in> set (token_labels ts))"
proof (induction ts)
  case (Cons t ts)
  have "label \<notin> set (token_labels ts) \<Longrightarrow>
      map (\<lambda>t. if tk_label t = label then t\<lparr>tk_sha256 := h, tk_expires_at := e\<rparr> else t) ts = ts"
    by (rule map_idI) (auto simp: token_labels_def)
  with Cons show ?case by (auto simp: token_labels_def)
qed (simp add: token_labels_def)

lemma rotate_by_label_labels: "token_labels (fst (rotate_by_label label h e ts)) = token_labels ts"
  by (induction ts) (auto simp: token_labels_def split: prod.split)

lemma remove_by_label_labels:
  "token_labels (fst (remove_by_label label ts)) = filter (\<lambda>l. l \<noteq> label) (token_labels ts)"
  by (simp add: remove_by_label_def Let_def token_labels_def filter_map comp_def)

lemma token_step_labels:
  assumes "token_step svc tf tf'" "labels_unique tf"
  shows "labels_unique tf'"
  using assms(1)
proof cases
  case (create now seed label scopes w days actor r)
  then show ?thesis
    using assms(2)
    by (auto simp: create_token_def labels_unique_def Let_def add_token_def token_labels_def
        split: sum.splits if_splits)
next
  case (revoke label r)
  have "tf' = tf \<or> (\<exists>ts. load_tokens tf = Inr ts \<and> tf' = Token_File (fst (remove_by_label label ts)))"
    using revoke by (cases "load_tokens tf") (auto simp: revoke_token_def split_beta split: if_splits)
  then show ?thesis using assms(2) by (auto simp: labels_unique_def remove_by_label_labels)
next
  case (rotate now seed label days r)
  have "tf' = tf \<or> (\<exists>ts h e. load_tokens tf = Inr ts \<and> tf' = Token_File (fst (rotate_by_label label h e ts)))"
    using rotate
    by (cases "load_tokens tf") (auto simp: rotate_token_def Let_def split_beta split: sum.splits if_splits)
  then show ?thesis using assms(2) by (auto simp: labels_unique_def rotate_by_label_labels)
qed

lemma labels_unique_reachable: "(token_step svc)\<^sup>*\<^sup>* No_Token_File tf \<Longrightarrow> labels_unique tf"
proof (induction rule: rtranclp_induct)
  case base
  then show ?case by (simp add: labels_unique_def token_labels_def)
qed (rule token_step_labels)

lemma find_map_other:
  "List.find P (map f ts) = map_option f (List.find (P \<circ> f) ts)"
  by (induction ts) auto

lemma rotation_effect:
  assumes uniq: "distinct (token_labels ts)" and "load_tokens tf = Inr ts" "distinct (map tk_sha256 ts)"
    and "t \<in> set ts" "tk_label t = label" "hash_token svc old = tk_sha256 t"
    and "rotate_token svc now seed label days tf = (tf', Inr new)"
    and "hash_token svc new \<notin> tk_sha256 ` set ts"
  shows "\<exists>ts' e. load_tokens tf' = Inr ts' \<and>
    e = (case days of None \<Rightarrow> tk_expires_at t | Some d \<Rightarrow> if d = 0 then None else Some (days_after now d)) \<and>
    lookup_token svc old ts' = None \<and>
    lookup_token svc new ts' = Some (t\<lparr>tk_sha256 := hash_token svc new, tk_expires_at := e\<rparr>) \<and>
    (\<forall>other. hash_token svc other \<noteq> hash_token svc old \<and> hash_token svc other \<noteq> hash_token svc new \<longrightarrow>
       lookup_token svc other ts' = lookup_token svc other ts)"
proof -
  have one: "s \<in> set ts \<Longrightarrow> tk_label s = label \<longleftrightarrow> s = t" for s
    using uniq assms(4,5) by (auto simp: token_labels_def distinct_map dest: inj_onD)
  have first: "List.find (\<lambda>s. tk_label s = label) ts = Some t"
    using assms(4,5) one by (induction ts) auto
  have same: "s \<in> set ts \<Longrightarrow> tk_sha256 s = tk_sha256 t \<longleftrightarrow> s = t" for s
    using assms(3,4) by (auto simp: distinct_map dest: inj_onD)
  have fresh: "s \<in> set ts \<Longrightarrow> tk_sha256 s \<noteq> hash_token svc new" for s
    using assms(8) by force
  define e where "e = (case days of None \<Rightarrow> tk_expires_at t | Some d \<Rightarrow> if d = 0 then None else Some (days_after now d))"
  define upd :: "token_record \<Rightarrow> token_record" where "upd = (\<lambda>s. if tk_label s = label then s\<lparr>tk_sha256 := hash_token svc new, tk_expires_at := e\<rparr> else s)"
  have rot: "rotate_by_label label h e' ts =
      (map (\<lambda>t. if tk_label t = label then t\<lparr>tk_sha256 := h, tk_expires_at := e'\<rparr> else t) ts, True)" for h e'
    using rotate_by_label_spec [OF uniq] assms(4,5) by (auto simp: token_labels_def)
  have tf': "load_tokens tf' = Inr (map upd ts)"
    using assms(7) by (auto simp: rotate_token_def assms(2) expiry_for_label_def first rot Let_def upd_def e_def
        split: option.splits)
  have find: "lookup_token svc x (map upd ts) = map_option upd (List.find (\<lambda>s. tk_sha256 (upd s) = hash_token svc x) ts)" for x
    by (simp add: lookup_token_def find_map_other comp_def)
  have sha: "s \<in> set ts \<Longrightarrow> tk_sha256 (upd s) = (if s = t then hash_token svc new else tk_sha256 s)" for s
    using one by (simp add: upd_def)
  have "lookup_token svc old (map upd ts) = None"
    unfolding find using sha same fresh [OF assms(4)] assms(6) by (auto simp: find_None_iff)
  moreover have "List.find (\<lambda>s. tk_sha256 (upd s) = hash_token svc new) ts = List.find (\<lambda>s. tk_label s = label) ts"
    using sha one fresh by (intro find_cong) auto
  then have "lookup_token svc new (map upd ts) = Some (t\<lparr>tk_sha256 := hash_token svc new, tk_expires_at := e\<rparr>)"
    unfolding find first by (simp add: upd_def assms(5))
  moreover have "lookup_token svc other (map upd ts) = lookup_token svc other ts"
    if "hash_token svc other \<noteq> hash_token svc old" "hash_token svc other \<noteq> hash_token svc new" for other
  proof -
    have "List.find (\<lambda>s. tk_sha256 (upd s) = hash_token svc other) ts = lookup_token svc other ts"
      unfolding lookup_token_def using sha that assms(6) by (intro find_cong) auto
    moreover have "lookup_token svc other ts = Some s \<Longrightarrow> upd s = s" for s
      using that assms(5,6) one by (auto simp: lookup_token_def find_Some_iff upd_def)
    ultimately show ?thesis unfolding find by (cases "lookup_token svc other ts") auto
  qed
  ultimately show ?thesis using tf' e_def by blast
qed

text \<open>
  In every token table the commands can produce, a label names one token, so rotating a label
  changes the secret of that token alone: the old secret is unknown at once, the new one gives the
  token's old scopes, access and actor with the new expiry, and every secret of another token is
  answered as before. (SHA-256 is taken to keep the secrets in use apart.)
\<close>

theorem rotation_swaps_secret:
  assumes "(token_step svc)\<^sup>*\<^sup>* No_Token_File tf" "load_tokens tf = Inr ts" "distinct (map tk_sha256 ts)"
    and "t \<in> set ts" "tk_label t = label" "hash_token svc old = tk_sha256 t"
    and "rotate_token svc now seed label days tf = (tf', Inr new)"
    and "hash_token svc new \<notin> tk_sha256 ` set ts"
  shows "\<exists>ts' e. load_tokens tf' = Inr ts' \<and>
    e = (case days of None \<Rightarrow> tk_expires_at t | Some d \<Rightarrow> if d = 0 then None else Some (days_after now d)) \<and>
    lookup_token svc old ts' = None \<and>
    lookup_token svc new ts' = Some (t\<lparr>tk_sha256 := hash_token svc new, tk_expires_at := e\<rparr>) \<and>
    (\<forall>other. hash_token svc other \<noteq> hash_token svc old \<and> hash_token svc other \<noteq> hash_token svc new \<longrightarrow>
       lookup_token svc other ts' = lookup_token svc other ts)"
  by (rule rotation_effect [OF _ assms(2-8)])
    (use labels_unique_reachable [OF assms(1)] assms(2) in \<open>simp add: labels_unique_def\<close>)

text \<open>
  Revoking a label makes the secrets of its tokens unknown and leaves the answer for every other
  token as it was; it reports whether there was such a token.
\<close>

theorem revocation_is_final:
  assumes "load_tokens tf = Inr ts" "distinct (map tk_sha256 ts)" "revoke_token label tf = (tf', Inr found)"
  shows "\<exists>ts'. load_tokens tf' = Inr ts' \<and> (found \<longleftrightarrow> label \<in> set (token_labels ts)) \<and>
    (\<forall>secret. lookup_token svc secret ts' =
       (case lookup_token svc secret ts of Some t \<Rightarrow> if tk_label t = label then None else Some t | None \<Rightarrow> None))"
proof -
  define ts' where "ts' = filter (\<lambda>t. tk_label t \<noteq> label) ts"
  have removed: "length ts' = length ts \<longleftrightarrow> label \<notin> set (token_labels ts)"
    unfolding ts'_def token_labels_def by (induction ts) (auto simp: le_imp_less_Suc less_imp_neq)
  have kept: "label \<notin> set (token_labels ts) \<Longrightarrow> ts' = ts"
    unfolding ts'_def by (auto simp: token_labels_def filter_id_conv)
  have "lookup_token svc secret ts' =
      (case lookup_token svc secret ts of Some t \<Rightarrow> if tk_label t = label then None else Some t | None \<Rightarrow> None)" for secret
    using assms(2) unfolding ts'_def lookup_token_def
  proof (induction ts)
    case (Cons t ts)
    let ?P = "\<lambda>t. tk_sha256 t = hash_token svc secret"
    show ?case
    proof (cases "?P t")
      case True
      then have "\<forall>s\<in>set ts. \<not> ?P s" using Cons.prems by simp (metis imageI)
      then have "List.find ?P ts = None" "List.find ?P (filter (\<lambda>s. tk_label s \<noteq> label) ts) = None"
        by (auto simp: find_None_iff)
      with True show ?thesis by simp
    qed (use Cons in simp)
  qed simp
  moreover have "load_tokens tf' = Inr ts'" "found \<longleftrightarrow> label \<in> set (token_labels ts)"
    using assms(1,3) removed kept
    by (auto simp: revoke_token_def remove_by_label_def Let_def ts'_def [symmetric] split: if_splits)
  ultimately show ?thesis by blast
qed

section \<open>A sample table\<close>

definition sample_token :: "string \<Rightarrow> token_record" where
  "sample_token secret =
     \<lparr>tk_label = ''ci'', tk_sha256 = secret, tk_scopes = [Scope_Repo ''repo-1''], tk_access = Write,
      tk_expires_at = None, tk_actor_id = Some ''ci-bot''\<rparr>"

lemma hash_plain [simp]: "hash_token plain_services s = s"
  by (simp add: hash_token_def plain_services_def)

lemma sample_scope: "parse_scope ''repo:repo-1'' = Inr (Scope_Repo ''repo-1'')"
  using scope_read_back [of "Scope_Repo ''repo-1''"] by (simp add: plain_id_def graph_char_def)

lemma sample_create:
  "create_token plain_services 0 ''s1'' ''ci'' [''repo:repo-1''] True None (Some ''ci-bot'') No_Token_File =
   (Token_File [sample_token ''brick_s1''], Inr ''brick_s1'')"
  by (simp add: create_token_def token_labels_def sample_scope Let_def generate_token_def add_token_def sample_token_def)

theorem scope_text_roundtrip_witness: "parse_scope (describe_scope (Scope_Org ''acme'')) = Inr (Scope_Org ''acme'')"
  by (rule scope_text_roundtrip) (simp add: plain_id_def graph_char_def)

theorem rotation_swaps_secret_witness:
  "\<exists>tf' ts'. rotate_token plain_services 0 ''s2'' ''ci'' (Some 7) (Token_File [sample_token ''brick_s1'']) =
     (tf', Inr ''brick_s2'') \<and> load_tokens tf' = Inr ts' \<and> lookup_token plain_services ''brick_s1'' ts' = None"
proof -
  have r: "rotate_token plain_services 0 ''s2'' ''ci'' (Some 7) (Token_File [sample_token ''brick_s1'']) =
      (Token_File [(sample_token ''brick_s1'')\<lparr>tk_sha256 := ''brick_s2'', tk_expires_at := Some (days_after 0 7)\<rparr>],
       Inr ''brick_s2'')"
    by (simp add: rotate_token_def Let_def generate_token_def sample_token_def)
  show ?thesis
    using rotation_swaps_secret [OF r_into_rtranclp [of "token_step plain_services", OF create [OF sample_create]],
        of "[sample_token ''brick_s1'']" "sample_token ''brick_s1''" "''ci''" "''brick_s1''", OF _ _ _ _ _ r]
    by (simp add: r) (simp add: sample_token_def)
qed

theorem revocation_is_final_witness:
  "\<exists>tf' ts'. revoke_token ''ci'' (Token_File [sample_token ''brick_s1'']) = (tf', Inr True) \<and>
     load_tokens tf' = Inr ts' \<and> lookup_token plain_services ''brick_s1'' ts' = None"
proof -
  have r: "revoke_token ''ci'' (Token_File [sample_token ''brick_s1'']) = (Token_File [], Inr True)"
    by (simp add: revoke_token_def remove_by_label_def sample_token_def)
  show ?thesis
    using revocation_is_final [OF _ _ r, of "[sample_token ''brick_s1'']" plain_services]
    by (simp add: r) (simp add: lookup_token_def sample_token_def)
qed

end
