(* ===== verification/Server_Routes.thy ===== *)
theory Server_Routes imports Server_Auth Session_Query Paths begin

text \<open>
  The HTTP surface of the server (\<^verbatim>\<open>crates/server/src/routes.rs\<close>) over the index projection of
  \<^verbatim>\<open>crates/server/src/index.rs\<close>: the bearer gate with its audit entry, the checks of org membership
  and bound actors, and every handler. A request names the route of \<^verbatim>\<open>build_router\<close> it matches,
  with the path segments as they stand in the URL; axum's percent-decoding of a captured segment,
  serde_json's parser, Rust's \<^verbatim>\<open>Debug\<close> text of a string and the \<^verbatim>\<open>brick\<close> executable of the local
  history bridge are parameters. Requests run one after the other.
\<close>

section \<open>The index projection\<close>

record server_index_status =
  xs_repo_id :: "string option"
  xs_event_count :: nat
  xs_mission_count :: nat
  xs_session_count :: nat
  xs_artifact_count :: nat
  xs_file_count :: nat
  xs_session_log_count :: nat
  xs_diff_count :: nat
  xs_rebuilt_at :: instant

record server_session_query =
  vq_query :: session_query
  vq_limit :: "nat option"

record server_sessions_response =
  vr_repo_id :: "string option"
  vr_sessions :: "indexed_session list"

definition rebuild_server_index :: "instant \<Rightarrow> string option \<Rightarrow> trace_event list \<Rightarrow> trace_index server_result" where
  "rebuild_server_index now repo evs =
     (case build_index now (filter (\<lambda>ev. repo_matches_server (te_repo_id ev) repo) evs) of
        Inl e \<Rightarrow> Inl (Index_Build e)
      | Inr idx \<Rightarrow> Inr idx)"

definition server_index_status :: "string option \<Rightarrow> trace_index \<Rightarrow> server_index_status" where
  "server_index_status repo idx =
     \<lparr>xs_repo_id = repo, xs_event_count = ti_event_count idx, xs_mission_count = length (ti_missions idx),
      xs_session_count = length (ti_sessions idx), xs_artifact_count = length (ti_artifacts idx),
      xs_file_count = length (ti_files idx), xs_session_log_count = length (ti_session_logs idx),
      xs_diff_count = length (ti_diffs idx), xs_rebuilt_at = ti_rebuilt_at idx\<rparr>"

definition query_server_sessions ::
  "string option \<Rightarrow> trace_index \<Rightarrow> server_session_query \<Rightarrow> server_sessions_response" where
  "query_server_sessions repo idx q =
     \<lparr>vr_repo_id = repo,
      vr_sessions = take (clamp 1 1000 (unwrap_or (vq_limit q) 20)) (query_indexed_sessions idx (vq_query q))\<rparr>"

section \<open>Requests and answers\<close>

text \<open>What running the \<^verbatim>\<open>brick\<close> executable gave: it did not start, or its status and output.\<close>

datatype brick_run = Run_Failed string | Run_Done bool string string

record server_env =
  sn_services :: services
  sn_data_dir :: string
  sn_debug :: "string \<Rightarrow> string"
  sn_percent_decode :: "string \<Rightarrow> string option"
  sn_parse_json :: "string \<Rightarrow> json option"
  sn_bridge :: "(string list \<Rightarrow> brick_run) option"

datatype route =
    Health
  | Events
  | Index_Status
  | Sessions
  | History_Sources
  | History_Live
  | Source_Detection
  | History_Doctor
  | History_Refresh string
  | History_Sessions string
  | History_Export string string
  | Repo_Events string
  | Repo_Index_Status string
  | Repo_Sessions string

fun route_path :: "route \<Rightarrow> string" where
  "route_path Health = ''/health''"
| "route_path Events = ''/v1/events''"
| "route_path Index_Status = ''/v1/index/status''"
| "route_path Sessions = ''/v1/sessions''"
| "route_path History_Sources = ''/v1/local-history/sources''"
| "route_path History_Live = ''/v1/local-history/live''"
| "route_path Source_Detection = ''/v1/local-history/source-detection''"
| "route_path History_Doctor = ''/v1/local-history/doctor''"
| "route_path (History_Refresh s) = ''/v1/local-history/sources/'' @ s @ ''/refresh''"
| "route_path (History_Sessions s) = ''/v1/local-history/sources/'' @ s @ ''/sessions''"
| "route_path (History_Export s i) = ''/v1/local-history/sources/'' @ s @ ''/sessions/'' @ i @ ''/export''"
| "route_path (Repo_Events r) = ''/v1/repos/'' @ r @ ''/events''"
| "route_path (Repo_Index_Status r) = ''/v1/repos/'' @ r @ ''/index/status''"
| "route_path (Repo_Sessions r) = ''/v1/repos/'' @ r @ ''/sessions''"

record list_query =
  lq_after :: "string option"
  lq_limit :: "nat option"
  lq_repo_id :: "string option"

record history_query =
  hq_source :: "string option"
  hq_limit :: "nat option"
  hq_offset :: "nat option"
  hq_schema :: "string option"
  hq_format :: "string option"
  hq_window_secs :: "nat option"
  hq_sources :: "string list"

record request =
  rq_route :: route
  rq_method :: http_method
  rq_authorization :: "string option"
  rq_list :: list_query
  rq_sessions :: server_session_query
  rq_history :: history_query
  rq_events :: "trace_event list"

record export_file =
  xf_content_type :: string
  xf_disposition :: string
  xf_body :: string

datatype response =
    Healthy
  | Unauthorized
  | Forbidden_Resource
  | Failed nat string
  | Page events_page
  | Pushed push_response
  | Status server_index_status
  | Sessions_Found server_sessions_response
  | Json_Value json
  | Exported export_file

record server_state =
  ss_store :: server_store
  ss_audit :: "audit_line list"

section \<open>Errors of a handler\<close>

definition arrow :: string where
  "arrow = [CHR 0xE2, CHR 0x86, CHR 0x92]"

definition index_error_message :: "brick_error \<Rightarrow> string" where
  "index_error_message e =
     (case e of
        Payload_Parse i ty \<Rightarrow> ''failed to parse payload for event '' @ i @ '' ('' @ ty @ '')''
      | _ \<Rightarrow> [])"

fun server_error_message :: "server_env \<Rightarrow> server_error \<Rightarrow> string" where
  "server_error_message sn (Server_Log_Parse n) =
     ''failed to parse server event log at '' @ path_join (sn_data_dir sn) ''events.jsonl'' @ '' line '' @ show_nat n"
| "server_error_message sn Projection_Parse =
     ''failed to parse repo'' @ arrow @ ''org map at '' @ path_join (sn_data_dir sn) ''repo_org.json''"
| "server_error_message sn Members_Parse =
     ''failed to parse org-members map at '' @ path_join (sn_data_dir sn) ''org_members.json''"
| "server_error_message sn (Invalid_Cursor v) = ''invalid event cursor '' @ sn_debug sn v"
| "server_error_message sn (Repo_Mismatch i r route) =
     ''event '' @ i @ '' repo_id '' @ sn_debug sn r @ '' does not match route repo_id '' @ sn_debug sn route"
| "server_error_message sn (Index_Build e) = index_error_message e"

definition route_error :: "server_env \<Rightarrow> server_error \<Rightarrow> response" where
  "route_error sn e =
     (let message = server_error_message sn e in
      if contains ''repo_id'' message \<or> contains ''cursor'' message then Failed 400 message
      else Failed 500 ''internal server error'')"

text \<open>A fallible handler answers with its value or with the error's response.\<close>

definition answer :: "('a \<Rightarrow> response) \<Rightarrow> response + 'a \<Rightarrow> response" where
  "answer ok r = (case r of Inl e \<Rightarrow> e | Inr v \<Rightarrow> ok v)"

definition or_route_error :: "server_env \<Rightarrow> 'a server_result \<Rightarrow> response + 'a" where
  "or_route_error sn r = (case r of Inl e \<Rightarrow> Inl (route_error sn e) | Inr v \<Rightarrow> Inr v)"

section \<open>Checks of the repo handlers\<close>

text \<open>The first org of the events that the user belongs to, with the store's caches filled on the way.\<close>

fun first_member_org :: "string \<Rightarrow> string list \<Rightarrow> server_store \<Rightarrow> server_store \<times> string option" where
  "first_member_org user [] st = (st, None)"
| "first_member_org user (org # orgs) st =
     (case is_org_member org user st of
        (st', True) \<Rightarrow> (st', Some org)
      | (st', False) \<Rightarrow> first_member_org user orgs st')"

definition enforce_repo_member ::
  "server_env \<Rightarrow> authed_identity option \<Rightarrow> string \<Rightarrow> bool \<Rightarrow> trace_event list \<Rightarrow> server_store \<Rightarrow>
   server_store \<times> (response + unit)" where
  "enforce_repo_member sn identity repo claim_if_missing evs st =
     (case map_option ai_kind identity of
        Some (Supabase user _) \<Rightarrow>
          (case resolve_repo_org (sn_services sn) repo st of
             (st1, Some org) \<Rightarrow>
               (case is_org_member org user st1 of
                  (st2, True) \<Rightarrow> (st2, Inr ())
                | (st2, False) \<Rightarrow>
                    (st2, Inl (Failed 403 ''repo belongs to an org this Supabase user is not a member of'')))
           | (st1, None) \<Rightarrow>
               if claim_if_missing
               then (case first_member_org user (List.map_filter te_org_id evs) st1 of
                       (st2, None) \<Rightarrow>
                         (st2, Inl (Failed 403 ''repo has no org binding yet; push at least one event tagged with an org_id this user belongs to''))
                     | (st2, Some org) \<Rightarrow>
                         (case claim_repo_org (sn_services sn) repo org st2 of
                            (st3, r) \<Rightarrow> (st3, or_route_error sn r)))
               else (st1, Inl (Failed 403 ''repo has not been bound to an org'')))
      | _ \<Rightarrow> (st, Inr ()))"

definition enforce_actor_binding :: "server_env \<Rightarrow> authed_identity option \<Rightarrow> trace_event list \<Rightarrow> response + unit" where
  "enforce_actor_binding sn identity evs =
     (case Option.bind identity ai_actor_id of
        None \<Rightarrow> Inr ()
      | Some bound \<Rightarrow>
          (case List.find (\<lambda>ev. actor_id (te_actor ev) \<noteq> bound) evs of
             None \<Rightarrow> Inr ()
           | Some ev \<Rightarrow>
               Inl (Failed 403 (''event '' @ te_event_id ev @ '' actor_id '' @ sn_debug sn (actor_id (te_actor ev)) @
                 '' does not match token's bound actor '' @ sn_debug sn bound))))"

section \<open>Event and index handlers\<close>

definition list_events_handler :: "server_env \<Rightarrow> list_query \<Rightarrow> server_store \<Rightarrow> response" where
  "list_events_handler sn q st =
     answer Page (or_route_error sn
       (list_events_page (sn_services sn) st (lq_repo_id q) (lq_after q) (lq_limit q)))"

definition list_repo_events_handler ::
  "server_env \<Rightarrow> authed_identity option \<Rightarrow> string \<Rightarrow> list_query \<Rightarrow> server_store \<Rightarrow> server_store \<times> response" where
  "list_repo_events_handler sn identity repo q st =
     (case enforce_repo_member sn identity repo False [] st of
        (st1, Inl e) \<Rightarrow> (st1, e)
      | (st1, Inr _) \<Rightarrow>
          (st1, answer Page (or_route_error sn
             (list_events_page (sn_services sn) st1 (Some repo) (lq_after q) (lq_limit q)))))"

definition push_events_handler ::
  "server_env \<Rightarrow> authed_identity option \<Rightarrow> trace_event list \<Rightarrow> server_store \<Rightarrow> server_store \<times> response" where
  "push_events_handler sn identity evs st =
     (case enforce_actor_binding sn identity evs of
        Inl e \<Rightarrow> (st, e)
      | Inr _ \<Rightarrow>
          (case append_server_events (sn_services sn) evs st of
             (st1, r) \<Rightarrow> (st1, answer Pushed (or_route_error sn r))))"

definition push_repo_events_handler ::
  "server_env \<Rightarrow> authed_identity option \<Rightarrow> string \<Rightarrow> trace_event list \<Rightarrow> server_store \<Rightarrow> server_store \<times> response" where
  "push_repo_events_handler sn identity repo evs st =
     (case enforce_repo_member sn identity repo True evs st of
        (st1, Inl e) \<Rightarrow> (st1, e)
      | (st1, Inr _) \<Rightarrow>
          (case enforce_actor_binding sn identity evs of
             Inl e \<Rightarrow> (st1, e)
           | Inr _ \<Rightarrow>
               (case append_events_for_repo (sn_services sn) (Some repo) evs st1 of
                  (st2, r) \<Rightarrow> (st2, answer Pushed (or_route_error sn r)))))"

definition index_status_response :: "server_env \<Rightarrow> instant \<Rightarrow> string option \<Rightarrow> server_store \<Rightarrow> response" where
  "index_status_response sn now repo st =
     answer (\<lambda>idx. Status (server_index_status repo idx)) (or_route_error sn
       (and_then (read_server_events_for_repo (sn_services sn) repo st) (rebuild_server_index now repo)))"

definition sessions_response :: "server_env \<Rightarrow> instant \<Rightarrow> string option \<Rightarrow> server_session_query \<Rightarrow> server_store \<Rightarrow> response" where
  "sessions_response sn now repo q st =
     answer (\<lambda>idx. Sessions_Found (query_server_sessions repo idx q)) (or_route_error sn
       (and_then (read_server_events_for_repo (sn_services sn) repo st) (rebuild_server_index now repo)))"

section \<open>The local history bridge\<close>

definition run_local_brick_command :: "server_env \<Rightarrow> string \<Rightarrow> string list \<Rightarrow> response + string" where
  "run_local_brick_command sn command_group args =
     (case sn_bridge sn of
        None \<Rightarrow> Inl (Failed 403 ''local history bridge is disabled; restart brick-server with --enable-local-history'')
      | Some run \<Rightarrow>
          (case run (command_group # args) of
             Run_Failed e \<Rightarrow> Inl (Failed 500 (''failed to run local brick command: '' @ e))
           | Run_Done True out err \<Rightarrow> Inr out
           | Run_Done False out err \<Rightarrow>
               (let stderr = trim (from_utf8_lossy err); stdout = trim (from_utf8_lossy out)
                in Inl (Failed 400 (if stderr = [] then stdout else stderr)))))"

text \<open>serde_json's own message in the error is left out.\<close>

definition parse_local_json :: "server_env \<Rightarrow> string \<Rightarrow> string \<Rightarrow> response + json" where
  "parse_local_json sn out command =
     (case sn_parse_json sn out of
        None \<Rightarrow> Inl (Failed 500 (command @ '' returned invalid JSON''))
      | Some j \<Rightarrow> Inr j)"

definition run_history_value :: "server_env \<Rightarrow> string list \<Rightarrow> response + json" where
  "run_history_value sn args =
     and_then (run_local_brick_command sn ''history'' args) (\<lambda>out. parse_local_json sn out ''local history command'')"

definition run_source_json :: "server_env \<Rightarrow> string list \<Rightarrow> response" where
  "run_source_json sn args =
     answer Json_Value (and_then (run_local_brick_command sn ''source'' args)
       (\<lambda>out. parse_local_json sn out ''local source command''))"

definition run_history_json :: "server_env \<Rightarrow> string list \<Rightarrow> response" where
  "run_history_json sn args = answer Json_Value (run_history_value sn args)"

definition normalized_source :: "string option \<Rightarrow> string" where
  "normalized_source v = unwrap_or (filter_opt (\<lambda>s. s \<noteq> []) (map_option trim v)) ''all''"

definition source_char :: "char \<Rightarrow> bool" where
  "source_char c \<longleftrightarrow>
     (let n = of_char c :: nat in n \<in> {48..57} \<or> n \<in> {65..90} \<or> n \<in> {97..122}) \<or> c = CHR ''_'' \<or> c = CHR ''-''"

fun normalized_source_list :: "string list \<Rightarrow> string list \<Rightarrow> response + string list" where
  "normalized_source_list [] acc = Inr acc"
| "normalized_source_list (v # vs) acc =
     (let name = trim v in
      if name = [] then normalized_source_list vs acc
      else if \<not> list_all source_char name then Inl (Failed 400 (''invalid source name: '' @ name))
      else normalized_source_list vs (if name \<in> set acc then acc else acc @ [name]))"

definition normalized_history_limit :: "nat option \<Rightarrow> nat \<Rightarrow> nat" where
  "normalized_history_limit v default_limit = clamp 1 1000 (unwrap_or v default_limit)"

definition normalized_export_schema :: "string option \<Rightarrow> response + string" where
  "normalized_export_schema v =
     (let s = unwrap_or v ''audit-v1'' in
      if s = ''audit-v1'' \<or> s = ''source-metadata-v1'' then Inr s
      else Inl (Failed 400 (''unsupported export schema: '' @ s)))"

definition normalized_export_format :: "string option \<Rightarrow> response + string" where
  "normalized_export_format v =
     (let s = unwrap_or v ''json'' in
      if s = ''json'' \<or> s = ''csv'' then Inr s
      else Inl (Failed 400 (''unsupported export format: '' @ s)))"

definition local_history_live :: "server_env \<Rightarrow> history_query \<Rightarrow> response" where
  "local_history_live sn q =
     run_history_json sn [''live'', ''--source'', normalized_source (hq_source q), ''--window-secs'',
       show_nat (unwrap_or (hq_window_secs q) 120), ''--format'', ''json'']"

definition local_source_index_selected :: "server_env \<Rightarrow> string list \<Rightarrow> response" where
  "local_source_index_selected sn sources =
     (case normalized_source_list sources [] of
        Inl e \<Rightarrow> e
      | Inr names \<Rightarrow>
          run_source_json sn ([''scan'', ''--write-defaults'', ''--format'', ''json''] @
            concat (map (\<lambda>s. [''--include'', s]) names)))"

definition local_history_refresh :: "server_env \<Rightarrow> instant \<Rightarrow> string \<Rightarrow> history_query \<Rightarrow> response" where
  "local_history_refresh sn now source0 q =
     (let source = normalized_source (Some source0);
          limit = show_nat (normalized_history_limit (hq_limit q) 100)
      in answer Json_Value (
           and_then (run_history_value sn [''sessions'', ''--source'', source, ''--limit'', limit,
             ''--offset'', ''0'', ''--format'', ''json'']) (\<lambda>sessions.
           and_then (run_history_value sn [''plans'', ''--source'', source, ''--limit'', ''20'',
             ''--offset'', ''0'', ''--format'', ''json'']) (\<lambda>plans.
           Inr (enc_struct [(''source_id'', JStr source), (''refreshed_at'', JStr (rfc3339 (sn_services sn) now)),
             (''sessions'', sessions), (''plans'', plans)])))))"

definition local_history_sessions :: "server_env \<Rightarrow> string \<Rightarrow> history_query \<Rightarrow> response" where
  "local_history_sessions sn source q =
     run_history_json sn [''sessions'', ''--source'', normalized_source (Some source), ''--limit'',
       show_nat (normalized_history_limit (hq_limit q) 25), ''--offset'',
       show_nat (min (unwrap_or (hq_offset q) 0) 100000), ''--format'', ''json'']"

text \<open>\<^verbatim>\<open>HeaderValue::from_str\<close> accepts visible bytes, the space, the tab and bytes from 0x80 on.\<close>

definition header_char :: "char \<Rightarrow> bool" where
  "header_char c \<longleftrightarrow> (let n = of_char c :: nat in n \<ge> 32 \<and> n \<noteq> 127 \<or> n = 9)"

definition export_disposition :: "string \<Rightarrow> string \<Rightarrow> string \<Rightarrow> response + string" where
  "export_disposition source session fmt =
     (let v = ''attachment; filename=\"brick-metadata-'' @ source @ ''-'' @ session @ ''.'' @ fmt @ ''\"''
      in if list_all header_char v then Inr v else Inl (Failed 500 ''failed to parse header value''))"

definition local_history_export :: "server_env \<Rightarrow> string \<Rightarrow> string \<Rightarrow> history_query \<Rightarrow> response" where
  "local_history_export sn source0 session q =
     (let source = normalized_source (Some source0) in
      answer Exported (
        and_then (normalized_export_schema (hq_schema q)) (\<lambda>schema.
        and_then (normalized_export_format (hq_format q)) (\<lambda>fmt.
        and_then (run_local_brick_command sn ''history'' [''export'', ''--source'', source, ''--session-id'', session,
          ''--schema'', schema, ''--format'', fmt]) (\<lambda>out.
        and_then (export_disposition source session fmt) (\<lambda>disposition.
        Inr \<lparr>xf_content_type = (if fmt = ''csv'' then ''text/csv; charset=utf-8'' else ''application/json''),
             xf_disposition = disposition, xf_body = out\<rparr>))))))"

section \<open>Dispatch\<close>

definition with_store :: "server_state \<Rightarrow> server_store \<times> response \<Rightarrow> server_state \<times> response" where
  "with_store s r = (case r of (st, resp) \<Rightarrow> (s\<lparr>ss_store := st\<rparr>, resp))"

text \<open>A captured segment that is no valid percent-encoded UTF-8 is axum's 400.\<close>

definition with_segment :: "server_env \<Rightarrow> string \<Rightarrow> server_state \<Rightarrow> (string \<Rightarrow> server_state \<times> response) \<Rightarrow> server_state \<times> response" where
  "with_segment sn seg s k = (case sn_percent_decode sn seg of None \<Rightarrow> (s, Failed 400 []) | Some v \<Rightarrow> k v)"

definition is_read :: "http_method \<Rightarrow> bool" where
  "is_read m \<longleftrightarrow> m = GET \<or> m = HEAD"

text \<open>The method router answers 405 for a method the route has no handler for.\<close>

definition dispatch ::
  "server_env \<Rightarrow> instant \<Rightarrow> authed_identity option \<Rightarrow> request \<Rightarrow> server_state \<Rightarrow> server_state \<times> response" where
  "dispatch sn now identity rq s =
     (let m = rq_method rq; st = ss_store s; h = rq_history rq; no_method = (s, Failed 405 []);
          get_only = (\<lambda>r. if is_read m then (s, r) else no_method) in
      case rq_route rq of
        Health \<Rightarrow> get_only Healthy
      | Events \<Rightarrow>
          if is_read m then (s, list_events_handler sn (rq_list rq) st)
          else if m = POST then with_store s (push_events_handler sn identity (rq_events rq) st)
          else no_method
      | Index_Status \<Rightarrow> get_only (index_status_response sn now None st)
      | Sessions \<Rightarrow> get_only (sessions_response sn now None (rq_sessions rq) st)
      | History_Sources \<Rightarrow> get_only (run_history_json sn [''sources'', ''--format'', ''json''])
      | History_Live \<Rightarrow> get_only (local_history_live sn h)
      | Source_Detection \<Rightarrow>
          if is_read m then (s, run_source_json sn [''scan'', ''--format'', ''json''])
          else if m = POST then (s, local_source_index_selected sn (hq_sources h))
          else no_method
      | History_Doctor \<Rightarrow>
          get_only (run_history_json sn [''doctor'', ''--source'', normalized_source (hq_source h), ''--format'', ''json''])
      | History_Refresh seg \<Rightarrow>
          if m = POST then with_segment sn seg s (\<lambda>src. (s, local_history_refresh sn now src h)) else no_method
      | History_Sessions seg \<Rightarrow>
          if is_read m then with_segment sn seg s (\<lambda>src. (s, local_history_sessions sn src h)) else no_method
      | History_Export seg i \<Rightarrow>
          if is_read m
          then with_segment sn seg s (\<lambda>src. with_segment sn i s (\<lambda>session. (s, local_history_export sn src session h)))
          else no_method
      | Repo_Events seg \<Rightarrow>
          if is_read m
          then with_segment sn seg s (\<lambda>repo. with_store s (list_repo_events_handler sn identity repo (rq_list rq) st))
          else if m = POST
          then with_segment sn seg s (\<lambda>repo. with_store s (push_repo_events_handler sn identity repo (rq_events rq) st))
          else no_method
      | Repo_Index_Status seg \<Rightarrow>
          if is_read m then with_segment sn seg s (\<lambda>repo. (s, index_status_response sn now (Some repo) st)) else no_method
      | Repo_Sessions seg \<Rightarrow>
          if is_read m
          then with_segment sn seg s (\<lambda>repo. (s, sessions_response sn now (Some repo) (rq_sessions rq) st))
          else no_method)"

section \<open>The gate\<close>

definition method_text :: "http_method \<Rightarrow> string" where
  "method_text m =
     (case m of GET \<Rightarrow> ''GET'' | HEAD \<Rightarrow> ''HEAD'' | OPTIONS \<Rightarrow> ''OPTIONS'' | POST \<Rightarrow> ''POST'' | Other_Method t \<Rightarrow> t)"

definition bearer_token :: "request \<Rightarrow> string option" where
  "bearer_token rq = Option.bind (rq_authorization rq) (strip_prefix ''Bearer '')"

text \<open>The target of a request; a lookup of the repository's org may fill the projection's cache.\<close>

definition request_target :: "server_env \<Rightarrow> auth_config \<Rightarrow> request \<Rightarrow> server_store \<Rightarrow> server_store \<times> resource_target" where
  "request_target sn ac rq st =
     (let path = route_path (rq_route rq) in
      (case repo_id_for_path path of
         Some repo \<Rightarrow> if ac_needs_org ac then fst (resolve_repo_org (sn_services sn) repo st) else st
       | None \<Rightarrow> st,
       resource_target_for_path path (ac_needs_org ac) (\<lambda>repo. snd (resolve_repo_org (sn_services sn) repo st))))"

definition require_bearer_token ::
  "server_env \<Rightarrow> auth_config \<Rightarrow> instant \<Rightarrow> request \<Rightarrow> server_state \<Rightarrow> server_state \<times> response" where
  "require_bearer_token sn ac now rq s =
     (case bearer_token rq of
        None \<Rightarrow> (s, Unauthorized)
      | Some token \<Rightarrow>
          (let (st, target) = request_target sn ac rq (ss_store s);
               required = required_access (rq_method rq);
               s1 = s\<lparr>ss_store := st\<rparr>
           in case config_authorize (sn_services sn) ac token target required now of
                Inl Forbidden \<Rightarrow> (s1, Forbidden_Resource)
              | Inl _ \<Rightarrow> (s1, Unauthorized)
              | Inr identity \<Rightarrow>
                  (let s2 = (if required = Write
                             then s1\<lparr>ss_audit := audit_record
                                    \<lparr>au_at = now, au_token_label = ai_label identity, au_actor_id = ai_actor_id identity,
                                     au_method = method_text (rq_method rq), au_path = route_path (rq_route rq)\<rparr> (ss_audit s1)\<rparr>
                             else s1)
                   in dispatch sn now (Some identity) rq s2)))"

definition handle_request ::
  "server_env \<Rightarrow> auth_config option \<Rightarrow> instant \<Rightarrow> request \<Rightarrow> server_state \<Rightarrow> server_state \<times> response" where
  "handle_request sn auth now rq s =
     (if rq_route rq = Health then dispatch sn now None rq s
      else (case auth of
              None \<Rightarrow> dispatch sn now None rq s
            | Some ac \<Rightarrow> require_bearer_token sn ac now rq s))"

end
