(* ===== verification/Server_Gate.thy ===== *)
theory Server_Gate imports Server_Routes begin

text \<open>
  What the gate of \<^verbatim>\<open>routes.rs\<close> guarantees: how far a token limited to one repository reaches, which
  requests can change the log and what they leave in the audit log, actor binding, and where the
  checks of org membership are and are not made.
\<close>

section \<open>Targets of routes\<close>

fun repo_segment :: "route \<Rightarrow> string option" where
  "repo_segment (Repo_Events seg) = Some seg"
| "repo_segment (Repo_Index_Status seg) = Some seg"
| "repo_segment (Repo_Sessions seg) = Some seg"
| "repo_segment _ = None"

text \<open>A captured segment is what stands between two slashes.\<close>

definition route_ok :: "route \<Rightarrow> bool" where
  "route_ok r \<longleftrightarrow> (\<forall>seg. repo_segment r = Some seg \<longrightarrow> seg \<noteq> [] \<and> CHR ''/'' \<notin> set seg)"

lemma trim_one_slash: "c \<noteq> CHR ''/'' \<Longrightarrow> trim_start_matches ''/'' (CHR ''/'' # c # s) = c # s"
  by (simp add: trim_start_matches_def strip_seqs.simps [of _ "CHR ''/'' # c # s"] strip_seqs.simps [of _ "c # s"])

lemma repo_id_for_route:
  assumes "route_ok r"
  shows "repo_id_for_path (route_path r) = repo_segment r"
  using assms
  by (cases r)
    (simp_all add: repo_id_for_path_def trim_one_slash route_ok_def split_on_append split: list.split)

lemma resolve_repo_org_log [simp]: "sv_log (fst (resolve_repo_org svc repo st)) = sv_log st"
proof -
  obtain st1 r where ens: "ensure_repo_org_loaded svc st = (st1, r)" by (cases "ensure_repo_org_loaded svc st")
  then have "sv_log st1 = sv_log st" using ensure_repo_org_log [of svc st] by simp
  then show ?thesis by (cases r) (simp_all add: resolve_repo_org_def ens split: option.split)
qed

lemma is_org_member_log [simp]: "sv_log (fst (is_org_member org user st)) = sv_log st"
proof -
  obtain st1 r where ens: "ensure_org_members_loaded st = (st1, r)" by (cases "ensure_org_members_loaded st")
  then have "sv_log st1 = sv_log st" using ensure_members_log [of st] by simp
  then show ?thesis by (cases r) (simp_all add: is_org_member_def org_members_def ens)
qed

lemma first_member_org_log [simp]: "sv_log (fst (first_member_org user orgs st)) = sv_log st"
proof (induction orgs arbitrary: st)
  case (Cons org orgs)
  obtain st1 b where m: "is_org_member org user st = (st1, b)" by (cases "is_org_member org user st")
  then have "sv_log st1 = sv_log st" using is_org_member_log [of org user st] by simp
  then show ?case using Cons.IH [of st1] by (cases b) (simp_all add: m)
qed simp

text \<open>How the member check ends for a Supabase user.\<close>

lemma enforce_supabase_cases:
  assumes "enforce_repo_member sn (Some i) repo claim evs st = (st', x)" "ai_kind i = Supabase user email"
    and "resolve_repo_org (sn_services sn) repo st = (st1, own)"
  obtains (member) org where "own = Some org" "is_org_member org user st1 = (st', True)" "x = Inr ()"
  | (outsider) org where "own = Some org" "is_org_member org user st1 = (st', False)"
      "x = Inl (Failed 403 ''repo belongs to an org this Supabase user is not a member of'')"
  | (unbound) "own = None" "\<not> claim" "st' = st1" "x = Inl (Failed 403 ''repo has not been bound to an org'')"
  | (no_org) "own = None" "claim" "first_member_org user (List.map_filter te_org_id evs) st1 = (st', None)"
      "x = Inl (Failed 403 ''repo has no org binding yet; push at least one event tagged with an org_id this user belongs to'')"
  | (claimed) org st2 r where "own = None" "claim"
      "first_member_org user (List.map_filter te_org_id evs) st1 = (st2, Some org)"
      "claim_repo_org (sn_services sn) repo org st2 = (st', r)" "x = or_route_error sn r"
proof (cases own)
  case None
  show ?thesis
  proof (cases claim)
    case True
    obtain st2 org where first: "first_member_org user (List.map_filter te_org_id evs) st1 = (st2, org)"
      by (cases "first_member_org user (List.map_filter te_org_id evs) st1")
    show ?thesis
    proof (cases org)
      case org: None
      then show ?thesis
        using assms None True first no_org by (simp add: enforce_repo_member_def)
    next
      case (Some o')
      obtain st3 r where "claim_repo_org (sn_services sn) repo o' st2 = (st3, r)"
        by (cases "claim_repo_org (sn_services sn) repo o' st2")
      then show ?thesis
        using assms None True first Some claimed [of st2 o' r] by (simp add: enforce_repo_member_def)
    qed
  next
    case False
    then show ?thesis using assms None unbound by (simp add: enforce_repo_member_def)
  qed
next
  case (Some org)
  obtain st2 b where "is_org_member org user st1 = (st2, b)" by (cases "is_org_member org user st1")
  then show ?thesis
    using assms Some member [of org] outsider [of org] by (cases b) (simp_all add: enforce_repo_member_def)
qed

lemma enforce_local [simp]:
  "ai_kind i = Local_Token \<Longrightarrow> enforce_repo_member sn (Some i) repo claim evs st = (st, Inr ())"
  "enforce_repo_member sn None repo claim evs st = (st, Inr ())"
  by (simp_all add: enforce_repo_member_def)

lemma enforce_repo_member_log [simp]: "sv_log (fst (enforce_repo_member sn identity repo claim evs st)) = sv_log st"
proof -
  obtain st' x where enf: "enforce_repo_member sn identity repo claim evs st = (st', x)"
    by (cases "enforce_repo_member sn identity repo claim evs st")
  have "sv_log st' = sv_log st"
  proof (cases "\<exists>i user email. identity = Some i \<and> ai_kind i = Supabase user email")
    case True
    then obtain i user email where i: "identity = Some i" "ai_kind i = Supabase user email" by blast
    obtain st1 own where res: "resolve_repo_org (sn_services sn) repo st = (st1, own)"
      by (cases "resolve_repo_org (sn_services sn) repo st")
    then have log1: "sv_log st1 = sv_log st" using resolve_repo_org_log [of "sn_services sn" repo st] by simp
    show ?thesis
      using enf [unfolded i(1)] i(2) res
    proof (cases rule: enforce_supabase_cases)
      case (member org)
      then show ?thesis using log1 is_org_member_log [of org user st1] by simp
    next
      case (outsider org)
      then show ?thesis using log1 is_org_member_log [of org user st1] by simp
    next
      case no_org
      then show ?thesis using log1 first_member_org_log [of user "List.map_filter te_org_id evs" st1] by simp
    next
      case (claimed org st2 r)
      then show ?thesis
        using log1 first_member_org_log [of user "List.map_filter te_org_id evs" st1]
          record_repo_orgs_log [of "sn_services sn" "[(repo, org)]" st2] by (simp add: claim_repo_org_def)
    qed (use log1 in simp)
  next
    case False
    then have "enforce_repo_member sn identity repo claim evs st = (st, Inr ())"
      by (cases identity; cases "ai_kind (the identity)") auto
    then show ?thesis using enf by simp
  qed
  then show ?thesis by (simp add: enf)
qed

lemma request_target_log [simp]: "sv_log (fst (request_target sn ac rq st)) = sv_log st"
  by (simp add: request_target_def Let_def split: option.split)

lemma request_target_snd:
  assumes "route_ok (rq_route rq)"
  shows "snd (request_target sn ac rq st) =
    (case repo_segment (rq_route rq) of
       None \<Rightarrow> Target_Global
     | Some seg \<Rightarrow> Target_Repo seg (if ac_needs_org ac then snd (resolve_repo_org (sn_services sn) seg st) else None))"
  by (simp add: request_target_def Let_def resource_target_for_path_def repo_id_for_route [OF assms] split: option.split)

section \<open>What a push writes\<close>

lemma normalized_events:
  assumes "normalize_repo_events ro evs = Inr evs'"
  shows "map te_event_id evs' = map te_event_id evs" "map te_actor evs' = map te_actor evs"
    "\<forall>ev\<in>set evs'. \<forall>r. ro = Some r \<longrightarrow> te_repo_id ev = Some r"
proof -
  have "map te_event_id evs' = map te_event_id evs \<and> map te_actor evs' = map te_actor evs \<and>
      (\<forall>ev\<in>set evs'. \<forall>r. ro = Some r \<longrightarrow> te_repo_id ev = Some r)"
  proof (cases ro)
    case None
    then show ?thesis using assms by (simp add: normalize_repo_events_def)
  next
    case (Some r)
    then have "list_all2 (\<lambda>ev ev'. scope_to_route r ev = Inr ev') evs evs'"
      using assms by (simp add: normalize_repo_events_def collect_results_Inr)
    then have "map te_event_id evs' = map te_event_id evs \<and> map te_actor evs' = map te_actor evs \<and>
        (\<forall>ev\<in>set evs'. te_repo_id ev = Some r)"
      by (induction rule: list_all2_induct) (auto simp: scope_to_route_def split: option.splits if_splits)
    then show ?thesis by (simp add: Some)
  qed
  then show "map te_event_id evs' = map te_event_id evs" "map te_actor evs' = map te_actor evs"
    "\<forall>ev\<in>set evs'. \<forall>r. ro = Some r \<longrightarrow> te_repo_id ev = Some r" by blast+
qed

lemma push_reads:
  assumes "append_events_for_repo svc ro evs st = (st', x)" "read_sequenced_events svc st = Inr es"
    and "\<forall>ev. services_read_back svc ev"
  shows "\<exists>acc. read_sequenced_events svc st' = Inr (es @ acc) \<and>
    (\<forall>ev\<in>snd ` set acc. (\<forall>r. ro = Some r \<longrightarrow> te_repo_id ev = Some r) \<and> te_actor ev \<in> te_actor ` set evs) \<and>
    ((\<exists>e. x = Inl e) \<or> te_event_id ` set evs \<subseteq> te_event_id ` snd ` (set es \<union> set acc))"
  using assms(1)
proof (cases rule: append_events_cases)
  case (stored evs' old)
  define acc where "acc = keep_unseen te_event_id (te_event_id ` set old) evs'"
  note norm = normalized_events [OF stored(1)]
  have "read_lines svc 0 (log_lines st') = Inr (es @ number_from (length (log_lines st)) acc)"
    unfolding stored(3) acc_def
    by (rule read_lines_append)
      (use assms(2,3) in \<open>simp_all add: read_sequenced_lines read_pushed_lines\<close>)
  moreover have "(\<forall>r. ro = Some r \<longrightarrow> te_repo_id ev = Some r) \<and> te_actor ev \<in> te_actor ` set evs"
    if "ev \<in> set acc" for ev
  proof -
    have ev: "ev \<in> set evs'" using that keep_unseen_fresh unfolding acc_def by metis
    then show ?thesis using norm(2,3) by (metis image_eqI list.set_map)
  qed
  moreover have "te_event_id ` set evs \<subseteq> te_event_id ` snd ` set es \<union> te_event_id ` set acc"
  proof -
    have "old = map snd es"
      using stored(2) assms(2) by (simp add: read_server_events_def)
    moreover have "te_event_id ` set evs = te_event_id ` set evs'" using norm(1) by (metis list.set_map)
    ultimately show ?thesis
      using keep_unseen_keys [of te_event_id "te_event_id ` set old" evs'] by (auto simp: acc_def)
  qed
  moreover have "snd ` set (number_from i acc) = set acc" for i
    by (metis list.set_map number_from_simps(3))
  ultimately show ?thesis
    by (intro exI [of _ "number_from (length (log_lines st)) acc"]) (simp add: read_sequenced_lines image_Un)
qed (use assms(2) in auto)

lemma push_readsE:
  assumes "append_events_for_repo svc ro evs st = (st', x)" "read_sequenced_events svc st = Inr es"
    and "\<forall>ev. services_read_back svc ev"
  obtains acc where "read_sequenced_events svc st' = Inr (es @ acc)"
    "\<And>ev r. ev \<in> snd ` set acc \<Longrightarrow> ro = Some r \<Longrightarrow> te_repo_id ev = Some r"
    "\<And>ev. ev \<in> snd ` set acc \<Longrightarrow> te_actor ev \<in> te_actor ` set evs"
    "\<And>resp. x = Inr resp \<Longrightarrow> te_event_id ` set evs \<subseteq> te_event_id ` snd ` (set es \<union> set acc)"
proof -
  from push_reads [OF assms] obtain acc where acc: "read_sequenced_events svc st' = Inr (es @ acc) \<and>
    (\<forall>ev\<in>snd ` set acc. (\<forall>r. ro = Some r \<longrightarrow> te_repo_id ev = Some r) \<and> te_actor ev \<in> te_actor ` set evs) \<and>
    ((\<exists>e. x = Inl e) \<or> te_event_id ` set evs \<subseteq> te_event_id ` snd ` (set es \<union> set acc))" ..
  show thesis
  proof (rule that)
    show "read_sequenced_events svc st' = Inr (es @ acc)" using acc by (rule conjunct1)
    show "te_event_id ` set evs \<subseteq> te_event_id ` snd ` (set es \<union> set acc)" if "x = Inr resp" for resp
      using conjunct2 [OF conjunct2 [OF acc]] that by simp
  qed (use conjunct1 [OF conjunct2 [OF acc]] in blast)+
qed

section \<open>The gate\<close>

lemma gate_cases:
  assumes "handle_request sn (Some ac) now rq s = (s', resp)" "rq_route rq \<noteq> Health"
    and "request_target sn ac rq (ss_store s) = (st, target)"
  obtains (no_token) "bearer_token rq = None" "s' = s" "resp = Unauthorized"
  | (denied) tok d where "bearer_token rq = Some tok"
      "config_authorize (sn_services sn) ac tok target (required_access (rq_method rq)) now = Inl d"
      "s' = s\<lparr>ss_store := st\<rparr>" "resp = (if d = Forbidden then Forbidden_Resource else Unauthorized)"
  | (granted) tok identity audit where "bearer_token rq = Some tok"
      "config_authorize (sn_services sn) ac tok target (required_access (rq_method rq)) now = Inr identity"
      "audit = (if required_access (rq_method rq) = Write
         then ss_audit s @ [Audit_Line \<lparr>au_at = now, au_token_label = ai_label identity,
           au_actor_id = ai_actor_id identity, au_method = method_text (rq_method rq),
           au_path = route_path (rq_route rq)\<rparr>]
         else ss_audit s)"
      "dispatch sn now (Some identity) rq (s\<lparr>ss_store := st, ss_audit := audit\<rparr>) = (s', resp)"
proof (cases "bearer_token rq")
  case None
  then show ?thesis using assms no_token by (simp add: handle_request_def require_bearer_token_def)
next
  case (Some tok)
  let ?auth = "config_authorize (sn_services sn) ac tok target (required_access (rq_method rq)) now"
  show ?thesis
  proof (cases ?auth)
    case (Inl d)
    then show ?thesis
      using assms Some denied [OF Some Inl] by (cases d) (simp_all add: handle_request_def require_bearer_token_def)
  next
    case (Inr identity)
    then show ?thesis
      using assms Some
      by (intro granted [OF Some Inr refl])
        (auto simp: handle_request_def require_bearer_token_def audit_record_def Let_def split: if_splits)
  qed
qed

section \<open>Reading\<close>

text \<open>The part of the log that belongs to a repository, with the sequence numbers.\<close>

definition repo_log :: "services \<Rightarrow> server_store \<Rightarrow> string \<Rightarrow> (u64 \<times> trace_event) list server_result" where
  "repo_log svc st repo =
     and_then (read_sequenced_events svc st) (\<lambda>es. Inr (filter (\<lambda>(s, ev). te_repo_id ev = Some repo) es))"

lemma repo_log_same: "sv_log st' = sv_log st \<Longrightarrow> repo_log svc st' repo = repo_log svc st repo"
  by (simp add: repo_log_def read_sequenced_events_def)

lemma read_for_repo_log:
  "read_server_events_for_repo svc (Some repo) st = and_then (repo_log svc st repo) (\<lambda>es. Inr (map snd es))"
  by (cases "read_sequenced_events svc st")
    (simp_all add: read_server_events_for_repo_def repo_log_def repo_matches_server_def)

text \<open>A page of a repository depends on the repository's part of the log only.\<close>

lemma list_page_repo_log:
  assumes "repo_log svc st repo = Inr es"
  shows "list_events_page svc st (Some repo) after limit =
    and_then (parse_cursor after) (\<lambda>a.
      let n = clamp 1 max_event_limit (unwrap_or limit default_event_limit); c = filter (\<lambda>(s, ev). a < s) es
      in Inr \<lparr>ep_events = map snd (take n c), ep_cursor = after,
              ep_next_cursor = (if n < length c then Some (show_u64 (fst (last (take n c)))) else None)\<rparr>)"
proof -
  obtain all where all: "read_sequenced_events svc st = Inr all"
    "es = filter (\<lambda>(s, ev). te_repo_id ev = Some repo) all"
    using assms by (auto simp: repo_log_def and_then_Inr_iff)
  have cand: "filter (after_cursor (Some repo) a) all = filter (\<lambda>(s, ev). a < s) es" for a
    by (simp add: all(2) after_cursor_def repo_matches_server_def) (rule filter_cong; auto)
  have pos: "0 < clamp 1 max_event_limit n" for n by (simp add: clamp_def)
  show ?thesis
  proof (cases "parse_cursor after")
    case (Inr a)
    let ?n = "clamp 1 max_event_limit (unwrap_or limit default_event_limit)"
    have "page_loop (Some repo) a ?n [] None all =
        (let c = filter (\<lambda>(s, ev). a < s) es
         in (map snd (take ?n c), if take ?n c = [] then None else Some (fst (last (take ?n c))), ?n < length c))"
      using page_loop_spec [of "[]" ?n "Some repo" a None all] pos [of "unwrap_or limit default_event_limit"]
      by (simp add: cand Let_def)
    moreover have "take ?n c = [] \<Longrightarrow> \<not> ?n < length c" for c :: "(u64 \<times> trace_event) list"
      using pos [of "unwrap_or limit default_event_limit"] by auto
    ultimately show ?thesis
      by (auto simp: list_events_page_def Inr all(1) Let_def)
  qed (simp add: list_events_page_def)
qed

lemma responses_repo_log:
  assumes "repo_log (sn_services sn) st1 repo = Inr es" "repo_log (sn_services sn) st2 repo = Inr es"
  shows "list_events_page (sn_services sn) st1 (Some repo) after limit = list_events_page (sn_services sn) st2 (Some repo) after limit"
    "index_status_response sn now (Some repo) st1 = index_status_response sn now (Some repo) st2"
    "sessions_response sn now (Some repo) q st1 = sessions_response sn now (Some repo) q st2"
  using assms
  by (simp_all add: list_page_repo_log index_status_response_def sessions_response_def read_for_repo_log)

section \<open>A token limited to one repository\<close>

text \<open>
  The secret of a request belongs to a token of the table all of whose scopes are the one repository
  named by a segment; axum decodes the segment to \<open>repo\<close>.
\<close>

definition limited_to :: "server_env \<Rightarrow> auth_config \<Rightarrow> request \<Rightarrow> string \<Rightarrow> string \<Rightarrow> bool" where
  "limited_to sn ac rq seg repo \<longleftrightarrow>
     (\<exists>tok t. bearer_token rq = Some tok \<and> lookup_token (sn_services sn) tok (ac_tokens ac) = Some t \<and>
        list_all (\<lambda>s. s = Scope_Repo seg) (tk_scopes t)) \<and>
     sn_percent_decode sn seg = Some repo"

lemma limited_granted:
  assumes "limited_to sn ac rq seg repo" "route_ok (rq_route rq)" "bearer_token rq = Some tok"
    and "config_authorize (sn_services sn) ac tok (snd (request_target sn ac rq st)) required now = Inr identity"
  shows "repo_segment (rq_route rq) = Some seg" "ai_kind identity = Local_Token"
proof -
  obtain t where t: "lookup_token (sn_services sn) tok (ac_tokens ac) = Some t"
      "list_all (\<lambda>s. s = Scope_Repo seg) (tk_scopes t)"
    using assms(1,3) by (auto simp: limited_to_def)
  have auth: "authorizes t (snd (request_target sn ac rq st)) required" "ai_kind identity = Local_Token"
    using assms(4) t(1) by (auto simp: config_authorize_def authorize_at_def split: if_splits)
  then obtain s where "s \<in> set (tk_scopes t)" "scope_matches s (snd (request_target sn ac rq st))"
    by (auto simp: authorizes_def list_ex_iff)
  then have "scope_matches (Scope_Repo seg) (snd (request_target sn ac rq st))"
    using t(2) by (auto simp: list_all_iff)
  then show "repo_segment (rq_route rq) = Some seg"
    by (auto simp: request_target_snd [OF assms(2)] split: option.splits)
  show "ai_kind identity = Local_Token" by (rule auth(2))
qed

lemma limited_auth_same:
  assumes "limited_to sn ac rq seg repo" "route_ok (rq_route rq)" "bearer_token rq = Some tok"
  shows "config_authorize (sn_services sn) ac tok (snd (request_target sn ac rq st1)) required now =
    config_authorize (sn_services sn) ac tok (snd (request_target sn ac rq st2)) required now"
proof -
  obtain t where t: "lookup_token (sn_services sn) tok (ac_tokens ac) = Some t"
      "list_all (\<lambda>s. s = Scope_Repo seg) (tk_scopes t)"
    using assms(1,3) by (auto simp: limited_to_def)
  have "s \<in> set (tk_scopes t) \<Longrightarrow>
      scope_matches s (snd (request_target sn ac rq st1)) = scope_matches s (snd (request_target sn ac rq st2))" for s
    using t(2) by (auto simp: list_all_iff request_target_snd [OF assms(2)] split: option.split)
  then have "authorizes t (snd (request_target sn ac rq st1)) required = authorizes t (snd (request_target sn ac rq st2)) required"
    by (auto simp: authorizes_def list_ex_iff)
  then show ?thesis by (simp add: config_authorize_def authorize_at_def t(1))
qed

lemma dispatch_reads_repo:
  assumes "repo_segment (rq_route rq) = Some seg" "sn_percent_decode sn seg = Some repo"
    and "required_access (rq_method rq) = Read" "ai_kind i = Local_Token"
    and "repo_log (sn_services sn) (ss_store s1) repo = Inr es" "repo_log (sn_services sn) (ss_store s2) repo = Inr es"
  shows "snd (dispatch sn now (Some i) rq s1) = snd (dispatch sn now (Some i) rq s2)"
proof -
  have "rq_method rq \<noteq> POST" using assms(3) by (auto simp: required_access_def)
  then show ?thesis
    using assms(1,2,4) responses_repo_log [OF assms(5,6)]
    by (cases "rq_route rq")
      (simp_all add: dispatch_def Let_def with_segment_def with_store_def list_repo_events_handler_def)
qed

text \<open>
  C1: a token whose scopes are one repository reads nothing but that repository: the answer to any
  of its GET requests is determined by the repository's own part of the log. Two servers that agree
  on that part, whatever else they store, answer the same page, status, sessions or refusal. The
  repository is the decoded segment.
\<close>

theorem repo_token_confidential:
  assumes "limited_to sn ac rq seg repo" "route_ok (rq_route rq)" "required_access (rq_method rq) = Read"
    and "repo_log (sn_services sn) (ss_store s1) repo = Inr es" "repo_log (sn_services sn) (ss_store s2) repo = Inr es"
  shows "snd (handle_request sn (Some ac) now rq s1) = snd (handle_request sn (Some ac) now rq s2)"
proof (cases "rq_route rq = Health")
  case True
  then show ?thesis by (simp add: handle_request_def dispatch_def Let_def)
next
  case False
  obtain tok where tok: "bearer_token rq = Some tok" using assms(1) by (auto simp: limited_to_def)
  obtain st1 target1 where t1: "request_target sn ac rq (ss_store s1) = (st1, target1)"
    by (cases "request_target sn ac rq (ss_store s1)")
  obtain st2 target2 where t2: "request_target sn ac rq (ss_store s2) = (st2, target2)"
    by (cases "request_target sn ac rq (ss_store s2)")
  have logs: "repo_log (sn_services sn) st1 repo = Inr es" "repo_log (sn_services sn) st2 repo = Inr es"
    using assms(4,5) repo_log_same request_target_log [of sn ac rq "ss_store s1"]
      request_target_log [of sn ac rq "ss_store s2"] by (simp_all add: t1 t2 repo_log_def read_sequenced_events_def)
  have same: "config_authorize (sn_services sn) ac tok target1 Read now = config_authorize (sn_services sn) ac tok target2 Read now"
    using limited_auth_same [OF assms(1,2) tok, of "ss_store s1" Read now "ss_store s2"] by (simp add: t1 t2)
  show ?thesis
  proof (cases "config_authorize (sn_services sn) ac tok target1 Read now")
    case (Inl d)
    then show ?thesis
      using False same by (cases d) (simp_all add: handle_request_def require_bearer_token_def tok t1 t2 assms(3))
  next
    case (Inr i)
    have i: "repo_segment (rq_route rq) = Some seg" "ai_kind i = Local_Token"
      using limited_granted [OF assms(1,2) tok, of "ss_store s1" Read now i] Inr by (simp_all add: t1)
    have "snd (dispatch sn now (Some i) rq (s1\<lparr>ss_store := st1\<rparr>)) = snd (dispatch sn now (Some i) rq (s2\<lparr>ss_store := st2\<rparr>))"
      using dispatch_reads_repo [OF i(1) _ assms(3) i(2)] logs assms(1) by (simp add: limited_to_def)
    moreover have "config_authorize (sn_services sn) ac tok target2 Read now = Inr i" using same Inr by simp
    ultimately show ?thesis
      using False Inr by (simp add: handle_request_def require_bearer_token_def tok t1 t2 assms(3))
  qed
qed

section \<open>What a request can change\<close>

text \<open>A request writes to the log through a push to the route's repository, or through a global push.\<close>

lemma dispatch_log_cases:
  assumes "dispatch sn now identity rq s = (s', resp)"
  obtains (same) "sv_log (ss_store s') = sv_log (ss_store s)" "ss_audit s' = ss_audit s"
  | (repo) seg repo st x where "rq_route rq = Repo_Events seg" "sn_percent_decode sn seg = Some repo" "rq_method rq = POST"
      "sv_log st = sv_log (ss_store s)" "enforce_actor_binding sn identity (rq_events rq) = Inr ()"
      "append_events_for_repo (sn_services sn) (Some repo) (rq_events rq) st = (ss_store s', x)" "ss_audit s' = ss_audit s"
  | (global) x where "rq_route rq = Events" "rq_method rq = POST"
      "enforce_actor_binding sn identity (rq_events rq) = Inr ()"
      "append_events_for_repo (sn_services sn) None (rq_events rq) (ss_store s) = (ss_store s', x)" "ss_audit s' = ss_audit s"
proof -
  consider (r) seg where "rq_route rq = Repo_Events seg" | (g) "rq_route rq = Events"
    | (other) "\<nexists>seg. rq_route rq = Repo_Events seg" "rq_route rq \<noteq> Events" by blast
  then show ?thesis
  proof cases
    case g
    then show ?thesis
      using assms same global
      by (cases "enforce_actor_binding sn identity (rq_events rq)";
          cases "append_server_events (sn_services sn) (rq_events rq) (ss_store s)")
        (auto simp: dispatch_def Let_def with_store_def push_events_handler_def append_server_events_def split: if_splits)
  next
    case other
    then have "ss_store s' = ss_store s \<and> ss_audit s' = ss_audit s"
      using assms by (cases "rq_route rq") (auto simp: dispatch_def Let_def with_segment_def split: if_splits option.splits)
    then show ?thesis using same by simp
  next
    case (r seg)
    show ?thesis
    proof (cases "sn_percent_decode sn seg")
      case None
      then show ?thesis using assms r same by (auto simp: dispatch_def Let_def with_segment_def split: if_splits)
    next
      case (Some repo')
      obtain st c where l: "enforce_repo_member sn identity repo' False [] (ss_store s) = (st, c)"
        by (cases "enforce_repo_member sn identity repo' False [] (ss_store s)")
      obtain st2 c2 where p: "enforce_repo_member sn identity repo' True (rq_events rq) (ss_store s) = (st2, c2)"
        by (cases "enforce_repo_member sn identity repo' True (rq_events rq) (ss_store s)")
      obtain st3 x where a: "append_events_for_repo (sn_services sn) (Some repo') (rq_events rq) st2 = (st3, x)"
        by (cases "append_events_for_repo (sn_services sn) (Some repo') (rq_events rq) st2")
      have logs: "sv_log st = sv_log (ss_store s)" "sv_log st2 = sv_log (ss_store s)"
        using enforce_repo_member_log [of sn identity repo' False "[]" "ss_store s"]
          enforce_repo_member_log [of sn identity repo' True "rq_events rq" "ss_store s"] by (simp_all add: l p)
      have "is_read (rq_method rq) \<Longrightarrow> ss_store s' = st \<and> ss_audit s' = ss_audit s"
        using assms r by (cases c) (auto simp: dispatch_def with_segment_def Some with_store_def
            list_repo_events_handler_def l)
      moreover have "\<not> is_read (rq_method rq) \<Longrightarrow> rq_method rq \<noteq> POST \<Longrightarrow> s' = s"
        using assms r by (simp add: dispatch_def)
      moreover have "\<not> is_read (rq_method rq) \<Longrightarrow> rq_method rq = POST \<Longrightarrow> ss_audit s' = ss_audit s \<and>
          (ss_store s' = st2 \<or> enforce_actor_binding sn identity (rq_events rq) = Inr () \<and> ss_store s' = st3)"
        using assms r by (cases c2; cases "enforce_actor_binding sn identity (rq_events rq)")
          (auto simp: dispatch_def with_segment_def Some with_store_def push_repo_events_handler_def p a)
      ultimately show ?thesis
        using logs same repo [OF r Some _ logs(2)] a by metis
    qed
  qed
qed

text \<open>The identity a request is granted for its route, and the audit entry of a granted write.\<close>

definition granted_identity :: "server_env \<Rightarrow> auth_config \<Rightarrow> instant \<Rightarrow> request \<Rightarrow> server_store \<Rightarrow> authed_identity option" where
  "granted_identity sn ac now rq st =
     (case bearer_token rq of
        None \<Rightarrow> None
      | Some tok \<Rightarrow>
          (case config_authorize (sn_services sn) ac tok (snd (request_target sn ac rq st)) (required_access (rq_method rq)) now of
             Inl _ \<Rightarrow> None
           | Inr i \<Rightarrow> Some i))"

definition audit_entry_of :: "instant \<Rightarrow> authed_identity \<Rightarrow> request \<Rightarrow> audit_entry" where
  "audit_entry_of now i rq =
     \<lparr>au_at = now, au_token_label = ai_label i, au_actor_id = ai_actor_id i,
      au_method = method_text (rq_method rq), au_path = route_path (rq_route rq)\<rparr>"

lemma handled_log_cases:
  assumes "handle_request sn (Some ac) now rq s = (s', resp)"
  obtains (same) "sv_log (ss_store s') = sv_log (ss_store s)"
  | (repo) i seg repo st x where "granted_identity sn ac now rq (ss_store s) = Some i"
      "rq_route rq = Repo_Events seg" "sn_percent_decode sn seg = Some repo"
      "sv_log st = sv_log (ss_store s)" "enforce_actor_binding sn (Some i) (rq_events rq) = Inr ()"
      "append_events_for_repo (sn_services sn) (Some repo) (rq_events rq) st = (ss_store s', x)"
      "required_access (rq_method rq) = Write" "ss_audit s' = audit_record (audit_entry_of now i rq) (ss_audit s)"
  | (global) i st x where "granted_identity sn ac now rq (ss_store s) = Some i" "rq_route rq = Events"
      "sv_log st = sv_log (ss_store s)" "enforce_actor_binding sn (Some i) (rq_events rq) = Inr ()"
      "append_events_for_repo (sn_services sn) None (rq_events rq) st = (ss_store s', x)"
      "required_access (rq_method rq) = Write" "ss_audit s' = audit_record (audit_entry_of now i rq) (ss_audit s)"
proof (cases "rq_route rq = Health")
  case True
  then show ?thesis using assms same by (auto simp: handle_request_def dispatch_def split: if_splits)
next
  case False
  obtain st target where target: "request_target sn ac rq (ss_store s) = (st, target)"
    by (cases "request_target sn ac rq (ss_store s)")
  then have log: "sv_log st = sv_log (ss_store s)" using request_target_log [of sn ac rq "ss_store s"] by simp
  show ?thesis
    using assms False target
  proof (cases rule: gate_cases)
    case (granted tok i audit)
    have i: "granted_identity sn ac now rq (ss_store s) = Some i"
      using granted(1,2) by (simp add: granted_identity_def target)
    have post: "rq_method rq = POST \<Longrightarrow> required_access (rq_method rq) = Write \<and>
        audit = audit_record (audit_entry_of now i rq) (ss_audit s)"
      by (simp add: granted(3) required_access_def audit_record_def audit_entry_of_def)
    show ?thesis
      using granted(4)
    proof (cases rule: dispatch_log_cases)
      case same
      then show ?thesis using that(1) log by simp
    next
      case (repo seg repo st2 x)
      then show ?thesis using that(2) [OF i] post log by simp
    next
      case (global x)
      then show ?thesis using that(3) [OF i] post log by simp
    qed
  qed (use same log in auto)
qed




end
