(* ===== verification/Server_Members.thy ===== *)
theory Server_Members imports Server_Gate begin

text \<open>
  Where \<^verbatim>\<open>routes.rs\<close> checks that a Supabase user belongs to the org of a repository, and where it
  does not; what percent-encoded segments, error texts and a token rotation do to the gate.
\<close>

section \<open>Members and owners under the handlers\<close>

lemma members_force_cong:
  "sv_members st' = sv_members st \<Longrightarrow> sv_members_file st' = sv_members_file st \<Longrightarrow>
   members_in_force st' = members_in_force st"
  by (simp add: members_in_force_def cong: option.case_cong)

lemma resolve_members [simp]: "members_in_force (fst (resolve_repo_org svc repo st)) = members_in_force st"
proof -
  obtain st1 r where ens: "ensure_repo_org_loaded svc st = (st1, r)" by (cases "ensure_repo_org_loaded svc st")
  have "sv_members st1 = sv_members st \<and> sv_members_file st1 = sv_members_file st"
    using ens by (auto simp: ensure_repo_org_loaded_def split: if_splits sum.splits option.splits)
  then show ?thesis
    using members_force_cong [of st1 st]
    by (cases r) (simp_all add: resolve_repo_org_def ens split: option.split)
qed

lemma record_members [simp]: "members_in_force (fst (record_repo_orgs svc bs st)) = members_in_force st"
proof -
  obtain st1 r where ens: "ensure_repo_org_loaded svc st = (st1, r)" by (cases "ensure_repo_org_loaded svc st")
  have "sv_members st1 = sv_members st \<and> sv_members_file st1 = sv_members_file st"
    using ens by (auto simp: ensure_repo_org_loaded_def split: if_splits sum.splits option.splits)
  moreover have "sv_members (fst (record_repo_orgs svc bs st)) = sv_members st1 \<and>
      sv_members_file (fst (record_repo_orgs svc bs st)) = sv_members_file st1"
    by (cases r) (simp_all add: record_repo_orgs_def ens Let_def split_beta)
  ultimately show ?thesis using members_force_cong by metis
qed

lemma append_members: "append_events_for_repo svc ro evs st = (st', x) \<Longrightarrow> members_in_force st' = members_in_force st"
proof -
  assume app: "append_events_for_repo svc ro evs st = (st', x)"
  have st1: "members_in_force (st\<lparr>sv_log := l\<rparr>) = members_in_force st" for l by (rule members_force_cong) simp_all
  show ?thesis
  proof (cases "\<exists>e. normalize_repo_events ro evs = Inl e \<or> read_server_events svc st = Inl e")
    case True
    then have "st' = st" using app by (auto simp: append_events_for_repo_def split: sum.splits)
    then show ?thesis by simp
  next
    case False
    then obtain evs' old where ok: "normalize_repo_events ro evs = Inr evs'" "read_server_events svc st = Inr old"
      by (meson sum.exhaust)
    obtain acc dup where loop: "push_loop (te_event_id ` set old) {} evs' = (acc, dup)"
      by (cases "push_loop (te_event_id ` set old) {} evs'")
    define st1 where "st1 = st\<lparr>sv_log := Some (unwrap_or (sv_log st) [] @ map (\<lambda>ev. Json_Line (enc_trace_event svc ev)) acc)\<rparr>"
    obtain st2 r2 where rec: "record_repo_orgs svc (List.map_filter event_binding acc) st1 = (st2, r2)"
      by (cases "record_repo_orgs svc (List.map_filter event_binding acc) st1")
    have "st' = st1 \<or> st' = st2"
      using app rec by (auto simp: append_events_for_repo_def ok loop Let_def st1_def split: if_splits sum.splits)
    moreover have "members_in_force st2 = members_in_force st1" by (metis record_members rec fst_conv)
    moreover have "members_in_force st1 = members_in_force st" unfolding st1_def by (rule st1)
    ultimately show ?thesis by auto
  qed
qed

lemma is_org_member_spec:
  "is_org_member org user st = (st', b) \<Longrightarrow>
   b = member_of st org user \<and> members_in_force st' = members_in_force st \<and>
   sv_repo_org st' = sv_repo_org st \<and> sv_repo_org_file st' = sv_repo_org_file st \<and> sv_log st' = sv_log st"
proof -
  assume m: "is_org_member org user st = (st', b)"
  have keep: "sv_log st' = sv_log st \<and> sv_repo_org st' = sv_repo_org st \<and> sv_repo_org_file st' = sv_repo_org_file st"
    by (rule members_keep_projection(3) [OF m])
  obtain st1 r where ens: "ensure_org_members_loaded st = (st1, r)" by (cases "ensure_org_members_loaded st")
  have "members_in_force st' = members_in_force st"
  proof (cases r)
    case (Inl e)
    then show ?thesis
      using m ens ensure_members_spec(2) [of st st1 e] by (simp add: is_org_member_def org_members_def)
  next
    case (Inr u)
    then show ?thesis
      using m ens ensure_members_spec(1) [of st st1 u]
      by (auto simp: is_org_member_def org_members_def members_in_force_def)
  qed
  then show ?thesis using keep m by (simp add: member_of_def)
qed

lemma member_of_cong: "members_in_force st' = members_in_force st \<Longrightarrow> member_of st' org user = member_of st org user"
  by (simp add: member_of_force)

lemma first_member_spec:
  "first_member_org user orgs st = (st', r) \<Longrightarrow>
   members_in_force st' = members_in_force st \<and> sv_repo_org st' = sv_repo_org st \<and>
   sv_repo_org_file st' = sv_repo_org_file st \<and> sv_log st' = sv_log st \<and>
   (\<forall>org. r = Some org \<longrightarrow> org \<in> set orgs \<and> member_of st org user) \<and>
   (r = None \<longrightarrow> (\<forall>org\<in>set orgs. \<not> member_of st org user))"
proof (induction orgs arbitrary: st)
  case (Cons org orgs)
  obtain st1 b where m: "is_org_member org user st = (st1, b)" by (cases "is_org_member org user st")
  note spec = is_org_member_spec [OF m]
  show ?case
  proof (cases b)
    case True
    then show ?thesis using Cons.prems spec by (auto simp: m)
  next
    case False
    then have "first_member_org user orgs st1 = (st', r)" using Cons.prems by (simp add: m)
    from Cons.IH [OF this] show ?thesis
      using spec False member_of_cong [of st1 st] by auto
  qed
qed auto

lemma resolve_owner:
  assumes "cache_is_file st" "resolve_repo_org svc repo st = (st1, own)"
  shows "own = owner_of svc st repo" "bindings_of svc st1 = bindings_of svc st" "cache_is_file st1"
    "members_in_force st1 = members_in_force st"
proof -
  show "own = owner_of svc st repo" by (simp add: owner_of_def assms(2))
  obtain st2 r where ens: "ensure_repo_org_loaded svc st = (st2, r)" by (cases "ensure_repo_org_loaded svc st")
  note spec = ensure_repo_org_spec [OF assms(1) ens]
  have "st1 = st \<or> st1 = st2"
    using assms(2) by (auto simp: resolve_repo_org_def ens split: option.splits sum.splits)
  then show "bindings_of svc st1 = bindings_of svc st" "cache_is_file st1" using spec(1,2) assms(1) by auto
  show "members_in_force st1 = members_in_force st" using resolve_members [of svc repo st] by (simp add: assms(2))
qed

lemma target_keeps:
  assumes "cache_is_file st" "request_target sn ac rq st = (st1, target)"
  shows "bindings_of (sn_services sn) st1 = bindings_of (sn_services sn) st" "cache_is_file st1"
    "members_in_force st1 = members_in_force st"
proof -
  have "st1 = st \<or> (\<exists>repo. st1 = fst (resolve_repo_org (sn_services sn) repo st))"
    using assms(2) by (cases "ac_needs_org ac") (force simp: request_target_def Let_def split: option.splits)+
  then have "bindings_of (sn_services sn) st1 = bindings_of (sn_services sn) st \<and> cache_is_file st1 \<and>
      members_in_force st1 = members_in_force st"
  proof (elim disjE exE)
    fix repo assume st1: "st1 = fst (resolve_repo_org (sn_services sn) repo st)"
    show ?thesis using resolve_owner(2-4) [OF assms(1) surjective_pairing] unfolding st1 by blast
  qed (use assms(1) in simp)
  then show "bindings_of (sn_services sn) st1 = bindings_of (sn_services sn) st" "cache_is_file st1"
    "members_in_force st1 = members_in_force st" by blast+
qed

text \<open>After a member check that passes, the repository has an owner and the user is a member of it.\<close>

definition owned_by_member :: "services \<Rightarrow> server_store \<Rightarrow> string \<Rightarrow> string \<Rightarrow> bool" where
  "owned_by_member svc st repo user \<longleftrightarrow> (\<exists>org. owner_of svc st repo = Some org \<and> member_of st org user)"

lemma enforce_supabase_ok:
  assumes "enforce_repo_member sn (Some i) repo claim evs st = (st', Inr ())" "ai_kind i = Supabase user email"
    and "cache_is_file st"
  shows "owned_by_member (sn_services sn) st' repo user \<and> cache_is_file st'"
proof -
  let ?svc = "sn_services sn"
  obtain st1 own where res: "resolve_repo_org ?svc repo st = (st1, own)" by (cases "resolve_repo_org ?svc repo st")
  note r = resolve_owner [OF assms(3) res]
  show ?thesis
    using assms(1,2) res
  proof (cases rule: enforce_supabase_cases)
    case (member org)
    note m = is_org_member_spec [OF member(2)]
    have "bindings_of ?svc st' = bindings_of ?svc st1" "cache_is_file st' = cache_is_file st1"
      using m by (intro same_projection; simp)+
    then have "owner_of ?svc st' repo = Some org" "cache_is_file st'"
      using owner_of_bindings [of st' ?svc repo] owner_of_bindings [OF assms(3), of ?svc repo] r member(1) by simp_all
    then show ?thesis using m member_of_cong [of st' st1] by (auto simp: owned_by_member_def)
  next
    case (claimed org st2 x)
    note f = first_member_spec [OF claimed(3)]
    have b2: "bindings_of ?svc st2 = bindings_of ?svc st1" "cache_is_file st2"
      using f r(3) same_projection(1) [of st2 st1 ?svc] same_projection(2) [of st2 st1] by simp_all
    have rec: "record_repo_orgs ?svc [(repo, org)] st2 = (st', x)" using claimed(4) by (simp add: claim_repo_org_def)
    have x: "x = Inr ()" using claimed(5) by (cases x) (simp_all add: or_route_error_def)
    have "bindings_of ?svc st2 \<noteq> None"
    proof
      assume none: "bindings_of ?svc st2 = None"
      obtain st3 y where ens: "ensure_repo_org_loaded ?svc st2 = (st3, y)" by (cases "ensure_repo_org_loaded ?svc st2")
      then obtain e where "y = Inl e" using ensure_repo_org_spec(3) [OF b2(2) ens] none by blast
      then show False using rec x by (simp add: record_repo_orgs_def ens)
    qed
    then obtain m where m: "bindings_of ?svc st2 = Some m" by blast
    have "bindings_of ?svc st = Some m" using m b2(1) r(2) by simp
    then have "bt_get m repo = None"
      using owner_of_bindings [OF assms(3), of ?svc repo] r(1) claimed(1) by simp
    then have "bindings_of ?svc st' = Some (bt_insert repo org m)" "cache_is_file st'"
      using record_repo_orgs_spec [OF b2(2) rec] m by simp_all
    moreover have "members_in_force st' = members_in_force st1"
      using record_members [of ?svc "[(repo, org)]" st2] rec f by simp
    ultimately show ?thesis
      using f member_of_cong [of st' st1] owner_of_bindings [of st' ?svc repo] by (auto simp: owned_by_member_def)
  qed simp_all
qed

lemma owned_cong:
  assumes "cache_is_file st" "cache_is_file st'" "bindings_of svc st' = bindings_of svc st"
    and "members_in_force st' = members_in_force st"
  shows "owned_by_member svc st' repo user = owned_by_member svc st repo user"
  using assms member_of_cong [OF assms(4)] by (simp add: owned_by_member_def owner_of_bindings)

lemma enforce_supabase_refuses:
  assumes "enforce_repo_member sn (Some i) repo False evs st = (st', x)" "ai_kind i = Supabase user email"
    and "cache_is_file st" "\<not> owned_by_member (sn_services sn) st repo user"
  shows "\<exists>message. x = Inl (Failed 403 message)"
proof -
  let ?svc = "sn_services sn"
  obtain st1 own where res: "resolve_repo_org ?svc repo st = (st1, own)" by (cases "resolve_repo_org ?svc repo st")
  note r = resolve_owner [OF assms(3) res]
  show ?thesis
    using assms(1,2) res
  proof (cases rule: enforce_supabase_cases)
    case (member org)
    then have "member_of st org user" "owner_of ?svc st repo = Some org"
      using is_org_member_spec [OF member(2)] member_of_cong [OF r(4)] r(1) by simp_all
    then show ?thesis using assms(4) by (auto simp: owned_by_member_def)
  qed simp_all
qed

lemma handled_granted:
  assumes "granted_identity sn ac now rq (ss_store s) = Some i" "rq_route rq \<noteq> Health"
    and "request_target sn ac rq (ss_store s) = (st, target)" "handle_request sn (Some ac) now rq s = (s', resp)"
  shows "\<exists>audit. dispatch sn now (Some i) rq (s\<lparr>ss_store := st, ss_audit := audit\<rparr>) = (s', resp)"
  using assms(4,2,3)
proof (cases rule: gate_cases)
  case no_token
  then show ?thesis using assms(1) by (simp add: granted_identity_def)
next
  case (denied tok d)
  then show ?thesis using assms(1,3) by (simp add: granted_identity_def)
next
  case (granted tok i' audit)
  then show ?thesis using assms(1,3) by (auto simp: granted_identity_def)
qed


text \<open>
  The sessions and the index status of a repository are not protected that way: to any account
  the provider signs in, member or not, they are answered as on an open server, while the same
  account is refused the repository's events.
\<close>

theorem sessions_skip_membership:
  assumes "granted_identity sn ac now rq (ss_store s) = Some i" "ai_kind i = Supabase user email"
    and "rq_method rq = GET" "rq_route rq = Repo_Sessions seg" "sn_percent_decode sn seg = Some repo"
    and "seg \<noteq> []" "CHR ''/'' \<notin> set seg" "cache_is_file (ss_store s)"
    and "\<not> owned_by_member (sn_services sn) (ss_store s) repo user"
  shows "snd (handle_request sn (Some ac) now rq s) = snd (handle_request sn None now rq s) \<and>
    snd (handle_request sn (Some ac) now (rq\<lparr>rq_route := Repo_Index_Status seg\<rparr>) s) =
      snd (handle_request sn None now (rq\<lparr>rq_route := Repo_Index_Status seg\<rparr>) s) \<and>
    (\<exists>message. snd (handle_request sn (Some ac) now (rq\<lparr>rq_route := Repo_Events seg\<rparr>) s) = Failed 403 message)"
proof -
  let ?svc = "sn_services sn"
  have ok: "route_ok (Repo_Sessions seg)" "route_ok (Repo_Events seg)" "route_ok (Repo_Index_Status seg)"
    using assms(6,7) by (simp_all add: route_ok_def)
  obtain st target where target: "request_target sn ac rq (ss_store s) = (st, target)"
    by (cases "request_target sn ac rq (ss_store s)")
  have target': "request_target sn ac (rq\<lparr>rq_route := r\<rparr>) (ss_store s) = (st, target)"
    if "route_ok r" "repo_segment r = Some seg" for r
  proof -
    have "repo_id_for_path (route_path (rq_route rq)) = Some seg" "repo_id_for_path (route_path r) = Some seg"
      using that by (simp_all only: assms(4) repo_id_for_route [OF ok(1)] repo_id_for_route [OF that(1)] repo_segment.simps)
    then show ?thesis
      using target by (simp add: request_target_def Let_def resource_target_for_path_def)
  qed
  have granted: "granted_identity sn ac now (rq\<lparr>rq_route := r\<rparr>) (ss_store s) = Some i"
    if "route_ok r" "repo_segment r = Some seg" for r
    using assms(1) target target' [OF that] by (simp add: granted_identity_def bearer_token_def cong: option.case_cong sum.case_cong)
  have log: "sv_log st = sv_log (ss_store s)" using request_target_log [of sn ac rq "ss_store s"] target by simp
  then have same: "sessions_response sn now (Some repo) q st = sessions_response sn now (Some repo) q (ss_store s)"
    "index_status_response sn now (Some repo) st = index_status_response sn now (Some repo) (ss_store s)" for q
    by (simp_all add: sessions_response_def index_status_response_def read_server_events_for_repo_def read_sequenced_events_def)
  have run: "\<exists>audit s1 resp. handle_request sn (Some ac) now (rq\<lparr>rq_route := r\<rparr>) s = (s1, resp) \<and>
      dispatch sn now (Some i) (rq\<lparr>rq_route := r\<rparr>) (s\<lparr>ss_store := st, ss_audit := audit\<rparr>) = (s1, resp)"
    if "route_ok r" "repo_segment r = Some seg" for r
  proof -
    obtain s1 resp where h: "handle_request sn (Some ac) now (rq\<lparr>rq_route := r\<rparr>) s = (s1, resp)"
      by (cases "handle_request sn (Some ac) now (rq\<lparr>rq_route := r\<rparr>) s")
    moreover have "rq_route (rq\<lparr>rq_route := r\<rparr>) \<noteq> Health" using that(2) by auto
    ultimately show ?thesis using handled_granted [OF granted [OF that] _ target' [OF that] h] by blast
  qed
  have rq: "rq\<lparr>rq_route := Repo_Sessions seg\<rparr> = rq" using assms(4) by simp
  have "snd (handle_request sn (Some ac) now rq s) = snd (handle_request sn None now rq s)"
    using run [OF ok(1)] assms(3,4,5) unfolding rq
    by (auto simp: handle_request_def dispatch_def with_segment_def is_read_def same)
  moreover have "snd (handle_request sn (Some ac) now (rq\<lparr>rq_route := Repo_Index_Status seg\<rparr>) s) =
      snd (handle_request sn None now (rq\<lparr>rq_route := Repo_Index_Status seg\<rparr>) s)"
    using run [OF ok(3)] assms(3,5)
    by (auto simp: handle_request_def dispatch_def with_segment_def is_read_def same)
  moreover have "\<exists>message. snd (handle_request sn (Some ac) now (rq\<lparr>rq_route := Repo_Events seg\<rparr>) s) = Failed 403 message"
  proof -
    obtain st1 x where l: "enforce_repo_member sn (Some i) repo False [] st = (st1, x)"
      by (cases "enforce_repo_member sn (Some i) repo False [] st")
    have "\<not> owned_by_member ?svc st repo user"
      using owned_cong [OF assms(8), of st ?svc repo user] target_keeps [OF assms(8) target] assms(9) by simp
    then obtain message where "x = Inl (Failed 403 message)"
      using enforce_supabase_refuses [OF l assms(2) target_keeps(2) [OF assms(8) target]] by blast
    then show ?thesis
      using run [OF ok(2)] assms(3,5) l
      by (auto simp: dispatch_def with_segment_def is_read_def with_store_def list_repo_events_handler_def)
  qed
  ultimately show ?thesis by blast
qed

section \<open>Percent-encoded segments, error texts, rotation\<close>

text \<open>
  The gate resolves scopes for the segment as it is written in the URL and the handler serves the
  decoded repository. So a token for an org reads the events of a repository that belongs to no org
  of its own, as soon as the encoded spelling of that repository is itself bound to the token's org.
\<close>

theorem encoded_segment_escapes_org:
  assumes "bearer_token rq = Some tok" "lookup_token (sn_services sn) tok (ac_tokens ac) = Some t"
    and "tk_scopes t = [Scope_Org org]" "tk_expires_at t = None" "ac_needs_org ac"
    and "rq_route rq = Repo_Events seg" "rq_method rq = GET" "route_ok (rq_route rq)"
    and "sn_percent_decode sn seg = Some repo"
    and "owner_of (sn_services sn) (ss_store s) seg = Some org"
    and "owner_of (sn_services sn) (ss_store s) repo = Some other" "other \<noteq> org"
  shows "snd (handle_request sn (Some ac) now rq s) =
    answer Page (or_route_error sn (list_events_page (sn_services sn) (ss_store s) (Some repo)
      (lq_after (rq_list rq)) (lq_limit (rq_list rq))))"
proof -
  obtain st target where target: "request_target sn ac rq (ss_store s) = (st, target)"
    by (cases "request_target sn ac rq (ss_store s)")
  have tgt: "target = Target_Repo seg (Some org)"
    using request_target_snd [OF assms(8), of sn ac "ss_store s"] target assms(5,6,10) by (simp add: owner_of_def)
  have perm: "permits (tk_access t) Read" by (cases "tk_access t") simp_all
  have acc: "required_access GET = Read" by (simp add: required_access_def)
  have auth: "config_authorize (sn_services sn) ac tok target Read now =
      Inr \<lparr>ai_label = tk_label t, ai_actor_id = tk_actor_id t, ai_kind = Local_Token\<rparr>"
    by (simp add: config_authorize_def authorize_at_def assms(2,3,4) is_expired_def authorizes_def perm tgt)
  have log: "sv_log st = sv_log (ss_store s)" using request_target_log [of sn ac rq "ss_store s"] target by simp
  have page: "list_events_page svc st r a l = list_events_page svc (ss_store s) r a l" for svc r a l
    by (simp add: list_events_page_def read_sequenced_events_def log)
  show ?thesis
    by (simp add: handle_request_def require_bearer_token_def assms(1,6,7,9) target acc auth dispatch_def is_read_def
        with_segment_def with_store_def list_repo_events_handler_def page)
qed

text \<open>
  Errors of the server's own files are meant to leave as a generic 500; but the test is a search
  for \<^verbatim>\<open>cursor\<close> or \<^verbatim>\<open>repo_id\<close> in the message, so on a server whose data directory has \<^verbatim>\<open>cursor\<close> in its
  path, a broken log line is answered as the client's error, with the path in the body.
\<close>

theorem log_error_shows_path:
  assumes "contains ''cursor'' (sn_data_dir sn)"
  shows "\<exists>message. route_error sn (Server_Log_Parse n) = Failed 400 message \<and> contains (sn_data_dir sn) message"
proof -
  have "prefix (sn_data_dir sn) (path_join (sn_data_dir sn) ''events.jsonl'')"
    using path_join_prefix [of "''events.jsonl''"] by (simp add: path_is_absolute_def)
  then obtain rest where rest: "path_join (sn_data_dir sn) ''events.jsonl'' = sn_data_dir sn @ rest"
    by (auto simp: prefix_def)
  let ?pre = "''failed to parse server event log at ''" and ?post = "rest @ '' line '' @ show_nat n"
  have msg: "server_error_message sn (Server_Log_Parse n) = ?pre @ sn_data_dir sn @ ?post" by (simp add: rest)
  have whole: "contains (sn_data_dir sn) (?pre @ sn_data_dir sn @ ?post)" unfolding contains_iff by blast
  obtain a b where ab: "sn_data_dir sn = a @ ''cursor'' @ b" using assms by (auto simp: contains_iff)
  have "contains ''cursor'' (?pre @ sn_data_dir sn @ ?post)"
    unfolding contains_iff ab by (intro exI [of _ "?pre @ a"] exI [of _ "b @ ?post"]) simp
  with whole show ?thesis unfolding route_error_def Let_def msg by (intro exI conjI) (simp only: simp_thms if_True)
qed

text \<open>
  A serving process reads the token table once, when it starts. Rotating a token while it runs
  leaves the old secret accepted by that process until the token expires or the process restarts;
  only a restarted process answers the old secret as unknown.
\<close>

theorem rotation_needs_restart:
  assumes "load_tokens tf = Inr ts" "resolve_serve_auth svc nv tf None None None = Inr (Some ac)"
    and "lookup_token svc old ts = Some t" "\<not> is_expired t now" "authorizes t target required"
    and "distinct (token_labels ts)" "distinct (map tk_sha256 ts)"
    and "rotate_token svc then_now seed (tk_label t) days tf = (tf', Inr new)"
    and "hash_token svc new \<notin> tk_sha256 ` set ts"
  shows "(\<exists>i. config_authorize svc ac old target required now = Inr i \<and> ai_label i = tk_label t) \<and>
    (\<exists>ac'. resolve_serve_auth svc nv tf' None None None = Inr (Some ac') \<and>
       config_authorize svc ac' old target required now = Inl Unknown_Token)"
proof -
  have "t \<in> set ts" "hash_token svc old = tk_sha256 t"
    using assms(3) by (auto simp: lookup_token_def find_Some_iff)
  then obtain ts' where ts': "load_tokens tf' = Inr ts'" "lookup_token svc old ts' = None"
    "\<exists>s. lookup_token svc new ts' = Some s"
    using rotation_effect [OF assms(6,1,7) _ refl _ assms(8,9)] by blast
  then have "ts' \<noteq> []" by (auto simp: lookup_token_def)
  then have "resolve_serve_auth svc nv tf' None None None = Inr (Some (new_auth_config ts' None))"
    by (simp add: resolve_serve_auth_def ts'(1))
  moreover have "config_authorize svc (new_auth_config ts' None) old target required now = Inl Unknown_Token"
    by (simp add: config_authorize_def authorize_at_def new_auth_config_def ts'(2))
  moreover have "ac = new_auth_config ts None"
    using assms(2) by (auto simp: resolve_serve_auth_def assms(1) split: if_splits)
  then have "config_authorize svc ac old target required now =
      Inr \<lparr>ai_label = tk_label t, ai_actor_id = tk_actor_id t, ai_kind = Local_Token\<rparr>"
    by (simp add: config_authorize_def authorize_at_def new_auth_config_def assms(3,4,5))
  ultimately show ?thesis by simp
qed

end
