(* ===== verification/Server_Samples.thy ===== *)
theory Server_Samples imports Server_Members begin

text \<open>
  A small server on which the theorems of \<open>Server_Gate\<close> and \<open>Server_Members\<close> are applied: a token
  for one repository bound to an actor, an account of the identity provider, a log with one event.
\<close>

definition sample_sn :: server_env where
  "sample_sn =
     \<lparr>sn_services = plain_services, sn_data_dir = ''/srv/cursor'', sn_debug = (\<lambda>s. s),
      sn_percent_decode = (\<lambda>s. if s = ''%61'' then Some ''a'' else Some s), sn_parse_json = (\<lambda>_. None), sn_bridge = None\<rparr>"

definition agent_token :: token_record where
  "agent_token = (sample_token ''brick_s1'')\<lparr>tk_actor_id := Some ''agent-1''\<rparr>"

definition sample_auth :: auth_config where
  "sample_auth =
     \<lparr>ac_tokens = [agent_token],
      ac_supabase = Some (\<lambda>t. if t = ''jwt-1'' then Some (''user-1'', None) else None), ac_needs_org = False\<rparr>"

definition sample_request :: "string \<Rightarrow> route \<Rightarrow> http_method \<Rightarrow> trace_event list \<Rightarrow> request" where
  "sample_request secret r m evs =
     \<lparr>rq_route = r, rq_method = m, rq_authorization = Some (''Bearer '' @ secret),
      rq_list = \<lparr>lq_after = None, lq_limit = None, lq_repo_id = None\<rparr>,
      rq_sessions = \<lparr>vq_query = \<lparr>sq_app_id = None, sq_app_session_id = None, sq_app_session_name = None,
        sq_runtime_id = None, sq_actor_id = None\<rparr>, vq_limit = None\<rparr>,
      rq_history = \<lparr>hq_source = None, hq_limit = None, hq_offset = None, hq_schema = None, hq_format = None,
        hq_window_secs = None, hq_sources = []\<rparr>,
      rq_events = evs\<rparr>"

definition sample_state :: "server_store \<Rightarrow> server_state" where
  "sample_state st = \<lparr>ss_store = st, ss_audit = []\<rparr>"

lemma sample_simps [simp]:
  "sn_services sample_sn = plain_services" "sn_data_dir sample_sn = ''/srv/cursor''"
  "sn_percent_decode sample_sn s = (if s = ''%61'' then Some ''a'' else Some s)"
  "ac_tokens sample_auth = [agent_token]" "ac_needs_org sample_auth = False"
  "ac_supabase sample_auth = Some (\<lambda>t. if t = ''jwt-1'' then Some (''user-1'', None) else None)"
  "rq_route (sample_request secret r m evs) = r" "rq_method (sample_request secret r m evs) = m"
  "bearer_token (sample_request secret r m evs) = Some secret" "rq_events (sample_request secret r m evs) = evs"
  "lq_after (rq_list (sample_request secret r m evs)) = None" "lq_limit (rq_list (sample_request secret r m evs)) = None"
  "ss_store (sample_state st) = st" "ss_audit (sample_state st) = []"
  "tk_sha256 agent_token = ''brick_s1''" "tk_scopes agent_token = [Scope_Repo ''repo-1'']" "tk_access agent_token = Write"
  "tk_expires_at agent_token = None" "tk_actor_id agent_token = Some ''agent-1''" "tk_label agent_token = ''ci''"
  by (simp_all add: sample_sn_def sample_auth_def sample_request_def sample_state_def agent_token_def
      sample_token_def bearer_token_def strip_prefix_def)

lemma sample_lookup [simp]: "lookup_token plain_services ''brick_s1'' [agent_token] = Some agent_token"
  "lookup_token plain_services ''jwt-1'' [agent_token] = None"
  by (simp_all add: lookup_token_def)

lemma sample_route [simp]: "route_ok (Repo_Events ''repo-1'')"
  by (simp add: route_ok_def)

lemma sample_limited: "limited_to sample_sn sample_auth (sample_request ''brick_s1'' r m evs) ''repo-1'' ''repo-1''"
  by (simp add: limited_to_def)

text \<open>The log with the pushed event, alone and with another repository's event after it.\<close>

definition other_line :: log_line where
  "other_line = Json_Line (enc_trace_event plain_services (sample_push ''e2'' (Some ''repo-2'') None))"

definition busy_server :: server_store where
  "busy_server = pushed_server\<lparr>sv_log := Some (log_lines pushed_server @ [other_line])\<rparr>"

lemma sample_reads:
  "read_sequenced_events plain_services pushed_server = Inr [(1, sample_push ''e1'' (Some ''repo-1'') (Some ''org-1''))]"
  "read_sequenced_events plain_services busy_server =
     Inr [(1, sample_push ''e1'' (Some ''repo-1'') (Some ''org-1'')), (2, sample_push ''e2'' (Some ''repo-2'') None)]"
  using plain_services_read_back
  by (simp_all add: read_sequenced_events_def pushed_server_def busy_server_def other_line_def log_lines_def
      trace_event_read_back)

lemma sample_repo_logs:
  "repo_log plain_services pushed_server ''repo-1'' = Inr [(1, sample_push ''e1'' (Some ''repo-1'') (Some ''org-1''))]"
  "repo_log plain_services busy_server ''repo-1'' = Inr [(1, sample_push ''e1'' (Some ''repo-1'') (Some ''org-1''))]"
  by (simp_all add: repo_log_def sample_reads)

theorem repo_token_confidential_witness:
  "snd (handle_request sample_sn (Some sample_auth) 5 (sample_request ''brick_s1'' (Repo_Events ''repo-1'') GET [])
     (sample_state pushed_server)) =
   snd (handle_request sample_sn (Some sample_auth) 5 (sample_request ''brick_s1'' (Repo_Events ''repo-1'') GET [])
     (sample_state busy_server))"
  by (rule repo_token_confidential [OF sample_limited]) (simp_all add: required_access_def sample_repo_logs)

text \<open>A push by the token through the gate.\<close>

definition sample_events :: "trace_event list" where
  "sample_events = [sample_push ''e1'' None (Some ''org-1''), sample_push ''e1'' (Some ''repo-1'') None]"

definition sample_post :: request where
  "sample_post = sample_request ''brick_s1'' (Repo_Events ''repo-1'') POST sample_events"

definition sample_identity :: authed_identity where
  "sample_identity = \<lparr>ai_label = ''ci'', ai_actor_id = Some ''agent-1'', ai_kind = Local_Token\<rparr>"

lemma sample_target: "request_target sample_sn sample_auth sample_post st = (st, Target_Repo ''repo-1'' None)"
proof -
  have "snd (request_target sample_sn sample_auth sample_post st) = Target_Repo ''repo-1'' None"
    by (subst request_target_snd) (simp_all add: sample_post_def)
  moreover have "fst (request_target sample_sn sample_auth sample_post st) = st"
    by (simp add: request_target_def Let_def split: option.split)
  ultimately show ?thesis by (metis prod.collapse)
qed

lemma sample_granted: "granted_identity sample_sn sample_auth 5 sample_post st = Some sample_identity"
proof -
  have "bearer_token sample_post = Some ''brick_s1''" "required_access (rq_method sample_post) = Write"
    by (simp_all add: sample_post_def required_access_def)
  then show ?thesis
    by (simp add: granted_identity_def sample_target config_authorize_def authorize_at_def is_expired_def
        authorizes_def sample_identity_def)
qed

lemma sample_bound: "enforce_actor_binding sample_sn (Some sample_identity) sample_events = Inr ()"
  by (simp add: enforce_actor_binding_def sample_identity_def sample_events_def sample_push_def
      artifact_linked_to_mission_def from_payload_def)

lemma sample_handled:
  "handle_request sample_sn (Some sample_auth) 5 sample_post (sample_state fresh_server) =
   (\<lparr>ss_store = pushed_server, ss_audit = [Audit_Line (audit_entry_of 5 sample_identity sample_post)]\<rparr>,
    Pushed \<lparr>pr_accepted = [''e1''], pr_duplicate = [''e1'']\<rparr>)"
proof -
  have auth: "config_authorize plain_services sample_auth ''brick_s1'' (Target_Repo ''repo-1'' None) Write 5 = Inr sample_identity"
    by (simp add: config_authorize_def authorize_at_def is_expired_def authorizes_def sample_identity_def)
  have loc: "ai_kind sample_identity = Local_Token" by (simp add: sample_identity_def)
  have push: "push_repo_events_handler sample_sn (Some sample_identity) ''repo-1'' sample_events fresh_server =
      (pushed_server, Pushed \<lparr>pr_accepted = [''e1''], pr_duplicate = [''e1'']\<rparr>)"
    by (simp add: push_repo_events_handler_def loc sample_bound)
      (simp add: sample_events_def sample_push_result answer_def or_route_error_def)
  have acc: "required_access POST = Write" by (simp add: required_access_def)
  have parts: "rq_route sample_post = Repo_Events ''repo-1''" "rq_method sample_post = POST"
    "bearer_token sample_post = Some ''brick_s1''" "rq_events sample_post = sample_events"
    by (simp_all add: sample_post_def)
  show ?thesis
    by (simp add: handle_request_def require_bearer_token_def sample_target parts acc auth dispatch_def is_read_def
        with_segment_def with_store_def push audit_record_def audit_entry_of_def sample_state_def)
qed


lemma pushed_log: "sv_log pushed_server \<noteq> sv_log fresh_server"
  by (simp add: pushed_server_def)



text \<open>An account of the identity provider, first as a member of the owning org, then as a stranger.\<close>

definition member_server :: server_store where
  "member_server = pushed_server\<lparr>sv_members_file := Map_File [(''org-1'', [''user-1''])]\<rparr>"

definition sample_account :: authed_identity where
  "sample_account = \<lparr>ai_label = ''supabase:user-1'', ai_actor_id = None, ai_kind = Supabase ''user-1'' None\<rparr>"

lemma account_target:
  "repo_segment r = Some ''repo-1'' \<Longrightarrow>
   request_target sample_sn sample_auth (sample_request ''jwt-1'' r GET []) st = (st, Target_Repo ''repo-1'' None)"
proof -
  assume r: "repo_segment r = Some ''repo-1''"
  then have "snd (request_target sample_sn sample_auth (sample_request ''jwt-1'' r GET []) st) = Target_Repo ''repo-1'' None"
    by (subst request_target_snd) (simp_all add: route_ok_def)
  moreover have "fst (request_target sample_sn sample_auth (sample_request ''jwt-1'' r GET []) st) = st"
    by (simp add: request_target_def Let_def split: option.split)
  ultimately show ?thesis by (metis prod.collapse)
qed

lemma account_authorized:
  "config_authorize plain_services sample_auth ''jwt-1'' (Target_Repo ''repo-1'' None) Read 5 = Inr sample_account"
proof -
  have "trim ''user-1'' = ''user-1''" by (rule trim_graph) (simp_all add: graph_char_def)
  then show ?thesis
    by (simp add: config_authorize_def authorize_at_def verify_supabase_def sample_account_def)
qed

lemma account_granted:
  "repo_segment r = Some ''repo-1'' \<Longrightarrow>
   granted_identity sample_sn sample_auth 5 (sample_request ''jwt-1'' r GET []) st = Some sample_account"
  by (simp add: granted_identity_def account_target account_authorized required_access_def)

lemma sample_caches: "cache_is_file pushed_server" "cache_is_file member_server"
  by (simp_all add: pushed_server_def member_server_def cache_is_file_def load_map_file_def)


theorem sessions_skip_membership_witness:
  "\<exists>message. snd (handle_request sample_sn (Some sample_auth) 5
     (sample_request ''jwt-1'' (Repo_Sessions ''repo-1'') GET []\<lparr>rq_route := Repo_Events ''repo-1''\<rparr>)
     (sample_state pushed_server)) = Failed 403 message"
proof -
  have "members_in_force pushed_server = Some []"
    by (simp add: members_in_force_def pushed_server_def fresh_server_def new_server_store_def load_map_file_def)
  then have "\<not> owned_by_member plain_services pushed_server ''repo-1'' ''user-1''"
    by (simp add: owned_by_member_def member_of_force)
  then show ?thesis
    using sessions_skip_membership [of sample_sn sample_auth 5 "sample_request ''jwt-1'' (Repo_Sessions ''repo-1'') GET []"
        "sample_state pushed_server" sample_account "''user-1''" None "''repo-1''" "''repo-1''"]
    by (simp add: account_granted sample_caches) (simp add: sample_account_def)
qed

section \<open>Encoded segments, error texts and rotation\<close>

definition escaping_auth :: auth_config where
  "escaping_auth = \<lparr>ac_tokens = [agent_token\<lparr>tk_scopes := [Scope_Org ''evil'']\<rparr>], ac_supabase = None, ac_needs_org = True\<rparr>"

definition shared_server :: server_store where
  "shared_server = fresh_server\<lparr>sv_repo_org := Some [(''%61'', ''evil''), (''a'', ''acme'')]\<rparr>"

theorem encoded_segment_escapes_org_witness:
  "snd (handle_request sample_sn (Some escaping_auth) 5 (sample_request ''brick_s1'' (Repo_Events ''%61'') GET [])
     (sample_state shared_server)) =
   answer Page (or_route_error sample_sn (list_events_page plain_services shared_server (Some ''a'') None None))"
proof -
  have owners: "owner_of plain_services shared_server ''%61'' = Some ''evil''" "owner_of plain_services shared_server ''a'' = Some ''acme''"
    by (simp_all add: owner_of_def resolve_repo_org_def shared_server_def)
  show ?thesis
    using encoded_segment_escapes_org [of "sample_request ''brick_s1'' (Repo_Events ''%61'') GET []" "''brick_s1''" sample_sn
        escaping_auth "agent_token\<lparr>tk_scopes := [Scope_Org ''evil'']\<rparr>" "''evil''" "''%61''" "''a''" "sample_state shared_server"
        "''acme''" 5]
    by (simp add: owners) (simp add: escaping_auth_def lookup_token_def route_ok_def)
qed

theorem log_error_shows_path_witness:
  "\<exists>message. route_error sample_sn (Server_Log_Parse 3) = Failed 400 message \<and> contains ''/srv/cursor'' message"
  using log_error_shows_path [of sample_sn 3] by simp

theorem rotation_needs_restart_witness:
  "\<exists>ac tf' new. resolve_serve_auth plain_services (\<lambda>_ _ _. None) (Token_File [agent_token]) None None None = Inr (Some ac) \<and>
     rotate_token plain_services 0 ''s2'' ''ci'' None (Token_File [agent_token]) = (tf', Inr new) \<and>
     (\<exists>i. config_authorize plain_services ac ''brick_s1'' (Target_Repo ''repo-1'' None) Write 9 = Inr i)"
proof -
  have r: "rotate_token plain_services 0 ''s2'' ''ci'' None (Token_File [agent_token]) =
      (Token_File [agent_token\<lparr>tk_sha256 := ''brick_s2'', tk_expires_at := None\<rparr>], Inr ''brick_s2'')"
    by (simp add: rotate_token_def Let_def generate_token_def expiry_for_label_def)
  have a: "resolve_serve_auth plain_services (\<lambda>_ _ _. None) (Token_File [agent_token]) None None None =
      Inr (Some (new_auth_config [agent_token] None))"
    by (simp add: resolve_serve_auth_def)
  have "\<exists>i. config_authorize plain_services (new_auth_config [agent_token] None) ''brick_s1'' (Target_Repo ''repo-1'' None) Write 9 = Inr i"
    using rotation_needs_restart [OF _ a, of "[agent_token]" "''brick_s1''" agent_token 9 "Target_Repo ''repo-1'' None" Write 0 "''s2''"
        None "Token_File [agent_token\<lparr>tk_sha256 := ''brick_s2'', tk_expires_at := None\<rparr>]" "''brick_s2''"] r
    by (simp add: is_expired_def authorizes_def token_labels_def) blast
  then show ?thesis using a r by blast
qed

end
