(* ===== verification/Source_Match.thy ===== *)
theory Source_Match imports Explain begin

text \<open>
  Matching of files and text in the metadata database (\<^verbatim>\<open>metadata_db.rs\<close>): paths that may be
  absolute or relative to a repository, the lines an edit wrote, the evidence that a transcript
  chunk wrote a piece of text, and search terms. The transcript chunk is \<^verbatim>\<open>activity.rs\<close>'s.
\<close>

section \<open>Transcript chunks\<close>

record activity_chunk =
  ac_chunk_id :: string
  ac_session_id :: string
  ac_action_type :: string
  ac_function :: string
  ac_args :: json
  ac_result :: json
  ac_created_at :: string
  ac_thread_id :: "string option"
  ac_process_id :: "string option"
  ac_source_id :: "string option"
  ac_source_path :: "string option"
  ac_source_record_key :: "string option"
  ac_source_line_number :: "u64 option"
  ac_source_message_id :: "string option"
  ac_source_part_id :: "string option"

definition enc_activity_chunk :: "activity_chunk \<Rightarrow> json" where
  "enc_activity_chunk c = enc_struct (
     [(''chunk_id'', JStr (ac_chunk_id c)), (''session_id'', JStr (ac_session_id c)),
      (''action_type'', JStr (ac_action_type c)), (''function'', JStr (ac_function c)),
      (''args'', ac_args c), (''result'', ac_result c), (''created_at'', JStr (ac_created_at c))] @
     skip_if (ac_thread_id c = None) (''thread_id'', enc_opt JStr (ac_thread_id c)) @
     skip_if (ac_process_id c = None) (''process_id'', enc_opt JStr (ac_process_id c)) @
     skip_if (ac_source_id c = None) (''source_id'', enc_opt JStr (ac_source_id c)) @
     skip_if (ac_source_path c = None) (''source_path'', enc_opt JStr (ac_source_path c)) @
     skip_if (ac_source_record_key c = None) (''source_record_key'', enc_opt JStr (ac_source_record_key c)) @
     skip_if (ac_source_line_number c = None) (''source_line_number'', enc_opt enc_u64 (ac_source_line_number c)) @
     skip_if (ac_source_message_id c = None) (''source_message_id'', enc_opt JStr (ac_source_message_id c)) @
     skip_if (ac_source_part_id c = None) (''source_part_id'', enc_opt JStr (ac_source_part_id c)))"

definition action_type_tool_call :: string where
  "action_type_tool_call = ''tool_call''"

primrec collect_json_strings :: "json \<Rightarrow> string list" where
  "collect_json_strings JNull = []"
| "collect_json_strings (JBool b) = []"
| "collect_json_strings (JNum n) = []"
| "collect_json_strings (JStr text) = [text]"
| "collect_json_strings (JArr vs) = concat (map collect_json_strings vs)"
| "collect_json_strings (JObj m) = concat (map snd (map (map_prod id collect_json_strings) m))"

definition is_file_mutation_tool :: "string \<Rightarrow> bool" where
  "is_file_mutation_tool function \<longleftrightarrow>
     function \<in> {''edit_file'', ''write_file'', ''delete_file'', ''run_shell'', ''create_file'',
       ''apply_patch'', ''edit_file_by_replace''}"

definition as_str :: "json option \<Rightarrow> string option" where
  "as_str v = Option.bind v dec_str"

lemma as_str_simps [simp]: "as_str None = None" "as_str (Some (JStr s)) = Some s"
  by (simp_all add: as_str_def)

section \<open>Paths\<close>

definition join_repo_path :: "string \<Rightarrow> string \<Rightarrow> string" where
  "join_repo_path repo path =
     (if prefix ''/'' path then path else trim_end_matches ''/'' repo @ ''/'' @ path)"

definition path_suffix_matches :: "string \<Rightarrow> string \<Rightarrow> bool" where
  "path_suffix_matches full sfx \<longleftrightarrow>
     full = sfx \<or> (case strip_suffix sfx full of None \<Rightarrow> False | Some head \<Rightarrow> suffix ''/'' head)"

definition path_prefix_matches :: "string \<Rightarrow> string \<Rightarrow> bool" where
  "path_prefix_matches file_path directory \<longleftrightarrow>
     (let directory = trim_end_matches ''/'' directory
      in directory \<noteq> [] \<and> file_path \<noteq> directory \<and>
         (case strip_prefix directory file_path of None \<Rightarrow> False | Some tail \<Rightarrow> prefix ''/'' tail))"

definition blame_path_matches :: "string \<Rightarrow> string \<Rightarrow> string option \<Rightarrow> bool" where
  "blame_path_matches query stored repo_path \<longleftrightarrow>
     query = stored \<or>
     (case repo_path of
        None \<Rightarrow> False
      | Some repo \<Rightarrow>
          join_repo_path repo stored = query \<or> join_repo_path repo query = stored \<or>
          path_prefix_matches (join_repo_path repo stored) (join_repo_path repo query)) \<or>
     path_suffix_matches query stored \<or> path_suffix_matches stored query \<or>
     path_prefix_matches stored query"

definition touched_files_from_value :: "json option \<Rightarrow> string list" where
  "touched_files_from_value v = (case v of Some (JArr items) \<Rightarrow> List.map_filter dec_str items | _ \<Rightarrow> [])"

definition normalize_index_path :: "string \<Rightarrow> string" where
  "normalize_index_path path = trim_start_matches ''/'' path"

section \<open>Lines written by an edit\<close>

text \<open>The first \<open>n\<close> characters of a string.\<close>

fun take_chars :: "nat \<Rightarrow> string \<Rightarrow> string" where
  "take_chars 0 s = []"
| "take_chars (Suc n) s =
     (if s = [] then [] else take (fst (utf8_step s)) s @ take_chars n (drop (fst (utf8_step s)) s))"

function char_count :: "string \<Rightarrow> nat" where
  "char_count s = (if s = [] then 0 else Suc (char_count (drop (fst (utf8_step s)) s)))"
  by pat_completeness auto
termination
  by (relation "measure length") (auto simp: utf8_step_pos)

declare char_count.simps [simp del]

definition normalize_line_text :: "string \<Rightarrow> string" where
  "normalize_line_text text = trim text"

definition line_hash :: "services \<Rightarrow> string \<Rightarrow> string" where
  "line_hash svc line = sha256_hex svc (normalize_line_text line)"

definition line_preview :: "string \<Rightarrow> string" where
  "line_preview line = take_chars 160 line"

definition diff_added_or_plain_line :: "string \<Rightarrow> string option" where
  "diff_added_or_plain_line line =
     (let trimmed = trim_end line
      in if prefix ''+++'' trimmed \<or> prefix ''---'' trimmed \<or> prefix ''@@'' trimmed then None
         else (case strip_prefix ''+'' trimmed of
                 Some rest \<Rightarrow> Some rest
               | None \<Rightarrow>
                   (let plain = trim_start trimmed
                    in if plain = [] \<or> prefix ''-'' plain then None else Some trimmed)))"

definition payload_keys :: "string list" where
  "payload_keys = [''new_string'', ''content'', ''new_content'', ''patch'', ''input'']"

definition edit_tool_payload_has_content :: "json \<Rightarrow> bool" where
  "edit_tool_payload_has_content args = list_ex (\<lambda>key. json_get key args \<noteq> None) payload_keys"

definition payload_strings :: "json \<Rightarrow> string list" where
  "payload_strings args =
     concat (map (\<lambda>key. case json_get key args of None \<Rightarrow> [] | Some v \<Rightarrow> collect_json_strings v) payload_keys)"

definition chunk_provenance_lines :: "activity_chunk \<Rightarrow> string \<Rightarrow> string list" where
  "chunk_provenance_lines chunk kind =
     (let strings = (if kind = ''exact_edit_hunk'' then payload_strings (ac_args chunk)
                     else collect_json_strings (ac_result chunk));
          candidates = map normalize_line_text
            (concat (map (\<lambda>v. List.map_filter diff_added_or_plain_line (lines v)) strings))
      in keep_unseen (\<lambda>l. l) {} (filter (\<lambda>l. 6 \<le> length l) candidates))"

definition chunk_file_path :: "activity_chunk \<Rightarrow> string option" where
  "chunk_file_path chunk =
     (case List.map_filter (\<lambda>key. as_str (json_get key (ac_args chunk)))
             [''file_path'', ''path'', ''target_file'', ''file''] of
        path # _ \<Rightarrow> Some path
      | [] \<Rightarrow> ac_source_path chunk)"

definition provenance_rank :: "string \<Rightarrow> nat" where
  "provenance_rank kind =
     (if kind = ''exact_edit_hunk'' then 0
      else if kind = ''exact_diff_hunk'' then 1
      else if kind = ''text_match_edit_tool'' then 2
      else if kind = ''text_match_diff_output'' then 3
      else 4)"

section \<open>Text evidence\<close>

definition match_lines :: "string \<Rightarrow> string list" where
  "match_lines text = filter (\<lambda>l. 6 \<le> length l) (map trim (lines text))"

definition normalize_match_text :: "string \<Rightarrow> string" where
  "normalize_match_text text = join [CHR 0x0A] (filter (\<lambda>l. l \<noteq> []) (map trim (lines text)))"

definition matched_lines :: "string \<Rightarrow> string list \<Rightarrow> string list" where
  "matched_lines candidate selected = filter (\<lambda>line. contains line candidate) selected"

definition enough_line_overlap_count :: "nat \<Rightarrow> nat \<Rightarrow> bool" where
  "enough_line_overlap_count matched selected \<longleftrightarrow>
     2 \<le> selected \<and> 2 \<le> matched \<and> (selected * 2 \<le> matched * 5 \<or> 4 \<le> matched)"

definition text_evidence :: "string \<Rightarrow> string list \<Rightarrow> string list \<Rightarrow> json" where
  "text_evidence kind matched selected =
     JObj (bt_of_list [(''kind'', JStr kind),
       (''matched_line_count'', enc_u64 (of_nat (length matched))),
       (''selected_line_count'', enc_u64 (of_nat (length selected))),
       (''matched_preview'', JStr (join [CHR 0x0A] (take 8 matched)))])"

fun text_evidence_from_strings :: "string list \<Rightarrow> string \<Rightarrow> string \<Rightarrow> json option" where
  "text_evidence_from_strings [] text kind = None"
| "text_evidence_from_strings (candidate # strings) text kind =
     (let selected = match_lines text; cand = normalize_match_text candidate;
          matched = matched_lines cand selected
      in if contains text cand \<or> enough_line_overlap_count (length matched) (length selected)
         then Some (text_evidence kind matched selected)
         else text_evidence_from_strings strings text kind)"

definition chunk_text_evidence :: "json \<Rightarrow> json \<Rightarrow> json \<Rightarrow> string \<Rightarrow> json option" where
  "chunk_text_evidence args result raw text =
     or_else (text_evidence_from_strings (payload_strings args) text ''exact_edit_hunk'')
       (text_evidence_from_strings (collect_json_strings result @ collect_json_strings raw) text
          ''exact_diff_hunk'')"

section \<open>Facts about paths\<close>

lemma suffix_one: "suffix ''/'' s \<longleftrightarrow> (\<exists>h. s = h @ ''/'')"
  by (auto simp: suffix_def)

lemma path_suffix_matches_iff: "path_suffix_matches full sfx \<longleftrightarrow> full = sfx \<or> suffix (CHR ''/'' # sfx) full"
proof (cases "strip_suffix sfx full")
  case None
  then have "full \<noteq> t @ sfx" for t by (metis option.distinct(1) strip_suffix_Some_iff)
  then have "full \<noteq> t @ CHR ''/'' # sfx" for t by (metis append_Cons append_Nil append_assoc)
  then show ?thesis by (simp add: path_suffix_matches_def None suffix_def)
next
  case (Some head)
  then show ?thesis by (auto simp: path_suffix_matches_def suffix_def strip_suffix_Some_iff)
qed

lemma split_on_inj: "split_on c a = split_on c b \<longleftrightarrow> a = b"
  by (metis join_split_on)

lemma path_suffix_matches_split:
  "path_suffix_matches full sfx \<longleftrightarrow> suffix (split_on (CHR ''/'') sfx) (split_on (CHR ''/'') full)"
  unfolding suffix_components path_suffix_matches_iff by (auto simp: suffix_def split_on_inj)

lemma split_on_append_sep: "split_on c (a @ c # b) = split_on c a @ split_on c b"
proof (induction a)
  case (Cons x a)
  then show ?case by (cases "split_on c a") auto
qed simp

lemma split_on_strict_prefix:
  "(\<exists>t. f = d @ c # t) \<longleftrightarrow> strict_prefix (split_on c d) (split_on c f)"
proof
  assume "\<exists>t. f = d @ c # t"
  then show "strict_prefix (split_on c d) (split_on c f)"
    by (auto simp: split_on_append_sep strict_prefix_def prefix_def)
next
  assume "strict_prefix (split_on c d) (split_on c f)"
  then obtain ps where ps: "split_on c f = split_on c d @ ps" "ps \<noteq> []"
    by (auto simp: strict_prefix_def prefix_def)
  have "join [c] (xs @ ys) = join [c] xs @ c # join [c] ys" if "xs \<noteq> []" "ys \<noteq> []" for xs ys
    using that by (induction xs) (auto simp: join_Cons)
  from this [of "split_on c d" ps] ps have "f = d @ c # join [c] ps"
    by (metis join_split_on split_on_not_Nil)
  then show "\<exists>t. f = d @ c # t" by blast
qed

lemma path_prefix_matches_split:
  "path_prefix_matches file_path directory \<longleftrightarrow>
     trim_end_matches ''/'' directory \<noteq> [] \<and>
     strict_prefix (split_on (CHR ''/'') (trim_end_matches ''/'' directory)) (split_on (CHR ''/'') file_path)"
  unfolding split_on_strict_prefix [symmetric]
  by (auto simp: path_prefix_matches_def Let_def strip_prefix_Some_iff prefix_def split: option.splits)

text \<open>
  C28: blame matches a queried path with a recorded one by whole path components: one is a tail
  of the other, or the query names a directory above the recorded file, as given or after the
  repository's root was put in front of the relative ones.
\<close>

theorem blame_path_by_components:
  "blame_path_matches query stored repo_path \<longleftrightarrow>
     (let parts = split_on (CHR ''/'');
          below = (\<lambda>f d. trim_end_matches ''/'' d \<noteq> [] \<and> strict_prefix (parts (trim_end_matches ''/'' d)) (parts f))
      in suffix (parts query) (parts stored) \<or> suffix (parts stored) (parts query) \<or> below stored query \<or>
         (case repo_path of
            None \<Rightarrow> False
          | Some repo \<Rightarrow>
              parts (join_repo_path repo stored) = parts query \<or> parts (join_repo_path repo query) = parts stored \<or>
              below (join_repo_path repo stored) (join_repo_path repo query)))"
  by (auto simp: blame_path_matches_def path_suffix_matches_split path_prefix_matches_split Let_def
      split_on_inj split: option.split)

section \<open>Facts about lines\<close>

lemma keep_unseen_set: "set (keep_unseen (\<lambda>l. l) {} xs) = set xs"
  using keep_unseen_keys [of "\<lambda>l. l" "{}" xs] by simp

lemma set_map_filter: "y \<in> set (List.map_filter f xs) \<longleftrightarrow> (\<exists>x\<in>set xs. f x = Some y)"
  by (force simp: List.map_filter_def)

lemma bex_map_filter:
  "(\<exists>y\<in>set (List.map_filter f xs). P y) \<longleftrightarrow> (\<exists>x\<in>set xs. \<exists>y. f x = Some y \<and> P y)"
  unfolding Bex_def set_map_filter by blast

lemma chunk_provenance_line_iff:
  "l \<in> set (chunk_provenance_lines chunk ''exact_edit_hunk'') \<longleftrightarrow>
     6 \<le> length l \<and>
     (\<exists>value\<in>set (payload_strings (ac_args chunk)). \<exists>line\<in>set (lines value).
        \<exists>kept. diff_added_or_plain_line line = Some kept \<and> l = trim kept)"
  unfolding chunk_provenance_lines_def Let_def keep_unseen_set
  by (auto simp: bex_map_filter normalize_line_text_def image_iff)

lemma chunk_provenance_lines_distinct: "distinct (chunk_provenance_lines chunk kind)"
  using keep_unseen_distinct [of "\<lambda>l :: string. l"] unfolding chunk_provenance_lines_def Let_def by simp

text \<open>
  A line of new content that reads like a removed line of a diff is not recorded: the filter for
  diffs is applied to plain text as well.
\<close>

lemma list_item_not_recorded:
  "diff_added_or_plain_line ''- Use the cached index'' = None"
  "diff_added_or_plain_line ''  - nested item'' = None"
  "diff_added_or_plain_line ''Use the cached index'' = Some ''Use the cached index''"
  by code_simp+

end
