(* ===== verification/Metadata_Types.thy ===== *)
theory Metadata_Types imports Source_Match begin

text \<open>
  The rows of the metadata database (\<^verbatim>\<open>metadata_db.rs\<close>, \<^verbatim>\<open>plan_metadata.rs\<close>) and their column
  encodings. A record is declared once, over the types of its times, numbers and JSON values: with
  instants, \<^verbatim>\<open>u64\<close> and JSON it is the value of the program, with text, integers and text the row
  of the table.
\<close>

section \<open>Other crates and errors\<close>

text \<open>
  chrono's RFC 3339 parser, serde\_json's printer and parser, Unicode's lower case and the
  ranking of SQLite's full-text index: the row numbers that match, best first.
\<close>

record meta_env =
  me_services :: services
  me_parse_time :: "string \<Rightarrow> instant option"
  me_json_text :: "json \<Rightarrow> string"
  me_json_parse :: "string \<Rightarrow> json option"
  me_lower :: "string \<Rightarrow> string"
  me_fts :: "string list list \<Rightarrow> string \<Rightarrow> nat list"

datatype meta_error =
    Number_Exceeds_Integer      \<comment> \<open>a number above \<open>2 ^ 63 - 1\<close>\<close>
  | Bad_Row                     \<comment> \<open>a column that does not convert\<close>
  | Row_Missing
  | Session_Missing
  | Unique_Violated
  | Foreign_Key_Violated
  | Edge_Key_Mismatch string string
  | Bad_Schema_Version

type_synonym rowid = nat

section \<open>Records\<close>

record ('t, 'n, 'j) source_session =
  ss_source_id :: string
  ss_external_id :: string
  ss_title :: "string option"
  ss_name :: "string option"
  ss_source_path :: "string option"
  ss_source_uri :: "string option"
  ss_source_mtime :: "'t option"
  ss_source_size :: "'n option"
  ss_fingerprint :: "string option"
  ss_parser_version :: "string option"
  ss_session_created_at :: "'t option"
  ss_session_updated_at :: "'t option"
  ss_model :: "string option"
  ss_input_tokens :: "'n option"
  ss_output_tokens :: "'n option"
  ss_repo_path :: "string option"
  ss_branch :: "string option"
  ss_files_changed :: "'n option"
  ss_lines_added :: "'n option"
  ss_lines_removed :: "'n option"
  ss_touched_files :: "'j option"
  ss_listable :: bool
  ss_discovered_at :: 't
  ss_last_seen_at :: 't
  ss_metadata :: "'j option"

record ('t, 'n, 'j) source_session_record = "('t, 'n, 'j) source_session" +
  ss_created_at :: 't
  ss_updated_at :: 't

type_synonym session_upsert = "(instant, u64, json) source_session"
type_synonym session_record = "(instant, u64, json) source_session_record"
type_synonym session_row = "(string, int, string) source_session_record"

record ('n, 'j) session_chunk =
  sk_chunk_id :: string
  sk_index :: nat
  sk_action_type :: string
  sk_function :: string
  sk_args :: 'j
  sk_result :: 'j
  sk_created_at :: string
  sk_thread_id :: "string option"
  sk_process_id :: "string option"
  sk_source_path :: "string option"
  sk_source_record_key :: "string option"
  sk_source_line_number :: "'n option"
  sk_source_message_id :: "string option"
  sk_source_part_id :: "string option"
  sk_raw :: 'j

record ('n, 'j) session_chunk_record = "('n, 'j) session_chunk" +
  sk_source_id :: string
  sk_external_id :: string

type_synonym chunk_record = "(u64, json) session_chunk_record"
type_synonym chunk_data_row = "(int, string) session_chunk"

text \<open>A line of \<^verbatim>\<open>source_file_line_provenance\<close>; the context hash is always null.\<close>

record line_row =
  lr_session :: rowid
  lr_file_path :: string
  lr_normalized_path :: string
  lr_hash :: string
  lr_text :: string
  lr_preview :: string
  lr_chunk_id :: string
  lr_chunk_index :: nat
  lr_function :: string
  lr_kind :: string
  lr_matched :: nat
  lr_selected :: nat
  lr_created_at :: string
  lr_evidence :: string

record ('t, 'j) source_profile =
  sp_source_id :: string
  sp_name :: "string option"
  sp_app_id :: "string option"
  sp_actor_id :: "string option"
  sp_actor_type :: "string option"
  sp_profile :: "'j option"

record ('t, 'j) source_profile_record = "('t, 'j) source_profile" +
  sp_created_at :: 't
  sp_updated_at :: 't

datatype scan_status = Scan_Running | Scan_Completed | Scan_Error

definition scan_status_str :: "scan_status \<Rightarrow> string" where
  "scan_status_str s =
     (case s of Scan_Running \<Rightarrow> ''running'' | Scan_Completed \<Rightarrow> ''completed'' | Scan_Error \<Rightarrow> ''error'')"

record ('t, 'j) source_scan =
  sn_id :: rowid
  sn_source_id :: string
  sn_started_at :: 't
  sn_finished_at :: "'t option"
  sn_status :: string
  sn_metadata :: "'j option"

record ('t, 'j) source_plan =
  pl_source_id :: string
  pl_external_id :: string
  pl_title :: "string option"
  pl_source_path :: "string option"
  pl_source_uri :: "string option"
  pl_source_mtime :: "'t option"
  pl_parser_version :: "string option"
  pl_discovered_at :: 't
  pl_last_seen_at :: 't
  pl_metadata :: "'j option"

record ('t, 'j) source_plan_record = "('t, 'j) source_plan" +
  pl_created_at :: 't
  pl_updated_at :: 't

datatype edge_role = Created_By | Edited_By | Referenced_By | Built_By

definition edge_role_str :: "edge_role \<Rightarrow> string" where
  "edge_role_str r =
     (case r of
        Created_By \<Rightarrow> ''created_by'' | Edited_By \<Rightarrow> ''edited_by''
      | Referenced_By \<Rightarrow> ''referenced_by'' | Built_By \<Rightarrow> ''built_by'')"

definition edge_role_from_str :: "string \<Rightarrow> edge_role option" where
  "edge_role_from_str v =
     (if v = ''created_by'' then Some Created_By
      else if v = ''edited_by'' then Some Edited_By
      else if v = ''referenced_by'' then Some Referenced_By
      else if v = ''built_by'' then Some Built_By
      else None)"

lemma edge_role_back [simp]: "edge_role_from_str (edge_role_str r) = Some r"
  by (cases r) (simp_all add: edge_role_from_str_def edge_role_str_def)

record ('t, 'r, 'j) plan_edge =
  pe_external_session_id :: string
  pe_role :: 'r
  pe_todo_ids :: "'j option"
  pe_discovered_at :: 't
  pe_last_seen_at :: 't
  pe_metadata :: "'j option"

text \<open>The keys of the plan an edge belongs to, as the caller gives them and as they are read.\<close>

record ('t, 'r, 'j) keyed_plan_edge = "('t, 'r, 'j) plan_edge" +
  pe_source_id :: string
  pe_external_plan_id :: string

record ('t, 'r, 'j) plan_edge_record = "('t, 'r, 'j) keyed_plan_edge" +
  pe_created_at :: 't
  pe_updated_at :: 't

record ('t, 'r, 'j) plan_edge_row = "('t, 'r, 'j) plan_edge" +
  pe_plan_id :: rowid
  pe_row_created_at :: 't
  pe_row_updated_at :: 't

section \<open>Columns\<close>

definition optional_u64_to_i64 :: "u64 option \<Rightarrow> int option option" where
  "optional_u64_to_i64 v =
     (case v of
        None \<Rightarrow> Some None
      | Some n \<Rightarrow> if unat n < 2 ^ 63 then Some (Some (int (unat n))) else None)"

definition optional_i64_to_u64 :: "int option \<Rightarrow> u64 option option" where
  "optional_i64_to_u64 v =
     (case v of None \<Rightarrow> Some None | Some n \<Rightarrow> if 0 \<le> n then Some (Some (of_int n)) else None)"

definition time_text :: "meta_env \<Rightarrow> instant \<Rightarrow> string" where
  "time_text env t = rfc3339 (me_services env) t"

definition parse_optional_datetime :: "meta_env \<Rightarrow> string option \<Rightarrow> instant option option" where
  "parse_optional_datetime env v =
     (case v of None \<Rightarrow> Some None | Some s \<Rightarrow> map_option Some (me_parse_time env s))"

definition serialize_metadata_json :: "meta_env \<Rightarrow> json option \<Rightarrow> string option" where
  "serialize_metadata_json env v = map_option (me_json_text env) v"

definition parse_metadata_json :: "meta_env \<Rightarrow> string option \<Rightarrow> json option option" where
  "parse_metadata_json env v =
     (case v of None \<Rightarrow> Some None | Some s \<Rightarrow> map_option Some (me_json_parse env s))"

text \<open>The values that a time or a JSON value is stored as are read back as themselves.\<close>

definition time_reads_back :: "meta_env \<Rightarrow> instant \<Rightarrow> bool" where
  "time_reads_back env t \<longleftrightarrow> me_parse_time env (time_text env t) = Some t"

definition json_value_reads_back :: "meta_env \<Rightarrow> json \<Rightarrow> bool" where
  "json_value_reads_back env j \<longleftrightarrow> me_json_parse env (me_json_text env j) = Some j"

lemma i64_back: "optional_u64_to_i64 v = Some w \<Longrightarrow> optional_i64_to_u64 w = Some v"
  by (auto simp: optional_u64_to_i64_def optional_i64_to_u64_def split: option.splits if_splits)

lemma optional_time_back:
  "(\<And>t. v = Some t \<Longrightarrow> time_reads_back env t) \<Longrightarrow>
   parse_optional_datetime env (map_option (time_text env) v) = Some v"
  by (cases v) (simp_all add: parse_optional_datetime_def time_reads_back_def)

lemma optional_json_back:
  "(\<And>j. v = Some j \<Longrightarrow> json_value_reads_back env j) \<Longrightarrow>
   parse_metadata_json env (serialize_metadata_json env v) = Some v"
  by (cases v) (simp_all add: parse_metadata_json_def serialize_metadata_json_def json_value_reads_back_def)

section \<open>Sessions\<close>

text \<open>The bound parameters of an upsert: \<^verbatim>\<open>None\<close> when a number does not fit the column.\<close>

definition session_params :: "meta_env \<Rightarrow> session_upsert \<Rightarrow> (string, int, string) source_session option" where
  "session_params env s =
     do {
       size \<leftarrow> optional_u64_to_i64 (ss_source_size s);
       input \<leftarrow> optional_u64_to_i64 (ss_input_tokens s);
       output \<leftarrow> optional_u64_to_i64 (ss_output_tokens s);
       files \<leftarrow> optional_u64_to_i64 (ss_files_changed s);
       added \<leftarrow> optional_u64_to_i64 (ss_lines_added s);
       removed \<leftarrow> optional_u64_to_i64 (ss_lines_removed s);
       Some \<lparr>ss_source_id = ss_source_id s, ss_external_id = ss_external_id s, ss_title = ss_title s,
         ss_name = ss_name s, ss_source_path = map_option from_utf8_lossy (ss_source_path s),
         ss_source_uri = ss_source_uri s, ss_source_mtime = map_option (time_text env) (ss_source_mtime s),
         ss_source_size = size, ss_fingerprint = ss_fingerprint s, ss_parser_version = ss_parser_version s,
         ss_session_created_at = map_option (time_text env) (ss_session_created_at s),
         ss_session_updated_at = map_option (time_text env) (ss_session_updated_at s),
         ss_model = ss_model s, ss_input_tokens = input, ss_output_tokens = output,
         ss_repo_path = map_option from_utf8_lossy (ss_repo_path s), ss_branch = ss_branch s,
         ss_files_changed = files, ss_lines_added = added, ss_lines_removed = removed,
         ss_touched_files = serialize_metadata_json env (ss_touched_files s), ss_listable = ss_listable s,
         ss_discovered_at = time_text env (ss_discovered_at s),
         ss_last_seen_at = time_text env (ss_last_seen_at s),
         ss_metadata = serialize_metadata_json env (ss_metadata s)\<rparr>
     }"

definition source_session_from_row :: "meta_env \<Rightarrow> session_row \<Rightarrow> session_record option" where
  "source_session_from_row env r =
     do {
       mtime \<leftarrow> parse_optional_datetime env (ss_source_mtime r);
       size \<leftarrow> optional_i64_to_u64 (ss_source_size r);
       created \<leftarrow> parse_optional_datetime env (ss_session_created_at r);
       updated \<leftarrow> parse_optional_datetime env (ss_session_updated_at r);
       input \<leftarrow> optional_i64_to_u64 (ss_input_tokens r);
       output \<leftarrow> optional_i64_to_u64 (ss_output_tokens r);
       files \<leftarrow> optional_i64_to_u64 (ss_files_changed r);
       added \<leftarrow> optional_i64_to_u64 (ss_lines_added r);
       removed \<leftarrow> optional_i64_to_u64 (ss_lines_removed r);
       touched \<leftarrow> parse_metadata_json env (ss_touched_files r);
       discovered \<leftarrow> me_parse_time env (ss_discovered_at r);
       last_seen \<leftarrow> me_parse_time env (ss_last_seen_at r);
       row_created \<leftarrow> me_parse_time env (ss_created_at r);
       row_updated \<leftarrow> me_parse_time env (ss_updated_at r);
       metadata \<leftarrow> parse_metadata_json env (ss_metadata r);
       Some \<lparr>ss_source_id = ss_source_id r, ss_external_id = ss_external_id r, ss_title = ss_title r,
         ss_name = ss_name r, ss_source_path = ss_source_path r, ss_source_uri = ss_source_uri r,
         ss_source_mtime = mtime, ss_source_size = size, ss_fingerprint = ss_fingerprint r,
         ss_parser_version = ss_parser_version r, ss_session_created_at = created,
         ss_session_updated_at = updated, ss_model = ss_model r, ss_input_tokens = input,
         ss_output_tokens = output, ss_repo_path = ss_repo_path r, ss_branch = ss_branch r,
         ss_files_changed = files, ss_lines_added = added, ss_lines_removed = removed,
         ss_touched_files = touched, ss_listable = ss_listable r, ss_discovered_at = discovered,
         ss_last_seen_at = last_seen, ss_metadata = metadata, ss_created_at = row_created,
         ss_updated_at = row_updated\<rparr>
     }"

definition session_row_of ::
  "(string, int, string) source_session \<Rightarrow> string \<Rightarrow> string \<Rightarrow> session_row" where
  "session_row_of p created updated = source_session.extend p \<lparr>ss_created_at = created, ss_updated_at = updated\<rparr>"

text \<open>The record of an upsert: what is read back from its row.\<close>

definition session_record_of :: "session_upsert \<Rightarrow> instant \<Rightarrow> instant \<Rightarrow> session_record" where
  "session_record_of s created updated =
     source_session.extend
       (s\<lparr>ss_source_path := map_option from_utf8_lossy (ss_source_path s),
          ss_repo_path := map_option from_utf8_lossy (ss_repo_path s)\<rparr>)
       \<lparr>ss_created_at = created, ss_updated_at = updated\<rparr>"

definition session_reads_back :: "meta_env \<Rightarrow> session_upsert \<Rightarrow> bool" where
  "session_reads_back env s \<longleftrightarrow>
     (\<forall>t\<in>set_option (ss_source_mtime s) \<union> set_option (ss_session_created_at s) \<union>
          set_option (ss_session_updated_at s) \<union> {ss_discovered_at s, ss_last_seen_at s}.
        time_reads_back env t) \<and>
     (\<forall>j\<in>set_option (ss_touched_files s) \<union> set_option (ss_metadata s). json_value_reads_back env j)"

lemma session_row_reads_back:
  assumes "session_params env s = Some p" "session_reads_back env s"
    and "me_parse_time env created_text = Some created" "me_parse_time env updated_text = Some updated"
  shows "source_session_from_row env (session_row_of p created_text updated_text) =
    Some (session_record_of s created updated)"
proof -
  have times: "parse_optional_datetime env (map_option (time_text env) (ss_source_mtime s)) = Some (ss_source_mtime s)"
    "parse_optional_datetime env (map_option (time_text env) (ss_session_created_at s)) = Some (ss_session_created_at s)"
    "parse_optional_datetime env (map_option (time_text env) (ss_session_updated_at s)) = Some (ss_session_updated_at s)"
    "parse_metadata_json env (serialize_metadata_json env (ss_touched_files s)) = Some (ss_touched_files s)"
    "parse_metadata_json env (serialize_metadata_json env (ss_metadata s)) = Some (ss_metadata s)"
    "me_parse_time env (time_text env (ss_discovered_at s)) = Some (ss_discovered_at s)"
    "me_parse_time env (time_text env (ss_last_seen_at s)) = Some (ss_last_seen_at s)"
    using assms(2) by (auto simp: session_reads_back_def time_reads_back_def [symmetric]
        intro!: optional_time_back optional_json_back)
  from assms(1) show ?thesis
    by (auto simp: session_params_def bind_eq_Some_conv source_session_from_row_def session_row_of_def
        session_record_of_def source_session.defs times assms(3,4) dest!: i64_back)
qed

end
