(* ===== verification/Metadata_Db.thy ===== *)
theory Metadata_Db imports Metadata_Types begin

text \<open>
  The tables of the metadata database and the operations that change or read them
  (\<^verbatim>\<open>MetadataDb\<close> of \<^verbatim>\<open>metadata_db.rs\<close>). A transaction that fails leaves the database as it was.
  Row numbers come from a counter that is never reset, as AUTOINCREMENT promises; SQL's ORDER BY
  is a stable sort over insertion order.
\<close>

section \<open>Tables\<close>

record git_row =
  gr_path :: "string option"
  gr_uri :: "string option"
  gr_remote :: "string option"
  gr_head :: "string option"
  gr_created_at :: string
  gr_updated_at :: string

record root_row =
  rr_source_id :: string
  rr_path :: "string option"
  rr_uri :: "string option"
  rr_created_at :: string
  rr_updated_at :: string

record workspace_row =
  wr_path :: string
  wr_uri :: "string option"
  wr_created_at :: string
  wr_updated_at :: string

record resource_row =
  rs_session :: rowid
  rs_kind :: string
  rs_path :: "string option"
  rs_uri :: "string option"
  rs_metadata :: "string option"

type_synonym plan_row = "(string, string) source_plan_record"
type_synonym edge_row = "(string, string, string) plan_edge_row"

text \<open>A table with row numbers: the next one to use, and the rows in the order of insertion.\<close>

type_synonym 'r table = "rowid \<times> (rowid \<times> 'r) list"

record meta_db =
  md_sessions :: "session_row table"
  md_chunks :: "(rowid \<times> chunk_data_row) list"
  md_lines :: "line_row list"
  md_profiles :: "(string, string) source_profile_record table"
  md_roots :: "root_row table"
  md_scans :: "(string, string) source_scan table"
  md_plans :: "plan_row table"
  md_edges :: "edge_row list"
  md_resources :: "resource_row list"
  md_workspaces :: "workspace_row table"
  md_repos :: "git_row table"
  md_session_workspaces :: "(rowid \<times> rowid) list"
  md_session_repos :: "(rowid \<times> rowid) list"
  md_brick_links :: "(string \<times> rowid \<times> string) list"
  md_watermarks :: "(string \<times> string option \<times> string) table"

definition empty_meta_db :: meta_db where
  "empty_meta_db =
     \<lparr>md_sessions = (1, []), md_chunks = [], md_lines = [], md_profiles = (1, []), md_roots = (1, []),
      md_scans = (1, []), md_plans = (1, []), md_edges = [], md_resources = [], md_workspaces = (1, []),
      md_repos = (1, []), md_session_workspaces = [], md_session_repos = [], md_brick_links = [],
      md_watermarks = (1, [])\<rparr>"

text \<open>
  \<^verbatim>\<open>INSERT ... ON CONFLICT(key) DO UPDATE\<close>: the row with the same key is changed, else one is
  appended. The key is none when one of its columns is null: in SQL such a key equals no other.
\<close>

definition sql_upsert :: "('r \<Rightarrow> 'k option) \<Rightarrow> ('r \<Rightarrow> 'r) \<Rightarrow> 'r \<Rightarrow> 'r table \<Rightarrow> 'r table" where
  "sql_upsert key update new t =
     (Suc (fst t),
      if key new \<noteq> None \<and> list_ex (\<lambda>(i, r). key r = key new) (snd t)
      then map (\<lambda>(i, r). (i, if key r = key new then update r else r)) (snd t)
      else snd t @ [(fst t, new)])"

definition find_row :: "('r \<Rightarrow> bool) \<Rightarrow> 'r table \<Rightarrow> (rowid \<times> 'r) option" where
  "find_row p t = find (\<lambda>(i, r). p r) (snd t)"

definition has_row :: "rowid \<Rightarrow> 'r table \<Rightarrow> bool" where
  "has_row i t \<longleftrightarrow> i \<in> fst ` set (snd t)"

definition optional_filter :: "string option \<Rightarrow> string \<Rightarrow> bool" where
  "optional_filter want have = (case want of None \<Rightarrow> True | Some w \<Rightarrow> have = w)"

definition normalized_limit :: "nat \<Rightarrow> nat" where
  "normalized_limit limit = (if limit = 0 then 100 else min limit (2 ^ 63 - 1))"

definition normalized_offset :: "nat \<Rightarrow> nat" where
  "normalized_offset off = min off (2 ^ 63 - 1)"

section \<open>Opening\<close>

text \<open>
  The file as found: without a \<^verbatim>\<open>metadata\<close> table (new, or of another program), or with one and the
  value it holds for the schema version. Anything but the current version is dropped.
\<close>

datatype meta_file = No_Metadata_Table | Metadata_Table "string option" meta_db

definition metadata_db_schema_version :: nat where
  "metadata_db_schema_version = 7"

definition prepare_schema :: "meta_file \<Rightarrow> meta_error + meta_db" where
  "prepare_schema f =
     (case f of
        No_Metadata_Table \<Rightarrow> Inr empty_meta_db
      | Metadata_Table None _ \<Rightarrow> Inr empty_meta_db
      | Metadata_Table (Some v) db \<Rightarrow>
          (case parse_nat v of
             None \<Rightarrow> Inl Bad_Schema_Version
           | Some n \<Rightarrow>
               if 2 ^ 16 \<le> n then Inl Bad_Schema_Version
               else if n = metadata_db_schema_version then Inr db else Inr empty_meta_db))"

definition quote_identifier :: "string \<Rightarrow> string" where
  "quote_identifier identifier =
     [CHR 0x22] @ concat (map (\<lambda>c. if c = CHR 0x22 then [CHR 0x22, CHR 0x22] else [c]) identifier) @ [CHR 0x22]"

section \<open>Source sessions\<close>

definition is_session :: "string \<Rightarrow> string \<Rightarrow> session_row \<Rightarrow> bool" where
  "is_session source_id external r \<longleftrightarrow> ss_source_id r = source_id \<and> ss_external_id r = external"

definition session_key :: "('t, 'n, 'j, 'm) source_session_scheme \<Rightarrow> (string \<times> string) option" where
  "session_key r = Some (ss_source_id r, ss_external_id r)"

definition find_session :: "meta_db \<Rightarrow> string \<Rightarrow> string \<Rightarrow> (rowid \<times> session_row) option" where
  "find_session db source_id external = find_row (is_session source_id external) (md_sessions db)"

definition read_source_session ::
  "meta_env \<Rightarrow> meta_db \<Rightarrow> string \<Rightarrow> string \<Rightarrow> meta_error + session_record option" where
  "read_source_session env db source_id external =
     (case find_session db source_id external of
        None \<Rightarrow> Inr None
      | Some (i, r) \<Rightarrow>
          (case source_session_from_row env r of None \<Rightarrow> Inl Bad_Row | Some v \<Rightarrow> Inr (Some v)))"

definition read_source_session_id :: "meta_db \<Rightarrow> string \<Rightarrow> string \<Rightarrow> rowid option" where
  "read_source_session_id db source_id external = map_option fst (find_session db source_id external)"

definition upsert_source_session ::
  "meta_env \<Rightarrow> instant \<Rightarrow> session_upsert \<Rightarrow> meta_db \<Rightarrow> meta_db \<times> (meta_error + session_record)" where
  "upsert_source_session env now s db =
     (case session_params env s of
        None \<Rightarrow> (db, Inl Number_Exceeds_Integer)
      | Some p \<Rightarrow>
          (let stamp = time_text env now;
               db' = db\<lparr>md_sessions := sql_upsert session_key
                          (\<lambda>r. session_row_of p (ss_created_at r) stamp)
                          (session_row_of p stamp stamp) (md_sessions db)\<rparr>
           in case read_source_session env db' (ss_source_id s) (ss_external_id s) of
                Inl e \<Rightarrow> (db, Inl e)
              | Inr None \<Rightarrow> (db', Inl Row_Missing)
              | Inr (Some r) \<Rightarrow> (db', Inr r)))"

text \<open>
  \<^verbatim>\<open>ORDER BY last_seen_at DESC, source_id, external_session_id\<close>, of the rows with the wanted source.
\<close>

definition newest_sessions :: "string option \<Rightarrow> (rowid \<times> session_row) list \<Rightarrow> session_row list" where
  "newest_sessions source_id rows =
     sort_desc ss_last_seen_at (sort_key ss_source_id (sort_key ss_external_id
       (filter (\<lambda>r. optional_filter source_id (ss_source_id r)) (map snd rows))))"

definition read_sessions :: "meta_env \<Rightarrow> session_row list \<Rightarrow> meta_error + session_record list" where
  "read_sessions env rows =
     collect_results (\<lambda>r. ok_or (source_session_from_row env r) Bad_Row) rows"

definition list_source_sessions ::
  "meta_env \<Rightarrow> meta_db \<Rightarrow> string option \<Rightarrow> nat \<Rightarrow> nat \<Rightarrow> meta_error + session_record list" where
  "list_source_sessions env db source_id limit off =
     read_sessions env (take (normalized_limit limit) (drop (normalized_offset off)
       (filter ss_listable (newest_sessions source_id (snd (md_sessions db))))))"

definition count_source_sessions :: "meta_db \<Rightarrow> string option \<Rightarrow> nat" where
  "count_source_sessions db source_id =
     length (filter (\<lambda>(i, r). optional_filter source_id (ss_source_id r) \<and> ss_listable r) (snd (md_sessions db)))"

definition source_has_parser_version_mismatch :: "meta_db \<Rightarrow> string \<Rightarrow> string \<Rightarrow> bool" where
  "source_has_parser_version_mismatch db source_id version =
     list_ex (\<lambda>(i, r). ss_source_id r = source_id \<and> ss_listable r \<and> ss_parser_version r \<noteq> Some version)
       (snd (md_sessions db))"

definition list_distinct_repo_paths :: "meta_db \<Rightarrow> string list" where
  "list_distinct_repo_paths db =
     bs_of_list (List.map_filter
       (\<lambda>(i, r). if ss_listable r then filter_opt (\<lambda>p. p \<noteq> []) (ss_repo_path r) else None) (snd (md_sessions db)))"

definition touch_source_session_last_seen ::
  "meta_env \<Rightarrow> instant \<Rightarrow> string \<Rightarrow> string \<Rightarrow> instant \<Rightarrow> meta_db \<Rightarrow> meta_db \<times> bool" where
  "touch_source_session_last_seen env now source_id external last_seen db =
     (db\<lparr>md_sessions := (fst (md_sessions db), map (\<lambda>(i, r). (i, if is_session source_id external r
            then r\<lparr>ss_last_seen_at := time_text env last_seen, ss_updated_at := time_text env now\<rparr> else r))
          (snd (md_sessions db)))\<rparr>,
      find_session db source_id external \<noteq> None)"

section \<open>Transcript chunks and the lines they wrote\<close>

definition chunk_params :: "meta_env \<Rightarrow> nat \<Rightarrow> activity_chunk \<Rightarrow> chunk_data_row option" where
  "chunk_params env index c =
     do {
       line_number \<leftarrow> optional_u64_to_i64 (ac_source_line_number c);
       Some \<lparr>sk_chunk_id = ac_chunk_id c, sk_index = index, sk_action_type = ac_action_type c,
         sk_function = ac_function c, sk_args = me_json_text env (ac_args c),
         sk_result = me_json_text env (ac_result c), sk_created_at = ac_created_at c,
         sk_thread_id = ac_thread_id c, sk_process_id = ac_process_id c, sk_source_path = ac_source_path c,
         sk_source_record_key = ac_source_record_key c, sk_source_line_number = line_number,
         sk_source_message_id = ac_source_message_id c, sk_source_part_id = ac_source_part_id c,
         sk_raw = me_json_text env (enc_activity_chunk c)\<rparr>
     }"

definition line_evidence :: "nat \<Rightarrow> activity_chunk \<Rightarrow> string \<Rightarrow> string \<Rightarrow> string \<Rightarrow> json" where
  "line_evidence index c path kind line =
     JObj (bt_of_list [(''kind'', JStr kind), (''file_path'', JStr path), (''line_preview'', JStr (line_preview line)),
       (''source'', enc_opt JStr (ac_source_id c)), (''session_id'', JStr (ac_session_id c)),
       (''chunk_id'', JStr (ac_chunk_id c)), (''chunk_index'', enc_u64 (of_nat index)),
       (''function'', JStr (ac_function c))])"

definition line_row_of ::
  "meta_env \<Rightarrow> rowid \<Rightarrow> nat \<Rightarrow> activity_chunk \<Rightarrow> string \<Rightarrow> string \<Rightarrow> string \<Rightarrow> line_row" where
  "line_row_of env session index c path kind line =
     \<lparr>lr_session = session, lr_file_path = path, lr_normalized_path = normalize_index_path path,
      lr_hash = line_hash (me_services env) line, lr_text = line, lr_preview = line_preview line,
      lr_chunk_id = ac_chunk_id c, lr_chunk_index = index, lr_function = ac_function c, lr_kind = kind,
      lr_matched = 1, lr_selected = 1, lr_created_at = ac_created_at c,
      lr_evidence = me_json_text env (line_evidence index c path kind line)\<rparr>"

definition line_key :: "line_row \<Rightarrow> rowid \<times> string \<times> string \<times> string" where
  "line_key r = (lr_session r, lr_normalized_path r, lr_hash r, lr_chunk_id r)"

text \<open>\<^verbatim>\<open>INSERT OR IGNORE\<close>: a row whose unique key is taken is dropped.\<close>

definition insert_line :: "line_row \<Rightarrow> line_row list \<Rightarrow> line_row list" where
  "insert_line r rows = (if line_key r \<in> line_key ` set rows then rows else rows @ [r])"

definition chunk_line_rows :: "meta_env \<Rightarrow> rowid \<Rightarrow> nat \<Rightarrow> activity_chunk \<Rightarrow> line_row list" where
  "chunk_line_rows env session index c =
     (if ac_action_type c \<noteq> action_type_tool_call \<or> \<not> is_file_mutation_tool (ac_function c) then []
      else (case chunk_file_path c of
              None \<Rightarrow> []
            | Some path \<Rightarrow>
                (let kind = (if edit_tool_payload_has_content (ac_args c) then ''exact_edit_hunk''
                             else ''exact_diff_hunk'')
                 in map (line_row_of env session index c path kind) (chunk_provenance_lines c kind))))"

definition insert_line_provenance_for_chunk ::
  "meta_env \<Rightarrow> rowid \<Rightarrow> nat \<Rightarrow> activity_chunk \<Rightarrow> line_row list \<Rightarrow> line_row list" where
  "insert_line_provenance_for_chunk env session index c rows =
     fold insert_line (chunk_line_rows env session index c) rows"

fun insert_chunks ::
  "meta_env \<Rightarrow> rowid \<Rightarrow> nat \<Rightarrow> activity_chunk list \<Rightarrow> meta_db \<Rightarrow> meta_error + meta_db" where
  "insert_chunks env session index [] db = Inr db"
| "insert_chunks env session index (c # cs) db =
     (case chunk_params env index c of
        None \<Rightarrow> Inl Number_Exceeds_Integer
      | Some row \<Rightarrow>
          if list_ex (\<lambda>(s, r). s = session \<and> sk_chunk_id r = sk_chunk_id row) (md_chunks db)
          then Inl Unique_Violated
          else insert_chunks env session (Suc index) cs
                 (db\<lparr>md_chunks := md_chunks db @ [(session, row)],
                     md_lines := insert_line_provenance_for_chunk env session index c (md_lines db)\<rparr>))"

definition upsert_source_session_chunks ::
  "meta_env \<Rightarrow> string \<Rightarrow> string \<Rightarrow> activity_chunk list \<Rightarrow> meta_db \<Rightarrow> meta_db \<times> (meta_error + unit)" where
  "upsert_source_session_chunks env source_id external chunks db =
     (case read_source_session_id db source_id external of
        None \<Rightarrow> (db, Inl Session_Missing)
      | Some session \<Rightarrow>
          (case insert_chunks env session 0 chunks
                  (db\<lparr>md_chunks := filter (\<lambda>(s, r). s \<noteq> session) (md_chunks db),
                      md_lines := filter (\<lambda>r. lr_session r \<noteq> session) (md_lines db)\<rparr>) of
             Inl e \<Rightarrow> (db, Inl e)
           | Inr db' \<Rightarrow> (db', Inr ())))"

definition chunk_record_of_row ::
  "meta_env \<Rightarrow> string \<Rightarrow> string \<Rightarrow> chunk_data_row \<Rightarrow> chunk_record option" where
  "chunk_record_of_row env source_id external r =
     do {
       args \<leftarrow> me_json_parse env (sk_args r);
       res \<leftarrow> me_json_parse env (sk_result r);
       line_number \<leftarrow> optional_i64_to_u64 (sk_source_line_number r);
       raw \<leftarrow> me_json_parse env (sk_raw r);
       Some \<lparr>sk_chunk_id = sk_chunk_id r, sk_index = sk_index r, sk_action_type = sk_action_type r,
         sk_function = sk_function r, sk_args = args, sk_result = res, sk_created_at = sk_created_at r,
         sk_thread_id = sk_thread_id r, sk_process_id = sk_process_id r, sk_source_path = sk_source_path r,
         sk_source_record_key = sk_source_record_key r, sk_source_line_number = line_number,
         sk_source_message_id = sk_source_message_id r, sk_source_part_id = sk_source_part_id r,
         sk_raw = raw, sk_source_id = source_id, sk_external_id = external\<rparr>
     }"

text \<open>The chunk rows of a session, in the order of the listing.\<close>

definition session_chunk_rows :: "meta_db \<Rightarrow> string \<Rightarrow> string \<Rightarrow> chunk_data_row list" where
  "session_chunk_rows db source_id external =
     sort_key sk_index (sort_key sk_created_at (sort_key sk_chunk_id
       (List.map_filter (\<lambda>(s, r). if Some s = read_source_session_id db source_id external then Some r else None)
         (md_chunks db))))"

definition list_source_session_chunks ::
  "meta_env \<Rightarrow> meta_db \<Rightarrow> string \<Rightarrow> string \<Rightarrow> meta_error + chunk_record list" where
  "list_source_session_chunks env db source_id external =
     collect_results (\<lambda>r. ok_or (chunk_record_of_row env source_id external r) Bad_Row)
       (session_chunk_rows db source_id external)"

section \<open>Profiles, watermarks and scans\<close>

definition source_profile_from_row ::
  "meta_env \<Rightarrow> (string, string) source_profile_record \<Rightarrow> (instant, json) source_profile_record option" where
  "source_profile_from_row env r =
     do {
       profile \<leftarrow> parse_metadata_json env (sp_profile r);
       created \<leftarrow> me_parse_time env (sp_created_at r);
       updated \<leftarrow> me_parse_time env (sp_updated_at r);
       Some \<lparr>sp_source_id = sp_source_id r, sp_name = sp_name r, sp_app_id = sp_app_id r,
         sp_actor_id = sp_actor_id r, sp_actor_type = sp_actor_type r, sp_profile = profile,
         sp_created_at = created, sp_updated_at = updated\<rparr>
     }"

definition get_source_profile ::
  "meta_env \<Rightarrow> meta_db \<Rightarrow> string \<Rightarrow> meta_error + (instant, json) source_profile_record option" where
  "get_source_profile env db source_id =
     (case find_row (\<lambda>r. sp_source_id r = source_id) (md_profiles db) of
        None \<Rightarrow> Inr None
      | Some (i, r) \<Rightarrow> (case source_profile_from_row env r of None \<Rightarrow> Inl Bad_Row | Some v \<Rightarrow> Inr (Some v)))"

definition upsert_source_profile ::
  "meta_env \<Rightarrow> instant \<Rightarrow> (instant, json) source_profile \<Rightarrow> meta_db \<Rightarrow>
   meta_db \<times> (meta_error + (instant, json) source_profile_record)" where
  "upsert_source_profile env now p db =
     (let stamp = time_text env now;
          new = \<lparr>sp_source_id = sp_source_id p, sp_name = sp_name p, sp_app_id = sp_app_id p,
            sp_actor_id = sp_actor_id p, sp_actor_type = sp_actor_type p,
            sp_profile = serialize_metadata_json env (sp_profile p), sp_created_at = stamp, sp_updated_at = stamp\<rparr>;
          db' = db\<lparr>md_profiles := sql_upsert (\<lambda>r. Some (sp_source_id r))
                     (\<lambda>r. new\<lparr>sp_created_at := sp_created_at r\<rparr>) new (md_profiles db)\<rparr>
      in (db', and_then (get_source_profile env db' (sp_source_id p)) (\<lambda>r. ok_or r Row_Missing)))"

definition get_source_watermark :: "meta_db \<Rightarrow> string \<Rightarrow> (string option \<times> string) option" where
  "get_source_watermark db source_id =
     map_option (\<lambda>(i, k, w). w) (find_row (\<lambda>(k, w). k = source_id) (md_watermarks db))"

definition set_source_watermark :: "string \<Rightarrow> string option \<Rightarrow> string \<Rightarrow> meta_db \<Rightarrow> meta_db" where
  "set_source_watermark source_id last_indexed last_refreshed db =
     db\<lparr>md_watermarks := sql_upsert (\<lambda>(k, w). Some k)
          (\<lambda>(k, indexed, refreshed). (k, or_else last_indexed indexed, last_refreshed))
          (source_id, last_indexed, last_refreshed) (md_watermarks db)\<rparr>"

definition clear_source_watermark :: "string \<Rightarrow> meta_db \<Rightarrow> meta_db" where
  "clear_source_watermark source_id db =
     db\<lparr>md_watermarks := (fst (md_watermarks db), filter (\<lambda>(i, k, w). k \<noteq> source_id) (snd (md_watermarks db)))\<rparr>"

definition begin_source_scan :: "meta_env \<Rightarrow> instant \<Rightarrow> string \<Rightarrow> meta_db \<Rightarrow> meta_db \<times> rowid" where
  "begin_source_scan env now source_id db =
     (let i = fst (md_scans db);
          row = \<lparr>sn_id = i, sn_source_id = source_id, sn_started_at = time_text env now, sn_finished_at = None,
                 sn_status = scan_status_str Scan_Running, sn_metadata = None\<rparr>
      in (db\<lparr>md_scans := (Suc i, snd (md_scans db) @ [(i, row)])\<rparr>, i))"

definition finish_source_scan ::
  "meta_env \<Rightarrow> instant \<Rightarrow> rowid \<Rightarrow> scan_status \<Rightarrow> json option \<Rightarrow> meta_db \<Rightarrow> meta_db" where
  "finish_source_scan env now scan status metadata db =
     db\<lparr>md_scans := (fst (md_scans db), map (\<lambda>(i, r). (i, if i = scan
          then r\<lparr>sn_finished_at := Some (time_text env now), sn_status := scan_status_str status,
                 sn_metadata := serialize_metadata_json env metadata\<rparr> else r)) (snd (md_scans db)))\<rparr>"

definition source_scan_from_row ::
  "meta_env \<Rightarrow> (string, string) source_scan \<Rightarrow> (instant, json) source_scan option" where
  "source_scan_from_row env r =
     do {
       started \<leftarrow> me_parse_time env (sn_started_at r);
       finished \<leftarrow> parse_optional_datetime env (sn_finished_at r);
       metadata \<leftarrow> parse_metadata_json env (sn_metadata r);
       Some \<lparr>sn_id = sn_id r, sn_source_id = sn_source_id r, sn_started_at = started, sn_finished_at = finished,
         sn_status = sn_status r, sn_metadata = metadata\<rparr>
     }"

definition get_source_scan ::
  "meta_env \<Rightarrow> meta_db \<Rightarrow> rowid \<Rightarrow> meta_error + (instant, json) source_scan option" where
  "get_source_scan env db scan =
     (case find (\<lambda>(i, r). i = scan) (snd (md_scans db)) of
        None \<Rightarrow> Inr None
      | Some (i, r) \<Rightarrow> (case source_scan_from_row env r of None \<Rightarrow> Inl Bad_Row | Some v \<Rightarrow> Inr (Some v)))"

section \<open>Roots, workspaces and repositories\<close>

definition root_key :: "root_row \<Rightarrow> (string \<times> string \<times> string) option" where
  "root_key r =
     (case (rr_path r, rr_uri r) of (Some p, Some u) \<Rightarrow> Some (rr_source_id r, p, u) | _ \<Rightarrow> None)"

definition upsert_source_root ::
  "meta_env \<Rightarrow> instant \<Rightarrow> string \<Rightarrow> string option \<Rightarrow> string option \<Rightarrow> meta_db \<Rightarrow>
   meta_db \<times> (meta_error + rowid)" where
  "upsert_source_root env now source_id path uri db =
     (let stamp = time_text env now;
          new = \<lparr>rr_source_id = source_id, rr_path = path, rr_uri = uri, rr_created_at = stamp, rr_updated_at = stamp\<rparr>;
          db' = db\<lparr>md_roots := sql_upsert root_key (\<lambda>r. r\<lparr>rr_updated_at := stamp\<rparr>) new (md_roots db)\<rparr>
      in (db', ok_or (map_option fst
            (find_row (\<lambda>r. rr_source_id r = source_id \<and> rr_path r = path \<and> rr_uri r = uri) (md_roots db'))) Row_Missing))"

definition upsert_workspace_root ::
  "meta_env \<Rightarrow> instant \<Rightarrow> string \<Rightarrow> string option \<Rightarrow> meta_db \<Rightarrow> meta_db \<times> (meta_error + rowid)" where
  "upsert_workspace_root env now path uri db =
     (let stamp = time_text env now;
          new = \<lparr>wr_path = path, wr_uri = uri, wr_created_at = stamp, wr_updated_at = stamp\<rparr>;
          db' = db\<lparr>md_workspaces := sql_upsert (\<lambda>r. Some (wr_path r))
                     (\<lambda>r. r\<lparr>wr_uri := uri, wr_updated_at := stamp\<rparr>) new (md_workspaces db)\<rparr>
      in (db', ok_or (map_option fst (find_row (\<lambda>r. wr_path r = path) (md_workspaces db'))) Row_Missing))"

definition git_key :: "git_row \<Rightarrow> (string \<times> string) option" where
  "git_key r = (case (gr_path r, gr_uri r) of (Some p, Some u) \<Rightarrow> Some (p, u) | _ \<Rightarrow> None)"

definition upsert_git_repository ::
  "meta_env \<Rightarrow> instant \<Rightarrow> string option \<Rightarrow> string option \<Rightarrow> string option \<Rightarrow> string option \<Rightarrow> meta_db \<Rightarrow>
   meta_db \<times> (meta_error + rowid)" where
  "upsert_git_repository env now path uri remote head_commit db =
     (let stamp = time_text env now;
          new = \<lparr>gr_path = path, gr_uri = uri, gr_remote = remote, gr_head = head_commit,
                 gr_created_at = stamp, gr_updated_at = stamp\<rparr>;
          db' = db\<lparr>md_repos := sql_upsert git_key
                     (\<lambda>r. r\<lparr>gr_remote := remote, gr_head := head_commit, gr_updated_at := stamp\<rparr>) new (md_repos db)\<rparr>
      in (db', ok_or (map_option fst (find_row (\<lambda>r. gr_path r = path \<and> gr_uri r = uri) (md_repos db'))) Row_Missing))"

text \<open>Links: an existing one is ignored; one to a row that does not exist violates the foreign key.\<close>

definition link_session_workspace_root :: "rowid \<Rightarrow> rowid \<Rightarrow> meta_db \<Rightarrow> meta_db \<times> (meta_error + unit)" where
  "link_session_workspace_root session workspace db =
     (if (session, workspace) \<in> set (md_session_workspaces db) then (db, Inr ())
      else if \<not> has_row session (md_sessions db) \<or> \<not> has_row workspace (md_workspaces db)
      then (db, Inl Foreign_Key_Violated)
      else (db\<lparr>md_session_workspaces := md_session_workspaces db @ [(session, workspace)]\<rparr>, Inr ()))"

definition link_session_git_repository :: "rowid \<Rightarrow> rowid \<Rightarrow> meta_db \<Rightarrow> meta_db \<times> (meta_error + unit)" where
  "link_session_git_repository session repo db =
     (if (session, repo) \<in> set (md_session_repos db) then (db, Inr ())
      else if \<not> has_row session (md_sessions db) \<or> \<not> has_row repo (md_repos db)
      then (db, Inl Foreign_Key_Violated)
      else (db\<lparr>md_session_repos := md_session_repos db @ [(session, repo)]\<rparr>, Inr ()))"

definition link_brick_session_to_source_session ::
  "meta_env \<Rightarrow> instant \<Rightarrow> string \<Rightarrow> rowid \<Rightarrow> meta_db \<Rightarrow> meta_db \<times> (meta_error + unit)" where
  "link_brick_session_to_source_session env now brick session db =
     (if list_ex (\<lambda>(b, s, t). b = brick \<and> s = session) (md_brick_links db) then (db, Inr ())
      else if \<not> has_row session (md_sessions db) then (db, Inl Foreign_Key_Violated)
      else (db\<lparr>md_brick_links := md_brick_links db @ [(brick, session, time_text env now)]\<rparr>, Inr ()))"

definition list_session_workspace_roots :: "meta_db \<Rightarrow> rowid \<Rightarrow> string list" where
  "list_session_workspace_roots db session =
     sort_key (\<lambda>p. p) (map (\<lambda>(i, r). wr_path r)
       (filter (\<lambda>(i, r). (session, i) \<in> set (md_session_workspaces db)) (snd (md_workspaces db))))"

definition list_session_git_repositories :: "meta_db \<Rightarrow> rowid \<Rightarrow> string list" where
  "list_session_git_repositories db session =
     sort_key (\<lambda>p. p) (List.map_filter
       (\<lambda>(i, r). if (session, i) \<in> set (md_session_repos db) then gr_path r else None) (snd (md_repos db)))"

definition upsert_source_session_resource ::
  "meta_env \<Rightarrow> rowid \<Rightarrow> string \<Rightarrow> string option \<Rightarrow> string option \<Rightarrow> json option \<Rightarrow> meta_db \<Rightarrow>
   meta_db \<times> (meta_error + unit)" where
  "upsert_source_session_resource env session kind path uri metadata db =
     (if list_ex (\<lambda>r. rs_session r = session \<and> rs_kind r = kind \<and> rs_path r = path) (md_resources db)
      then (db, Inr ())
      else if \<not> has_row session (md_sessions db) then (db, Inl Foreign_Key_Violated)
      else (db\<lparr>md_resources := md_resources db @
               [\<lparr>rs_session = session, rs_kind = kind, rs_path = path, rs_uri = uri,
                 rs_metadata = serialize_metadata_json env metadata\<rparr>]\<rparr>, Inr ()))"

text \<open>In an ascending order null comes first, as in the order of options.\<close>

definition list_source_session_resources :: "meta_db \<Rightarrow> rowid \<Rightarrow> (string \<times> string option) list" where
  "list_source_session_resources db session =
     map (\<lambda>r. (rs_kind r, rs_path r)) (sort_key rs_kind (sort_key (\<lambda>r. case rs_path r of None \<Rightarrow> [] | Some p \<Rightarrow> [p])
       (filter (\<lambda>r. rs_session r = session) (md_resources db))))"

definition list_source_sessions_for_brick_session :: "meta_db \<Rightarrow> string \<Rightarrow> (string \<times> string) list" where
  "list_source_sessions_for_brick_session db brick =
     map (\<lambda>r. (ss_source_id r, ss_external_id r)) (sort_key ss_source_id (sort_key ss_external_id
       (List.map_filter (\<lambda>(i, r). if list_ex (\<lambda>(b, s, t). b = brick \<and> s = i) (md_brick_links db) then Some r else None)
         (snd (md_sessions db)))))"

definition list_brick_sessions_for_source_session :: "meta_db \<Rightarrow> rowid \<Rightarrow> string list" where
  "list_brick_sessions_for_source_session db session =
     map fst (sort_key (\<lambda>(b, s, t). t) (filter (\<lambda>(b, s, t). s = session) (md_brick_links db)))"

section \<open>Plans\<close>

definition plan_key :: "('t, 'j, 'm) source_plan_scheme \<Rightarrow> (string \<times> string) option" where
  "plan_key r = Some (pl_source_id r, pl_external_id r)"

definition plan_row_of :: "meta_env \<Rightarrow> (instant, json) source_plan \<Rightarrow> string \<Rightarrow> string \<Rightarrow> plan_row" where
  "plan_row_of env p created updated =
     \<lparr>pl_source_id = pl_source_id p, pl_external_id = pl_external_id p, pl_title = pl_title p,
      pl_source_path = map_option from_utf8_lossy (pl_source_path p), pl_source_uri = pl_source_uri p,
      pl_source_mtime = map_option (time_text env) (pl_source_mtime p), pl_parser_version = pl_parser_version p,
      pl_discovered_at = time_text env (pl_discovered_at p), pl_last_seen_at = time_text env (pl_last_seen_at p),
      pl_metadata = serialize_metadata_json env (pl_metadata p), pl_created_at = created, pl_updated_at = updated\<rparr>"

definition source_plan_from_row ::
  "meta_env \<Rightarrow> plan_row \<Rightarrow> (instant, json) source_plan_record option" where
  "source_plan_from_row env r =
     do {
       mtime \<leftarrow> parse_optional_datetime env (pl_source_mtime r);
       discovered \<leftarrow> me_parse_time env (pl_discovered_at r);
       last_seen \<leftarrow> me_parse_time env (pl_last_seen_at r);
       created \<leftarrow> me_parse_time env (pl_created_at r);
       updated \<leftarrow> me_parse_time env (pl_updated_at r);
       metadata \<leftarrow> parse_metadata_json env (pl_metadata r);
       Some \<lparr>pl_source_id = pl_source_id r, pl_external_id = pl_external_id r, pl_title = pl_title r,
         pl_source_path = pl_source_path r, pl_source_uri = pl_source_uri r, pl_source_mtime = mtime,
         pl_parser_version = pl_parser_version r, pl_discovered_at = discovered, pl_last_seen_at = last_seen,
         pl_metadata = metadata, pl_created_at = created, pl_updated_at = updated\<rparr>
     }"

definition read_source_plan ::
  "meta_env \<Rightarrow> meta_db \<Rightarrow> string \<Rightarrow> string \<Rightarrow> meta_error + (instant, json) source_plan_record option" where
  "read_source_plan env db source_id external =
     (case find_row (\<lambda>r. plan_key r = Some (source_id, external)) (md_plans db) of
        None \<Rightarrow> Inr None
      | Some (i, r) \<Rightarrow> (case source_plan_from_row env r of None \<Rightarrow> Inl Bad_Row | Some v \<Rightarrow> Inr (Some v)))"

fun insert_edges ::
  "meta_env \<Rightarrow> string \<Rightarrow> rowid \<Rightarrow> string \<Rightarrow> string \<Rightarrow> (instant, edge_role, json) keyed_plan_edge list \<Rightarrow>
   edge_row list \<Rightarrow> meta_error + edge_row list" where
  "insert_edges env stamp plan source_id external [] rows = Inr rows"
| "insert_edges env stamp plan source_id external (e # es) rows =
     (if pe_source_id e \<noteq> source_id \<or> pe_external_plan_id e \<noteq> external
      then Inl (Edge_Key_Mismatch (pe_source_id e) (pe_external_plan_id e))
      else if list_ex (\<lambda>r. pe_plan_id r = plan \<and> pe_external_session_id r = pe_external_session_id e \<and>
                pe_role r = edge_role_str (pe_role e)) rows
      then Inl Unique_Violated
      else insert_edges env stamp plan source_id external es
             (rows @ [\<lparr>pe_external_session_id = pe_external_session_id e, pe_role = edge_role_str (pe_role e),
                pe_todo_ids = serialize_metadata_json env (pe_todo_ids e),
                pe_discovered_at = time_text env (pe_discovered_at e),
                pe_last_seen_at = time_text env (pe_last_seen_at e),
                pe_metadata = serialize_metadata_json env (pe_metadata e),
                pe_plan_id = plan, pe_row_created_at = stamp, pe_row_updated_at = stamp\<rparr>]))"

definition upsert_source_plan_with_edges ::
  "meta_env \<Rightarrow> instant \<Rightarrow> (instant, json) source_plan \<Rightarrow> (instant, edge_role, json) keyed_plan_edge list \<Rightarrow>
   meta_db \<Rightarrow> meta_db \<times> (meta_error + (instant, json) source_plan_record)" where
  "upsert_source_plan_with_edges env now p edges db =
     (let stamp = time_text env now;
          plans = sql_upsert plan_key (\<lambda>r. plan_row_of env p (pl_created_at r) stamp)
                    (plan_row_of env p stamp stamp) (md_plans db)
      in case find_row (\<lambda>r. plan_key r = plan_key p) plans of
           None \<Rightarrow> (db, Inl Row_Missing)
         | Some (plan, r) \<Rightarrow>
             (case insert_edges env stamp plan (pl_source_id p) (pl_external_id p) edges
                     (filter (\<lambda>e. pe_plan_id e \<noteq> plan) (md_edges db)) of
                Inl e \<Rightarrow> (db, Inl e)
              | Inr rows \<Rightarrow>
                  (let db' = db\<lparr>md_plans := plans, md_edges := rows\<rparr>
                   in case read_source_plan env db' (pl_source_id p) (pl_external_id p) of
                        Inl e \<Rightarrow> (db, Inl e)
                      | Inr None \<Rightarrow> (db', Inl Row_Missing)
                      | Inr (Some v) \<Rightarrow> (db', Inr v))))"

definition list_source_plans ::
  "meta_env \<Rightarrow> meta_db \<Rightarrow> string option \<Rightarrow> nat \<Rightarrow> nat \<Rightarrow> meta_error + (instant, json) source_plan_record list" where
  "list_source_plans env db source_id limit off =
     collect_results (\<lambda>r. ok_or (source_plan_from_row env r) Bad_Row)
       (take (normalized_limit limit) (drop (normalized_offset off)
         (sort_desc pl_last_seen_at (sort_key pl_source_id (sort_key pl_external_id
           (filter (\<lambda>r. optional_filter source_id (pl_source_id r)) (map snd (snd (md_plans db)))))))))"

definition count_source_plans :: "meta_db \<Rightarrow> string option \<Rightarrow> nat" where
  "count_source_plans db source_id =
     length (filter (\<lambda>(i, r). optional_filter source_id (pl_source_id r)) (snd (md_plans db)))"

definition plan_edge_from_row ::
  "meta_env \<Rightarrow> plan_row \<times> edge_row \<Rightarrow> (instant, edge_role, json) plan_edge_record option" where
  "plan_edge_from_row env row =
     (case row of (p, r) \<Rightarrow>
        do {
          role \<leftarrow> edge_role_from_str (pe_role r);
          todo_ids \<leftarrow> parse_metadata_json env (pe_todo_ids r);
          discovered \<leftarrow> me_parse_time env (pe_discovered_at r);
          last_seen \<leftarrow> me_parse_time env (pe_last_seen_at r);
          created \<leftarrow> me_parse_time env (pe_row_created_at r);
          updated \<leftarrow> me_parse_time env (pe_row_updated_at r);
          metadata \<leftarrow> parse_metadata_json env (pe_metadata r);
          Some \<lparr>pe_external_session_id = pe_external_session_id r, pe_role = role, pe_todo_ids = todo_ids,
            pe_discovered_at = discovered, pe_last_seen_at = last_seen, pe_metadata = metadata,
            pe_source_id = pl_source_id p, pe_external_plan_id = pl_external_id p,
            pe_created_at = created, pe_updated_at = updated\<rparr>
        })"

definition list_source_plan_session_edges ::
  "meta_env \<Rightarrow> meta_db \<Rightarrow> string option \<Rightarrow> string list \<Rightarrow>
   meta_error + (instant, edge_role, json) plan_edge_record list" where
  "list_source_plan_session_edges env db source_id external_plan_ids =
     and_then (collect_results (\<lambda>row. ok_or (plan_edge_from_row env row) Bad_Row)
       (sort_key (\<lambda>(p, e). pl_source_id p) (sort_key (\<lambda>(p, e). pl_external_id p)
         (sort_key (\<lambda>(p, e). pe_external_session_id e) (sort_key (\<lambda>(p, e). pe_role e)
           (concat (map (\<lambda>e. map (\<lambda>(i, p). (p, e))
              (filter (\<lambda>(i, p). i = pe_plan_id e \<and> optional_filter source_id (pl_source_id p)) (snd (md_plans db))))
              (md_edges db))))))))
       (\<lambda>records. Inr (filter (\<lambda>r. external_plan_ids = [] \<or> pe_external_plan_id r \<in> set external_plan_ids) records))"

end
