(* ===== verification/Metadata_Inv.thy ===== *)
theory Metadata_Inv imports Metadata_Db begin

text \<open>
  What the tables of the metadata database satisfy whatever is done to them, and what an upsert
  changes. The interface \<open>sql_table\<close> is what a table with a unique key promises its operations;
  it is interpreted for each table.
\<close>

section \<open>A table with a unique key\<close>

definition table_ok :: "('r \<Rightarrow> 'k option) \<Rightarrow> 'r table \<Rightarrow> bool" where
  "table_ok key t \<longleftrightarrow>
     distinct (map fst (snd t)) \<and> (\<forall>i\<in>fst ` set (snd t). i < fst t) \<and>
     distinct (List.map_filter (\<lambda>(i, r). key r) (snd t))"

abbreviation lookup :: "('r \<Rightarrow> 'k option) \<Rightarrow> 'k \<Rightarrow> 'r table \<Rightarrow> (rowid \<times> 'r) option" where
  "lookup key k t \<equiv> find_row (\<lambda>r. key r = Some k) t"

lemma find_append: "find p (xs @ ys) = (case find p xs of None \<Rightarrow> find p ys | Some x \<Rightarrow> Some x)"
  by (induction xs) auto

lemma find_row_None: "find_row p t = None \<longleftrightarrow> (\<forall>(i, r)\<in>set (snd t). \<not> p r)"
  by (auto simp: find_row_def find_None_iff)

lemma find_row_Some: "find_row p t = Some (i, r) \<Longrightarrow> (i, r) \<in> set (snd t) \<and> p r"
  by (auto simp: find_row_def find_Some_iff in_set_conv_nth)

lemma has_row_found: "find_row p t = Some (i, r) \<Longrightarrow> has_row i t"
  by (force simp: has_row_def dest: find_row_Some)

lemma map_filter_map: "List.map_filter f (map g xs) = List.map_filter (f \<circ> g) xs"
  by (simp add: List.map_filter_def filter_map comp_def)

lemma map_filter_append: "List.map_filter f (xs @ ys) = List.map_filter f xs @ List.map_filter f ys"
  by (simp add: List.map_filter_def)

lemma map_filter_cong_set:
  "(\<And>x. x \<in> set xs \<Longrightarrow> f x = g x) \<Longrightarrow> List.map_filter f xs = List.map_filter g xs"
  by (induction xs) (auto simp: map_filter_simps split: option.split)

locale sql_table =
  fixes key :: "'r \<Rightarrow> 'k option"
    and new :: "'p \<Rightarrow> 'r"
    and update :: "'p \<Rightarrow> 'r \<Rightarrow> 'r"
  assumes update_key: "key r = key (new p) \<Longrightarrow> key (update p r) = key (new p)"
begin

lemma upsert_ids: "has_row i t \<Longrightarrow> has_row i (sql_upsert key (update p) (new p) t)"
  by (force simp: has_row_def sql_upsert_def)

lemma upsert_ok: "table_ok key t \<Longrightarrow> table_ok key (sql_upsert key (update p) (new p) t)"
proof (cases "key (new p) \<noteq> None \<and> list_ex (\<lambda>(i, r). key r = key (new p)) (snd t)")
  case True
  let ?f = "\<lambda>(i, r). (i, if key r = key (new p) then update p r else r)"
  assume ok: "table_ok key t"
  have "List.map_filter (\<lambda>(i, r). key r) (map ?f (snd t)) = List.map_filter (\<lambda>(i, r). key r) (snd t)"
    unfolding map_filter_map by (rule map_filter_cong_set) (auto simp: update_key)
  moreover have ids: "map fst (map ?f (snd t)) = map fst (snd t)" by auto
  moreover have "fst ` set (map ?f (snd t)) = fst ` set (snd t)" using ids by (metis set_map)
  moreover have "sql_upsert key (update p) (new p) t = (Suc (fst t), map ?f (snd t))"
    using True by (simp add: sql_upsert_def)
  ultimately show ?thesis
    using ok unfolding table_ok_def by (simp only: fst_conv snd_conv less_Suc_eq) simp
next
  case False
  assume ok: "table_ok key t"
  have "key (new p) = Some k \<Longrightarrow> k \<notin> set (List.map_filter (\<lambda>(i, r). key r) (snd t))" for k
    using False by (auto simp: list_ex_iff set_map_filter)
  then show ?thesis using ok False
    by (cases "key (new p)") (auto simp: table_ok_def sql_upsert_def map_filter_append map_filter_simps less_Suc_eq)
qed

lemma upsert_lookup:
  assumes "key (new p) = Some k"
  shows "lookup key k (sql_upsert key (update p) (new p) t) =
    Some (case lookup key k t of None \<Rightarrow> (fst t, new p) | Some (i, r) \<Rightarrow> (i, update p r))"
proof (cases "lookup key k t")
  case None
  then have "find (\<lambda>(i, r). key r = Some k) (snd t) = None" by (simp add: find_row_def)
  moreover have "\<not> list_ex (\<lambda>(i, r). key r = Some k) (snd t)"
    using None by (auto simp: find_row_None list_ex_iff)
  ultimately show ?thesis using assms None by (simp add: sql_upsert_def find_row_def find_append)
next
  case (Some ir)
  obtain i r where ir: "ir = (i, r)" by fastforce
  have ex: "list_ex (\<lambda>(i, r). key r = Some k) (snd t)"
    using find_row_Some [OF Some [unfolded ir]] by (auto simp: list_ex_iff)
  have "find (\<lambda>(i, r). key r = Some k) (map (\<lambda>(i, r). (i, if key r = Some k then update p r else r)) xs) =
      map_option (\<lambda>(i, r). (i, update p r)) (find (\<lambda>(i, r). key r = Some k) xs)" for xs :: "(rowid \<times> 'r) list"
  proof (induction xs)
    case (Cons x xs)
    then show ?case using update_key [of "snd x" p] assms by (cases x) simp
  qed simp
  then show ?thesis using Some ex assms by (simp add: sql_upsert_def find_row_def ir)
qed

lemma upsert_other:
  assumes "key (new p) \<noteq> Some k"
  shows "lookup key k (sql_upsert key (update p) (new p) t) = lookup key k t"
proof -
  have "find (\<lambda>(i, r). key r = Some k) (map (\<lambda>(i, r). (i, if key r = key (new p) then update p r else r)) xs) =
      find (\<lambda>(i, r). key r = Some k) xs" for xs :: "(rowid \<times> 'r) list"
  proof (induction xs)
    case (Cons x xs)
    then show ?case using update_key [of "snd x" p] assms by (cases x) auto
  qed simp
  then show ?thesis
    using assms by (simp add: sql_upsert_def find_row_def find_append split: option.split)
qed

text \<open>A row whose key has a null column is always added, however often it is there already.\<close>

lemma upsert_null:
  "key (new p) = None \<Longrightarrow> sql_upsert key (update p) (new p) t = (Suc (fst t), snd t @ [(fst t, new p)])"
  by (simp add: sql_upsert_def)

end

text \<open>\<^verbatim>\<open>UPDATE\<close> of the other columns.\<close>

lemma table_map:
  assumes "\<And>i r. key (f i r) = key r"
  shows "table_ok key t \<Longrightarrow> table_ok key (fst t, map (\<lambda>(i, r). (i, f i r)) (snd t))"
    and "has_row k (fst t, map (\<lambda>(i, r). (i, f i r)) (snd t)) = has_row k t"
proof -
  let ?g = "\<lambda>(i, r). (i, f i r)"
  have ids: "fst ` set (map ?g xs) = fst ` set xs" "map fst (map ?g xs) = map fst xs" for xs :: "(rowid \<times> 'a) list"
    by force+
  have keys: "List.map_filter (\<lambda>(i, r). key r) (map ?g xs) = List.map_filter (\<lambda>(i, r). key r) xs" for xs
    unfolding map_filter_map by (rule map_filter_cong_set) (auto simp: assms)
  show "table_ok key t \<Longrightarrow> table_ok key (fst t, map ?g (snd t))"
    unfolding table_ok_def fst_conv snd_conv ids keys .
  show "has_row k (fst t, map ?g (snd t)) = has_row k t"
    unfolding has_row_def snd_conv ids ..
qed

lemma table_append:
  assumes "table_ok (\<lambda>_. None :: unit option) t"
  shows "table_ok (\<lambda>_. None :: unit option) (Suc (fst t), snd t @ [(fst t, r)])"
  using assms by (auto simp: table_ok_def map_filter_append map_filter_simps less_Suc_eq)

lemma table_filter: "table_ok key t \<Longrightarrow> table_ok key (fst t, filter p (snd t))"
proof -
  have "distinct (List.map_filter f xs) \<Longrightarrow> distinct (List.map_filter f (filter p xs))" for f :: "nat \<times> 'a \<Rightarrow> 'b option" and xs
    by (induction xs) (auto simp: map_filter_simps set_map_filter split: option.splits)
  then show "table_ok key t \<Longrightarrow> table_ok key (fst t, filter p (snd t))"
    by (auto simp: table_ok_def distinct_map_filter)
qed

lemma session_key_row [simp]: "session_key (session_row_of p a b) = session_key p"
  by (simp add: session_key_def session_row_of_def source_session.defs)

lemma session_row_of_stamps [simp]:
  "ss_created_at (session_row_of p a b) = a" "ss_updated_at (session_row_of p a b) = b"
  by (simp_all add: session_row_of_def source_session.defs)

lemma is_session_key: "is_session source_id external r \<longleftrightarrow> session_key r = Some (source_id, external)"
  by (simp add: is_session_def session_key_def)

lemma find_session_lookup: "find_session db a b = lookup session_key (a, b) (md_sessions db)"
  by (simp add: find_session_def is_session_key [abs_def])

lemma session_params_key: "session_params env s = Some p \<Longrightarrow> session_key p = session_key s"
  by (auto simp: session_params_def session_key_def bind_eq_Some_conv)

interpretation session_table: sql_table session_key
    "\<lambda>(p, stamp). session_row_of p stamp stamp" "\<lambda>(p, stamp) r. session_row_of p (ss_created_at r) stamp"
  by unfold_locales auto

interpretation root_table: sql_table root_key "\<lambda>(n, stamp). n" "\<lambda>(n, stamp) r. r\<lparr>rr_updated_at := stamp\<rparr>"
  by unfold_locales (auto simp: root_key_def split: option.splits)

interpretation workspace_table: sql_table "\<lambda>r. Some (wr_path r)" "\<lambda>n. n"
    "\<lambda>n r. r\<lparr>wr_uri := wr_uri n, wr_updated_at := wr_updated_at n\<rparr>"
  by unfold_locales auto

interpretation repo_table: sql_table git_key "\<lambda>n. n"
    "\<lambda>n r. r\<lparr>gr_remote := gr_remote n, gr_head := gr_head n, gr_updated_at := gr_updated_at n\<rparr>"
  by unfold_locales (auto simp: git_key_def split: option.splits)

interpretation profile_table: sql_table "\<lambda>r. Some (sp_source_id r)" "\<lambda>n. n"
    "\<lambda>n r. n\<lparr>sp_created_at := sp_created_at r\<rparr>"
  by unfold_locales auto

interpretation plan_table: sql_table plan_key "\<lambda>(env, p, stamp). plan_row_of env p stamp stamp"
    "\<lambda>(env, p, stamp) r. plan_row_of env p (pl_created_at r) stamp"
  by unfold_locales (auto simp: plan_key_def plan_row_of_def)

interpretation watermark_table: sql_table "\<lambda>(k, w). Some k" "\<lambda>n. n"
    "\<lambda>(source_id, last_indexed, last_refreshed) (k, indexed, refreshed).
       (k, or_else last_indexed indexed, last_refreshed)"
  by unfold_locales auto

section \<open>The invariant of the database\<close>

definition keys_ok :: "meta_db \<Rightarrow> bool" where
  "keys_ok db \<longleftrightarrow>
     table_ok session_key (md_sessions db) \<and> table_ok (\<lambda>r. Some (sp_source_id r)) (md_profiles db) \<and>
     table_ok root_key (md_roots db) \<and> table_ok (\<lambda>r. Some (wr_path r)) (md_workspaces db) \<and>
     table_ok git_key (md_repos db) \<and> table_ok plan_key (md_plans db) \<and>
     table_ok (\<lambda>(k, w). Some k) (md_watermarks db) \<and> table_ok (\<lambda>r. None :: unit option) (md_scans db) \<and>
     (\<forall>(i, r)\<in>set (snd (md_scans db)). sn_id r = i)"

text \<open>Every recorded line belongs to a stored chunk of its session.\<close>

definition chunks_ok :: "meta_db \<Rightarrow> bool" where
  "chunks_ok db \<longleftrightarrow>
     distinct (map (\<lambda>(s, r). (s, sk_chunk_id r)) (md_chunks db)) \<and>
     (\<forall>(s, r)\<in>set (md_chunks db). has_row s (md_sessions db)) \<and>
     distinct (map line_key (md_lines db)) \<and>
     (\<forall>l\<in>set (md_lines db). \<exists>r. (lr_session l, r) \<in> set (md_chunks db) \<and>
        sk_chunk_id r = lr_chunk_id l \<and> sk_index r = lr_chunk_index l \<and>
        sk_function r = lr_function l \<and> is_file_mutation_tool (sk_function r))"

definition edge_key :: "edge_row \<Rightarrow> rowid \<times> string \<times> string" where
  "edge_key e = (pe_plan_id e, pe_external_session_id e, pe_role e)"

definition links_ok :: "meta_db \<Rightarrow> bool" where
  "links_ok db \<longleftrightarrow>
     distinct (map edge_key (md_edges db)) \<and> (\<forall>e\<in>set (md_edges db). has_row (pe_plan_id e) (md_plans db)) \<and>
     distinct (md_session_workspaces db) \<and>
     (\<forall>(s, w)\<in>set (md_session_workspaces db). has_row s (md_sessions db) \<and> has_row w (md_workspaces db)) \<and>
     distinct (md_session_repos db) \<and>
     (\<forall>(s, g)\<in>set (md_session_repos db). has_row s (md_sessions db) \<and> has_row g (md_repos db)) \<and>
     distinct (map (\<lambda>(b, s, t). (b, s)) (md_brick_links db)) \<and>
     (\<forall>(b, s, t)\<in>set (md_brick_links db). has_row s (md_sessions db)) \<and>
     (\<forall>r\<in>set (md_resources db). has_row (rs_session r) (md_sessions db)) \<and>
     distinct (map (\<lambda>r. (rs_session r, rs_kind r, rs_path r)) (md_resources db))"

definition meta_inv :: "meta_db \<Rightarrow> bool" where
  "meta_inv db \<longleftrightarrow> keys_ok db \<and> chunks_ok db \<and> links_ok db"

inductive meta_step :: "meta_env \<Rightarrow> meta_db \<Rightarrow> meta_db \<Rightarrow> bool" for env where
  session: "upsert_source_session env now s db = (db', r) \<Longrightarrow> meta_step env db db'"
| chunks: "upsert_source_session_chunks env a b cs db = (db', u) \<Longrightarrow> meta_step env db db'"
| touch: "touch_source_session_last_seen env now a b t db = (db', ok) \<Longrightarrow> meta_step env db db'"
| profile: "upsert_source_profile env now p db = (db', q) \<Longrightarrow> meta_step env db db'"
| set_watermark: "meta_step env db (set_source_watermark a l t' db)"
| clear_watermark: "meta_step env db (clear_source_watermark a db)"
| begin_scan: "begin_source_scan env now a db = (db', i) \<Longrightarrow> meta_step env db db'"
| finish_scan: "meta_step env db (finish_source_scan env now i st j db)"
| root: "upsert_source_root env now a pth uri db = (db', ri) \<Longrightarrow> meta_step env db db'"
| workspace: "upsert_workspace_root env now w uri db = (db', ri) \<Longrightarrow> meta_step env db db'"
| repo: "upsert_git_repository env now pth uri remote commit_id db = (db', ri) \<Longrightarrow> meta_step env db db'"
| link_workspace: "link_session_workspace_root i k db = (db', u) \<Longrightarrow> meta_step env db db'"
| link_repo: "link_session_git_repository i k db = (db', u) \<Longrightarrow> meta_step env db db'"
| link_brick: "link_brick_session_to_source_session env now brick i db = (db', u) \<Longrightarrow> meta_step env db db'"
| resource: "upsert_source_session_resource env i kind pth uri mj db = (db', u) \<Longrightarrow> meta_step env db db'"
| plan: "upsert_source_plan_with_edges env now pl es db = (db', v) \<Longrightarrow> meta_step env db db'"

lemma table_ok_Nil [simp]: "table_ok key (n, [])"
  by (simp add: table_ok_def map_filter_simps)

lemma meta_inv_empty: "meta_inv empty_meta_db"
  by (simp add: meta_inv_def keys_ok_def chunks_ok_def links_ok_def empty_meta_db_def)

lemma upsert_session_cases:
  assumes "upsert_source_session env now s db = (db', r)"
  shows "db' = db \<or> (\<exists>p. session_params env s = Some p \<and>
    db' = db\<lparr>md_sessions := sql_upsert session_key (\<lambda>r. session_row_of p (ss_created_at r) (time_text env now))
      (session_row_of p (time_text env now) (time_text env now)) (md_sessions db)\<rparr>)"
  using assms by (auto simp: upsert_source_session_def Let_def split: option.splits sum.splits)

lemma session_upsert_table:
  "table_ok session_key t \<Longrightarrow>
   table_ok session_key (sql_upsert session_key (\<lambda>r. session_row_of p (ss_created_at r) stamp)
     (session_row_of p stamp stamp) t)"
  "has_row i t \<Longrightarrow> has_row i (sql_upsert session_key (\<lambda>r. session_row_of p (ss_created_at r) stamp)
     (session_row_of p stamp stamp) t)"
  using session_table.upsert_ok [of t "(p, stamp)"] session_table.upsert_ids [of i t "(p, stamp)"] by simp_all

lemma upsert_session_inv:
  assumes "meta_inv db" "upsert_source_session env now s db = (db', r)"
  shows "meta_inv db'"
  using upsert_session_cases [OF assms(2)]
proof (elim disjE exE conjE)
  fix p assume db': "db' = db\<lparr>md_sessions := sql_upsert session_key
      (\<lambda>r. session_row_of p (ss_created_at r) (time_text env now))
      (session_row_of p (time_text env now) (time_text env now)) (md_sessions db)\<rparr>"
  have "keys_ok db'" using assms(1) session_upsert_table(1) by (simp add: db' meta_inv_def keys_ok_def)
  moreover have "chunks_ok db'"
    using assms(1) session_upsert_table(2) unfolding db' meta_inv_def chunks_ok_def by simp fast
  moreover have "links_ok db'"
    using assms(1) session_upsert_table(2) unfolding db' meta_inv_def links_ok_def by simp fast
  ultimately show ?thesis by (simp add: meta_inv_def)
qed (use assms(1) in simp)

lemma fold_insert_line:
  "distinct (map line_key rows) \<Longrightarrow> distinct (map line_key (fold insert_line new rows))"
  "set rows \<subseteq> set (fold insert_line new rows)" "set (fold insert_line new rows) \<subseteq> set rows \<union> set new"
  by (induction new arbitrary: rows) (auto simp: insert_line_def split: if_splits, fastforce+)

lemma insert_chunks_inv:
  "insert_chunks env session n cs db = Inr db' \<Longrightarrow> chunks_ok db \<Longrightarrow> has_row session (md_sessions db) \<Longrightarrow>
   chunks_ok db' \<and> (\<exists>c l. db' = db\<lparr>md_chunks := c, md_lines := l\<rparr>)"
proof (induction env session n cs db rule: insert_chunks.induct)
  case (1 env session n db)
  then show ?case by (auto intro!: exI [of _ "md_chunks db"] exI [of _ "md_lines db"])
next
  case (2 env session n c cs db)
  obtain row where row: "chunk_params env n c = Some row" using 2(2) by (auto split: option.splits)
  have fields: "sk_chunk_id row = ac_chunk_id c" "sk_index row = n" "sk_function row = ac_function c"
    using row by (auto simp: chunk_params_def bind_eq_Some_conv)
  define mid where "mid = db\<lparr>md_chunks := md_chunks db @ [(session, row)],
     md_lines := insert_line_provenance_for_chunk env session n c (md_lines db)\<rparr>"
  have fresh: "(session, sk_chunk_id row) \<notin> (\<lambda>(s, r). (s, sk_chunk_id r)) ` set (md_chunks db)"
    and rest: "insert_chunks env session (Suc n) cs mid = Inr db'"
    using 2(2) by (auto simp: row mid_def list_ex_iff split: if_splits)
  have "chunks_ok mid"
  proof -
    have lines: "set (md_lines mid) \<subseteq> set (md_lines db) \<union> set (chunk_line_rows env session n c)"
      unfolding mid_def insert_line_provenance_for_chunk_def using fold_insert_line(3) by simp
    have mut: "is_file_mutation_tool (ac_function c)" if "l \<in> set (chunk_line_rows env session n c)" for l
      using that by (auto simp: chunk_line_rows_def split: if_splits)
    have new: "lr_session l = session \<and> lr_chunk_id l = ac_chunk_id c \<and> lr_chunk_index l = n \<and>
        lr_function l = ac_function c" if "l \<in> set (chunk_line_rows env session n c)" for l
      using that by (auto simp: chunk_line_rows_def line_row_of_def Let_def split: if_splits option.splits)
    have "\<exists>r. (lr_session l, r) \<in> set (md_chunks mid) \<and> sk_chunk_id r = lr_chunk_id l \<and>
        sk_index r = lr_chunk_index l \<and> sk_function r = lr_function l \<and> is_file_mutation_tool (sk_function r)"
      if "l \<in> set (md_lines mid)" for l
    proof (cases "l \<in> set (md_lines db)")
      case True
      then show ?thesis using 2(3) by (auto simp: chunks_ok_def mid_def)
    next
      case False
      then have "l \<in> set (chunk_line_rows env session n c)" using that lines by blast
      then show ?thesis using new mut fields by (intro exI [of _ row]) (simp add: mid_def)
    qed
    moreover have "distinct (map line_key (md_lines mid))"
      using 2(3) fold_insert_line(1) by (simp add: mid_def insert_line_provenance_for_chunk_def chunks_ok_def)
    ultimately show ?thesis
      using 2(3,4) fresh unfolding chunks_ok_def [of mid] by (auto simp: mid_def chunks_ok_def)
  qed
  moreover have "has_row session (md_sessions mid)" using 2(4) by (simp add: mid_def)
  moreover have "\<not> list_ex (\<lambda>(s, r). s = session \<and> sk_chunk_id r = sk_chunk_id row) (md_chunks db)"
    using fresh by (force simp: list_ex_iff)
  ultimately have "chunks_ok db' \<and> (\<exists>c l. db' = mid\<lparr>md_chunks := c, md_lines := l\<rparr>)"
    using 2(1) [OF row, folded mid_def] rest by blast
  then show ?case by (auto simp: mid_def)
qed

lemma upsert_chunks_inv:
  assumes "meta_inv db" "upsert_source_session_chunks env a b cs db = (db', u)"
  shows "meta_inv db'"
proof (cases "db' = db")
  case False
  obtain session where session: "read_source_session_id db a b = Some session"
    and ins: "insert_chunks env session 0 cs
      (db\<lparr>md_chunks := filter (\<lambda>(s, r). s \<noteq> session) (md_chunks db),
          md_lines := filter (\<lambda>r. lr_session r \<noteq> session) (md_lines db)\<rparr>) = Inr db'"
    using assms(2) False by (auto simp: upsert_source_session_chunks_def split: option.splits sum.splits)
  have "has_row session (md_sessions db)"
    using session by (auto simp: read_source_session_id_def find_session_def intro: has_row_found)
  moreover have "chunks_ok (db\<lparr>md_chunks := filter (\<lambda>(s, r). s \<noteq> session) (md_chunks db),
          md_lines := filter (\<lambda>r. lr_session r \<noteq> session) (md_lines db)\<rparr>)"
    using assms(1) by (auto simp: meta_inv_def chunks_ok_def distinct_map_filter)
  ultimately have "chunks_ok db' \<and> (\<exists>c l. db' = db\<lparr>md_chunks := c, md_lines := l\<rparr>)"
    using insert_chunks_inv [OF ins] by auto
  then show ?thesis using assms(1) by (auto simp: meta_inv_def keys_ok_def links_ok_def)
qed (use assms(1) in simp)

lemma links_ok_mono:
  assumes "links_ok db" "md_edges db' = md_edges db" "md_session_workspaces db' = md_session_workspaces db"
    and "md_session_repos db' = md_session_repos db" "md_brick_links db' = md_brick_links db"
    and "md_resources db' = md_resources db"
    and "\<And>i. has_row i (md_sessions db) \<Longrightarrow> has_row i (md_sessions db')"
    and "\<And>i. has_row i (md_plans db) \<Longrightarrow> has_row i (md_plans db')"
    and "\<And>i. has_row i (md_workspaces db) \<Longrightarrow> has_row i (md_workspaces db')"
    and "\<And>i. has_row i (md_repos db) \<Longrightarrow> has_row i (md_repos db')"
  shows "links_ok db'"
  using assms unfolding links_ok_def by simp fast

lemma touch_inv:
  assumes "meta_inv db" "touch_source_session_last_seen env now a b t db = (db', ok)"
  shows "meta_inv db'"
proof -
  define f where "f = (\<lambda>(i :: rowid) (r :: session_row). if is_session a b r
      then r\<lparr>ss_last_seen_at := time_text env t, ss_updated_at := time_text env now\<rparr> else r)"
  have db': "db' = db\<lparr>md_sessions := (fst (md_sessions db), map (\<lambda>(i, r). (i, f i r)) (snd (md_sessions db)))\<rparr>"
    using assms(2) by (simp add: touch_source_session_last_seen_def f_def)
  have key: "session_key (f i r) = session_key r" for i r by (simp add: f_def session_key_def)
  note rows = table_map [of session_key f, OF key]
  from assms(1) have inv: "keys_ok db" "chunks_ok db" "links_ok db" by (simp_all add: meta_inv_def)
  have same: "has_row i (md_sessions db') = has_row i (md_sessions db)" for i
    unfolding db' using rows(2) [of i "md_sessions db"] by simp
  have "keys_ok db'" using inv(1) rows(1) [of "md_sessions db"] unfolding keys_ok_def db' by simp
  moreover have "links_ok db'" by (rule links_ok_mono [OF inv(3)]) (simp_all add: same, simp_all add: db')
  moreover have "chunks_ok db' = chunks_ok db" unfolding chunks_ok_def same by (simp add: db')
  ultimately show ?thesis using inv(2) by (simp add: meta_inv_def)
qed

lemma other_tables_inv:
  assumes "meta_inv db" "keys_ok db'"
    and "md_sessions db' = md_sessions db" "md_chunks db' = md_chunks db" "md_lines db' = md_lines db"
    and "md_edges db' = md_edges db" "md_session_workspaces db' = md_session_workspaces db"
    and "md_session_repos db' = md_session_repos db" "md_brick_links db' = md_brick_links db"
    and "md_resources db' = md_resources db" "md_plans db' = md_plans db"
    and "\<And>i. has_row i (md_workspaces db) \<Longrightarrow> has_row i (md_workspaces db')"
    and "\<And>i. has_row i (md_repos db) \<Longrightarrow> has_row i (md_repos db')"
  shows "meta_inv db'"
proof -
  from assms(1) have inv: "chunks_ok db" "links_ok db" by (simp_all add: meta_inv_def)
  have "links_ok db'"
    by (rule links_ok_mono [OF inv(2) assms(6-10)]) (simp_all only: assms(3,11-13))
  moreover have "chunks_ok db' = chunks_ok db" unfolding chunks_ok_def assms(3-5) by (rule refl)
  ultimately show ?thesis using assms(2) inv(1) by (simp add: meta_inv_def)
qed

lemma scans_inv:
  assumes "meta_inv db"
  shows "begin_source_scan env now a db = (db', i) \<Longrightarrow> meta_inv db'"
    and "meta_inv (finish_source_scan env now k st j db)"
proof -
  have keys: "keys_ok db" using assms by (simp add: meta_inv_def)
  show "begin_source_scan env now a db = (db', i) \<Longrightarrow> meta_inv db'"
    using keys table_append [of "md_scans db"]
    by (intro other_tables_inv [OF assms]) (auto simp: begin_source_scan_def Let_def keys_ok_def)
  show "meta_inv (finish_source_scan env now k st j db)"
  proof -
    define f where "f = (\<lambda>(i :: rowid) (r :: (string, string) source_scan). if i = k then r\<lparr>sn_finished_at := Some (time_text env now),
      sn_status := scan_status_str st, sn_metadata := serialize_metadata_json env j\<rparr> else r)"
    have db': "finish_source_scan env now k st j db =
        db\<lparr>md_scans := (fst (md_scans db), map (\<lambda>(i, r). (i, f i r)) (snd (md_scans db)))\<rparr>"
      by (simp add: finish_source_scan_def f_def)
    have "\<forall>(i, r)\<in>set (snd (md_scans db)). sn_id (f i r) = i"
      using keys by (auto simp: keys_ok_def f_def)
    then show ?thesis
      unfolding db' using keys table_map(1) [of "\<lambda>_. None :: unit option" f "md_scans db"]
      by (intro other_tables_inv [OF assms]) (auto simp: keys_ok_def)
  qed
qed

lemma watermark_inv:
  assumes "meta_inv db"
  shows "meta_inv (set_source_watermark a l t db)" "meta_inv (clear_source_watermark a db)"
proof -
  have keys: "keys_ok db" using assms by (simp add: meta_inv_def)
  show "meta_inv (set_source_watermark a l t db)"
    using keys watermark_table.upsert_ok [of "md_watermarks db" "(a, l, t)"]
    by (intro other_tables_inv [OF assms]) (simp_all add: set_source_watermark_def keys_ok_def)
  show "meta_inv (clear_source_watermark a db)"
    using keys table_filter [of "\<lambda>(k, w). Some k" "md_watermarks db"]
    by (intro other_tables_inv [OF assms]) (simp_all add: clear_source_watermark_def keys_ok_def)
qed

lemma named_rows_inv:
  assumes "meta_inv db"
  shows "upsert_source_profile env now p db = (db', q) \<Longrightarrow> meta_inv db'"
    and "upsert_source_root env now b pth uri db = (db', ri) \<Longrightarrow> meta_inv db'"
    and "upsert_workspace_root env now w uri db = (db', ri) \<Longrightarrow> meta_inv db'"
    and "upsert_git_repository env now pth uri remote hd_commit db = (db', ri) \<Longrightarrow> meta_inv db'"
proof -
  have keys: "keys_ok db" using assms by (simp add: meta_inv_def)
  let ?stamp = "time_text env now"
  note rules = other_tables_inv [OF assms]
  show "upsert_source_profile env now p db = (db', q) \<Longrightarrow> meta_inv db'"
  proof (intro rules)
    define n where "n = \<lparr>sp_source_id = sp_source_id p, sp_name = sp_name p, sp_app_id = sp_app_id p,
      sp_actor_id = sp_actor_id p, sp_actor_type = sp_actor_type p,
      sp_profile = serialize_metadata_json env (sp_profile p), sp_created_at = ?stamp, sp_updated_at = ?stamp\<rparr>"
    assume "upsert_source_profile env now p db = (db', q)"
    then have db': "db' = db\<lparr>md_profiles := sql_upsert (\<lambda>r. Some (sp_source_id r))
        (\<lambda>r. n\<lparr>sp_created_at := sp_created_at r\<rparr>) n (md_profiles db)\<rparr>"
      by (simp add: upsert_source_profile_def Let_def n_def)
    show "keys_ok db'" using keys profile_table.upsert_ok [of "md_profiles db" n] by (simp add: keys_ok_def db')
  qed (simp_all add: upsert_source_profile_def Let_def, auto)
  show "upsert_source_root env now b pth uri db = (db', ri) \<Longrightarrow> meta_inv db'"
  proof (intro rules)
    define n where "n = \<lparr>rr_source_id = b, rr_path = pth, rr_uri = uri, rr_created_at = ?stamp, rr_updated_at = ?stamp\<rparr>"
    assume "upsert_source_root env now b pth uri db = (db', ri)"
    then have db': "db' = db\<lparr>md_roots := sql_upsert root_key (\<lambda>r. r\<lparr>rr_updated_at := ?stamp\<rparr>) n (md_roots db)\<rparr>"
      by (simp add: upsert_source_root_def Let_def n_def)
    show "keys_ok db'" using keys root_table.upsert_ok [of "md_roots db" "(n, ?stamp)"] by (simp add: keys_ok_def db')
  qed (simp_all add: upsert_source_root_def Let_def, auto)
  show "upsert_workspace_root env now w uri db = (db', ri) \<Longrightarrow> meta_inv db'"
  proof (intro rules)
    define n where "n = \<lparr>wr_path = w, wr_uri = uri, wr_created_at = ?stamp, wr_updated_at = ?stamp\<rparr>"
    assume "upsert_workspace_root env now w uri db = (db', ri)"
    then have db': "db' = db\<lparr>md_workspaces := sql_upsert (\<lambda>r. Some (wr_path r))
        (\<lambda>r. r\<lparr>wr_uri := wr_uri n, wr_updated_at := wr_updated_at n\<rparr>) n (md_workspaces db)\<rparr>"
      by (simp add: upsert_workspace_root_def Let_def n_def)
    show "keys_ok db'" using keys workspace_table.upsert_ok [of "md_workspaces db" n] by (simp add: keys_ok_def db')
    show "has_row i (md_workspaces db')" if "has_row i (md_workspaces db)" for i
      using workspace_table.upsert_ids [OF that, of n] by (simp add: db')
  qed (simp_all add: upsert_workspace_root_def Let_def, auto)
  show "upsert_git_repository env now pth uri remote hd_commit db = (db', ri) \<Longrightarrow> meta_inv db'"
  proof (intro rules)
    define n where "n = \<lparr>gr_path = pth, gr_uri = uri, gr_remote = remote, gr_head = hd_commit,
      gr_created_at = ?stamp, gr_updated_at = ?stamp\<rparr>"
    assume "upsert_git_repository env now pth uri remote hd_commit db = (db', ri)"
    then have db': "db' = db\<lparr>md_repos := sql_upsert git_key
        (\<lambda>r. r\<lparr>gr_remote := gr_remote n, gr_head := gr_head n, gr_updated_at := gr_updated_at n\<rparr>) n (md_repos db)\<rparr>"
      by (simp add: upsert_git_repository_def Let_def n_def)
    show "keys_ok db'" using keys repo_table.upsert_ok [of "md_repos db" n] by (simp add: keys_ok_def db')
    show "has_row i (md_repos db')" if "has_row i (md_repos db)" for i
      using repo_table.upsert_ids [OF that, of n] by (simp add: db')
  qed (simp_all add: upsert_git_repository_def Let_def, auto)
qed

lemma links_inv:
  assumes "meta_inv db" "links_ok db \<Longrightarrow> links_ok db'"
    and "md_sessions db' = md_sessions db" "md_chunks db' = md_chunks db" "md_lines db' = md_lines db"
    and "md_profiles db' = md_profiles db" "md_roots db' = md_roots db" "md_scans db' = md_scans db"
    and "table_ok plan_key (md_plans db) \<Longrightarrow> table_ok plan_key (md_plans db')"
    and "md_workspaces db' = md_workspaces db" "md_repos db' = md_repos db" "md_watermarks db' = md_watermarks db"
  shows "meta_inv db'"
proof -
  have "keys_ok db \<Longrightarrow> keys_ok db'" unfolding keys_ok_def assms(3,6-8,10-12) using assms(9) by simp
  moreover have "chunks_ok db' = chunks_ok db" unfolding chunks_ok_def assms(3-5) by (rule refl)
  ultimately show ?thesis using assms(1,2) by (simp add: meta_inv_def)
qed

lemma link_workspace_inv:
  assumes "meta_inv db" "link_session_workspace_root i k db = (db', u)"
  shows "meta_inv db'"
  using assms(2) by (intro links_inv [OF assms(1)])
    (auto simp: links_ok_def link_session_workspace_root_def split: if_splits)

lemma link_repo_inv:
  assumes "meta_inv db" "link_session_git_repository i k db = (db', u)"
  shows "meta_inv db'"
  using assms(2) by (intro links_inv [OF assms(1)])
    (auto simp: links_ok_def link_session_git_repository_def split: if_splits)

lemma link_brick_inv:
  assumes "meta_inv db" "link_brick_session_to_source_session env now brick i db = (db', u)"
  shows "meta_inv db'"
  using assms(2) by (intro links_inv [OF assms(1)])
    (auto simp: links_ok_def link_brick_session_to_source_session_def list_ex_iff split: if_splits)

lemma resource_inv:
  assumes "meta_inv db" "upsert_source_session_resource env i kind pth uri mj db = (db', u)"
  shows "meta_inv db'"
  using assms(2) by (intro links_inv [OF assms(1)])
    (auto simp: links_ok_def upsert_source_session_resource_def list_ex_iff split: if_splits)

lemma insert_edges_inv:
  "insert_edges env stamp plan a b es rows = Inr rows' \<Longrightarrow> distinct (map edge_key rows) \<Longrightarrow>
   distinct (map edge_key rows') \<and> pe_plan_id ` set rows' \<subseteq> insert plan (pe_plan_id ` set rows)"
proof (induction env stamp plan a b es rows rule: insert_edges.induct)
  case (2 env stamp plan a b e es rows)
  have "\<not> list_ex (\<lambda>r. pe_plan_id r = plan \<and> pe_external_session_id r = pe_external_session_id e \<and>
      pe_role r = edge_role_str (pe_role e)) rows"
    using 2(2) by (auto split: if_splits)
  then have "(plan, pe_external_session_id e, edge_role_str (pe_role e)) \<notin> edge_key ` set rows"
    by (force simp: edge_key_def list_ex_iff)
  with 2 show ?case by (auto simp: edge_key_def [abs_def] split: if_splits)
qed auto

lemma plan_row_key [simp]: "plan_key (plan_row_of env p c u) = plan_key p"
  by (simp add: plan_key_def plan_row_of_def)

lemma plan_inv:
  assumes "meta_inv db" "upsert_source_plan_with_edges env now p es db = (db', v)"
  shows "meta_inv db'"
proof (cases "db' = db")
  case False
  let ?stamp = "time_text env now"
  let ?plans = "sql_upsert plan_key (\<lambda>r. plan_row_of env p (pl_created_at r) ?stamp)
    (plan_row_of env p ?stamp ?stamp) (md_plans db)"
  obtain plan r rows where plan: "find_row (\<lambda>r. plan_key r = plan_key p) ?plans = Some (plan, r)"
    and ins: "insert_edges env ?stamp plan (pl_source_id p) (pl_external_id p) es
      (filter (\<lambda>e. pe_plan_id e \<noteq> plan) (md_edges db)) = Inr rows"
    and db': "db' = db\<lparr>md_plans := ?plans, md_edges := rows\<rparr>"
    using assms(2) False
    by (auto simp: upsert_source_plan_with_edges_def Let_def split: option.splits sum.splits prod.splits)
  note tbl = plan_table.upsert_ok [of "md_plans db" "(env, p, ?stamp)"]
    plan_table.upsert_ids [of _ "md_plans db" "(env, p, ?stamp)"]
  have links: "links_ok db'" if "links_ok db"
  proof -
    have "distinct (map edge_key (filter (\<lambda>e. pe_plan_id e \<noteq> plan) (md_edges db)))"
      using that by (simp add: links_ok_def distinct_map_filter)
    from insert_edges_inv [OF ins this]
    have e: "distinct (map edge_key rows)" "pe_plan_id ` set rows \<subseteq> insert plan (pe_plan_id ` set (md_edges db))"
      by auto
    have new: "has_row plan ?plans" using plan by (rule has_row_found)
    have old: "has_row (pe_plan_id x) ?plans" if "x \<in> set (md_edges db)" for x
      using tbl(2) [of "pe_plan_id x"] that \<open>links_ok db\<close> by (simp add: links_ok_def)
    have ref: "has_row (pe_plan_id x) ?plans" if x: "x \<in> set rows" for x
    proof -
      have "pe_plan_id x \<in> insert plan (pe_plan_id ` set (md_edges db))" using e(2) x by blast
      then show ?thesis using new old by (elim insertE imageE) simp_all
    qed
    show ?thesis
      using \<open>links_ok db\<close> e(1) ref unfolding links_ok_def db' by simp
  qed
  show ?thesis
    by (rule links_inv [OF assms(1) links]) (use tbl(1) in \<open>simp_all add: db'\<close>)
qed (use assms(1) in simp)

lemma meta_step_inv: "meta_step env db db' \<Longrightarrow> meta_inv db \<Longrightarrow> meta_inv db'"
  by (induction rule: meta_step.induct)
    (blast intro: upsert_session_inv upsert_chunks_inv touch_inv scans_inv watermark_inv named_rows_inv
      link_workspace_inv link_repo_inv link_brick_inv resource_inv plan_inv)+

text \<open>
  C11: whatever sequence of operations a new metadata database has gone through, failed ones
  included, its keys are unique, its references point to existing rows, and every recorded line
  belongs to a stored chunk of an edit tool.
\<close>

theorem metadata_db_invariant:
  "(meta_step env)\<^sup>*\<^sup>* empty_meta_db db \<Longrightarrow> meta_inv db"
  by (induction rule: rtranclp_induct) (auto intro: meta_inv_empty meta_step_inv)

end
