(* ===== verification/Metadata_Props.thy ===== *)
theory Metadata_Props imports Metadata_Inv begin

text \<open>
  What the operations of the metadata database do to the rows they are about, and what they leave
  alone: upserts of sessions, chunks and plans, watermarks, and the tables whose keys may be null.
\<close>

section \<open>A small database\<close>

definition sample_meta_env :: meta_env where
  "sample_meta_env =
     \<lparr>me_services = plain_services, me_parse_time = parse_int,
      me_json_text = (\<lambda>j. case j of JArr _ \<Rightarrow> ''[\"src/a.rs\"]'' | JObj [] \<Rightarrow> ''{}'' | JObj _ \<Rightarrow> ''{..}'' | _ \<Rightarrow> ''null''),
      me_json_parse = (\<lambda>s. if s = ''[\"src/a.rs\"]'' then Some (JArr [JStr ''src/a.rs'']) else
         if s = ''{}'' then Some (JObj []) else Some JNull),
      me_lower = (\<lambda>s. s), me_fts = (\<lambda>_ _. [])\<rparr>"

definition sample_upsert :: session_upsert where
  "sample_upsert =
     \<lparr>ss_source_id = ''claude'', ss_external_id = ''s1'', ss_title = Some ''Fix cache'', ss_name = None,
      ss_source_path = Some ''/t/s1.jsonl'', ss_source_uri = None, ss_source_mtime = Some 5,
      ss_source_size = Some 100, ss_fingerprint = None, ss_parser_version = Some ''v1'',
      ss_session_created_at = None, ss_session_updated_at = None, ss_model = None, ss_input_tokens = None,
      ss_output_tokens = None, ss_repo_path = Some ''/repo'', ss_branch = None, ss_files_changed = Some 1,
      ss_lines_added = None, ss_lines_removed = None, ss_touched_files = Some (JArr [JStr ''src/a.rs'']),
      ss_listable = True, ss_discovered_at = 3, ss_last_seen_at = 4, ss_metadata = None\<rparr>"

definition sample_session_db :: meta_db where
  "sample_session_db = fst (upsert_source_session sample_meta_env 7 sample_upsert empty_meta_db)"

lemma sample_meta_simps [simp]:
  "me_services sample_meta_env = plain_services" "me_parse_time sample_meta_env = parse_int"
  "time_text sample_meta_env t = show_int t"
  by (simp_all add: sample_meta_env_def time_text_def plain_services_def)

lemma sample_times [simp]: "time_reads_back sample_meta_env t"
  by (simp add: time_reads_back_def)

lemma sample_touched [simp]: "json_value_reads_back sample_meta_env (JArr [JStr ''src/a.rs''])"
  by (simp add: json_value_reads_back_def sample_meta_env_def)

lemma sample_session_reads_back: "session_reads_back sample_meta_env sample_upsert"
  by (simp add: session_reads_back_def sample_upsert_def)

lemma sample_params: "\<exists>p. session_params sample_meta_env sample_upsert = Some p"
proof -
  have fit: "optional_u64_to_i64 None = Some None" "optional_u64_to_i64 (Some 100) = Some (Some 100)"
    "optional_u64_to_i64 (Some 1) = Some (Some 1)"
    by (simp_all add: optional_u64_to_i64_def)
  show ?thesis by (simp add: session_params_def sample_upsert_def fit)
qed

section \<open>Sessions\<close>

lemma read_source_session_other:
  assumes "session_params env s = Some p" "(a, b) \<noteq> (ss_source_id s, ss_external_id s)"
  shows "find_session (db\<lparr>md_sessions := sql_upsert session_key (\<lambda>r. session_row_of p (ss_created_at r) stamp)
      (session_row_of p stamp stamp) (md_sessions db)\<rparr>) a b = find_session db a b"
proof -
  have "session_key p \<noteq> Some (a, b)"
    using session_params_key [OF assms(1)] assms(2) by (auto simp: session_key_def)
  then show ?thesis
    unfolding find_session_lookup using session_table.upsert_other [of "(p, stamp)" "(a, b)" "md_sessions db"] by simp
qed

lemma find_session_upserted:
  assumes "session_params env s = Some p"
  shows "find_session (db\<lparr>md_sessions := sql_upsert session_key (\<lambda>r. session_row_of p (ss_created_at r) stamp)
      (session_row_of p stamp stamp) (md_sessions db)\<rparr>) (ss_source_id s) (ss_external_id s) =
    Some (case find_session db (ss_source_id s) (ss_external_id s) of
            None \<Rightarrow> (fst (md_sessions db), session_row_of p stamp stamp)
          | Some (i, r) \<Rightarrow> (i, session_row_of p (ss_created_at r) stamp))"
proof -
  have "session_key p = Some (ss_source_id s, ss_external_id s)"
    using session_params_key [OF assms] by (simp add: session_key_def)
  then show ?thesis
    unfolding find_session_lookup using session_table.upsert_lookup [of "(p, stamp)" _ "md_sessions db"]
    by (auto split: option.split)
qed

lemma upsert_session_Inr:
  assumes "session_params env s = Some p" and "session_reads_back env s" and "time_reads_back env now"
    and "read_source_session env db (ss_source_id s) (ss_external_id s) = Inr old"
  obtains db' where
    "upsert_source_session env now s db =
       (db', Inr (session_record_of s (case old of None \<Rightarrow> now | Some v \<Rightarrow> ss_created_at v) now))"
    "read_source_session env db' (ss_source_id s) (ss_external_id s) =
       Inr (Some (session_record_of s (case old of None \<Rightarrow> now | Some v \<Rightarrow> ss_created_at v) now))"
    "\<forall>a b i. read_source_session_id db a b = Some i \<longrightarrow> read_source_session_id db' a b = Some i"
    "\<forall>a b. (a, b) \<noteq> (ss_source_id s, ss_external_id s) \<longrightarrow> find_session db' a b = find_session db a b"
    "md_chunks db' = md_chunks db" "md_lines db' = md_lines db"
proof -
  let ?stamp = "time_text env now"
  let ?created = "case old of None \<Rightarrow> now | Some v \<Rightarrow> ss_created_at v"
  define db' where "db' = db\<lparr>md_sessions := sql_upsert session_key
      (\<lambda>r. session_row_of p (ss_created_at r) ?stamp) (session_row_of p ?stamp ?stamp) (md_sessions db)\<rparr>"
  have updated: "me_parse_time env ?stamp = Some now" using assms(3) by (simp add: time_reads_back_def)
  note found = find_session_upserted [OF assms(1), where db = db and stamp = ?stamp, folded db'_def]
  obtain i ctext where row: "find_session db' (ss_source_id s) (ss_external_id s) = Some (i, session_row_of p ctext ?stamp)"
    and id: "\<And>j r. find_session db (ss_source_id s) (ss_external_id s) = Some (j, r) \<Longrightarrow> j = i"
    and ctext: "me_parse_time env ctext = Some ?created"
  proof (cases "find_session db (ss_source_id s) (ss_external_id s)")
    case None
    then show ?thesis using that found assms(4) updated by (simp add: read_source_session_def)
  next
    case (Some ir)
    obtain j r where ir: "ir = (j, r)" by fastforce
    obtain v where v: "source_session_from_row env r = Some v" "old = Some v"
      using assms(4) by (auto simp: read_source_session_def Some ir split: option.splits)
    then have "me_parse_time env (ss_created_at r) = Some (ss_created_at v)"
      by (auto simp: source_session_from_row_def bind_eq_Some_conv)
    then show ?thesis using that found v(2) by (simp add: Some ir)
  qed
  have read: "read_source_session env db' (ss_source_id s) (ss_external_id s) = Inr (Some (session_record_of s ?created now))"
    using session_row_reads_back [OF assms(1,2) ctext updated] by (simp add: read_source_session_def row)
  then have "upsert_source_session env now s db = (db', Inr (session_record_of s ?created now))"
    by (simp add: upsert_source_session_def assms(1) Let_def db'_def [symmetric])
  moreover have other: "find_session db' a b = find_session db a b"
    if "(a, b) \<noteq> (ss_source_id s, ss_external_id s)" for a b
    using read_source_session_other [OF assms(1) that] by (simp add: db'_def)
  moreover have "read_source_session_id db' a b = Some k" if "read_source_session_id db a b = Some k" for a b k
  proof (cases "(a, b) = (ss_source_id s, ss_external_id s)")
    case True
    then show ?thesis using that id by (auto simp: read_source_session_id_def row)
  next
    case False
    then show ?thesis using that other by (simp add: read_source_session_id_def)
  qed
  moreover have "md_chunks db' = md_chunks db" "md_lines db' = md_lines db" by (simp_all add: db'_def)
  ultimately show ?thesis using read
    by (intro that [of db']) (auto simp: read_source_session_def [of env db'] read_source_session_def [of env db])
qed

text \<open>
  C13: an upsert of a session whose numbers fit the columns succeeds, when an existing row of the
  session is readable. What it returns, and what is read afterwards, are the given values, with
  the creation time of the first upsert and the update time of this one; the session keeps its
  row number, and no other session changes.
\<close>

theorem session_upsert_reads_back:
  assumes "session_params env s = Some p" and "session_reads_back env s" and "time_reads_back env now"
    and "read_source_session env db (ss_source_id s) (ss_external_id s) = Inr old"
  shows "\<exists>db' r. upsert_source_session env now s db = (db', Inr r) \<and>
    r = session_record_of s (case old of None \<Rightarrow> now | Some v \<Rightarrow> ss_created_at v) now \<and>
    read_source_session env db' (ss_source_id s) (ss_external_id s) = Inr (Some r) \<and>
    (\<forall>a b i. read_source_session_id db a b = Some i \<longrightarrow> read_source_session_id db' a b = Some i) \<and>
    (\<forall>a b. (a, b) \<noteq> (ss_source_id s, ss_external_id s) \<longrightarrow>
       read_source_session env db' a b = read_source_session env db a b)"
  by (rule upsert_session_Inr [OF assms]) (auto simp: read_source_session_def)

lemma session_upsert_reads_back_witness:
  "\<exists>r. upsert_source_session sample_meta_env 7 sample_upsert empty_meta_db = (sample_session_db, Inr r) \<and>
     ss_created_at r = 7 \<and> ss_title r = Some ''Fix cache''"
proof -
  obtain p where p: "session_params sample_meta_env sample_upsert = Some p" using sample_params by blast
  have none: "read_source_session sample_meta_env empty_meta_db a b = Inr None" for a b
    by (simp add: read_source_session_def find_session_def find_row_def empty_meta_db_def)
  from session_upsert_reads_back [OF p sample_session_reads_back sample_times none, of 7] obtain db' r where
    up: "upsert_source_session sample_meta_env 7 sample_upsert empty_meta_db = (db', Inr r)"
    and r: "r = session_record_of sample_upsert 7 7" by auto
  have "sample_session_db = db'" by (simp add: sample_session_db_def up)
  moreover have "ss_created_at r = 7" "ss_title r = Some ''Fix cache''"
    by (simp_all add: r session_record_of_def source_session.defs) (simp add: sample_upsert_def)
  ultimately show ?thesis using up by simp
qed

text \<open>The witness of the invariant of the reachable databases.\<close>

lemma sample_session_db_step: "meta_step sample_meta_env empty_meta_db sample_session_db"
  unfolding sample_session_db_def
  by (rule meta_step.session [where r = "snd (upsert_source_session sample_meta_env 7 sample_upsert empty_meta_db)"]) simp

theorem metadata_db_invariant_witness:
  "meta_inv sample_session_db \<and> md_sessions sample_session_db \<noteq> md_sessions empty_meta_db"
proof -
  obtain p where p: "session_params sample_meta_env sample_upsert = Some p" using sample_params by blast
  have none: "find_session empty_meta_db a b = None" for a b
    by (simp add: find_session_def find_row_def empty_meta_db_def)
  obtain r where r: "source_session_from_row sample_meta_env (session_row_of p (show_int 7) (show_int 7)) = Some r"
    using session_row_reads_back [OF p sample_session_reads_back, of "show_int 7" 7 "show_int 7" 7] by simp
  have "md_sessions sample_session_db \<noteq> md_sessions empty_meta_db"
    using find_session_upserted [OF p, where db = empty_meta_db and stamp = "show_int 7"] none r
    by (auto simp: sample_session_db_def upsert_source_session_def p Let_def read_source_session_def find_session_def)
  moreover have "(meta_step sample_meta_env)\<^sup>*\<^sup>* empty_meta_db sample_session_db"
    using sample_session_db_step by blast
  ultimately show ?thesis using metadata_db_invariant by simp
qed

section \<open>Watermarks\<close>

text \<open>
  After a watermark is set, it is the mark given, or the one before when none is given, and the
  refresh time is the one given; the marks of other sources are as before. A mark is only lost by
  clearing it.
\<close>

theorem watermark_kept:
  "get_source_watermark (set_source_watermark a l t db) a =
     Some (or_else l (Option.bind (get_source_watermark db a) fst), t) \<and>
   (\<forall>b. b \<noteq> a \<longrightarrow> get_source_watermark (set_source_watermark a l t db) b = get_source_watermark db b) \<and>
   get_source_watermark (clear_source_watermark a db) a = None"
proof -
  have look: "get_source_watermark d c = map_option (\<lambda>(i, k, w). w) (lookup (\<lambda>(k, w). Some k) c (md_watermarks d))" for d c
  proof -
    have "(\<lambda>r :: string \<times> string option \<times> string. (case r of (k, w) \<Rightarrow> Some k) = Some c) = (\<lambda>(k, w). k = c)" by auto
    then show ?thesis by (simp add: get_source_watermark_def)
  qed
  let ?t = "sql_upsert (\<lambda>(k, w). Some k) (\<lambda>(k, indexed, refreshed). (k, or_else l indexed, t)) (a, l, t) (md_watermarks db)"
  have md: "md_watermarks (set_source_watermark a l t db) = ?t" by (simp add: set_source_watermark_def)
  have "lookup (\<lambda>(k, w). Some k) a ?t = Some (case lookup (\<lambda>(k, w). Some k) a (md_watermarks db) of
      None \<Rightarrow> (fst (md_watermarks db), a, l, t) | Some (i, k, indexed, refreshed) \<Rightarrow> (i, k, or_else l indexed, t))"
    using watermark_table.upsert_lookup [of "(a, l, t)" a "md_watermarks db"]
    by (auto split: option.splits)
  then have "get_source_watermark (set_source_watermark a l t db) a =
      Some (or_else l (Option.bind (get_source_watermark db a) fst), t)"
    by (auto simp: look md split: option.splits)
  moreover have "get_source_watermark (set_source_watermark a l t db) b = get_source_watermark db b" if "b \<noteq> a" for b
    using watermark_table.upsert_other [of "(a, l, t)" b "md_watermarks db"] that by (simp add: look md)
  moreover have "find_row (\<lambda>(k, w). k = a) (n, filter (\<lambda>(i, k, w). k \<noteq> a) rows) = None" for n rows
    by (auto simp: find_row_None)
  then have "get_source_watermark (clear_source_watermark a db) a = None"
    by (simp add: get_source_watermark_def clear_source_watermark_def)
  ultimately show ?thesis by blast
qed

section \<open>Keys with a null column\<close>

text \<open>
  A source root without a URI, or a repository without one, is never updated in place: the
  unique key holds a null, which equals no other, so every upsert adds one more row for it, while
  the first row's number is returned each time.
\<close>

theorem null_uri_adds_rows:
  assumes "find_row (\<lambda>r. rr_source_id r = a \<and> rr_path r = path \<and> rr_uri r = None) (md_roots db) = Some (i, r)"
  shows "upsert_source_root env now a path None db =
      (db\<lparr>md_roots := (Suc (fst (md_roots db)), snd (md_roots db) @
          [(fst (md_roots db), \<lparr>rr_source_id = a, rr_path = path, rr_uri = None,
             rr_created_at = time_text env now, rr_updated_at = time_text env now\<rparr>)])\<rparr>, Inr i)"
proof -
  let ?n = "\<lparr>rr_source_id = a, rr_path = path, rr_uri = None,
    rr_created_at = time_text env now, rr_updated_at = time_text env now\<rparr>"
  have "root_key ?n = None" by (simp add: root_key_def split: option.split)
  then have "sql_upsert root_key (\<lambda>r. r\<lparr>rr_updated_at := time_text env now\<rparr>) ?n (md_roots db) =
      (Suc (fst (md_roots db)), snd (md_roots db) @ [(fst (md_roots db), ?n)])"
    using root_table.upsert_null [of "(?n, time_text env now)" "md_roots db"] by simp
  then show ?thesis
    using assms by (simp add: upsert_source_root_def Let_def find_row_def find_append)
qed

lemma null_uri_adds_rows_witness:
  "let db = fst (upsert_source_root sample_meta_env 7 ''claude'' (Some ''/t'') None empty_meta_db);
       db' = fst (upsert_source_root sample_meta_env 8 ''claude'' (Some ''/t'') None db)
   in length (snd (md_roots db')) = 2"
proof -
  define db where "db = fst (upsert_source_root sample_meta_env 7 ''claude'' (Some ''/t'') None empty_meta_db)"
  have rows: "md_roots db = (2, [(1, \<lparr>rr_source_id = ''claude'', rr_path = Some ''/t'', rr_uri = None,
      rr_created_at = show_int 7, rr_updated_at = show_int 7\<rparr>)])"
    by (simp add: db_def upsert_source_root_def empty_meta_db_def sql_upsert_def root_key_def Let_def)
  then have "find_row (\<lambda>r. rr_source_id r = ''claude'' \<and> rr_path r = Some ''/t'' \<and> rr_uri r = None) (md_roots db) =
      Some (1, snd (hd (snd (md_roots db))))"
    by (simp add: find_row_def)
  from null_uri_adds_rows [OF this, of sample_meta_env 8] show ?thesis
    by (simp add: db_def [symmetric] Let_def rows)
qed

section \<open>Chunks\<close>

lemma chunk_params_id: "chunk_params env n c = Some r \<Longrightarrow> sk_chunk_id r = ac_chunk_id c"
  by (auto simp: chunk_params_def bind_eq_Some_conv)

lemma insert_chunks_Inr:
  assumes "distinct (map ac_chunk_id cs)"
    and "\<And>c. c \<in> set cs \<Longrightarrow> (session, ac_chunk_id c) \<notin> (\<lambda>(s, r). (s, sk_chunk_id r)) ` set (md_chunks db)"
    and "\<And>n c. c \<in> set cs \<Longrightarrow> chunk_params env n c = Some (row n c)"
  shows "insert_chunks env session n cs db = Inr (db\<lparr>
    md_chunks := md_chunks db @ map (\<lambda>(n, c). (session, row n c)) (List.enumerate n cs),
    md_lines := fold (\<lambda>(n, c). insert_line_provenance_for_chunk env session n c) (List.enumerate n cs) (md_lines db)\<rparr>)"
  using assms
proof (induction cs arbitrary: n db)
  case (Cons c cs)
  have p: "chunk_params env n c = Some (row n c)" using Cons.prems(3) [of c n] by simp
  have id: "sk_chunk_id (row n c) = ac_chunk_id c" using p by (rule chunk_params_id)
  have "\<not> list_ex (\<lambda>(s, r). s = session \<and> sk_chunk_id r = ac_chunk_id c) (md_chunks db)"
    using Cons.prems(2) [of c] by (force simp: list_ex_iff)
  moreover have "insert_chunks env session (Suc n) cs (db\<lparr>md_chunks := md_chunks db @ [(session, row n c)],
      md_lines := insert_line_provenance_for_chunk env session n c (md_lines db)\<rparr>) = Inr (db\<lparr>
      md_chunks := (md_chunks db @ [(session, row n c)]) @ map (\<lambda>(n, c). (session, row n c)) (List.enumerate (Suc n) cs),
      md_lines := fold (\<lambda>(n, c). insert_line_provenance_for_chunk env session n c) (List.enumerate (Suc n) cs)
        (insert_line_provenance_for_chunk env session n c (md_lines db))\<rparr>)"
    using Cons.prems id
    by (subst Cons.IH) (force simp: image_iff)+
  ultimately show ?case using p id by simp
qed simp

definition chunk_record_of :: "string \<Rightarrow> string \<Rightarrow> nat \<Rightarrow> activity_chunk \<Rightarrow> chunk_record" where
  "chunk_record_of source_id external n c =
     \<lparr>sk_chunk_id = ac_chunk_id c, sk_index = n, sk_action_type = ac_action_type c, sk_function = ac_function c,
      sk_args = ac_args c, sk_result = ac_result c, sk_created_at = ac_created_at c, sk_thread_id = ac_thread_id c,
      sk_process_id = ac_process_id c, sk_source_path = ac_source_path c,
      sk_source_record_key = ac_source_record_key c, sk_source_line_number = ac_source_line_number c,
      sk_source_message_id = ac_source_message_id c, sk_source_part_id = ac_source_part_id c,
      sk_raw = enc_activity_chunk c, sk_source_id = source_id, sk_external_id = external\<rparr>"

definition chunk_reads_back :: "meta_env \<Rightarrow> activity_chunk \<Rightarrow> bool" where
  "chunk_reads_back env c \<longleftrightarrow>
     (\<forall>n. ac_source_line_number c = Some n \<longrightarrow> unat n < 2 ^ 63) \<and>
     json_value_reads_back env (ac_args c) \<and> json_value_reads_back env (ac_result c) \<and>
     json_value_reads_back env (enc_activity_chunk c)"

lemma chunk_row_reads_back:
  assumes "chunk_reads_back env c"
  shows "\<exists>row. chunk_params env n c = Some row \<and>
    chunk_record_of_row env a b row = Some (chunk_record_of a b n c) \<and> sk_index row = n"
proof -
  obtain w where w: "optional_u64_to_i64 (ac_source_line_number c) = Some w"
    using assms by (cases "ac_source_line_number c")
      (auto simp: chunk_reads_back_def optional_u64_to_i64_def)
  from i64_back [OF w] assms show ?thesis
    by (simp add: chunk_params_def w chunk_record_of_row_def chunk_record_of_def chunk_reads_back_def
        json_value_reads_back_def)
qed

lemma sort_sorted: "sorted_wrt (<) (map f xs) \<Longrightarrow> mset ys = mset xs \<Longrightarrow> sort_key f ys = xs"
proof -
  assume s: "sorted_wrt (<) (map f xs)" and m: "mset ys = mset xs"
  then have "sorted (map f xs)" "inj_on f (set xs)" by (auto simp: strict_sorted_iff distinct_map)
  moreover have "set ys = set xs" using m by (rule mset_eq_setD)
  ultimately show "sort_key f ys = xs" by (intro sort_key_inj_key_eq [OF m]) simp_all
qed

lemma enumerate_indices: "sorted_wrt (<) (map fst (List.enumerate n cs))"
  by (simp add: map_fst_enumerate)

lemma session_id_unique:
  assumes "meta_inv db" "read_source_session_id db a b = Some i" "read_source_session_id db a' b' = Some i"
  shows "(a, b) = (a', b')"
proof -
  obtain r r' where "(i, r) \<in> set (snd (md_sessions db))" "session_key r = Some (a, b)"
    "(i, r') \<in> set (snd (md_sessions db))" "session_key r' = Some (a', b')"
    using assms(2,3) unfolding read_source_session_id_def find_session_lookup
    by (auto dest!: find_row_Some)
  moreover have "distinct (map fst (snd (md_sessions db)))"
    using assms(1) by (simp add: meta_inv_def keys_ok_def table_ok_def)
  ultimately show ?thesis by (metis eq_key_imp_eq_value option.inject)
qed

lemma upsert_chunks_Inr:
  assumes "read_source_session_id db a b = Some session" and "distinct (map ac_chunk_id cs)"
    and "\<And>n c. c \<in> set cs \<Longrightarrow> chunk_params env n c = Some (row n c)"
  shows "upsert_source_session_chunks env a b cs db = (db\<lparr>
      md_chunks := filter (\<lambda>(s, r). s \<noteq> session) (md_chunks db) @
        map (\<lambda>(n, c). (session, row n c)) (List.enumerate 0 cs),
      md_lines := fold (\<lambda>(n, c). insert_line_provenance_for_chunk env session n c) (List.enumerate 0 cs)
        (filter (\<lambda>r. lr_session r \<noteq> session) (md_lines db))\<rparr>, Inr ())"
  unfolding upsert_source_session_chunks_def assms(1) option.case
  by (subst insert_chunks_Inr [where row = row]) (use assms in \<open>auto split: prod.splits\<close>)

lemma map_filter_other_session:
  "i \<noteq> session \<Longrightarrow>
   List.map_filter (\<lambda>(s, r). if Some s = Some i then Some r else None)
     (filter (\<lambda>(s, r). s \<noteq> session) old @ map (\<lambda>(n, c). (session, row n c)) cs) =
   List.map_filter (\<lambda>(s, r). if Some s = Some i then Some r else None) old"
proof -
  assume "i \<noteq> session"
  moreover from this have "List.map_filter (\<lambda>(s, r). if Some s = Some i then Some r else None)
      (filter (\<lambda>(s, r). s \<noteq> session) old) = List.map_filter (\<lambda>(s, r). if Some s = Some i then Some r else None) old"
    by (induction old) (auto simp: map_filter_simps)
  moreover have "List.map_filter (\<lambda>(s, r). if Some s = Some i then Some r else None)
      (map (\<lambda>(n, c). (session, row n c)) cs) = []"
    using calculation(1) by (induction cs) (auto simp: map_filter_simps)
  ultimately show ?thesis by (simp add: map_filter_append)
qed

lemma map_filter_own_session:
  "List.map_filter (\<lambda>(s, r). if Some s = Some session then Some r else None)
     (filter (\<lambda>(s, r). s \<noteq> session) old @ map (\<lambda>(n, c). (session, row n c)) cs) = map (\<lambda>(n, c). row n c) cs"
proof -
  have "List.map_filter (\<lambda>(s, r). if Some s = Some session then Some r else None)
      (filter (\<lambda>(s, r). s \<noteq> session) old) = []"
    by (induction old) (auto simp: map_filter_simps)
  moreover have "List.map_filter (\<lambda>(s, r). if Some s = Some session then Some r else None)
      (map (\<lambda>(n, c). (session, row n c)) cs) = map (\<lambda>(n, c). row n c) cs"
    by (induction cs) (auto simp: map_filter_simps)
  ultimately show ?thesis by (simp add: map_filter_append)
qed

lemma upsert_chunks_listed:
  assumes "meta_inv db" and "read_source_session_id db a b = Some session"
    and "distinct (map ac_chunk_id cs)" and "\<forall>c\<in>set cs. chunk_reads_back env c"
  obtains db' where "upsert_source_session_chunks env a b cs db = (db', Inr ())"
    "list_source_session_chunks env db' a b = Inr (map (\<lambda>(n, c). chunk_record_of a b n c) (List.enumerate 0 cs))"
    "\<forall>a' b'. (a', b') \<noteq> (a, b) \<longrightarrow>
       list_source_session_chunks env db' a' b' = list_source_session_chunks env db a' b'"
    "md_sessions db' = md_sessions db"
proof -
  define row where "row = (\<lambda>n c. the (chunk_params env n c))"
  have row: "chunk_params env n c = Some (row n c)"
    "chunk_record_of_row env a b (row n c) = Some (chunk_record_of a b n c)" "sk_index (row n c) = n"
    if "c \<in> set cs" for n c
    using chunk_row_reads_back [of env c n a b] assms(4) that by (auto simp: row_def)
  define db' where "db' = db\<lparr>
      md_chunks := filter (\<lambda>(s, r). s \<noteq> session) (md_chunks db) @
        map (\<lambda>(n, c). (session, row n c)) (List.enumerate 0 cs),
      md_lines := fold (\<lambda>(n, c). insert_line_provenance_for_chunk env session n c) (List.enumerate 0 cs)
        (filter (\<lambda>r. lr_session r \<noteq> session) (md_lines db))\<rparr>"
  have up: "upsert_source_session_chunks env a b cs db = (db', Inr ())"
    unfolding db'_def by (rule upsert_chunks_Inr [OF assms(2,3) row(1)])
  have chunks: "md_chunks db' = filter (\<lambda>(s, r). s \<noteq> session) (md_chunks db) @
      map (\<lambda>(n, c). (session, row n c)) (List.enumerate 0 cs)"
    by (simp add: db'_def)
  have id: "read_source_session_id db' a' b' = read_source_session_id db a' b'" for a' b'
    by (simp add: read_source_session_id_def find_session_def db'_def)
  have mem: "c \<in> set cs" if "(n, c) \<in> set (List.enumerate 0 cs)" for n c
    using that by (metis in_set_zip enumerate_eq_zip snd_conv nth_mem)
  have own: "session_chunk_rows db' a b = map (\<lambda>(n, c). row n c) (List.enumerate 0 cs)"
  proof -
    have "map sk_index (map (\<lambda>(n, c). row n c) (List.enumerate 0 cs)) = map fst (List.enumerate 0 cs)"
      unfolding map_map by (rule map_cong) (use mem row(3) in auto)
    then have "sorted_wrt (<) (map sk_index (map (\<lambda>(n, c). row n c) (List.enumerate 0 cs)))"
      using enumerate_indices by metis
    from sort_sorted [OF this] show ?thesis
      unfolding session_chunk_rows_def id assms(2) chunks map_filter_own_session by simp
  qed
  have "list_source_session_chunks env db' a b = Inr (map (\<lambda>(n, c). chunk_record_of a b n c) (List.enumerate 0 cs))"
  proof -
    have "collect_results (\<lambda>r. ok_or (chunk_record_of_row env a b r) Bad_Row)
        (map (\<lambda>(n, c). row n c) xs) = Inr (map (\<lambda>(n, c). chunk_record_of a b n c) xs)"
      if "\<And>n c. (n, c) \<in> set xs \<Longrightarrow> c \<in> set cs" for xs
      using that
    proof (induction xs)
      case (Cons x xs)
      obtain n c where x: "x = (n, c)" by fastforce
      have c: "c \<in> set cs" using Cons.prems [of n c] by (simp add: x)
      have "collect_results (\<lambda>r. ok_or (chunk_record_of_row env a b r) Bad_Row) (map (\<lambda>(n, c). row n c) xs) =
          Inr (map (\<lambda>(n, c). chunk_record_of a b n c) xs)"
        by (rule Cons.IH) (erule Cons.prems [OF list.set_intros(2)])
      with row(2) [OF c, of n] show ?case by (simp add: x)
    qed simp
    then show ?thesis unfolding list_source_session_chunks_def own using mem by blast
  qed
  moreover have "list_source_session_chunks env db' a' b' = list_source_session_chunks env db a' b'"
    if other: "(a', b') \<noteq> (a, b)" for a' b'
  proof -
    have "session_chunk_rows db' a' b' = session_chunk_rows db a' b'"
    proof (cases "read_source_session_id db a' b'")
      case None
      then show ?thesis unfolding session_chunk_rows_def id by (simp add: List.map_filter_def case_prod_unfold)
    next
      case (Some i)
      then have "i \<noteq> session" using session_id_unique [OF assms(1,2)] other by blast
      then show ?thesis
        unfolding session_chunk_rows_def id Some chunks map_filter_other_session [OF \<open>i \<noteq> session\<close>] by simp
    qed
    then show ?thesis by (simp add: list_source_session_chunks_def)
  qed
  moreover have "md_sessions db' = md_sessions db" by (simp add: db'_def)
  ultimately show ?thesis using up by (intro that [of db']) blast+
qed

text \<open>
  Storing the chunks of an indexed session replaces the ones it had. When their ids are
  distinct and their line numbers fit, it succeeds, the listing is the given chunks with their
  positions, in order, and the chunks of other sessions are as before.
\<close>

theorem chunks_replaced:
  assumes "meta_inv db" and "read_source_session_id db a b = Some session"
    and "distinct (map ac_chunk_id cs)" and "\<forall>c\<in>set cs. chunk_reads_back env c"
  shows "\<exists>db'. upsert_source_session_chunks env a b cs db = (db', Inr ()) \<and>
    list_source_session_chunks env db' a b = Inr (map (\<lambda>(n, c). chunk_record_of a b n c) (List.enumerate 0 cs)) \<and>
    (\<forall>a' b'. (a', b') \<noteq> (a, b) \<longrightarrow>
       list_source_session_chunks env db' a' b' = list_source_session_chunks env db a' b')"
  by (rule upsert_chunks_listed [OF assms]) blast

definition sample_chunk :: "string \<Rightarrow> activity_chunk" where
  "sample_chunk i =
     \<lparr>ac_chunk_id = i, ac_session_id = ''s1'', ac_action_type = ''tool_call'', ac_function = ''write_file'',
      ac_args = JObj [], ac_result = JObj [], ac_created_at = ''t'', ac_thread_id = None, ac_process_id = None,
      ac_source_id = None, ac_source_path = Some ''src/a.rs'', ac_source_record_key = None,
      ac_source_line_number = Some 4, ac_source_message_id = None, ac_source_part_id = None\<rparr>"

text \<open>A printer that keeps apart the values of the sample.\<close>

definition sample_chunk_env :: meta_env where
  "sample_chunk_env = sample_meta_env\<lparr>
     me_json_text := (\<lambda>j. if j = JObj [] then ''{}'' else ''c''),
     me_json_parse := (\<lambda>s. if s = ''{}'' then Some (JObj []) else Some (enc_activity_chunk (sample_chunk ''c1'')))\<rparr>"

lemma sample_session_id: "read_source_session_id sample_session_db ''claude'' ''s1'' = Some 1"
proof -
  obtain p where p: "session_params sample_meta_env sample_upsert = Some p" using sample_params by blast
  have none: "find_session empty_meta_db a b = None" for a b
    by (simp add: find_session_def find_row_def empty_meta_db_def)
  obtain r where r: "source_session_from_row sample_meta_env (session_row_of p (show_int 7) (show_int 7)) = Some r"
    using session_row_reads_back [OF p sample_session_reads_back, of "show_int 7" 7 "show_int 7" 7] by simp
  have keys: "ss_source_id sample_upsert = ''claude''" "ss_external_id sample_upsert = ''s1''"
    by (simp_all add: sample_upsert_def)
  show ?thesis
    using find_session_upserted [OF p, where db = empty_meta_db and stamp = "show_int 7", unfolded keys none] r
    by (simp add: sample_session_db_def upsert_source_session_def p Let_def read_source_session_def keys
        read_source_session_id_def) (simp add: empty_meta_db_def)
qed

lemma chunks_replaced_witness:
  "\<exists>db'. upsert_source_session_chunks sample_chunk_env ''claude'' ''s1'' [sample_chunk ''c1''] sample_session_db =
      (db', Inr ()) \<and>
    list_source_session_chunks sample_chunk_env db' ''claude'' ''s1'' =
      Inr [chunk_record_of ''claude'' ''s1'' 0 (sample_chunk ''c1'')]"
proof -
  have inv: "meta_inv sample_session_db" by (rule meta_step_inv [OF sample_session_db_step meta_inv_empty])
  have "enc_activity_chunk (sample_chunk ''c1'') \<noteq> JObj []"
    by (simp add: enc_activity_chunk_def enc_struct_def) (simp add: sample_chunk_def bt_of_list_def)
  then have "chunk_reads_back sample_chunk_env (sample_chunk ''c1'')"
    by (simp add: chunk_reads_back_def json_value_reads_back_def sample_chunk_env_def)
      (simp add: sample_chunk_def)
  then show ?thesis
    using chunks_replaced [OF inv sample_session_id, of "[sample_chunk ''c1'']" sample_chunk_env] by auto
qed

section \<open>Transactions\<close>

text \<open>
  The operations that write several rows are atomic: when storing a session, its chunks, or a
  plan with its edges fails, the database is exactly as it was before.
\<close>

theorem metadata_transactions_atomic:
  "(upsert_source_session env now s db = (db', Inl e) \<longrightarrow> db' = db) \<and>
   (upsert_source_session_chunks env a b cs db = (db', Inl e) \<longrightarrow> db' = db) \<and>
   (upsert_source_plan_with_edges env now p es db = (db', Inl e) \<longrightarrow> db' = db)"
proof (intro conjI impI)
  assume up: "upsert_source_session env now s db = (db', Inl e)"
  show "db' = db"
  proof (cases "session_params env s")
    case None
    then show ?thesis using up by (simp add: upsert_source_session_def)
  next
    case (Some q)
    let ?db = "db\<lparr>md_sessions := sql_upsert session_key (\<lambda>r. session_row_of q (ss_created_at r) (time_text env now))
      (session_row_of q (time_text env now) (time_text env now)) (md_sessions db)\<rparr>"
    have "find_session ?db (ss_source_id s) (ss_external_id s) \<noteq> None"
      using find_session_upserted [OF Some, where db = db and stamp = "time_text env now"] by simp
    then have "read_source_session env ?db (ss_source_id s) (ss_external_id s) \<noteq> Inr None"
      by (auto simp: read_source_session_def split: option.splits)
    then show ?thesis using up by (auto simp: upsert_source_session_def Some Let_def split: sum.splits option.splits)
  qed
next
  assume "upsert_source_session_chunks env a b cs db = (db', Inl e)"
  then show "db' = db" by (auto simp: upsert_source_session_chunks_def split: option.splits sum.splits)
next
  assume up: "upsert_source_plan_with_edges env now p es db = (db', Inl e)"
  let ?plans = "sql_upsert plan_key (\<lambda>r. plan_row_of env p (pl_created_at r) (time_text env now))
    (plan_row_of env p (time_text env now) (time_text env now)) (md_plans db)"
  have key: "plan_key p = Some (pl_source_id p, pl_external_id p)" by (simp add: plan_key_def)
  have "find_row (\<lambda>r. plan_key r = Some (pl_source_id p, pl_external_id p)) ?plans \<noteq> None"
    using plan_table.upsert_lookup [of "(env, p, time_text env now)" _ "md_plans db"] key by simp
  then have "read_source_plan env (db\<lparr>md_plans := ?plans, md_edges := rows\<rparr>) (pl_source_id p) (pl_external_id p) \<noteq> Inr None"
    for rows
    by (auto simp: read_source_plan_def split: option.splits)
  then show "db' = db"
    using up by (auto simp: upsert_source_plan_with_edges_def Let_def split: option.splits sum.splits prod.splits)
qed

lemma metadata_transactions_atomic_witness:
  "upsert_source_session_chunks sample_chunk_env ''claude'' ''s1'' [sample_chunk ''c1'', sample_chunk ''c1'']
     sample_session_db = (sample_session_db, Inl Unique_Violated)"
proof -
  have p: "\<exists>r. chunk_params sample_chunk_env n (sample_chunk i) = Some r \<and> sk_chunk_id r = i" for n i
    by (simp add: chunk_params_def sample_chunk_def optional_u64_to_i64_def)
  obtain r0 r1 where r: "chunk_params sample_chunk_env 0 (sample_chunk ''c1'') = Some r0" "sk_chunk_id r0 = ''c1''"
    "chunk_params sample_chunk_env (Suc 0) (sample_chunk ''c1'') = Some r1" "sk_chunk_id r1 = ''c1''"
    using p by metis
  have nochunk: "md_chunks sample_session_db = []"
    using upsert_session_cases [of sample_meta_env 7 sample_upsert empty_meta_db sample_session_db]
    by (auto simp: sample_session_db_def empty_meta_db_def prod_eq_iff)
  have "snd (upsert_source_session_chunks sample_chunk_env ''claude'' ''s1'' [sample_chunk ''c1'', sample_chunk ''c1'']
      sample_session_db) = Inl Unique_Violated"
    by (simp add: upsert_source_session_chunks_def sample_session_id r nochunk)
  then show ?thesis
    using metadata_transactions_atomic [where db = sample_session_db and e = Unique_Violated and
      env = sample_chunk_env and a = "''claude''" and b = "''s1''" and
      cs = "[sample_chunk ''c1'', sample_chunk ''c1'']"]
    by (metis prod.collapse)
qed

section \<open>Plans\<close>

text \<open>
  Storing a plan replaces its edges: afterwards exactly the edges given are stored for it, in
  order, with unique pairs of session and role, and the edges of other plans are as before. An
  edge that names another plan is refused.
\<close>

theorem plan_edges_replaced:
  assumes "upsert_source_plan_with_edges env now p es db = (db', Inr v)"
  shows "\<exists>plan. (\<exists>r. find_row (\<lambda>r. plan_key r = plan_key p) (md_plans db') = Some (plan, r)) \<and>
    filter (\<lambda>e. pe_plan_id e \<noteq> plan) (md_edges db') = filter (\<lambda>e. pe_plan_id e \<noteq> plan) (md_edges db) \<and>
    map (\<lambda>e. (pe_external_session_id e, pe_role e)) (filter (\<lambda>e. pe_plan_id e = plan) (md_edges db')) =
      map (\<lambda>e. (pe_external_session_id e, edge_role_str (pe_role e))) es \<and>
    (\<forall>e\<in>set es. pe_source_id e = pl_source_id p \<and> pe_external_plan_id e = pl_external_id p) \<and>
    distinct (map (\<lambda>e. (pe_external_session_id e, pe_role e)) es)"
proof -
  let ?stamp = "time_text env now"
  obtain plan r where plan: "find_row (\<lambda>r. plan_key r = plan_key p) (md_plans db') = Some (plan, r)"
    and ins: "insert_edges env ?stamp plan (pl_source_id p) (pl_external_id p) es
      (filter (\<lambda>e. pe_plan_id e \<noteq> plan) (md_edges db)) = Inr (md_edges db')"
    using assms
    by (auto simp: upsert_source_plan_with_edges_def Let_def split: option.splits sum.splits prod.splits)
  define keys where "keys = (\<lambda>rows :: edge_row list.
    map (\<lambda>e. (pe_external_session_id e, pe_role e)) (filter (\<lambda>e. pe_plan_id e = plan) rows))"
  have "filter (\<lambda>e. pe_plan_id e \<noteq> plan) rows' = filter (\<lambda>e. pe_plan_id e \<noteq> plan) rows \<and>
      keys rows' =
        keys rows @
        map (\<lambda>e. (pe_external_session_id e, edge_role_str (pe_role e))) es \<and>
      (\<forall>e\<in>set es. pe_source_id e = a \<and> pe_external_plan_id e = b) \<and>
      (distinct (keys rows) \<longrightarrow>
       distinct (keys rows'))"
    if "insert_edges env ?stamp plan a b es rows = Inr rows'" for a b rows rows'
    using that
  proof (induction es arbitrary: rows)
    case (Cons e es)
    have "\<not> list_ex (\<lambda>r. pe_plan_id r = plan \<and> pe_external_session_id r = pe_external_session_id e \<and>
        pe_role r = edge_role_str (pe_role e)) rows"
      using Cons.prems by (auto split: if_splits)
    then have fresh: "(pe_external_session_id e, edge_role_str (pe_role e)) \<notin> set (keys rows)"
      by (force simp: list_ex_iff keys_def)
    have key: "pe_source_id e = a \<and> pe_external_plan_id e = b" using Cons.prems by (auto split: if_splits)
    define row where "row = (\<lparr>pe_external_session_id = pe_external_session_id e, pe_role = edge_role_str (pe_role e),
       pe_todo_ids = serialize_metadata_json env (pe_todo_ids e),
       pe_discovered_at = time_text env (pe_discovered_at e), pe_last_seen_at = time_text env (pe_last_seen_at e),
       pe_metadata = serialize_metadata_json env (pe_metadata e),
       pe_plan_id = plan, pe_row_created_at = ?stamp, pe_row_updated_at = ?stamp\<rparr> :: edge_row)"
    have rest: "insert_edges env ?stamp plan a b es (rows @ [row]) = Inr rows'"
      using Cons.prems by (simp add: row_def split: if_splits)
    have row: "pe_plan_id row = plan" "pe_external_session_id row = pe_external_session_id e"
      "pe_role row = edge_role_str (pe_role e)" by (simp_all add: row_def)
    have ks: "keys (rows @ [row]) = keys rows @ [(pe_external_session_id e, edge_role_str (pe_role e))]"
      by (simp add: keys_def row)
    note IH = Cons.IH [OF rest]
    have "distinct (keys rows) \<Longrightarrow> distinct (keys (rows @ [row]))" using fresh by (simp add: ks)
    then have dist: "distinct (keys rows) \<longrightarrow> distinct (keys rows')" using IH by blast
    from IH key have "filter (\<lambda>e. pe_plan_id e \<noteq> plan) rows' = filter (\<lambda>e. pe_plan_id e \<noteq> plan) rows \<and>
        keys rows' = keys rows @ map (\<lambda>e. (pe_external_session_id e, edge_role_str (pe_role e))) (e # es) \<and>
        (\<forall>e\<in>set (e # es). pe_source_id e = a \<and> pe_external_plan_id e = b)"
      by (simp add: row ks)
    with dist show ?case by blast
  qed simp
  from this [OF ins] have spec:
    "filter (\<lambda>e. pe_plan_id e \<noteq> plan) (md_edges db') = filter (\<lambda>e. pe_plan_id e \<noteq> plan) (md_edges db)"
    "map (\<lambda>e. (pe_external_session_id e, pe_role e)) (filter (\<lambda>e. pe_plan_id e = plan) (md_edges db')) =
      map (\<lambda>e. (pe_external_session_id e, edge_role_str (pe_role e))) es"
    "\<forall>e\<in>set es. pe_source_id e = pl_source_id p \<and> pe_external_plan_id e = pl_external_id p"
    "distinct (map (\<lambda>e. (pe_external_session_id e, pe_role e)) (filter (\<lambda>e. pe_plan_id e = plan) (md_edges db')))"
    by (auto simp: filter_empty_conv keys_def)
  have "distinct (map (\<lambda>e. (pe_external_session_id e, edge_role_str (pe_role e))) es)"
    using spec(4) unfolding spec(2) .
  then have "distinct (map (\<lambda>e. (pe_external_session_id e, pe_role e)) es)"
    by (induction es) auto
  with spec(1-3) show ?thesis by (intro exI [of _ plan]) (simp add: plan)
qed

end
