(* ===== verification/Session_Event.thy ===== *)
theory Session_Event imports Metadata_Props begin

text \<open>
  The event of an indexed source session (\<^verbatim>\<open>source_session_event.rs\<close>) and the way back: the
  ingestion of such events, pulled from another machine, into the metadata database
  (\<^verbatim>\<open>crates/sync/src/lib.rs\<close>). The name-based uuid of a text is an argument; the clock of the
  ingestion is read twice per event.
\<close>

section \<open>From the row to the event\<close>

definition source_session_event_name :: "session_record \<Rightarrow> string" where
  "source_session_event_name r =
     ''brick:source-session-observed-v2:'' @ ss_source_id r @ '':'' @ ss_external_id r @ '':'' @
     unwrap_or (ss_fingerprint r) [] @ '':'' @ unwrap_or (ss_parser_version r) []"

definition source_session_event_id :: "(string \<Rightarrow> uuid) \<Rightarrow> session_record \<Rightarrow> uuid" where
  "source_session_event_id uuid5 r = uuid5 (source_session_event_name r)"

definition session_id_for_record :: "uuid \<Rightarrow> session_record \<Rightarrow> string" where
  "session_id_for_record new_uuid r =
     (case id_from_str (ss_external_id r) of
        Inr i \<Rightarrow> i
      | Inl _ \<Rightarrow> id_prefix SessionId @ new_uuid)"

definition touched_strings :: "json option \<Rightarrow> string list" where
  "touched_strings v = (case v of Some (JArr files) \<Rightarrow> List.map_filter dec_str files | _ \<Rightarrow> [])"

definition source_session_payload_of :: "meta_env \<Rightarrow> session_record \<Rightarrow> source_session_payload" where
  "source_session_payload_of env r =
     \<lparr>so_source_id = ss_source_id r, so_external_session_id = ss_external_id r, so_title = ss_title r,
      so_name = ss_name r, so_source_path = map_option from_utf8_lossy (ss_source_path r),
      so_source_uri = ss_source_uri r, so_source_mtime = map_option (time_text env) (ss_source_mtime r),
      so_source_size = ss_source_size r, so_source_fingerprint = ss_fingerprint r,
      so_parser_version = ss_parser_version r,
      so_session_created_at = map_option (time_text env) (ss_session_created_at r),
      so_session_updated_at = map_option (time_text env) (ss_session_updated_at r), so_model = ss_model r,
      so_input_tokens = ss_input_tokens r, so_output_tokens = ss_output_tokens r,
      so_repo_path = map_option from_utf8_lossy (ss_repo_path r), so_branch = ss_branch r,
      so_files_changed = ss_files_changed r, so_lines_added = ss_lines_added r,
      so_lines_removed = ss_lines_removed r, so_touched_files = touched_strings (ss_touched_files r),
      so_metadata_json = ss_metadata r, so_normalized_chunks = []\<rparr>"

definition build_source_session_event_with_chunks ::
  "meta_env \<Rightarrow> (string \<Rightarrow> uuid) \<Rightarrow> fresh \<Rightarrow> uuid \<Rightarrow> actor_ref \<Rightarrow> session_record \<Rightarrow> string \<Rightarrow>
   activity_chunk list \<Rightarrow> trace_event" where
  "build_source_session_event_with_chunks env uuid5 fr new_uuid actor r repo chunks =
     (source_session_observed fr actor
        ((source_session_payload_of env r)\<lparr>so_normalized_chunks := map enc_activity_chunk chunks\<rparr>))
       \<lparr>te_event_id := source_session_event_id uuid5 r,
        te_session_id := Some (session_id_for_record new_uuid r), te_repo_id := Some repo\<rparr>"

definition build_source_session_event ::
  "meta_env \<Rightarrow> (string \<Rightarrow> uuid) \<Rightarrow> fresh \<Rightarrow> uuid \<Rightarrow> actor_ref \<Rightarrow> session_record \<Rightarrow> string \<Rightarrow> trace_event" where
  "build_source_session_event env uuid5 fr new_uuid actor r repo =
     build_source_session_event_with_chunks env uuid5 fr new_uuid actor r repo []"

lemma built_event_simps [simp]:
  fixes env uuid5 fr new_uuid actor r repo chunks
  defines "ev \<equiv> build_source_session_event_with_chunks env uuid5 fr new_uuid actor r repo chunks"
  shows "te_event_type ev = SourceSessionObserved" "te_event_id ev = source_session_event_id uuid5 r"
    "te_repo_id ev = Some repo" "te_confidence ev = Conf_Observed" "te_actor ev = actor"
    "te_session_id ev = Some (session_id_for_record new_uuid r)"
    "te_payload ev = enc_source_session_payload
       ((source_session_payload_of env r)\<lparr>so_normalized_chunks := map enc_activity_chunk chunks\<rparr>)"
  by (simp_all add: ev_def build_source_session_event_with_chunks_def source_session_observed_def from_payload_def)

section \<open>Reading a chunk\<close>

definition dec_activity_chunk :: "json \<Rightarrow> activity_chunk option" where
  "dec_activity_chunk j = do {
     src \<leftarrow> struct_src
       [(''chunk_id'', False), (''session_id'', False), (''action_type'', False), (''function'', False),
        (''args'', False), (''result'', False), (''created_at'', False), (''thread_id'', False),
        (''process_id'', False), (''source_id'', False), (''source_path'', False),
        (''source_record_key'', False), (''source_line_number'', False), (''source_message_id'', False),
        (''source_part_id'', False)] j;
     v_chunk_id \<leftarrow> req dec_str (src ''chunk_id'');
     v_session_id \<leftarrow> req dec_str (src ''session_id'');
     v_action_type \<leftarrow> req dec_str (src ''action_type'');
     v_function \<leftarrow> req dec_str (src ''function'');
     v_args \<leftarrow> req Some (src ''args'');
     v_result \<leftarrow> req Some (src ''result'');
     v_created_at \<leftarrow> req dec_str (src ''created_at'');
     v_thread_id \<leftarrow> opt dec_str (src ''thread_id'');
     v_process_id \<leftarrow> opt dec_str (src ''process_id'');
     v_source_id \<leftarrow> opt dec_str (src ''source_id'');
     v_source_path \<leftarrow> opt dec_str (src ''source_path'');
     v_source_record_key \<leftarrow> opt dec_str (src ''source_record_key'');
     v_source_line_number \<leftarrow> opt dec_u64 (src ''source_line_number'');
     v_source_message_id \<leftarrow> opt dec_str (src ''source_message_id'');
     v_source_part_id \<leftarrow> opt dec_str (src ''source_part_id'');
     Some \<lparr>ac_chunk_id = v_chunk_id, ac_session_id = v_session_id, ac_action_type = v_action_type,
       ac_function = v_function, ac_args = v_args, ac_result = v_result, ac_created_at = v_created_at,
       ac_thread_id = v_thread_id, ac_process_id = v_process_id, ac_source_id = v_source_id,
       ac_source_path = v_source_path, ac_source_record_key = v_source_record_key,
       ac_source_line_number = v_source_line_number, ac_source_message_id = v_source_message_id,
       ac_source_part_id = v_source_part_id\<rparr>
   }"

text \<open>Looking up a field that may be left out, without a case distinction per field.\<close>

lemma map_of_skip_if:
  "map_of (skip_if b (k, v) @ xs) k' = (if b \<or> k' \<noteq> k then map_of xs k' else Some v)"
  "map_of (skip_if b (k, v)) k' = (if b \<or> k' \<noteq> k then None else Some v)"
  by (auto simp: skip_if_def)

lemma skip_if_keys:
  "distinct (map fst (skip_if b f @ xs)) \<longleftrightarrow> distinct (map fst xs) \<and> (b \<or> fst f \<notin> fst ` set xs)"
  "distinct (map fst (skip_if b f))"
  "k \<in> fst ` set (skip_if b f @ xs) \<longleftrightarrow> \<not> b \<and> k = fst f \<or> k \<in> fst ` set xs"
  "k \<in> fst ` set (skip_if b f) \<longleftrightarrow> \<not> b \<and> k = fst f"
  by (auto simp: skip_if_def)

lemma opt_skipped:
  "opt dec_str (if v = None then None else Some (enc_opt JStr v)) = Some v"
  "opt dec_u64 (if w = None then None else Some (enc_opt enc_u64 w)) = Some w"
  by (simp_all add: codec)

lemma dec_activity_chunk_enc [simp, codec]: "dec_activity_chunk (enc_activity_chunk c) = Some c"
proof -
  define fs where "fs =
     [(''chunk_id'', JStr (ac_chunk_id c)), (''session_id'', JStr (ac_session_id c)),
      (''action_type'', JStr (ac_action_type c)), (''function'', JStr (ac_function c)),
      (''args'', ac_args c), (''result'', ac_result c), (''created_at'', JStr (ac_created_at c))] @
     skip_if (ac_thread_id c = None) (''thread_id'', enc_opt JStr (ac_thread_id c)) @
     skip_if (ac_process_id c = None) (''process_id'', enc_opt JStr (ac_process_id c)) @
     skip_if (ac_source_id c = None) (''source_id'', enc_opt JStr (ac_source_id c)) @
     skip_if (ac_source_path c = None) (''source_path'', enc_opt JStr (ac_source_path c)) @
     skip_if (ac_source_record_key c = None) (''source_record_key'', enc_opt JStr (ac_source_record_key c)) @
     skip_if (ac_source_line_number c = None) (''source_line_number'', enc_opt enc_u64 (ac_source_line_number c)) @
     skip_if (ac_source_message_id c = None) (''source_message_id'', enc_opt JStr (ac_source_message_id c)) @
     skip_if (ac_source_part_id c = None) (''source_part_id'', enc_opt JStr (ac_source_part_id c))"
  have "distinct (map fst fs)" by (simp add: fs_def skip_if_keys del: map_append set_append)
  then have "struct_src spec (enc_activity_chunk c) = Some (map_of fs)" for spec
    unfolding enc_activity_chunk_def fs_def by (rule struct_src_enc)
  moreover have "map_of fs ''chunk_id'' = Some (JStr (ac_chunk_id c))"
    "map_of fs ''session_id'' = Some (JStr (ac_session_id c))"
    "map_of fs ''action_type'' = Some (JStr (ac_action_type c))"
    "map_of fs ''function'' = Some (JStr (ac_function c))" "map_of fs ''args'' = Some (ac_args c)"
    "map_of fs ''result'' = Some (ac_result c)" "map_of fs ''created_at'' = Some (JStr (ac_created_at c))"
    by (simp_all add: fs_def)
  moreover have "opt dec_str (map_of fs ''thread_id'') = Some (ac_thread_id c)"
    "opt dec_str (map_of fs ''process_id'') = Some (ac_process_id c)"
    "opt dec_str (map_of fs ''source_id'') = Some (ac_source_id c)"
    "opt dec_str (map_of fs ''source_path'') = Some (ac_source_path c)"
    "opt dec_str (map_of fs ''source_record_key'') = Some (ac_source_record_key c)"
    "opt dec_u64 (map_of fs ''source_line_number'') = Some (ac_source_line_number c)"
    "opt dec_str (map_of fs ''source_message_id'') = Some (ac_source_message_id c)"
    "opt dec_str (map_of fs ''source_part_id'') = Some (ac_source_part_id c)"
    by (simp_all add: fs_def map_of_skip_if opt_skipped del: map_of_append)
  ultimately show ?thesis by (simp add: dec_activity_chunk_def)
qed

lemma collect_options_chunks: "collect_options dec_activity_chunk (map enc_activity_chunk cs) = Some cs"
  by (induction cs) simp_all

section \<open>From the event to the row\<close>

datatype ingest_error = Payload_Not_Decoded | Chunk_Not_Decoded | Ingest_Db meta_error

definition source_session_upsert_from_payload ::
  "meta_env \<Rightarrow> instant \<Rightarrow> source_session_payload \<Rightarrow> session_upsert" where
  "source_session_upsert_from_payload env now p =
     \<lparr>ss_source_id = so_source_id p, ss_external_id = so_external_session_id p, ss_title = so_title p,
      ss_name = or_else (so_name p) (so_title p), ss_source_path = so_source_path p,
      ss_source_uri = so_source_uri p, ss_source_mtime = Option.bind (so_source_mtime p) (me_parse_time env),
      ss_source_size = so_source_size p, ss_fingerprint = so_source_fingerprint p,
      ss_parser_version = so_parser_version p,
      ss_session_created_at = Option.bind (so_session_created_at p) (me_parse_time env),
      ss_session_updated_at = Option.bind (so_session_updated_at p) (me_parse_time env),
      ss_model = so_model p, ss_input_tokens = so_input_tokens p, ss_output_tokens = so_output_tokens p,
      ss_repo_path = so_repo_path p, ss_branch = so_branch p, ss_files_changed = so_files_changed p,
      ss_lines_added = so_lines_added p, ss_lines_removed = so_lines_removed p,
      ss_touched_files = Some (enc_vec JStr (so_touched_files p)), ss_listable = True,
      ss_discovered_at = now, ss_last_seen_at = now, ss_metadata = so_metadata_json p\<rparr>"

definition ingest_source_session ::
  "meta_env \<Rightarrow> instant \<Rightarrow> instant \<Rightarrow> trace_event \<Rightarrow> meta_db \<Rightarrow> meta_db \<times> (ingest_error + unit)" where
  "ingest_source_session env now stamp ev db =
     (if te_event_type ev \<noteq> SourceSessionObserved then (db, Inr ())
      else case dec_source_session_payload (te_payload ev) of
        None \<Rightarrow> (db, Inl Payload_Not_Decoded)
      | Some p \<Rightarrow>
          (case upsert_source_session env stamp (source_session_upsert_from_payload env now p) db of
             (db1, Inl e) \<Rightarrow> (db1, Inl (Ingest_Db e))
           | (db1, Inr _) \<Rightarrow>
               if so_normalized_chunks p = [] then (db1, Inr ())
               else (case collect_options dec_activity_chunk (so_normalized_chunks p) of
                       None \<Rightarrow> (db1, Inl Chunk_Not_Decoded)
                     | Some chunks \<Rightarrow>
                         (case upsert_source_session_chunks env (so_source_id p)
                                 (so_external_session_id p) chunks db1 of
                            (db2, Inl e) \<Rightarrow> (db2, Inl (Ingest_Db e))
                          | (db2, Inr _) \<Rightarrow> (db2, Inr ())))))"

fun ingest_source_sessions ::
  "meta_env \<Rightarrow> (nat \<Rightarrow> instant) \<Rightarrow> nat \<Rightarrow> trace_event list \<Rightarrow> meta_db \<Rightarrow> meta_db \<times> (ingest_error + unit)" where
  "ingest_source_sessions env clock k [] db = (db, Inr ())"
| "ingest_source_sessions env clock k (ev # evs) db =
     (case ingest_source_session env (clock (2 * k)) (clock (Suc (2 * k))) ev db of
        (db1, Inl e) \<Rightarrow> (db1, Inl e)
      | (db1, Inr _) \<Rightarrow> ingest_source_sessions env clock (Suc k) evs db1)"

section \<open>A session seen on another machine\<close>

definition record_portable :: "meta_env \<Rightarrow> session_record \<Rightarrow> bool" where
  "record_portable env r \<longleftrightarrow>
     (\<forall>t\<in>set_option (ss_source_mtime r) \<union> set_option (ss_session_created_at r) \<union>
          set_option (ss_session_updated_at r). time_reads_back env t) \<and>
     (\<forall>q\<in>set_option (ss_source_path r) \<union> set_option (ss_repo_path r). utf8_valid q) \<and>
     ss_metadata r \<noteq> Some JNull"

text \<open>What arrives: the record, listable, named by its title if it has no name, seen just now.\<close>

definition observed_upsert :: "instant \<Rightarrow> session_record \<Rightarrow> session_upsert" where
  "observed_upsert now r =
     (source_session.truncate r)
       \<lparr>ss_name := or_else (ss_name r) (ss_title r),
        ss_touched_files := Some (enc_vec JStr (touched_strings (ss_touched_files r))),
        ss_listable := True, ss_discovered_at := now, ss_last_seen_at := now\<rparr>"

lemma observed_upsert_key [simp]:
  "ss_source_id (observed_upsert now r) = ss_source_id r"
  "ss_external_id (observed_upsert now r) = ss_external_id r"
  by (simp_all add: observed_upsert_def source_session.defs)

lemma text_time_back:
  "(\<And>t. v = Some t \<Longrightarrow> time_reads_back env t) \<Longrightarrow>
   Option.bind (map_option (time_text env) v) (me_parse_time env) = v"
  by (cases v) (simp_all add: time_reads_back_def)

lemma path_text_back:
  "(\<And>q. v = Some q \<Longrightarrow> utf8_valid q) \<Longrightarrow> map_option from_utf8_lossy v = v"
  by (cases v) (simp_all add: from_utf8_lossy_valid)

lemma arrived_upsert:
  assumes "record_portable env r"
  shows "source_session_upsert_from_payload env now
      ((source_session_payload_of env r)\<lparr>so_normalized_chunks := cs\<rparr>) = observed_upsert now r"
proof -
  have fields: "Option.bind (map_option (time_text env) (ss_source_mtime r)) (me_parse_time env) = ss_source_mtime r"
    "Option.bind (map_option (time_text env) (ss_session_created_at r)) (me_parse_time env) = ss_session_created_at r"
    "Option.bind (map_option (time_text env) (ss_session_updated_at r)) (me_parse_time env) = ss_session_updated_at r"
    "map_option from_utf8_lossy (ss_source_path r) = ss_source_path r"
    "map_option from_utf8_lossy (ss_repo_path r) = ss_repo_path r"
    using assms by (auto simp: record_portable_def intro!: text_time_back path_text_back)
  show ?thesis
    by (simp add: source_session_upsert_from_payload_def source_session_payload_of_def observed_upsert_def fields
        source_session.defs)
qed

lemma ingest_built:
  assumes "record_portable env r"
  shows "ingest_source_session env now stamp
      (build_source_session_event_with_chunks env uuid5 fr new_uuid actor r repo cs) db =
    (case upsert_source_session env stamp (observed_upsert now r) db of
       (db1, Inl e) \<Rightarrow> (db1, Inl (Ingest_Db e))
     | (db1, Inr _) \<Rightarrow>
         if cs = [] then (db1, Inr ())
         else (case upsert_source_session_chunks env (ss_source_id r) (ss_external_id r) cs db1 of
                 (db2, Inl e) \<Rightarrow> (db2, Inl (Ingest_Db e))
               | (db2, Inr _) \<Rightarrow> (db2, Inr ())))"
proof -
  have "ss_metadata r \<noteq> Some JNull" using assms by (simp add: record_portable_def)
  then have "dec_source_session_payload (enc_source_session_payload
      ((source_session_payload_of env r)\<lparr>so_normalized_chunks := map enc_activity_chunk cs\<rparr>)) =
    Some ((source_session_payload_of env r)\<lparr>so_normalized_chunks := map enc_activity_chunk cs\<rparr>)"
    by (intro dec_source_session_payload_enc) (simp add: source_session_payload_of_def)
  moreover have "so_source_id (source_session_payload_of env r) = ss_source_id r"
    "so_external_session_id (source_session_payload_of env r) = ss_external_id r"
    by (simp_all add: source_session_payload_of_def)
  ultimately show ?thesis
    by (cases "upsert_source_session env stamp (observed_upsert now r) db"; cases "snd (upsert_source_session env stamp (observed_upsert now r) db)")
      (simp_all add: ingest_source_session_def arrived_upsert [OF assms] collect_options_chunks)
qed


section \<open>A session of another machine arrives\<close>

definition wire_env :: meta_env where
  "wire_env = sample_meta_env\<lparr>
     me_json_text := (\<lambda>j. if j = JArr [JStr ''src/a.rs''] then ''[..]'' else if j = JObj [] then ''{}'' else ''c''),
     me_json_parse := (\<lambda>s. if s = ''[..]'' then Some (JArr [JStr ''src/a.rs''])
        else if s = ''{}'' then Some (JObj []) else Some (enc_activity_chunk (sample_chunk ''c1'')))\<rparr>"

definition wire_record :: session_record where
  "wire_record = session_record_of (sample_upsert\<lparr>ss_listable := False\<rparr>) 7 7"

lemma wire_times [simp]: "time_reads_back wire_env t"
  by (simp add: wire_env_def time_reads_back_def time_text_def) (simp add: sample_meta_env_def plain_services_def)

lemma wire_values [simp]:
  "json_value_reads_back wire_env (JArr [JStr ''src/a.rs''])" "json_value_reads_back wire_env (JObj [])"
  "json_value_reads_back wire_env (enc_activity_chunk (sample_chunk ''c1''))"
proof -
  have "enc_activity_chunk (sample_chunk ''c1'') \<noteq> JObj []"
    by (simp add: enc_activity_chunk_def enc_struct_def) (simp add: sample_chunk_def bt_of_list_def)
  moreover have "enc_activity_chunk (sample_chunk ''c1'') \<noteq> JArr xs" for xs
    by (simp add: enc_activity_chunk_def enc_struct_def)
  ultimately show "json_value_reads_back wire_env (enc_activity_chunk (sample_chunk ''c1''))"
    by (simp add: json_value_reads_back_def wire_env_def)
qed (simp_all add: json_value_reads_back_def wire_env_def)

lemma wire_observed:
  "observed_upsert 9 wire_record = sample_upsert\<lparr>ss_name := Some ''Fix cache'', ss_discovered_at := 9, ss_last_seen_at := 9\<rparr>"
  and wire_record_portable: "record_portable wire_env wire_record"
proof -
  have ascii: "utf8_valid ''/t/s1.jsonl''" "utf8_valid ''/repo''"
    by (rule utf8_valid_ascii; simp)+
  then show "observed_upsert 9 wire_record =
      sample_upsert\<lparr>ss_name := Some ''Fix cache'', ss_discovered_at := 9, ss_last_seen_at := 9\<rparr>"
    by (simp add: observed_upsert_def wire_record_def session_record_of_def source_session.defs sample_upsert_def
        from_utf8_lossy_valid touched_strings_def map_filter_simps enc_vec_def)
  show "record_portable wire_env wire_record"
    using ascii by (simp add: record_portable_def wire_record_def session_record_of_def source_session.defs
        sample_upsert_def from_utf8_lossy_valid)
qed


end
