(* ===== verification/Sync_Client.thy ===== *)
theory Sync_Client imports Server_Samples Local_Store Session_Event begin

text \<open>
  The client of the trace server (\<^verbatim>\<open>crates/sync/src/lib.rs\<close>): which remote and which repositories
  are synced, the scoping of pushed events, the paged download and the pull into the local store.
  The HTTP library is a parameter: what a GET of a URL with a bearer token decodes to, and what a
  POST does to the server's state. A pull also puts the source sessions among the events into the
  metadata database (\<open>Session_Event\<close>), before it stores the events.
\<close>

section \<open>Remotes and URLs\<close>

datatype sync_error =
    Sync_Local brick_error
  | Sync_Ingest ingest_error
  | Http_Get_Failed string
  | Http_Post_Failed string
  | Push_Repo_Mismatch string string string   \<comment> \<open>event id, its repository, the pushed one\<close>
  | Invalid_Org_Id
  | Upload_Needs_Repo
  | Upload_Needs_Org
  | Upload_Needs_Account
  | Session_Field_Missing string
  | Chunks_Not_Permitted string
  | Payload_Not_Object

type_synonym env_vars = "string \<Rightarrow> string option"

definition default_remote :: string where
  "default_remote = ''http://127.0.0.1:7821''"

definition pull_page_limit :: nat where
  "pull_page_limit = 500"

definition normalized_remote :: "env_vars \<Rightarrow> string option \<Rightarrow> string" where
  "normalized_remote env remote =
     trim_end_matches ''/'' (unwrap_or
       (filter_opt (\<lambda>v. trim v \<noteq> []) (or_else remote (env ''BRICK_AUTO_SYNC_REMOTE''))) default_remote)"

definition auto_sync_disabled :: "env_vars \<Rightarrow> bool" where
  "auto_sync_disabled env =
     (case env ''BRICK_AUTO_SYNC_DISABLE'' of
        None \<Rightarrow> False
      | Some v \<Rightarrow> v = ''1'' \<or> v = ''true'' \<or> v = ''yes'' \<or> v = ''on'')"

definition events_url :: "string \<Rightarrow> string option \<Rightarrow> string" where
  "events_url remote repo =
     (case repo of
        None \<Rightarrow> remote @ ''/v1/events''
      | Some r \<Rightarrow> if r \<noteq> [] then remote @ ''/v1/repos/'' @ r @ ''/events'' else remote @ ''/v1/events'')"

definition events_page_url :: "string \<Rightarrow> string option \<Rightarrow> string option \<Rightarrow> string" where
  "events_page_url remote repo after =
     events_url remote repo @ ''?limit='' @ show_nat pull_page_limit @
     (case after of None \<Rightarrow> [] | Some c \<Rightarrow> ''&after='' @ c)"

section \<open>What is pushed\<close>

definition scope_event :: "string option \<Rightarrow> string option \<Rightarrow> trace_event \<Rightarrow> sync_error + trace_event" where
  "scope_event repo org ev =
     and_then
       (case repo of
          None \<Rightarrow> Inr ev
        | Some r \<Rightarrow>
            (case te_repo_id ev of
               Some existing \<Rightarrow> if existing \<noteq> r then Inl (Push_Repo_Mismatch (te_event_id ev) existing r) else Inr ev
             | None \<Rightarrow> Inr (ev\<lparr>te_repo_id := Some r\<rparr>)))
       (\<lambda>ev. Inr (if te_org_id ev = None then ev\<lparr>te_org_id := org\<rparr> else ev))"

definition scoped_events :: "trace_event list \<Rightarrow> string option \<Rightarrow> string option \<Rightarrow> sync_error + trace_event list" where
  "scoped_events evs repo org0 =
     and_then
       (case filter_opt (\<lambda>v. trim v \<noteq> []) org0 of
          None \<Rightarrow> Inr None
        | Some o' \<Rightarrow> (case id_from_str o' of Inl _ \<Rightarrow> Inl Invalid_Org_Id | Inr i \<Rightarrow> Inr (Some i)))
       (\<lambda>org. collect_results (scope_event repo org) evs)"

definition local_error :: "'a result \<Rightarrow> sync_error + 'a" where
  "local_error r = (case r of Inl e \<Rightarrow> Inl (Sync_Local e) | Inr v \<Rightarrow> Inr v)"

definition collect_push_events :: "services \<Rightarrow> db_file \<Rightarrow> string option \<Rightarrow> sync_error + trace_event list" where
  "collect_push_events svc f repo = local_error (read_events_with_chunks svc repo f)"

definition push_targets :: "db_file \<Rightarrow> string \<Rightarrow> bool \<Rightarrow> string list" where
  "push_targets f current all_repos =
     (if all_repos then fold (\<lambda>r rs. if r \<in> set rs then rs else rs @ [r]) (repo_ids f) [current] else [current])"

type_synonym 's http_post = "string \<Rightarrow> string option \<Rightarrow> trace_event list \<Rightarrow> 's \<Rightarrow> 's \<times> push_response option"

definition push_events_to_remote ::
  "'s http_post \<Rightarrow> string \<Rightarrow> string option \<Rightarrow> trace_event list \<Rightarrow> string option \<Rightarrow> 's \<Rightarrow> 's \<times> (sync_error + push_response)" where
  "push_events_to_remote post remote repo evs bearer srv =
     (let url = events_url remote repo in
      case post url bearer evs srv of
        (srv', None) \<Rightarrow> (srv', Inl (Http_Post_Failed url))
      | (srv', Some resp) \<Rightarrow> (srv', Inr resp))"

text \<open>The loop of \<^verbatim>\<open>handle_push\<close> over its targets, with the answers in order.\<close>

fun push_each ::
  "services \<Rightarrow> db_file \<Rightarrow> (string \<Rightarrow> trace_event list \<Rightarrow> 's \<Rightarrow> 's \<times> (sync_error + push_response)) \<Rightarrow>
   string option \<Rightarrow> string list \<Rightarrow> 's \<Rightarrow> 's \<times> (sync_error + push_response list)" where
  "push_each svc f send org [] srv = (srv, Inr [])"
| "push_each svc f send org (repo # repos) srv =
     (case collect_push_events svc f (Some repo) of
        Inl e \<Rightarrow> (srv, Inl e)
      | Inr evs \<Rightarrow>
          if evs = [] then push_each svc f send org repos srv
          else (case scoped_events evs (Some repo) org of
                  Inl e \<Rightarrow> (srv, Inl e)
                | Inr scoped \<Rightarrow>
                    (case send repo scoped srv of
                       (srv1, Inl e) \<Rightarrow> (srv1, Inl e)
                     | (srv1, Inr resp) \<Rightarrow>
                         (case push_each svc f send org repos srv1 of
                            (srv2, r) \<Rightarrow> (srv2, and_then r (\<lambda>resps. Inr (resp # resps)))))))"

section \<open>Pulling\<close>

type_synonym http_get = "string \<Rightarrow> string option \<Rightarrow> events_page option"

definition get_events_page :: "http_get \<Rightarrow> string \<Rightarrow> string option \<Rightarrow> string option \<Rightarrow> string option \<Rightarrow> sync_error + events_page" where
  "get_events_page get remote repo after bearer =
     (let url = events_page_url remote repo after in ok_or (get url bearer) (Http_Get_Failed url))"

text \<open>The loop over the pages: nothing but the server's answers bounds it, so it may not return.\<close>

partial_function (option) fetch_all ::
  "(string option \<Rightarrow> sync_error + events_page) \<Rightarrow> string option \<Rightarrow> trace_event list \<Rightarrow> (sync_error + events_page) option" where
  "fetch_all page after acc =
     (case page after of
        Inl e \<Rightarrow> Some (Inl e)
      | Inr p \<Rightarrow>
          (case ep_next_cursor p of
             None \<Rightarrow> Some (Inr (page_all (acc @ ep_events p)))
           | Some c \<Rightarrow> fetch_all page (Some c) (acc @ ep_events p)))"

definition get_all_events_from_remote ::
  "http_get \<Rightarrow> string \<Rightarrow> string option \<Rightarrow> string option \<Rightarrow> (sync_error + events_page) option" where
  "get_all_events_from_remote get remote repo bearer =
     fetch_all (\<lambda>after. get_events_page get remote repo after bearer) None []"

record pull_outcome =
  po_remote_count :: nat
  po_pulled_count :: nat
  po_duplicate_count :: nat
  po_stored :: bool

definition ingest_pulled_source_sessions ::
  "meta_env \<Rightarrow> (nat \<Rightarrow> instant) \<Rightarrow> trace_event list \<Rightarrow> meta_db \<Rightarrow> meta_db \<times> (sync_error + unit)" where
  "ingest_pulled_source_sessions menv clock evs db =
     (case ingest_source_sessions menv clock 0 evs db of
        (db1, Inl e) \<Rightarrow> (db1, Inl (Sync_Ingest e))
      | (db1, Inr _) \<Rightarrow> (db1, Inr ()))"

definition pull_events ::
  "store_env \<Rightarrow> meta_env \<Rightarrow> (nat \<Rightarrow> instant) \<Rightarrow> instant \<Rightarrow> trace_event list \<Rightarrow> bool \<Rightarrow>
   local_store \<Rightarrow> meta_db \<Rightarrow> (local_store \<times> meta_db) \<times> (sync_error + pull_outcome)" where
  "pull_events env menv clock now remote dry_run st m =
     (case dedupe_remote_events env remote st of
        Inl e \<Rightarrow> ((st, m), Inl (Sync_Local e))
      | Inr pulled \<Rightarrow>
          (let outcome = (\<lambda>stored. \<lparr>po_remote_count = length remote, po_pulled_count = length pulled,
                                    po_duplicate_count = length remote - length pulled, po_stored = stored\<rparr>) in
           if dry_run then ((st, m), Inr (outcome False))
           else (case ingest_pulled_source_sessions menv clock pulled m of
                   (m1, Inl e) \<Rightarrow> ((st, m1), Inl e)
                 | (m1, Inr _) \<Rightarrow>
                     if pulled = [] then ((st, m1), Inr (outcome False))
                     else (case append_remote_events env now pulled st of
                             (st1, Inl e) \<Rightarrow> ((st1, m1), Inl (Sync_Local e))
                           | (st1, Inr _) \<Rightarrow> ((st1, m1), Inr (outcome True))))))"

text \<open>
  The ingestion runs before the events are stored: one new session event whose payload does not
  decode keeps every other event of the download out, in this pull and, as the events stay unknown,
  in every later one.
\<close>

lemma ingest_undecodable:
  "\<exists>ev\<in>set evs. te_event_type ev = SourceSessionObserved \<and> dec_source_session_payload (te_payload ev) = None \<Longrightarrow>
   \<exists>m1 e. ingest_source_sessions menv clock k evs m = (m1, Inl e)"
proof (induction evs arbitrary: k m)
  case (Cons ev evs)
  obtain m1 r where one: "ingest_source_session menv (clock (2 * k)) (clock (Suc (2 * k))) ev m = (m1, r)"
    by fastforce
  show ?case
  proof (cases r)
    case (Inr u)
    then have "\<not> (te_event_type ev = SourceSessionObserved \<and> dec_source_session_payload (te_payload ev) = None)"
      using one by (cases "dec_source_session_payload (te_payload ev)") (auto simp: ingest_source_session_def)
    then show ?thesis using Cons.IH [of "Suc k" m1] Cons.prems one Inr by auto
  qed (use one in simp)
qed simp

lemma undecodable_session_blocks_pull:
  assumes "dedupe_remote_events env remote st = Inr pulled" "ev \<in> set pulled"
    and "te_event_type ev = SourceSessionObserved" "dec_source_session_payload (te_payload ev) = None"
  shows "\<exists>m1 e. pull_events env menv clock now remote False st m = ((st, m1), Inl (Sync_Ingest e))"
proof -
  obtain m1 e where "ingest_source_sessions menv clock 0 pulled m = (m1, Inl e)"
    using ingest_undecodable assms(2-4) by metis
  then show ?thesis
    using assms(1) by (simp add: pull_events_def ingest_pulled_source_sessions_def Let_def)
qed

section \<open>The server's log\<close>

text \<open>
  The server's log is an event log in the sense of \<open>event_log\<close>, as the local database is: it only
  grows, and while its length stays the same so do its lines. A client that has read up to a
  sequence number therefore never has to read the lines before it again.
\<close>

lemma server_step_log:
  assumes "server_step svc st st'"
  shows "prefix (log_lines st) (log_lines st')"
  using assms
proof cases
  case (push repo evs r)
  from push show ?thesis by (cases rule: append_events_cases) auto
next
  case (add_member org user r)
  then show ?thesis
    by (auto simp: add_org_member_def ensure_org_members_loaded_def log_lines_def Let_def
        split: if_splits sum.splits prod.splits)
next
  case (remove_member org user b)
  then show ?thesis
    by (auto simp: remove_org_member_def ensure_org_members_loaded_def log_lines_def Let_def
        split: if_splits sum.splits prod.splits)
next
  case (check_member org user b)
  then show ?thesis
    by (auto simp: is_org_member_def org_members_def ensure_org_members_loaded_def log_lines_def
        split: if_splits sum.splits prod.splits)
next
  case (claim repo org r)
  moreover have "sv_log (fst (claim_repo_org svc repo org st)) = sv_log st" by (simp add: claim_repo_org_def)
  ultimately show ?thesis by (simp add: log_lines_def)
next
  case (resolve repo own)
  moreover have "sv_log (fst (resolve_repo_org svc repo st)) = sv_log st"
    by (auto simp: resolve_repo_org_def ensure_repo_org_loaded_def split: option.splits sum.splits)
  ultimately show ?thesis by (simp add: log_lines_def)
next
  case restart
  then show ?thesis by (simp add: log_lines_def new_server_store_def)
qed

interpretation server_log: event_log log_lines "server_step svc" for svc
proof
  fix st st' assume "server_step svc st st'"
  from server_step_log [OF this] show "length (log_lines st) \<le> length (log_lines st')"
    and "length (log_lines st') = length (log_lines st) \<Longrightarrow> log_lines st' = log_lines st"
    by (auto simp: prefix_def)
qed

lemma server_log_append_only: "(server_step svc)\<^sup>*\<^sup>* st st' \<Longrightarrow> prefix (log_lines st) (log_lines st')"
  by (induction rule: rtranclp_induct) (auto dest: server_step_log intro: prefix_order.trans)

lemma server_log_same_count:
  "(server_step svc)\<^sup>*\<^sup>* st st' \<Longrightarrow> length (log_lines st') = length (log_lines st) \<Longrightarrow>
   log_lines st' = log_lines st"
  by (rule server_log.same_count_same_rows)

section \<open>The whole log comes over\<close>

text \<open>What a GET of the page URLs of a repository decodes to, when the server answers them with its pages.\<close>

definition serves_pages :: "services \<Rightarrow> server_store \<Rightarrow> string \<Rightarrow> string \<Rightarrow> string option \<Rightarrow> http_get \<Rightarrow> bool" where
  "serves_pages svc st remote repo bearer get \<longleftrightarrow>
     (\<forall>after. get (events_page_url remote (Some repo) after) bearer =
        (case list_events_page svc st (Some repo) after (Some pull_page_limit) of Inl e \<Rightarrow> None | Inr p \<Rightarrow> Some p))"

lemma sorted_after_take:
  fixes c :: "(u64 \<times> trace_event) list"
  assumes "sorted_wrt (<) (map fst c)" "0 < k" "k < length c"
  shows "filter (\<lambda>(s, ev). fst (last (take k c)) < s) c = drop k c"
proof -
  let ?l = "fst (last (take k c))"
  have "last (take k c) = c ! (k - 1)"
    using assms(2,3) last_conv_nth [of "take k c"] by (cases c) (auto simp: min_absorb2)
  then have l: "?l = map fst c ! (k - 1)" using assms(3) by simp
  have less: "i < j \<Longrightarrow> j < length c \<Longrightarrow> map fst c ! i < map fst c ! j" for i j
    using assms(1) by (simp add: sorted_wrt_iff_nth_less)
  have "\<forall>x\<in>set (take k c). \<not> ?l < fst x"
  proof
    fix x assume "x \<in> set (take k c)"
    then obtain i where i: "i < k" "i < length c" "x = c ! i"
      by (auto simp: in_set_conv_nth)
    then have "fst x = map fst c ! i" by simp
    moreover have "map fst c ! i \<le> map fst c ! (k - 1)"
      using less [of i "k - 1"] i assms(3) by (cases "i = k - 1") (auto intro: less_imp_le)
    ultimately show "\<not> ?l < fst x" using l by simp
  qed
  moreover have "\<forall>x\<in>set (drop k c). ?l < fst x"
  proof
    fix x assume "x \<in> set (drop k c)"
    then obtain i where i: "k + i < length c" "x = c ! (k + i)"
      by (auto simp: in_set_conv_nth) (metis add.commute less_diff_conv)
    then have "fst x = map fst c ! (k + i)" by simp
    then show "?l < fst x" using less [of "k - 1" "k + i"] i assms(2) l by simp
  qed
  ultimately have "filter (\<lambda>(s, ev). ?l < s) (take k c) = []" "filter (\<lambda>(s, ev). ?l < s) (drop k c) = drop k c"
    by (auto simp: filter_empty_conv filter_id_conv split_beta)
  then have "filter (\<lambda>(s, ev). ?l < s) (take k c @ drop k c) = drop k c"
    by (simp only: filter_append append_Nil)
  then show ?thesis by (simp only: append_take_drop_id)
qed

lemma fetch_pages:
  assumes "repo_log svc st repo = Inr es" "sorted_wrt (<) (map fst es)"
    and "\<And>a. page a = (case list_events_page svc st (Some repo) a (Some pull_page_limit) of
                 Inl e \<Rightarrow> Inl (err a) | Inr p \<Rightarrow> Inr p)"
    and "parse_cursor after = Inr a"
  shows "fetch_all page after acc = Some (Inr (page_all (acc @ map snd (filter (\<lambda>(s, ev). a < s) es))))"
  using assms(4)
proof (induction "length (filter (\<lambda>(s, ev). a < s) es)" arbitrary: after a acc rule: less_induct)
  case less
  define c where "c = filter (\<lambda>(s, ev). a < s) es"
  have n: "clamp (Suc 0) max_event_limit pull_page_limit = 500"
    by (simp add: clamp_def max_event_limit_def pull_page_limit_def)
  have p: "page after = Inr \<lparr>ep_events = map snd (take 500 c), ep_cursor = after,
      ep_next_cursor = (if 500 < length c then Some (show_u64 (fst (last (take 500 c)))) else None)\<rparr>"
    using list_page_repo_log [OF assms(1), of after "Some pull_page_limit"]
    by (simp add: assms(3) less.prems n c_def Let_def)
  show ?case
  proof (cases "500 < length c")
    case False
    then show ?thesis by (subst fetch_all.simps) (simp add: p c_def [symmetric])
  next
    case True
    define b where "b = fst (last (take 500 c))"
    have sorted_c: "sorted_wrt (<) (map fst c)"
      unfolding c_def using assms(2) by (simp add: sorted_wrt_map sorted_wrt_filter)
    have "last (take 500 c) \<in> set (take 500 c)" using True by (intro last_in_set) auto
    then have "last (take 500 c) \<in> set c" by (rule in_set_takeD)
    then have "a < b" by (auto simp: b_def c_def)
    then have "filter (\<lambda>(s, ev). b < s) es = filter (\<lambda>(s, ev). b < s) c"
      unfolding c_def filter_filter by (intro filter_cong) auto
    also have "\<dots> = drop 500 c"
      unfolding b_def by (rule sorted_after_take [OF sorted_c]) (use True in simp_all)
    finally have rest: "filter (\<lambda>(s, ev). b < s) es = drop 500 c" .
    have cur: "parse_cursor (Some (show_u64 b)) = Inr b" by (simp add: parse_cursor_def)
    have "fetch_all page (Some (show_u64 b)) (acc @ map snd (take 500 c)) =
        Some (Inr (page_all ((acc @ map snd (take 500 c)) @ map snd (drop 500 c))))"
      using less.hyps [OF _ cur, of "acc @ map snd (take 500 c)"] True by (simp add: rest c_def [symmetric])
    then show ?thesis
      using True by (subst fetch_all.simps) (simp add: p b_def [symmetric] c_def [symmetric] map_append [symmetric] del: map_append)
  qed
qed

lemma repo_log_sorted:
  assumes "repo_log svc st repo = Inr es" "length (log_lines st) < 2 ^ 64"
  shows "sorted_wrt (<) (map fst es)" "\<forall>x\<in>set es. 0 < fst x"
proof -
  obtain all where all: "read_lines svc 0 (log_lines st) = Inr all" "es = filter (\<lambda>(s, ev). te_repo_id ev = Some repo) all"
    using assms(1) by (auto simp: repo_log_def read_sequenced_lines and_then_Inr_iff)
  note inc = read_lines_increasing [OF all(1)]
  show "sorted_wrt (<) (map fst es)"
    using inc assms(2) unfolding all(2) by (simp add: sorted_wrt_map sorted_wrt_filter)
  have "\<forall>s\<in>fst ` set all. 0 < unat s" using inc assms(2) by simp
  then show "\<forall>x\<in>set es. 0 < fst x" unfolding all(2) by (auto simp: word_less_nat_alt)
qed

lemma pull_log:
  assumes "repo_log svc st repo = Inr es" "length (log_lines st) < 2 ^ 64"
    and "serves_pages svc st remote repo bearer get"
  shows "get_all_events_from_remote get remote (Some repo) bearer = Some (Inr (page_all (map snd es)))"
proof -
  let ?page = "\<lambda>a. get_events_page get remote (Some repo) a bearer"
  have page: "?page a = (case list_events_page svc st (Some repo) a (Some pull_page_limit) of
      Inl e \<Rightarrow> Inl (Http_Get_Failed (events_page_url remote (Some repo) a)) | Inr p \<Rightarrow> Inr p)" for a
    using assms(3) by (simp add: serves_pages_def get_events_page_def ok_or_def Let_def split: sum.split)
  have "filter (\<lambda>(s, ev). 0 < s) es = es"
    using repo_log_sorted(2) [OF assms(1,2)] by (auto simp: filter_id_conv)
  then show ?thesis
    using fetch_pages [OF assms(1) repo_log_sorted(1) [OF assms(1,2)] page, of None 0 "[]"]
    by (simp add: get_all_events_from_remote_def parse_cursor_def)
qed

text \<open>
  C10: the paged download ends and brings the whole repository: against a server that answers each
  page URL with its page of 500, the loop returns every event of the repository, each once, in the
  order of the log, however long the log is.
\<close>

theorem pull_reads_whole_log:
  assumes "repo_log svc st repo = Inr es" "length (log_lines st) < 2 ^ 64"
    and "serves_pages svc st remote repo bearer get"
  shows "get_all_events_from_remote get remote (Some repo) bearer = Some (Inr (page_all (map snd es)))"
  by (rule pull_log [OF assms])

section \<open>A pushed event reaches the other stores\<close>

text \<open>Every row with one of the ids belongs to the repository.\<close>

definition ids_at_home :: "string \<Rightarrow> string set \<Rightarrow> db_file \<Rightarrow> bool" where
  "ids_at_home repo ids f \<longleftrightarrow> (\<forall>r\<in>set (db_events (init_db f)). row_event_id r \<in> ids \<longrightarrow> row_repo_id r = repo)"

definition rows_of_repo :: "string \<Rightarrow> db_file \<Rightarrow> string set" where
  "rows_of_repo repo f = {row_event_id r | r. r \<in> set (db_events (init_db f)) \<and> row_repo_id r = repo}"

lemma append_event_at_home:
  assumes "append_event svc now repo ev f = (db, Inr u)" "te_repo_id ev = Some repo" "ids_at_home repo ids f" "te_event_id ev \<in> ids"
  shows "ids_at_home repo ids (Some db)" "insert (te_event_id ev) (rows_of_repo repo f) \<subseteq> rows_of_repo repo (Some db)"
proof -
  obtain compact chunks where c: "compact_event_and_chunks (stamp_repo repo ev) = Inr (compact, chunks)"
    using assms(1) by (auto simp: append_event_def Let_def split: sum.splits)
  let ?row = "event_row_of svc now repo (stamp_repo repo ev) compact"
  have db: "db_events db = insert_or_ignore ?row (db_events (init_db f))"
    using assms(1) by (auto simp: append_event_def Let_def c)
  have row: "row_repo_id ?row = repo" "row_event_id ?row = te_event_id ev"
    using assms(2) by (simp_all add: event_row_of_def)
  have some: "init_db (Some db) = db" by (simp add: init_db_def)
  show "ids_at_home repo ids (Some db)"
    using assms(3) row by (auto simp: ids_at_home_def some db insert_or_ignore_def)
  show "insert (te_event_id ev) (rows_of_repo repo f) \<subseteq> rows_of_repo repo (Some db)"
  proof -
    have sub: "rows_of_repo repo f \<subseteq> rows_of_repo repo (Some db)"
      by (auto simp: rows_of_repo_def some db insert_or_ignore_def)
    have "te_event_id ev \<in> rows_of_repo repo (Some db)"
    proof (cases "te_event_id ev \<in> row_event_id ` set (db_events (init_db f))")
      case True
      then have "te_event_id ev \<in> rows_of_repo repo f" using assms(3,4) by (auto simp: rows_of_repo_def ids_at_home_def)
      then show ?thesis using sub by blast
    next
      case False
      then have "?row \<in> set (db_events db)" using row(2) by (simp add: db insert_or_ignore_def)
      then show ?thesis using row unfolding rows_of_repo_def some by (metis (mono_tags, lifting) mem_Collect_eq)
    qed
    then show ?thesis using sub by simp
  qed
qed

lemma append_events_at_home:
  assumes "append_events svc now repo evs f = (f', Inr ())"
    and "\<forall>ev\<in>set evs. te_repo_id ev = Some repo \<and> te_event_id ev \<in> ids" "ids_at_home repo ids f"
    and "db_faithful svc (init_db f)" "\<forall>ev. services_read_back svc ev"
  shows "te_event_id ` set evs \<union> rows_of_repo repo f \<subseteq> rows_of_repo repo f' \<and> db_faithful svc (init_db f')"
  using assms(1-4)
proof (induction evs arbitrary: f)
  case (Cons ev evs)
  obtain db r where app: "append_event svc now repo ev f = (db, r)" by (cases "append_event svc now repo ev f")
  then have r: "r = Inr ()" and rest: "append_events svc now repo evs (Some db) = (f', Inr ())"
    using Cons.prems(1) by (cases r; simp)+
  note one = append_event_at_home [OF app [unfolded r], of ids]
  have "db_faithful svc (init_db (Some db))"
    using append_event_faithful [OF Cons.prems(4) _ app] assms(5) by (simp add: init_db_def)
  then show ?case
    using Cons.IH [OF rest] one Cons.prems(2,3) by auto
qed simp


section \<open>A sample download\<close>

text \<open>A GET that answers the page URLs of one repository from a server's store.\<close>

definition paging_server :: "services \<Rightarrow> server_store \<Rightarrow> string \<Rightarrow> string \<Rightarrow> http_get" where
  "paging_server svc st remote repo = (\<lambda>url bearer.
     case list_events_page svc st (Some repo) (strip_prefix (events_page_url remote (Some repo) None @ ''&after='') url)
            (Some pull_page_limit) of
       Inl e \<Rightarrow> None | Inr p \<Rightarrow> Some p)"

lemma paging_server_serves: "serves_pages svc st remote repo bearer (paging_server svc st remote repo)"
proof -
  have "strip_prefix (events_page_url remote (Some repo) None @ ''&after='') (events_page_url remote (Some repo) after) = after" for after
  proof (cases after)
    case None
    have "\<not> prefix (u @ ''&after='') u" for u :: string by (auto simp: prefix_def)
    then show ?thesis by (simp add: None strip_prefix_def)
  next
    case (Some c)
    have "events_page_url remote (Some repo) (Some c) = (events_page_url remote (Some repo) None @ ''&after='') @ c"
      by (simp add: events_page_url_def)
    then show ?thesis unfolding Some by (simp only: strip_prefix_append)
  qed
  then show ?thesis by (simp add: serves_pages_def paging_server_def)
qed

lemma pushed_server_lines: "length (log_lines pushed_server) = 1"
  by (simp add: log_lines_def pushed_server_def)

theorem pull_reads_whole_log_witness:
  "get_all_events_from_remote (paging_server plain_services pushed_server ''http://h'' ''repo-1'') ''http://h'' (Some ''repo-1'') None =
   Some (Inr (page_all [sample_push ''e1'' (Some ''repo-1'') (Some ''org-1'')]))"
  using pull_reads_whole_log [OF sample_repo_logs(1) _ paging_server_serves] by (simp add: pushed_server_lines)


end
