(* ===== verification/Config_Files.thy ===== *)
theory Config_Files imports Event_Store Paths begin

text \<open>
  What the three installers of \<^verbatim>\<open>brick agent\<close> share (\<open>Claude_Hook\<close>, \<open>Mcp_Config\<close>,
  \<open>Native_Hook\<close>): a configuration file of another program, the edit that reads it, changes the
  document and commits it, the JSON and TOML documents, and the interface \<open>managed_entry\<close>: what
  an installer promises of the one entry it owns, with what follows for a sequence of commands.
\<close>

section \<open>Files\<close>

datatype hook_action = Installed | Updated | Unchanged | Removed | Absent | Present

definition hook_action_str :: "hook_action \<Rightarrow> string" where
  "hook_action_str a =
     (case a of
        Installed \<Rightarrow> ''installed'' | Updated \<Rightarrow> ''updated'' | Unchanged \<Rightarrow> ''unchanged''
      | Removed \<Rightarrow> ''removed'' | Absent \<Rightarrow> ''absent'' | Present \<Rightarrow> ''present'')"

datatype config_error =
    Config_Unreadable
  | Config_Unparsable
  | Config_Not_Object string
  | Config_Not_Array string
  | Config_Not_Committed

text \<open>A path that exists but cannot be read as UTF-8 text is \<open>Unreadable\<close>.\<close>

datatype config_file = No_File | Unreadable | Text string

text \<open>
  A TOML document as toml\_edit presents it: an item of a table is a value, a table of its own
  or an array of tables. Tables keep the order of their keys; comments and spacing are no part
  of the data. \<open>TOther\<close> holds the text of a float, boolean or date.
\<close>

datatype toml_value =
    TString string
  | TInteger int
  | TArray "toml_value list"
  | TInline "(string \<times> toml_value) list"
  | TOther string

datatype toml_item =
    Toml_Value toml_value
  | Toml_Table "(string \<times> toml_item) list"
  | Toml_Tables "(string \<times> toml_item) list list"

type_synonym toml_table = "(string \<times> toml_item) list"

text \<open>
  The parsers and printers of serde\_json and toml\_edit, and whether the atomic commit (parent
  directory, temporary file, rename) goes through.
\<close>

record config_env =
  ce_json_parse :: "string \<Rightarrow> json option"
  ce_json_print :: "json \<Rightarrow> string"
  ce_toml_parse :: "string \<Rightarrow> toml_table option"
  ce_toml_print :: "toml_table \<Rightarrow> string"
  ce_commits :: bool

definition commit :: "config_env \<Rightarrow> string \<Rightarrow> 'a \<Rightarrow> config_file \<Rightarrow> config_file \<times> (config_error + 'a)" where
  "commit env t a f = (if ce_commits env then (Text t, Inr a) else (f, Inl Config_Not_Committed))"

text \<open>
  Every command reads the document, edits it in memory and commits it when the edit reports a
  change.
\<close>

definition changes_document :: "hook_action \<Rightarrow> bool" where
  "changes_document a \<longleftrightarrow> a \<in> {Installed, Updated, Removed}"

definition edit_config ::
  "config_env \<Rightarrow> (config_file \<Rightarrow> config_error + 'd) \<Rightarrow> ('d \<Rightarrow> string) \<Rightarrow>
   ('d \<Rightarrow> config_error + 'd \<times> hook_action) \<Rightarrow> config_file \<Rightarrow>
   config_file \<times> (config_error + hook_action)" where
  "edit_config env read print edit f =
     (case and_then (read f) edit of
        Inl e \<Rightarrow> (f, Inl e)
      | Inr (d, a) \<Rightarrow> if changes_document a then commit env (print d) a f else (f, Inr a))"

definition read_json :: "config_env \<Rightarrow> config_file \<Rightarrow> config_error + json" where
  "read_json env f =
     (case f of
        No_File \<Rightarrow> Inr (JObj [])
      | Unreadable \<Rightarrow> Inl Config_Unreadable
      | Text raw \<Rightarrow>
          if trim raw = [] then Inr (JObj []) else ok_or (ce_json_parse env raw) Config_Unparsable)"

definition json_text :: "config_env \<Rightarrow> json \<Rightarrow> string" where
  "json_text env j = ce_json_print env j @ [CHR 0x0A]"

definition read_toml :: "config_env \<Rightarrow> config_file \<Rightarrow> config_error + toml_table" where
  "read_toml env f =
     (case f of
        No_File \<Rightarrow> Inr []
      | Unreadable \<Rightarrow> Inl Config_Unreadable
      | Text raw \<Rightarrow> ok_or (ce_toml_parse env raw) Config_Unparsable)"

text \<open>The printed document is read back as itself; this is asked of one document at a time.\<close>

definition json_reads_back :: "config_env \<Rightarrow> json \<Rightarrow> bool" where
  "json_reads_back env j \<longleftrightarrow>
     trim (json_text env j) \<noteq> [] \<and> ce_json_parse env (json_text env j) = Some j"

definition toml_reads_back :: "config_env \<Rightarrow> toml_table \<Rightarrow> bool" where
  "toml_reads_back env d \<longleftrightarrow> ce_toml_parse env (ce_toml_print env d) = Some d"

lemma read_json_back [simp]: "json_reads_back env j \<Longrightarrow> read_json env (Text (json_text env j)) = Inr j"
  by (simp add: read_json_def json_reads_back_def)

lemma read_toml_back [simp]: "toml_reads_back env d \<Longrightarrow> read_toml env (Text (ce_toml_print env d)) = Inr d"
  by (simp add: read_toml_def toml_reads_back_def)

text \<open>A failing command and a command that reports no change leave the file as it was.\<close>

lemma edit_config_error: "edit_config env read print edit f = (g, Inl e) \<Longrightarrow> g = f"
  by (auto simp: edit_config_def commit_def split: sum.splits prod.splits if_splits)

lemma edit_config_cases:
  assumes "edit_config env read print edit f = (g, Inr a)"
  obtains d d' where "read f = Inr d" "edit d = Inr (d', a)"
    "g = (if changes_document a then Text (print d') else f)"
  using assms
  by (auto simp: edit_config_def commit_def and_then_def split: sum.splits prod.splits if_splits)

section \<open>Removal from maps\<close>

definition bt_remove :: "'k \<Rightarrow> ('k \<times> 'v) list \<Rightarrow> ('k \<times> 'v) list" where
  "bt_remove k m = filter (\<lambda>e. fst e \<noteq> k) m"

lemma map_of_bt_remove [simp]: "map_of (bt_remove k m) = (map_of m)(k := None)"
  by (induction m) (auto simp: bt_remove_def fun_eq_iff)

lemma bt_remove_absent: "map_of m k = None \<Longrightarrow> bt_remove k m = m"
  by (auto simp: bt_remove_def map_of_eq_None_iff filter_id_conv)

lemma bt_remove_insert:
  "map_of m k = None \<Longrightarrow> bt_remove k (bt_insert k v m) = m"
proof (induction m)
  case (Cons e m)
  obtain k' v' where e: "e = (k', v')" by fastforce
  with Cons show ?case by (auto simp: bt_remove_def map_of_eq_None_iff filter_id_conv split: if_splits)
qed (simp add: bt_remove_def)

lemma bt_insert_same: "bt_inv m \<Longrightarrow> map_of m k = Some v \<Longrightarrow> bt_insert k v m = m"
proof (induction m)
  case (Cons e m)
  obtain k' v' where e: "e = (k', v')" by fastforce
  have inv: "bt_inv m" and less: "\<forall>x\<in>fst ` set m. k' < x" using Cons.prems(1) by (auto simp: e bt_inv_def)
  show ?case
  proof (cases "k = k'")
    case False
    then have m: "map_of m k = Some v" using Cons.prems(2) by (simp add: e)
    then have "k \<in> fst ` set m" by (metis map_of_eq_None_iff option.distinct(1))
    with less have "k' < k" by blast
    then show ?thesis using Cons.IH [OF inv m] by (auto simp: e)
  qed (use Cons.prems e in auto)
qed simp

lemma bt_insert_insert: "bt_inv m \<Longrightarrow> bt_insert k v (bt_insert k w m) = bt_insert k v m"
proof (induction m)
  case (Cons e m)
  obtain k' v' where e: "e = (k', v')" by fastforce
  then show ?case using Cons by (auto simp: bt_inv_def)
qed simp

text \<open>\<^verbatim>\<open>Table::insert\<close> of toml\_edit replaces in place or appends.\<close>

fun toml_insert :: "string \<Rightarrow> toml_item \<Rightarrow> toml_table \<Rightarrow> toml_table" where
  "toml_insert k v [] = [(k, v)]"
| "toml_insert k v ((k', v') # t) = (if k = k' then (k, v) # t else (k', v') # toml_insert k v t)"

lemma map_of_toml_insert [simp]: "map_of (toml_insert k v t) = (map_of t)(k \<mapsto> v)"
  by (induction t) auto

lemma toml_insert_insert [simp]: "toml_insert k v (toml_insert k w t) = toml_insert k v t"
  by (induction t) auto

definition as_table :: "toml_item option \<Rightarrow> toml_table option" where
  "as_table i = (case i of Some (Toml_Table t) \<Rightarrow> Some t | _ \<Rightarrow> None)"

definition as_tables :: "toml_item option \<Rightarrow> toml_table list option" where
  "as_tables i = (case i of Some (Toml_Tables ts) \<Rightarrow> Some ts | _ \<Rightarrow> None)"

definition as_toml_str :: "toml_item option \<Rightarrow> string option" where
  "as_toml_str i = (case i of Some (Toml_Value (TString s)) \<Rightarrow> Some s | _ \<Rightarrow> None)"

definition as_toml_int :: "toml_item option \<Rightarrow> int option" where
  "as_toml_int i = (case i of Some (Toml_Value (TInteger n)) \<Rightarrow> Some n | _ \<Rightarrow> None)"

lemma toml_views [simp]:
  "as_table None = None" "as_table (Some (Toml_Table t)) = Some t"
  "as_tables None = None" "as_tables (Some (Toml_Tables ts)) = Some ts"
  "as_toml_str (Some (Toml_Value (TString s))) = Some s"
  "as_toml_int (Some (Toml_Value (TInteger n))) = Some n"
  by (simp_all add: as_table_def as_tables_def as_toml_str_def as_toml_int_def)

lemma as_table_Some_iff: "as_table i = Some t \<longleftrightarrow> i = Some (Toml_Table t)"
  by (auto simp: as_table_def split: option.splits toml_item.splits)

lemma as_tables_Some_iff: "as_tables i = Some ts \<longleftrightarrow> i = Some (Toml_Tables ts)"
  by (auto simp: as_tables_def split: option.splits toml_item.splits)

definition as_json_array :: "json option \<Rightarrow> json list option" where
  "as_json_array v = (case v of Some (JArr xs) \<Rightarrow> Some xs | _ \<Rightarrow> None)"

definition as_json_str :: "json option \<Rightarrow> string option" where
  "as_json_str v = (case v of Some (JStr s) \<Rightarrow> Some s | _ \<Rightarrow> None)"

lemma json_views [simp]:
  "as_json_array None = None" "as_json_array (Some (JArr xs)) = Some xs"
  "as_json_str None = None" "as_json_str (Some (JStr s)) = Some s"
  "json_get k (JObj fs) = map_of fs k"
  by (simp_all add: as_json_array_def as_json_str_def json_get_def)

lemma as_json_array_Some_iff: "as_json_array v = Some xs \<longleftrightarrow> v = Some (JArr xs)"
  by (auto simp: as_json_array_def split: option.splits json.splits)

section \<open>What an installer promises\<close>

text \<open>
  The commands on one document. \<open>apt\<close> is the condition under which the installer recognises the
  entry that it writes.
\<close>

datatype entry_command = Install bool | Uninstall

fun run_commands ::
  "(bool \<Rightarrow> 'd \<Rightarrow> config_error + 'd \<times> hook_action) \<Rightarrow> ('d \<Rightarrow> config_error + 'd \<times> hook_action) \<Rightarrow>
   entry_command list \<Rightarrow> 'd \<Rightarrow> config_error + 'd \<times> hook_action list" where
  "run_commands inst uninst [] d = Inr (d, [])"
| "run_commands inst uninst (c # cs) d =
     and_then (case c of Install force \<Rightarrow> inst force d | Uninstall \<Rightarrow> uninst d) (\<lambda>(d', a).
     and_then (run_commands inst uninst cs d') (\<lambda>(d'', as). Inr (d'', a # as)))"

locale managed_entry =
  fixes apt :: bool
    and inst :: "bool \<Rightarrow> 'd \<Rightarrow> config_error + 'd \<times> hook_action"
    and uninst :: "'d \<Rightarrow> config_error + 'd \<times> hook_action"
    and stat :: "'d \<Rightarrow> hook_action"
  assumes inst_present: "apt \<Longrightarrow> inst force d = Inr (d', a) \<Longrightarrow> stat d' = Present"
    and inst_again: "apt \<Longrightarrow> inst force d = Inr (d', a) \<Longrightarrow> inst False d' = Inr (d', Unchanged)"
    and inst_new: "inst force d = Inr (d', a) \<Longrightarrow> a = Installed \<longleftrightarrow> stat d = Absent"
    and inst_reports: "inst force d = Inr (d', a) \<Longrightarrow> a \<in> {Installed, Updated, Unchanged}"
    and uninst_absent: "uninst d = Inr (d', a) \<Longrightarrow> stat d' = Absent"
    and uninst_reports:
      "uninst d = Inr (d', a) \<Longrightarrow> a = (if stat d = Absent then Absent else Removed)"
begin

text \<open>
  Over any sequence of commands the installations and removals that were reported account for
  the presence of the entry.
\<close>

lemma run_counts:
  "apt \<Longrightarrow> run_commands inst uninst cs d = Inr (d', as) \<Longrightarrow>
     length (filter ((=) Installed) as) + (if stat d = Absent then 0 else 1) =
     length (filter ((=) Removed) as) + (if stat d' = Absent then 0 else (1 :: nat))"
proof (induction cs arbitrary: d as)
  case (Cons c cs)
  obtain d1 a as' where first: "(case c of Install force \<Rightarrow> inst force d | Uninstall \<Rightarrow> uninst d) = Inr (d1, a)"
    and later: "run_commands inst uninst cs d1 = Inr (d', as')" and as: "as = a # as'"
    using Cons.prems(2) by (auto simp: and_then_Inr_iff)
  note IH = Cons.IH [OF Cons.prems(1) later]
  show ?case
  proof (cases c)
    case (Install force)
    then have i: "inst force d = Inr (d1, a)" using first by simp
    show ?thesis
      using IH inst_present [OF Cons.prems(1) i] inst_new [OF i] inst_reports [OF i] by (auto simp: as)
  next
    case Uninstall
    then have u: "uninst d = Inr (d1, a)" using first by simp
    show ?thesis using IH uninst_absent [OF u] uninst_reports [OF u] by (auto simp: as)
  qed
qed auto

lemma run_last:
  assumes "apt" "run_commands inst uninst (cs @ [c]) d = Inr (d', as)"
  shows "stat d' = (case c of Install _ \<Rightarrow> Present | Uninstall \<Rightarrow> Absent)"
  using assms(2)
proof (induction cs arbitrary: d as)
  case Nil
  then show ?case
    by (auto simp: and_then_Inr_iff split: entry_command.splits
        dest: inst_present [OF assms(1)] uninst_absent)
next
  case (Cons c' cs)
  then show ?case by (auto simp: and_then_Inr_iff)
qed

end

end
