(* ===== verification/Claude_Hook.thy ===== *)
theory Claude_Hook imports Config_Files begin

text \<open>
  The \<^verbatim>\<open>PreToolUse\<close> hook in Claude Code's \<^verbatim>\<open>settings.json\<close> (\<^verbatim>\<open>cli/src/claude_hook.rs\<close>): the
  edit of the settings document, the three commands on the file, and what they keep of the
  user's settings.
\<close>

section \<open>The entry\<close>

definition explain_hook_matcher :: string where
  "explain_hook_matcher = ''Read|Grep|Glob''"

definition explain_hook_command_marker :: string where
  "explain_hook_command_marker = ''brick hook-explain''"

text \<open>\<open>base\<close> is the given directory, else the current one, which may be unavailable.\<close>

definition settings_path ::
  "bool \<Rightarrow> string option \<Rightarrow> string option \<Rightarrow> string option \<Rightarrow> string option" where
  "settings_path global dir current_dir home =
     (let settings = (\<lambda>base. path_join (path_join base ''.claude'') ''settings.json'')
      in if global then map_option settings home
         else map_option settings (or_else dir current_dir))"

definition explain_hook_command :: "string \<Rightarrow> string" where
  "explain_hook_command brick_bin = brick_bin @ '' hook-explain''"

definition brick_explain_hook_entry :: "string \<Rightarrow> json" where
  "brick_explain_hook_entry brick_bin =
     JObj (bt_of_list [(''matcher'', JStr explain_hook_matcher),
       (''hooks'', JArr [JObj (bt_of_list [(''type'', JStr ''command''),
          (''command'', JStr (explain_hook_command brick_bin))])])])"

definition entry_has_marker :: "string \<Rightarrow> json \<Rightarrow> bool" where
  "entry_has_marker marker entry =
     (case as_json_array (json_get ''hooks'' entry) of
        None \<Rightarrow> False
      | Some hooks \<Rightarrow>
          list_ex (\<lambda>hook. case as_json_str (json_get ''command'' hook) of
             None \<Rightarrow> False | Some command \<Rightarrow> contains marker command) hooks)"

definition is_brick_entry :: "json \<Rightarrow> bool" where
  "is_brick_entry entry = entry_has_marker explain_hook_command_marker entry"

definition hook_apt :: "string \<Rightarrow> bool" where
  "hook_apt brick_bin \<longleftrightarrow> contains explain_hook_command_marker (explain_hook_command brick_bin)"

lemma brick_entry_recognised [simp]:
  "is_brick_entry (brick_explain_hook_entry brick_bin) \<longleftrightarrow> hook_apt brick_bin"
  by (simp add: is_brick_entry_def entry_has_marker_def brick_explain_hook_entry_def map_of_bt_of_list
      hook_apt_def)

section \<open>The edit of the settings\<close>

datatype entry_change = Entry_Installed | Entry_Updated | Entry_Unchanged

fun first_index :: "('a \<Rightarrow> bool) \<Rightarrow> 'a list \<Rightarrow> nat option" where
  "first_index p [] = None"
| "first_index p (x # xs) = (if p x then Some 0 else map_option Suc (first_index p xs))"

definition upsert_entry :: "json list \<Rightarrow> string \<Rightarrow> json \<Rightarrow> bool \<Rightarrow> json list \<times> entry_change" where
  "upsert_entry entries marker desired force =
     (case first_index (entry_has_marker marker) entries of
        Some index \<Rightarrow>
          if \<not> force \<and> entries ! index = desired then (entries, Entry_Unchanged)
          else (entries[index := desired], Entry_Updated)
      | None \<Rightarrow> (entries @ [desired], Entry_Installed))"

text \<open>
  The mutable reference to \<^verbatim>\<open>hooks.PreToolUse\<close>, with both containers created when missing, is
  the array together with the document in which it is replaced.
\<close>

definition ensure_pre_tool_use_array ::
  "json \<Rightarrow> config_error + json list \<times> (json list \<Rightarrow> json)" where
  "ensure_pre_tool_use_array root =
     (case root of
        JObj object \<Rightarrow>
          (case unwrap_or (bt_get object ''hooks'') (JObj []) of
             JObj hooks \<Rightarrow>
               (case unwrap_or (bt_get hooks ''PreToolUse'') (JArr []) of
                  JArr pre \<Rightarrow>
                    Inr (pre, \<lambda>pre'. JObj (bt_insert ''hooks'' (JObj (bt_insert ''PreToolUse'' (JArr pre') hooks)) object))
                | _ \<Rightarrow> Inl (Config_Not_Array ''hooks.PreToolUse''))
           | _ \<Rightarrow> Inl (Config_Not_Object ''hooks''))
      | _ \<Rightarrow> Inl (Config_Not_Object ''root''))"

definition claude_install_doc :: "string \<Rightarrow> bool \<Rightarrow> json \<Rightarrow> config_error + json \<times> hook_action" where
  "claude_install_doc brick_bin force root =
     and_then (ensure_pre_tool_use_array root) (\<lambda>(pre_tool_use, put).
       let (entries, change) =
             upsert_entry pre_tool_use explain_hook_command_marker (brick_explain_hook_entry brick_bin) force
       in Inr (case change of
                 Entry_Unchanged \<Rightarrow> (root, Unchanged)
               | Entry_Installed \<Rightarrow> (put entries, Installed)
               | Entry_Updated \<Rightarrow> (put entries, Updated)))"

definition pre_tool_use_array :: "json \<Rightarrow> json list option" where
  "pre_tool_use_array root =
     as_json_array (case json_get ''hooks'' root of None \<Rightarrow> None | Some hooks \<Rightarrow> json_get ''PreToolUse'' hooks)"

text \<open>The same reference, written through.\<close>

definition set_pre_tool_use_array :: "json list \<Rightarrow> json \<Rightarrow> json" where
  "set_pre_tool_use_array pre root =
     (case root of
        JObj object \<Rightarrow>
          JObj (bt_adjust ''hooks''
            (\<lambda>h. case h of JObj hooks \<Rightarrow> JObj (bt_adjust ''PreToolUse'' (\<lambda>_. JArr pre) hooks) | _ \<Rightarrow> h) object)
      | _ \<Rightarrow> root)"

definition prune_empty_hook_containers :: "json \<Rightarrow> json" where
  "prune_empty_hook_containers root =
     (case root of
        JObj object \<Rightarrow>
          (case bt_get object ''hooks'' of
             Some (JObj hooks) \<Rightarrow>
               (let hooks' = (if as_json_array (bt_get hooks ''PreToolUse'') = Some []
                              then bt_remove ''PreToolUse'' hooks else hooks)
                in if hooks' = [] then JObj (bt_remove ''hooks'' object)
                   else JObj (bt_insert ''hooks'' (JObj hooks') object))
           | _ \<Rightarrow> root)
      | _ \<Rightarrow> root)"

definition claude_uninstall_doc :: "json \<Rightarrow> config_error + json \<times> hook_action" where
  "claude_uninstall_doc root =
     Inr (case pre_tool_use_array root of
            None \<Rightarrow> (root, Absent)
          | Some pre_tool_use \<Rightarrow>
              (let kept = filter (\<lambda>entry. \<not> is_brick_entry entry) pre_tool_use
               in if length kept = length pre_tool_use then (root, Absent)
                  else (prune_empty_hook_containers (set_pre_tool_use_array kept root), Removed)))"

definition claude_status_doc :: "json \<Rightarrow> hook_action" where
  "claude_status_doc root =
     (case pre_tool_use_array root of
        None \<Rightarrow> Absent
      | Some entries \<Rightarrow> if list_ex is_brick_entry entries then Present else Absent)"

section \<open>The commands on the file\<close>

definition read_settings :: "config_env \<Rightarrow> config_file \<Rightarrow> config_error + json" where
  "read_settings env f =
     and_then (read_json env f) (\<lambda>value.
       case value of JObj _ \<Rightarrow> Inr value | _ \<Rightarrow> Inl (Config_Not_Object ''root''))"

definition claude_install ::
  "config_env \<Rightarrow> string \<Rightarrow> bool \<Rightarrow> config_file \<Rightarrow> config_file \<times> (config_error + hook_action)" where
  "claude_install env brick_bin force f =
     edit_config env (read_settings env) (json_text env) (claude_install_doc brick_bin force) f"

definition claude_uninstall ::
  "config_env \<Rightarrow> config_file \<Rightarrow> config_file \<times> (config_error + hook_action)" where
  "claude_uninstall env f =
     (if f = No_File then (f, Inr Absent)
      else edit_config env (read_settings env) (json_text env) claude_uninstall_doc f)"

definition claude_status :: "config_env \<Rightarrow> config_file \<Rightarrow> config_error + hook_action" where
  "claude_status env f =
     (if f = No_File then Inr Absent
      else and_then (read_settings env f) (\<lambda>root. Inr (claude_status_doc root)))"

section \<open>Facts about the edit\<close>

lemma first_index_Some:
  "first_index p xs = Some i \<Longrightarrow> i < length xs \<and> p (xs ! i) \<and> (\<forall>j<i. \<not> p (xs ! j))"
proof (induction xs arbitrary: i)
  case (Cons x xs)
  show ?case
  proof (cases "p x")
    case False
    then obtain k where k: "first_index p xs = Some k" "i = Suc k" using Cons.prems by auto
    with Cons.IH [OF k(1)] False show ?thesis by (auto simp: less_Suc_eq_0_disj nth_Cons')
  qed (use Cons.prems in auto)
qed simp

lemma first_index_None: "first_index p xs = None \<longleftrightarrow> (\<forall>x\<in>set xs. \<not> p x)"
  by (induction xs) auto

lemma first_index_append:
  "first_index p xs = None \<Longrightarrow> p y \<Longrightarrow> first_index p (xs @ [y]) = Some (length xs)"
  by (induction xs) (auto split: if_splits)

lemma first_index_update:
  "first_index p xs = Some i \<Longrightarrow> p y \<Longrightarrow> first_index p (xs[i := y]) = Some i"
  by (induction xs arbitrary: i) (auto split: if_splits)

lemma filter_list_update_both:
  "i < length xs \<Longrightarrow> \<not> p (xs ! i) \<Longrightarrow> \<not> p y \<Longrightarrow> filter p (xs[i := y]) = filter p xs"
proof (induction xs arbitrary: i)
  case (Cons x xs)
  then show ?case by (cases i) auto
qed simp

lemma upsert_entry_again:
  assumes "upsert_entry entries marker desired force = (entries', change)"
    and "entry_has_marker marker desired"
  shows "upsert_entry entries' marker desired False = (entries', Entry_Unchanged)"
proof (cases "first_index (entry_has_marker marker) entries")
  case (Some i)
  then have "i < length entries" by (simp add: first_index_Some)
  with Some assms show ?thesis by (auto simp: upsert_entry_def first_index_update split: if_splits)
next
  case None
  with assms show ?thesis by (auto simp: upsert_entry_def first_index_append)
qed

lemma upsert_entry_present:
  assumes "upsert_entry entries marker desired force = (entries', change)"
    and "entry_has_marker marker desired"
  shows "list_ex (entry_has_marker marker) entries'"
  using assms
  by (auto simp: upsert_entry_def list_ex_iff set_update_memI split: option.splits if_splits
      dest!: first_index_Some intro: bexI [OF _ nth_mem] bexI [OF _ set_update_memI])

lemma upsert_entry_others:
  assumes "upsert_entry entries marker desired force = (entries', change)"
    and "entry_has_marker marker desired"
  shows "filter (\<lambda>x. \<not> entry_has_marker marker x) entries' = filter (\<lambda>x. \<not> entry_has_marker marker x) entries"
  using assms
  by (auto simp: upsert_entry_def filter_list_update_both split: option.splits if_splits
      dest!: first_index_Some)

lemma ensure_pre_tool_use_array_cases:
  assumes "ensure_pre_tool_use_array root = Inr (pre, put)"
  obtains object hooks where
    "root = JObj object" "unwrap_or (bt_get object ''hooks'') (JObj []) = JObj hooks"
    "unwrap_or (bt_get hooks ''PreToolUse'') (JArr []) = JArr pre"
    "put = (\<lambda>pre'. JObj (bt_insert ''hooks'' (JObj (bt_insert ''PreToolUse'' (JArr pre') hooks)) object))"
  using assms by (auto simp: ensure_pre_tool_use_array_def split: json.splits)

text \<open>What is read through the reference is what was put there.\<close>

lemma ensure_put:
  assumes "ensure_pre_tool_use_array root = Inr (pre, put)"
  shows "pre_tool_use_array (put pre') = Some pre'"
    and "\<exists>put'. ensure_pre_tool_use_array (put pre') = Inr (pre', put')"
    and "unwrap_or (pre_tool_use_array root) [] = pre"
proof -
  obtain object hooks where root: "root = JObj object"
    and hooks: "unwrap_or (bt_get object ''hooks'') (JObj []) = JObj hooks"
    and pre: "unwrap_or (bt_get hooks ''PreToolUse'') (JArr []) = JArr pre"
    and put: "put = (\<lambda>pre'. JObj (bt_insert ''hooks'' (JObj (bt_insert ''PreToolUse'' (JArr pre') hooks)) object))"
    using assms by (rule ensure_pre_tool_use_array_cases)
  show "pre_tool_use_array (put pre') = Some pre'" by (simp add: pre_tool_use_array_def put)
  show "\<exists>put'. ensure_pre_tool_use_array (put pre') = Inr (pre', put')"
    by (simp add: ensure_pre_tool_use_array_def put)
  show "unwrap_or (pre_tool_use_array root) [] = pre"
    using hooks pre by (auto simp: root pre_tool_use_array_def unwrap_or_def split: option.splits)
qed

lemma claude_install_doc_cases:
  assumes "claude_install_doc brick_bin force root = Inr (root', a)"
  obtains pre put entries change where
    "ensure_pre_tool_use_array root = Inr (pre, put)"
    "upsert_entry pre explain_hook_command_marker (brick_explain_hook_entry brick_bin) force = (entries, change)"
    "(change = Entry_Unchanged \<and> root' = root \<and> a = Unchanged \<and> entries = pre) \<or>
     (change = Entry_Installed \<and> root' = put entries \<and> a = Installed) \<or>
     (change = Entry_Updated \<and> root' = put entries \<and> a = Updated)"
proof -
  obtain pre put where e: "ensure_pre_tool_use_array root = Inr (pre, put)"
    using assms by (auto simp: claude_install_doc_def and_then_Inr_iff)
  obtain entries change where
    u: "upsert_entry pre explain_hook_command_marker (brick_explain_hook_entry brick_bin) force = (entries, change)"
    by fastforce
  have "change = Entry_Unchanged \<Longrightarrow> entries = pre"
    using u by (auto simp: upsert_entry_def split: option.splits if_splits)
  then show thesis
    using that [OF e u] assms by (auto simp: claude_install_doc_def e u split: entry_change.splits)
qed

text \<open>Removal: what is read back after the array was replaced and empty containers pruned.\<close>

lemma pre_tool_use_array_Some:
  "pre_tool_use_array root = Some pre \<longleftrightarrow>
     (\<exists>object hooks. root = JObj object \<and> bt_get object ''hooks'' = Some (JObj hooks) \<and>
        bt_get hooks ''PreToolUse'' = Some (JArr pre))"
  by (auto simp: pre_tool_use_array_def as_json_array_Some_iff json_get_def split: option.splits json.splits)

lemma set_pre_tool_use_array_eq:
  assumes "bt_get object ''hooks'' = Some (JObj hooks)" "bt_get hooks ''PreToolUse'' = Some (JArr pre)"
  shows "set_pre_tool_use_array pre' (JObj object) =
     JObj (bt_insert ''hooks'' (JObj (bt_insert ''PreToolUse'' (JArr pre') hooks)) object)"
  using assms by (simp add: set_pre_tool_use_array_def bt_adjust_def)

lemma prune_array:
  assumes "pre_tool_use_array root = Some pre"
  shows "pre_tool_use_array (prune_empty_hook_containers root) = (if pre = [] then None else Some pre)"
proof -
  obtain object hooks where root: "root = JObj object" and hooks: "bt_get object ''hooks'' = Some (JObj hooks)"
    and pre: "bt_get hooks ''PreToolUse'' = Some (JArr pre)"
    using assms by (auto simp: pre_tool_use_array_Some)
  have "hooks \<noteq> []" using pre by auto
  then show ?thesis
    by (auto simp: root hooks pre prune_empty_hook_containers_def pre_tool_use_array_def Let_def)
qed

lemma filter_length_eq_iff: "length (filter p xs) = length xs \<longleftrightarrow> (\<forall>x\<in>set xs. p x)"
  by (metis filter_True length_filter_less order_less_irrefl)

lemma claude_uninstall_doc_cases:
  assumes "claude_uninstall_doc root = Inr (root', a)"
  shows "(a = Absent \<and> root' = root \<and> claude_status_doc root = Absent) \<or>
     (a = Removed \<and> claude_status_doc root = Present \<and>
        (\<exists>pre. pre_tool_use_array root = Some pre \<and>
          root' = prune_empty_hook_containers
            (set_pre_tool_use_array (filter (\<lambda>e. \<not> is_brick_entry e) pre) root)))"
  using assms
  by (auto simp: claude_uninstall_doc_def claude_status_doc_def Let_def filter_length_eq_iff list_ex_iff
      split: option.splits if_splits)

lemma claude_uninstall_doc_absent:
  assumes "claude_uninstall_doc root = Inr (root', a)"
  shows "claude_status_doc root' = Absent"
proof -
  have "claude_status_doc (prune_empty_hook_containers
      (set_pre_tool_use_array (filter (\<lambda>e. \<not> is_brick_entry e) pre) root)) = Absent"
    if pre: "pre_tool_use_array root = Some pre" for pre
  proof -
    obtain object hooks where root: "root = JObj object" "bt_get object ''hooks'' = Some (JObj hooks)"
      "bt_get hooks ''PreToolUse'' = Some (JArr pre)"
      using pre by (auto simp: pre_tool_use_array_Some)
    have "pre_tool_use_array (set_pre_tool_use_array (filter (\<lambda>e. \<not> is_brick_entry e) pre) root) =
        Some (filter (\<lambda>e. \<not> is_brick_entry e) pre)"
      by (simp add: root set_pre_tool_use_array_eq pre_tool_use_array_def)
    from prune_array [OF this] show ?thesis by (auto simp: claude_status_doc_def list_ex_iff)
  qed
  with claude_uninstall_doc_cases [OF assms] show ?thesis by auto
qed

lemma claude_install_doc_present:
  assumes "hook_apt brick_bin" "claude_install_doc brick_bin force root = Inr (root', a)"
  shows "claude_status_doc root' = Present \<and> claude_install_doc brick_bin False root' = Inr (root', Unchanged)"
proof -
  let ?M = explain_hook_command_marker and ?E = "brick_explain_hook_entry brick_bin"
  from assms(2) obtain pre put entries change where
    e: "ensure_pre_tool_use_array root = Inr (pre, put)"
    and u: "upsert_entry pre ?M ?E force = (entries, change)"
    and r: "(change = Entry_Unchanged \<and> root' = root \<and> a = Unchanged \<and> entries = pre) \<or>
       (change = Entry_Installed \<and> root' = put entries \<and> a = Installed) \<or>
       (change = Entry_Updated \<and> root' = put entries \<and> a = Updated)"
    by (rule claude_install_doc_cases)
  have marked: "entry_has_marker ?M ?E"
    using assms(1) brick_entry_recognised [of brick_bin] by (simp add: is_brick_entry_def)
  have ex: "list_ex is_brick_entry entries"
    using upsert_entry_present [OF u marked] by (simp add: is_brick_entry_def [abs_def])
  have root': "\<exists>put'. ensure_pre_tool_use_array root' = Inr (entries, put')"
    using r e ensure_put(2) [OF e] by auto
  then obtain put' where e': "ensure_pre_tool_use_array root' = Inr (entries, put')" by blast
  have "entries \<noteq> []" using ex by auto
  then have "pre_tool_use_array root' = Some entries"
    using ensure_put(3) [OF e'] by (cases "pre_tool_use_array root'") auto
  then show ?thesis
    using ex upsert_entry_again [OF u marked] by (simp add: claude_status_doc_def claude_install_doc_def e')
qed

lemma claude_install_doc_new:
  assumes "claude_install_doc brick_bin force root = Inr (root', a)"
  shows "(a = Installed \<longleftrightarrow> claude_status_doc root = Absent) \<and> a \<in> {Installed, Updated, Unchanged}"
proof -
  from assms obtain pre put entries change where
    e: "ensure_pre_tool_use_array root = Inr (pre, put)"
    and u: "upsert_entry pre explain_hook_command_marker (brick_explain_hook_entry brick_bin) force = (entries, change)"
    and r: "(change = Entry_Unchanged \<and> root' = root \<and> a = Unchanged \<and> entries = pre) \<or>
       (change = Entry_Installed \<and> root' = put entries \<and> a = Installed) \<or>
       (change = Entry_Updated \<and> root' = put entries \<and> a = Updated)"
    by (rule claude_install_doc_cases)
  have "change = Entry_Installed \<longleftrightarrow> (\<forall>x\<in>set pre. \<not> is_brick_entry x)"
    using u first_index_None [of "entry_has_marker explain_hook_command_marker" pre]
    by (auto simp: upsert_entry_def is_brick_entry_def split: option.splits if_splits)
  moreover have "claude_status_doc root = Absent \<longleftrightarrow> (\<forall>x\<in>set pre. \<not> is_brick_entry x)"
    using ensure_put(3) [OF e] by (auto simp: claude_status_doc_def list_ex_iff split: option.splits)
  ultimately show ?thesis using r by auto
qed

interpretation claude: managed_entry "hook_apt brick_bin" "claude_install_doc brick_bin"
    claude_uninstall_doc claude_status_doc
  for brick_bin
proof
  show "a = (if claude_status_doc d = Absent then Absent else Removed)"
    if "claude_uninstall_doc d = Inr (d', a)" for d d' a
    using claude_uninstall_doc_cases [OF that] by auto
qed (use claude_install_doc_present claude_install_doc_new claude_uninstall_doc_absent in blast)+

section \<open>What the commands keep\<close>

text \<open>The settings without what the installer may write: other keys, other hooks, others' entries.\<close>

definition users_entries :: "json \<Rightarrow> json list" where
  "users_entries root = filter (\<lambda>e. \<not> is_brick_entry e) (unwrap_or (pre_tool_use_array root) [])"

definition same_elsewhere :: "json \<Rightarrow> json \<Rightarrow> bool" where
  "same_elsewhere root root' \<longleftrightarrow>
     (\<forall>k. k \<noteq> ''hooks'' \<longrightarrow> json_get k root' = json_get k root) \<and>
     (\<forall>event. event \<noteq> ''PreToolUse'' \<longrightarrow> json_pointer [''hooks'', event] root' = json_pointer [''hooks'', event] root)"

lemma claude_install_doc_keeps:
  assumes "claude_install_doc brick_bin force root = Inr (root', a)"
  shows "same_elsewhere root root'"
    and "hook_apt brick_bin \<Longrightarrow> users_entries root' = users_entries root"
proof -
  from assms obtain pre put entries change where
    e: "ensure_pre_tool_use_array root = Inr (pre, put)"
    and u: "upsert_entry pre explain_hook_command_marker (brick_explain_hook_entry brick_bin) force = (entries, change)"
    and r: "(change = Entry_Unchanged \<and> root' = root \<and> a = Unchanged \<and> entries = pre) \<or>
       (change = Entry_Installed \<and> root' = put entries \<and> a = Installed) \<or>
       (change = Entry_Updated \<and> root' = put entries \<and> a = Updated)"
    by (rule claude_install_doc_cases)
  from e obtain object hooks where root: "root = JObj object"
    and hooks: "unwrap_or (bt_get object ''hooks'') (JObj []) = JObj hooks"
    and put: "put = (\<lambda>pre'. JObj (bt_insert ''hooks'' (JObj (bt_insert ''PreToolUse'' (JArr pre') hooks)) object))"
    by (rule ensure_pre_tool_use_array_cases)
  have "same_elsewhere root (put entries)"
    using hooks by (auto simp: same_elsewhere_def root put unwrap_or_def split: option.splits)
  then show "same_elsewhere root root'" using r by (auto simp: same_elsewhere_def)
  assume "hook_apt brick_bin"
  then have "entry_has_marker explain_hook_command_marker (brick_explain_hook_entry brick_bin)"
    using brick_entry_recognised [of brick_bin] by (simp add: is_brick_entry_def)
  from upsert_entry_others [OF u this] show "users_entries root' = users_entries root"
    using r ensure_put(1) [OF e] ensure_put(3) [OF e]
    by (auto simp: users_entries_def is_brick_entry_def [abs_def])
qed

text \<open>Settings whose containers for hooks, when present, are not empty.\<close>

definition tidy_settings :: "json \<Rightarrow> bool" where
  "tidy_settings root =
     (case root of
        JObj object \<Rightarrow>
          bt_inv object \<and>
          (case bt_get object ''hooks'' of
             None \<Rightarrow> True
           | Some (JObj hooks) \<Rightarrow> bt_inv hooks \<and> hooks \<noteq> [] \<and> bt_get hooks ''PreToolUse'' \<noteq> Some (JArr [])
           | _ \<Rightarrow> False)
      | _ \<Rightarrow> False)"

lemma claude_doc_round_trip:
  assumes apt: "hook_apt brick_bin" and tidy: "tidy_settings root" and absent: "claude_status_doc root = Absent"
    and inst: "claude_install_doc brick_bin force root = Inr (root', a)"
  shows "claude_uninstall_doc root' = Inr (root, Removed)"
proof -
  let ?E = "brick_explain_hook_entry brick_bin"
  from inst obtain pre put entries change where
    e: "ensure_pre_tool_use_array root = Inr (pre, put)"
    and u: "upsert_entry pre explain_hook_command_marker ?E force = (entries, change)"
    and r: "(change = Entry_Unchanged \<and> root' = root \<and> a = Unchanged \<and> entries = pre) \<or>
       (change = Entry_Installed \<and> root' = put entries \<and> a = Installed) \<or>
       (change = Entry_Updated \<and> root' = put entries \<and> a = Updated)"
    by (rule claude_install_doc_cases)
  have none: "\<forall>x\<in>set pre. \<not> is_brick_entry x"
    using absent ensure_put(3) [OF e] by (auto simp: claude_status_doc_def list_ex_iff split: option.splits if_splits)
  then have "first_index (entry_has_marker explain_hook_command_marker) pre = None"
    by (simp add: first_index_None is_brick_entry_def)
  then have entries: "entries = pre @ [?E]" and change: "change = Entry_Installed"
    using u by (auto simp: upsert_entry_def)
  have root': "root' = put entries" using r change by simp
  have kept: "filter (\<lambda>e. \<not> is_brick_entry e) entries = pre" using none apt by (simp add: entries)
  from e obtain object hooks where root: "root = JObj object"
    and hooks: "unwrap_or (bt_get object ''hooks'') (JObj []) = JObj hooks"
    and pre: "unwrap_or (bt_get hooks ''PreToolUse'') (JArr []) = JArr pre"
    and put: "put = (\<lambda>pre'. JObj (bt_insert ''hooks'' (JObj (bt_insert ''PreToolUse'' (JArr pre') hooks)) object))"
    by (rule ensure_pre_tool_use_array_cases)
  have object: "bt_inv object" using tidy by (simp add: root tidy_settings_def)
  have hooks_inv: "bt_inv hooks" and tidy_hooks: "bt_get object ''hooks'' = Some (JObj hooks) \<Longrightarrow>
      hooks \<noteq> [] \<and> bt_get hooks ''PreToolUse'' \<noteq> Some (JArr [])"
    using tidy hooks by (auto simp: root tidy_settings_def unwrap_or_def split: option.splits)
  have "claude_uninstall_doc root' = Inr (prune_empty_hook_containers (put pre), Removed)"
    using kept ensure_put(1) [OF e]
    by (simp add: claude_uninstall_doc_def root' entries put set_pre_tool_use_array_eq
        bt_insert_insert object hooks_inv)
  moreover have "prune_empty_hook_containers (put pre) = root"
  proof (cases "bt_get object ''hooks''")
    case None
    then have "hooks = []" "pre = []" using hooks pre by auto
    moreover have "bt_remove k [(k, v :: json)] = []" for k :: string and v by (simp add: bt_remove_def)
    ultimately show ?thesis using None
      by (simp add: put prune_empty_hook_containers_def bt_remove_insert root Let_def)
  next
    case (Some v)
    then have v: "bt_get object ''hooks'' = Some (JObj hooks)" using hooks by simp
    show ?thesis
    proof (cases "bt_get hooks ''PreToolUse''")
      case None
      then have "pre = []" using pre by simp
      then show ?thesis using tidy_hooks [OF v] None
        by (simp add: put prune_empty_hook_containers_def bt_remove_insert bt_insert_insert
            bt_insert_same object root v)
    next
      case (Some w)
      then have w: "bt_get hooks ''PreToolUse'' = Some (JArr pre)" and "pre \<noteq> []"
        using pre tidy_hooks [OF v] by auto
      then show ?thesis using tidy_hooks [OF v]
        by (simp add: put prune_empty_hook_containers_def bt_insert_same hooks_inv object root v)
    qed
  qed
  ultimately show ?thesis by simp
qed

text \<open>An installer that does not recognise its entry appends another one each time.\<close>

lemma claude_install_doc_unmarked:
  assumes unapt: "\<not> hook_apt brick_bin" and absent: "claude_status_doc root = Absent"
    and inst: "claude_install_doc brick_bin force root = Inr (root', a)"
  shows "a = Installed \<and> claude_status_doc root' = Absent \<and>
    users_entries root' = users_entries root @ [brick_explain_hook_entry brick_bin]"
proof -
  let ?E = "brick_explain_hook_entry brick_bin"
  from inst obtain pre put entries change where
    e: "ensure_pre_tool_use_array root = Inr (pre, put)"
    and u: "upsert_entry pre explain_hook_command_marker ?E force = (entries, change)"
    and r: "(change = Entry_Unchanged \<and> root' = root \<and> a = Unchanged \<and> entries = pre) \<or>
       (change = Entry_Installed \<and> root' = put entries \<and> a = Installed) \<or>
       (change = Entry_Updated \<and> root' = put entries \<and> a = Updated)"
    by (rule claude_install_doc_cases)
  have none: "\<forall>x\<in>set pre. \<not> is_brick_entry x"
    using absent ensure_put(3) [OF e] by (auto simp: claude_status_doc_def list_ex_iff split: option.splits if_splits)
  then have "first_index (entry_has_marker explain_hook_command_marker) pre = None"
    by (simp add: first_index_None is_brick_entry_def)
  then have "entries = pre @ [?E]" "change = Entry_Installed" using u by (auto simp: upsert_entry_def)
  then show ?thesis
    using r none unapt ensure_put(1) [OF e] ensure_put(3) [OF e]
    by (auto simp: claude_status_doc_def users_entries_def list_ex_iff)
qed

section \<open>Properties\<close>

definition table_env :: "(json \<times> string) list \<Rightarrow> config_env" where
  "table_env texts =
     \<lparr>ce_json_parse = map_of (map (\<lambda>(j, t). (t @ [CHR 0x0A], j)) texts),
      ce_json_print = (\<lambda>j. unwrap_or (map_of texts j) ''?''),
      ce_toml_parse = (\<lambda>_. None), ce_toml_print = (\<lambda>_. []), ce_commits = True\<rparr>"

definition sample_settings :: json where
  "sample_settings =
     JObj [(''hooks'', JObj [(''PreToolUse'', JArr [JObj [(''matcher'', JStr ''Bash'')]]), (''Stop'', JArr [])]),
           (''model'', JStr ''opus'')]"

definition sample_hooked :: json where
  "sample_hooked =
     JObj [(''hooks'', JObj [(''PreToolUse'',
              JArr [JObj [(''matcher'', JStr ''Bash'')], brick_explain_hook_entry ''/usr/bin/brick'']),
            (''Stop'', JArr [])]),
           (''model'', JStr ''opus'')]"

definition old_text :: string where "old_text = ''old'' @ [CHR 0x0A]"
definition new_text :: string where "new_text = ''new'' @ [CHR 0x0A]"

definition sample_config_env :: config_env where
  "sample_config_env = table_env [(sample_settings, ''old''), (sample_hooked, ''new'')]"

lemma sample_texts:
  "json_text sample_config_env sample_settings = old_text"
  "json_text sample_config_env sample_hooked = new_text"
  "ce_json_parse sample_config_env old_text = Some sample_settings"
  "ce_json_parse sample_config_env new_text = Some sample_hooked"
  by (simp_all add: json_text_def sample_config_env_def table_env_def old_text_def new_text_def sample_settings_def
      sample_hooked_def brick_explain_hook_entry_def bt_of_list_def)

lemma sample_reads_back:
  "json_reads_back sample_config_env sample_settings" "json_reads_back sample_config_env sample_hooked"
  by (simp_all only: json_reads_back_def sample_texts) code_simp+

lemma sample_apt: "hook_apt ''/usr/bin/brick''" "\<not> hook_apt ''/usr/lib/brick-native''"
  by code_simp+

lemma sample_install_doc:
  "claude_install_doc ''/usr/bin/brick'' False sample_settings = Inr (sample_hooked, Installed)"
  by code_simp

lemma sample_tidy: "tidy_settings sample_settings" "claude_status_doc sample_settings = Absent"
  by code_simp+





text \<open>
  Over any sequence of installations and removals that succeed, the presence of the hook is
  decided by the last command, a further installation reports that nothing changes, and
  installations and removals reported balance.
\<close>

theorem claude_command_history:
  assumes "run_commands (claude_install_doc brick_bin) claude_uninstall_doc (cs @ [c]) root = Inr (root', as)"
    and "hook_apt brick_bin"
  shows "claude_status_doc root' = (case c of Install _ \<Rightarrow> Present | Uninstall \<Rightarrow> Absent) \<and>
    length (filter ((=) Installed) as) + (if claude_status_doc root = Absent then 0 else 1) =
    length (filter ((=) Removed) as) + (if claude_status_doc root' = Absent then 0 else 1)"
  using claude.run_last [OF assms(2,1)] claude.run_counts [OF assms(2,1)] by simp

lemma claude_command_history_witness:
  "\<exists>root' as. run_commands (claude_install_doc ''/usr/bin/brick'') claude_uninstall_doc
       ([Install False, Uninstall] @ [Install True]) sample_settings = Inr (root', as) \<and>
     claude_status_doc root' = Present"
proof -
  have "claude_uninstall_doc sample_hooked = Inr (sample_settings, Removed)"
    using claude_doc_round_trip [OF sample_apt(1) sample_tidy sample_install_doc] .
  moreover have "claude_install_doc ''/usr/bin/brick'' True sample_settings = Inr (sample_hooked, Installed)"
    by code_simp
  ultimately have "run_commands (claude_install_doc ''/usr/bin/brick'') claude_uninstall_doc
       ([Install False, Uninstall] @ [Install True]) sample_settings = Inr (sample_hooked, [Installed, Removed, Installed])"
    by (simp add: sample_install_doc)
  with claude_command_history [OF this sample_apt(1)] show ?thesis by auto
qed

text \<open>
  When the binary's path does not end in \<^verbatim>\<open>brick\<close>, as with the \<^verbatim>\<open>brick-native\<close> that the npm
  package installs, the entry is not recognised: every installation, forced or not, appends one
  more copy and reports it as installed, and removal reports that there is none.
\<close>

theorem unmarked_binary_accumulates:
  assumes "\<not> hook_apt brick_bin" and "claude_status_doc root = Absent"
    and "run_commands (claude_install_doc brick_bin) claude_uninstall_doc (replicate n (Install force)) root =
      Inr (root', as)"
  shows "as = replicate n Installed \<and>
    users_entries root' = users_entries root @ replicate n (brick_explain_hook_entry brick_bin) \<and>
    claude_uninstall_doc root' = Inr (root', Absent)"
  using assms(2,3)
proof (induction n arbitrary: root as)
  case 0
  then show ?case
    using claude.uninst_reports [of root] by (auto simp: claude_uninstall_doc_def claude_status_doc_def
        Let_def filter_length_eq_iff list_ex_iff split: option.splits if_splits)
next
  case (Suc n)
  obtain root1 a as' where i: "claude_install_doc brick_bin force root = Inr (root1, a)"
    and later: "run_commands (claude_install_doc brick_bin) claude_uninstall_doc (replicate n (Install force)) root1 =
      Inr (root', as')" and as: "as = a # as'"
    using Suc.prems(2) by (auto simp: and_then_Inr_iff)
  from claude_install_doc_unmarked [OF assms(1) Suc.prems(1) i]
  have step: "a = Installed" "claude_status_doc root1 = Absent"
    "users_entries root1 = users_entries root @ [brick_explain_hook_entry brick_bin]" by auto
  show ?case using Suc.IH [OF step(2) later] step by (simp add: as)
qed

lemma unmarked_binary_accumulates_witness:
  "\<exists>root' as. run_commands (claude_install_doc ''/usr/lib/brick-native'') claude_uninstall_doc
       (replicate 2 (Install False)) sample_settings = Inr (root', as) \<and>
     length (users_entries root') = 3"
proof -
  define out where "out = run_commands (claude_install_doc ''/usr/lib/brick-native'') claude_uninstall_doc
       (replicate 2 (Install False)) sample_settings"
  have "case out of Inl e \<Rightarrow> False | Inr _ \<Rightarrow> True" unfolding out_def by code_simp
  then obtain root' as where out: "out = Inr (root', as)" by (auto split: sum.splits)
  have "length (users_entries sample_settings) = 1" by code_simp
  then show ?thesis
    using unmarked_binary_accumulates [OF sample_apt(2) sample_tidy(2) out [unfolded out_def]] out
    unfolding out_def by auto
qed

end
