(* ===== verification/Mcp_Config.thy ===== *)
theory Mcp_Config imports Config_Files begin

text \<open>
  The entry of Brick's MCP server in the configuration files of other programs
  (\<^verbatim>\<open>cli/src/mcp_config.rs\<close>): two JSON shapes and Codex's TOML.
\<close>

definition server_name :: string where
  "server_name = ''brick''"

datatype mcp_format = Json_Mcp_Servers | Json_Servers | Codex_Toml

definition json_root_key :: "mcp_format \<Rightarrow> string" where
  "json_root_key fmt = (case fmt of Json_Servers \<Rightarrow> ''servers'' | _ \<Rightarrow> ''mcpServers'')"

section \<open>JSON\<close>

definition brick_json_entry :: "string \<Rightarrow> json" where
  "brick_json_entry brick_bin =
     JObj (bt_of_list [(''type'', JStr ''stdio''), (''command'', JStr brick_bin),
       (''args'', JArr [JStr ''mcp-serve''])])"

definition ensure_servers ::
  "json \<Rightarrow> mcp_format \<Rightarrow> config_error + (string \<times> json) list \<times> ((string \<times> json) list \<Rightarrow> json)" where
  "ensure_servers root fmt =
     (case root of
        JObj object \<Rightarrow>
          (case unwrap_or (bt_get object (json_root_key fmt)) (JObj []) of
             JObj servers \<Rightarrow> Inr (servers, \<lambda>s. JObj (bt_insert (json_root_key fmt) (JObj s) object))
           | _ \<Rightarrow> Inl (Config_Not_Object (json_root_key fmt)))
      | _ \<Rightarrow> Inl (Config_Not_Object ''root''))"

definition json_install_doc ::
  "mcp_format \<Rightarrow> string \<Rightarrow> bool \<Rightarrow> json \<Rightarrow> config_error + json \<times> hook_action" where
  "json_install_doc fmt brick_bin force root =
     and_then (ensure_servers root fmt) (\<lambda>(servers, put).
       let desired = brick_json_entry brick_bin;
           insert_it = put (bt_insert server_name desired servers)
       in Inr (case bt_get servers server_name of
                 Some existing \<Rightarrow>
                   if existing = desired \<and> \<not> force then (root, Unchanged) else (insert_it, Updated)
               | None \<Rightarrow> (insert_it, Installed)))"

definition json_uninstall_doc :: "mcp_format \<Rightarrow> json \<Rightarrow> config_error + json \<times> hook_action" where
  "json_uninstall_doc fmt root =
     Inr (case root of
            JObj object \<Rightarrow>
              (case bt_get object (json_root_key fmt) of
                 Some (JObj servers) \<Rightarrow>
                   (case bt_get servers server_name of
                      None \<Rightarrow> (root, Absent)
                    | Some _ \<Rightarrow>
                        (JObj (bt_insert (json_root_key fmt) (JObj (bt_remove server_name servers)) object), Removed))
               | _ \<Rightarrow> (root, Absent))
          | _ \<Rightarrow> (root, Absent))"

definition json_status_doc :: "mcp_format \<Rightarrow> string \<Rightarrow> json \<Rightarrow> hook_action" where
  "json_status_doc fmt brick_bin root =
     (case json_pointer [json_root_key fmt, server_name] root of
        Some existing \<Rightarrow> if existing = brick_json_entry brick_bin then Present else Updated
      | None \<Rightarrow> Absent)"

section \<open>TOML\<close>

definition brick_toml_table :: "string \<Rightarrow> toml_table" where
  "brick_toml_table brick_bin =
     [(''command'', Toml_Value (TString brick_bin)),
      (''args'', Toml_Value (TArray [TString ''mcp-serve'']))]"

definition toml_entry_matches :: "toml_table \<Rightarrow> string \<Rightarrow> bool" where
  "toml_entry_matches doc brick_bin =
     (case as_table (map_of doc ''mcp_servers'') of
        None \<Rightarrow> False
      | Some servers \<Rightarrow>
          (case as_table (map_of servers server_name) of
             None \<Rightarrow> False
           | Some brick \<Rightarrow>
               as_toml_str (map_of brick ''command'') = Some brick_bin \<and>
               (case map_of brick ''args'' of
                  Some (Toml_Value (TArray a)) \<Rightarrow> length a = 1 \<and> a ! 0 = TString ''mcp-serve''
                | _ \<Rightarrow> False)))"

definition toml_has_entry :: "toml_table \<Rightarrow> bool" where
  "toml_has_entry doc =
     (case as_table (map_of doc ''mcp_servers'') of
        None \<Rightarrow> False | Some t \<Rightarrow> map_of t server_name \<noteq> None)"

definition toml_install_doc ::
  "string \<Rightarrow> bool \<Rightarrow> toml_table \<Rightarrow> config_error + toml_table \<times> hook_action" where
  "toml_install_doc brick_bin force doc =
     (let existed = toml_has_entry doc
      in if existed \<and> \<not> force \<and> toml_entry_matches doc brick_bin then Inr (doc, Unchanged)
         else let servers = unwrap_or (as_table (map_of doc ''mcp_servers'')) []
              in Inr (toml_insert ''mcp_servers''
                        (Toml_Table (toml_insert server_name (Toml_Table (brick_toml_table brick_bin)) servers)) doc,
                      if existed then Updated else Installed))"

definition toml_uninstall_doc :: "toml_table \<Rightarrow> config_error + toml_table \<times> hook_action" where
  "toml_uninstall_doc doc =
     Inr (case as_table (map_of doc ''mcp_servers'') of
            None \<Rightarrow> (doc, Absent)
          | Some servers \<Rightarrow>
              if map_of servers server_name = None then (doc, Absent)
              else let servers' = bt_remove server_name servers
                   in (if servers' = [] then bt_remove ''mcp_servers'' doc
                       else toml_insert ''mcp_servers'' (Toml_Table servers') doc, Removed))"

definition toml_status_doc :: "string \<Rightarrow> toml_table \<Rightarrow> hook_action" where
  "toml_status_doc brick_bin doc =
     (if \<not> toml_has_entry doc then Absent
      else if toml_entry_matches doc brick_bin then Present else Updated)"

section \<open>The commands\<close>

definition mcp_install ::
  "config_env \<Rightarrow> string \<Rightarrow> mcp_format \<Rightarrow> bool \<Rightarrow> config_file \<Rightarrow> config_file \<times> (config_error + hook_action)" where
  "mcp_install env brick_bin fmt force f =
     (case fmt of
        Codex_Toml \<Rightarrow> edit_config env (read_toml env) (ce_toml_print env) (toml_install_doc brick_bin force) f
      | _ \<Rightarrow> edit_config env (read_json env) (json_text env) (json_install_doc fmt brick_bin force) f)"

definition mcp_uninstall ::
  "config_env \<Rightarrow> mcp_format \<Rightarrow> config_file \<Rightarrow> config_file \<times> (config_error + hook_action)" where
  "mcp_uninstall env fmt f =
     (case fmt of
        Codex_Toml \<Rightarrow> edit_config env (read_toml env) (ce_toml_print env) toml_uninstall_doc f
      | _ \<Rightarrow> edit_config env (read_json env) (json_text env) (json_uninstall_doc fmt) f)"

definition mcp_status :: "config_env \<Rightarrow> string \<Rightarrow> mcp_format \<Rightarrow> config_file \<Rightarrow> config_error + hook_action" where
  "mcp_status env brick_bin fmt f =
     (case fmt of
        Codex_Toml \<Rightarrow> and_then (read_toml env f) (\<lambda>doc. Inr (toml_status_doc brick_bin doc))
      | _ \<Rightarrow> and_then (read_json env f) (\<lambda>root. Inr (json_status_doc fmt brick_bin root)))"

section \<open>Facts about the edits\<close>

lemma json_install_doc_cases:
  assumes "json_install_doc fmt brick_bin force root = Inr (root', a)"
  obtains object servers where "root = JObj object"
    "unwrap_or (bt_get object (json_root_key fmt)) (JObj []) = JObj servers"
    "(a = Unchanged \<and> \<not> force \<and> root' = root \<and> bt_get servers server_name = Some (brick_json_entry brick_bin)) \<or>
     (a = (if bt_get servers server_name = None then Installed else Updated) \<and>
      root' = JObj (bt_insert (json_root_key fmt)
        (JObj (bt_insert server_name (brick_json_entry brick_bin) servers)) object))"
  using assms
  by (auto simp: json_install_doc_def and_then_Inr_iff ensure_servers_def Let_def
      split: json.splits option.splits if_splits)

lemma json_entry_pointer:
  assumes "unwrap_or (bt_get object (json_root_key fmt)) (JObj []) = JObj servers"
  shows "json_pointer [json_root_key fmt, name] (JObj object) = bt_get servers name"
  using assms by (cases "bt_get object (json_root_key fmt)") (auto split: option.splits)

lemma json_install_doc_entry:
  assumes "json_install_doc fmt brick_bin force root = Inr (root', a)"
  shows "json_pointer [json_root_key fmt, server_name] root' = Some (brick_json_entry brick_bin)"
    and "name \<noteq> server_name \<Longrightarrow>
      json_pointer [json_root_key fmt, name] root' = json_pointer [json_root_key fmt, name] root"
    and "k \<noteq> json_root_key fmt \<Longrightarrow> json_get k root' = json_get k root"
    and "json_install_doc fmt brick_bin False root' = Inr (root', Unchanged)"
    and "a = Installed \<longleftrightarrow> json_status_doc fmt brick_bin root = Absent"
    and "a \<in> {Installed, Updated, Unchanged}"
proof -
  from assms obtain object servers where root: "root = JObj object"
    and servers: "unwrap_or (bt_get object (json_root_key fmt)) (JObj []) = JObj servers"
    and r: "(a = Unchanged \<and> \<not> force \<and> root' = root \<and> bt_get servers server_name = Some (brick_json_entry brick_bin)) \<or>
     (a = (if bt_get servers server_name = None then Installed else Updated) \<and>
      root' = JObj (bt_insert (json_root_key fmt)
        (JObj (bt_insert server_name (brick_json_entry brick_bin) servers)) object))"
    by (rule json_install_doc_cases)
  note ptr = json_entry_pointer [OF servers]
  show "json_pointer [json_root_key fmt, server_name] root' = Some (brick_json_entry brick_bin)"
    using r ptr [of server_name] by (auto simp: root)
  show "json_pointer [json_root_key fmt, name] root' = json_pointer [json_root_key fmt, name] root"
    if "name \<noteq> server_name"
    using r ptr [of name] that by (auto simp: root split: option.splits)
  show "json_get k root' = json_get k root" if "k \<noteq> json_root_key fmt"
    using r that by (auto simp: root)
  show "json_install_doc fmt brick_bin False root' = Inr (root', Unchanged)"
    using r servers by (auto simp: root json_install_doc_def ensure_servers_def Let_def)
  show "a = Installed \<longleftrightarrow> json_status_doc fmt brick_bin root = Absent"
    using r ptr [of server_name] by (auto simp: root json_status_doc_def simp del: json_pointer.simps split: option.splits)
  show "a \<in> {Installed, Updated, Unchanged}" using r by (auto split: if_splits)
qed

lemma json_uninstall_doc_spec:
  assumes "json_uninstall_doc fmt root = Inr (root', a)"
  shows "json_pointer [json_root_key fmt, server_name] root' = None"
    and "a = (if json_pointer [json_root_key fmt, server_name] root = None then Absent else Removed)"
    and "name \<noteq> server_name \<Longrightarrow>
      json_pointer [json_root_key fmt, name] root' = json_pointer [json_root_key fmt, name] root"
  using assms
  by (auto simp: json_uninstall_doc_def json_get_def split: json.splits option.splits)

interpretation mcp_json: managed_entry True "json_install_doc fmt brick_bin"
    "json_uninstall_doc fmt" "json_status_doc fmt brick_bin"
  for fmt brick_bin
proof
  fix force and d d' :: json and a
  show "a = (if json_status_doc fmt brick_bin d = Absent then Absent else Removed)"
    if "json_uninstall_doc fmt d = Inr (d', a)"
    using json_uninstall_doc_spec(2) [OF that] by (simp add: json_status_doc_def split: option.splits)
  show "json_status_doc fmt brick_bin d' = Absent" if "json_uninstall_doc fmt d = Inr (d', a)"
    using json_uninstall_doc_spec(1) [OF that] by (simp add: json_status_doc_def)
  show "json_status_doc fmt brick_bin d' = Present" if "json_install_doc fmt brick_bin force d = Inr (d', a)"
    using json_install_doc_entry(1) [OF that] by (simp add: json_status_doc_def)
qed (simp_all only: json_install_doc_entry(4,5,6))

lemma toml_has_entry_installed [simp]:
  "toml_has_entry (toml_insert ''mcp_servers'' (Toml_Table (toml_insert server_name v servers)) doc)"
  by (simp add: toml_has_entry_def)

lemma toml_entry_matches_installed [simp]:
  "toml_entry_matches (toml_insert ''mcp_servers''
     (Toml_Table (toml_insert server_name (Toml_Table (brick_toml_table brick_bin)) servers)) doc) brick_bin"
  by (simp add: toml_entry_matches_def brick_toml_table_def)

lemma toml_matches_has_entry: "toml_entry_matches doc brick_bin \<Longrightarrow> toml_has_entry doc"
  by (auto simp: toml_entry_matches_def toml_has_entry_def as_table_Some_iff split: option.splits)

interpretation mcp_toml: managed_entry True "toml_install_doc brick_bin" toml_uninstall_doc
    "toml_status_doc brick_bin"
  for brick_bin
proof
  fix force and d d' :: toml_table and a
  show "toml_status_doc brick_bin d' = Absent" if "toml_uninstall_doc d = Inr (d', a)"
    using that by (auto simp: toml_uninstall_doc_def toml_status_doc_def toml_has_entry_def Let_def
        split: option.splits if_splits)
  show "a = (if toml_status_doc brick_bin d = Absent then Absent else Removed)"
    if "toml_uninstall_doc d = Inr (d', a)"
    using that by (auto simp: toml_uninstall_doc_def toml_status_doc_def toml_has_entry_def Let_def
        split: option.splits if_splits)
  show "toml_install_doc brick_bin False d' = Inr (d', Unchanged)"
    if "toml_install_doc brick_bin force d = Inr (d', a)"
    using that by (auto simp: toml_install_doc_def Let_def split: if_splits)
qed (auto simp: toml_install_doc_def toml_status_doc_def Let_def split: if_splits)

section \<open>Properties\<close>

text \<open>
  C19: registering the MCP server in a JSON configuration, in either shape, keeps every other
  server and every other key of the file, leaves Brick's entry as the one for this binary, and a
  failing registration leaves the file as it was.
\<close>

theorem mcp_json_keeps_servers:
  assumes "mcp_install env brick_bin fmt force f = (g, r)" and "fmt \<noteq> Codex_Toml"
  shows "case r of
      Inl e \<Rightarrow> g = f
    | Inr a \<Rightarrow> \<exists>root root'. read_json env f = Inr root \<and>
        g = (if a = Unchanged then f else Text (json_text env root')) \<and>
        json_pointer [json_root_key fmt, server_name] root' = Some (brick_json_entry brick_bin) \<and>
        (\<forall>name. name \<noteq> server_name \<longrightarrow>
           json_pointer [json_root_key fmt, name] root' = json_pointer [json_root_key fmt, name] root) \<and>
        (\<forall>k. k \<noteq> json_root_key fmt \<longrightarrow> json_get k root' = json_get k root)"
proof -
  have edit: "edit_config env (read_json env) (json_text env) (json_install_doc fmt brick_bin force) f = (g, r)"
    using assms by (cases fmt) (auto simp: mcp_install_def)
  show ?thesis
  proof (cases r)
    case (Inl e)
    then show ?thesis using edit edit_config_error by fastforce
  next
    case (Inr a)
    then obtain root root' where "read_json env f = Inr root"
      and i: "json_install_doc fmt brick_bin force root = Inr (root', a)"
      and "g = (if changes_document a then Text (json_text env root') else f)"
      using edit by (auto elim: edit_config_cases)
    moreover have "changes_document a \<longleftrightarrow> a \<noteq> Unchanged"
      using json_install_doc_entry(6) [OF i] by (auto simp: changes_document_def)
    ultimately show ?thesis using json_install_doc_entry(1,2,3) [OF i] by (auto simp: Inr)
  qed
qed

lemma mcp_json_keeps_servers_witness:
  "\<exists>g. mcp_install \<lparr>ce_json_parse = (\<lambda>_. Some (JObj [(''servers'', JObj [(''a'', JNull)])])),
       ce_json_print = (\<lambda>_. ''x''), ce_toml_parse = (\<lambda>_. None), ce_toml_print = (\<lambda>_. []), ce_commits = True\<rparr>
       ''/usr/bin/brick'' Json_Servers False (Text ''y'') = (g, Inr Installed) \<and> g \<noteq> Text ''y''"
proof -
  let ?env = "\<lparr>ce_json_parse = (\<lambda>_. Some (JObj [(''servers'', JObj [(''a'', JNull)])])),
     ce_json_print = (\<lambda>_. ''x''), ce_toml_parse = (\<lambda>_. None), ce_toml_print = (\<lambda>_. []), ce_commits = True\<rparr>"
  have "trim ''y'' = ''y''" by code_simp
  then have run: "mcp_install ?env ''/usr/bin/brick'' Json_Servers False (Text ''y'') =
      (Text ''x\<newline>'', Inr Installed)"
    by (simp add: mcp_install_def edit_config_def read_json_def json_install_doc_def ensure_servers_def
        json_root_key_def server_name_def changes_document_def commit_def json_text_def Let_def)
  from mcp_json_keeps_servers [OF run] show ?thesis using run by auto
qed

text \<open>
  Registering the server in Codex's TOML keeps every other server and every other key when
  \<^verbatim>\<open>mcp_servers\<close> is a table or missing. When it is anything else, an inline table of servers
  included, every server in it is lost.
\<close>

theorem mcp_toml_servers:
  assumes "toml_install_doc brick_bin force doc = Inr (doc', a)"
  shows "\<exists>servers'. map_of doc' ''mcp_servers'' = Some (Toml_Table servers') \<and>
    (\<forall>k. k \<noteq> ''mcp_servers'' \<longrightarrow> map_of doc' k = map_of doc k) \<and>
    (\<forall>name. name \<noteq> server_name \<longrightarrow> map_of servers' name =
       (case map_of doc ''mcp_servers'' of Some (Toml_Table servers) \<Rightarrow> map_of servers name | _ \<Rightarrow> None))"
proof (cases "map_of doc ''mcp_servers''")
  case (Some item)
  with assms show ?thesis
    by (cases item) (auto simp: toml_install_doc_def toml_has_entry_def as_table_def Let_def
        split: if_splits)
qed (use assms in \<open>auto simp: toml_install_doc_def toml_has_entry_def Let_def split: if_splits\<close>)

lemma mcp_toml_servers_witness:
  "\<exists>doc'. toml_install_doc ''brick'' False
       [(''mcp_servers'', Toml_Value (TInline [(''a'', TInline [])]))] = Inr (doc', Installed) \<and>
     (\<exists>servers'. map_of doc' ''mcp_servers'' = Some (Toml_Table servers') \<and> map_of servers' ''a'' = None)"
proof -
  have run: "toml_install_doc ''brick'' False [(''mcp_servers'', Toml_Value (TInline [(''a'', TInline [])]))] =
    Inr ([(''mcp_servers'', Toml_Table [(''brick'', Toml_Table (brick_toml_table ''brick''))])], Installed)"
    by code_simp
  have "''a'' \<noteq> server_name" by (simp add: server_name_def)
  with mcp_toml_servers [OF run] have "\<exists>servers'. map_of
      [(''mcp_servers'', Toml_Table [(''brick'', Toml_Table (brick_toml_table ''brick''))])] ''mcp_servers'' =
      Some (Toml_Table servers') \<and> map_of servers' ''a'' = None"
    by auto
  then show ?thesis using run by blast
qed

text \<open>
  In every format, the commands that succeed agree on the presence of the entry: after any
  sequence it is the one for this binary if the last command was an installation and absent if
  it was a removal, and repeated installation changes nothing.
\<close>

theorem mcp_command_history:
  assumes "fmt \<noteq> Codex_Toml \<Longrightarrow>
      run_commands (json_install_doc fmt brick_bin) (json_uninstall_doc fmt) (cs @ [c]) root = Inr (root', as)"
    and "fmt = Codex_Toml \<Longrightarrow>
      run_commands (toml_install_doc brick_bin) toml_uninstall_doc (cs @ [c]) doc = Inr (doc', as)"
  shows "(if fmt = Codex_Toml then toml_status_doc brick_bin doc' else json_status_doc fmt brick_bin root') =
      (case c of Install _ \<Rightarrow> Present | Uninstall \<Rightarrow> Absent)"
  using assms mcp_json.run_last [OF TrueI] mcp_toml.run_last [OF TrueI] by auto

lemma mcp_command_history_witness:
  "\<exists>doc' as. run_commands (toml_install_doc ''brick'') toml_uninstall_doc ([Install False] @ [Uninstall]) [] =
     Inr (doc', as) \<and> toml_status_doc ''brick'' doc' = Absent"
proof -
  have run: "run_commands (toml_install_doc ''brick'') toml_uninstall_doc ([Install False] @ [Uninstall]) [] =
      Inr ([], [Installed, Removed])"
    by code_simp
  from mcp_command_history [of Codex_Toml "''brick''" "[Install False]" Uninstall JNull JNull
      "[Installed, Removed]" "[]" "[]"] run
  show ?thesis by simp
qed

end
