(* ===== verification/Native_Hook.thy ===== *)
theory Native_Hook imports Config_Files begin

text \<open>
  The read hooks of Codex (TOML) and Windsurf (JSON), \<^verbatim>\<open>cli/src/native_hook.rs\<close>.
\<close>

definition explain_marker :: string where
  "explain_marker = ''brick hook-explain''"

definition codex_explain_matcher :: string where
  "codex_explain_matcher = ''Read|Grep|Glob|mcp__.*read.*|mcp__.*grep.*|mcp__.*glob.*''"

datatype hook_client = Codex | Windsurf

definition explain_command :: "string \<Rightarrow> string" where
  "explain_command brick_bin = brick_bin @ '' hook-explain''"

definition is_brick_command :: "string \<Rightarrow> bool" where
  "is_brick_command command = contains explain_marker command"

definition native_apt :: "string \<Rightarrow> bool" where
  "native_apt brick_bin = is_brick_command (explain_command brick_bin)"

section \<open>Codex\<close>

definition codex_hook_table :: "string \<Rightarrow> string \<Rightarrow> string \<Rightarrow> toml_table" where
  "codex_hook_table matcher command status_message =
     [(''matcher'', Toml_Value (TString matcher)),
      (''hooks'', Toml_Tables
        [[(''type'', Toml_Value (TString ''command'')), (''command'', Toml_Value (TString command)),
          (''timeout'', Toml_Value (TInteger 30)), (''statusMessage'', Toml_Value (TString status_message))]])]"

definition codex_desired :: "string \<Rightarrow> toml_table list" where
  "codex_desired brick_bin =
     [codex_hook_table codex_explain_matcher (explain_command brick_bin) ''Loading Brick causal context'']"

definition codex_entry_is_brick :: "toml_table \<Rightarrow> bool" where
  "codex_entry_is_brick entry =
     (case as_tables (map_of entry ''hooks'') of
        None \<Rightarrow> False
      | Some hooks \<Rightarrow>
          list_ex (\<lambda>hook. case as_toml_str (map_of hook ''command'') of
             None \<Rightarrow> False | Some command \<Rightarrow> is_brick_command command) hooks)"

text \<open>The array of tables at \<^verbatim>\<open>hooks.PreToolUse\<close>, when both are what Brick writes.\<close>

definition codex_pre :: "toml_table \<Rightarrow> toml_table list option" where
  "codex_pre doc =
     (case as_table (map_of doc ''hooks'') of
        None \<Rightarrow> None | Some hooks \<Rightarrow> as_tables (map_of hooks ''PreToolUse''))"

definition codex_has_brick_hooks :: "toml_table \<Rightarrow> bool" where
  "codex_has_brick_hooks doc =
     (case codex_pre doc of None \<Rightarrow> False | Some entries \<Rightarrow> list_ex codex_entry_is_brick entries)"

definition codex_entry_matches :: "toml_table \<Rightarrow> string \<Rightarrow> string \<Rightarrow> string \<Rightarrow> bool" where
  "codex_entry_matches entry matcher command status =
     (as_toml_str (map_of entry ''matcher'') = Some matcher \<and>
      (case as_tables (map_of entry ''hooks'') of
         None \<Rightarrow> False
       | Some hooks \<Rightarrow>
           list_ex (\<lambda>hook.
             as_toml_str (map_of hook ''type'') = Some ''command'' \<and>
             as_toml_str (map_of hook ''command'') = Some command \<and>
             as_toml_int (map_of hook ''timeout'') = Some 30 \<and>
             as_toml_str (map_of hook ''statusMessage'') = Some status) hooks))"

definition codex_matches :: "toml_table \<Rightarrow> string \<Rightarrow> bool" where
  "codex_matches doc brick_bin =
     (case codex_pre doc of
        None \<Rightarrow> False
      | Some entries \<Rightarrow>
          list_all (\<lambda>desired.
            case (as_toml_str (map_of desired ''matcher''), as_tables (map_of desired ''hooks'')) of
              (Some matcher, Some (hook # _)) \<Rightarrow>
                (case (as_toml_str (map_of hook ''command''), as_toml_str (map_of hook ''statusMessage'')) of
                   (Some command, Some status) \<Rightarrow>
                     list_ex (\<lambda>entry. codex_entry_matches entry matcher command status) entries
                 | _ \<Rightarrow> False)
            | _ \<Rightarrow> False) (codex_desired brick_bin))"

definition ensure_hooks_table :: "toml_table \<Rightarrow> toml_table" where
  "ensure_hooks_table doc =
     (if as_table (map_of doc ''hooks'') = None then toml_insert ''hooks'' (Toml_Table []) doc else doc)"

text \<open>Replacing the array, with the containers created, or overwritten when they are of another kind.\<close>

definition codex_put :: "toml_table list \<Rightarrow> toml_table \<Rightarrow> toml_table" where
  "codex_put pre doc =
     (let doc' = ensure_hooks_table doc;
          hooks = unwrap_or (as_table (map_of doc' ''hooks'')) []
      in toml_insert ''hooks'' (Toml_Table (toml_insert ''PreToolUse'' (Toml_Tables pre) hooks)) doc')"

definition codex_install_doc ::
  "string \<Rightarrow> bool \<Rightarrow> toml_table \<Rightarrow> config_error + toml_table \<times> hook_action" where
  "codex_install_doc brick_bin force doc =
     (let existed = codex_has_brick_hooks doc
      in if existed \<and> \<not> force \<and> codex_matches doc brick_bin then Inr (doc, Unchanged)
         else let pre = filter (\<lambda>entry. \<not> codex_entry_is_brick entry) (unwrap_or (codex_pre doc) [])
              in Inr (codex_put (pre @ codex_desired brick_bin) doc, if existed then Updated else Installed))"

definition prune_empty_toml_hooks :: "toml_table \<Rightarrow> toml_table" where
  "prune_empty_toml_hooks doc =
     (case as_table (map_of doc ''hooks'') of
        None \<Rightarrow> doc
      | Some hooks \<Rightarrow>
          (let hooks' = (if as_tables (map_of hooks ''PreToolUse'') = Some []
                         then bt_remove ''PreToolUse'' hooks else hooks)
           in if hooks' = [] then bt_remove ''hooks'' doc
              else toml_insert ''hooks'' (Toml_Table hooks') doc))"

definition codex_uninstall_doc :: "toml_table \<Rightarrow> config_error + toml_table \<times> hook_action" where
  "codex_uninstall_doc doc =
     Inr (case codex_pre doc of
            None \<Rightarrow> (doc, Absent)
          | Some pre \<Rightarrow>
              (let kept = filter (\<lambda>entry. \<not> codex_entry_is_brick entry) pre
               in if length kept = length pre then (doc, Absent)
                  else (prune_empty_toml_hooks (codex_put kept doc), Removed)))"

definition codex_status_doc :: "string \<Rightarrow> toml_table \<Rightarrow> hook_action" where
  "codex_status_doc brick_bin doc =
     (if \<not> codex_has_brick_hooks doc then Absent
      else if codex_matches doc brick_bin then Present else Updated)"

section \<open>Windsurf\<close>

definition windsurf_entry :: "string \<Rightarrow> json" where
  "windsurf_entry command = JObj (bt_of_list [(''command'', JStr command), (''show_output'', JBool True)])"

definition windsurf_desired :: "string \<Rightarrow> (string \<times> json) list" where
  "windsurf_desired brick_bin = [(''pre_read_code'', windsurf_entry (explain_command brick_bin))]"

definition windsurf_entry_is_brick :: "json \<Rightarrow> bool" where
  "windsurf_entry_is_brick entry =
     (case as_json_str (json_get ''command'' entry) of
        None \<Rightarrow> False | Some command \<Rightarrow> is_brick_command command)"

definition json_hooks :: "json \<Rightarrow> (string \<times> json) list option" where
  "json_hooks root = (case json_get ''hooks'' root of Some (JObj hooks) \<Rightarrow> Some hooks | _ \<Rightarrow> None)"

definition windsurf_has_brick_hooks :: "json \<Rightarrow> bool" where
  "windsurf_has_brick_hooks root =
     (case json_hooks root of
        None \<Rightarrow> False
      | Some hooks \<Rightarrow>
          list_ex windsurf_entry_is_brick
            (concat (List.map_filter (\<lambda>(k, v). as_json_array (Some v)) hooks)))"

definition windsurf_matches :: "json \<Rightarrow> string \<Rightarrow> bool" where
  "windsurf_matches root brick_bin =
     (case json_hooks root of
        None \<Rightarrow> False
      | Some hooks \<Rightarrow>
          list_all (\<lambda>(event, desired).
            case as_json_array (bt_get hooks event) of
              None \<Rightarrow> False | Some entries \<Rightarrow> list_ex (\<lambda>entry. entry = desired) entries)
            (windsurf_desired brick_bin))"

definition ensure_json_hooks_object ::
  "json \<Rightarrow> config_error + (string \<times> json) list \<times> ((string \<times> json) list \<Rightarrow> json)" where
  "ensure_json_hooks_object root =
     (case root of
        JObj object \<Rightarrow>
          (case unwrap_or (bt_get object ''hooks'') (JObj []) of
             JObj hooks \<Rightarrow> Inr (hooks, \<lambda>h. JObj (bt_insert ''hooks'' (JObj h) object))
           | _ \<Rightarrow> Inl (Config_Not_Object ''hooks''))
      | _ \<Rightarrow> Inl (Config_Not_Object ''root''))"

fun windsurf_put_all ::
  "(string \<times> json) list \<Rightarrow> (string \<times> json) list \<Rightarrow> config_error + (string \<times> json) list" where
  "windsurf_put_all [] hooks = Inr hooks"
| "windsurf_put_all ((event, desired) # rest) hooks =
     (case unwrap_or (bt_get hooks event) (JArr []) of
        JArr entries \<Rightarrow>
          windsurf_put_all rest
            (bt_insert event (JArr (filter (\<lambda>e. \<not> windsurf_entry_is_brick e) entries @ [desired])) hooks)
      | _ \<Rightarrow> Inl (Config_Not_Array event))"

definition windsurf_install_doc ::
  "string \<Rightarrow> bool \<Rightarrow> json \<Rightarrow> config_error + json \<times> hook_action" where
  "windsurf_install_doc brick_bin force root =
     (let existed = windsurf_has_brick_hooks root
      in if existed \<and> \<not> force \<and> windsurf_matches root brick_bin then Inr (root, Unchanged)
         else and_then (ensure_json_hooks_object root) (\<lambda>(hooks, put).
              and_then (windsurf_put_all (windsurf_desired brick_bin) hooks) (\<lambda>hooks'.
                Inr (put hooks', if existed then Updated else Installed))))"

definition windsurf_without_brick :: "json \<Rightarrow> json" where
  "windsurf_without_brick v =
     (case v of JArr entries \<Rightarrow> JArr (filter (\<lambda>e. \<not> windsurf_entry_is_brick e) entries) | _ \<Rightarrow> v)"

definition windsurf_uninstall_doc :: "json \<Rightarrow> config_error + json \<times> hook_action" where
  "windsurf_uninstall_doc root =
     Inr (case root of
            JObj object \<Rightarrow>
              (case bt_get object ''hooks'' of
                 Some (JObj hooks) \<Rightarrow>
                   (let removed = list_ex (\<lambda>(k, v). case v of
                          JArr entries \<Rightarrow> length (filter (\<lambda>e. \<not> windsurf_entry_is_brick e) entries) \<noteq> length entries
                        | _ \<Rightarrow> False) hooks;
                        hooks' = filter (\<lambda>(k, v). v \<noteq> JArr []) (map (\<lambda>(k, v). (k, windsurf_without_brick v)) hooks)
                    in if \<not> removed then (root, Absent)
                       else (JObj (if hooks' = [] then bt_remove ''hooks'' object
                                   else bt_insert ''hooks'' (JObj hooks') object), Removed))
               | _ \<Rightarrow> (root, Absent))
          | _ \<Rightarrow> (root, Absent))"

definition windsurf_status_doc :: "string \<Rightarrow> json \<Rightarrow> hook_action" where
  "windsurf_status_doc brick_bin root =
     (if \<not> windsurf_has_brick_hooks root then Absent
      else if windsurf_matches root brick_bin then Present else Updated)"

section \<open>The commands\<close>

definition native_install ::
  "config_env \<Rightarrow> hook_client \<Rightarrow> string \<Rightarrow> bool \<Rightarrow> config_file \<Rightarrow> config_file \<times> (config_error + hook_action)" where
  "native_install env client brick_bin force f =
     (case client of
        Codex \<Rightarrow> edit_config env (read_toml env) (ce_toml_print env) (codex_install_doc brick_bin force) f
      | Windsurf \<Rightarrow> edit_config env (read_json env) (json_text env) (windsurf_install_doc brick_bin force) f)"

definition native_uninstall ::
  "config_env \<Rightarrow> hook_client \<Rightarrow> config_file \<Rightarrow> config_file \<times> (config_error + hook_action)" where
  "native_uninstall env client f =
     (case client of
        Codex \<Rightarrow> edit_config env (read_toml env) (ce_toml_print env) codex_uninstall_doc f
      | Windsurf \<Rightarrow> edit_config env (read_json env) (json_text env) windsurf_uninstall_doc f)"

definition native_status ::
  "config_env \<Rightarrow> hook_client \<Rightarrow> string \<Rightarrow> config_file \<Rightarrow> config_error + hook_action" where
  "native_status env client brick_bin f =
     (case client of
        Codex \<Rightarrow> and_then (read_toml env f) (\<lambda>doc. Inr (codex_status_doc brick_bin doc))
      | Windsurf \<Rightarrow> and_then (read_json env f) (\<lambda>root. Inr (windsurf_status_doc brick_bin root)))"

section \<open>Facts about the Codex edit\<close>

lemma codex_desired_brick [simp]:
  "list_ex codex_entry_is_brick (codex_desired brick_bin) \<longleftrightarrow> native_apt brick_bin"
  by (simp add: codex_desired_def codex_entry_is_brick_def codex_hook_table_def native_apt_def)

lemma codex_pre_put [simp]: "codex_pre (codex_put pre doc) = Some pre"
  by (simp add: codex_pre_def codex_put_def Let_def)

lemma codex_put_hooks:
  "\<exists>hooks. map_of (codex_put pre doc) ''hooks'' = Some (Toml_Table hooks) \<and>
     map_of hooks = (map_of (unwrap_or (as_table (map_of doc ''hooks'')) []))(''PreToolUse'' \<mapsto> Toml_Tables pre)"
  by (auto simp: codex_put_def Let_def ensure_hooks_table_def)

lemma codex_put_other: "k \<noteq> ''hooks'' \<Longrightarrow> map_of (codex_put pre doc) k = map_of doc k"
  by (simp add: codex_put_def Let_def ensure_hooks_table_def)

lemma codex_matches_put [simp]: "codex_matches (codex_put (pre @ codex_desired brick_bin) doc) brick_bin"
  by (simp add: codex_matches_def codex_desired_def codex_hook_table_def codex_entry_matches_def)

lemma codex_has_put [simp]:
  "codex_has_brick_hooks (codex_put pre doc) \<longleftrightarrow> list_ex codex_entry_is_brick pre"
  by (simp add: codex_has_brick_hooks_def)

lemma codex_prune:
  assumes "codex_pre doc = Some pre"
  shows "codex_pre (prune_empty_toml_hooks doc) = (if pre = [] then None else Some pre)"
  using assms
  by (auto simp: codex_pre_def prune_empty_toml_hooks_def as_table_Some_iff as_tables_Some_iff Let_def
      split: option.splits)

lemma list_ex_filter_not: "\<not> list_ex p (filter (\<lambda>x. \<not> p x) xs)"
  by (simp add: list_ex_iff)

lemma filter_same_length: "length (filter (\<lambda>x. \<not> p x) xs) = length xs \<longleftrightarrow> \<not> list_ex p xs"
  unfolding list_ex_iff by (metis (mono_tags, lifting) filter_True length_filter_less order_less_irrefl)

lemma codex_uninstall_doc_spec:
  assumes "codex_uninstall_doc doc = Inr (doc', a)"
  shows "\<not> codex_has_brick_hooks doc' \<and> a = (if codex_has_brick_hooks doc then Removed else Absent)"
proof (cases "codex_pre doc")
  case (Some pre)
  let ?kept = "filter (\<lambda>e. \<not> codex_entry_is_brick e) pre"
  have "codex_pre (prune_empty_toml_hooks (codex_put ?kept doc)) = (if ?kept = [] then None else Some ?kept)"
    by (rule codex_prune) simp
  then have "\<not> codex_has_brick_hooks (prune_empty_toml_hooks (codex_put ?kept doc))"
    by (simp add: codex_has_brick_hooks_def list_ex_filter_not)
  moreover have "codex_has_brick_hooks doc \<longleftrightarrow> list_ex codex_entry_is_brick pre"
    by (simp add: codex_has_brick_hooks_def Some)
  ultimately show ?thesis
    using assms by (auto simp: codex_uninstall_doc_def Some Let_def filter_same_length split: if_splits)
qed (use assms in \<open>auto simp: codex_uninstall_doc_def codex_has_brick_hooks_def\<close>)

interpretation codex: managed_entry "native_apt brick_bin" "codex_install_doc brick_bin"
    codex_uninstall_doc "codex_status_doc brick_bin"
  for brick_bin
proof
  fix force and d d' :: toml_table and a
  assume un: "codex_uninstall_doc d = Inr (d', a)"
  show "codex_status_doc brick_bin d' = Absent"
    and "a = (if codex_status_doc brick_bin d = Absent then Absent else Removed)"
    using codex_uninstall_doc_spec [OF un] by (auto simp: codex_status_doc_def)
qed (auto simp: codex_install_doc_def codex_status_doc_def Let_def split: if_splits)

section \<open>Facts about the Windsurf edit\<close>

lemma windsurf_entry_brick [simp]:
  "windsurf_entry_is_brick (windsurf_entry (explain_command brick_bin)) \<longleftrightarrow> native_apt brick_bin"
  by (simp add: windsurf_entry_is_brick_def windsurf_entry_def map_of_bt_of_list native_apt_def)

lemma windsurf_has_iff:
  "windsurf_has_brick_hooks root \<longleftrightarrow>
     (\<exists>hooks k entries e. json_hooks root = Some hooks \<and> (k, JArr entries) \<in> set hooks \<and>
        e \<in> set entries \<and> windsurf_entry_is_brick e)"
proof (cases "json_hooks root")
  case (Some hooks)
  have "entries \<in> set (List.map_filter (\<lambda>(k, v). as_json_array (Some v)) hooks) \<longleftrightarrow>
      (\<exists>k. (k, JArr entries) \<in> set hooks)" for entries
    by (force simp: List.map_filter_def as_json_array_Some_iff)
  then show ?thesis by (simp add: windsurf_has_brick_hooks_def Some list_ex_iff) blast
qed (simp add: windsurf_has_brick_hooks_def)

lemma windsurf_install_doc_cases:
  assumes "windsurf_install_doc brick_bin force root = Inr (root', a)"
  obtains "a = Unchanged" "root' = root" "windsurf_has_brick_hooks root" "windsurf_matches root brick_bin"
  | object hooks entries where "root = JObj object"
      "unwrap_or (bt_get object ''hooks'') (JObj []) = JObj hooks"
      "unwrap_or (bt_get hooks ''pre_read_code'') (JArr []) = JArr entries"
      "a = (if windsurf_has_brick_hooks root then Updated else Installed)"
      "root' = JObj (bt_insert ''hooks'' (JObj (bt_insert ''pre_read_code''
         (JArr (filter (\<lambda>e. \<not> windsurf_entry_is_brick e) entries @
           [windsurf_entry (explain_command brick_bin)])) hooks)) object)"
proof (cases "windsurf_has_brick_hooks root \<and> \<not> force \<and> windsurf_matches root brick_bin")
  case False
  then obtain hooks put hooks' where e: "ensure_json_hooks_object root = Inr (hooks, put)"
    and p: "windsurf_put_all (windsurf_desired brick_bin) hooks = Inr hooks'"
    and r: "root' = put hooks'" "a = (if windsurf_has_brick_hooks root then Updated else Installed)"
    using assms by (auto simp: windsurf_install_doc_def Let_def and_then_Inr_iff)
  obtain object where "root = JObj object" "unwrap_or (bt_get object ''hooks'') (JObj []) = JObj hooks"
    "put = (\<lambda>h. JObj (bt_insert ''hooks'' (JObj h) object))"
    using e by (auto simp: ensure_json_hooks_object_def split: json.splits)
  moreover obtain entries where "unwrap_or (bt_get hooks ''pre_read_code'') (JArr []) = JArr entries"
    "hooks' = bt_insert ''pre_read_code'' (JArr (filter (\<lambda>e. \<not> windsurf_entry_is_brick e) entries @
       [windsurf_entry (explain_command brick_bin)])) hooks"
    using p by (auto simp: windsurf_desired_def split: json.splits)
  ultimately show ?thesis using that(2) r by blast
qed (use assms that(1) in \<open>auto simp: windsurf_install_doc_def\<close>)

lemma bt_insert_mem: "(k, v) \<in> set (bt_insert k v m)"
  by (induction k v m rule: bt_insert.induct) auto

lemma windsurf_installed:
  assumes "native_apt brick_bin" "windsurf_install_doc brick_bin force root = Inr (root', a)"
  shows "windsurf_has_brick_hooks root' \<and> windsurf_matches root' brick_bin"
  using assms(2)
proof (cases rule: windsurf_install_doc_cases)
  case (2 object hooks entries)
  let ?new = "JArr (filter (\<lambda>e. \<not> windsurf_entry_is_brick e) entries @ [windsurf_entry (explain_command brick_bin)])"
  have h: "json_hooks root' = Some (bt_insert ''pre_read_code'' ?new hooks)"
    by (simp add: 2 json_hooks_def)
  have "windsurf_matches root' brick_bin" by (simp add: windsurf_matches_def h windsurf_desired_def)
  moreover have "windsurf_has_brick_hooks root'"
    unfolding windsurf_has_iff using assms(1) h bt_insert_mem [of "''pre_read_code''" ?new hooks]
    by (force simp del: bt_insert.simps)
  ultimately show ?thesis by simp
qed auto

lemma windsurf_uninstall_doc_spec:
  assumes "windsurf_uninstall_doc root = Inr (root', a)"
  shows "\<not> windsurf_has_brick_hooks root' \<and> a = (if windsurf_has_brick_hooks root then Removed else Absent)"
proof (cases "json_hooks root")
  case None
  then have "root' = root \<and> a = Absent"
    using assms by (auto simp: windsurf_uninstall_doc_def json_hooks_def json_get_def split: json.splits option.splits)
  then show ?thesis by (simp add: windsurf_has_brick_hooks_def None)
next
  case (Some hooks)
  then obtain object where root: "root = JObj object" "bt_get object ''hooks'' = Some (JObj hooks)"
    by (auto simp: json_hooks_def json_get_def split: json.splits option.splits)
  let ?removed = "list_ex (\<lambda>(k, v). case v of
      JArr entries \<Rightarrow> length (filter (\<lambda>e. \<not> windsurf_entry_is_brick e) entries) \<noteq> length entries
    | _ \<Rightarrow> False) hooks"
  let ?hooks' = "filter (\<lambda>(k, v). v \<noteq> JArr []) (map (\<lambda>(k, v). (k, windsurf_without_brick v)) hooks)"
  have removed: "?removed \<longleftrightarrow> windsurf_has_brick_hooks root"
    unfolding windsurf_has_iff Some list_ex_iff filter_same_length
    by (fastforce split: json.splits)
  have clean: "\<not> windsurf_entry_is_brick e" if "(k, JArr entries) \<in> set ?hooks'" "e \<in> set entries" for k entries e
    using that by (auto simp: windsurf_without_brick_def split: json.splits)
  have "json_hooks (JObj (if ?hooks' = [] then bt_remove ''hooks'' object
      else bt_insert ''hooks'' (JObj ?hooks') object)) = (if ?hooks' = [] then None else Some ?hooks')"
    by (simp add: json_hooks_def)
  then have "\<not> windsurf_has_brick_hooks (JObj (if ?hooks' = [] then bt_remove ''hooks'' object
      else bt_insert ''hooks'' (JObj ?hooks') object))"
    unfolding windsurf_has_iff using clean by (metis option.distinct(1) option.inject)
  then show ?thesis
    using assms removed unfolding windsurf_uninstall_doc_def root Let_def json.case option.case sum.inject
    by (cases ?removed) simp_all
qed

interpretation windsurf: managed_entry "native_apt brick_bin" "windsurf_install_doc brick_bin"
    windsurf_uninstall_doc "windsurf_status_doc brick_bin"
  for brick_bin
proof
  fix force and d d' :: json and a
  show "windsurf_status_doc brick_bin d' = Absent"
    and "a = (if windsurf_status_doc brick_bin d = Absent then Absent else Removed)"
    if un: "windsurf_uninstall_doc d = Inr (d', a)"
    using windsurf_uninstall_doc_spec [OF un] by (auto simp: windsurf_status_doc_def)
  assume i: "windsurf_install_doc brick_bin force d = Inr (d', a)"
  show "a = Installed \<longleftrightarrow> windsurf_status_doc brick_bin d = Absent" "a \<in> {Installed, Updated, Unchanged}"
    using i by (cases rule: windsurf_install_doc_cases; simp add: windsurf_status_doc_def)+
  assume apt: "native_apt brick_bin"
  show "windsurf_status_doc brick_bin d' = Present" "windsurf_install_doc brick_bin False d' = Inr (d', Unchanged)"
    using windsurf_installed [OF apt i] by (simp_all add: windsurf_status_doc_def windsurf_install_doc_def)
qed

section \<open>Properties\<close>

text \<open>
  When the Codex hook is written, \<^verbatim>\<open>hooks.PreToolUse\<close> holds the entries of other
  programs in their order and then exactly one of Brick's, and the other hooks and keys are as
  they were. This counts on both containers being tables: \<open>codex_pre\<close> of an inline array is none, and
  its entries are dropped.
\<close>

theorem codex_install_entries:
  assumes "codex_install_doc brick_bin force doc = Inr (doc', a)" and "a \<noteq> Unchanged"
  shows "codex_pre doc' = Some (filter (\<lambda>e. \<not> codex_entry_is_brick e) (unwrap_or (codex_pre doc) []) @
      codex_desired brick_bin) \<and>
    (\<forall>k. k \<noteq> ''hooks'' \<longrightarrow> map_of doc' k = map_of doc k) \<and>
    (\<exists>hooks'. map_of doc' ''hooks'' = Some (Toml_Table hooks') \<and>
      (\<forall>event. event \<noteq> ''PreToolUse'' \<longrightarrow> map_of hooks' event =
        (case map_of doc ''hooks'' of Some (Toml_Table hooks) \<Rightarrow> map_of hooks event | _ \<Rightarrow> None)))"
proof -
  let ?pre = "filter (\<lambda>e. \<not> codex_entry_is_brick e) (unwrap_or (codex_pre doc) []) @ codex_desired brick_bin"
  have doc': "doc' = codex_put ?pre doc"
    using assms by (auto simp: codex_install_doc_def Let_def split: if_splits)
  obtain hooks' where "map_of (codex_put ?pre doc) ''hooks'' = Some (Toml_Table hooks')"
    and h: "map_of hooks' = (map_of (unwrap_or (as_table (map_of doc ''hooks'')) []))(''PreToolUse'' \<mapsto> Toml_Tables ?pre)"
    using codex_put_hooks by blast
  moreover have "map_of hooks' event =
      (case map_of doc ''hooks'' of Some (Toml_Table hooks) \<Rightarrow> map_of hooks event | _ \<Rightarrow> None)"
    if "event \<noteq> ''PreToolUse''" for event
    using that by (auto simp: h as_table_def split: option.splits toml_item.splits)
  ultimately show ?thesis by (auto simp: doc' codex_put_other)
qed

lemma codex_install_entries_witness:
  "\<exists>doc'. codex_install_doc ''/usr/bin/brick'' False
       [(''hooks'', Toml_Table [(''PreToolUse'', Toml_Tables [[]])])] = Inr (doc', Installed) \<and>
     codex_pre doc' = Some ([] # codex_desired ''/usr/bin/brick'')"
proof -
  define r where "r = codex_install_doc ''/usr/bin/brick'' False
       [(''hooks'', Toml_Table [(''PreToolUse'', Toml_Tables [[]])])]"
  have "case r of Inl _ \<Rightarrow> False | Inr (d, a) \<Rightarrow> a = Installed" unfolding r_def by code_simp
  then obtain doc' where r: "r = Inr (doc', Installed)" by (auto split: sum.splits)
  then show ?thesis
    using codex_install_entries [OF r [unfolded r_def]]
    by (simp add: r_def codex_pre_def codex_entry_is_brick_def)
qed

text \<open>
  When the Windsurf hook is written, the entries of other programs for reads keep their order
  and are followed by exactly one of Brick's; the hooks of other events and the other keys are
  as they were.
\<close>

theorem windsurf_install_entries:
  assumes "windsurf_install_doc brick_bin force root = Inr (root', a)" and "a \<noteq> Unchanged"
  shows "as_json_array (json_pointer [''hooks'', ''pre_read_code''] root') =
      Some (filter (\<lambda>e. \<not> windsurf_entry_is_brick e)
        (unwrap_or (as_json_array (json_pointer [''hooks'', ''pre_read_code''] root)) []) @
        [windsurf_entry (explain_command brick_bin)]) \<and>
    (\<forall>event. event \<noteq> ''pre_read_code'' \<longrightarrow>
      json_pointer [''hooks'', event] root' = json_pointer [''hooks'', event] root) \<and>
    (\<forall>k. k \<noteq> ''hooks'' \<longrightarrow> json_get k root' = json_get k root)"
  using assms(1)
proof (cases rule: windsurf_install_doc_cases)
  case (2 object hooks entries)
  have p: "json_pointer [''hooks'', event] root = bt_get hooks event" for event
    using 2(1,2) by (cases "bt_get object ''hooks''") (auto split: option.splits)
  have "unwrap_or (as_json_array (bt_get hooks ''pre_read_code'')) [] = entries"
    using 2(3) by (cases "bt_get hooks ''pre_read_code''") auto
  moreover have "json_pointer [''hooks'', event] root' = (if event = ''pre_read_code'' then
      Some (JArr (filter (\<lambda>e. \<not> windsurf_entry_is_brick e) entries @ [windsurf_entry (explain_command brick_bin)]))
      else bt_get hooks event)" for event
    by (auto simp: 2(5) split: option.splits)
  moreover have "json_get k root' = json_get k root" if "k \<noteq> ''hooks''" for k
    using that by (simp add: 2(1,5))
  ultimately show ?thesis unfolding p by simp
qed (use assms in auto)

lemma windsurf_install_entries_witness:
  "\<exists>root'. windsurf_install_doc ''/usr/bin/brick'' False
       (JObj [(''hooks'', JObj [(''pre_read_code'', JArr [JNull])])]) = Inr (root', Installed) \<and>
     as_json_array (json_pointer [''hooks'', ''pre_read_code''] root') =
       Some [JNull, windsurf_entry (explain_command ''/usr/bin/brick'')]"
proof -
  define r where "r = windsurf_install_doc ''/usr/bin/brick'' False
       (JObj [(''hooks'', JObj [(''pre_read_code'', JArr [JNull])])])"
  have "case r of Inl _ \<Rightarrow> False | Inr (d, a) \<Rightarrow> a = Installed" unfolding r_def by code_simp
  then obtain root' where r: "r = Inr (root', Installed)" by (auto split: sum.splits)
  then show ?thesis
    using windsurf_install_entries [OF r [unfolded r_def]]
    by (simp add: r_def windsurf_entry_is_brick_def json_get_def [of _ JNull])
qed

text \<open>
  For both clients, after any sequence of commands that succeed the hook is present if the
  last one was an installation and absent if it was a removal.
\<close>

theorem native_command_history:
  assumes "native_apt brick_bin"
    and "client = Codex \<Longrightarrow>
      run_commands (codex_install_doc brick_bin) codex_uninstall_doc (cs @ [c]) doc = Inr (doc', as)"
    and "client = Windsurf \<Longrightarrow>
      run_commands (windsurf_install_doc brick_bin) windsurf_uninstall_doc (cs @ [c]) root = Inr (root', as)"
  shows "(case client of Codex \<Rightarrow> codex_status_doc brick_bin doc' | Windsurf \<Rightarrow> windsurf_status_doc brick_bin root') =
      (case c of Install _ \<Rightarrow> Present | Uninstall \<Rightarrow> Absent)"
  using assms codex.run_last [OF assms(1)] windsurf.run_last [OF assms(1)] by (cases client) auto

lemma native_command_history_witness:
  "\<exists>doc' as. run_commands (codex_install_doc ''brick'') codex_uninstall_doc ([Install False] @ [Uninstall]) [] =
     Inr (doc', as) \<and> codex_status_doc ''brick'' doc' = Absent"
proof -
  have run: "run_commands (codex_install_doc ''brick'') codex_uninstall_doc ([Install False] @ [Uninstall]) [] =
      Inr ([], [Installed, Removed])"
    by code_simp
  have "native_apt ''brick''" by code_simp
  from native_command_history [OF this, of Codex "[Install False]" Uninstall "[]" "[]" "[Installed, Removed]"
      JNull JNull] run
  show ?thesis by simp
qed

end
