(* ===== verification/Source_Blame.thy ===== *)
theory Source_Blame imports Metadata_Props begin

text \<open>
  The questions asked of the metadata database (\<^verbatim>\<open>metadata_db.rs\<close>): which sessions touched a file,
  which one wrote a piece of text or a line, and free-text search of sessions.
\<close>

section \<open>Blame rows\<close>

definition metadata_str :: "session_record \<Rightarrow> string \<Rightarrow> string option" where
  "metadata_str r k = as_str (Option.bind (ss_metadata r) (json_get k))"

definition session_pointer :: "session_record \<Rightarrow> json" where
  "session_pointer r = JObj (bt_of_list
     [(''source_id'', JStr (ss_source_id r)), (''external_session_id'', JStr (ss_external_id r)),
      (''source_path'', enc_opt JStr (map_option from_utf8_lossy (ss_source_path r))),
      (''source_uri'', enc_opt JStr (ss_source_uri r)),
      (''source_record_key'', enc_opt JStr (metadata_str r ''source_record_key'')),
      (''parser_version'', enc_opt JStr (ss_parser_version r)),
      (''repo_path'', enc_opt JStr (map_option from_utf8_lossy (ss_repo_path r))),
      (''branch'', enc_opt JStr (ss_branch r)), (''source_fingerprint'', enc_opt JStr (ss_fingerprint r))])"

definition source_session_blame_row ::
  "meta_env \<Rightarrow> string \<Rightarrow> session_record \<Rightarrow> string option \<Rightarrow> file_session_row" where
  "source_session_blame_row env file_path r occurred_at =
     \<lparr>fb_file_path = file_path, fb_session_id = None, fb_external_session_id = Some (ss_external_id r),
      fb_source_id = Some (ss_source_id r), fb_app_id = or_else (metadata_str r ''app_id'') (Some (ss_source_id r)),
      fb_actor_id = metadata_str r ''actor_id'',
      fb_actor_type = or_else (metadata_str r ''actor_type'') (Some ''agent''),
      fb_evidence_kind = Source_Metadata, fb_last_seen_at = time_text env (ss_last_seen_at r),
      fb_occurred_at = occurred_at, fb_title = or_else (ss_title r) (ss_name r),
      fb_lines_added = ss_lines_added r, fb_lines_removed = ss_lines_removed r,
      fb_files_changed = ss_files_changed r, fb_confidence = Some ''metadata_only'',
      fb_source_pointer = Some (session_pointer r)\<rparr>"

text \<open>\<^verbatim>\<open>map.insert(k, v)\<close> on a value that is an object; another value is left alone.\<close>

definition json_insert_all :: "(string \<times> json) list \<Rightarrow> json \<Rightarrow> json" where
  "json_insert_all kvs j = (case j of JObj m \<Rightarrow> JObj (fold (\<lambda>(k, v). bt_insert k v) kvs m) | _ \<Rightarrow> j)"

definition same_repo :: "string option \<Rightarrow> session_record \<Rightarrow> bool" where
  "same_repo preferred r \<longleftrightarrow>
     (case (preferred, ss_repo_path r) of
        (Some want, Some have) \<Rightarrow> from_utf8_lossy want = from_utf8_lossy have | _ \<Rightarrow> False)"

record blame_query =
  bq_file_path :: string
  bq_source_id :: "string option"
  bq_repo_path :: "string option"
  bq_limit :: nat

definition touches :: "string \<Rightarrow> session_record \<Rightarrow> bool" where
  "touches file_path r \<longleftrightarrow>
     list_ex (\<lambda>stored. blame_path_matches file_path stored (map_option from_utf8_lossy (ss_repo_path r)))
       (touched_files_from_value (ss_touched_files r))"

section \<open>When a session touched a file\<close>

definition ascii_lower :: "char \<Rightarrow> char" where
  "ascii_lower c = (if 65 \<le> (of_char c :: nat) \<and> (of_char c :: nat) \<le> 90 then char_of ((of_char c :: nat) + 32) else c)"

text \<open>SQLite's \<^verbatim>\<open>LIKE\<close>: letters match without case, \<^verbatim>\<open>_\<close> is any character and \<^verbatim>\<open>%\<close> any text.\<close>

function sql_like :: "string \<Rightarrow> string \<Rightarrow> bool" where
  "sql_like [] s = (s = [])"
| "sql_like (p # ps) s =
     (if s = [] then p = CHR ''%'' \<and> sql_like ps s
      else if p = CHR ''%'' then sql_like ps s \<or> sql_like (p # ps) (drop (fst (utf8_step s)) s)
      else if p = CHR ''_'' then sql_like ps (drop (fst (utf8_step s)) s)
      else ascii_lower p = ascii_lower (hd s) \<and> sql_like ps (tl s))"
  by pat_completeness auto
termination
  by (relation "measure (\<lambda>(p, s). length p + length s)") (auto simp: utf8_step_pos intro!: diff_less)

definition chunk_mentions_file :: "meta_env \<Rightarrow> string \<Rightarrow> string \<Rightarrow> string option \<Rightarrow> bool" where
  "chunk_mentions_file env raw_json file_path repo_path =
     (case me_json_parse env raw_json of
        None \<Rightarrow> False
      | Some v \<Rightarrow>
          (case as_str (json_get ''function'' v) of
             None \<Rightarrow> False
           | Some f \<Rightarrow>
               is_file_mutation_tool f \<and>
               list_ex (\<lambda>candidate. blame_path_matches file_path candidate repo_path) (collect_json_strings v)))"

definition file_needle :: "string \<Rightarrow> string" where
  "file_needle file_path =
     (let name = last (split_on (CHR ''/'') file_path) in if name = [] then file_path else name)"

definition source_session_file_touch_time ::
  "meta_env \<Rightarrow> meta_db \<Rightarrow> string \<Rightarrow> string \<Rightarrow> string \<Rightarrow> string option \<Rightarrow> string option" where
  "source_session_file_touch_time env db source_id external file_path repo_path =
     map_option sk_created_at (find (\<lambda>r. chunk_mentions_file env (sk_raw r) file_path repo_path)
       (sort_desc sk_index
         (filter (\<lambda>r. sk_action_type r = ''tool_call'' \<and>
             sql_like (''%'' @ file_needle file_path @ ''%'') (sk_raw r))
           (List.map_filter (\<lambda>(s, r). if Some s = read_source_session_id db source_id external then Some r else None)
             (md_chunks db)))))"

definition query_source_file_session_blame ::
  "meta_env \<Rightarrow> meta_db \<Rightarrow> blame_query \<Rightarrow> meta_error + file_session_row list" where
  "query_source_file_session_blame env db q =
     and_then (read_sessions env (filter (\<lambda>r. ss_touched_files r \<noteq> None)
       (newest_sessions (bq_source_id q) (snd (md_sessions db))))) (\<lambda>records.
     let matched = map (\<lambda>r. (same_repo (bq_repo_path q) r,
           source_session_blame_row env (bq_file_path q) r
             (source_session_file_touch_time env db (ss_source_id r) (ss_external_id r) (bq_file_path q)
               (map_option from_utf8_lossy (ss_repo_path r)))))
           (filter (touches (bq_file_path q)) records)
     in Inr (take (normalized_limit (bq_limit q)) (map snd (sort_key (\<lambda>(same, _). \<not> same) matched))))"

section \<open>Who wrote a text\<close>

definition better_chunk :: "nat \<times> nat \<Rightarrow> nat \<times> nat \<Rightarrow> bool" where
  "better_chunk a b \<longleftrightarrow> fst a < fst b \<or> fst a = fst b \<and> snd b < snd a"

definition evidence_rank :: "json \<Rightarrow> nat" where
  "evidence_rank ev = (case as_str (json_get ''kind'' ev) of None \<Rightarrow> 2 | Some k \<Rightarrow> provenance_rank k)"

fun best_text_chunk ::
  "string \<Rightarrow> (nat \<times> chunk_record \<times> json) option \<Rightarrow> chunk_record list \<Rightarrow> (chunk_record \<times> json) option" where
  "best_text_chunk text best [] = map_option snd best"
| "best_text_chunk text best (c # cs) =
     (if sk_action_type c \<noteq> ''tool_call'' \<or> \<not> is_file_mutation_tool (sk_function c)
      then best_text_chunk text best cs
      else (case chunk_text_evidence (sk_args c) (sk_result c) (sk_raw c) text of
              None \<Rightarrow> best_text_chunk text best cs
            | Some ev \<Rightarrow>
                (let rank = evidence_rank ev;
                     replace = (case best of None \<Rightarrow> True
                       | Some (r, b, _) \<Rightarrow> better_chunk (rank, sk_index c) (r, sk_index b))
                 in best_text_chunk text (if replace then Some (rank, c, ev) else best) cs)))"

definition source_session_text_match_chunk ::
  "meta_env \<Rightarrow> meta_db \<Rightarrow> string \<Rightarrow> string \<Rightarrow> string \<Rightarrow> meta_error + (chunk_record \<times> json) option" where
  "source_session_text_match_chunk env db source_id external text =
     and_then (list_source_session_chunks env db source_id external) (\<lambda>chunks.
       Inr (best_text_chunk text None chunks))"

definition text_match_row ::
  "meta_env \<Rightarrow> string \<Rightarrow> session_record \<Rightarrow> chunk_record \<Rightarrow> json \<Rightarrow> nat \<times> file_session_row" where
  "text_match_row env file_path r chunk evidence0 =
     (let kind = unwrap_or (as_str (json_get ''kind'' evidence0)) ''text_match_diff_output'';
          chunk_keys = [(''chunk_id'', JStr (sk_chunk_id chunk)), (''chunk_index'', enc_u64 (of_nat (sk_index chunk))),
                        (''function'', JStr (sk_function chunk))];
          ev = json_insert_all ([(''source'', JStr (ss_source_id r)), (''session_id'', JStr (ss_external_id r))] @
                       chunk_keys) evidence0;
          row = source_session_blame_row env file_path r (Some (sk_created_at chunk))
      in (provenance_rank kind,
          row\<lparr>fb_confidence := Some kind,
              fb_source_pointer := map_option (json_insert_all (chunk_keys @
                [(''match_confidence'', JStr kind), (''evidence'', ev)])) (fb_source_pointer row)\<rparr>))"

definition query_source_file_session_text_match ::
  "meta_env \<Rightarrow> meta_db \<Rightarrow> blame_query \<Rightarrow> string \<Rightarrow> meta_error + file_session_row list" where
  "query_source_file_session_text_match env db q text =
     (let needle = normalize_match_text text
      in if needle = [] then Inr []
         else and_then (read_sessions env (filter (\<lambda>r. ss_touched_files r \<noteq> None)
                (newest_sessions (bq_source_id q) (snd (md_sessions db))))) (\<lambda>records.
              and_then (collect_results (\<lambda>r.
                  and_then (source_session_text_match_chunk env db (ss_source_id r) (ss_external_id r) needle) (\<lambda>m.
                  Inr (map_option (\<lambda>(c, e). (same_repo (bq_repo_path q) r, text_match_row env (bq_file_path q) r c e)) m)))
                (filter (touches (bq_file_path q)) records)) (\<lambda>found.
              let matched = List.map_filter (\<lambda>x. x) found
              in Inr (take (normalized_limit (bq_limit q))
                   (map (\<lambda>(same, rank, row). row)
                     (sort_key (\<lambda>(same, _). \<not> same) (sort_key (\<lambda>(same, rank, row). rank) matched)))))))"

section \<open>Who wrote a line\<close>

record line_query = blame_query +
  lq_line_text :: string
  lq_line_number :: "u64 option"

text \<open>The lines with their session, in the order of the query.\<close>

definition line_rows :: "meta_env \<Rightarrow> meta_db \<Rightarrow> string option \<Rightarrow> string \<Rightarrow> (line_row \<times> session_row) list" where
  "line_rows env db source_id needle =
     sort_desc (\<lambda>(l, s). lr_created_at l) (sort_key (\<lambda>(l, s). ss_source_id s) (sort_key (\<lambda>(l, s). ss_external_id s)
       (sort_desc (\<lambda>(l, s). lr_chunk_index l)
         (concat (map (\<lambda>l. map (\<lambda>(i, s). (l, s))
            (filter (\<lambda>(i, s). i = lr_session l \<and> optional_filter source_id (ss_source_id s)) (snd (md_sessions db))))
            (filter (\<lambda>l. lr_hash l = line_hash (me_services env) needle \<or> lr_text l = needle \<or> lr_preview l = needle)
              (md_lines db)))))))"

definition line_row_decode :: "meta_env \<Rightarrow> line_row \<times> session_row \<Rightarrow> (line_row \<times> session_record \<times> json) option" where
  "line_row_decode env ls =
     do {
       r \<leftarrow> source_session_from_row env (snd ls);
       ev \<leftarrow> me_json_parse env (lr_evidence (fst ls));
       Some (fst ls, r, ev)
     }"

definition line_record ::
  "meta_env \<Rightarrow> line_query \<Rightarrow> line_row \<Rightarrow> session_record \<Rightarrow> json \<Rightarrow> file_session_row \<times> json" where
  "line_record env q l r evidence0 =
     (let chunk_keys = [(''chunk_id'', JStr (lr_chunk_id l)), (''chunk_index'', enc_u64 (of_nat (lr_chunk_index l))),
                        (''function'', JStr (lr_function l))];
          ev = json_insert_all ([(''kind'', JStr (lr_kind l))] @ chunk_keys @
            [(''matched_line_count'', enc_u64 (of_nat (lr_matched l))),
             (''selected_line_count'', enc_u64 (of_nat (lr_selected l)))] @
            (case lq_line_number q of None \<Rightarrow> [] | Some n \<Rightarrow> [(''line_no'', enc_u64 n)])) evidence0;
          row = source_session_blame_row env (bq_file_path q) r (Some (lr_created_at l))
      in (row\<lparr>fb_confidence := Some (lr_kind l),
              fb_source_pointer := map_option (json_insert_all (chunk_keys @
                [(''match_confidence'', JStr (lr_kind l)), (''evidence'', ev)])) (fb_source_pointer row)\<rparr>,
          ev))"

definition line_matches :: "line_query \<Rightarrow> line_row \<times> session_record \<times> json \<Rightarrow> bool" where
  "line_matches q x = (case x of (l, r, e) \<Rightarrow>
     blame_path_matches (bq_file_path q) (lr_file_path l) (map_option from_utf8_lossy (ss_repo_path r)))"

definition query_source_file_line_provenance ::
  "meta_env \<Rightarrow> meta_db \<Rightarrow> line_query \<Rightarrow> meta_error + (file_session_row \<times> json) list" where
  "query_source_file_line_provenance env db q =
     (let needle = normalize_line_text (lq_line_text q)
      in if needle = [] then Inr []
         else and_then (collect_results (\<lambda>ls. ok_or (line_row_decode env ls) Bad_Row)
                (line_rows env db (bq_source_id q) needle)) (\<lambda>rows.
              let matched = map (\<lambda>(l, r, e). (same_repo (bq_repo_path q) r, provenance_rank (lr_kind l), line_record env q l r e))
                    (filter (line_matches q) rows)
              in Inr (take (normalized_limit (bq_limit q))
                   (map (\<lambda>(same, rank, record). record)
                     (sort_key (\<lambda>(same, _). \<not> same) (sort_key (\<lambda>(same, rank, _). rank)
                       (sort_desc (\<lambda>(same, rank, (row, e)). case fb_occurred_at row of None \<Rightarrow> [] | Some t \<Rightarrow> [t]) matched)))))))"

section \<open>Free-text search\<close>

definition search_terms :: "meta_env \<Rightarrow> string \<Rightarrow> string list" where
  "search_terms env query = filter (\<lambda>t. t \<noteq> []) (map (me_lower env) (split_whitespace query))"

definition intent_text :: "session_record \<Rightarrow> string" where
  "intent_text r =
     join '' '' ((case ss_title r of None \<Rightarrow> [] | Some t \<Rightarrow> [t]) @
       (case ss_name r of None \<Rightarrow> [] | Some n \<Rightarrow> if ss_title r \<noteq> Some n then [n] else []))"

definition files_text :: "session_record \<Rightarrow> string" where
  "files_text r = join '' '' (touched_files_from_value (ss_touched_files r))"

definition record_field_contains :: "meta_env \<Rightarrow> session_record \<Rightarrow> string \<Rightarrow> bool" where
  "record_field_contains env r needle =
     (let n = me_lower env needle; inside = (\<lambda>text. contains n (me_lower env text));
          optional = (\<lambda>v. case v of None \<Rightarrow> False | Some text \<Rightarrow> inside text)
      in inside (intent_text r) \<or> optional (ss_branch r) \<or> optional (ss_model r) \<or>
         optional (map_option from_utf8_lossy (ss_repo_path r)) \<or>
         list_ex inside (touched_files_from_value (ss_touched_files r)))"

definition fts5_and_expression :: "string list \<Rightarrow> string" where
  "fts5_and_expression terms = join '' AND '' (map quote_identifier terms)"

definition fts_columns :: "session_record \<Rightarrow> string list" where
  "fts_columns r =
     [intent_text r, files_text r, unwrap_or (map_option from_utf8_lossy (ss_repo_path r)) [],
      unwrap_or (ss_branch r) [], unwrap_or (ss_model r) []]"

definition rank_candidates_fts5 :: "meta_env \<Rightarrow> session_record list \<Rightarrow> string list \<Rightarrow> session_record list" where
  "rank_candidates_fts5 env candidates terms =
     (let long_terms = filter (\<lambda>t. 3 \<le> char_count t) terms;
          survives = (\<lambda>r. list_all (record_field_contains env r) terms)
      in if long_terms = [] then filter survives candidates
         else filter survives (List.map_filter (\<lambda>i. if i < length candidates then Some (candidates ! i) else None)
                (me_fts env (map fts_columns candidates) (fts5_and_expression long_terms))))"

definition query_source_sessions_text ::
  "meta_env \<Rightarrow> meta_db \<Rightarrow> string \<Rightarrow> string option \<Rightarrow> nat \<Rightarrow> meta_error + session_record list" where
  "query_source_sessions_text env db query source_id limit =
     and_then (read_sessions env (filter ss_listable (newest_sessions source_id (snd (md_sessions db))))) (\<lambda>candidates.
       let terms = search_terms env query
       in Inr (take (normalized_limit limit)
            (if terms = [] then candidates else rank_candidates_fts5 env candidates terms)))"

section \<open>Ranking\<close>

lemma sort_key_bool:
  fixes p :: "'a \<Rightarrow> bool"
  shows "sort_key (\<lambda>x. \<not> p x) xs = filter p xs @ filter (\<lambda>x. \<not> p x) xs"
proof (induction xs)
  case (Cons x xs)
  have *: "insort_key (\<lambda>x. \<not> p x) x (ys @ zs) = (if p x then x # ys @ zs else ys @ x # zs)"
    if "\<forall>y\<in>set ys. p y" "\<forall>z\<in>set zs. \<not> p z" for ys zs
    using that by (induction ys) (cases zs; auto)+
  show ?case by (simp add: Cons.IH *)
qed simp


section \<open>The lines of a session\<close>

lemma fold_insert_line_keys:
  "line_key ` set (fold insert_line rs rows) = line_key ` set rows \<union> line_key ` set rs"
  by (induction rs arbitrary: rows) (auto simp: insert_line_def)

lemma fold_insert_line_subset: "set (fold insert_line rs rows) \<subseteq> set rows \<union> set rs"
proof (induction rs arbitrary: rows)
  case (Cons r rs)
  from Cons.IH [of "insert_line r rows"] show ?case by (auto simp: insert_line_def split: if_splits)
qed simp

definition session_lines :: "meta_env \<Rightarrow> rowid \<Rightarrow> nat \<Rightarrow> activity_chunk list \<Rightarrow> line_row list" where
  "session_lines env session n cs = concat (map (\<lambda>(n, c). chunk_line_rows env session n c) (List.enumerate n cs))"

lemma insert_chunks_lines:
  "insert_chunks env session n cs db = Inr db' \<Longrightarrow>
   md_lines db' = fold insert_line (session_lines env session n cs) (md_lines db) \<and>
   md_sessions db' = md_sessions db \<and> distinct (map ac_chunk_id cs) \<and>
   (\<forall>c\<in>set cs. \<forall>x\<in>set (md_chunks db). fst x = session \<longrightarrow> sk_chunk_id (snd x) \<noteq> ac_chunk_id c)"
proof (induction cs arbitrary: n db)
  case (Cons c cs)
  obtain row where row: "chunk_params env n c = Some row" using Cons.prems by (auto split: option.splits)
  note id = chunk_params_id [OF row]
  define db1 where "db1 = db\<lparr>md_chunks := md_chunks db @ [(session, row)],
    md_lines := insert_line_provenance_for_chunk env session n c (md_lines db)\<rparr>"
  have free: "\<not> list_ex (\<lambda>(s, r). s = session \<and> sk_chunk_id r = sk_chunk_id row) (md_chunks db)"
    and "insert_chunks env session (Suc n) cs db1 = Inr db'"
    using Cons.prems row by (auto simp: db1_def split: if_splits)
  from Cons.IH [OF this(2)] have tail: "md_lines db' = fold insert_line (session_lines env session (Suc n) cs) (md_lines db1)"
    "md_sessions db' = md_sessions db1" "distinct (map ac_chunk_id cs)"
    "\<forall>d\<in>set cs. \<forall>x\<in>set (md_chunks db1). fst x = session \<longrightarrow> sk_chunk_id (snd x) \<noteq> ac_chunk_id d"
    by blast+
  have lines: "md_lines db' = fold insert_line (session_lines env session n (c # cs)) (md_lines db)"
    by (simp add: tail(1) db1_def session_lines_def insert_line_provenance_for_chunk_def)
  have "ac_chunk_id c \<notin> ac_chunk_id ` set cs"
    using tail(4) id by (force simp: db1_def)
  moreover have "\<forall>d\<in>set (c # cs). \<forall>x\<in>set (md_chunks db). fst x = session \<longrightarrow> sk_chunk_id (snd x) \<noteq> ac_chunk_id d"
    using tail(4) free id by (force simp: db1_def list_ex_iff)
  ultimately show ?case using lines tail(2,3) by (simp add: db1_def)
qed (simp add: session_lines_def)

lemma chunk_line_rowsD:
  "r \<in> set (chunk_line_rows env session n c) \<Longrightarrow> lr_session r = session \<and> lr_chunk_id r = ac_chunk_id c"
  by (auto simp: chunk_line_rows_def Let_def line_row_of_def split: if_splits option.splits)

lemma session_lines_in:
  "r \<in> set (session_lines env session n cs) \<longleftrightarrow>
     (\<exists>i c. (i, c) \<in> set (List.enumerate n cs) \<and> r \<in> set (chunk_line_rows env session i c))"
  by (auto simp: session_lines_def)

text \<open>A line that a chunk wrote has a row of that chunk after the chunks are stored.\<close>

lemma written_line_stored:
  assumes up: "upsert_source_session_chunks env a b cs db = (db', Inr ())" and c: "c \<in> set cs"
    and tool: "ac_action_type c = action_type_tool_call" "is_file_mutation_tool (ac_function c)"
    and path: "chunk_file_path c = Some path" and content: "edit_tool_payload_has_content (ac_args c)"
    and l: "l \<in> set (chunk_provenance_lines c ''exact_edit_hunk'')"
    and session: "read_source_session_id db a b = Some session"
  shows "md_sessions db' = md_sessions db \<and>
    (\<exists>r\<in>set (md_lines db'). lr_session r = session \<and> lr_hash r = line_hash (me_services env) l \<and>
       lr_file_path r = path \<and> lr_kind r = ''exact_edit_hunk'' \<and> lr_created_at r = ac_created_at c)"
proof -
  define old where "old = filter (\<lambda>r. lr_session r \<noteq> session) (md_lines db)"
  have ins: "insert_chunks env session 0 cs (db\<lparr>md_chunks := filter (\<lambda>(s, r). s \<noteq> session) (md_chunks db),
      md_lines := old\<rparr>) = Inr db'"
    using up by (auto simp: upsert_source_session_chunks_def session old_def split: sum.splits)
  from insert_chunks_lines [OF ins] have lines: "md_lines db' = fold insert_line (session_lines env session 0 cs) old"
    and same: "md_sessions db' = md_sessions db" and dist: "distinct (map ac_chunk_id cs)" by simp_all
  have mem: "d \<in> set cs" if "(i, d) \<in> set (List.enumerate 0 cs)" for i d
    using that by (metis in_set_zip enumerate_eq_zip snd_conv nth_mem)
  obtain n where n: "(n, c) \<in> set (List.enumerate 0 cs)"
    using c by (metis in_set_conv_nth nth_enumerate_eq length_enumerate add_0)
  define r where "r = line_row_of env session n c path ''exact_edit_hunk'' l"
  have rows: "chunk_line_rows env session i c =
      map (line_row_of env session i c path ''exact_edit_hunk'') (chunk_provenance_lines c ''exact_edit_hunk'')" for i
    by (simp add: chunk_line_rows_def tool path content Let_def)
  have "r \<in> set (chunk_line_rows env session n c)"
    unfolding rows r_def using l by simp
  then have "r \<in> set (session_lines env session 0 cs)"
    unfolding session_lines_in using n by blast
  then have "line_key r \<in> line_key ` set (md_lines db')"
    unfolding lines fold_insert_line_keys by blast
  then obtain r' where r': "r' \<in> set (md_lines db')" "line_key r' = line_key r" by (metis imageE)
  have key: "lr_session r' = session" "lr_hash r' = line_hash (me_services env) l" "lr_chunk_id r' = ac_chunk_id c"
    using r'(2) by (simp_all add: line_key_def r_def line_row_of_def)
  have "r' \<in> set (session_lines env session 0 cs)"
    using r'(1) fold_insert_line_subset key(1) by (fastforce simp: lines old_def)
  then obtain i d where d: "(i, d) \<in> set (List.enumerate 0 cs)" "r' \<in> set (chunk_line_rows env session i d)"
    unfolding session_lines_in by blast
  have "d = c"
    using dist c mem [OF d(1)] chunk_line_rowsD [OF d(2)] key(3) by (auto simp: distinct_map dest: inj_onD)
  with d(2) have "lr_file_path r' = path" "lr_kind r' = ''exact_edit_hunk''" "lr_created_at r' = ac_created_at c"
    by (auto simp: rows line_row_of_def)
  with same r'(1) key(1,2) show ?thesis by blast
qed

lemma find_session_row:
  assumes "read_source_session_id db a b = Some session" "read_source_session env db a b = Inr (Some r)"
  shows "\<exists>s. (session, s) \<in> set (snd (md_sessions db)) \<and> source_session_from_row env s = Some r \<and>
    ss_source_id r = a \<and> ss_external_id r = b \<and> ss_source_id s = a"
proof -
  obtain s where s: "find_session db a b = Some (session, s)" "source_session_from_row env s = Some r"
    using assms by (auto simp: read_source_session_id_def read_source_session_def split: option.splits)
  then have "(session, s) \<in> set (snd (md_sessions db))" "is_session a b s"
    by (auto simp: find_session_def dest: find_row_Some)
  then show ?thesis using s(2)
    by (auto simp: is_session_def source_session_from_row_def bind_eq_Some_conv)
qed

lemma line_rows_set:
  "(l, s) \<in> set (line_rows env db source_id needle) \<longleftrightarrow>
     l \<in> set (md_lines db) \<and>
     (lr_hash l = line_hash (me_services env) needle \<or> lr_text l = needle \<or> lr_preview l = needle) \<and>
     (lr_session l, s) \<in> set (snd (md_sessions db)) \<and> optional_filter source_id (ss_source_id s)"
  by (auto simp: line_rows_def)

lemma collect_results_in:
  "collect_results f xs = Inr ys \<Longrightarrow> x \<in> set xs \<Longrightarrow> \<exists>y\<in>set ys. f x = Inr y"
  unfolding collect_results_Inr by (induction rule: list_all2_induct) auto

lemma and_then_Inr_obtain:
  assumes "and_then x f = Inr y"
  obtains v where "x = Inr v" "f v = Inr y"
  using assms by (cases x) auto

lemma take_short: "xs = take n ys \<Longrightarrow> length xs < n \<Longrightarrow> xs = ys"
  by simp

definition line_results ::
  "meta_env \<Rightarrow> line_query \<Rightarrow> (line_row \<times> session_record \<times> json) list \<Rightarrow> (file_session_row \<times> json) list" where
  "line_results env q rows =
     map (\<lambda>(same, rank, record). record)
       (sort_key (\<lambda>(same, _). \<not> same) (sort_key (\<lambda>(same, rank, _). rank)
         (sort_desc (\<lambda>(same, rank, (row, e)). case fb_occurred_at row of None \<Rightarrow> [] | Some t \<Rightarrow> [t])
           (map (\<lambda>(l, r, e). (same_repo (bq_repo_path q) r, provenance_rank (lr_kind l), line_record env q l r e))
             (filter (line_matches q) rows)))))"

lemma line_query_unfold:
  "query_source_file_line_provenance env db q =
     (if normalize_line_text (lq_line_text q) = [] then Inr []
      else and_then (collect_results (\<lambda>ls. ok_or (line_row_decode env ls) Bad_Row)
             (line_rows env db (bq_source_id q) (normalize_line_text (lq_line_text q))))
           (\<lambda>rows. Inr (take (normalized_limit (bq_limit q)) (line_results env q rows))))"
  by (simp only: query_source_file_line_provenance_def Let_def line_results_def)

lemma line_results_set:
  "x \<in> set (line_results env q rows) \<longleftrightarrow>
     (\<exists>l r e. (l, r, e) \<in> set rows \<and> line_matches q (l, r, e) \<and> x = line_record env q l r e)"
  by (force simp: line_results_def)


section \<open>Search results\<close>

text \<open>
  C27: a session search returns only listable sessions, as many as the limit allows, and each of
  them contains every word of the query, without regard to case, whatever the full-text index
  answers; a query whose words are all short is answered without the index, by exactly those
  sessions, newest first.
\<close>

theorem search_results_sound:
  assumes "read_sessions env (filter ss_listable (newest_sessions source_id (snd (md_sessions db)))) = Inr candidates"
  shows "\<exists>found. query_source_sessions_text env db query source_id limit = Inr found \<and>
    length found \<le> normalized_limit limit \<and>
    (\<forall>r\<in>set found. r \<in> set candidates \<and> (\<forall>t\<in>set (search_terms env query). record_field_contains env r t)) \<and>
    ((\<forall>t\<in>set (search_terms env query). char_count t < 3) \<longrightarrow>
       found = take (normalized_limit limit)
         (filter (\<lambda>r. \<forall>t\<in>set (search_terms env query). record_field_contains env r t) candidates))"
proof -
  let ?terms = "search_terms env query"
  let ?all = "if ?terms = [] then candidates else rank_candidates_fts5 env candidates ?terms"
  have sub: "r \<in> set candidates \<and> (\<forall>t\<in>set ?terms. record_field_contains env r t)" if "r \<in> set ?all" for r
    using that by (auto simp: rank_candidates_fts5_def Let_def list_all_iff set_map_filter split: if_splits)
  have short: "?all = filter (\<lambda>r. \<forall>t\<in>set ?terms. record_field_contains env r t) candidates"
    if "\<forall>t\<in>set ?terms. char_count t < 3"
  proof -
    have "filter (\<lambda>t. 3 \<le> char_count t) ?terms = []" using that by (auto simp: filter_empty_conv)
    then show ?thesis by (simp add: rank_candidates_fts5_def Let_def list_all_iff)
  qed
  define found where "found = take (normalized_limit limit) ?all"
  have run: "query_source_sessions_text env db query source_id limit = Inr found"
    by (simp only: query_source_sessions_text_def assms Let_def and_then_simps found_def)
  have len: "length found \<le> normalized_limit limit" by (simp add: found_def)
  have all: "\<forall>r\<in>set found. r \<in> set candidates \<and> (\<forall>t\<in>set ?terms. record_field_contains env r t)"
    unfolding found_def using sub in_set_takeD by metis
  have few: "(\<forall>t\<in>set ?terms. char_count t < 3) \<longrightarrow> found = take (normalized_limit limit)
      (filter (\<lambda>r. \<forall>t\<in>set ?terms. record_field_contains env r t) candidates)"
    unfolding found_def using short by (intro impI arg_cong [of _ _ "take (normalized_limit limit)"])
  show ?thesis by (intro exI [of _ found] conjI run len all few)
qed

section \<open>A small example\<close>

lemma sample_sessions:
  obtains s where "md_sessions sample_session_db = (2, [(1, s)])"
    and "source_session_from_row sample_meta_env s = Some (session_record_of sample_upsert 7 7)"
    and "ss_source_id s = ''claude''" and "ss_touched_files s \<noteq> None" and "ss_listable s"
proof -
  obtain p where p: "session_params sample_meta_env sample_upsert = Some p" using sample_params by blast
  let ?s = "session_row_of p (show_int 7) (show_int 7)"
  have s: "source_session_from_row sample_meta_env ?s = Some (session_record_of sample_upsert 7 7)"
    using session_row_reads_back [OF p sample_session_reads_back, of "show_int 7" 7 "show_int 7" 7] by simp
  have p': "ss_source_id p = ''claude''" "ss_touched_files p \<noteq> None" "ss_listable p"
    using p by (auto simp: session_params_def sample_upsert_def serialize_metadata_json_def bind_eq_Some_conv)
  have row: "ss_source_id ?s = ss_source_id p" "ss_touched_files ?s = ss_touched_files p" "ss_listable ?s = ss_listable p"
    by (simp_all add: session_row_of_def source_session.defs)
  obtain i t where key: "find_session (empty_meta_db\<lparr>md_sessions := sql_upsert session_key
      (\<lambda>r. session_row_of p (ss_created_at r) (show_int 7)) ?s (md_sessions empty_meta_db)\<rparr>)
      (ss_source_id sample_upsert) (ss_external_id sample_upsert) = Some (i, ?s)"
    using find_session_upserted [OF p, where db = empty_meta_db and stamp = "show_int 7"]
    by (simp add: find_session_def find_row_def empty_meta_db_def)
  have "md_sessions sample_session_db = (2, [(1, ?s)])"
    unfolding sample_session_db_def upsert_source_session_def p
    by (simp add: Let_def read_source_session_def key s) (simp add: empty_meta_db_def sql_upsert_def split: option.split)
  with that s p' row show ?thesis by simp
qed

definition sample_query :: blame_query where
  "sample_query = \<lparr>bq_file_path = ''src/a.rs'', bq_source_id = None, bq_repo_path = Some ''/repo'', bq_limit = 10\<rparr>"

lemma sample_newest:
  assumes "md_sessions sample_session_db = (2, [(1, s)])"
    and "source_session_from_row sample_meta_env s = Some (session_record_of sample_upsert 7 7)" and "p s"
  shows "read_sessions sample_meta_env (filter p (newest_sessions None (snd (md_sessions sample_session_db)))) =
    Inr [session_record_of sample_upsert 7 7]"
  using assms by (simp add: newest_sessions_def optional_filter_def sort_desc_def read_sessions_def ok_or_def)

lemma sample_record [simp]:
  "ss_source_id (session_record_of sample_upsert t u) = ''claude''"
  "ss_external_id (session_record_of sample_upsert t u) = ''s1''"
  "ss_title (session_record_of sample_upsert t u) = Some ''Fix cache''"
  "ss_touched_files (session_record_of sample_upsert t u) = Some (JArr [JStr ''src/a.rs''])"
  by (simp_all add: session_record_of_def source_session.defs) (simp_all add: sample_upsert_def)


theorem search_results_sound_witness:
  "query_source_sessions_text sample_meta_env sample_session_db ''ca'' None 10 = Inr [session_record_of sample_upsert 7 7]"
proof -
  obtain s where "md_sessions sample_session_db = (2, [(1, s)])"
    "source_session_from_row sample_meta_env s = Some (session_record_of sample_upsert 7 7)" "ss_listable s"
    using sample_sessions by metis
  note read = sample_newest [where p = ss_listable, OF this]
  have lower: "me_lower sample_meta_env t = t" for t by (simp add: sample_meta_env_def)
  have ws: "split_whitespace ''ca'' = [''ca'']" by code_simp
  have terms: "search_terms sample_meta_env ''ca'' = [''ca'']"
    by (simp add: search_terms_def lower ws)
  have short: "char_count ''ca'' < 3" by code_simp
  have "contains ''ca'' (''Fix cache'' @ t)" for t
    by (simp add: contains.simps)
  then have "record_field_contains sample_meta_env (session_record_of sample_upsert 7 7) ''ca''"
    by (auto simp: record_field_contains_def Let_def lower intent_text_def join_Cons)
  then show ?thesis
    using search_results_sound [OF read, of "''ca''" 10] short by (auto simp: terms normalized_limit_def)
qed

definition sample_edit :: activity_chunk where
  "sample_edit = (sample_chunk ''c1'')\<lparr>ac_args := JObj [(''content'', JStr ''let cache = load();'')]\<rparr>"

lemma sample_edit_lines:
  "chunk_provenance_lines sample_edit ''exact_edit_hunk'' = [''let cache = load();'']"
  "payload_strings (ac_args sample_edit) = [''let cache = load();'']"
  "lines ''let cache = load();'' = [''let cache = load();'']"
  "diff_added_or_plain_line ''let cache = load();'' = Some ''let cache = load();''"
  "chunk_file_path sample_edit = Some ''src/a.rs''" "edit_tool_payload_has_content (ac_args sample_edit)"
  by code_simp+

definition sample_line_query :: line_query where
  "sample_line_query = \<lparr>bq_file_path = ''src/a.rs'', bq_source_id = None, bq_repo_path = None, bq_limit = 10,
     lq_line_text = ''  let cache = load();'', lq_line_number = Some 12\<rparr>"

lemma sample_line_trim: "trim ''  let cache = load();'' = ''let cache = load();''" "trim ''let cache = load();'' = ''let cache = load();''"
  by code_simp+


end
