(* ===== verification/Shell_Edits.thy ===== *)
theory Shell_Edits imports Rust_Str BTree begin

text \<open>
  Which files a shell command of an agent wrote (\<^verbatim>\<open>sources/shell_edits.rs\<close>). The command is cut into
  simple commands, each into words; redirections and a few writing programs name the files. All
  characters the code looks at are ASCII, so bytes stand for characters.
\<close>

section \<open>Words\<close>

definition is_quote :: "char \<Rightarrow> bool" where
  "is_quote c \<longleftrightarrow> c = CHR 0x22 \<or> c = CHR 0x27"

definition trim_matches :: "(char \<Rightarrow> bool) \<Rightarrow> string \<Rightarrow> string" where
  "trim_matches p s = rev (dropWhile p (rev (dropWhile p s)))"

function split_segments_from :: "string \<Rightarrow> string \<Rightarrow> string list" where
  "split_segments_from current [] = [rev current]"
| "split_segments_from current (ch # chars) =
     (if ch = CHR ''&'' \<and> prefix ''&'' chars then rev current # split_segments_from [] (tl chars)
      else if ch = CHR ''|'' \<and> prefix ''|'' chars then rev current # split_segments_from [] (tl chars)
      else if ch \<in> {CHR '';'', CHR ''|'', CHR 0x0A} then rev current # split_segments_from [] chars
      else split_segments_from (ch # current) chars)"
  by pat_completeness auto
termination
  by (relation "measure (\<lambda>(current, chars). length chars)") auto

definition split_segments :: "string \<Rightarrow> string list" where
  "split_segments command = split_segments_from [] command"

definition tokenize :: "string \<Rightarrow> string list" where
  "tokenize segment = filter (\<lambda>t. t \<noteq> []) (map (trim_matches is_quote) (split_whitespace segment))"

definition base_name :: "string \<Rightarrow> string" where
  "base_name token = last (split_on (CHR ''/'') token)"

section \<open>Paths\<close>

definition ascii_digit :: "char \<Rightarrow> bool" where
  "ascii_digit c \<longleftrightarrow> CHR ''0'' \<le> c \<and> c \<le> CHR ''9''"

definition ascii_alphanumeric :: "char \<Rightarrow> bool" where
  "ascii_alphanumeric c \<longleftrightarrow>
     ascii_digit c \<or> CHR ''A'' \<le> c \<and> c \<le> CHR ''Z'' \<or> CHR ''a'' \<le> c \<and> c \<le> CHR ''z''"

definition shell_meta :: "char \<Rightarrow> bool" where
  "shell_meta c \<longleftrightarrow>
     c \<in> {CHR ''&'', CHR ''='', CHR ''{'', CHR ''}'', CHR ''('', CHR '')'', CHR '';'', CHR 0x60, CHR ''<'', CHR ''>'',
          CHR ''|'', CHR 0x5C}"

definition push_path :: "string \<Rightarrow> string list \<Rightarrow> string list" where
  "push_path token files =
     (let trimmed = trim_matches is_quote token
      in if trimmed = [] \<or> prefix ''-'' trimmed \<or> prefix ''$'' trimmed \<or> trimmed = ''/dev/null'' \<or>
            CHR ''*'' \<in> set trimmed then files
         else if list_all ascii_digit trimmed \<or> list_ex shell_meta trimmed then files
         else if \<not> list_ex ascii_alphanumeric trimmed then files
         else bs_insert trimmed files)"

section \<open>Redirections and writing programs\<close>

definition push_glued :: "string \<Rightarrow> string list \<Rightarrow> string list" where
  "push_glued token files =
     (case or_else (strip_prefix ''>>'' token) (strip_prefix ''>'' token) of
        Some rest \<Rightarrow> if rest \<noteq> [] \<and> CHR ''&'' \<notin> set rest then push_path rest files else files
      | None \<Rightarrow> files)"

fun scan_redirects :: "string list \<Rightarrow> string list \<Rightarrow> string list" where
  "scan_redirects [] files = files"
| "scan_redirects [token] files =
     (if token = ''>'' \<or> token = ''>>'' then files else push_glued token files)"
| "scan_redirects (token # target # tokens) files =
     (if token = ''>'' \<or> token = ''>>'' then scan_redirects tokens (push_path target files)
      else scan_redirects (target # tokens) (push_glued token files))"

definition push_all :: "string list \<Rightarrow> string list \<Rightarrow> string list" where
  "push_all tokens files = fold push_path (filter (\<lambda>t. \<not> prefix ''-'' t) tokens) files"

definition scan_commands :: "string list \<Rightarrow> string list \<Rightarrow> string list" where
  "scan_commands tokens files =
     (case tokens of
        [] \<Rightarrow> files
      | first # rest \<Rightarrow>
          (let program = base_name first
           in if program = ''tee'' then push_all rest files
              else if program = ''sed'' \<or> program = ''perl'' then
                (if list_ex (prefix ''-i'') tokens \<and> \<not> prefix ''-'' (last tokens) then push_path (last tokens) files
                 else files)
              else if program = ''touch'' then push_all rest files
              else if program \<in> {''cp'', ''mv'', ''install''} then
                (case find (\<lambda>t. \<not> prefix ''-'' t) (rev rest) of
                   Some dest \<Rightarrow> push_path dest files | None \<Rightarrow> files)
              else files))"

section \<open>Patches\<close>

definition patch_markers :: "string list" where
  "patch_markers = [''*** Add File:'', ''*** Update File:'', ''*** Delete File:'', ''*** Move to:'']"

definition patch_line_path :: "string \<Rightarrow> string \<Rightarrow> string list \<Rightarrow> string list" where
  "patch_line_path trimmed marker files =
     (case strip_prefix marker trimmed of
        None \<Rightarrow> files
      | Some path \<Rightarrow> (let path = trim_matches is_quote (trim path) in if path = [] then files else bs_insert path files))"

definition apply_patch_targets :: "string \<Rightarrow> string list" where
  "apply_patch_targets command =
     fold (\<lambda>line. fold (patch_line_path (trim_start line)) patch_markers) (lines command) []"

definition shell_edit_targets :: "string \<Rightarrow> string list" where
  "shell_edit_targets command =
     (if contains ''*** Begin Patch'' command then apply_patch_targets command
      else fold (\<lambda>segment. scan_commands (tokenize segment) \<circ> scan_redirects (tokenize segment))
             (split_segments command) [])"

section \<open>Facts\<close>

definition path_like :: "string \<Rightarrow> bool" where
  "path_like p \<longleftrightarrow>
     list_ex ascii_alphanumeric p \<and> \<not> list_all ascii_digit p \<and> \<not> list_ex shell_meta p \<and>
     CHR ''*'' \<notin> set p \<and> \<not> prefix ''-'' p \<and> \<not> prefix ''$'' p \<and> p \<noteq> ''/dev/null''"

lemma push_path_cases:
  "push_path token files = files \<or>
   path_like (trim_matches is_quote token) \<and> push_path token files = bs_insert (trim_matches is_quote token) files"
  by (auto simp: push_path_def path_like_def Let_def)

lemma push_path_set:
  "set (push_path token files) =
     set files \<union> (if path_like (trim_matches is_quote token) then {trim_matches is_quote token} else {})"
  by (auto simp: push_path_def path_like_def Let_def)

definition targets_ok :: "string list \<Rightarrow> bool" where
  "targets_ok files \<longleftrightarrow> bs_inv files \<and> (\<forall>p\<in>set files. path_like p)"

lemma push_path_ok: "targets_ok files \<Longrightarrow> targets_ok (push_path token files)"
  using push_path_cases [of token files] by (auto simp: targets_ok_def bs_insert_inv)

lemma push_glued_ok: "targets_ok files \<Longrightarrow> targets_ok (push_glued token files)"
  by (auto simp: push_glued_def push_path_ok split: option.split)

lemma scan_redirects_ok: "targets_ok files \<Longrightarrow> targets_ok (scan_redirects tokens files)"
  by (induction tokens files rule: scan_redirects.induct) (auto simp: push_path_ok push_glued_ok)

lemma fold_keeps: "(\<And>x s. P s \<Longrightarrow> P (f x s)) \<Longrightarrow> P s \<Longrightarrow> P (fold f xs s)"
  by (induction xs arbitrary: s) auto

lemma push_all_ok: "targets_ok files \<Longrightarrow> targets_ok (push_all tokens files)"
  unfolding push_all_def by (rule fold_keeps) (rule push_path_ok)

lemma scan_commands_ok: "targets_ok files \<Longrightarrow> targets_ok (scan_commands tokens files)"
  by (auto simp: scan_commands_def Let_def push_path_ok push_all_ok split: list.split option.split)

text \<open>
  What the shell reader names of a command that is no patch is a sorted list without
  repetitions of words that look like a file path: with a letter or digit, not a number, not a
  flag, a variable or \<^verbatim>\<open>/dev/null\<close>, and without wildcards or shell metacharacters.
\<close>

theorem shell_targets_are_paths:
  assumes "\<not> contains ''*** Begin Patch'' command"
  shows "sorted_wrt (<) (shell_edit_targets command) \<and> (\<forall>p\<in>set (shell_edit_targets command). path_like p)"
proof -
  have "targets_ok (shell_edit_targets command)"
    using assms by (auto simp: shell_edit_targets_def scan_commands_ok scan_redirects_ok targets_ok_def [of "[]"]
        bs_inv_def intro!: fold_keeps [where P = targets_ok])
  then show ?thesis by (simp add: targets_ok_def bs_inv_def)
qed

section \<open>Commands that write nothing\<close>

definition writing_programs :: "string list" where
  "writing_programs = [''tee'', ''sed'', ''perl'', ''touch'', ''cp'', ''mv'', ''install'']"

lemma scan_redirects_none:
  "(\<And>t. t \<in> set tokens \<Longrightarrow> CHR ''>'' \<notin> set t) \<Longrightarrow> scan_redirects tokens files = files"
proof (induction tokens files rule: scan_redirects.induct)
  case (2 token files)
  then show ?case by (auto simp: push_glued_def strip_prefix_def prefix_def split: option.split)
next
  case (3 token target tokens files)
  have glued: "push_glued token files = files"
    using "3.prems" [of token] by (auto simp: push_glued_def strip_prefix_def prefix_def split: option.split)
  have "token \<noteq> ''>''" "token \<noteq> ''>>''" using "3.prems" [of token] by auto
  then show ?case using "3.IH"(2) "3.prems" glued by simp
qed simp

lemma scan_commands_none:
  "(\<And>first rest. tokens = first # rest \<Longrightarrow> base_name first \<notin> set writing_programs) \<Longrightarrow>
   scan_commands tokens files = files"
  by (cases tokens) (auto simp: scan_commands_def writing_programs_def Let_def)

lemma trim_matches_subset: "set (trim_matches p s) \<subseteq> set s"
  by (auto simp: trim_matches_def dest!: set_dropWhileD)

lemma split_ws_subset: "t \<in> set (split_ws cur s) \<Longrightarrow> set t \<subseteq> set cur \<union> set s"
proof (induction cur s rule: split_ws.induct)
  case (1 cur s)
  show ?case
  proof (cases "s = []")
    case True
    then show ?thesis using "1.prems" split_ws.simps [of cur "[]"] by (auto split: if_splits)
  next
    case False
    note unfolded = split_ws.simps [of cur s]
    show ?thesis
    proof (cases "seq_len ws_seqs s = 0")
      case True
      then have "t \<in> set (split_ws (hd s # cur) (tl s))" using "1.prems" False unfolded by simp
      from "1.IH"(1) [OF False True this] show ?thesis using False by (cases s) auto
    next
      case nz: False
      have sub: "set (drop n s) \<subseteq> set s" for n by (rule set_drop_subset)
      show ?thesis using "1.prems" False nz unfolded "1.IH"(2) [OF False nz] sub
        by (auto split: if_splits dest!: set_mp [OF sub])
    qed
  qed
qed

lemma split_segments_subset: "seg \<in> set (split_segments_from cur s) \<Longrightarrow> set seg \<subseteq> set cur \<union> set s"
proof (induction cur s rule: split_segments_from.induct)
  case (2 cur ch chars)
  have "set (tl chars) \<subseteq> set chars" by (cases chars) auto
  with 2 show ?case by (auto split: if_splits)
qed auto

lemma tokenize_subset: "t \<in> set (tokenize segment) \<Longrightarrow> set t \<subseteq> set segment"
  using trim_matches_subset split_ws_subset by (fastforce simp: tokenize_def split_whitespace_def)

text \<open>
  A command without a redirection and without a writing program, patches aside, is taken to
  have written nothing, however many simple commands it chains.
\<close>

theorem read_only_writes_nothing:
  assumes "\<not> contains ''*** Begin Patch'' command" and "CHR ''>'' \<notin> set command"
    and "\<forall>segment\<in>set (split_segments command). \<forall>first rest.
      tokenize segment = first # rest \<longrightarrow> base_name first \<notin> set writing_programs"
  shows "shell_edit_targets command = []"
proof -
  have "(scan_commands (tokenize segment) \<circ> scan_redirects (tokenize segment)) [] = []"
    if seg: "segment \<in> set (split_segments command)" for segment
  proof -
    have "CHR ''>'' \<notin> set t" if "t \<in> set (tokenize segment)" for t
      using tokenize_subset [OF that] split_segments_subset [OF seg [unfolded split_segments_def]] assms(2) by auto
    then show ?thesis using assms(3) seg by (simp add: scan_redirects_none scan_commands_none)
  qed
  then have "fold (\<lambda>segment. scan_commands (tokenize segment) \<circ> scan_redirects (tokenize segment)) segs [] = []"
    if "set segs \<subseteq> set (split_segments command)" for segs
    using that by (induction segs) auto
  then show ?thesis using assms(1) by (simp add: shell_edit_targets_def)
qed

lemma read_only_writes_nothing_witness: "shell_edit_targets ''cd src; rg -n foo | head -3'' = []"
proof -
  have seg: "split_segments ''cd src; rg -n foo | head -3'' = [''cd src'', '' rg -n foo '', '' head -3'']" by code_simp
  have tok: "tokenize ''cd src'' = [''cd'', ''src'']" "tokenize '' rg -n foo '' = [''rg'', ''-n'', ''foo'']"
    "tokenize '' head -3'' = [''head'', ''-3'']" by code_simp+
  have base: "base_name ''cd'' = ''cd''" "base_name ''rg'' = ''rg''" "base_name ''head'' = ''head''" by code_simp+
  show ?thesis
    by (rule read_only_writes_nothing) (simp_all add: seg tok base writing_programs_def)
qed

lemma shell_targets_are_paths_witness:
  "shell_edit_targets ''echo x > out.txt && sed -i s/a/b/ src/a.rs'' = [''out.txt'', ''src/a.rs''] \<and>
   path_like ''out.txt''"
proof -
  have "shell_edit_targets ''echo x > out.txt && sed -i s/a/b/ src/a.rs'' = [''out.txt'', ''src/a.rs'']"
    by code_simp
  moreover have "\<not> contains ''*** Begin Patch'' ''echo x > out.txt && sed -i s/a/b/ src/a.rs''" by code_simp
  ultimately show ?thesis using shell_targets_are_paths [of "''echo x > out.txt && sed -i s/a/b/ src/a.rs''"] by simp
qed

end
