(* ===== verification/Transcript.thy ===== *)
theory Transcript imports Source_Blame Shell_Edits begin

text \<open>
  What the readers of agent transcripts share: the chunks they build (\<^verbatim>\<open>activity.rs\<close>), the records of
  a JSON-lines file and the fields gathered from them (\<^verbatim>\<open>sources/jsonl.rs\<close>), the metadata of a
  session (\<^verbatim>\<open>native_source.rs\<close>), and the state of a formatting loop: the chunks so far, the tool
  calls that wait for their output, and the next sequence number.
\<close>

section \<open>Chunks\<close>

definition function_user_message :: string where "function_user_message = ''user_message''"
definition function_assistant :: string where "function_assistant = ''assistant''"
definition function_thinking :: string where "function_thinking = ''thinking''"
definition function_run_command_line :: string where "function_run_command_line = ''run_command_line''"
definition function_edit_file :: string where "function_edit_file = ''edit_file_by_replace''"
definition action_type_raw :: string where "action_type_raw = ''raw''"
definition action_type_assistant :: string where "action_type_assistant = ''assistant''"
definition action_type_thinking :: string where "action_type_thinking = ''thinking''"

record imported_tool_call =
  tc_call_id :: string
  tc_raw_name :: string
  tc_canonical_name :: string
  tc_args :: json
  tc_created_at :: string

text \<open>\<open>fr\<close> is the clock and the uuid of one chunk.\<close>

definition activity_chunk_new :: "meta_env \<Rightarrow> fresh \<Rightarrow> string \<Rightarrow> string \<Rightarrow> string \<Rightarrow> activity_chunk" where
  "activity_chunk_new env fr session_id action_type function =
     \<lparr>ac_chunk_id = fresh_uuid fr, ac_session_id = session_id, ac_action_type = action_type,
      ac_function = function, ac_args = JObj [], ac_result = JObj [], ac_created_at = time_text env (fresh_now fr),
      ac_thread_id = None, ac_process_id = None, ac_source_id = None, ac_source_path = None,
      ac_source_record_key = None, ac_source_line_number = None, ac_source_message_id = None,
      ac_source_part_id = None\<rparr>"

definition set_source_pointer ::
  "string \<Rightarrow> string \<Rightarrow> string option \<Rightarrow> u64 option \<Rightarrow> string option \<Rightarrow> string option \<Rightarrow> activity_chunk \<Rightarrow>
   activity_chunk" where
  "set_source_pointer source_id source_path record_key line_number message_id part_id c =
     c\<lparr>ac_source_id := Some source_id, ac_source_path := Some (from_utf8_lossy source_path),
       ac_source_record_key := record_key, ac_source_line_number := line_number,
       ac_source_message_id := message_id, ac_source_part_id := part_id\<rparr>"

definition normalize_created_at :: "meta_env \<Rightarrow> fresh \<Rightarrow> string \<Rightarrow> string" where
  "normalize_created_at env fr raw =
     (if raw = [] then time_text env (fresh_now fr)
      else case me_parse_time env raw of Some t \<Rightarrow> time_text env t | None \<Rightarrow> raw)"

definition chunk_id_of :: "string \<Rightarrow> string \<Rightarrow> nat \<Rightarrow> string" where
  "chunk_id_of slug kind sequence = slug @ ''-'' @ kind @ ''-'' @ show_nat sequence"

definition user_message_chunk ::
  "meta_env \<Rightarrow> string \<Rightarrow> string \<Rightarrow> string \<Rightarrow> string \<Rightarrow> fresh \<Rightarrow> nat \<Rightarrow> activity_chunk" where
  "user_message_chunk env session_id slug created_at message fr sequence =
     (activity_chunk_new env fr session_id action_type_raw function_user_message)
     \<lparr>ac_chunk_id := chunk_id_of slug ''user'' sequence,
      ac_created_at := normalize_created_at env fr created_at,
      ac_result := JObj (bt_of_list [(''type'', JStr ''user''),
        (''message'', JObj (bt_of_list [(''content'', JStr message), (''role'', JStr ''user'')]))])\<rparr>"

definition assistant_message_chunk ::
  "meta_env \<Rightarrow> string \<Rightarrow> string \<Rightarrow> string \<Rightarrow> string \<Rightarrow> fresh \<Rightarrow> nat \<Rightarrow> activity_chunk" where
  "assistant_message_chunk env session_id slug created_at message fr sequence =
     (activity_chunk_new env fr session_id action_type_assistant function_assistant)
     \<lparr>ac_chunk_id := chunk_id_of slug ''asst'' sequence,
      ac_created_at := normalize_created_at env fr created_at,
      ac_result := JObj (bt_of_list [(''observation'', JStr message), (''content'', JStr message),
        (''role'', JStr ''assistant''), (''is_delta'', JBool False), (''is_full_content'', JBool True)])\<rparr>"

definition thinking_chunk ::
  "meta_env \<Rightarrow> string \<Rightarrow> string \<Rightarrow> string \<Rightarrow> string \<Rightarrow> fresh \<Rightarrow> nat \<Rightarrow> activity_chunk" where
  "thinking_chunk env session_id slug created_at thought fr sequence =
     (activity_chunk_new env fr session_id action_type_thinking function_thinking)
     \<lparr>ac_chunk_id := chunk_id_of slug ''thinking'' sequence,
      ac_created_at := normalize_created_at env fr created_at,
      ac_result := JObj (bt_of_list [(''thought'', JStr thought), (''content'', JStr thought),
        (''observation'', JStr thought), (''is_delta'', JBool False)])\<rparr>"

definition tool_call_chunk ::
  "meta_env \<Rightarrow> string \<Rightarrow> string \<Rightarrow> imported_tool_call \<Rightarrow> string \<Rightarrow> fresh \<Rightarrow> nat \<Rightarrow> activity_chunk" where
  "tool_call_chunk env session_id slug call output fr sequence =
     (activity_chunk_new env fr session_id action_type_tool_call (tc_canonical_name call))
     \<lparr>ac_chunk_id := chunk_id_of slug ''tool'' sequence @ ''-'' @ tc_call_id call,
      ac_created_at := normalize_created_at env fr (tc_created_at call),
      ac_args := tc_args call,
      ac_result := JObj (bt_of_list [(''success'', JBool True), (''status'', JStr ''completed''),
        (''call_id'', JStr (tc_call_id call)), (''output'', JStr output), (''observation'', JStr output),
        (''raw_tool_name'', JStr (tc_raw_name call))])\<rparr>"

definition parse_inner_json :: "meta_env \<Rightarrow> string \<Rightarrow> json" where
  "parse_inner_json env raw =
     (if trim raw = [] then JObj []
      else unwrap_or (me_json_parse env raw) (JObj [(''input'', JStr raw)]))"

section \<open>JSON lines\<close>

datatype transcript_error =
    Source_Path_Missing
  | Source_Unreadable
  | Source_Unparsable
  | Jsonl_Line_Unparsable nat

record jsonl_record =
  jr_value :: json
  jr_line_number :: u64

text \<open>The text of the file is none when it cannot be read as UTF-8.\<close>

definition read_jsonl_record :: "meta_env \<Rightarrow> nat \<times> string \<Rightarrow> transcript_error + jsonl_record option" where
  "read_jsonl_record env entry =
     (case entry of (line_index, line) \<Rightarrow>
        if trim line = [] then Inr None
        else (case me_json_parse env (trim line) of
                None \<Rightarrow> Inl (Jsonl_Line_Unparsable (line_index + 1))
              | Some v \<Rightarrow> Inr (Some \<lparr>jr_value = v, jr_line_number = of_nat (line_index + 1)\<rparr>)))"

definition read_jsonl_records :: "meta_env \<Rightarrow> string option \<Rightarrow> transcript_error + jsonl_record list" where
  "read_jsonl_records env contents =
     (case contents of
        None \<Rightarrow> Inl Source_Unreadable
      | Some text \<Rightarrow>
          and_then (collect_results (read_jsonl_record env) (List.enumerate 0 (lines text)))
            (\<lambda>rs. Inr (List.map_filter (\<lambda>r. r) rs)))"

definition read_jsonl_values :: "meta_env \<Rightarrow> string option \<Rightarrow> transcript_error + json list" where
  "read_jsonl_values env contents = and_then (read_jsonl_records env contents) (\<lambda>rs. Inr (map jr_value rs))"

definition text_from_value :: "json \<Rightarrow> string option" where
  "text_from_value value =
     (case value of
        JStr text \<Rightarrow> Some text
      | JArr items \<Rightarrow>
          Some (join [CHR 0x0A] (List.map_filter
            (\<lambda>item. as_str (or_else (json_get ''text'' item) (json_get ''content'' item))) items))
      | _ \<Rightarrow> None)"

definition normalize_title :: "string \<Rightarrow> string" where
  "normalize_title value = join '' '' (split_whitespace value)"

definition token_value :: "json \<Rightarrow> string \<Rightarrow> u64" where
  "token_value value key = unwrap_or (Option.bind (json_get key value) dec_u64) 0"

section \<open>Session metadata\<close>

record native_session_metadata =
  nm_title :: "string option"
  nm_parser_version :: "string option"
  nm_session_created_at :: "instant option"
  nm_session_updated_at :: "instant option"
  nm_model :: "string option"
  nm_input_tokens :: "u64 option"
  nm_output_tokens :: "u64 option"
  nm_repo_path :: "string option"
  nm_branch :: "string option"
  nm_files_changed :: "u64 option"
  nm_lines_added :: "u64 option"
  nm_lines_removed :: "u64 option"
  nm_touched_files :: "string list"
  nm_listable :: bool
  nm_metadata_json :: "json option"
  nm_cwd :: "string option"

definition blank_metadata :: native_session_metadata where
  "blank_metadata =
     \<lparr>nm_title = None, nm_parser_version = None, nm_session_created_at = None, nm_session_updated_at = None,
      nm_model = None, nm_input_tokens = None, nm_output_tokens = None, nm_repo_path = None, nm_branch = None,
      nm_files_changed = None, nm_lines_added = None, nm_lines_removed = None, nm_touched_files = [],
      nm_listable = True, nm_metadata_json = None, nm_cwd = None\<rparr>"

text \<open>A session as a provider lists it.\<close>

datatype liveness = Active | Idle | Liveness_Unknown

record native_source_session =
  ns_external_session_id :: string
  ns_source_app_id :: string
  ns_title :: "string option"
  ns_path :: string
  ns_size_bytes :: u64
  ns_modified_at :: "instant option"
  ns_parser_version :: string
  ns_session_created_at :: "instant option"
  ns_session_updated_at :: "instant option"
  ns_model :: "string option"
  ns_input_tokens :: "u64 option"
  ns_output_tokens :: "u64 option"
  ns_repo_path :: "string option"
  ns_branch :: "string option"
  ns_files_changed :: "u64 option"
  ns_lines_added :: "u64 option"
  ns_lines_removed :: "u64 option"
  ns_touched_files :: "string list"
  ns_listable :: bool
  ns_metadata_json :: "json option"
  ns_cwd :: "string option"
  ns_liveness :: liveness
  ns_last_activity :: "instant option"

definition saturating_add :: "u64 \<Rightarrow> u64 \<Rightarrow> u64" where
  "saturating_add a b = (if a + b < a then - 1 else a + b)"

definition add_file :: "string option \<Rightarrow> string list \<Rightarrow> string list" where
  "add_file path files = (case path of Some p \<Rightarrow> if p = [] then files else bs_insert p files | None \<Rightarrow> files)"

text \<open>The files of a session, when there are any, with their number.\<close>

definition set_touched :: "string list \<Rightarrow> native_session_metadata \<Rightarrow> native_session_metadata" where
  "set_touched files meta =
     (if files = [] then meta
      else meta\<lparr>nm_files_changed := Some (of_nat (length files)), nm_touched_files := files\<rparr>)"

definition update_session_times ::
  "meta_env \<Rightarrow> json option \<Rightarrow> native_session_metadata \<Rightarrow> native_session_metadata" where
  "update_session_times env timestamp meta =
     (case Option.bind (as_str timestamp) (me_parse_time env) of
        None \<Rightarrow> meta
      | Some time \<Rightarrow>
          meta\<lparr>nm_session_created_at := Some (case nm_session_created_at meta of Some e \<Rightarrow> min e time | None \<Rightarrow> time),
             nm_session_updated_at := Some (case nm_session_updated_at meta of Some e \<Rightarrow> max e time | None \<Rightarrow> time)\<rparr>)"

definition set_first_string :: "json option \<Rightarrow> string option \<Rightarrow> string option" where
  "set_first_string value target = or_else target (as_str value)"

definition set_first_string_value :: "string \<Rightarrow> string option \<Rightarrow> string option" where
  "set_first_string_value value target = (if target = None \<and> value \<noteq> [] then Some value else target)"

text \<open>The last component of a path, its stem and extension; \<^verbatim>\<open>to_str\<close> fails on what is no UTF-8.\<close>

definition path_components :: "string \<Rightarrow> string list" where
  "path_components path = filter (\<lambda>c. c \<noteq> [] \<and> c \<noteq> ''.'') (split_on (CHR ''/'') path)"

definition file_name :: "string \<Rightarrow> string option" where
  "file_name path =
     (case rev (path_components path) of [] \<Rightarrow> None | c # _ \<Rightarrow> if c = ''..'' then None else Some c)"

definition to_str :: "string \<Rightarrow> string option" where
  "to_str s = (if utf8_valid s then Some s else None)"

definition split_extension :: "string \<Rightarrow> string \<times> string option" where
  "split_extension name =
     (let (ext, stem) = (rev (takeWhile (\<lambda>c. c \<noteq> CHR ''.'') (rev name)), rev (tl (dropWhile (\<lambda>c. c \<noteq> CHR ''.'') (rev name))))
      in if CHR ''.'' \<notin> set name \<or> stem = [] then (name, None) else (stem, Some ext))"

definition path_extension :: "string \<Rightarrow> string option" where
  "path_extension path = Option.bind (Option.bind (file_name path) (snd \<circ> split_extension)) to_str"

definition path_stem :: "string \<Rightarrow> string option" where
  "path_stem path = Option.bind (file_name path) (to_str \<circ> fst \<circ> split_extension)"

definition has_extension :: "string \<Rightarrow> string \<Rightarrow> bool" where
  "has_extension ext path \<longleftrightarrow> map_option (map ascii_lower) (path_extension path) = Some ext"

section \<open>The formatting loop\<close>

text \<open>
  \<open>fo_pending\<close> is the hash map of calls without output, keyed by call id, with the line of the
  call. What the loop emits gets the sequence number of its position.
\<close>

record format_state =
  fo_chunks :: "activity_chunk list"
  fo_pending :: "(string \<times> imported_tool_call \<times> u64) list"
  fo_sequence :: nat

definition format_start :: format_state where
  "format_start = \<lparr>fo_chunks = [], fo_pending = [], fo_sequence = 0\<rparr>"

type_synonym chunk_maker = "fresh \<Rightarrow> nat \<Rightarrow> activity_chunk"

definition emit :: "(nat \<Rightarrow> fresh) \<Rightarrow> chunk_maker \<Rightarrow> format_state \<Rightarrow> format_state" where
  "emit fr mk st =
     st\<lparr>fo_chunks := fo_chunks st @ [mk (fr (fo_sequence st)) (fo_sequence st)], fo_sequence := fo_sequence st + 1\<rparr>"

definition pend :: "imported_tool_call \<Rightarrow> u64 \<Rightarrow> format_state \<Rightarrow> format_state" where
  "pend call line_number st =
     st\<lparr>fo_pending := filter (\<lambda>(i, c). i \<noteq> tc_call_id call) (fo_pending st) @ [(tc_call_id call, call, line_number)]\<rparr>"

text \<open>The chunk of a call, pointing to its line and its call id.\<close>

definition call_chunk ::
  "meta_env \<Rightarrow> string \<Rightarrow> string \<Rightarrow> string \<Rightarrow> string \<Rightarrow> imported_tool_call \<times> u64 \<Rightarrow> string \<Rightarrow> chunk_maker" where
  "call_chunk env source_id session_id slug path call output fr n =
     set_source_pointer source_id path None (Some (snd call)) (Some (tc_call_id (fst call))) None
       (tool_call_chunk env session_id slug (fst call) output fr n)"

definition complete_call ::
  "meta_env \<Rightarrow> (nat \<Rightarrow> fresh) \<Rightarrow> string \<Rightarrow> string \<Rightarrow> string \<Rightarrow> string \<Rightarrow> string \<Rightarrow> string \<Rightarrow> format_state \<Rightarrow>
   format_state" where
  "complete_call env fr source_id session_id slug path call_id output st =
     (case map_of (fo_pending st) call_id of
        None \<Rightarrow> st
      | Some call \<Rightarrow>
          emit fr (call_chunk env source_id session_id slug path call output)
            (st\<lparr>fo_pending := filter (\<lambda>(i, c). i \<noteq> call_id) (fo_pending st)\<rparr>))"

text \<open>
  The calls left over are emitted without output, in the order in which the hash map yields them,
  given by \<open>drain\<close>.
\<close>

definition drain_calls ::
  "meta_env \<Rightarrow> (nat \<Rightarrow> fresh) \<Rightarrow> (string list \<Rightarrow> string list) \<Rightarrow> string \<Rightarrow> string \<Rightarrow> string \<Rightarrow> string \<Rightarrow>
   format_state \<Rightarrow> activity_chunk list" where
  "drain_calls env fr drain source_id session_id slug path st =
     fo_chunks (fold (\<lambda>i. complete_call env fr source_id session_id slug path i [])
       (drain (map fst (fo_pending st))) st)"

section \<open>Numbered chunks\<close>

definition numbered :: "activity_chunk list \<Rightarrow> bool" where
  "numbered cs \<longleftrightarrow> (\<forall>i<length cs. split_on (CHR ''-'') (ac_chunk_id (cs ! i)) ! 2 = show_nat i)"

lemma show_nat_inj: "show_nat a = show_nat b \<longleftrightarrow> a = b"
  by (metis option.inject parse_nat_show_nat)

lemma numbered_distinct: "numbered cs \<Longrightarrow> distinct (map ac_chunk_id cs)"
  by (auto simp: numbered_def distinct_conv_nth) (metis show_nat_inj)

definition numbering :: "chunk_maker \<Rightarrow> bool" where
  "numbering mk \<longleftrightarrow> (\<forall>fr n. split_on (CHR ''-'') (ac_chunk_id (mk fr n)) ! 2 = show_nat n)"

definition format_ok :: "format_state \<Rightarrow> bool" where
  "format_ok st \<longleftrightarrow> numbered (fo_chunks st) \<and> fo_sequence st = length (fo_chunks st)"

lemma format_start_ok [simp]: "format_ok format_start"
  by (simp add: format_ok_def format_start_def numbered_def)

lemma emit_ok: "numbering mk \<Longrightarrow> format_ok st \<Longrightarrow> format_ok (emit fr mk st)"
  by (auto simp: format_ok_def emit_def numbered_def numbering_def nth_append less_Suc_eq)

lemma pend_ok [simp]: "format_ok (pend call n st) = format_ok st"
  by (simp add: format_ok_def pend_def)

lemma split_chunk_id:
  assumes "CHR ''-'' \<notin> set slug" "CHR ''-'' \<notin> set kind"
  shows "split_on (CHR ''-'') (chunk_id_of slug kind n) ! 2 = show_nat n"
    and "split_on (CHR ''-'') (chunk_id_of slug kind n @ CHR ''-'' # i) ! 2 = show_nat n"
proof -
  have d: "CHR ''-'' \<notin> set (show_nat n)"
    using show_nat_digits [of _ n] by fastforce
  show "split_on (CHR ''-'') (chunk_id_of slug kind n) ! 2 = show_nat n"
    using assms d by (simp add: chunk_id_of_def split_on_append split_on_no_sep)
  show "split_on (CHR ''-'') (chunk_id_of slug kind n @ CHR ''-'' # i) ! 2 = show_nat n"
    using assms d by (simp add: chunk_id_of_def split_on_append)
qed

lemma pointer_simps [simp]:
  "ac_chunk_id (set_source_pointer s p k l m i c) = ac_chunk_id c"
  "ac_action_type (set_source_pointer s p k l m i c) = ac_action_type c"
  "ac_function (set_source_pointer s p k l m i c) = ac_function c"
  "ac_args (set_source_pointer s p k l m i c) = ac_args c"
  "ac_result (set_source_pointer s p k l m i c) = ac_result c"
  "ac_created_at (set_source_pointer s p k l m i c) = ac_created_at c"
  "ac_source_line_number (set_source_pointer s p k l m i c) = l"
  by (simp_all add: set_source_pointer_def)

lemma maker_numbering:
  assumes "CHR ''-'' \<notin> set slug"
  shows "numbering (user_message_chunk env session slug t m)"
    and "numbering (assistant_message_chunk env session slug t m)"
    and "numbering (thinking_chunk env session slug t m)"
    and "numbering (tool_call_chunk env session slug call output)"
    and "numbering (call_chunk env source session slug path c output)"
  using assms by (simp_all add: numbering_def user_message_chunk_def assistant_message_chunk_def
      thinking_chunk_def tool_call_chunk_def call_chunk_def split_chunk_id)

lemma pointed_numbering: "numbering mk \<Longrightarrow> numbering (\<lambda>fr n. set_source_pointer s p k l m i (mk fr n))"
  by (simp add: numbering_def)

lemma pending_ok [simp]: "format_ok (st\<lparr>fo_pending := p\<rparr>) = format_ok st"
  by (simp add: format_ok_def)

lemma complete_call_ok:
  "CHR ''-'' \<notin> set slug \<Longrightarrow> format_ok st \<Longrightarrow> format_ok (complete_call env fr source session slug path i output st)"
  by (auto simp: complete_call_def intro!: emit_ok maker_numbering split: option.split)

lemma drain_calls_ok:
  assumes "CHR ''-'' \<notin> set slug" "format_ok st"
  shows "numbered (drain_calls env fr drain source session slug path st)"
proof -
  have "format_ok (fold (\<lambda>i. complete_call env fr source session slug path i []) is st)" for "is"
    by (rule fold_keeps) (use assms complete_call_ok in auto)
  then show ?thesis by (simp add: drain_calls_def format_ok_def)
qed

section \<open>Every call once\<close>

text \<open>
  The call ids of the emitted tool calls. \<open>accounted\<close>: those and the waiting ones are the calls seen
  so far, each once.
\<close>

definition call_ids :: "activity_chunk list \<Rightarrow> string list" where
  "call_ids cs =
     List.map_filter (\<lambda>c. if ac_action_type c = action_type_tool_call then ac_source_message_id c else None) cs"

definition accounted :: "format_state \<Rightarrow> string list \<Rightarrow> bool" where
  "accounted st seen \<longleftrightarrow>
     mset (call_ids (fo_chunks st)) + mset (map fst (fo_pending st)) = mset seen \<and>
     distinct (map fst (fo_pending st)) \<and> (\<forall>(i, c)\<in>set (fo_pending st). tc_call_id (fst c) = i)"

lemma call_ids_append: "call_ids (cs @ ds) = call_ids cs @ call_ids ds"
  by (simp add: call_ids_def map_filter_append)

lemma accounted_start [simp]: "accounted format_start []"
  by (simp add: accounted_def format_start_def call_ids_def map_filter_simps)

lemma accounted_emit:
  "(\<And>f n. ac_action_type (mk f n) \<noteq> action_type_tool_call) \<Longrightarrow> accounted (emit fr mk st) seen = accounted st seen"
  by (simp add: accounted_def emit_def call_ids_append) (simp add: call_ids_def map_filter_simps)

lemma accounted_pend:
  assumes "accounted st seen" "tc_call_id call \<notin> set seen"
  shows "accounted (pend call n st) (seen @ [tc_call_id call])"
proof -
  have "set (map fst (fo_pending st)) \<subseteq> set seen"
    using assms(1) by (metis accounted_def mset_subset_eq_add_right set_mset_mono set_mset_mset)
  then have fresh: "tc_call_id call \<notin> set (map fst (fo_pending st))" using assms(2) by blast
  then have "filter (\<lambda>(i, c). i \<noteq> tc_call_id call) (fo_pending st) = fo_pending st"
    by (auto simp: filter_id_conv rev_image_eqI)
  then show ?thesis using assms(1) fresh by (auto simp: accounted_def pend_def)
qed

lemma call_chunk_id: "call_ids [call_chunk env source session slug path call output f n] = [tc_call_id (fst call)]"
  by (simp add: call_ids_def map_filter_simps call_chunk_def tool_call_chunk_def set_source_pointer_def
      activity_chunk_new_def)

lemma mset_without: "distinct ks \<Longrightarrow> i \<in> set ks \<Longrightarrow> mset ks = add_mset i (mset (filter (\<lambda>k. k \<noteq> i) ks))"
proof (induction ks)
  case (Cons k ks)
  have "i \<notin> set ks \<Longrightarrow> filter (\<lambda>k. k \<noteq> i) ks = ks" by (auto simp: filter_id_conv)
  then show ?case using Cons by (auto simp del: mset_filter)
qed simp

lemma keys_filter: "map fst (filter (\<lambda>(k, c). k \<noteq> i) xs) = filter (\<lambda>k. k \<noteq> i) (map fst xs)"
  by (induction xs) auto

lemma accounted_complete:
  assumes "accounted st seen"
  shows "accounted (complete_call env fr source session slug path i output st) seen \<and>
    map fst (fo_pending (complete_call env fr source session slug path i output st)) =
      filter (\<lambda>k. k \<noteq> i) (map fst (fo_pending st))"
proof (cases "map_of (fo_pending st) i")
  case None
  then have "i \<notin> fst ` set (fo_pending st)" by (simp add: map_of_eq_None_iff)
  then have "filter (\<lambda>k. k \<noteq> i) (map fst (fo_pending st)) = map fst (fo_pending st)"
    by (auto simp: filter_id_conv)
  then show ?thesis using assms None by (simp add: complete_call_def)
next
  case (Some call)
  let ?rest = "filter (\<lambda>(k, c). k \<noteq> i) (fo_pending st)"
  have dist: "distinct (map fst (fo_pending st))" using assms by (simp add: accounted_def)
  have mem: "(i, call) \<in> set (fo_pending st)" using Some by (rule map_of_SomeD)
  then have id: "tc_call_id (fst call) = i" using assms by (auto simp: accounted_def)
  have "i \<in> set (map fst (fo_pending st))" using mem by force
  from mset_without [OF dist this] have "mset (map fst (fo_pending st)) = add_mset i (mset (map fst ?rest))"
    unfolding keys_filter .
  then have "mset (call_ids (fo_chunks st)) + add_mset i (mset (map fst ?rest)) = mset seen"
    using assms by (simp add: accounted_def)
  moreover have "distinct (map fst ?rest)" unfolding keys_filter using dist by (rule distinct_filter)
  moreover have "\<forall>(k, c)\<in>set ?rest. tc_call_id (fst c) = k" using assms by (auto simp: accounted_def)
  ultimately show ?thesis
    by (simp add: Some accounted_def complete_call_def emit_def call_ids_append call_chunk_id id keys_filter)
qed

lemma accounted_drain:
  assumes "accounted st seen" and "\<And>xs. mset (drain xs) = mset xs"
  shows "mset (call_ids (drain_calls env fr drain source session slug path st)) = mset seen"
proof -
  let ?step = "\<lambda>i. complete_call env fr source session slug path i []"
  have run: "accounted (fold ?step is st) seen \<and>
      map fst (fo_pending (fold ?step is st)) = filter (\<lambda>k. k \<notin> set is) (map fst (fo_pending st))"
    if "accounted st seen" for "is" st
    using that
  proof (induction "is" arbitrary: st)
    case (Cons i js)
    have acc: "accounted (?step i st) seen" and pend: "map fst (fo_pending (?step i st)) =
        filter (\<lambda>k. k \<noteq> i) (map fst (fo_pending st))"
      using accounted_complete [OF Cons.prems] by blast+
    have "filter (\<lambda>k. k \<notin> set js) (filter (\<lambda>k. k \<noteq> i) ks) = filter (\<lambda>k. k \<notin> set (i # js)) ks" for ks :: "string list"
      by (simp add: conj_commute)
    with Cons.IH [OF acc] show ?case by (simp only: fold_simps pend)
  qed simp
  let ?last = "fold ?step (drain (map fst (fo_pending st))) st"
  have "set (drain (map fst (fo_pending st))) = set (map fst (fo_pending st))"
    using assms(2) by (rule mset_eq_setD)
  then have "map fst (fo_pending ?last) = []"
    using run [OF assms(1), of "drain (map fst (fo_pending st))"] by (auto simp: filter_empty_conv)
  moreover have "accounted ?last seen" using run [OF assms(1)] by blast
  ultimately show ?thesis by (simp add: drain_calls_def accounted_def)
qed

section \<open>Line numbers\<close>

text \<open>Every pointer is to one of the first \<open>k\<close> lines of the file.\<close>

definition line_within :: "nat \<Rightarrow> u64 \<Rightarrow> bool" where
  "line_within k n \<longleftrightarrow> (\<exists>i\<le>k. n = of_nat i)"

definition lines_within :: "nat \<Rightarrow> format_state \<Rightarrow> bool" where
  "lines_within k st \<longleftrightarrow>
     (\<forall>c\<in>set (fo_chunks st). \<forall>n. ac_source_line_number c = Some n \<longrightarrow> line_within k n) \<and>
     (\<forall>(i, call, n)\<in>set (fo_pending st). line_within k n)"

lemma lines_within_start [simp]: "lines_within k format_start"
  by (simp add: lines_within_def format_start_def)

lemma lines_within_emit:
  "(\<And>f n. ac_source_line_number (mk f n) = None \<or> (\<exists>m. ac_source_line_number (mk f n) = Some m \<and> line_within k m)) \<Longrightarrow>
   lines_within k st \<Longrightarrow> lines_within k (emit fr mk st)"
proof -
  assume mk: "\<And>f n. ac_source_line_number (mk f n) = None \<or> (\<exists>m. ac_source_line_number (mk f n) = Some m \<and> line_within k m)"
    and st: "lines_within k st"
  have "line_within k m" if "ac_source_line_number (mk f n) = Some m" for f n m
    using mk [of f n] that by simp
  then show ?thesis using st by (auto simp: lines_within_def emit_def)
qed

lemma lines_within_pend: "line_within k n \<Longrightarrow> lines_within k st \<Longrightarrow> lines_within k (pend call n st)"
  by (auto simp: lines_within_def pend_def)

lemma lines_within_complete:
  assumes "lines_within k st"
  shows "lines_within k (complete_call env fr source session slug path i output st)"
proof (cases "map_of (fo_pending st) i")
  case (Some call)
  then have "(i, call) \<in> set (fo_pending st)" by (rule map_of_SomeD)
  then have "line_within k (snd call)" using assms by (auto simp: lines_within_def)
  moreover have "lines_within k (st\<lparr>fo_pending := filter (\<lambda>(j, c). j \<noteq> i) (fo_pending st)\<rparr>)"
    using assms by (auto simp: lines_within_def)
  ultimately show ?thesis
    by (simp add: complete_call_def Some) (rule lines_within_emit, simp_all add: call_chunk_def)
qed (use assms in \<open>simp add: complete_call_def\<close>)

lemma lines_within_drain:
  "lines_within k st \<Longrightarrow> c \<in> set (drain_calls env fr drain source session slug path st) \<Longrightarrow>
   ac_source_line_number c = Some n \<Longrightarrow> line_within k n"
proof -
  assume st: "lines_within k st" and c: "c \<in> set (drain_calls env fr drain source session slug path st)"
    and n: "ac_source_line_number c = Some n"
  have "lines_within k (fold (\<lambda>i. complete_call env fr source session slug path i []) is st)" for "is"
    by (rule fold_keeps) (use st lines_within_complete in auto)
  then show ?thesis using c n by (auto simp: drain_calls_def lines_within_def)
qed

lemma collect_results_from:
  "collect_results f xs = Inr ys \<Longrightarrow> y \<in> set ys \<Longrightarrow> \<exists>x\<in>set xs. f x = Inr y"
  unfolding collect_results_Inr by (induction rule: list_all2_induct) auto

lemma read_jsonl_lines:
  assumes "read_jsonl_records env (Some text) = Inr rs" "r \<in> set rs"
  shows "line_within (length (lines text)) (jr_line_number r)"
proof -
  obtain ys where ys: "collect_results (read_jsonl_record env) (List.enumerate 0 (lines text)) = Inr ys"
    and rs: "rs = List.map_filter (\<lambda>r. r) ys"
    using assms(1) by (auto simp: read_jsonl_records_def and_then_Inr_iff)
  have "Some r \<in> set ys" using assms(2) by (auto simp: rs set_map_filter)
  from collect_results_from [OF ys this] obtain i line where i: "(i, line) \<in> set (List.enumerate 0 (lines text))"
    "read_jsonl_record env (i, line) = Inr (Some r)" by auto
  have "i < length (lines text)" using i(1) by (auto simp: enumerate_eq_zip dest: set_zip_leftD)
  moreover have "jr_line_number r = of_nat (i + 1)"
    using i(2) by (auto simp: read_jsonl_record_def split: if_splits option.splits)
  ultimately show ?thesis unfolding line_within_def by (intro exI [of _ "i + 1"]) simp
qed

lemma length_lines: "length (lines s) \<le> length s"
proof -
  have split: "length (split_on c t) = Suc (length (filter ((=) c) t))" for c t
    by (induction t) (auto split: list.split)
  show ?thesis
  proof (cases "last (split_on (CHR 0x0A) s) = []")
    case True
    then show ?thesis using split [of "CHR 0x0A" s] by (simp add: lines_def Let_def)
  next
    case False
    then have "length (filter ((=) (CHR 0x0A)) s) < length s"
    proof -
      have "\<exists>x\<in>set s. x \<noteq> CHR 0x0A"
      proof (rule ccontr)
        assume "\<not> ?thesis"
        then have "last (split_on (CHR 0x0A) s) = []" by (induction s) auto
        with False show False ..
      qed
      then show ?thesis by (metis (full_types) length_filter_less)
    qed
    then show ?thesis using split [of "CHR 0x0A" s] False by (simp add: lines_def Let_def)
  qed
qed

section \<open>Loops over records\<close>

text \<open>What follows for a whole transcript from the step of one record.\<close>

lemma loop_numbered:
  assumes "\<And>r st. format_ok st \<Longrightarrow> format_ok (step r st)" and "CHR ''-'' \<notin> set slug"
  shows "numbered (drain_calls env fr drain source session slug path (fold step rs format_start))"
  by (rule drain_calls_ok [OF assms(2) fold_keeps]) (simp_all add: assms(1))

lemma loop_lines:
  assumes step: "\<And>k r st. line_within k (jr_line_number r) \<Longrightarrow> lines_within k st \<Longrightarrow> lines_within k (step r st)"
    and rs: "read_jsonl_records env (files path) = Inr rs"
    and c: "c \<in> set (drain_calls env' fr drain source session slug path (fold step rs format_start))"
    and n: "ac_source_line_number c = Some n"
  shows "\<exists>body. files path = Some body \<and> line_within (length (lines body)) n"
proof -
  obtain body where body: "files path = Some body"
    using rs by (auto simp: read_jsonl_records_def split: option.splits)
  let ?k = "length (lines body)"
  have "lines_within ?k (fold step xs st)" if "set xs \<subseteq> set rs" "lines_within ?k st" for xs st
    using that read_jsonl_lines [OF rs [unfolded body]] by (induction xs arbitrary: st) (simp_all add: step)
  then have "lines_within ?k (fold step rs format_start)" by simp
  from lines_within_drain [OF this c n] body show ?thesis by blast
qed

lemma loop_calls_once:
  assumes step: "\<And>r st seen. accounted st seen \<Longrightarrow> distinct (seen @ calls r) \<Longrightarrow> accounted (step r st) (seen @ calls r)"
    and "distinct (concat (map calls rs))" and "\<And>xs. mset (drain xs) = mset xs"
  shows "mset (call_ids (drain_calls env fr drain source session slug path (fold step rs format_start))) =
    mset (concat (map calls rs))"
proof -
  have "accounted (fold step rs st) (seen @ concat (map calls rs))"
    if "accounted st seen" "distinct (seen @ concat (map calls rs))" for st seen
    using that
  proof (induction rs arbitrary: st seen)
    case (Cons r rs)
    have "accounted (step r st) (seen @ calls r)"
      by (rule step [OF Cons.prems(1)]) (use Cons.prems(2) in auto)
    from Cons.IH [OF this] Cons.prems(2) show ?case by simp
  qed simp
  from this [OF accounted_start] accounted_drain [OF _ assms(3)] show ?thesis using assms(2) by simp
qed

section \<open>Readers and the database\<close>

text \<open>
  The contract of a transcript reader, and what the database needs of it: what the reader yields
  can be stored.
\<close>

locale transcript_reader =
  fixes format :: "file_texts \<Rightarrow> string \<Rightarrow> string option \<Rightarrow> transcript_error + activity_chunk list"
  assumes format_numbered: "format files session p = Inr cs \<Longrightarrow> numbered cs"
    and format_lines: "format files session p = Inr cs \<Longrightarrow> c \<in> set cs \<Longrightarrow> ac_source_line_number c = Some n \<Longrightarrow>
      \<exists>path body. p = Some path \<and> files path = Some body \<and> line_within (length (lines body)) n"
begin

lemma stored:
  assumes "format files session p = Inr cs" and "read_source_session_id db a b = Some i"
    and "\<And>path body. p = Some path \<Longrightarrow> files path = Some body \<Longrightarrow> length body < 2 ^ 63"
  shows "\<exists>db'. upsert_source_session_chunks env a b cs db = (db', Inr ())"
proof -
  have fits: "\<exists>r. chunk_params env n c = Some r" if c: "c \<in> set cs" for n c
  proof (cases "ac_source_line_number c")
    case (Some m)
    from format_lines [OF assms(1) c Some] obtain path body k where
      "p = Some path" "files path = Some body" "k \<le> length (lines body)" "m = of_nat k"
      by (auto simp: line_within_def)
    moreover from this have "k < 2 ^ 63" using assms(3) length_lines [of body] by fastforce
    ultimately have "unat m < 2 ^ 63" by (simp add: unat_of_nat)
    then show ?thesis by (simp add: chunk_params_def Some optional_u64_to_i64_def)
  qed (simp add: chunk_params_def optional_u64_to_i64_def)
  then have "chunk_params env n c = Some (the (chunk_params env n c))" if "c \<in> set cs" for n c
    using that by fastforce
  from upsert_chunks_Inr [OF assms(2) numbered_distinct [OF format_numbered [OF assms(1)]] this]
  show ?thesis by blast
qed

end

section \<open>A small example\<close>

definition sample_fresh :: "nat \<Rightarrow> fresh" where
  "sample_fresh n = \<lparr>fresh_now = 0, fresh_uuid = ''u''\<rparr>"

text \<open>An environment that parses the given lines.\<close>

definition sample_lines_env :: "(string \<times> json) list \<Rightarrow> meta_env" where
  "sample_lines_env entries = sample_meta_env\<lparr>me_json_parse := map_of entries\<rparr>"

end
