(* ===== verification/Claude_Transcript.thy ===== *)
theory Claude_Transcript imports Transcript begin

text \<open>
  The reader of Claude Code's transcripts (\<^verbatim>\<open>sources/claude_code.rs\<close>): the chunks of a session and
  its metadata, from the records of a JSON-lines file.
\<close>

definition claude_source_id :: string where "claude_source_id = ''claude_code''"
definition claude_parser_version :: string where "claude_parser_version = ''claude-code-jsonl-v4''"
definition claude_slug :: string where "claude_slug = ''claudecode''"

definition claude_content_items :: "json option \<Rightarrow> json list" where
  "claude_content_items content = (case content of Some (JArr items) \<Rightarrow> items | _ \<Rightarrow> [])"

definition normalize_shell_args :: "json \<Rightarrow> json" where
  "normalize_shell_args args =
     (let command = unwrap_or (or_else (as_str (json_get ''command'' args)) (as_str (json_get ''cmd'' args))) []
      in JObj (bt_of_list [(''command'', JStr command), (''cmd'', JStr command)]))"

definition normalize_edit_args :: "string \<Rightarrow> json \<Rightarrow> json" where
  "normalize_edit_args raw_name args =
     (let file_path = unwrap_or (or_else (as_str (json_get ''file_path'' args)) (as_str (json_get ''path'' args))) []
      in JObj (bt_of_list [(''action'', JStr raw_name), (''file_path'', JStr file_path), (''payload'', args)]))"

definition claude_edit_tools :: "string list" where
  "claude_edit_tools = [''Edit'', ''MultiEdit'', ''Write'']"

definition normalize_claude_tool_call :: "string \<Rightarrow> json \<Rightarrow> string \<times> json" where
  "normalize_claude_tool_call raw_name args =
     (if raw_name = ''Bash'' then (function_run_command_line, normalize_shell_args args)
      else if raw_name \<in> set claude_edit_tools then (function_edit_file, normalize_edit_args raw_name args)
      else (raw_name, args))"

definition claude_tool_call_from_item :: "json \<Rightarrow> string \<Rightarrow> imported_tool_call option" where
  "claude_tool_call_from_item item created_at =
     do {
       call_id \<leftarrow> as_str (json_get ''id'' item);
       raw_name \<leftarrow> as_str (json_get ''name'' item);
       let (canonical_name, args) =
         normalize_claude_tool_call raw_name (unwrap_or (json_get ''input'' item) (JObj []));
       Some \<lparr>tc_call_id = call_id, tc_raw_name = raw_name, tc_canonical_name = canonical_name, tc_args = args,
             tc_created_at = created_at\<rparr>
     }"

text \<open>Only the first result of a message is looked at.\<close>

definition claude_tool_result_text :: "meta_env \<Rightarrow> json option \<Rightarrow> (string \<times> string) option" where
  "claude_tool_result_text env content =
     (case content of
        Some (JArr items) \<Rightarrow>
          do {
            result_item \<leftarrow> find (\<lambda>item. as_str (json_get ''type'' item) = Some ''tool_result'') items;
            call_id \<leftarrow> as_str (json_get ''tool_use_id'' result_item);
            Some (call_id,
              case json_get ''content'' result_item of
                Some (JStr text) \<Rightarrow> text
              | Some (JArr parts) \<Rightarrow> join [CHR 0x0A] (List.map_filter (\<lambda>part. as_str (json_get ''text'' part)) parts)
              | Some other \<Rightarrow> me_json_text env other
              | None \<Rightarrow> [])
          }
      | _ \<Rightarrow> None)"

section \<open>Chunks\<close>

text \<open>The pointer of a chunk of the transcript itself: its line and, within a message, its part.\<close>

definition claude_pointed :: "string \<Rightarrow> u64 \<Rightarrow> string option \<Rightarrow> chunk_maker \<Rightarrow> chunk_maker" where
  "claude_pointed path line_number part mk fr n =
     set_source_pointer claude_source_id path None (Some line_number) None part (mk fr n)"

definition claude_item ::
  "meta_env \<Rightarrow> (nat \<Rightarrow> fresh) \<Rightarrow> string \<Rightarrow> string \<Rightarrow> string \<Rightarrow> u64 \<Rightarrow> json \<Rightarrow> format_state \<Rightarrow> format_state" where
  "claude_item env fr session path created_at line_number item st =
     (let kind = unwrap_or (as_str (json_get ''type'' item)) []; part = as_str (json_get ''id'' item)
      in if kind = ''text'' then
           (case as_str (json_get ''text'' item) of
              None \<Rightarrow> st
            | Some text \<Rightarrow> emit fr (claude_pointed path line_number part
                (assistant_message_chunk env session claude_slug created_at text)) st)
         else if kind = ''thinking'' then
           (case as_str (json_get ''thinking'' item) of
              None \<Rightarrow> st
            | Some text \<Rightarrow> emit fr (claude_pointed path line_number part
                (thinking_chunk env session claude_slug created_at text)) st)
         else if kind = ''tool_use'' then
           (case claude_tool_call_from_item item created_at of None \<Rightarrow> st | Some call \<Rightarrow> pend call line_number st)
         else st)"

definition claude_record ::
  "meta_env \<Rightarrow> (nat \<Rightarrow> fresh) \<Rightarrow> string \<Rightarrow> string \<Rightarrow> jsonl_record \<Rightarrow> format_state \<Rightarrow> format_state" where
  "claude_record env fr session path r st =
     (let created_at = unwrap_or (as_str (json_get ''timestamp'' (jr_value r))) []
      in case json_get ''message'' (jr_value r) of
           None \<Rightarrow> st
         | Some message \<Rightarrow>
             (let kind = unwrap_or (as_str (json_get ''type'' (jr_value r))) [];
                  content = json_get ''content'' message
              in if kind = ''user'' then
                   (case claude_tool_result_text env content of
                      Some (call_id, output) \<Rightarrow>
                        complete_call env fr claude_source_id session claude_slug path call_id output st
                    | None \<Rightarrow>
                        (case Option.bind content text_from_value of
                           None \<Rightarrow> st
                         | Some text \<Rightarrow> emit fr (claude_pointed path (jr_line_number r) None
                             (user_message_chunk env session claude_slug created_at text)) st))
                 else if kind = ''assistant'' then
                   fold (claude_item env fr session path created_at (jr_line_number r)) (claude_content_items content) st
                 else st))"

definition claude_chunks ::
  "meta_env \<Rightarrow> (nat \<Rightarrow> fresh) \<Rightarrow> (string list \<Rightarrow> string list) \<Rightarrow> string \<Rightarrow> string \<Rightarrow> jsonl_record list \<Rightarrow>
   activity_chunk list" where
  "claude_chunks env fr drain session path rs =
     drain_calls env fr drain claude_source_id session claude_slug path
       (fold (claude_record env fr session path) rs format_start)"

text \<open>\<open>files\<close> is the file system: the text of a path, when it can be read.\<close>

definition claude_format_chunks ::
  "meta_env \<Rightarrow> (nat \<Rightarrow> fresh) \<Rightarrow> (string list \<Rightarrow> string list) \<Rightarrow> file_texts \<Rightarrow> string \<Rightarrow> string option \<Rightarrow>
   transcript_error + activity_chunk list" where
  "claude_format_chunks env fr drain files session source_path =
     (case source_path of
        None \<Rightarrow> Inl Source_Path_Missing
      | Some path \<Rightarrow>
          and_then (read_jsonl_records env (files path)) (\<lambda>rs. Inr (claude_chunks env fr drain session path rs)))"

section \<open>Metadata\<close>

definition is_claude_transcript_file :: "string \<Rightarrow> bool" where
  "is_claude_transcript_file path \<longleftrightarrow> has_extension ''jsonl'' path"

definition path_parent_dir :: "string \<Rightarrow> string option" where
  "path_parent_dir path =
     (case path_components path of
        [] \<Rightarrow> None
      | cs \<Rightarrow> Some ((if path_is_absolute path then ''/'' else []) @ join ''/'' (butlast cs)))"

definition parent_session_id_from_subagent_path :: "string \<Rightarrow> string option" where
  "parent_session_id_from_subagent_path path =
     do {
       subagents \<leftarrow> path_parent_dir path;
       (if Option.bind (file_name subagents) to_str \<noteq> Some ''subagents'' then None
        else Option.bind (Option.bind (path_parent_dir subagents) file_name) to_str)
     }"

definition is_user_message :: "json \<Rightarrow> json option \<Rightarrow> bool" where
  "is_user_message value message \<longleftrightarrow>
     as_str (json_get ''type'' value) = Some ''user'' \<or>
     Option.bind message (json_get ''role'') = Some (JStr ''user'')"

record claude_scan =
  cs_meta :: native_session_metadata
  cs_input_tokens :: u64
  cs_output_tokens :: u64
  cs_saw_input_tokens :: bool
  cs_saw_output_tokens :: bool
  cs_saw_sidechain :: bool
  cs_parent_session_id :: "string option"
  cs_agent_id :: "string option"
  cs_attribution_agent :: "string option"
  cs_touched_files :: "string list"

definition claude_scan_start :: "string \<Rightarrow> claude_scan" where
  "claude_scan_start path =
     \<lparr>cs_meta = blank_metadata\<lparr>nm_parser_version := Some claude_parser_version\<rparr>,
      cs_input_tokens = 0, cs_output_tokens = 0, cs_saw_input_tokens = False, cs_saw_output_tokens = False,
      cs_saw_sidechain = (parent_session_id_from_subagent_path path \<noteq> None),
      cs_parent_session_id = parent_session_id_from_subagent_path path, cs_agent_id = None,
      cs_attribution_agent = None, cs_touched_files = []\<rparr>"

text \<open>The files a tool use names: the target of an edit, or what a shell command writes.\<close>

definition claude_item_files :: "json \<Rightarrow> string list \<Rightarrow> string list" where
  "claude_item_files item files =
     (if as_str (json_get ''type'' item) \<noteq> Some ''tool_use'' then files
      else (let name = unwrap_or (as_str (json_get ''name'' item)) []; input = json_get ''input'' item
            in if name \<in> set claude_edit_tools then add_file (as_str (Option.bind input (json_get ''file_path''))) files
               else if name = ''Bash'' then
                 (case as_str (Option.bind input (json_get ''command'')) of
                    None \<Rightarrow> files
                  | Some command \<Rightarrow> fold bs_insert (shell_edit_targets command) files)
               else files))"

text \<open>
  The three counts of one message are added with \<^verbatim>\<open>+\<close>, which wraps in a release build; the totals
  saturate.
\<close>

definition claude_usage :: "json option \<Rightarrow> claude_scan \<Rightarrow> claude_scan" where
  "claude_usage usage sc =
     (case usage of
        None \<Rightarrow> sc
      | Some u \<Rightarrow>
          (let current_input = token_value u ''input_tokens'' + token_value u ''cache_read_input_tokens'' +
                 token_value u ''cache_creation_input_tokens'';
               current_output = token_value u ''output_tokens'';
               sc = (if current_input > 0 then sc\<lparr>cs_input_tokens := saturating_add (cs_input_tokens sc) current_input,
                       cs_saw_input_tokens := True\<rparr> else sc)
           in if current_output > 0 then sc\<lparr>cs_output_tokens := saturating_add (cs_output_tokens sc) current_output,
                       cs_saw_output_tokens := True\<rparr> else sc))"

definition claude_scan_value :: "meta_env \<Rightarrow> json \<Rightarrow> claude_scan \<Rightarrow> claude_scan" where
  "claude_scan_value env value sc =
     (let message = json_get ''message'' value;
          meta = update_session_times env (json_get ''timestamp'' value) (cs_meta sc);
          meta = meta\<lparr>nm_repo_path := set_first_string (json_get ''cwd'' value) (nm_repo_path meta),
                      nm_cwd := set_first_string (json_get ''cwd'' value) (nm_cwd meta),
                      nm_branch := set_first_string (json_get ''gitBranch'' value) (nm_branch meta)\<rparr>;
          meta = (if nm_title meta = None \<and> is_user_message value message
                  then meta\<lparr>nm_title := map_option normalize_title
                         (Option.bind (Option.bind message (json_get ''content'')) text_from_value)\<rparr>
                  else meta);
          meta = meta\<lparr>nm_model := set_first_string_value
                   (unwrap_or (as_str (Option.bind message (json_get ''model''))) []) (nm_model meta)\<rparr>;
          sc = sc\<lparr>cs_meta := meta,
                  cs_saw_sidechain := cs_saw_sidechain sc \<or>
                    Option.bind (json_get ''isSidechain'' value) dec_bool = Some True,
                  cs_parent_session_id := set_first_string_value
                    (unwrap_or (as_str (json_get ''sessionId'' value)) []) (cs_parent_session_id sc),
                  cs_agent_id := set_first_string (json_get ''agentId'' value) (cs_agent_id sc),
                  cs_attribution_agent := set_first_string (json_get ''attributionAgent'' value) (cs_attribution_agent sc)\<rparr>;
          sc = claude_usage (Option.bind message (json_get ''usage'')) sc
      in sc\<lparr>cs_touched_files := fold claude_item_files
              (claude_content_items (Option.bind message (json_get ''content''))) (cs_touched_files sc)\<rparr>)"

definition claude_scan_end :: "string \<Rightarrow> claude_scan \<Rightarrow> native_session_metadata" where
  "claude_scan_end path sc =
     (let meta = set_touched (cs_touched_files sc)
            ((cs_meta sc)\<lparr>nm_input_tokens := (if cs_saw_input_tokens sc then Some (cs_input_tokens sc) else None),
              nm_output_tokens := (if cs_saw_output_tokens sc then Some (cs_output_tokens sc) else None)\<rparr>)
      in case cs_parent_session_id sc of
           None \<Rightarrow> meta
         | Some parent \<Rightarrow>
             if cs_saw_sidechain sc \<and> parent \<noteq> []
             then meta\<lparr>nm_listable := False,
                    nm_metadata_json := Some (JObj (bt_of_list [(''kind'', JStr ''subagent''),
                      (''subagentSessionId'', JStr (unwrap_or (path_stem path) ''session'')),
                      (''parentSessionId'', JStr parent), (''claudeAgentId'', enc_opt JStr (cs_agent_id sc)),
                      (''subagentType'', enc_opt JStr (cs_attribution_agent sc))]))\<rparr>
             else meta)"

definition claude_extract_metadata ::
  "meta_env \<Rightarrow> file_texts \<Rightarrow> string \<Rightarrow> transcript_error + native_session_metadata" where
  "claude_extract_metadata env files path =
     (if \<not> is_claude_transcript_file path then Inr blank_metadata
      else and_then (read_jsonl_values env (files path)) (\<lambda>values.
        Inr (claude_scan_end path (fold (claude_scan_value env) values (claude_scan_start path)))))"

text \<open>A session's subagents are noted in its metadata; the first session with the id gets them.\<close>

definition session_meta_str :: "string \<Rightarrow> native_source_session \<Rightarrow> string option" where
  "session_meta_str key s = as_str (Option.bind (ns_metadata_json s) (json_get key))"

definition subagents_of :: "string \<Rightarrow> native_source_session list \<Rightarrow> string list" where
  "subagents_of parent sessions =
     map ns_external_session_id (filter (\<lambda>s. session_meta_str ''kind'' s = Some ''subagent'' \<and>
       session_meta_str ''parentSessionId'' s = Some parent) sessions)"

fun attach_subagents ::
  "native_source_session list \<Rightarrow> string set \<Rightarrow> native_source_session list \<Rightarrow> native_source_session list" where
  "attach_subagents all taken [] = []"
| "attach_subagents all taken (s # ss) =
     (let ids = subagents_of (ns_external_session_id s) all
      in if ids = [] \<or> ns_external_session_id s \<in> taken then s # attach_subagents all taken ss
         else s\<lparr>ns_metadata_json := Some (json_insert_all [(''subagentSessionIds'', enc_vec JStr ids)]
                  (unwrap_or (ns_metadata_json s) (JObj [])))\<rparr> #
              attach_subagents all (insert (ns_external_session_id s) taken) ss)"

definition attach_subagent_ids_to_parents :: "native_source_session list \<Rightarrow> native_source_session list" where
  "attach_subagent_ids_to_parents sessions = attach_subagents sessions {} sessions"

section \<open>Facts about the chunks\<close>

lemma claude_slug_plain [simp]: "CHR ''-'' \<notin> set claude_slug"
  by (simp add: claude_slug_def)

lemma claude_pointed_numbering: "numbering mk \<Longrightarrow> numbering (claude_pointed path n part mk)"
  by (simp add: numbering_def claude_pointed_def)

lemma claude_pointed_line [simp]: "ac_source_line_number (claude_pointed path n part mk f k) = Some n"
  by (simp add: claude_pointed_def)

lemma claude_pointed_action [simp]:
  "ac_action_type (claude_pointed path n part mk f k) = ac_action_type (mk f k)"
  by (simp add: claude_pointed_def)

lemma message_actions [simp]:
  "ac_action_type (user_message_chunk env session slug t m f n) = ''raw''"
  "ac_action_type (assistant_message_chunk env session slug t m f n) = ''assistant''"
  "ac_action_type (thinking_chunk env session slug t m f n) = ''thinking''"
  by (simp_all add: user_message_chunk_def assistant_message_chunk_def thinking_chunk_def activity_chunk_new_def
      action_type_raw_def action_type_assistant_def action_type_thinking_def)

lemma claude_item_ok: "format_ok st \<Longrightarrow> format_ok (claude_item env fr session path t n item st)"
  by (auto simp: claude_item_def Let_def intro!: emit_ok claude_pointed_numbering maker_numbering split: option.split)

lemma claude_record_ok: "format_ok st \<Longrightarrow> format_ok (claude_record env fr session path r st)"
  by (auto simp: claude_record_def Let_def intro!: emit_ok claude_pointed_numbering maker_numbering complete_call_ok
      fold_keeps [where P = format_ok] claude_item_ok split: option.split)

lemma claude_item_lines:
  "line_within k n \<Longrightarrow> lines_within k st \<Longrightarrow> lines_within k (claude_item env fr session path t n item st)"
  by (auto simp: claude_item_def Let_def intro!: lines_within_emit lines_within_pend split: option.split)

lemma claude_record_lines:
  "line_within k (jr_line_number r) \<Longrightarrow> lines_within k st \<Longrightarrow> lines_within k (claude_record env fr session path r st)"
  by (auto simp: claude_record_def Let_def intro!: lines_within_emit lines_within_complete
      fold_keeps [where P = "lines_within k"] claude_item_lines split: option.split)

interpretation claude: transcript_reader "claude_format_chunks env fr drain"
proof
  fix files session p cs
  assume "claude_format_chunks env fr drain files session p = Inr cs"
  then obtain path rs where p: "p = Some path" and rs: "read_jsonl_records env (files path) = Inr rs"
    and cs: "cs = claude_chunks env fr drain session path rs"
    by (auto simp: claude_format_chunks_def and_then_Inr_iff split: option.splits)
  show "numbered cs" unfolding cs claude_chunks_def by (rule loop_numbered) (simp_all add: claude_record_ok)
  fix c n
  assume c: "c \<in> set cs" and n: "ac_source_line_number c = Some n"
  have "\<exists>body. files path = Some body \<and> line_within (length (lines body)) n"
    by (rule loop_lines [where files = files and path = path and step = "claude_record env fr session path", OF _ rs c [unfolded cs claude_chunks_def] n])
      (rule claude_record_lines)
  with p show "\<exists>path body. p = Some path \<and> files path = Some body \<and> line_within (length (lines body)) n"
    by blast
qed

section \<open>Every tool call once\<close>

text \<open>The calls of a transcript in order.\<close>

definition claude_item_call :: "json \<Rightarrow> string option" where
  "claude_item_call item =
     (if as_str (json_get ''type'' item) = Some ''tool_use''
      then map_option tc_call_id (claude_tool_call_from_item item []) else None)"

definition claude_record_calls :: "jsonl_record \<Rightarrow> string list" where
  "claude_record_calls r =
     (case json_get ''message'' (jr_value r) of
        None \<Rightarrow> []
      | Some message \<Rightarrow>
          if as_str (json_get ''type'' (jr_value r)) = Some ''assistant''
          then List.map_filter claude_item_call (claude_content_items (json_get ''content'' message)) else [])"

definition claude_calls :: "jsonl_record list \<Rightarrow> string list" where
  "claude_calls rs = concat (map claude_record_calls rs)"

lemma claude_call_id_time:
  "map_option tc_call_id (claude_tool_call_from_item item t) = map_option tc_call_id (claude_tool_call_from_item item [])"
  by (auto simp: claude_tool_call_from_item_def bind_eq_Some_conv split: prod.split Option.bind_split)

lemma claude_item_accounted:
  assumes "accounted st seen" "\<And>i. claude_item_call item = Some i \<Longrightarrow> i \<notin> set seen"
  shows "accounted (claude_item env fr session path t n item st)
    (seen @ (case claude_item_call item of None \<Rightarrow> [] | Some i \<Rightarrow> [i]))"
proof (cases "as_str (json_get ''type'' item) = Some ''tool_use''")
  case True
  show ?thesis
  proof (cases "claude_tool_call_from_item item t")
    case None
    then show ?thesis using True assms(1) claude_call_id_time [of item t] by (simp add: claude_item_def claude_item_call_def)
  next
    case (Some call)
    then have "claude_item_call item = Some (tc_call_id call)"
      using True claude_call_id_time [of item t] by (simp add: claude_item_call_def)
    then show ?thesis using True Some assms accounted_pend [OF assms(1)] by (simp add: claude_item_def)
  qed
next
  case False
  have "unwrap_or (as_str (json_get ''type'' item)) [] \<noteq> ''tool_use''"
    using False by (cases "as_str (json_get ''type'' item)") auto
  then show ?thesis using assms(1) False
    by (auto simp: claude_item_def Let_def claude_item_call_def accounted_emit action_type_tool_call_def split: option.split)
qed

lemma claude_items_accounted:
  assumes "accounted st seen" "distinct (seen @ List.map_filter claude_item_call items)"
  shows "accounted (fold (claude_item env fr session path t n) items st) (seen @ List.map_filter claude_item_call items)"
  using assms
proof (induction items arbitrary: st seen)
  case (Cons item items)
  let ?new = "case claude_item_call item of None \<Rightarrow> [] | Some i \<Rightarrow> [i]"
  have split: "List.map_filter claude_item_call (item # items) = ?new @ List.map_filter claude_item_call items"
    by (simp add: map_filter_simps split: option.split)
  have "accounted (claude_item env fr session path t n item st) (seen @ ?new)"
    by (rule claude_item_accounted [OF Cons.prems(1)]) (use Cons.prems(2) in \<open>auto simp: split\<close>)
  from Cons.IH [OF this] Cons.prems(2) show ?case unfolding split fold_simps append_assoc by simp
qed (simp add: map_filter_simps)

lemma kind_default [simp]: "k \<noteq> [] \<Longrightarrow> unwrap_or x [] = k \<longleftrightarrow> x = Some k"
  by (cases x) auto

lemma claude_record_accounted:
  assumes "accounted st seen" "distinct (seen @ claude_record_calls r)"
  shows "accounted (claude_record env fr session path r st) (seen @ claude_record_calls r)"
proof (cases "json_get ''message'' (jr_value r)")
  case None
  then show ?thesis using assms(1) by (simp add: claude_record_def claude_record_calls_def)
next
  case (Some message)
  show ?thesis
  proof (cases "as_str (json_get ''type'' (jr_value r)) = Some ''assistant''")
    case True
    then show ?thesis using assms claude_items_accounted [OF assms(1)]
      by (simp add: claude_record_def Some claude_record_calls_def Let_def)
  next
    case False
    then show ?thesis using assms(1) accounted_complete [OF assms(1)]
      by (auto simp: claude_record_def Some claude_record_calls_def Let_def accounted_emit
          action_type_tool_call_def split: option.split)
  qed
qed

text \<open>
  C35: every tool call of a Claude transcript becomes exactly one chunk, whether its result is in
  the transcript or not, when the ids of the calls are distinct; the order in which the calls
  without a result come does not matter.
\<close>

theorem claude_calls_once:
  assumes "claude_format_chunks env fr drain files session (Some path) = Inr cs"
    and "read_jsonl_records env (files path) = Inr rs"
    and "distinct (claude_calls rs)" and "\<And>xs. mset (drain xs) = mset xs"
  shows "mset (call_ids cs) = mset (claude_calls rs)"
proof -
  have "cs = claude_chunks env fr drain session path rs"
    using assms(1,2) by (simp add: claude_format_chunks_def)
  then show ?thesis
    unfolding claude_chunks_def claude_calls_def
    by (simp only:) (rule loop_calls_once [where step = "claude_record env fr session path",
      OF _ assms(3) [unfolded claude_calls_def] assms(4)], rule claude_record_accounted)
qed

section \<open>Into the database\<close>

text \<open>
  C32: the chunks of a Claude transcript can always be stored: their ids are distinct and their
  line numbers fit, so that storing them for a known session succeeds and lists as many rows.
\<close>

theorem claude_transcript_stored:
  assumes "claude_format_chunks env fr drain files session p = Inr cs"
    and "read_source_session_id db a b = Some i"
    and "\<forall>path body. p = Some path \<and> files path = Some body \<longrightarrow> length body < 2 ^ 63"
  shows "distinct (map ac_chunk_id cs) \<and> (\<exists>db'. upsert_source_session_chunks env a b cs db = (db', Inr ()))"
  using claude.stored [OF assms(1,2)] assms(3) numbered_distinct [OF claude.format_numbered [OF assms(1)]] by blast

lemma chunk_diff_line_iff:
  "l \<in> set (chunk_provenance_lines chunk ''exact_diff_hunk'') \<longleftrightarrow>
     6 \<le> length l \<and>
     (\<exists>value\<in>set (collect_json_strings (ac_result chunk)). \<exists>line\<in>set (lines value).
        \<exists>kept. diff_added_or_plain_line line = Some kept \<and> l = trim kept)"
  unfolding chunk_provenance_lines_def Let_def keep_unseen_set
  by (auto simp: bex_map_filter normalize_line_text_def image_iff)

lemma claude_edit_args:
  assumes "claude_tool_call_from_item item t = Some call" "tc_raw_name call \<in> set claude_edit_tools"
  shows "tc_canonical_name call = function_edit_file \<and> (\<exists>args. tc_args call = normalize_edit_args (tc_raw_name call) args)"
proof -
  have "tc_raw_name call \<noteq> ''Bash''" using assms(2) by (auto simp: claude_edit_tools_def)
  then show ?thesis using assms
    by (auto simp: claude_tool_call_from_item_def normalize_claude_tool_call_def bind_eq_Some_conv Let_def
        split: prod.splits if_splits)
qed

lemma edit_args_get:
  "json_get k (normalize_edit_args raw args) =
     (if k = ''action'' then Some (JStr raw)
      else if k = ''file_path'' then
        Some (JStr (unwrap_or (or_else (as_str (json_get ''file_path'' args)) (as_str (json_get ''path'' args))) []))
      else if k = ''payload'' then Some args else None)"
  by (simp add: normalize_edit_args_def Let_def json_get_def map_of_bt_of_list)

lemma tool_result_strings:
  "set (collect_json_strings (ac_result (call_chunk env source session slug path call output f k))) =
     {tc_call_id (fst call), output, tc_raw_name (fst call), ''completed''}"
  by (auto simp: call_chunk_def tool_call_chunk_def bt_of_list_def)

text \<open>
  What an edit tool of Claude wrote is not found in the chunk's arguments: they are moved under
  the key \<^verbatim>\<open>payload\<close>, where the line index does not look. All it records for the edited file is lines
  of the tool's output, its call id, its name and the word \<^verbatim>\<open>completed\<close>, whatever the new text is.
\<close>

theorem claude_edit_lines_missing:
  assumes "claude_tool_call_from_item item t = Some call" and "tc_raw_name call \<in> set claude_edit_tools"
    and "c = call_chunk env source session slug path (call, n) output f k"
  shows "is_file_mutation_tool (ac_function c) \<and> chunk_file_path c \<noteq> None \<and>
    \<not> edit_tool_payload_has_content (ac_args c) \<and>
    (\<forall>r\<in>set (chunk_line_rows env s i c). lr_kind r = ''exact_diff_hunk'' \<and>
       (\<exists>text\<in>{tc_call_id call, output, tc_raw_name call, ''completed''}. \<exists>line\<in>set (lines text). \<exists>kept.
          diff_added_or_plain_line line = Some kept \<and> lr_text r = trim kept)) \<and>
    (\<exists>r\<in>set (chunk_line_rows env s i c). lr_text r = ''completed'')"
proof -
  obtain args where call: "tc_canonical_name call = function_edit_file" "tc_args call = normalize_edit_args (tc_raw_name call) args"
    using claude_edit_args [OF assms(1,2)] by blast
  have parts: "ac_function c = function_edit_file" "ac_args c = normalize_edit_args (tc_raw_name call) args"
    "ac_action_type c = action_type_tool_call"
    using call by (simp_all add: assms(3) call_chunk_def tool_call_chunk_def activity_chunk_new_def)
  have tool: "is_file_mutation_tool (ac_function c)"
    by (simp add: parts is_file_mutation_tool_def function_edit_file_def)
  have content: "\<not> edit_tool_payload_has_content (ac_args c)"
    by (simp add: edit_tool_payload_has_content_def payload_keys_def parts edit_args_get)
  obtain target where target: "chunk_file_path c = Some target"
    by (simp add: chunk_file_path_def parts edit_args_get map_filter_simps)
  have rows: "chunk_line_rows env s i c =
      map (line_row_of env s i c target ''exact_diff_hunk'') (chunk_provenance_lines c ''exact_diff_hunk'')"
    using tool content target by (simp add: chunk_line_rows_def parts(3) Let_def)
  have strings: "set (collect_json_strings (ac_result c)) = {tc_call_id call, output, tc_raw_name call, ''completed''}"
    by (simp add: assms(3) tool_result_strings)
  have "lines ''completed'' = [''completed'']" "diff_added_or_plain_line ''completed'' = Some ''completed''"
    "trim ''completed'' = ''completed''" by code_simp+
  then have "''completed'' \<in> set (chunk_provenance_lines c ''exact_diff_hunk'')"
    unfolding chunk_diff_line_iff strings
    by (intro conjI bexI [of _ "''completed''"] exI [of _ "''completed''"]) simp_all
  then show ?thesis
    using tool content target by (auto simp: rows chunk_diff_line_iff strings line_row_of_def)
qed

section \<open>A small example\<close>

definition sample_claude_entries :: "(string \<times> json) list" where
  "sample_claude_entries =
     [(''c'', JObj (bt_of_list [(''type'', JStr ''assistant''), (''message'', JObj [(''content'', JArr
         [JObj (bt_of_list [(''type'', JStr ''tool_use''), (''id'', JStr ''t1''), (''name'', JStr ''Write''),
            (''input'', JObj (bt_of_list [(''file_path'', JStr ''src/a.rs''), (''content'', JStr ''let x = 1;'')]))]),
          JObj (bt_of_list [(''type'', JStr ''tool_use''), (''id'', JStr ''t2''), (''name'', JStr ''Read'')])])])])),
      (''r'', JObj (bt_of_list [(''type'', JStr ''user''), (''message'', JObj [(''content'', JArr
         [JObj (bt_of_list [(''type'', JStr ''tool_result''), (''tool_use_id'', JStr ''t1''), (''content'', JStr ''ok'')])])])]))]"

definition sample_claude_file :: file_texts where
  "sample_claude_file path = (if path = ''/t/s1.jsonl'' then Some (''c'' @ [CHR 0x0A] @ ''r'') else None)"

abbreviation sample_claude_chunks :: "transcript_error + activity_chunk list" where
  "sample_claude_chunks \<equiv> claude_format_chunks (sample_lines_env sample_claude_entries) sample_fresh (\<lambda>xs. xs)
     sample_claude_file ''s1'' (Some ''/t/s1.jsonl'')"

lemma sample_claude_run:
  "(case sample_claude_chunks of Inl e \<Rightarrow> None | Inr cs \<Rightarrow> Some (map (\<lambda>c. (ac_chunk_id c, ac_function c)) cs)) =
     Some [(''claudecode-tool-0-t1'', ''edit_file_by_replace''), (''claudecode-tool-1-t2'', ''Read'')]"
  by code_simp

lemma sample_claude_calls:
  "(case read_jsonl_records (sample_lines_env sample_claude_entries) (sample_claude_file ''/t/s1.jsonl'') of
      Inl e \<Rightarrow> None | Inr rs \<Rightarrow> Some (claude_calls rs)) = Some [''t1'', ''t2'']"
  by code_simp

theorem claude_calls_once_witness:
  "\<exists>cs. sample_claude_chunks = Inr cs \<and> mset (call_ids cs) = {#''t1'', ''t2''#}"
proof -
  obtain cs where cs: "sample_claude_chunks = Inr cs"
    using sample_claude_run by (cases sample_claude_chunks) auto
  obtain rs where rs: "read_jsonl_records (sample_lines_env sample_claude_entries) (sample_claude_file ''/t/s1.jsonl'') = Inr rs"
    "claude_calls rs = [''t1'', ''t2'']"
    using sample_claude_calls by (auto split: sum.splits)
  have "distinct (claude_calls rs)" by (simp add: rs(2))
  from claude_calls_once [OF cs rs(1) this] cs show ?thesis by (simp add: rs(2))
qed

theorem claude_transcript_stored_witness:
  "\<exists>cs db'. sample_claude_chunks = Inr cs \<and>
     upsert_source_session_chunks (sample_lines_env sample_claude_entries) ''claude'' ''s1'' cs
       sample_session_db = (db', Inr ())"
proof -
  obtain cs where cs: "sample_claude_chunks = Inr cs"
    using sample_claude_run by (cases sample_claude_chunks) auto
  have "\<forall>path body. Some ''/t/s1.jsonl'' = Some path \<and> sample_claude_file path = Some body \<longrightarrow> length body < 2 ^ 63"
    by (simp add: sample_claude_file_def)
  from claude_transcript_stored [OF cs sample_session_id this] cs show ?thesis by blast
qed

definition sample_write_item :: json where
  "sample_write_item = JObj (bt_of_list [(''type'', JStr ''tool_use''), (''id'', JStr ''t1''), (''name'', JStr ''Write''),
     (''input'', JObj (bt_of_list [(''file_path'', JStr ''src/a.rs''), (''content'', JStr ''let x = 1;'')]))])"

theorem claude_edit_lines_missing_witness:
  "\<exists>call. claude_tool_call_from_item sample_write_item ''t'' = Some call \<and>
     (\<forall>r\<in>set (chunk_line_rows sample_meta_env 1 0
        (call_chunk sample_meta_env claude_source_id ''s1'' claude_slug ''/t/s1.jsonl'' (call, 1) ''ok'' (sample_fresh 0) 0)).
        lr_kind r = ''exact_diff_hunk'')"
proof -
  have "map_option tc_raw_name (claude_tool_call_from_item sample_write_item ''t'') = Some ''Write''" by code_simp
  then obtain call where call: "claude_tool_call_from_item sample_write_item ''t'' = Some call" "tc_raw_name call = ''Write''"
    by auto
  have "tc_raw_name call \<in> set claude_edit_tools" by (simp add: call(2) claude_edit_tools_def)
  from claude_edit_lines_missing [OF call(1) this refl] call(1) show ?thesis by blast
qed

end
