(* ===== verification/Codex_Transcript.thy ===== *)
theory Codex_Transcript imports Claude_Transcript begin

text \<open>
  The reader of Codex's transcripts (\<^verbatim>\<open>sources/codex_app.rs\<close>): chunks, metadata, and the files and line
  counts of the patches it applied.
\<close>

definition codex_source_id :: string where "codex_source_id = ''codex_app''"
definition codex_parser_version :: string where "codex_parser_version = ''codex-app-jsonl-v4''"
definition codex_slug :: string where "codex_slug = ''codex''"

section \<open>Tool calls\<close>

definition normalize_apply_patch_args :: "json \<Rightarrow> json" where
  "normalize_apply_patch_args args =
     (let patch = unwrap_or (or_else (as_str (json_get ''patch'' args)) (as_str (json_get ''input'' args))) []
      in JObj (bt_of_list [(''action'', JStr ''apply_patch''), (''patch'', JStr patch)]))"

definition normalize_codex_tool_call :: "string \<Rightarrow> json \<Rightarrow> string \<times> json" where
  "normalize_codex_tool_call raw_name args =
     (if raw_name = ''shell'' then (function_run_command_line, normalize_shell_args args)
      else if raw_name = ''apply_patch'' then (function_edit_file, normalize_apply_patch_args args)
      else (raw_name, args))"

definition codex_call :: "json \<Rightarrow> string \<Rightarrow> (string \<Rightarrow> json) \<Rightarrow> imported_tool_call option" where
  "codex_call payload created_at args_of =
     do {
       call_id \<leftarrow> as_str (json_get ''call_id'' payload);
       raw_name \<leftarrow> as_str (json_get ''name'' payload);
       let (canonical_name, args) = normalize_codex_tool_call raw_name (args_of raw_name);
       Some \<lparr>tc_call_id = call_id, tc_raw_name = raw_name, tc_canonical_name = canonical_name, tc_args = args,
             tc_created_at = created_at\<rparr>
     }"

definition pending_tool_call_from_payload :: "meta_env \<Rightarrow> json \<Rightarrow> string \<Rightarrow> imported_tool_call option" where
  "pending_tool_call_from_payload env payload created_at =
     codex_call payload created_at (\<lambda>_.
       case as_str (json_get ''arguments'' payload) of None \<Rightarrow> JObj [] | Some raw \<Rightarrow> parse_inner_json env raw)"

definition pending_custom_tool_call_from_payload :: "json \<Rightarrow> string \<Rightarrow> imported_tool_call option" where
  "pending_custom_tool_call_from_payload payload created_at =
     codex_call payload created_at (\<lambda>raw_name.
       JObj [(if raw_name = ''apply_patch'' then ''patch'' else ''input'',
              JStr (unwrap_or (as_str (json_get ''input'' payload)) []))])"

definition content_part_text :: "json \<Rightarrow> string option" where
  "content_part_text part = or_else (as_str (json_get ''text'' part)) (as_str (json_get ''content'' part))"

definition joined_parts :: "json list \<Rightarrow> string option" where
  "joined_parts items =
     (let parts = List.map_filter content_part_text items in if parts = [] then None else Some (join [CHR 0x0A] parts))"

definition content_text_from_payload :: "json \<Rightarrow> string option" where
  "content_text_from_payload payload =
     (case json_get ''content'' payload of
        Some (JStr text) \<Rightarrow> Some text
      | Some (JArr items) \<Rightarrow> joined_parts items
      | _ \<Rightarrow> None)"

definition reasoning_text_from_payload :: "json \<Rightarrow> string option" where
  "reasoning_text_from_payload payload =
     (case as_str (json_get ''content'' payload) of
        Some text \<Rightarrow>
          if trim text \<noteq> [] then Some text
          else (case json_get ''summary'' payload of Some (JArr summary) \<Rightarrow> joined_parts summary | _ \<Rightarrow> None)
      | None \<Rightarrow> (case json_get ''summary'' payload of Some (JArr summary) \<Rightarrow> joined_parts summary | _ \<Rightarrow> None))"

section \<open>Chunks\<close>

definition codex_pointed :: "string \<Rightarrow> u64 \<Rightarrow> string option \<Rightarrow> chunk_maker \<Rightarrow> chunk_maker" where
  "codex_pointed path line_number message_id mk fr n =
     set_source_pointer codex_source_id path None (Some line_number) message_id None (mk fr n)"

definition codex_record ::
  "meta_env \<Rightarrow> (nat \<Rightarrow> fresh) \<Rightarrow> string \<Rightarrow> string \<Rightarrow> jsonl_record \<Rightarrow> format_state \<Rightarrow> format_state" where
  "codex_record env fr session path r st =
     (let created_at = unwrap_or (as_str (json_get ''timestamp'' (jr_value r))) []
      in case json_get ''payload'' (jr_value r) of
           None \<Rightarrow> st
         | Some payload \<Rightarrow>
             (let kind = unwrap_or (as_str (json_get ''type'' payload)) [];
                  say = (\<lambda>mk. emit fr (codex_pointed path (jr_line_number r) (as_str (json_get ''id'' payload)) mk) st);
                  assistant = (\<lambda>text. say (assistant_message_chunk env session codex_slug created_at text))
              in if kind = ''user_message'' then
                   (case as_str (json_get ''message'' payload) of
                      None \<Rightarrow> st | Some message \<Rightarrow> say (user_message_chunk env session codex_slug created_at message))
                 else if kind = ''agent_message'' then
                   (case as_str (json_get ''message'' payload) of None \<Rightarrow> st | Some message \<Rightarrow> assistant message)
                 else if kind = ''message'' then
                   (if as_str (json_get ''role'' payload) = Some ''assistant''
                    then (case content_text_from_payload payload of None \<Rightarrow> st | Some text \<Rightarrow> assistant text)
                    else st)
                 else if kind \<in> {''reasoning'', ''agent_reasoning''} then
                   (case reasoning_text_from_payload payload of
                      None \<Rightarrow> st | Some text \<Rightarrow> say (thinking_chunk env session codex_slug created_at text))
                 else if kind = ''function_call'' then
                   (case pending_tool_call_from_payload env payload created_at of
                      None \<Rightarrow> st | Some call \<Rightarrow> pend call (jr_line_number r) st)
                 else if kind = ''custom_tool_call'' then
                   (case pending_custom_tool_call_from_payload payload created_at of
                      None \<Rightarrow> st | Some call \<Rightarrow> pend call (jr_line_number r) st)
                 else if kind \<in> {''function_call_output'', ''custom_tool_call_output''} then
                   (case as_str (json_get ''call_id'' payload) of
                      None \<Rightarrow> st
                    | Some call_id \<Rightarrow>
                        complete_call env fr codex_source_id session codex_slug path call_id
                          (unwrap_or (as_str (json_get ''output'' payload)) []) st)
                 else st))"

definition codex_chunks ::
  "meta_env \<Rightarrow> (nat \<Rightarrow> fresh) \<Rightarrow> (string list \<Rightarrow> string list) \<Rightarrow> string \<Rightarrow> string \<Rightarrow> jsonl_record list \<Rightarrow>
   activity_chunk list" where
  "codex_chunks env fr drain session path rs =
     drain_calls env fr drain codex_source_id session codex_slug path
       (fold (codex_record env fr session path) rs format_start)"

definition codex_format_chunks ::
  "meta_env \<Rightarrow> (nat \<Rightarrow> fresh) \<Rightarrow> (string list \<Rightarrow> string list) \<Rightarrow> file_texts \<Rightarrow> string \<Rightarrow> string option \<Rightarrow>
   transcript_error + activity_chunk list" where
  "codex_format_chunks env fr drain files session source_path =
     (case source_path of
        None \<Rightarrow> Inl Source_Path_Missing
      | Some path \<Rightarrow>
          and_then (read_jsonl_records env (files path)) (\<lambda>rs. Inr (codex_chunks env fr drain session path rs)))"

section \<open>Patches\<close>

record patch_impact =
  pi_touched_files :: "string list"
  pi_lines_added :: u64
  pi_lines_removed :: u64

definition no_impact :: patch_impact where
  "no_impact = \<lparr>pi_touched_files = [], pi_lines_added = 0, pi_lines_removed = 0\<rparr>"

definition touch :: "string option \<Rightarrow> patch_impact \<Rightarrow> patch_impact" where
  "touch path p = (case path of None \<Rightarrow> p | Some f \<Rightarrow> p\<lparr>pi_touched_files := bs_insert f (pi_touched_files p)\<rparr>)"

definition normalize_diff_path :: "string \<Rightarrow> string option" where
  "normalize_diff_path path =
     (let trimmed = trim_matches (\<lambda>c. c = CHR 0x22) (trim path)
      in if trimmed = ''/dev/null'' then None
         else (let normalized = unwrap_or (or_else (strip_prefix ''a/'' trimmed) (strip_prefix ''b/'' trimmed)) trimmed
               in if normalized = [] then None else Some normalized))"

fun first_marked :: "string list \<Rightarrow> string \<Rightarrow> string option" where
  "first_marked [] rest = None"
| "first_marked (marker # markers) rest =
     (case strip_prefix marker rest of
        Some path \<Rightarrow> if trim path \<noteq> [] then Some (trim path) else first_marked markers rest
      | None \<Rightarrow> first_marked markers rest)"

definition codex_patch_header_path :: "string \<Rightarrow> string option" where
  "codex_patch_header_path line =
     Option.bind (strip_prefix ''*** '' line)
       (first_marked [''Add File:'', ''Update File:'', ''Delete File:'', ''Move to:''])"

definition patch_line :: "string \<Rightarrow> patch_impact \<Rightarrow> patch_impact" where
  "patch_line line p =
     (if prefix ''*** Begin Patch'' line \<or> prefix ''*** End Patch'' line then p
      else case codex_patch_header_path line of
        Some path \<Rightarrow> touch (normalize_diff_path path) p
      | None \<Rightarrow>
          if prefix ''*** '' line then p
          else (case strip_prefix ''diff --git '' line of
             Some path \<Rightarrow> fold (\<lambda>part. touch (normalize_diff_path part)) (take 2 (split_whitespace path)) p
           | None \<Rightarrow>
               (case strip_prefix ''+++ '' line of
                  Some path \<Rightarrow> touch (normalize_diff_path path) p
                | None \<Rightarrow>
                    if prefix ''+'' line \<and> \<not> prefix ''+++'' line
                    then p\<lparr>pi_lines_added := saturating_add (pi_lines_added p) 1\<rparr>
                    else if prefix ''-'' line \<and> \<not> prefix ''---'' line
                    then p\<lparr>pi_lines_removed := saturating_add (pi_lines_removed p) 1\<rparr>
                    else p)))"

definition parse_patch_impact :: "string \<Rightarrow> patch_impact \<Rightarrow> patch_impact" where
  "parse_patch_impact patch p = fold patch_line (lines patch) p"

definition collect_patch_impact :: "meta_env \<Rightarrow> json \<Rightarrow> patch_impact \<Rightarrow> patch_impact" where
  "collect_patch_impact env payload p =
     (if as_str (json_get ''name'' payload) \<noteq> Some ''apply_patch'' then p
      else (let arguments = Option.bind (as_str (json_get ''arguments'' payload)) (me_json_parse env);
                patch = or_else (Option.bind arguments (\<lambda>a. as_str (or_else (json_get ''patch'' a) (json_get ''input'' a))))
                          (as_str (json_get ''input'' payload))
            in case patch of None \<Rightarrow> p | Some text \<Rightarrow> parse_patch_impact text p))"

definition collect_shell_edits :: "meta_env \<Rightarrow> json \<Rightarrow> patch_impact \<Rightarrow> patch_impact" where
  "collect_shell_edits env payload p =
     (if unwrap_or (as_str (json_get ''name'' payload)) [] \<notin> {''shell'', ''exec_command'', ''local_shell''} then p
      else (let arguments = Option.bind (as_str (json_get ''arguments'' payload)) (me_json_parse env);
                command = (case or_else (Option.bind arguments (json_get ''command'')) (json_get ''command'' payload) of
                             Some (JStr text) \<Rightarrow> Some text
                           | Some (JArr parts) \<Rightarrow> Some (join '' '' (List.map_filter dec_str parts))
                           | _ \<Rightarrow> None)
            in case command of
                 None \<Rightarrow> p
               | Some c \<Rightarrow> fold (\<lambda>f. touch (Some f)) (shell_edit_targets c) p))"

section \<open>Metadata\<close>

definition codex_scan_value ::
  "meta_env \<Rightarrow> json \<Rightarrow> native_session_metadata \<times> patch_impact \<Rightarrow> native_session_metadata \<times> patch_impact" where
  "codex_scan_value env value sc =
     (let meta = update_session_times env (json_get ''timestamp'' value) (fst sc)
      in case json_get ''payload'' value of
           None \<Rightarrow> (meta, snd sc)
         | Some payload \<Rightarrow>
             (let kind = as_str (json_get ''type'' payload);
                  meta = meta\<lparr>nm_repo_path := set_first_string (json_get ''cwd'' payload) (nm_repo_path meta),
                              nm_cwd := set_first_string (json_get ''cwd'' payload) (nm_cwd meta),
                              nm_model := set_first_string (json_get ''model'' payload) (nm_model meta)\<rparr>;
                  meta = (if nm_title meta = None \<and> kind = Some ''user_message''
                          then meta\<lparr>nm_title := map_option normalize_title
                                 (Option.bind (json_get ''message'' payload) text_from_value)\<rparr>
                          else meta);
                  meta = (case json_get ''total_token_usage'' payload of
                            Some usage \<Rightarrow>
                              if kind = Some ''token_count'' then
                                (let input = token_value usage ''input_tokens''; output = token_value usage ''output_tokens'';
                                     meta = (if input > 0 then meta\<lparr>nm_input_tokens := Some input\<rparr> else meta)
                                 in if output > 0 then meta\<lparr>nm_output_tokens := Some output\<rparr> else meta)
                              else meta
                          | None \<Rightarrow> meta)
              in (meta, if kind \<in> {Some ''function_call'', Some ''custom_tool_call''}
                        then collect_shell_edits env payload (collect_patch_impact env payload (snd sc)) else snd sc)))"

definition codex_extract_metadata ::
  "meta_env \<Rightarrow> file_texts \<Rightarrow> string \<Rightarrow> transcript_error + native_session_metadata" where
  "codex_extract_metadata env files path =
     (if \<not> has_extension ''jsonl'' path then Inr blank_metadata
      else and_then (read_jsonl_values env (files path)) (\<lambda>values.
        let (meta, impact) = fold (codex_scan_value env) values
              (blank_metadata\<lparr>nm_parser_version := Some codex_parser_version\<rparr>, no_impact)
        in Inr (if pi_touched_files impact = [] then meta
                else set_touched (pi_touched_files impact)
                  (meta\<lparr>nm_lines_added := Some (pi_lines_added impact), nm_lines_removed := Some (pi_lines_removed impact)\<rparr>))))"

section \<open>Facts about the chunks\<close>

lemma codex_slug_plain [simp]: "CHR ''-'' \<notin> set codex_slug"
  by (simp add: codex_slug_def)

lemma codex_pointed_numbering: "numbering mk \<Longrightarrow> numbering (codex_pointed path n part mk)"
  by (simp add: numbering_def codex_pointed_def)

lemma codex_pointed_simps [simp]:
  "ac_source_line_number (codex_pointed path n i mk f k) = Some n"
  "ac_action_type (codex_pointed path n i mk f k) = ac_action_type (mk f k)"
  by (simp_all add: codex_pointed_def)

lemma if_keeps: "(c \<Longrightarrow> P a) \<Longrightarrow> (\<not> c \<Longrightarrow> P b) \<Longrightarrow> P (if c then a else b)"
  by simp

lemma option_keeps:
  "(v = None \<Longrightarrow> P a) \<Longrightarrow> (\<And>x. v = Some x \<Longrightarrow> P (f x)) \<Longrightarrow> P (case v of None \<Rightarrow> a | Some x \<Rightarrow> f x)"
  by (cases v) simp_all

lemmas keeps = if_keeps option_keeps

lemma codex_record_ok:
  assumes "format_ok st"
  shows "format_ok (codex_record env fr session path r st)"
  unfolding codex_record_def Let_def
  by (intro keeps [where P = format_ok] emit_ok codex_pointed_numbering maker_numbering complete_call_ok
      codex_slug_plain assms) (simp_all add: assms)

lemma codex_record_lines:
  assumes "line_within k (jr_line_number r)" "lines_within k st"
  shows "lines_within k (codex_record env fr session path r st)"
  unfolding codex_record_def Let_def
  by (intro keeps [where P = "lines_within k"] lines_within_emit lines_within_complete lines_within_pend assms)
    (simp_all add: assms)

interpretation codex: transcript_reader "codex_format_chunks env fr drain"
proof
  fix files session p cs
  assume "codex_format_chunks env fr drain files session p = Inr cs"
  then obtain path rs where p: "p = Some path" and rs: "read_jsonl_records env (files path) = Inr rs"
    and cs: "cs = codex_chunks env fr drain session path rs"
    by (auto simp: codex_format_chunks_def and_then_Inr_iff split: option.splits)
  show "numbered cs" unfolding cs codex_chunks_def by (rule loop_numbered) (simp_all add: codex_record_ok)
  fix c n
  assume c: "c \<in> set cs" and n: "ac_source_line_number c = Some n"
  have "\<exists>body. files path = Some body \<and> line_within (length (lines body)) n"
    by (rule loop_lines [where files = files and path = path and step = "codex_record env fr session path", OF _ rs c [unfolded cs codex_chunks_def] n])
      (rule codex_record_lines)
  with p show "\<exists>path body. p = Some path \<and> files path = Some body \<and> line_within (length (lines body)) n"
    by blast
qed

section \<open>Every tool call once\<close>

definition codex_record_call :: "meta_env \<Rightarrow> jsonl_record \<Rightarrow> string option" where
  "codex_record_call env r =
     (case json_get ''payload'' (jr_value r) of
        None \<Rightarrow> None
      | Some payload \<Rightarrow>
          if as_str (json_get ''type'' payload) = Some ''function_call''
          then map_option tc_call_id (pending_tool_call_from_payload env payload [])
          else if as_str (json_get ''type'' payload) = Some ''custom_tool_call''
          then map_option tc_call_id (pending_custom_tool_call_from_payload payload [])
          else None)"

lemma codex_call_id_time:
  "map_option tc_call_id (codex_call payload t args_of) = map_option tc_call_id (codex_call payload [] args_of)"
  by (auto simp: codex_call_def bind_eq_Some_conv split: prod.split Option.bind_split)

lemma codex_record_accounted:
  assumes acc: "accounted st seen" and new: "\<And>i. codex_record_call env r = Some i \<Longrightarrow> i \<notin> set seen"
  shows "accounted (codex_record env fr session path r st)
    (seen @ (case codex_record_call env r of None \<Rightarrow> [] | Some i \<Rightarrow> [i]))"
proof (cases "json_get ''payload'' (jr_value r)")
  case None
  then show ?thesis using acc by (simp add: codex_record_def codex_record_call_def)
next
  case (Some payload)
  let ?t = "unwrap_or (as_str (json_get ''timestamp'' (jr_value r))) []"
  consider "as_str (json_get ''type'' payload) = Some ''function_call''"
    | "as_str (json_get ''type'' payload) = Some ''custom_tool_call''"
    | "as_str (json_get ''type'' payload) \<notin> {Some ''function_call'', Some ''custom_tool_call''}" by blast
  then show ?thesis
  proof cases
    case 1
    then have call: "codex_record_call env r = map_option tc_call_id (pending_tool_call_from_payload env payload ?t)"
      using codex_call_id_time [of payload ?t] by (simp add: codex_record_call_def Some pending_tool_call_from_payload_def)
    have "codex_record env fr session path r st = (case pending_tool_call_from_payload env payload ?t of
        None \<Rightarrow> st | Some call \<Rightarrow> pend call (jr_line_number r) st)"
      using 1 by (simp add: codex_record_def Some Let_def)
    then show ?thesis using acc new accounted_pend [OF acc] unfolding call by (auto split: option.split)
  next
    case 2
    then have call: "codex_record_call env r = map_option tc_call_id (pending_custom_tool_call_from_payload payload ?t)"
      using codex_call_id_time [of payload ?t] by (simp add: codex_record_call_def Some pending_custom_tool_call_from_payload_def)
    have "codex_record env fr session path r st = (case pending_custom_tool_call_from_payload payload ?t of
        None \<Rightarrow> st | Some call \<Rightarrow> pend call (jr_line_number r) st)"
      using 2 by (simp add: codex_record_def Some Let_def)
    then show ?thesis using acc new accounted_pend [OF acc] unfolding call by (auto split: option.split)
  next
    case 3
    then have none: "codex_record_call env r = None" by (simp add: codex_record_call_def Some)
    have say: "accounted (emit fr (codex_pointed path n i mk) st) seen"
      if "\<And>f k. ac_action_type (mk f k) \<noteq> action_type_tool_call" for n i mk
      using acc that by (simp add: accounted_emit)
    have "accounted (codex_record env fr session path r st) seen"
      unfolding codex_record_def Let_def Some option.case
      by (intro keeps [where P = "\<lambda>st. accounted st seen"] say conjunct1 [OF accounted_complete [OF acc]] acc)
        (use 3 in \<open>simp_all add: action_type_tool_call_def\<close>)
    then show ?thesis by (simp add: none)
  qed
qed

definition codex_record_calls :: "meta_env \<Rightarrow> jsonl_record \<Rightarrow> string list" where
  "codex_record_calls env r = (case codex_record_call env r of None \<Rightarrow> [] | Some i \<Rightarrow> [i])"

text \<open>
  Every tool call of a Codex transcript, custom or not, becomes exactly one chunk, with or
  without its output, when the ids of the calls are distinct.
\<close>

theorem codex_calls_once:
  assumes "codex_format_chunks env fr drain files session (Some path) = Inr cs"
    and "read_jsonl_records env (files path) = Inr rs"
    and "distinct (concat (map (codex_record_calls env) rs))" and "\<And>xs. mset (drain xs) = mset xs"
  shows "mset (call_ids cs) = mset (concat (map (codex_record_calls env) rs))"
proof -
  have "accounted (codex_record env fr session path r st) (seen @ codex_record_calls env r)"
    if "accounted st seen" "distinct (seen @ codex_record_calls env r)" for r st seen
    unfolding codex_record_calls_def
    by (rule codex_record_accounted [OF that(1)]) (use that(2) in \<open>simp add: codex_record_calls_def\<close>)
  moreover have "cs = codex_chunks env fr drain session path rs"
    using assms(1,2) by (simp add: codex_format_chunks_def)
  ultimately show ?thesis
    using loop_calls_once [where step = "codex_record env fr session path" and calls = "codex_record_calls env"] assms(3,4)
    unfolding codex_chunks_def by blast
qed

text \<open>
  The chunks of a Codex transcript can always be stored for a known session.
\<close>

theorem codex_transcript_stored:
  assumes "codex_format_chunks env fr drain files session p = Inr cs"
    and "read_source_session_id db a b = Some i"
    and "\<forall>path body. p = Some path \<and> files path = Some body \<longrightarrow> length body < 2 ^ 63"
  shows "distinct (map ac_chunk_id cs) \<and> (\<exists>db'. upsert_source_session_chunks env a b cs db = (db', Inr ()))"
  using codex.stored [OF assms(1,2)] assms(3) numbered_distinct [OF codex.format_numbered [OF assms(1)]] by blast

section \<open>Where the line index files a patch\<close>

lemma apply_patch_args_get:
  "json_get k (normalize_apply_patch_args args) =
     (if k = ''action'' then Some (JStr ''apply_patch'')
      else if k = ''patch'' then
        Some (JStr (unwrap_or (or_else (as_str (json_get ''patch'' args)) (as_str (json_get ''input'' args))) []))
      else None)"
  by (simp add: normalize_apply_patch_args_def Let_def json_get_def map_of_bt_of_list)

text \<open>
  The lines of a patch that Codex applied are indexed, but under the transcript's own path: the
  arguments name no file, and the chunk's source path stands in for it.
\<close>

theorem codex_patch_filed_under_transcript:
  assumes "codex_call payload t args_of = Some call" and "tc_raw_name call = ''apply_patch''"
    and "c = call_chunk env source session slug path (call, n) output f k"
  shows "is_file_mutation_tool (ac_function c) \<and> edit_tool_payload_has_content (ac_args c) \<and>
    chunk_file_path c = Some (from_utf8_lossy path) \<and>
    (\<forall>r\<in>set (chunk_line_rows env s i c). lr_file_path r = from_utf8_lossy path \<and> lr_kind r = ''exact_edit_hunk'')"
proof -
  obtain args where call: "tc_canonical_name call = function_edit_file" "tc_args call = normalize_apply_patch_args args"
    using assms(1,2) by (auto simp: codex_call_def bind_eq_Some_conv normalize_codex_tool_call_def Let_def
        split: prod.splits if_splits)
  have parts: "ac_function c = function_edit_file" "ac_args c = normalize_apply_patch_args args"
    "ac_action_type c = action_type_tool_call" "ac_source_path c = Some (from_utf8_lossy path)"
    using call by (simp_all add: assms(3) call_chunk_def tool_call_chunk_def activity_chunk_new_def set_source_pointer_def)
  have tool: "is_file_mutation_tool (ac_function c)"
    by (simp add: parts is_file_mutation_tool_def function_edit_file_def)
  have content: "edit_tool_payload_has_content (ac_args c)"
    by (simp add: edit_tool_payload_has_content_def payload_keys_def parts apply_patch_args_get)
  have target: "chunk_file_path c = Some (from_utf8_lossy path)"
    by (simp add: chunk_file_path_def parts apply_patch_args_get map_filter_simps)
  show ?thesis
    using tool content target by (auto simp: chunk_line_rows_def line_row_of_def Let_def)
qed

section \<open>A small example\<close>

definition sample_codex_call :: json where
  "sample_codex_call = JObj (bt_of_list [(''type'', JStr ''custom_tool_call''), (''call_id'', JStr ''c1''),
     (''name'', JStr ''apply_patch''), (''input'', JStr ''*** Add File: a.rs'')])"

definition sample_codex_entries :: "(string \<times> json) list" where
  "sample_codex_entries =
     [(''m'', JObj [(''payload'', JObj (bt_of_list [(''type'', JStr ''agent_message''), (''message'', JStr ''done'')]))]),
      (''c'', JObj [(''payload'', sample_codex_call)]),
      (''d'', JObj [(''payload'', JObj (bt_of_list [(''type'', JStr ''function_call''), (''call_id'', JStr ''c2''),
         (''name'', JStr ''view'')]))]),
      (''r'', JObj [(''payload'', JObj (bt_of_list [(''type'', JStr ''custom_tool_call_output''), (''call_id'', JStr ''c1''),
         (''output'', JStr ''ok'')]))])]"

definition sample_codex_file :: file_texts where
  "sample_codex_file path = (if path = ''/t/x1.jsonl''
     then Some (''m'' @ [CHR 0x0A] @ ''c'' @ [CHR 0x0A] @ ''d'' @ [CHR 0x0A] @ ''r'') else None)"

abbreviation sample_codex_chunks :: "transcript_error + activity_chunk list" where
  "sample_codex_chunks \<equiv> codex_format_chunks (sample_lines_env sample_codex_entries) sample_fresh (\<lambda>xs. xs)
     sample_codex_file ''s1'' (Some ''/t/x1.jsonl'')"

lemma sample_codex_run:
  "(case sample_codex_chunks of Inl e \<Rightarrow> None | Inr cs \<Rightarrow> Some (map (\<lambda>c. (ac_chunk_id c, ac_function c)) cs)) =
     Some [(''codex-asst-0'', ''assistant''), (''codex-tool-1-c1'', ''edit_file_by_replace''),
       (''codex-tool-2-c2'', ''view'')]"
  by code_simp

lemma sample_codex_calls:
  "(case read_jsonl_records (sample_lines_env sample_codex_entries) (sample_codex_file ''/t/x1.jsonl'') of
      Inl e \<Rightarrow> None
    | Inr rs \<Rightarrow> Some (concat (map (codex_record_calls (sample_lines_env sample_codex_entries)) rs))) = Some [''c1'', ''c2'']"
  by code_simp

theorem codex_calls_once_witness:
  "\<exists>cs. sample_codex_chunks = Inr cs \<and> mset (call_ids cs) = {#''c1'', ''c2''#}"
proof -
  obtain cs where cs: "sample_codex_chunks = Inr cs"
    using sample_codex_run by (cases sample_codex_chunks) auto
  obtain rs where rs: "read_jsonl_records (sample_lines_env sample_codex_entries) (sample_codex_file ''/t/x1.jsonl'') = Inr rs"
    "concat (map (codex_record_calls (sample_lines_env sample_codex_entries)) rs) = [''c1'', ''c2'']"
    using sample_codex_calls by (auto split: sum.splits)
  have "distinct (concat (map (codex_record_calls (sample_lines_env sample_codex_entries)) rs))" by (simp add: rs(2))
  from codex_calls_once [OF cs rs(1) this] cs show ?thesis by (simp add: rs(2))
qed

theorem codex_transcript_stored_witness:
  "\<exists>cs db'. sample_codex_chunks = Inr cs \<and>
     upsert_source_session_chunks (sample_lines_env sample_codex_entries) ''claude'' ''s1'' cs sample_session_db = (db', Inr ())"
proof -
  obtain cs where cs: "sample_codex_chunks = Inr cs"
    using sample_codex_run by (cases sample_codex_chunks) auto
  have "\<forall>path body. Some ''/t/x1.jsonl'' = Some path \<and> sample_codex_file path = Some body \<longrightarrow> length body < 2 ^ 63"
    by (simp add: sample_codex_file_def)
  from codex_transcript_stored [OF cs sample_session_id this] cs show ?thesis by blast
qed

theorem codex_patch_filed_under_transcript_witness:
  "\<exists>call. pending_custom_tool_call_from_payload sample_codex_call ''t'' = Some call \<and>
     (\<forall>r\<in>set (chunk_line_rows sample_meta_env 1 0
        (call_chunk sample_meta_env codex_source_id ''s1'' codex_slug ''/t/x1.jsonl'' (call, 1) ''ok'' (sample_fresh 0) 0)).
        lr_file_path r = from_utf8_lossy ''/t/x1.jsonl'')"
proof -
  have "map_option tc_raw_name (pending_custom_tool_call_from_payload sample_codex_call ''t'') = Some ''apply_patch''"
    by code_simp
  then obtain call where call: "pending_custom_tool_call_from_payload sample_codex_call ''t'' = Some call"
    "tc_raw_name call = ''apply_patch''" by auto
  from codex_patch_filed_under_transcript [OF call(1) [unfolded pending_custom_tool_call_from_payload_def] call(2) refl] call(1)
  show ?thesis by blast
qed

end
