(* ===== verification/Cache_Types.thy ===== *)
theory Cache_Types imports Source_Blame begin

text \<open>
  The tables of the SQLite query cache (\<^verbatim>\<open>sqlite_schema.rs\<close>, \<^verbatim>\<open>sqlite_index.rs\<close>): one record per
  table, times as text and numbers as SQLite's 64-bit integers, and the row that each entity of the
  index is stored as.
\<close>

section \<open>Rows\<close>

record cache_event =
  qe_event_id :: string
  qe_event_type :: string
  qe_schema_version :: int
  qe_payload_schema_version :: int
  qe_occurred_at :: string
  qe_recorded_at :: string
  qe_actor_id :: string
  qe_actor_type :: string
  qe_actor_display_name :: "string option"
  qe_repo_id :: "string option"
  qe_org_id :: "string option"
  qe_project_id :: "string option"
  qe_mission_id :: "string option"
  qe_session_id :: "string option"
  qe_artifact_id :: "string option"
  qe_repo_context_id :: "string option"
  qe_confidence :: string
  qe_payload_json :: string

record cache_org =
  qo_org_id :: string
  qo_name :: "string option"
  qo_description :: "string option"
  qo_created_at :: string
  qo_last_event_at :: string

record cache_project =
  qp_project_id :: string
  qp_org_id :: "string option"
  qp_name :: "string option"
  qp_description :: "string option"
  qp_created_at :: string
  qp_last_event_at :: string

record cache_mission =
  qm_mission_id :: string
  qm_project_id :: "string option"
  qm_title :: "string option"
  qm_description :: "string option"
  qm_status :: string
  qm_created_at :: string
  qm_last_event_at :: string

record cache_session =
  qs_session_id :: string
  qs_session_name :: "string option"
  qs_actor_id :: "string option"
  qs_actor_type :: "string option"
  qs_app_id :: "string option"
  qs_app_session_id :: "string option"
  qs_app_session_name :: "string option"
  qs_runtime_id :: "string option"
  qs_started_at :: string
  qs_last_event_at :: string

record cache_artifact =
  qa_artifact_id :: string
  qa_artifact_kind :: "string option"
  qa_title :: "string option"
  qa_body :: "string option"
  qa_created_at :: string
  qa_last_event_at :: string

record cache_attachment =
  qt_attachment_id :: string
  qt_name :: string
  qt_original_path :: string
  qt_content_type :: "string option"
  qt_sha256 :: string
  qt_size_bytes :: int
  qt_storage_uri :: string
  qt_external_uri :: "string option"
  qt_availability :: string
  qt_repo_context_id :: "string option"
  qt_uploaded_at :: string

record cache_diff =
  qd_diff_id :: string
  qd_artifact_id :: string
  qd_session_id :: "string option"
  qd_mission_id :: "string option"
  qd_diff_target :: string
  qd_base_commit :: "string option"
  qd_head_commit :: "string option"
  qd_patch_id :: "string option"
  qd_summary_hash :: string
  qd_file_count :: int
  qd_additions :: int
  qd_deletions :: int
  qd_binary_file_count :: int
  qd_repo_context_id :: "string option"
  qd_captured_at :: string

record cache_diff_file =
  qf_diff_id :: string
  qf_path :: string
  qf_old_path :: "string option"
  qf_change_kind :: string
  qf_additions :: "int option"
  qf_deletions :: "int option"

record cache_session_log =
  ql_log_ref_id :: string
  ql_session_id :: string
  ql_original_path :: string
  ql_format :: string
  ql_source :: string
  ql_sha256 :: string
  ql_size_bytes :: int
  ql_storage_uri :: string
  ql_local_path :: string
  ql_external_uri :: "string option"
  ql_availability :: string
  ql_repo_context_id :: "string option"
  ql_uploaded_at :: string

record cache_file_ref =
  qr_file_ref_id :: string
  qr_artifact_id :: string
  qr_session_id :: "string option"
  qr_repo_context_id :: "string option"
  qr_path :: string
  qr_recorded_at :: string

record cache_repo_context =
  qx_repo_context_id :: string
  qx_branch :: "string option"
  qx_head_commit :: "string option"
  qx_dirty :: bool
  qx_captured_at :: string

text \<open>The tables in the order of the schema; rows in the order of insertion.\<close>

record query_cache =
  qc_metadata :: "(string \<times> string) list"
  qc_events :: "cache_event list"
  qc_orgs :: "cache_org list"
  qc_projects :: "cache_project list"
  qc_missions :: "cache_mission list"
  qc_sessions :: "cache_session list"
  qc_session_missions :: "(string \<times> string) list"
  qc_artifacts :: "cache_artifact list"
  qc_artifact_missions :: "(string \<times> string) list"
  qc_artifact_sessions :: "(string \<times> string) list"
  qc_files :: "string list"
  qc_artifact_files :: "(string \<times> string) list"
  qc_attachments :: "cache_attachment list"
  qc_diffs :: "cache_diff list"
  qc_diff_files :: "cache_diff_file list"
  qc_session_logs :: "cache_session_log list"
  qc_artifact_attachments :: "(string \<times> string) list"
  qc_file_refs :: "cache_file_ref list"
  qc_repo_contexts :: "cache_repo_context list"

definition empty_cache :: query_cache where
  "empty_cache =
     \<lparr>qc_metadata = [], qc_events = [], qc_orgs = [], qc_projects = [], qc_missions = [], qc_sessions = [],
      qc_session_missions = [], qc_artifacts = [], qc_artifact_missions = [], qc_artifact_sessions = [],
      qc_files = [], qc_artifact_files = [], qc_attachments = [], qc_diffs = [], qc_diff_files = [],
      qc_session_logs = [], qc_artifact_attachments = [], qc_file_refs = [], qc_repo_contexts = []\<rparr>"

section \<open>Numbers\<close>

definition max_i64 :: nat where
  "max_i64 = 2 ^ 63 - 1"

definition fits_i64 :: "nat \<Rightarrow> bool" where
  "fits_i64 n \<longleftrightarrow> n \<le> max_i64"

definition saturated_i64 :: "u64 \<Rightarrow> int" where
  "saturated_i64 w = int (min (unat w) max_i64)"

definition u64_or_zero :: "int \<Rightarrow> u64" where
  "u64_or_zero i = (if i < 0 then 0 else of_int i)"

section \<open>The row of an entity\<close>

definition event_row_for :: "meta_env \<Rightarrow> trace_event \<Rightarrow> cache_event" where
  "event_row_for env ev =
     \<lparr>qe_event_id = te_event_id ev, qe_event_type = event_type_wire (te_event_type ev),
      qe_schema_version = uint (te_schema_version ev),
      qe_payload_schema_version = uint (te_payload_schema_version ev),
      qe_occurred_at = time_text env (te_occurred_at ev), qe_recorded_at = time_text env (te_recorded_at ev),
      qe_actor_id = actor_id (te_actor ev), qe_actor_type = actor_type_wire (actor_type (te_actor ev)),
      qe_actor_display_name = display_name (te_actor ev), qe_repo_id = te_repo_id ev,
      qe_org_id = te_org_id ev, qe_project_id = te_project_id ev, qe_mission_id = te_mission_id ev,
      qe_session_id = te_session_id ev, qe_artifact_id = te_artifact_id ev,
      qe_repo_context_id = te_repo_context_id ev, qe_confidence = confidence_level_wire (te_confidence ev),
      qe_payload_json = me_json_text env (te_payload ev)\<rparr>"

definition org_row :: "meta_env \<Rightarrow> indexed_org \<Rightarrow> cache_org" where
  "org_row env v =
     \<lparr>qo_org_id = io_org_id v, qo_name = io_name v, qo_description = io_description v,
      qo_created_at = time_text env (io_created_at v), qo_last_event_at = time_text env (io_last_event_at v)\<rparr>"

definition project_row :: "meta_env \<Rightarrow> indexed_project \<Rightarrow> cache_project" where
  "project_row env v =
     \<lparr>qp_project_id = ip_project_id v, qp_org_id = ip_org_id v, qp_name = ip_name v,
      qp_description = ip_description v, qp_created_at = time_text env (ip_created_at v),
      qp_last_event_at = time_text env (ip_last_event_at v)\<rparr>"

definition mission_row :: "meta_env \<Rightarrow> indexed_mission \<Rightarrow> cache_mission" where
  "mission_row env v =
     \<lparr>qm_mission_id = im_mission_id v, qm_project_id = im_project_id v, qm_title = im_title v,
      qm_description = im_description v, qm_status = mission_status_wire (im_status v),
      qm_created_at = time_text env (im_created_at v), qm_last_event_at = time_text env (im_last_event_at v)\<rparr>"

definition session_row_for :: "meta_env \<Rightarrow> indexed_session \<Rightarrow> cache_session" where
  "session_row_for env v =
     \<lparr>qs_session_id = isn_session_id v, qs_session_name = isn_session_name v, qs_actor_id = isn_actor_id v,
      qs_actor_type = map_option actor_type_wire (isn_actor_type v), qs_app_id = ss_app_id (isn_source v),
      qs_app_session_id = ss_app_session_id (isn_source v),
      qs_app_session_name = ss_app_session_name (isn_source v), qs_runtime_id = ss_runtime_id (isn_source v),
      qs_started_at = time_text env (isn_started_at v), qs_last_event_at = time_text env (isn_last_event_at v)\<rparr>"

definition artifact_row :: "meta_env \<Rightarrow> indexed_artifact \<Rightarrow> cache_artifact" where
  "artifact_row env v =
     \<lparr>qa_artifact_id = ia_artifact_id v, qa_artifact_kind = map_option artifact_kind_wire (ia_artifact_kind v),
      qa_title = ia_title v, qa_body = ia_body v, qa_created_at = time_text env (ia_created_at v),
      qa_last_event_at = time_text env (ia_last_event_at v)\<rparr>"

definition attachment_row :: "meta_env \<Rightarrow> indexed_attachment \<Rightarrow> cache_attachment" where
  "attachment_row env v =
     \<lparr>qt_attachment_id = iat_attachment_id v, qt_name = iat_name v, qt_original_path = iat_original_path v,
      qt_content_type = iat_content_type v, qt_sha256 = iat_sha256 v, qt_size_bytes = uint (iat_size_bytes v),
      qt_storage_uri = iat_storage_uri v, qt_external_uri = iat_external_uri v,
      qt_availability = evidence_availability_wire (iat_availability v),
      qt_repo_context_id = iat_repo_context_id v, qt_uploaded_at = time_text env (iat_uploaded_at v)\<rparr>"

definition diff_row :: "meta_env \<Rightarrow> indexed_diff \<Rightarrow> cache_diff" where
  "diff_row env v =
     \<lparr>qd_diff_id = idf_diff_id v, qd_artifact_id = idf_artifact_id v, qd_session_id = idf_session_id v,
      qd_mission_id = idf_mission_id v, qd_diff_target = diff_target_wire (idf_diff_target v),
      qd_base_commit = idf_base_commit v, qd_head_commit = idf_head_commit v, qd_patch_id = idf_patch_id v,
      qd_summary_hash = idf_summary_hash v, qd_file_count = int (idf_file_count v),
      qd_additions = uint (idf_additions v), qd_deletions = uint (idf_deletions v),
      qd_binary_file_count = int (idf_binary_file_count v), qd_repo_context_id = idf_repo_context_id v,
      qd_captured_at = time_text env (idf_captured_at v)\<rparr>"

definition diff_file_row :: "string \<Rightarrow> indexed_diff_file_change \<Rightarrow> cache_diff_file" where
  "diff_file_row diff_id c =
     \<lparr>qf_diff_id = diff_id, qf_path = ich_path c, qf_old_path = ich_old_path c,
      qf_change_kind = diff_file_change_kind_wire (ich_change_kind c),
      qf_additions = map_option saturated_i64 (ich_additions c),
      qf_deletions = map_option saturated_i64 (ich_deletions c)\<rparr>"

definition session_log_row :: "meta_env \<Rightarrow> indexed_session_log \<Rightarrow> cache_session_log" where
  "session_log_row env v =
     \<lparr>ql_log_ref_id = isl_log_ref_id v, ql_session_id = isl_session_id v,
      ql_original_path = isl_original_path v, ql_format = session_log_format_wire (isl_format v),
      ql_source = isl_source v, ql_sha256 = isl_sha256 v, ql_size_bytes = uint (isl_size_bytes v),
      ql_storage_uri = isl_storage_uri v, ql_local_path = isl_local_path v,
      ql_external_uri = isl_external_uri v, ql_availability = evidence_availability_wire (isl_availability v),
      ql_repo_context_id = isl_repo_context_id v, ql_uploaded_at = time_text env (isl_uploaded_at v)\<rparr>"

definition file_ref_row :: "meta_env \<Rightarrow> string \<Rightarrow> indexed_file_ref \<Rightarrow> cache_file_ref" where
  "file_ref_row env path r =
     \<lparr>qr_file_ref_id = ifr_file_ref_id r, qr_artifact_id = ifr_artifact_id r,
      qr_session_id = ifr_session_id r, qr_repo_context_id = ifr_repo_context_id r, qr_path = path,
      qr_recorded_at = time_text env (ifr_recorded_at r)\<rparr>"

definition repo_context_row :: "meta_env \<Rightarrow> indexed_repo_context \<Rightarrow> cache_repo_context" where
  "repo_context_row env v =
     \<lparr>qx_repo_context_id = irc_repo_context_id v, qx_branch = irc_branch v,
      qx_head_commit = irc_head_commit v, qx_dirty = irc_dirty v,
      qx_captured_at = time_text env (irc_captured_at v)\<rparr>"

lemmas cache_row_defs =
  event_row_for_def org_row_def project_row_def mission_row_def session_row_for_def artifact_row_def
  attachment_row_def diff_row_def diff_file_row_def session_log_row_def file_ref_row_def repo_context_row_def

end
