(* ===== verification/Query_Cache.thy ===== *)
theory Query_Cache imports Cache_Types begin

text \<open>
  The rebuildable SQLite query cache (\<^verbatim>\<open>sqlite_index.rs\<close>): filling the tables from a log and its
  index inside one transaction, the status, and the queries. A statement that violates a key fails;
  the transaction is then rolled back.
\<close>

section \<open>Statements\<close>

datatype cache_error =
    Bad_Cache_Version
  | Key_Violated string        \<comment> \<open>the table\<close>
  | Exceeds_Integer

text \<open>\<^verbatim>\<open>INSERT\<close>: no two rows of a table have the same key; a key with a NULL part conflicts with none.\<close>

definition sql_insert :: "string \<Rightarrow> ('r \<Rightarrow> 'k option) \<Rightarrow> 'r \<Rightarrow> 'r list \<Rightarrow> cache_error + 'r list" where
  "sql_insert name key r rows =
     (if key r \<noteq> None \<and> key r \<in> set (map key rows) then Inl (Key_Violated name) else Inr (rows @ [r]))"

definition sql_insert_ignore :: "'r \<Rightarrow> 'r list \<Rightarrow> 'r list" where
  "sql_insert_ignore r rows = (if r \<in> set rows then rows else rows @ [r])"

fun try_fold :: "('a \<Rightarrow> 's \<Rightarrow> 'e + 's) \<Rightarrow> 'a list \<Rightarrow> 's \<Rightarrow> 'e + 's" where
  "try_fold f [] s = Inr s"
| "try_fold f (x # xs) s = and_then (f x s) (try_fold f xs)"

section \<open>Filling the tables\<close>

definition sqlite_index_schema_version :: nat where
  "sqlite_index_schema_version = 2"

definition insert_metadata :: "meta_env \<Rightarrow> instant \<Rightarrow> nat \<Rightarrow> query_cache \<Rightarrow> cache_error + query_cache" where
  "insert_metadata env now event_count db =
     and_then (try_fold (sql_insert ''metadata'' (\<lambda>(k, v). Some k))
       [(''schema_version'', show_nat sqlite_index_schema_version), (''rebuilt_at'', time_text env now),
        (''event_count'', show_nat event_count)] (qc_metadata db))
     (\<lambda>rows. Inr (db\<lparr>qc_metadata := rows\<rparr>))"

definition insert_event :: "meta_env \<Rightarrow> trace_event \<Rightarrow> query_cache \<Rightarrow> cache_error + query_cache" where
  "insert_event env ev db =
     and_then (sql_insert ''events'' (Some \<circ> qe_event_id) (event_row_for env ev) (qc_events db))
     (\<lambda>rows. Inr (db\<lparr>qc_events := rows\<rparr>))"

definition insert_events :: "meta_env \<Rightarrow> trace_event list \<Rightarrow> query_cache \<Rightarrow> cache_error + query_cache" where
  "insert_events env evs db = try_fold (insert_event env) evs db"

definition insert_org :: "meta_env \<Rightarrow> indexed_org \<Rightarrow> query_cache \<Rightarrow> cache_error + query_cache" where
  "insert_org env v db =
     and_then (sql_insert ''orgs'' (Some \<circ> qo_org_id) (org_row env v) (qc_orgs db))
     (\<lambda>rows. Inr (db\<lparr>qc_orgs := rows\<rparr>))"

definition insert_project :: "meta_env \<Rightarrow> indexed_project \<Rightarrow> query_cache \<Rightarrow> cache_error + query_cache" where
  "insert_project env v db =
     and_then (sql_insert ''projects'' (Some \<circ> qp_project_id) (project_row env v) (qc_projects db))
     (\<lambda>rows. Inr (db\<lparr>qc_projects := rows\<rparr>))"

definition insert_mission :: "meta_env \<Rightarrow> indexed_mission \<Rightarrow> query_cache \<Rightarrow> cache_error + query_cache" where
  "insert_mission env v db =
     and_then (sql_insert ''missions'' (Some \<circ> qm_mission_id) (mission_row env v) (qc_missions db))
     (\<lambda>rows. Inr (db\<lparr>qc_missions := rows\<rparr>))"

definition insert_session :: "meta_env \<Rightarrow> indexed_session \<Rightarrow> query_cache \<Rightarrow> cache_error + query_cache" where
  "insert_session env v db =
     and_then (sql_insert ''sessions'' (Some \<circ> qs_session_id) (session_row_for env v) (qc_sessions db)) (\<lambda>rows.
     and_then (try_fold (\<lambda>m. sql_insert ''session_missions'' Some (isn_session_id v, m)) (isn_mission_ids v)
       (qc_session_missions db)) (\<lambda>links.
     Inr (db\<lparr>qc_sessions := rows, qc_session_missions := links\<rparr>)))"

definition insert_artifact :: "meta_env \<Rightarrow> indexed_artifact \<Rightarrow> query_cache \<Rightarrow> cache_error + query_cache" where
  "insert_artifact env v db =
     (let a = ia_artifact_id v
      in and_then (sql_insert ''artifacts'' (Some \<circ> qa_artifact_id) (artifact_row env v) (qc_artifacts db)) (\<lambda>rows.
         and_then (try_fold (\<lambda>m. sql_insert ''artifact_missions'' Some (a, m)) (ia_mission_ids v)
           (qc_artifact_missions db)) (\<lambda>missions.
         and_then (try_fold (\<lambda>s. sql_insert ''artifact_sessions'' Some (a, s)) (ia_session_ids v)
           (qc_artifact_sessions db)) (\<lambda>sessions.
         Inr (db\<lparr>qc_artifacts := rows, qc_artifact_missions := missions, qc_artifact_sessions := sessions,
                qc_artifact_files := fold (\<lambda>p. sql_insert_ignore (a, p)) (ia_file_paths v) (qc_artifact_files db),
                qc_artifact_attachments :=
                  fold (\<lambda>i. sql_insert_ignore (a, i)) (ia_attachment_ids v) (qc_artifact_attachments db)\<rparr>)))))"

definition insert_file_ref :: "meta_env \<Rightarrow> string \<Rightarrow> indexed_file_ref \<Rightarrow> query_cache \<Rightarrow> cache_error + query_cache" where
  "insert_file_ref env path r db =
     and_then (sql_insert ''file_refs'' (Some \<circ> qr_file_ref_id) (file_ref_row env path r) (qc_file_refs db))
     (\<lambda>rows. Inr (db\<lparr>qc_file_refs := rows,
        qc_artifact_files := sql_insert_ignore (ifr_artifact_id r, path) (qc_artifact_files db)\<rparr>))"

definition insert_file :: "meta_env \<Rightarrow> indexed_file \<Rightarrow> query_cache \<Rightarrow> cache_error + query_cache" where
  "insert_file env v db =
     and_then (sql_insert ''files'' Some (ifl_path v) (qc_files db)) (\<lambda>rows.
     try_fold (insert_file_ref env (ifl_path v)) (ifl_file_refs v) (db\<lparr>qc_files := rows\<rparr>))"

definition insert_attachment :: "meta_env \<Rightarrow> indexed_attachment \<Rightarrow> query_cache \<Rightarrow> cache_error + query_cache" where
  "insert_attachment env v db =
     (if \<not> fits_i64 (unat (iat_size_bytes v)) then Inl Exceeds_Integer
      else and_then (sql_insert ''attachments'' (Some \<circ> qt_attachment_id) (attachment_row env v) (qc_attachments db))
        (\<lambda>rows. Inr (db\<lparr>qc_attachments := rows, qc_artifact_attachments :=
           sql_insert_ignore (iat_artifact_id v, iat_attachment_id v) (qc_artifact_attachments db)\<rparr>)))"

definition diff_file_key :: "cache_diff_file \<Rightarrow> (string \<times> string \<times> string) option" where
  "diff_file_key r = map_option (\<lambda>old. (qf_diff_id r, qf_path r, old)) (qf_old_path r)"

definition insert_diff :: "meta_env \<Rightarrow> indexed_diff \<Rightarrow> query_cache \<Rightarrow> cache_error + query_cache" where
  "insert_diff env v db =
     (if \<not> fits_i64 (idf_file_count v) \<or> \<not> fits_i64 (unat (idf_additions v)) \<or>
         \<not> fits_i64 (unat (idf_deletions v)) \<or> \<not> fits_i64 (idf_binary_file_count v) then Inl Exceeds_Integer
      else and_then (sql_insert ''diffs'' (Some \<circ> qd_diff_id) (diff_row env v) (qc_diffs db)) (\<lambda>rows.
        and_then (try_fold (\<lambda>c. sql_insert ''diff_files'' diff_file_key (diff_file_row (idf_diff_id v) c))
          (idf_file_changes v) (qc_diff_files db)) (\<lambda>changes.
        Inr (db\<lparr>qc_diffs := rows, qc_diff_files := changes\<rparr>))))"

definition insert_session_log :: "meta_env \<Rightarrow> indexed_session_log \<Rightarrow> query_cache \<Rightarrow> cache_error + query_cache" where
  "insert_session_log env v db =
     (if \<not> fits_i64 (unat (isl_size_bytes v)) then Inl Exceeds_Integer
      else and_then (sql_insert ''session_logs'' (Some \<circ> ql_log_ref_id) (session_log_row env v) (qc_session_logs db))
        (\<lambda>rows. Inr (db\<lparr>qc_session_logs := rows\<rparr>)))"

definition insert_repo_context ::
  "meta_env \<Rightarrow> indexed_repo_context \<Rightarrow> query_cache \<Rightarrow> cache_error + query_cache" where
  "insert_repo_context env v db =
     and_then (sql_insert ''repo_contexts'' (Some \<circ> qx_repo_context_id) (repo_context_row env v) (qc_repo_contexts db))
     (\<lambda>rows. Inr (db\<lparr>qc_repo_contexts := rows\<rparr>))"

definition insert_index :: "meta_env \<Rightarrow> trace_index \<Rightarrow> query_cache \<Rightarrow> cache_error + query_cache" where
  "insert_index env idx db =
     and_then (try_fold (insert_org env) (map snd (ti_orgs idx)) db) (\<lambda>db.
     and_then (try_fold (insert_project env) (map snd (ti_projects idx)) db) (\<lambda>db.
     and_then (try_fold (insert_mission env) (map snd (ti_missions idx)) db) (\<lambda>db.
     and_then (try_fold (insert_session env) (map snd (ti_sessions idx)) db) (\<lambda>db.
     and_then (try_fold (insert_artifact env) (map snd (ti_artifacts idx)) db) (\<lambda>db.
     and_then (try_fold (insert_file env) (map snd (ti_files idx)) db) (\<lambda>db.
     and_then (try_fold (insert_attachment env) (map snd (ti_attachments idx)) db) (\<lambda>db.
     and_then (try_fold (insert_diff env) (map snd (ti_diffs idx)) db) (\<lambda>db.
     and_then (try_fold (insert_session_log env) (map snd (ti_session_logs idx)) db) (\<lambda>db.
     try_fold (insert_repo_context env) (map snd (ti_repo_contexts idx)) db)))))))))"

section \<open>Rebuilding\<close>

text \<open>The file: without tables, or with those of a cache.\<close>

type_synonym cache_file = "query_cache option"

definition parse_u16 :: "string \<Rightarrow> nat option" where
  "parse_u16 s = filter_opt (\<lambda>n. n < 2 ^ 16) (map_option unat (parse_u64 s))"

definition cached_version :: "query_cache \<Rightarrow> cache_error + nat option" where
  "cached_version db =
     (case map_of (qc_metadata db) ''schema_version'' of
        None \<Rightarrow> Inr None
      | Some text \<Rightarrow> (case parse_u16 text of None \<Rightarrow> Inl Bad_Cache_Version | Some v \<Rightarrow> Inr (Some v)))"

definition prepare_schema_for_rebuild :: "cache_file \<Rightarrow> cache_error + query_cache" where
  "prepare_schema_for_rebuild f =
     (case f of
        None \<Rightarrow> Inr empty_cache
      | Some db \<Rightarrow>
          and_then (cached_version db) (\<lambda>v.
            Inr (if v = Some sqlite_index_schema_version then db else empty_cache)))"

definition fill_cache :: "meta_env \<Rightarrow> instant \<Rightarrow> trace_event list \<Rightarrow> trace_index \<Rightarrow> cache_error + query_cache" where
  "fill_cache env now evs idx =
     and_then (insert_metadata env now (length evs) empty_cache) (\<lambda>db.
     and_then (insert_events env evs db) (insert_index env idx))"

definition rebuild_sqlite_index ::
  "meta_env \<Rightarrow> instant \<Rightarrow> trace_event list \<Rightarrow> trace_index \<Rightarrow> cache_file \<Rightarrow> cache_file \<times> (cache_error + unit)" where
  "rebuild_sqlite_index env now evs idx f =
     (case prepare_schema_for_rebuild f of
        Inl e \<Rightarrow> (f, Inl e)
      | Inr db \<Rightarrow>
          (case fill_cache env now evs idx of
             Inl e \<Rightarrow> (Some db, Inl e)
           | Inr db' \<Rightarrow> (Some db', Inr ())))"

record sqlite_index_status =
  qi_exists :: bool
  qi_schema_version :: "nat option"
  qi_event_count :: nat
  qi_mission_count :: nat
  qi_session_count :: nat
  qi_artifact_count :: nat
  qi_file_count :: nat
  qi_session_log_count :: nat
  qi_diff_count :: nat
  qi_rebuilt_at :: "instant option"

definition cache_status :: "meta_env \<Rightarrow> cache_file \<Rightarrow> cache_error + sqlite_index_status" where
  "cache_status env f =
     (case f of
        None \<Rightarrow>
          Inr \<lparr>qi_exists = False, qi_schema_version = None, qi_event_count = 0, qi_mission_count = 0,
               qi_session_count = 0, qi_artifact_count = 0, qi_file_count = 0, qi_session_log_count = 0,
               qi_diff_count = 0, qi_rebuilt_at = None\<rparr>
      | Some db \<Rightarrow>
          and_then (cached_version db) (\<lambda>v.
          and_then (case map_of (qc_metadata db) ''rebuilt_at'' of
                      None \<Rightarrow> Inr None
                    | Some text \<Rightarrow> (case me_parse_time env text of None \<Rightarrow> Inl Bad_Cache_Version | Some t \<Rightarrow> Inr (Some t)))
            (\<lambda>t. Inr \<lparr>qi_exists = True, qi_schema_version = v, qi_event_count = length (qc_events db),
               qi_mission_count = length (qc_missions db), qi_session_count = length (qc_sessions db),
               qi_artifact_count = length (qc_artifacts db), qi_file_count = length (qc_files db),
               qi_session_log_count = length (qc_session_logs db), qi_diff_count = length (qc_diffs db),
               qi_rebuilt_at = t\<rparr>)))"

section \<open>Sessions\<close>

record sqlite_session_query =
  qq_app_id :: "string option"
  qq_actor_id :: "string option"
  qq_runtime_id :: "string option"
  qq_limit :: nat

record sqlite_session_record = cache_session +
  sr_mission_ids :: "string list"
  sr_artifact_ids :: "string list"
  sr_log_ref_ids :: "string list"

definition cache_limit :: "nat \<Rightarrow> nat" where
  "cache_limit limit = min (max limit 1) max_i64"

text \<open>\<^verbatim>\<open>?1 IS NULL OR column = ?1\<close>\<close>

definition optional_eq :: "string option \<Rightarrow> string option \<Rightarrow> bool" where
  "optional_eq want have \<longleftrightarrow> want = None \<or> have = want"

text \<open>\<^verbatim>\<open>SELECT y ... WHERE x = ?1 ORDER BY y\<close> on a table of pairs\<close>

definition collect_values :: "(string \<times> string) list \<Rightarrow> string \<Rightarrow> string list" where
  "collect_values pairs x = sort (map snd (filter (\<lambda>(a, b). a = x) pairs))"

definition session_record_of :: "query_cache \<Rightarrow> cache_session \<Rightarrow> sqlite_session_record" where
  "session_record_of db s =
     cache_session.extend s
       \<lparr>sr_mission_ids = collect_values (qc_session_missions db) (qs_session_id s),
        sr_artifact_ids = collect_values (map prod.swap (qc_artifact_sessions db)) (qs_session_id s),
        sr_log_ref_ids = map ql_log_ref_id (sort_key ql_uploaded_at (sort_key ql_log_ref_id
          (filter (\<lambda>l. ql_session_id l = qs_session_id s) (qc_session_logs db))))\<rparr>"

definition session_matches :: "sqlite_session_query \<Rightarrow> cache_session \<Rightarrow> bool" where
  "session_matches q s \<longleftrightarrow>
     optional_eq (qq_app_id q) (qs_app_id s) \<and> optional_eq (qq_actor_id q) (qs_actor_id s) \<and>
     optional_eq (qq_runtime_id q) (qs_runtime_id s)"

definition query_sqlite_sessions :: "query_cache \<Rightarrow> sqlite_session_query \<Rightarrow> sqlite_session_record list" where
  "query_sqlite_sessions db q =
     map (session_record_of db) (take (cache_limit (qq_limit q))
       (sort_desc qs_last_event_at (sort_key qs_session_id (filter (session_matches q) (qc_sessions db)))))"

section \<open>Artifacts\<close>

record sqlite_artifact_query =
  qw_session_id :: "string option"
  qw_mission_id :: "string option"
  qw_limit :: nat

record sqlite_diff_record =
  dr_diff_id :: string
  dr_diff_target :: string
  dr_base_commit :: "string option"
  dr_head_commit :: "string option"
  dr_patch_id :: "string option"
  dr_summary_hash :: string
  dr_file_count :: nat
  dr_additions :: u64
  dr_deletions :: u64
  dr_binary_file_count :: nat
  dr_repo_context_id :: "string option"
  dr_captured_at :: string

record sqlite_attachment_record =
  ar_attachment_id :: string
  ar_name :: string
  ar_original_path :: string
  ar_content_type :: "string option"
  ar_sha256 :: string
  ar_size_bytes :: u64
  ar_storage_uri :: string
  ar_external_uri :: "string option"
  ar_availability :: string
  ar_repo_context_id :: "string option"
  ar_uploaded_at :: string

record sqlite_artifact_record = cache_artifact +
  tr_mission_ids :: "string list"
  tr_session_ids :: "string list"
  tr_file_paths :: "string list"
  tr_attachments :: "sqlite_attachment_record list"
  tr_diffs :: "sqlite_diff_record list"

definition attachment_record_of :: "cache_attachment \<Rightarrow> sqlite_attachment_record" where
  "attachment_record_of r =
     \<lparr>ar_attachment_id = qt_attachment_id r, ar_name = qt_name r, ar_original_path = qt_original_path r,
      ar_content_type = qt_content_type r, ar_sha256 = qt_sha256 r, ar_size_bytes = u64_or_zero (qt_size_bytes r),
      ar_storage_uri = qt_storage_uri r, ar_external_uri = qt_external_uri r,
      ar_availability = qt_availability r, ar_repo_context_id = qt_repo_context_id r,
      ar_uploaded_at = qt_uploaded_at r\<rparr>"

definition collect_attachments :: "query_cache \<Rightarrow> string \<Rightarrow> sqlite_attachment_record list" where
  "collect_attachments db artifact_id =
     map attachment_record_of (sort_key qt_uploaded_at (sort_key qt_attachment_id
       (filter (\<lambda>r. (artifact_id, qt_attachment_id r) \<in> set (qc_artifact_attachments db)) (qc_attachments db))))"

definition diff_record_of :: "cache_diff \<Rightarrow> sqlite_diff_record" where
  "diff_record_of r =
     \<lparr>dr_diff_id = qd_diff_id r, dr_diff_target = qd_diff_target r, dr_base_commit = qd_base_commit r,
      dr_head_commit = qd_head_commit r, dr_patch_id = qd_patch_id r, dr_summary_hash = qd_summary_hash r,
      dr_file_count = nat (qd_file_count r), dr_additions = u64_or_zero (qd_additions r),
      dr_deletions = u64_or_zero (qd_deletions r), dr_binary_file_count = nat (qd_binary_file_count r),
      dr_repo_context_id = qd_repo_context_id r, dr_captured_at = qd_captured_at r\<rparr>"

definition collect_diffs :: "query_cache \<Rightarrow> string \<Rightarrow> sqlite_diff_record list" where
  "collect_diffs db artifact_id =
     map diff_record_of (sort_key qd_captured_at (sort_key qd_diff_id
       (filter (\<lambda>r. qd_artifact_id r = artifact_id) (qc_diffs db))))"

definition artifact_record_of :: "query_cache \<Rightarrow> cache_artifact \<Rightarrow> sqlite_artifact_record" where
  "artifact_record_of db a =
     cache_artifact.extend a
       \<lparr>tr_mission_ids = collect_values (qc_artifact_missions db) (qa_artifact_id a),
        tr_session_ids = collect_values (qc_artifact_sessions db) (qa_artifact_id a),
        tr_file_paths = collect_values (qc_artifact_files db) (qa_artifact_id a),
        tr_attachments = collect_attachments db (qa_artifact_id a),
        tr_diffs = collect_diffs db (qa_artifact_id a)\<rparr>"

text \<open>
  The joins with the links repeat an artifact once per pair of links; \<^verbatim>\<open>DISTINCT\<close> takes the copies
  away, so an artifact is kept when it has a link to each id that is asked for.
\<close>

definition has_link :: "(string \<times> string) list \<Rightarrow> string \<Rightarrow> string option \<Rightarrow> bool" where
  "has_link pairs a want = (case want of None \<Rightarrow> True | Some b \<Rightarrow> (a, b) \<in> set pairs)"

definition query_sqlite_artifacts :: "query_cache \<Rightarrow> sqlite_artifact_query \<Rightarrow> sqlite_artifact_record list" where
  "query_sqlite_artifacts db q =
     map (artifact_record_of db) (take (cache_limit (qw_limit q))
       (sort_desc qa_last_event_at (sort_key qa_artifact_id
         (filter (\<lambda>a. has_link (qc_artifact_sessions db) (qa_artifact_id a) (qw_session_id q) \<and>
                      has_link (qc_artifact_missions db) (qa_artifact_id a) (qw_mission_id q)) (qc_artifacts db)))))"

section \<open>Sessions that touched a file\<close>

definition escape_like :: "string \<Rightarrow> string" where
  "escape_like s =
     concat (map (\<lambda>c. if c \<in> {CHR 0x5C, CHR ''%'', CHR ''_''} then [CHR 0x5C, c] else [c]) s)"

definition trim_end_slash :: "string \<Rightarrow> string" where
  "trim_end_slash s = rev (dropWhile (\<lambda>c. c = CHR ''/'') (rev s))"

definition folder_like_pattern :: "string \<Rightarrow> string" where
  "folder_like_pattern path = escape_like (trim_end_slash path) @ ''/%''"

definition path_matches_folder_query :: "string \<Rightarrow> string \<Rightarrow> bool" where
  "path_matches_folder_query file_path query =
     (let query = trim_end_slash query
      in query \<noteq> [] \<and> file_path \<noteq> query \<and>
         (case strip_prefix query file_path of Some tail \<Rightarrow> prefix ''/'' tail | None \<Rightarrow> False))"

text \<open>\<^verbatim>\<open>LIKE ... ESCAPE '\'\<close>: a character after the backslash stands for itself, letters still without case.\<close>

function sql_like_escape :: "string \<Rightarrow> string \<Rightarrow> bool" where
  "sql_like_escape [] s = (s = [])"
| "sql_like_escape (p # ps) s =
     (if p = CHR 0x5C then ps \<noteq> [] \<and> s \<noteq> [] \<and> ascii_lower (hd ps) = ascii_lower (hd s) \<and> sql_like_escape (tl ps) (tl s)
      else if s = [] then p = CHR ''%'' \<and> sql_like_escape ps s
      else if p = CHR ''%'' then sql_like_escape ps s \<or> sql_like_escape (p # ps) (drop (fst (utf8_step s)) s)
      else if p = CHR ''_'' then sql_like_escape ps (drop (fst (utf8_step s)) s)
      else ascii_lower p = ascii_lower (hd s) \<and> sql_like_escape ps (tl s))"
  by pat_completeness auto
termination
  by (relation "measure (\<lambda>(p, s). length p + length s)") (auto simp: utf8_step_pos intro!: diff_less)

definition in_folder :: "string \<Rightarrow> string \<Rightarrow> bool" where
  "in_folder file_path path \<longleftrightarrow> path = file_path \<or> sql_like_escape (folder_like_pattern file_path) path"

definition session_of :: "query_cache \<Rightarrow> string option \<Rightarrow> cache_session option" where
  "session_of db session_id = find (\<lambda>s. Some (qs_session_id s) = session_id) (qc_sessions db)"

definition confidence_of :: "query_cache \<Rightarrow> string \<Rightarrow> string option" where
  "confidence_of db event_id = map_option qe_confidence (find (\<lambda>e. qe_event_id e = event_id) (qc_events db))"

definition runtime_row ::
  "query_cache \<Rightarrow> string \<Rightarrow> string option \<Rightarrow> string \<Rightarrow> string \<Rightarrow> u64 option \<Rightarrow> u64 option \<Rightarrow> u64 option \<Rightarrow> json \<Rightarrow>
   file_session_row" where
  "runtime_row db path session_id last_seen event_id added removed changed pointer =
     (let s = session_of db session_id
      in \<lparr>fb_file_path = path, fb_session_id = session_id, fb_external_session_id = None, fb_source_id = None,
          fb_app_id = Option.bind s qs_app_id, fb_actor_id = Option.bind s qs_actor_id,
          fb_actor_type = Option.bind s qs_actor_type, fb_evidence_kind = Runtime_Event,
          fb_last_seen_at = last_seen, fb_occurred_at = Some last_seen, fb_title = None,
          fb_lines_added = added, fb_lines_removed = removed, fb_files_changed = changed,
          fb_confidence = confidence_of db event_id, fb_source_pointer = Some pointer\<rparr>)"

definition i64_to_u64 :: "int \<Rightarrow> u64 option" where
  "i64_to_u64 i = (if i < 0 then None else Some (of_int i))"

definition diff_blame_row :: "query_cache \<Rightarrow> string \<Rightarrow> cache_diff \<times> cache_diff_file \<Rightarrow> file_session_row" where
  "diff_blame_row db file_path r =
     (case r of (d, f) \<Rightarrow>
        runtime_row db
          (if qf_path f = file_path \<or> path_matches_folder_query (qf_path f) file_path then qf_path f
           else unwrap_or (qf_old_path f) (qf_path f))
          (qd_session_id d) (qd_captured_at d) (qd_diff_id d)
          (Option.bind (qf_additions f) i64_to_u64) (Option.bind (qf_deletions f) i64_to_u64)
          (i64_to_u64 (qd_file_count d))
          (JObj (bt_of_list [(''diff_id'', JStr (qd_diff_id d)), (''artifact_id'', JStr (qd_artifact_id d)),
             (''mission_id'', enc_opt JStr (qd_mission_id d)), (''diff_target'', JStr (qd_diff_target d)),
             (''base_commit'', enc_opt JStr (qd_base_commit d)), (''head_commit'', enc_opt JStr (qd_head_commit d)),
             (''patch_id'', enc_opt JStr (qd_patch_id d)), (''summary_hash'', JStr (qd_summary_hash d)),
             (''change_kind'', JStr (qf_change_kind f)), (''old_path'', enc_opt JStr (qf_old_path f))])))"

definition runtime_diff_blame_rows :: "query_cache \<Rightarrow> string \<Rightarrow> nat \<Rightarrow> file_session_row list" where
  "runtime_diff_blame_rows db file_path limit =
     map (diff_blame_row db file_path) (take limit
       (sort_desc (qd_captured_at \<circ> fst) (sort_key (qd_diff_id \<circ> fst)
         (concat (map (\<lambda>f. map (\<lambda>d. (d, f)) (filter (\<lambda>d. qd_diff_id d = qf_diff_id f) (qc_diffs db)))
           (filter (\<lambda>f. in_folder file_path (qf_path f) \<or>
              (case qf_old_path f of None \<Rightarrow> False | Some old \<Rightarrow> in_folder file_path old)) (qc_diff_files db)))))))"

text \<open>The references that a diff made are left out: their id is the diff's.\<close>

definition file_ref_blame_row :: "query_cache \<Rightarrow> cache_file_ref \<Rightarrow> file_session_row" where
  "file_ref_blame_row db r =
     runtime_row db (qr_path r) (qr_session_id r) (qr_recorded_at r) (qr_file_ref_id r) None None (Some 1)
       (JObj (bt_of_list [(''file_ref_id'', JStr (qr_file_ref_id r)), (''artifact_id'', JStr (qr_artifact_id r)),
          (''repo_context_id'', enc_opt JStr (qr_repo_context_id r))]))"

definition runtime_file_ref_blame_rows :: "query_cache \<Rightarrow> string \<Rightarrow> nat \<Rightarrow> file_session_row list" where
  "runtime_file_ref_blame_rows db file_path limit =
     map (file_ref_blame_row db) (take limit
       (sort_desc qr_recorded_at (sort_key qr_file_ref_id
         (filter (\<lambda>r. in_folder file_path (qr_path r) \<and> qr_file_ref_id r \<notin> set (map qd_diff_id (qc_diffs db)))
           (qc_file_refs db)))))"

definition query_sqlite_file_session_blame :: "query_cache \<Rightarrow> string \<Rightarrow> nat \<Rightarrow> file_session_row list" where
  "query_sqlite_file_session_blame db file_path limit =
     (let limit = cache_limit limit;
          records = runtime_diff_blame_rows db file_path limit @ runtime_file_ref_blame_rows db file_path limit
      in take limit (sort_desc fb_last_seen_at
           (sort_key (\<lambda>r. (fb_session_id r, evidence_kind_str (fb_evidence_kind r))) records)))"

end
