(* ===== verification/Cache_Props.thy ===== *)
theory Cache_Props imports Query_Cache Session_Query begin

text \<open>
  When a rebuild of the query cache succeeds and what the cache then holds: a run of inserts that
  checks keys one by one succeeds exactly when the tables of the unchecked run satisfy every key.
\<close>

section \<open>Runs of checked inserts\<close>

locale checked_insert =
  fixes ok :: "'s \<Rightarrow> bool" and fits :: "'a \<Rightarrow> bool" and put :: "'a \<Rightarrow> 's \<Rightarrow> 's" and ins :: "'a \<Rightarrow> 's \<Rightarrow> 'e + 's"
  assumes ins_iff: "ok s \<Longrightarrow> ins x s = Inr s' \<longleftrightarrow> fits x \<and> ok (put x s) \<and> s' = put x s"
    and put_ok: "ok (put x s) \<Longrightarrow> ok s"
begin

lemma puts_ok: "ok (fold put xs s) \<Longrightarrow> ok s"
  by (induction xs arbitrary: s) (auto dest: put_ok)

lemma run_iff:
  "ok s \<Longrightarrow> try_fold ins xs s = Inr s' \<longleftrightarrow> (\<forall>x\<in>set xs. fits x) \<and> ok (fold put xs s) \<and> s' = fold put xs s"
  by (induction xs arbitrary: s) (auto simp: and_then_Inr_iff ins_iff dest: puts_ok)

lemma run_then_iff:
  "ok s \<Longrightarrow> and_then (try_fold ins xs s) k = Inr t \<longleftrightarrow>
     (\<forall>x\<in>set xs. fits x) \<and> ok (fold put xs s) \<and> k (fold put xs s) = Inr t"
  by (auto simp: and_then_Inr_iff run_iff)

end

section \<open>One table\<close>

definition unique :: "('r \<Rightarrow> 'k option) \<Rightarrow> 'r list \<Rightarrow> bool" where
  "unique key rows \<longleftrightarrow> distinct (List.map_filter key rows)"

lemma unique_Nil [simp]: "unique key []"
  by (simp add: unique_def map_filter_simps)

lemma rows_map_filter_append: "List.map_filter f (xs @ ys) = List.map_filter f xs @ List.map_filter f ys"
  by (simp add: map_filter_def)

lemma set_map_filter_key: "set (List.map_filter key rows) = {k. Some k \<in> set (map key rows)}"
  by (induction rows) (auto simp: map_filter_simps split: option.split)

lemma unique_append: "unique key (rows @ rows') \<Longrightarrow> unique key rows"
  by (simp add: unique_def rows_map_filter_append)

lemma unique_snoc: "unique key (rows @ [r]) \<longleftrightarrow> unique key rows \<and> (key r = None \<or> key r \<notin> set (map key rows))"
  using set_map_filter_key [of key rows]
  by (cases "key r") (auto simp: unique_def rows_map_filter_append map_filter_simps)

lemma unique_some: "unique (\<lambda>r. Some (f r)) rows \<longleftrightarrow> distinct (map f rows)"
  by (simp add: unique_def map_filter_def comp_def)

interpretation insert: checked_insert "unique key" "\<lambda>x. True" "\<lambda>x rows. rows @ [row x]" "\<lambda>x. sql_insert name key (row x)"
  for name and key :: "'r \<Rightarrow> 'k option" and row :: "'a \<Rightarrow> 'r"
  by unfold_locales (auto simp: sql_insert_def unique_snoc)

lemma fold_snoc: "fold (\<lambda>x rows. rows @ [row x]) xs rows = rows @ map row xs"
  by (induction xs arbitrary: rows) simp_all

lemma insert_row_iff:
  "unique key rows \<Longrightarrow> sql_insert name key r rows = Inr rows' \<longleftrightarrow> unique key (rows @ [r]) \<and> rows' = rows @ [r]"
  by (auto simp: sql_insert_def unique_snoc)

lemma insert_rows_iff:
  "unique key rows \<Longrightarrow> try_fold (\<lambda>x. sql_insert name key (row x)) xs rows = Inr rows' \<longleftrightarrow>
     unique key (rows @ map row xs) \<and> rows' = rows @ map row xs"
  using insert.run_iff [of key rows name row xs rows'] by (simp add: fold_snoc)

section \<open>All tables\<close>

definition cache_ok :: "query_cache \<Rightarrow> bool" where
  "cache_ok db \<longleftrightarrow>
     unique (\<lambda>r. Some (fst r)) (qc_metadata db) \<and> unique (\<lambda>r. Some (qe_event_id r)) (qc_events db) \<and>
     unique (\<lambda>r. Some (qo_org_id r)) (qc_orgs db) \<and> unique (\<lambda>r. Some (qp_project_id r)) (qc_projects db) \<and>
     unique (\<lambda>r. Some (qm_mission_id r)) (qc_missions db) \<and>
     unique (\<lambda>r. Some (qs_session_id r)) (qc_sessions db) \<and> unique Some (qc_session_missions db) \<and>
     unique (\<lambda>r. Some (qa_artifact_id r)) (qc_artifacts db) \<and> unique Some (qc_artifact_missions db) \<and>
     unique Some (qc_artifact_sessions db) \<and> unique Some (qc_files db) \<and>
     unique (\<lambda>r. Some (qt_attachment_id r)) (qc_attachments db) \<and>
     unique (\<lambda>r. Some (qd_diff_id r)) (qc_diffs db) \<and> unique diff_file_key (qc_diff_files db) \<and>
     unique (\<lambda>r. Some (ql_log_ref_id r)) (qc_session_logs db) \<and>
     unique (\<lambda>r. Some (qr_file_ref_id r)) (qc_file_refs db) \<and>
     unique (\<lambda>r. Some (qx_repo_context_id r)) (qc_repo_contexts db)"

text \<open>The unchecked inserts.\<close>

definition put_event :: "meta_env \<Rightarrow> trace_event \<Rightarrow> query_cache \<Rightarrow> query_cache" where
  "put_event env ev db = db\<lparr>qc_events := qc_events db @ [event_row_for env ev]\<rparr>"
definition put_org :: "meta_env \<Rightarrow> indexed_org \<Rightarrow> query_cache \<Rightarrow> query_cache" where
  "put_org env v db = db\<lparr>qc_orgs := qc_orgs db @ [org_row env v]\<rparr>"
definition put_project :: "meta_env \<Rightarrow> indexed_project \<Rightarrow> query_cache \<Rightarrow> query_cache" where
  "put_project env v db = db\<lparr>qc_projects := qc_projects db @ [project_row env v]\<rparr>"
definition put_mission :: "meta_env \<Rightarrow> indexed_mission \<Rightarrow> query_cache \<Rightarrow> query_cache" where
  "put_mission env v db = db\<lparr>qc_missions := qc_missions db @ [mission_row env v]\<rparr>"
definition put_session :: "meta_env \<Rightarrow> indexed_session \<Rightarrow> query_cache \<Rightarrow> query_cache" where
  "put_session env v db =
     db\<lparr>qc_sessions := qc_sessions db @ [session_row_for env v],
        qc_session_missions := qc_session_missions db @ map (Pair (isn_session_id v)) (isn_mission_ids v)\<rparr>"
definition put_artifact :: "meta_env \<Rightarrow> indexed_artifact \<Rightarrow> query_cache \<Rightarrow> query_cache" where
  "put_artifact env v db =
     (let a = ia_artifact_id v
      in db\<lparr>qc_artifacts := qc_artifacts db @ [artifact_row env v],
            qc_artifact_missions := qc_artifact_missions db @ map (Pair a) (ia_mission_ids v),
            qc_artifact_sessions := qc_artifact_sessions db @ map (Pair a) (ia_session_ids v),
            qc_artifact_files := fold (\<lambda>p. sql_insert_ignore (a, p)) (ia_file_paths v) (qc_artifact_files db),
            qc_artifact_attachments :=
              fold (\<lambda>i. sql_insert_ignore (a, i)) (ia_attachment_ids v) (qc_artifact_attachments db)\<rparr>)"
definition put_file_ref :: "meta_env \<Rightarrow> string \<Rightarrow> indexed_file_ref \<Rightarrow> query_cache \<Rightarrow> query_cache" where
  "put_file_ref env path r db =
     db\<lparr>qc_file_refs := qc_file_refs db @ [file_ref_row env path r],
        qc_artifact_files := sql_insert_ignore (ifr_artifact_id r, path) (qc_artifact_files db)\<rparr>"
definition put_file :: "meta_env \<Rightarrow> indexed_file \<Rightarrow> query_cache \<Rightarrow> query_cache" where
  "put_file env v db =
     fold (put_file_ref env (ifl_path v)) (ifl_file_refs v) (db\<lparr>qc_files := qc_files db @ [ifl_path v]\<rparr>)"
definition put_attachment :: "meta_env \<Rightarrow> indexed_attachment \<Rightarrow> query_cache \<Rightarrow> query_cache" where
  "put_attachment env v db =
     db\<lparr>qc_attachments := qc_attachments db @ [attachment_row env v],
        qc_artifact_attachments :=
          sql_insert_ignore (iat_artifact_id v, iat_attachment_id v) (qc_artifact_attachments db)\<rparr>"
definition put_diff :: "meta_env \<Rightarrow> indexed_diff \<Rightarrow> query_cache \<Rightarrow> query_cache" where
  "put_diff env v db =
     db\<lparr>qc_diffs := qc_diffs db @ [diff_row env v],
        qc_diff_files := qc_diff_files db @ map (diff_file_row (idf_diff_id v)) (idf_file_changes v)\<rparr>"
definition put_session_log :: "meta_env \<Rightarrow> indexed_session_log \<Rightarrow> query_cache \<Rightarrow> query_cache" where
  "put_session_log env v db = db\<lparr>qc_session_logs := qc_session_logs db @ [session_log_row env v]\<rparr>"
definition put_repo_context :: "meta_env \<Rightarrow> indexed_repo_context \<Rightarrow> query_cache \<Rightarrow> query_cache" where
  "put_repo_context env v db = db\<lparr>qc_repo_contexts := qc_repo_contexts db @ [repo_context_row env v]\<rparr>"

definition attachment_fits :: "indexed_attachment \<Rightarrow> bool" where
  "attachment_fits v \<longleftrightarrow> fits_i64 (unat (iat_size_bytes v))"

definition diff_fits :: "indexed_diff \<Rightarrow> bool" where
  "diff_fits v \<longleftrightarrow> fits_i64 (idf_file_count v) \<and> fits_i64 (unat (idf_additions v)) \<and>
     fits_i64 (unat (idf_deletions v)) \<and> fits_i64 (idf_binary_file_count v)"

definition session_log_fits :: "indexed_session_log \<Rightarrow> bool" where
  "session_log_fits v \<longleftrightarrow> fits_i64 (unat (isl_size_bytes v))"

lemmas put_defs =
  put_event_def put_org_def put_project_def put_mission_def put_session_def put_artifact_def put_file_ref_def
  put_attachment_def put_diff_def put_session_log_def put_repo_context_def

lemmas ins_defs =
  insert_event_def insert_org_def insert_project_def insert_mission_def insert_session_def insert_artifact_def
  insert_file_ref_def insert_attachment_def insert_diff_def insert_session_log_def insert_repo_context_def

lemmas insert_iffs = and_then_Inr_iff insert_row_iff insert_rows_iff comp_def

interpretation ins_event: checked_insert cache_ok "\<lambda>v. True" "put_event env" "insert_event env" for env
  by unfold_locales (auto simp: ins_defs put_defs cache_ok_def insert_iffs dest: unique_append)

interpretation ins_org: checked_insert cache_ok "\<lambda>v. True" "put_org env" "insert_org env" for env
  by unfold_locales (auto simp: ins_defs put_defs cache_ok_def insert_iffs dest: unique_append)

interpretation ins_project: checked_insert cache_ok "\<lambda>v. True" "put_project env" "insert_project env" for env
  by unfold_locales (auto simp: ins_defs put_defs cache_ok_def insert_iffs dest: unique_append)

interpretation ins_mission: checked_insert cache_ok "\<lambda>v. True" "put_mission env" "insert_mission env" for env
  by unfold_locales (auto simp: ins_defs put_defs cache_ok_def insert_iffs dest: unique_append)

interpretation ins_session: checked_insert cache_ok "\<lambda>v. True" "put_session env" "insert_session env" for env
  by unfold_locales (auto simp: ins_defs put_defs cache_ok_def insert_iffs dest: unique_append)

interpretation ins_artifact: checked_insert cache_ok "\<lambda>v. True" "put_artifact env" "insert_artifact env" for env
  by unfold_locales (auto simp: ins_defs put_defs cache_ok_def insert_iffs Let_def dest: unique_append)

interpretation ins_file_ref: checked_insert cache_ok "\<lambda>v. True" "put_file_ref env path" "insert_file_ref env path" for env path
  by unfold_locales (auto simp: ins_defs put_defs cache_ok_def insert_iffs dest: unique_append)

interpretation ins_attachment: checked_insert cache_ok attachment_fits "put_attachment env" "insert_attachment env" for env
  by unfold_locales (auto simp: ins_defs put_defs cache_ok_def insert_iffs attachment_fits_def dest: unique_append)

interpretation ins_diff: checked_insert cache_ok diff_fits "put_diff env" "insert_diff env" for env
  by unfold_locales (auto simp: ins_defs put_defs cache_ok_def insert_iffs diff_fits_def dest: unique_append)

interpretation ins_session_log: checked_insert cache_ok session_log_fits "put_session_log env" "insert_session_log env" for env
  by unfold_locales (auto simp: ins_defs put_defs cache_ok_def insert_iffs session_log_fits_def dest: unique_append)

interpretation ins_repo_context: checked_insert cache_ok "\<lambda>v. True" "put_repo_context env" "insert_repo_context env" for env
  by unfold_locales (auto simp: ins_defs put_defs cache_ok_def insert_iffs dest: unique_append)

lemma cache_ok_files: "cache_ok (db\<lparr>qc_files := qc_files db @ [p]\<rparr>) \<longleftrightarrow> cache_ok db \<and> unique Some (qc_files db @ [p])"
  by (auto simp: cache_ok_def dest: unique_append)

interpretation ins_file: checked_insert cache_ok "\<lambda>v. True" "put_file env" "insert_file env" for env
proof
  fix db :: query_cache and v :: indexed_file and db'
  assume ok: "cache_ok db"
  let ?db = "db\<lparr>qc_files := qc_files db @ [ifl_path v]\<rparr>"
  have "unique Some (qc_files db)" using ok by (simp add: cache_ok_def)
  then have "insert_file env v db = Inr db' \<longleftrightarrow> unique Some (qc_files db @ [ifl_path v]) \<and>
      try_fold (insert_file_ref env (ifl_path v)) (ifl_file_refs v) ?db = Inr db'"
    by (auto simp: insert_file_def insert_iffs)
  also have "\<dots> \<longleftrightarrow> cache_ok (put_file env v db) \<and> db' = put_file env v db"
    using ins_file_ref.run_iff [of ?db env "ifl_path v"] ins_file_ref.puts_ok [of env "ifl_path v" "ifl_file_refs v" ?db] ok
    unfolding put_file_def cache_ok_files by blast
  finally show "insert_file env v db = Inr db' \<longleftrightarrow> True \<and> cache_ok (put_file env v db) \<and> db' = put_file env v db" by simp
next
  fix v :: indexed_file and db assume "cache_ok (put_file env v db)"
  then show "cache_ok db"
    unfolding put_file_def using ins_file_ref.puts_ok cache_ok_files by blast
qed

section \<open>The projection of a log\<close>

definition metadata_rows :: "meta_env \<Rightarrow> instant \<Rightarrow> nat \<Rightarrow> (string \<times> string) list" where
  "metadata_rows env now n =
     [(''schema_version'', show_nat sqlite_index_schema_version), (''rebuilt_at'', time_text env now),
      (''event_count'', show_nat n)]"

definition cache_of :: "meta_env \<Rightarrow> instant \<Rightarrow> trace_event list \<Rightarrow> trace_index \<Rightarrow> query_cache" where
  "cache_of env now evs idx =
     (let sessions = map snd (ti_sessions idx); artifacts = map snd (ti_artifacts idx);
          files = map snd (ti_files idx); attachments = map snd (ti_attachments idx);
          diffs = map snd (ti_diffs idx)
      in \<lparr>qc_metadata = metadata_rows env now (length evs), qc_events = map (event_row_for env) evs,
          qc_orgs = map (org_row env) (map snd (ti_orgs idx)),
          qc_projects = map (project_row env) (map snd (ti_projects idx)),
          qc_missions = map (mission_row env) (map snd (ti_missions idx)),
          qc_sessions = map (session_row_for env) sessions,
          qc_session_missions = concat (map (\<lambda>v. map (Pair (isn_session_id v)) (isn_mission_ids v)) sessions),
          qc_artifacts = map (artifact_row env) artifacts,
          qc_artifact_missions = concat (map (\<lambda>v. map (Pair (ia_artifact_id v)) (ia_mission_ids v)) artifacts),
          qc_artifact_sessions = concat (map (\<lambda>v. map (Pair (ia_artifact_id v)) (ia_session_ids v)) artifacts),
          qc_files = map ifl_path files,
          qc_artifact_files = fold sql_insert_ignore
            (concat (map (\<lambda>v. map (Pair (ia_artifact_id v)) (ia_file_paths v)) artifacts) @
             concat (map (\<lambda>v. map (\<lambda>r. (ifr_artifact_id r, ifl_path v)) (ifl_file_refs v)) files)) [],
          qc_attachments = map (attachment_row env) attachments, qc_diffs = map (diff_row env) diffs,
          qc_diff_files = concat (map (\<lambda>v. map (diff_file_row (idf_diff_id v)) (idf_file_changes v)) diffs),
          qc_session_logs = map (session_log_row env) (map snd (ti_session_logs idx)),
          qc_artifact_attachments = fold sql_insert_ignore
            (concat (map (\<lambda>v. map (Pair (ia_artifact_id v)) (ia_attachment_ids v)) artifacts) @
             map (\<lambda>v. (iat_artifact_id v, iat_attachment_id v)) attachments) [],
          qc_file_refs = concat (map (\<lambda>v. map (file_ref_row env (ifl_path v)) (ifl_file_refs v)) files),
          qc_repo_contexts = map (repo_context_row env) (map snd (ti_repo_contexts idx))\<rparr>)"

definition index_fits :: "trace_index \<Rightarrow> bool" where
  "index_fits idx \<longleftrightarrow>
     (\<forall>v\<in>set (map snd (ti_attachments idx)). attachment_fits v) \<and> (\<forall>v\<in>set (map snd (ti_diffs idx)). diff_fits v) \<and>
     (\<forall>v\<in>set (map snd (ti_session_logs idx)). session_log_fits v)"

lemma fold_puts:
  "fold (put_event env) evs db = db\<lparr>qc_events := qc_events db @ map (event_row_for env) evs\<rparr>"
  "fold (put_org env) os db = db\<lparr>qc_orgs := qc_orgs db @ map (org_row env) os\<rparr>"
  "fold (put_project env) ps db = db\<lparr>qc_projects := qc_projects db @ map (project_row env) ps\<rparr>"
  "fold (put_mission env) ms db = db\<lparr>qc_missions := qc_missions db @ map (mission_row env) ms\<rparr>"
  "fold (put_session_log env) ls db = db\<lparr>qc_session_logs := qc_session_logs db @ map (session_log_row env) ls\<rparr>"
  "fold (put_repo_context env) cs db = db\<lparr>qc_repo_contexts := qc_repo_contexts db @ map (repo_context_row env) cs\<rparr>"
  by (induction evs arbitrary: db) (simp_all add: put_defs, (induction os arbitrary: db; simp add: put_defs),
    (induction ps arbitrary: db; simp add: put_defs), (induction ms arbitrary: db; simp add: put_defs),
    (induction ls arbitrary: db; simp add: put_defs), (induction cs arbitrary: db; simp add: put_defs))

lemma fold_put_session:
  "fold (put_session env) ss db =
     db\<lparr>qc_sessions := qc_sessions db @ map (session_row_for env) ss,
        qc_session_missions := qc_session_missions db @
          concat (map (\<lambda>v. map (Pair (isn_session_id v)) (isn_mission_ids v)) ss)\<rparr>"
  by (induction ss arbitrary: db) (simp_all add: put_defs)

lemma fold_pairs: "fold (\<lambda>p. sql_insert_ignore (a, p)) ps rows = fold sql_insert_ignore (map (Pair a) ps) rows"
  by (simp add: fold_map comp_def)

lemma fold_put_artifact:
  "fold (put_artifact env) as db =
     db\<lparr>qc_artifacts := qc_artifacts db @ map (artifact_row env) as,
        qc_artifact_missions := qc_artifact_missions db @
          concat (map (\<lambda>v. map (Pair (ia_artifact_id v)) (ia_mission_ids v)) as),
        qc_artifact_sessions := qc_artifact_sessions db @
          concat (map (\<lambda>v. map (Pair (ia_artifact_id v)) (ia_session_ids v)) as),
        qc_artifact_files := fold sql_insert_ignore
          (concat (map (\<lambda>v. map (Pair (ia_artifact_id v)) (ia_file_paths v)) as)) (qc_artifact_files db),
        qc_artifact_attachments := fold sql_insert_ignore
          (concat (map (\<lambda>v. map (Pair (ia_artifact_id v)) (ia_attachment_ids v)) as)) (qc_artifact_attachments db)\<rparr>"
  by (induction as arbitrary: db) (simp_all add: put_defs Let_def fold_pairs)

lemma fold_put_file_ref:
  "fold (put_file_ref env path) rs db =
     db\<lparr>qc_file_refs := qc_file_refs db @ map (file_ref_row env path) rs,
        qc_artifact_files := fold sql_insert_ignore (map (\<lambda>r. (ifr_artifact_id r, path)) rs) (qc_artifact_files db)\<rparr>"
  by (induction rs arbitrary: db) (simp_all add: put_defs)

lemma fold_put_file:
  "fold (put_file env) fs db =
     db\<lparr>qc_files := qc_files db @ map ifl_path fs,
        qc_file_refs := qc_file_refs db @ concat (map (\<lambda>v. map (file_ref_row env (ifl_path v)) (ifl_file_refs v)) fs),
        qc_artifact_files := fold sql_insert_ignore
          (concat (map (\<lambda>v. map (\<lambda>r. (ifr_artifact_id r, ifl_path v)) (ifl_file_refs v)) fs)) (qc_artifact_files db)\<rparr>"
  by (induction fs arbitrary: db) (simp_all add: put_file_def fold_put_file_ref)

lemma fold_put_attachment:
  "fold (put_attachment env) ts db =
     db\<lparr>qc_attachments := qc_attachments db @ map (attachment_row env) ts,
        qc_artifact_attachments := fold sql_insert_ignore
          (map (\<lambda>v. (iat_artifact_id v, iat_attachment_id v)) ts) (qc_artifact_attachments db)\<rparr>"
  by (induction ts arbitrary: db) (simp_all add: put_defs)

lemma fold_put_diff:
  "fold (put_diff env) ds db =
     db\<lparr>qc_diffs := qc_diffs db @ map (diff_row env) ds,
        qc_diff_files := qc_diff_files db @
          concat (map (\<lambda>v. map (diff_file_row (idf_diff_id v)) (idf_file_changes v)) ds)\<rparr>"
  by (induction ds arbitrary: db) (simp_all add: put_defs)

lemmas all_puts = fold_puts fold_put_session fold_put_artifact fold_put_file fold_put_attachment fold_put_diff

definition puts_of :: "meta_env \<Rightarrow> instant \<Rightarrow> trace_event list \<Rightarrow> trace_index \<Rightarrow> query_cache" where
  "puts_of env now evs idx =
     (fold (put_repo_context env) (map snd (ti_repo_contexts idx))
     (fold (put_session_log env) (map snd (ti_session_logs idx))
     (fold (put_diff env) (map snd (ti_diffs idx))
     (fold (put_attachment env) (map snd (ti_attachments idx))
     (fold (put_file env) (map snd (ti_files idx))
     (fold (put_artifact env) (map snd (ti_artifacts idx))
     (fold (put_session env) (map snd (ti_sessions idx))
     (fold (put_mission env) (map snd (ti_missions idx))
     (fold (put_project env) (map snd (ti_projects idx))
     (fold (put_org env) (map snd (ti_orgs idx))
     (fold (put_event env) evs (empty_cache\<lparr>qc_metadata := metadata_rows env now (length evs)\<rparr>))))))))))))"

lemma puts_of: "puts_of env now evs idx = cache_of env now evs idx"
  by (simp add: puts_of_def cache_of_def Let_def all_puts empty_cache_def)

lemmas puts_ok =
  ins_event.puts_ok ins_org.puts_ok ins_project.puts_ok ins_mission.puts_ok ins_session.puts_ok
  ins_artifact.puts_ok ins_file.puts_ok ins_attachment.puts_ok ins_diff.puts_ok ins_session_log.puts_ok
  ins_repo_context.puts_ok

lemmas run_iffs =
  ins_event.run_then_iff ins_org.run_then_iff ins_project.run_then_iff ins_mission.run_then_iff
  ins_session.run_then_iff ins_artifact.run_then_iff ins_file.run_then_iff ins_attachment.run_then_iff
  ins_diff.run_then_iff ins_session_log.run_then_iff ins_repo_context.run_iff

lemma metadata_ok: "cache_ok (empty_cache\<lparr>qc_metadata := metadata_rows env now n\<rparr>)"
  by (simp add: cache_ok_def empty_cache_def metadata_rows_def unique_some)

lemma insert_metadata_empty:
  "insert_metadata env now n empty_cache = Inr (empty_cache\<lparr>qc_metadata := metadata_rows env now n\<rparr>)"
  by (simp add: insert_metadata_def empty_cache_def metadata_rows_def sql_insert_def)

lemma fill_cache_iff:
  "fill_cache env now evs idx = Inr db \<longleftrightarrow>
     index_fits idx \<and> cache_ok (cache_of env now evs idx) \<and> db = cache_of env now evs idx"
proof -
  have "fill_cache env now evs idx = Inr db \<longleftrightarrow>
      index_fits idx \<and> cache_ok (puts_of env now evs idx) \<and> db = puts_of env now evs idx"
    unfolding fill_cache_def insert_metadata_empty and_then_simps insert_events_def insert_index_def puts_of_def index_fits_def
    by (simp add: run_iffs metadata_ok cong: conj_cong) (blast dest: puts_ok)
  then show ?thesis by (simp only: puts_of)
qed

end
