(* ===== verification/Cache_Results.thy ===== *)
theory Cache_Results imports Cache_Props begin

text \<open>
  When a rebuild of the query cache succeeds, for a log and the index built from it, and what the
  filled cache answers.
\<close>

section \<open>When the keys hold\<close>

lemma map_inv_distinct: "map_inv P m \<Longrightarrow> (\<And>k v. P k v \<Longrightarrow> f v = k) \<Longrightarrow> distinct (map f (map snd m))"
proof -
  assume m: "map_inv P m" and f: "\<And>k v. P k v \<Longrightarrow> f v = k"
  then have bt: "bt_inv m" by (simp add: map_inv_def)
  have "f v = k" if "(k, v) \<in> set m" for k v
    using m that by (intro f) (simp add: map_inv_def bt_get_iff)
  then have "map f (map snd m) = map fst m" by auto
  with bt_inv_distinct [OF bt] show ?thesis by (simp only:)
qed

lemma distinct_tagged:
  "distinct (map key vs) \<Longrightarrow>
     distinct (concat (map (\<lambda>v. map (Pair (key v)) (xs v)) vs)) \<longleftrightarrow> (\<forall>v\<in>set vs. distinct (xs v))"
proof (induction vs)
  case (Cons v vs)
  then have "key v \<notin> key ` set vs" "distinct (map key vs)" by auto
  then show ?case using Cons.IH by (auto simp: distinct_map inj_on_def)
qed simp

definition file_ref_ids :: "trace_index \<Rightarrow> string list" where
  "file_ref_ids idx = concat (map (\<lambda>v. map ifr_file_ref_id (ifl_file_refs v)) (map snd (ti_files idx)))"

definition renamed_paths :: "indexed_diff \<Rightarrow> (string \<times> string) list" where
  "renamed_paths d = List.map_filter (\<lambda>c. map_option (Pair (ich_path c)) (ich_old_path c)) (idf_file_changes d)"

lemma diff_file_keys:
  "List.map_filter diff_file_key (concat (map (\<lambda>v. map (diff_file_row (idf_diff_id v)) (idf_file_changes v)) ds)) =
     concat (map (\<lambda>d. map (Pair (idf_diff_id d)) (renamed_paths d)) ds)"
proof -
  have row: "List.map_filter diff_file_key (map (diff_file_row i) cs) =
      map (Pair i) (List.map_filter (\<lambda>c. map_option (Pair (ich_path c)) (ich_old_path c)) cs)" for i cs
    by (induction cs) (simp_all add: map_filter_simps diff_file_key_def diff_file_row_def split: option.split)
  show ?thesis by (induction ds) (simp_all add: map_filter_simps map_filter_append row renamed_paths_def)
qed

lemma cache_of_ok:
  assumes "index_ok idx"
  shows "cache_ok (cache_of env now evs idx) \<longleftrightarrow>
    distinct (map te_event_id evs) \<and> distinct (file_ref_ids idx) \<and>
    (\<forall>d\<in>set (map snd (ti_diffs idx)). distinct (renamed_paths d))"
proof -
  have ok: "map_inv org_ok (ti_orgs idx)" "map_inv project_ok (ti_projects idx)" "map_inv mission_ok (ti_missions idx)"
    "map_inv session_ok (ti_sessions idx)" "map_inv artifact_ok (ti_artifacts idx)"
    "map_inv (\<lambda>k v. iat_attachment_id v = k) (ti_attachments idx)" "map_inv (\<lambda>k v. idf_diff_id v = k) (ti_diffs idx)"
    "map_inv (\<lambda>k v. isl_log_ref_id v = k) (ti_session_logs idx)" "map_inv (\<lambda>k v. ifl_path v = k) (ti_files idx)"
    "map_inv (\<lambda>k v. irc_repo_context_id v = k) (ti_repo_contexts idx)"
    using assms by (simp_all add: index_ok_def)
  have keys: "distinct (map io_org_id (map snd (ti_orgs idx)))" "distinct (map ip_project_id (map snd (ti_projects idx)))"
    "distinct (map im_mission_id (map snd (ti_missions idx)))" "distinct (map isn_session_id (map snd (ti_sessions idx)))"
    "distinct (map ia_artifact_id (map snd (ti_artifacts idx)))" "distinct (map iat_attachment_id (map snd (ti_attachments idx)))"
    "distinct (map idf_diff_id (map snd (ti_diffs idx)))" "distinct (map isl_log_ref_id (map snd (ti_session_logs idx)))"
    "distinct (map ifl_path (map snd (ti_files idx)))" "distinct (map irc_repo_context_id (map snd (ti_repo_contexts idx)))"
    by (rule map_inv_distinct, rule ok, simp add: entity_ok_defs)+
  have sets: "bs_inv (isn_mission_ids s)" if "s \<in> set (map snd (ti_sessions idx))" for s
    using ok that by (auto simp: map_inv_def session_ok_def bt_get_iff)
  have links: "bs_inv (ia_mission_ids a)" "bs_inv (ia_session_ids a)" if "a \<in> set (map snd (ti_artifacts idx))" for a
    using ok that by (auto simp: map_inv_def artifact_ok_def bt_get_iff)
  have edges: "distinct (concat (map (\<lambda>v. map (Pair (isn_session_id v)) (isn_mission_ids v)) (map snd (ti_sessions idx))))"
    "distinct (concat (map (\<lambda>v. map (Pair (ia_artifact_id v)) (ia_mission_ids v)) (map snd (ti_artifacts idx))))"
    "distinct (concat (map (\<lambda>v. map (Pair (ia_artifact_id v)) (ia_session_ids v)) (map snd (ti_artifacts idx))))"
    unfolding distinct_tagged [OF keys(4)] distinct_tagged [OF keys(5)]
    using sets links by (auto simp: bs_inv_def strict_sorted_iff)
  have refs: "map qr_file_ref_id (qc_file_refs (cache_of env now evs idx)) = file_ref_ids idx"
    by (simp add: cache_of_def Let_def file_ref_ids_def map_concat comp_def file_ref_row_def)
  have diffs: "unique diff_file_key (qc_diff_files (cache_of env now evs idx)) \<longleftrightarrow>
      (\<forall>d\<in>set (map snd (ti_diffs idx)). distinct (renamed_paths d))"
    unfolding unique_def distinct_tagged [OF keys(7), symmetric] by (simp only: cache_of_def Let_def query_cache.select_convs diff_file_keys)
  have some: "unique Some xs \<longleftrightarrow> distinct xs" for xs :: "'x list"
    using unique_some [of "\<lambda>x. x" xs] by simp
  show ?thesis
    unfolding cache_ok_def diffs unique_some refs some
    using keys edges by (auto simp: cache_of_def Let_def cache_row_defs metadata_rows_def comp_def)
qed

definition cache_keys_distinct :: "trace_event list \<Rightarrow> trace_index \<Rightarrow> bool" where
  "cache_keys_distinct evs idx \<longleftrightarrow>
     distinct (map te_event_id evs) \<and> distinct (file_ref_ids idx) \<and>
     (\<forall>d\<in>set (map snd (ti_diffs idx)). distinct (renamed_paths d))"

lemma rebuild_cases:
  assumes "index_ok idx" "prepare_schema_for_rebuild f = Inr db"
  shows "index_fits idx \<and> cache_keys_distinct evs idx \<Longrightarrow>
      rebuild_sqlite_index env now evs idx f = (Some (cache_of env now evs idx), Inr ())"
    and "\<not> (index_fits idx \<and> cache_keys_distinct evs idx) \<Longrightarrow>
      \<exists>e. rebuild_sqlite_index env now evs idx f = (Some db, Inl e)"
proof -
  have iff: "fill_cache env now evs idx = Inr db' \<longleftrightarrow>
      (index_fits idx \<and> cache_keys_distinct evs idx) \<and> db' = cache_of env now evs idx" for db'
    unfolding fill_cache_iff cache_of_ok [OF assms(1)] cache_keys_distinct_def by blast
  note run = rebuild_sqlite_index_def assms(2) sum.case
  show "rebuild_sqlite_index env now evs idx f = (Some (cache_of env now evs idx), Inr ())"
    if "index_fits idx \<and> cache_keys_distinct evs idx"
    using iff [of "cache_of env now evs idx"] that by (simp add: run)
  assume not: "\<not> (index_fits idx \<and> cache_keys_distinct evs idx)"
  then obtain e where "fill_cache env now evs idx = Inl e"
    using iff by (cases "fill_cache env now evs idx") blast+
  then show "\<exists>e. rebuild_sqlite_index env now evs idx f = (Some db, Inl e)" by (simp add: run)
qed

text \<open>
  C38: a rebuild from a log and the index built from it succeeds exactly when the numbers fit
  SQLite's integers and the event ids, the file reference ids and the renames of each diff are
  distinct; the cache then is the projection of the log and the index. When it fails, a cache of the
  current version keeps what it held, and one of another version is left empty.
\<close>

theorem cache_rebuild_outcome:
  assumes "build_index t evs = Inr idx" and "prepare_schema_for_rebuild f = Inr db"
  shows "rebuild_sqlite_index env now evs idx f = (Some (cache_of env now evs idx), Inr ()) \<and>
      index_fits idx \<and> cache_keys_distinct evs idx \<or>
    (\<exists>e. rebuild_sqlite_index env now evs idx f = (Some db, Inl e)) \<and>
      \<not> (index_fits idx \<and> cache_keys_distinct evs idx)"
  using rebuild_cases [OF index_ok.inv_build [OF assms(1)] assms(2)] by blast

section \<open>Diffs of several files\<close>

lemma distinct_concat_disjoint:
  "distinct (concat (map f vs)) \<Longrightarrow> v \<in> set vs \<Longrightarrow> w \<in> set vs \<Longrightarrow> v \<noteq> w \<Longrightarrow> set (f v) \<inter> set (f w) = {}"
  by (induction vs) auto

lemma distinct_concat_part: "distinct (concat (map f vs)) \<Longrightarrow> v \<in> set vs \<Longrightarrow> distinct (f v)"
  by (induction vs) auto

lemma file_refs_distinct:
  assumes "index_ok idx" "distinct (file_ref_ids idx)"
  shows "distinct (map ifr_file_ref_id (file_refs idx p))"
    and "p \<noteq> q \<Longrightarrow> ifr_file_ref_id ` set (file_refs idx p) \<inter> ifr_file_ref_id ` set (file_refs idx q) = {}"
proof -
  have inv: "map_inv (\<lambda>k v. ifl_path v = k) (ti_files idx)" using assms(1) by (simp add: index_ok_def)
  have found: "v \<in> set (map snd (ti_files idx)) \<and> ifl_path v = p" if "bt_get (ti_files idx) p = Some v" for p v
    using inv that bt_values [of "ti_files idx"] by (auto simp: map_inv_def ran_def)
  note part = distinct_concat_part [OF assms(2) [unfolded file_ref_ids_def]]
  note apart = distinct_concat_disjoint [OF assms(2) [unfolded file_ref_ids_def]]
  show "distinct (map ifr_file_ref_id (file_refs idx p))"
    using found [of p] part by (cases "bt_get (ti_files idx) p") (simp_all add: file_refs_def)
  assume "p \<noteq> q"
  show "ifr_file_ref_id ` set (file_refs idx p) \<inter> ifr_file_ref_id ` set (file_refs idx q) = {}"
  proof (cases "bt_get (ti_files idx) p = None \<or> bt_get (ti_files idx) q = None")
    case False
    then obtain v w where "bt_get (ti_files idx) p = Some v" "bt_get (ti_files idx) q = Some w" by auto
    moreover from this have "v \<noteq> w" using found [of p v] found [of q w] \<open>p \<noteq> q\<close> by blast
    ultimately show ?thesis using found [of p v] found [of q w] apart [of v w] by (simp add: file_refs_def)
  qed (auto simp: file_refs_def)
qed

lemma diff_refs:
  assumes "build_index t evs = Inr idx" "ev \<in> set evs" "te_artifact_id ev = Some a"
    and "dec_payload (te_event_type ev) (te_payload ev) = Some (P_DiffCaptured p)"
  shows "\<exists>as bs. file_refs idx path = as @
    map (\<lambda>_. diff_file_ref ev a p) (filter (\<lambda>c. fc_path c = path) (dc_file_changes p)) @ bs"
proof -
  have "file_refs idx path = concat (map (\<lambda>ev. event_file_refs ev path) evs)"
    using file_refs.fold_build [OF assms(1)] by (simp add: fold_append_concat)
  moreover obtain xs ys where "evs = xs @ ev # ys" using split_list [OF assms(2)] by blast
  ultimately show ?thesis using assms(3,4) by (auto simp: event_file_refs_def)
qed

text \<open>
  A log with a diff of two or more files cannot be cached: every changed file gets a reference
  under the id of the diff event, and the second one violates the primary key of the references, so
  each rebuild fails, whatever the cache file holds.
\<close>

theorem multi_file_diff_blocks_cache:
  assumes "build_index t evs = Inr idx" and "ev \<in> set evs" and "te_artifact_id ev = Some a"
    and "dec_payload (te_event_type ev) (te_payload ev) = Some (P_DiffCaptured p)"
    and "2 \<le> length (dc_file_changes p)"
  shows "\<exists>e. snd (rebuild_sqlite_index env now evs idx f) = Inl e"
proof -
  have ok: "index_ok idx" by (rule index_ok.inv_build [OF assms(1)])
  obtain c d cs where changes: "dc_file_changes p = c # d # cs"
    using assms(5) by (cases "dc_file_changes p"; cases "tl (dc_file_changes p)") auto
  have "\<not> distinct (file_ref_ids idx)"
  proof
    assume distinct: "distinct (file_ref_ids idx)"
    note refs = file_refs_distinct [OF ok distinct] diff_refs [OF assms(1-4)]
    have ref: "te_event_id ev \<in> ifr_file_ref_id ` set (file_refs idx (fc_path x))" if "x \<in> {c, d}" for x
      using refs(3) [of "fc_path x"] that by (auto simp: changes diff_file_ref_def)
    show False
    proof (cases "fc_path c = fc_path d")
      case True
      obtain as bs where "file_refs idx (fc_path c) = as @
          map (\<lambda>_. diff_file_ref ev a p) (filter (\<lambda>x. fc_path x = fc_path c) (c # d # cs)) @ bs"
        using refs(3) [of "fc_path c"] unfolding changes by blast
      with True refs(1) [of "fc_path c"] show False by simp
    next
      case False
      have "te_event_id ev \<in> ifr_file_ref_id ` set (file_refs idx (fc_path c)) \<inter>
          ifr_file_ref_id ` set (file_refs idx (fc_path d))"
        using ref [of c] ref [of d] by simp
      then show False by (simp only: refs(2) [OF False] empty_iff)
    qed
  qed
  then have "\<not> (index_fits idx \<and> cache_keys_distinct evs idx)" by (simp add: cache_keys_distinct_def)
  note fails = rebuild_cases(2) [OF ok _ this]
  show ?thesis
  proof (cases "prepare_schema_for_rebuild f")
    case (Inr db)
    from fails [OF this, where env = env and now = now] show ?thesis by auto
  qed (simp add: rebuild_sqlite_index_def)
qed

section \<open>Session queries\<close>

lemma sort_desc_then:
  assumes "mset zs = mset xs" "sorted_wrt (\<lambda>a b. f b < f a \<or> f a = f b \<and> g a < g b) zs"
  shows "sort_desc f (sort_key g xs) = zs"
proof -
  have "filter (\<lambda>x. f x = k) (sort_key g xs) = filter (\<lambda>x. f x = k) zs" for k
  proof -
    have "sorted_wrt (\<lambda>a b. g a < g b) (filter (\<lambda>x. f x = k) zs)"
      by (rule sorted_wrt_mono_rel [OF _ sorted_wrt_filter [OF assms(2)]]) auto
    then have "sort_key g (filter (\<lambda>x. f x = k) xs) = filter (\<lambda>x. f x = k) zs"
      using assms(1) by (intro sort_sorted) (simp_all add: sorted_wrt_map)
    then show ?thesis by (simp add: filter_sort)
  qed
  then have stable: "filter (\<lambda>x. f k = f x) (rev zs) = filter (\<lambda>x. f k = f x) (rev (sort_key g xs))" for k
    by (simp only: rev_filter [symmetric] eq_commute [of "f k"])
  have "sorted_wrt (\<lambda>a b. f b \<le> f a) zs" by (rule sorted_wrt_mono_rel [OF _ assms(2)]) auto
  then have "sort_key f (rev (sort_key g xs)) = rev zs"
    using assms(1) stable by (intro properties_for_sort_key) (simp_all add: sorted_wrt_rev sorted_map)
  then show ?thesis by (simp add: sort_desc_def)
qed

lemma insort_key_map: "insort_key f (h x) (map h xs) = map h (insort_key (f \<circ> h) x xs)"
  by (induction xs) simp_all

lemma sort_key_map: "sort_key f (map h xs) = map h (sort_key (f \<circ> h) xs)"
  by (induction xs) (simp_all add: insort_key_map [unfolded comp_def] comp_def)

lemma sort_desc_map: "sort_desc f (map h xs) = map h (sort_desc (f \<circ> h) xs)"
  by (simp add: sort_desc_def rev_map sort_key_map)

definition index_query :: "sqlite_session_query \<Rightarrow> session_query" where
  "index_query q =
     \<lparr>sq_app_id = qq_app_id q, sq_app_session_id = None, sq_app_session_name = None,
      sq_runtime_id = qq_runtime_id q, sq_actor_id = qq_actor_id q\<rparr>"

lemma session_row_matches: "session_matches q (session_row_for env s) \<longleftrightarrow> query_matches (index_query q) s"
  by (auto simp: session_matches_def session_row_for_def query_matches_def index_query_def matches_optional_def
      optional_eq_def split: option.split)

lemma cached_order:
  assumes "distinct (map isn_session_id ss)"
    and "\<forall>a\<in>set ss. \<forall>b\<in>set ss. time_text env (isn_last_event_at a) < time_text env (isn_last_event_at b) \<longleftrightarrow>
      isn_last_event_at a < isn_last_event_at b"
  shows "sort_desc qs_last_event_at (sort_key qs_session_id (map (session_row_for env) ss)) =
    map (session_row_for env) (sort_key (\<lambda>s. (- isn_last_event_at s, isn_session_id s)) ss)"
proof -
  let ?t = "\<lambda>s. time_text env (isn_last_event_at s)" and ?zs = "sort_key (\<lambda>s. (- isn_last_event_at s, isn_session_id s)) ss"
  have later: "?t b < ?t a \<or> ?t a = ?t b \<and> isn_session_id a < isn_session_id b"
    if "a \<in> set ss" "b \<in> set ss"
      "(- isn_last_event_at a, isn_session_id a) < (- isn_last_event_at b, isn_session_id b)" for a b
    using assms(2) that by auto
  have "sorted_wrt (\<lambda>a b. (- isn_last_event_at a, isn_session_id a) < (- isn_last_event_at b, isn_session_id b)) ?zs"
    by (rule sort_key_strict [OF assms(1)]) simp
  then have "sorted_wrt (\<lambda>a b. ?t b < ?t a \<or> ?t a = ?t b \<and> isn_session_id a < isn_session_id b) ?zs"
    by (rule sorted_wrt_mono_rel [rotated]) (use later in simp)
  then have "sort_desc ?t (sort_key isn_session_id ss) = ?zs"
    by (intro sort_desc_then) simp_all
  moreover have "qs_last_event_at \<circ> session_row_for env = ?t" "qs_session_id \<circ> session_row_for env = isn_session_id"
    by (simp_all add: fun_eq_iff session_row_for_def)
  ultimately show ?thesis by (simp add: sort_desc_map sort_key_map)
qed

lemma collect_tagged:
  assumes "distinct (map key vs)" "v \<in> set vs" "bs_inv (xs v)"
  shows "collect_values (concat (map (\<lambda>v. map (Pair (key v)) (xs v)) vs)) (key v) = xs v"
proof -
  let ?sel = "\<lambda>ps. map snd (filter (\<lambda>(a, b). a = key v) ps)"
  have one: "?sel (map (Pair k) ys) = (if k = key v then ys else [])" for k :: string and ys :: "string list"
    by (induction ys) auto
  have others: "?sel (concat (map (\<lambda>v. map (Pair (key v)) (xs v)) ws)) = []" if "key v \<notin> key ` set ws" for ws
    using that by (induction ws) (auto simp: one)
  have "?sel (concat (map (\<lambda>v. map (Pair (key v)) (xs v)) vs)) = xs v"
    using assms(1,2)
  proof (induction vs)
    case (Cons w ws)
    show ?case
    proof (cases "w = v")
      case True
      then show ?thesis using Cons.prems(1) by (simp add: one others comp_def)
    next
      case False
      then have "v \<in> set ws" "key w \<noteq> key v" using Cons.prems by auto
      then show ?thesis using Cons by (simp add: one)
    qed
  qed simp
  then show ?thesis using assms(3) by (simp add: collect_values_def bs_inv_def strict_sorted_iff sorted_sort_id)
qed

text \<open>
  C23: after a successful rebuild the cache answers a session query with the sessions of the index
  that match, in the same order, cut at the limit (at least one), each with its missions, provided
  the printed times order like the times.
\<close>

theorem cached_sessions_match_index:
  assumes "build_index t evs = Inr idx" and "rebuild_sqlite_index env now evs idx f = (Some db, Inr ())"
    and "\<forall>a\<in>set (map snd (ti_sessions idx)). \<forall>b\<in>set (map snd (ti_sessions idx)).
      time_text env (isn_last_event_at a) < time_text env (isn_last_event_at b) \<longleftrightarrow>
      isn_last_event_at a < isn_last_event_at b"
  shows "map (\<lambda>r. (qs_session_id r, sr_mission_ids r)) (query_sqlite_sessions db q) =
    take (cache_limit (qq_limit q))
      (map (\<lambda>s. (isn_session_id s, isn_mission_ids s)) (query_indexed_sessions idx (index_query q)))"
proof -
  let ?all = "map snd (ti_sessions idx)"
  let ?ss = "filter (query_matches (index_query q)) ?all"
  have ok: "index_ok idx" by (rule index_ok.inv_build [OF assms(1)])
  have db: "db = cache_of env now evs idx"
    using assms(2) fill_cache_iff [of env now evs idx]
    by (auto simp: rebuild_sqlite_index_def split: sum.splits)
  note ids = index_ok_session_values(1) [OF ok]
  have "distinct (map isn_session_id ?ss)" using ids by (rule distinct_map_filter)
  note order = cached_order [OF this, of env]
  have rows: "qc_sessions db = map (session_row_for env) ?all" by (simp only: db cache_of_def Let_def query_cache.select_convs)
  have "filter (session_matches q) (qc_sessions db) = map (session_row_for env) ?ss"
    unfolding rows filter_map by (simp only: comp_def session_row_matches)
  then have query: "query_sqlite_sessions db q =
      map (session_record_of db \<circ> session_row_for env) (take (cache_limit (qq_limit q)) (query_indexed_sessions idx (index_query q)))"
    using order assms(3) by (simp add: query_sqlite_sessions_def query_indexed_sessions_def take_map)
  have "(qs_session_id r, sr_mission_ids r) = (isn_session_id s, isn_mission_ids s)"
    if "s \<in> set (query_indexed_sessions idx (index_query q))" "r = session_record_of db (session_row_for env s)" for r s
  proof -
    have s: "s \<in> set ?all" using that(1) by (auto simp: query_indexed_sessions_def)
    then have "bs_inv (isn_mission_ids s)"
      using ok by (auto simp: index_ok_def map_inv_def session_ok_def bt_get_iff)
    from collect_tagged [OF ids s, of isn_mission_ids] this show ?thesis
      by (simp add: that(2) session_record_of_def session_row_for_def cache_session.defs db cache_of_def Let_def)
  qed
  then show ?thesis
    unfolding query by (auto simp: take_map dest: in_set_takeD)
qed

section \<open>Folder queries\<close>

lemma like_escaped:
  "sql_like_escape (escape_like q @ ps) s \<longleftrightarrow>
     prefix (map ascii_lower q) (map ascii_lower s) \<and> sql_like_escape ps (drop (length q) s)"
proof (induction q arbitrary: s)
  case (Cons c q)
  show ?case
  proof (cases s)
    case Nil
    then show ?thesis by (auto simp: escape_like_def)
  next
    case (Cons d ds)
    have "sql_like_escape (escape_like (c # q) @ ps) (d # ds) \<longleftrightarrow>
        ascii_lower c = ascii_lower d \<and> sql_like_escape (escape_like q @ ps) ds"
      by (simp add: escape_like_def)
    then show ?thesis by (simp add: Cons Cons.IH conj_assoc)
  qed
qed (simp add: escape_like_def)

lemma like_percent: "sql_like_escape ''%'' s"
proof (induction s rule: length_induct)
  case (1 s)
  show ?case
  proof (cases "s = []")
    case False
    then have "length (drop (fst (utf8_step s)) s) < length s" using utf8_step_pos [of s] by (auto intro!: diff_less)
    with 1 have "sql_like_escape ''%'' (drop (fst (utf8_step s)) s)" by blast
    with False show ?thesis by (subst sql_like_escape.simps) simp
  qed (simp add: sql_like_escape.simps)
qed

lemma lower_slash: "ascii_lower c = CHR ''/'' \<longleftrightarrow> c = CHR ''/''"
proof (cases "65 \<le> (of_char c :: nat) \<and> (of_char c :: nat) \<le> 90")
  case True
  then have "(of_char (ascii_lower c) :: nat) = of_char c + 32" by (simp add: ascii_lower_def)
  moreover have "(of_char (CHR ''/'') :: nat) = 47" by simp
  ultimately show ?thesis using True by fastforce
qed (auto simp: ascii_lower_def)

lemma lower_slash_self: "ascii_lower (CHR ''/'') = CHR ''/''"
  by (simp add: lower_slash)

lemma like_slash: "sql_like_escape (CHR ''/'' # ps) s \<longleftrightarrow> prefix ''/'' s \<and> sql_like_escape ps (tl s)"
  by (cases s) (auto simp: lower_slash_self lower_slash eq_commute [of "CHR ''/''"])

lemma prefix_snoc_drop: "prefix (xs @ [y]) zs \<longleftrightarrow> prefix xs zs \<and> prefix [y] (drop (length xs) zs)"
  by (auto simp: prefix_def)

text \<open>
  A query for a path returns what is recorded for it or, with the folder's characters taken
  literally but letters without case, for a file below it.
\<close>

theorem folder_query_prefix:
  "in_folder q path \<longleftrightarrow>
     path = q \<or> prefix (map ascii_lower (trim_end_slash q @ ''/'')) (map ascii_lower path)"
proof -
  let ?f = "trim_end_slash q" and ?l = "map ascii_lower"
  have slash: "prefix ''/'' (?l s) \<longleftrightarrow> prefix ''/'' s" for s
    by (cases s) (auto simp: lower_slash eq_commute [of "CHR ''/''"])
  have "sql_like_escape (folder_like_pattern q) path \<longleftrightarrow> prefix (?l ?f) (?l path) \<and> prefix ''/'' (drop (length ?f) path)"
    by (simp add: folder_like_pattern_def like_escaped like_slash like_percent del: sql_like_escape.simps)
  also have "\<dots> \<longleftrightarrow> prefix (?l (?f @ ''/'')) (?l path)"
    using slash [of "drop (length ?f) path"] by (simp add: lower_slash_self prefix_snoc_drop drop_map)
  finally show ?thesis by (simp only: in_folder_def)
qed

lemma folder_query_ignores_case:
  "in_folder ''src'' ''SRC/a.rs'' \<and> \<not> path_matches_folder_query ''SRC/a.rs'' ''src''"
  by code_simp

section \<open>A small log\<close>

definition sample_two_files :: trace_event where
  "sample_two_files =
     diff_captured (at_time 8) sample_actor ''artifact_1'' None None
       \<lparr>dc_diff_target = Target_Working, dc_base_commit = None, dc_head_commit = None, dc_patch_id = None,
        dc_summary_hash = ''h'',
        dc_file_changes =
          map (\<lambda>path. \<lparr>fc_path = path, fc_old_path = None, fc_change_kind = Change_Modified, fc_additions = Some 1,
                 fc_deletions = Some 0, fc_hunks = [], fc_patch_id = None\<rparr>) [''a.rs'', ''b.rs''],
        dc_repo_context_id = None\<rparr>"

abbreviation sample_index :: trace_index where
  "sample_index \<equiv> (case build_index 0 sample_log of Inr idx \<Rightarrow> idx)"

lemma sample_sizes:
  "list_all (\<lambda>v. unat (iat_size_bytes v) \<le> 9) (map snd (ti_attachments sample_index)) \<and>
   list_all (\<lambda>v. idf_file_count v \<le> 9 \<and> unat (idf_additions v) \<le> 9 \<and> unat (idf_deletions v) \<le> 9 \<and>
     idf_binary_file_count v \<le> 9) (map snd (ti_diffs sample_index)) \<and>
   list_all (\<lambda>v. unat (isl_size_bytes v) \<le> 9) (map snd (ti_session_logs sample_index))"
  by code_simp

lemma sample_keys: "cache_keys_distinct sample_log sample_index"
  by code_simp

lemma small_fits: "n \<le> 9 \<Longrightarrow> fits_i64 n"
  by (simp add: fits_i64_def max_i64_def)

lemma sample_cache_fits: "index_fits sample_index"
  using sample_sizes
  by (auto simp: index_fits_def attachment_fits_def diff_fits_def session_log_fits_def list_all_iff small_fits)

lemma sample_cache_filled:
  assumes "build_index 0 sample_log = Inr idx"
  shows "rebuild_sqlite_index sample_meta_env 0 sample_log idx None =
    (Some (cache_of sample_meta_env 0 sample_log idx), Inr ())"
  using sample_cache_fits sample_keys
  by (intro rebuild_cases(1) [OF index_ok.inv_build [OF assms]]) (simp_all add: assms prepare_schema_for_rebuild_def)

theorem cache_rebuild_outcome_witness:
  "\<exists>idx. build_index 0 sample_log = Inr idx \<and>
     rebuild_sqlite_index sample_meta_env 0 sample_log idx None =
       (Some (cache_of sample_meta_env 0 sample_log idx), Inr ())"
proof -
  obtain idx where idx: "build_index 0 sample_log = Inr idx" using sample_log_builds by blast
  have "prepare_schema_for_rebuild None = Inr empty_cache" by (simp add: prepare_schema_for_rebuild_def)
  from cache_rebuild_outcome [OF idx this, of sample_meta_env 0] show ?thesis
    using idx sample_cache_fits sample_keys by auto
qed

theorem multi_file_diff_blocks_cache_witness:
  "\<exists>idx e. build_index 0 [sample_two_files] = Inr idx \<and>
     snd (rebuild_sqlite_index sample_meta_env 0 [sample_two_files] idx None) = Inl e"
proof -
  have "\<exists>idx. build_index 0 [sample_two_files] = Inr idx"
    using apply_events_outcome [of "[sample_two_files]" "empty_index 0 1"]
    by (simp add: build_index_def sample_two_files_def sample_simps indexable_def)
  then obtain idx where idx: "build_index 0 [sample_two_files] = Inr idx" by blast
  obtain p where p: "te_artifact_id sample_two_files = Some ''artifact_1''"
    "dec_payload (te_event_type sample_two_files) (te_payload sample_two_files) = Some (P_DiffCaptured p)"
    "length (dc_file_changes p) = 2"
    by (simp add: sample_two_files_def sample_simps)
  have "sample_two_files \<in> set [sample_two_files]" "2 \<le> length (dc_file_changes p)" using p(3) by simp_all
  from multi_file_diff_blocks_cache [OF idx this(1) p(1,2) this(2)] idx show ?thesis by blast
qed

lemma sample_one_session: "length (ti_sessions sample_index) = 1"
  by code_simp

abbreviation sample_cache_query :: sqlite_session_query where
  "sample_cache_query \<equiv> \<lparr>qq_app_id = None, qq_actor_id = None, qq_runtime_id = None, qq_limit = 5\<rparr>"

lemma sample_indexed:
  "map (\<lambda>s. (isn_session_id s, isn_mission_ids s)) (query_indexed_sessions sample_index (index_query sample_cache_query)) =
     [(''session_1'', [''mission_1''])]"
  by code_simp

theorem cached_sessions_match_index_witness:
  "\<exists>db. rebuild_sqlite_index sample_meta_env 0 sample_log sample_index None = (Some db, Inr ()) \<and>
     map (\<lambda>r. (qs_session_id r, sr_mission_ids r)) (query_sqlite_sessions db sample_cache_query) = [(''session_1'', [''mission_1''])]"
proof -
  obtain idx where idx: "build_index 0 sample_log = Inr idx" using sample_log_builds by blast
  note db = sample_cache_filled [OF idx]
  obtain s where "map snd (ti_sessions idx) = [s]"
    using sample_one_session by (auto simp: idx length_Suc_conv)
  then have "\<forall>a\<in>set (map snd (ti_sessions idx)). \<forall>b\<in>set (map snd (ti_sessions idx)).
      time_text sample_meta_env (isn_last_event_at a) < time_text sample_meta_env (isn_last_event_at b) \<longleftrightarrow>
      isn_last_event_at a < isn_last_event_at b" by simp
  from cached_sessions_match_index [OF idx db this, of sample_cache_query] sample_indexed db show ?thesis
    by (simp add: idx cache_limit_def max_i64_def del: take_map)
qed

end
