(* ===== verification/Identity.thy ===== *)
theory Identity imports Config_Files Local_Store begin

text \<open>
  Who records an event (\<^verbatim>\<open>identity.rs\<close>): explicit values, environment variables, the selected
  source profile, the persisted context and local fallbacks, in this order; and the context file
  that carries one command's identity to the next (\<^verbatim>\<open>store.rs\<close>). The profile's record is that of
  \<^verbatim>\<open>source_profile.rs\<close>.
\<close>

section \<open>Environment and layers\<close>

text \<open>
  \<^verbatim>\<open>var_os\<close> returns any bytes, \<^verbatim>\<open>var(..).ok()\<close> only what is UTF-8. \<open>first_some\<close> is the value of a
  chain of \<^verbatim>\<open>or\<close> and \<^verbatim>\<open>or_else\<close>.
\<close>

type_synonym environment = "string \<Rightarrow> string option"

definition env_var :: "environment \<Rightarrow> string \<Rightarrow> string option" where
  "env_var env name = filter_opt utf8_valid (env name)"

definition first_some :: "'a option list \<Rightarrow> 'a option" where
  "first_some layers = foldr or_else layers None"

lemma first_some_simps [simp]:
  "first_some [] = None"
  "first_some (x # xs) = or_else x (first_some xs)"
  by (simp_all add: first_some_def)

lemma first_some_append: "first_some (xs @ ys) = or_else (first_some xs) (first_some ys)"
  by (induction xs) (simp_all add: or_else_assoc)

lemma first_some_last:
  "first_some xs = Some v \<Longrightarrow> prefix ys xs \<Longrightarrow> first_some (ys @ [Some v]) = Some v"
  by (auto simp: prefix_def first_some_append or_else_def split: option.splits)

section \<open>Records\<close>

record current_context =
  cc_actor :: "actor_ref option"
  cc_runtime_id :: "string option"
  cc_session_id :: "string option"
  cc_app_id :: "string option"
  cc_app_session_id :: "string option"
  cc_app_session_name :: "string option"
  cc_mission_id :: "string option"

record identity_overrides =
  io_actor_id :: "string option"
  io_actor_type :: "actor_type option"
  io_runtime_id :: "string option"
  io_session_id :: "string option"
  io_app_id :: "string option"
  io_app_session_id :: "string option"
  io_app_session_name :: "string option"
  io_mission_id :: "string option"

record resolved_identity =
  ri_actor :: actor_ref
  ri_runtime_id :: "string option"
  ri_session_id :: string
  ri_session_source :: session_source
  ri_mission_id :: "string option"

record local_profile =
  lp_name :: string
  lp_app_id :: "string option"
  lp_actor_id :: "string option"
  lp_actor_type :: "actor_type option"
  lp_store_root :: "string option"
  lp_session_db_path :: "string option"
  lp_session_log_path :: "string option"
  lp_evidence_root :: "string option"
  lp_cursor_state_db_path :: "string option"
  lp_default_full_evidence_upload :: "bool option"
  lp_notes :: "string option"

definition no_overrides :: identity_overrides where
  "no_overrides =
     \<lparr>io_actor_id = None, io_actor_type = None, io_runtime_id = None, io_session_id = None,
      io_app_id = None, io_app_session_id = None, io_app_session_name = None, io_mission_id = None\<rparr>"

definition profile_named :: "string \<Rightarrow> local_profile" where
  "profile_named name =
     \<lparr>lp_name = name, lp_app_id = None, lp_actor_id = None, lp_actor_type = None,
      lp_store_root = None, lp_session_db_path = None, lp_session_log_path = None,
      lp_evidence_root = None, lp_cursor_state_db_path = None,
      lp_default_full_evidence_upload = None, lp_notes = None\<rparr>"

definition current_context_of :: "resolved_identity \<Rightarrow> current_context" where
  "current_context_of r =
     \<lparr>cc_actor = Some (ri_actor r), cc_runtime_id = ri_runtime_id r,
      cc_session_id = Some (ri_session_id r), cc_app_id = ss_app_id (ri_session_source r),
      cc_app_session_id = ss_app_session_id (ri_session_source r),
      cc_app_session_name = ss_app_session_name (ri_session_source r),
      cc_mission_id = ri_mission_id r\<rparr>"

section \<open>Resolution\<close>

definition env_id :: "environment \<Rightarrow> string \<Rightarrow> string option result" where
  "env_id env name =
     (case env_var env name of None \<Rightarrow> Inr None | Some v \<Rightarrow> and_then (id_from_str v) (Inr \<circ> Some))"

definition env_actor_type :: "environment \<Rightarrow> actor_type option result" where
  "env_actor_type env =
     (case env_var env ''BRICK_ACTOR_TYPE'' of
        None \<Rightarrow> Inr None
      | Some v \<Rightarrow> and_then (actor_type_from_str v) (Inr \<circ> Some))"

text \<open>
  The identifiers in the environment are parsed before the layers are combined, so a malformed
  one fails the call even where an explicit value would have been preferred. \<open>u\<close> is the uuid
  of a new session.
\<close>

definition resolve_identity_with_profile ::
  "environment \<Rightarrow> uuid \<Rightarrow> current_context option \<Rightarrow> identity_overrides \<Rightarrow> local_profile option \<Rightarrow>
   resolved_identity result" where
  "resolve_identity_with_profile env u current ov profile =
     and_then (env_actor_type env) (\<lambda>env_type.
     let current_actor = Option.bind current cc_actor;
         the_actor_id = unwrap_or (first_some
           [io_actor_id ov, env_var env ''BRICK_ACTOR_ID'', Option.bind profile lp_actor_id,
            map_option actor_id current_actor, env_var env ''USER'']) ''unknown'';
         the_actor_type = unwrap_or (first_some
           [io_actor_type ov, env_type, Option.bind profile lp_actor_type,
            map_option actor_type current_actor]) Human;
         runtime = first_some
           [io_runtime_id ov, env_var env ''BRICK_RUNTIME_ID'', Option.bind current cc_runtime_id]
     in and_then (env_id env ''BRICK_SESSION_ID'') (\<lambda>env_session.
        let session = unwrap_or (first_some
              [io_session_id ov, env_session, Option.bind current cc_session_id]) (new_id SessionId u)
        in and_then (env_id env ''BRICK_MISSION_ID'') (\<lambda>env_mission.
           Inr \<lparr>ri_actor = \<lparr>actor_type = the_actor_type, actor_id = the_actor_id,
                    display_name = Option.bind current_actor display_name\<rparr>,
                ri_runtime_id = runtime,
                ri_session_id = session,
                ri_session_source =
                  \<lparr>ss_app_id = first_some
                     [io_app_id ov, env_var env ''BRICK_APP_ID'', Option.bind profile lp_app_id,
                      Option.bind current cc_app_id],
                   ss_app_session_id = first_some
                     [io_app_session_id ov, env_var env ''BRICK_APP_SESSION_ID'',
                      Option.bind current cc_app_session_id],
                   ss_app_session_name = first_some
                     [io_app_session_name ov, env_var env ''BRICK_APP_SESSION_NAME'',
                      Option.bind current cc_app_session_name],
                   ss_runtime_id = runtime\<rparr>,
                ri_mission_id = first_some
                  [io_mission_id ov, env_mission, Option.bind current cc_mission_id]\<rparr>)))"

definition resolve_identity ::
  "environment \<Rightarrow> uuid \<Rightarrow> current_context option \<Rightarrow> identity_overrides \<Rightarrow> resolved_identity result" where
  "resolve_identity env u current ov = resolve_identity_with_profile env u current ov None"

text \<open>When the identifiers of the environment parse, the resolution succeeds.\<close>

definition env_ids_ok :: "environment \<Rightarrow> bool" where
  "env_ids_ok env \<longleftrightarrow>
     env_actor_type env \<in> range Inr \<and> env_id env ''BRICK_SESSION_ID'' \<in> range Inr \<and>
     env_id env ''BRICK_MISSION_ID'' \<in> range Inr"

lemma resolve_succeeds_iff:
  "(\<exists>r. resolve_identity_with_profile env u current ov profile = Inr r) \<longleftrightarrow> env_ids_ok env"
  by (auto simp: resolve_identity_with_profile_def env_ids_ok_def and_then_Inr_iff Let_def image_iff)

lemma resolve_parts:
  assumes "resolve_identity_with_profile env u current ov profile = Inr r"
  obtains env_type env_session env_mission
  where "env_actor_type env = Inr env_type"
    and "env_id env ''BRICK_SESSION_ID'' = Inr env_session"
    and "env_id env ''BRICK_MISSION_ID'' = Inr env_mission"
  using assms by (auto simp: resolve_identity_with_profile_def and_then_Inr_iff Let_def)

text \<open>A value that the upper layers let through is what they yield over that value.\<close>

lemma layer_again:
  "or_else a (or_else a b) = or_else a b"
  "or_else a (or_else b (or_else a b)) = or_else a b"
  "or_else a (or_else b (or_else a (or_else b c))) = or_else a (or_else b c)"
  "or_else a (or_else b (or_else c (or_else a (or_else b (or_else c d))))) = or_else a (or_else b (or_else c d))"
  "or_else a (or_else b (or_else c (or_else (Some (unwrap_or (or_else a (or_else b (or_else c d))) e)) f))) =
   Some (unwrap_or (or_else a (or_else b (or_else c d))) e)"
  "or_else a (or_else b (or_else c (Some (unwrap_or (or_else a (or_else b (or_else c d))) e)))) =
   Some (unwrap_or (or_else a (or_else b (or_else c d))) e)"
  "or_else a (or_else b (Some (unwrap_or (or_else a (or_else b c)) e))) =
   Some (unwrap_or (or_else a (or_else b c)) e)"
  by (cases a; cases b; cases c; simp)+

text \<open>
  Resolving again with the resolved identity as the current context changes nothing, whatever the
  layers above it held: the context is the lowest layer that decides.
\<close>

lemma resolve_again:
  assumes "resolve_identity_with_profile env u current ov profile = Inr r"
  shows "resolve_identity_with_profile env u' (Some (current_context_of r)) ov profile = Inr r"
proof -
  obtain t s m where parsed: "env_actor_type env = Inr t"
    "env_id env ''BRICK_SESSION_ID'' = Inr s" "env_id env ''BRICK_MISSION_ID'' = Inr m"
    using resolve_parts [OF assms] .
  show ?thesis
    using assms
    by (auto simp: resolve_identity_with_profile_def parsed current_context_of_def Let_def layer_again)
qed

section \<open>The context file\<close>

definition enc_current_context :: "current_context \<Rightarrow> json" where
  "enc_current_context c = enc_struct
     [(''actor'', enc_opt enc_actor_ref (cc_actor c)), (''runtime_id'', enc_opt JStr (cc_runtime_id c)),
      (''session_id'', enc_opt JStr (cc_session_id c)), (''app_id'', enc_opt JStr (cc_app_id c)),
      (''app_session_id'', enc_opt JStr (cc_app_session_id c)),
      (''app_session_name'', enc_opt JStr (cc_app_session_name c)),
      (''mission_id'', enc_opt JStr (cc_mission_id c))]"

definition dec_current_context :: "json \<Rightarrow> current_context option" where
  "dec_current_context j = do {
     src \<leftarrow> struct_src [(''actor'', False), (''runtime_id'', False), (''session_id'', False),
       (''app_id'', False), (''app_session_id'', False), (''app_session_name'', False),
       (''mission_id'', False)] j;
     v_actor \<leftarrow> opt dec_actor_ref (src ''actor'');
     v_runtime_id \<leftarrow> opt dec_str (src ''runtime_id'');
     v_session_id \<leftarrow> opt dec_str (src ''session_id'');
     v_app_id \<leftarrow> opt dec_str (src ''app_id'');
     v_app_session_id \<leftarrow> opt dec_str (src ''app_session_id'');
     v_app_session_name \<leftarrow> opt dec_str (src ''app_session_name'');
     v_mission_id \<leftarrow> opt dec_str (src ''mission_id'');
     Some \<lparr>cc_actor = v_actor, cc_runtime_id = v_runtime_id, cc_session_id = v_session_id,
           cc_app_id = v_app_id, cc_app_session_id = v_app_session_id,
           cc_app_session_name = v_app_session_name, cc_mission_id = v_mission_id\<rparr>
   }"

lemma enc_actor_ref_not_JNull: "enc_actor_ref a \<noteq> JNull"
  by (simp add: enc_actor_ref_def)

lemma opt_enc_actor_ref [simp, codec]: "opt dec_actor_ref (Some (enc_opt enc_actor_ref v)) = Some v"
  by (rule opt_enc_opt) (simp add: enc_actor_ref_not_JNull)

lemma dec_current_context_enc [simp, codec]: "dec_current_context (enc_current_context c) = Some c"
  by (simp add: dec_current_context_def enc_current_context_def struct_src_enc codec)

datatype setup_error =
    Setup_Unreadable
  | Setup_Unparsable
  | Profile_Name_Empty
  | Profile_Name_Invalid
  | Profile_Not_Found string
  | Root_Not_Canonical string
  | No_Brick_Home
  | No_Repository

text \<open>
  The context file lies beside the store; writing it initialises the store first. Only the parser
  and printer of \<open>config_env\<close> are used.
\<close>

record repo_store =
  rs_store :: local_store
  rs_context :: config_file

definition read_current_context :: "config_env \<Rightarrow> repo_store \<Rightarrow> setup_error + current_context option" where
  "read_current_context ce st =
     (case rs_context st of
        No_File \<Rightarrow> Inr None
      | Unreadable \<Rightarrow> Inl Setup_Unreadable
      | Text contents \<Rightarrow>
          ok_or (map_option Some (Option.bind (ce_json_parse ce contents) dec_current_context)) Setup_Unparsable)"

definition write_current_context ::
  "config_env \<Rightarrow> store_env \<Rightarrow> instant \<Rightarrow> current_context \<Rightarrow> repo_store \<Rightarrow> repo_store" where
  "write_current_context ce env now c st =
     st\<lparr>rs_store := store_init env now (rs_store st),
        rs_context := Text (ce_json_print ce (enc_current_context c))\<rparr>"

lemma read_written_context:
  assumes "ce_json_parse ce (ce_json_print ce (enc_current_context c)) = Some (enc_current_context c)"
  shows "read_current_context ce (write_current_context ce env now c st) = Inr (Some c)"
  using assms by (simp add: read_current_context_def write_current_context_def)

end
