(* ===== verification/Setup.thy ===== *)
theory Setup imports Identity Transcript Git begin

text \<open>
  Where things are: the repository a command belongs to (\<^verbatim>\<open>repo.rs\<close>), the Brick home and the
  provenance root of a repository (\<^verbatim>\<open>global_home.rs\<close>), the storage root (\<^verbatim>\<open>store_options.rs\<close>), the
  paths of a store handle (\<^verbatim>\<open>store.rs\<close>) and the Git context of an event (\<^verbatim>\<open>repo_context.rs\<close>).
  The file system answers whether a path exists and what its canonical path is.
\<close>

record path_env =
  pe_exists :: "string \<Rightarrow> bool"
  pe_canonical :: "string \<Rightarrow> string option"

section \<open>The repository\<close>

text \<open>The loop of \<^verbatim>\<open>discover_repo_root\<close>: \<^verbatim>\<open>pop\<close> shortens the path, so it ends.\<close>

function find_git_root :: "path_env \<Rightarrow> string \<Rightarrow> setup_error + string" where
  "find_git_root pe p =
     (if pe_exists pe (path_join p ''.git'') then Inr p
      else case path_parent p of None \<Rightarrow> Inl No_Repository | Some q \<Rightarrow> find_git_root pe q)"
  by pat_completeness auto
termination
  by (relation "measure (\<lambda>(pe, p). length p)") (auto simp: path_parent_shorter)

declare find_git_root.simps [simp del]

definition discover_repo_root :: "path_env \<Rightarrow> string \<Rightarrow> setup_error + string" where
  "discover_repo_root pe start =
     and_then (ok_or (pe_canonical pe start) (Root_Not_Canonical start)) (find_git_root pe)"

text \<open>A directory and those above it, the nearest first.\<close>

function path_ancestors :: "string \<Rightarrow> string list" where
  "path_ancestors p = p # (case path_parent p of None \<Rightarrow> [] | Some q \<Rightarrow> path_ancestors q)"
  by pat_completeness auto
termination
  by (relation "measure length") (auto simp: path_parent_shorter)

declare path_ancestors.simps [simp del]

lemma find_git_root_nearest:
  "find_git_root pe p =
     ok_or (List.find (\<lambda>d. pe_exists pe (path_join d ''.git'')) (path_ancestors p)) No_Repository"
proof (induction pe p rule: find_git_root.induct)
  case (1 pe p)
  show ?case
    by (subst find_git_root.simps, subst path_ancestors.simps) (use 1 in \<open>auto split: option.splits\<close>)
qed

section \<open>The Brick home\<close>

definition user_home_dir :: "environment \<Rightarrow> string option" where
  "user_home_dir env = or_else (env ''HOME'') (env ''USERPROFILE'')"

definition default_brick_home :: "environment \<Rightarrow> setup_error + string" where
  "default_brick_home env = ok_or (map_option (\<lambda>h. path_join h ''.brick'') (user_home_dir env)) No_Brick_Home"

definition resolve_brick_home_with_env :: "environment \<Rightarrow> string option \<Rightarrow> setup_error + string" where
  "resolve_brick_home_with_env env v =
     (case v of Some p \<Rightarrow> if p = [] then default_brick_home env else Inr p | None \<Rightarrow> default_brick_home env)"

definition resolve_brick_home :: "environment \<Rightarrow> setup_error + string" where
  "resolve_brick_home env = resolve_brick_home_with_env env (env ''BRICK_HOME'')"

definition local_event_db_path_in_home :: "string \<Rightarrow> string" where
  "local_event_db_path_in_home home = path_join home ''brick.sqlite''"

definition local_event_db_path :: "environment \<Rightarrow> setup_error + string" where
  "local_event_db_path env = and_then (resolve_brick_home env) (\<lambda>h. Inr (path_join h ''brick.sqlite''))"

definition metadata_db_path_in_home :: "string \<Rightarrow> string" where
  "metadata_db_path_in_home home = path_join home ''metadata.sqlite''"

definition metadata_db_path :: "environment \<Rightarrow> setup_error + string" where
  "metadata_db_path env = and_then (resolve_brick_home env) (\<lambda>h. Inr (path_join h ''metadata.sqlite''))"

text \<open>The first eight bytes of the digest of the canonical path, in hex.\<close>

definition repo_id_for_root :: "services \<Rightarrow> path_env \<Rightarrow> string \<Rightarrow> string" where
  "repo_id_for_root sv pe root =
     take 16 (sha256_hex sv (from_utf8_lossy (unwrap_or (pe_canonical pe root) root)))"

definition repo_provenance_root :: "services \<Rightarrow> path_env \<Rightarrow> environment \<Rightarrow> string \<Rightarrow> setup_error + string" where
  "repo_provenance_root sv pe env root =
     and_then (resolve_brick_home env) (\<lambda>h.
       Inr (path_join (path_join (path_join h ''repos'') (repo_id_for_root sv pe root)) ''.brick/provenance''))"

section \<open>The storage root\<close>

record storage_options =
  so_explicit_store_root :: "string option"
  so_source_profile :: "local_profile option"

datatype storage_root_source = Explicit_Flag | From_Environment | From_Profile | Repo_Default

record resolved_storage_root =
  rsr_path :: string
  rsr_source :: storage_root_source

definition storage_options_new :: storage_options where
  "storage_options_new = \<lparr>so_explicit_store_root = None, so_source_profile = None\<rparr>"

definition with_explicit_store_root :: "string option \<Rightarrow> storage_options \<Rightarrow> storage_options" where
  "with_explicit_store_root r opts = opts\<lparr>so_explicit_store_root := r\<rparr>"

definition with_source_profile :: "local_profile option \<Rightarrow> storage_options \<Rightarrow> storage_options" where
  "with_source_profile p opts = opts\<lparr>so_source_profile := p\<rparr>"

definition absolutize_path :: "path_env \<Rightarrow> string \<Rightarrow> string \<Rightarrow> setup_error + string" where
  "absolutize_path pe root p =
     (let absolute = if path_is_absolute p then p else path_join root p
      in if pe_exists pe absolute then ok_or (pe_canonical pe absolute) (Root_Not_Canonical absolute)
         else Inr absolute)"

definition default_storage_path :: "services \<Rightarrow> path_env \<Rightarrow> environment \<Rightarrow> string \<Rightarrow> string" where
  "default_storage_path sv pe env root =
     (case repo_provenance_root sv pe env root of Inr p \<Rightarrow> p | Inl _ \<Rightarrow> path_join root ''.brick/provenance'')"

definition resolve_storage_root ::
  "services \<Rightarrow> path_env \<Rightarrow> environment \<Rightarrow> string \<Rightarrow> storage_options \<Rightarrow> setup_error + resolved_storage_root" where
  "resolve_storage_root sv pe env root opts =
     (let at = (\<lambda>src p. and_then (absolutize_path pe root p) (\<lambda>a. Inr \<lparr>rsr_path = a, rsr_source = src\<rparr>))
      in case so_explicit_store_root opts of
           Some p \<Rightarrow> at Explicit_Flag p
         | None \<Rightarrow> (case env ''BRICK_STORE_ROOT'' of
             Some p \<Rightarrow> at From_Environment p
           | None \<Rightarrow> (case Option.bind (so_source_profile opts) lp_store_root of
               Some p \<Rightarrow> at From_Profile p
             | None \<Rightarrow> Inr \<lparr>rsr_path = default_storage_path sv pe env root, rsr_source = Repo_Default\<rparr>)))"

section \<open>Store handles\<close>

record store_handle =
  sh_repo_root :: string
  sh_storage_root :: string
  sh_resolution :: resolved_storage_root

definition store_handle_new :: "services \<Rightarrow> path_env \<Rightarrow> environment \<Rightarrow> string \<Rightarrow> store_handle" where
  "store_handle_new sv pe env root =
     (let p = default_storage_path sv pe env root
      in \<lparr>sh_repo_root = root, sh_storage_root = p,
          sh_resolution = \<lparr>rsr_path = p, rsr_source = Repo_Default\<rparr>\<rparr>)"

definition store_handle_with_options ::
  "services \<Rightarrow> path_env \<Rightarrow> environment \<Rightarrow> string \<Rightarrow> storage_options \<Rightarrow> setup_error + store_handle" where
  "store_handle_with_options sv pe env root opts =
     and_then (resolve_storage_root sv pe env root opts) (\<lambda>res.
       Inr \<lparr>sh_repo_root = root, sh_storage_root = rsr_path res, sh_resolution = res\<rparr>)"

definition handle_repo_id :: "services \<Rightarrow> path_env \<Rightarrow> store_handle \<Rightarrow> string" where
  "handle_repo_id sv pe h = repo_id_for_root sv pe (sh_repo_root h)"

definition cache_dir :: "store_handle \<Rightarrow> string" where
  "cache_dir h = path_join (sh_storage_root h) ''cache''"

definition index_path :: "store_handle \<Rightarrow> string" where
  "index_path h = path_join (cache_dir h) ''index.json''"

definition views_dir :: "store_handle \<Rightarrow> string" where
  "views_dir h = path_join (sh_storage_root h) ''views''"

definition sqlite_index_path :: "store_handle \<Rightarrow> string" where
  "sqlite_index_path h = path_join (cache_dir h) ''query-cache.sqlite''"

text \<open>A handle and its storage root agree, however it was made; without options it is the default.\<close>

definition handle_ok :: "store_handle \<Rightarrow> bool" where
  "handle_ok h \<longleftrightarrow> sh_storage_root h = rsr_path (sh_resolution h)"

lemma handle_ok_new: "handle_ok (store_handle_new sv pe env root)"
  by (simp add: handle_ok_def store_handle_new_def Let_def)

lemma handle_ok_with_options: "store_handle_with_options sv pe env root opts = Inr h \<Longrightarrow> handle_ok h"
  by (auto simp: handle_ok_def store_handle_with_options_def and_then_Inr_iff)

lemma store_handle_default:
  "env ''BRICK_STORE_ROOT'' = None \<Longrightarrow>
   store_handle_with_options sv pe env root storage_options_new = Inr (store_handle_new sv pe env root)"
  by (simp add: store_handle_with_options_def resolve_storage_root_def storage_options_new_def
      store_handle_new_def Let_def)

text \<open>A configured root is absolute, whatever layer names it, when the repository's root is.\<close>

definition canonical_absolute :: "path_env \<Rightarrow> bool" where
  "canonical_absolute pe \<longleftrightarrow> (\<forall>p q. pe_canonical pe p = Some q \<longrightarrow> path_is_absolute q)"

lemma absolutize_path_absolute:
  assumes "absolutize_path pe root p = Inr a" "path_is_absolute root" "canonical_absolute pe"
  shows "path_is_absolute a"
  using assms
  by (auto simp: absolutize_path_def Let_def ok_or_Inr_iff canonical_absolute_def split: if_splits)

section \<open>The Git context\<close>

definition git_output :: "git \<Rightarrow> string list \<Rightarrow> string option" where
  "git_output g args =
     (case git_run g args of
        Git_Ok out \<Rightarrow> if utf8_valid out then filter_opt (\<lambda>v. v \<noteq> []) (Some (trim out)) else None
      | _ \<Rightarrow> None)"

definition is_dirty :: "git \<Rightarrow> bool" where
  "is_dirty g =
     unwrap_or (map_option (\<lambda>out. trim out \<noteq> [])
       (git_output g [''status'', ''--porcelain'', ''--'', ''.'', '':!.brick/provenance''])) False"

definition capture_repo_context :: "git \<Rightarrow> string \<Rightarrow> string \<Rightarrow> repo_context_payload" where
  "capture_repo_context g repo_root work_dir =
     \<lparr>rc_repo_root = from_utf8_lossy repo_root, rc_work_dir = from_utf8_lossy work_dir,
      rc_remote_url = git_output g [''config'', ''--get'', ''remote.origin.url''],
      rc_branch = git_output g [''branch'', ''--show-current''],
      rc_upstream_branch =
        git_output g [''rev-parse'', ''--abbrev-ref'', ''--symbolic-full-name'', ''@'' @ ''{u}''],
      rc_head_commit = git_output g [''rev-parse'', ''HEAD''],
      rc_merge_base_commit = git_output g [''merge-base'', ''HEAD'', ''@'' @ ''{u}''],
      rc_dirty = is_dirty g, rc_context_mode = Ctx_AttachedCurrentBranch\<rparr>"

lemma git_output_trimmed: "git_output g args = Some v \<Longrightarrow> v \<noteq> [] \<and> trim v = v"
  by (auto simp: git_output_def trim_idem split: git_outcome.splits if_splits)

lemma is_dirty_iff:
  "is_dirty g \<longleftrightarrow> git_output g [''status'', ''--porcelain'', ''--'', ''.'', '':!.brick/provenance''] \<noteq> None"
  using git_output_trimmed by (auto simp: is_dirty_def unwrap_or_def split: option.splits)

end
