(* ===== verification/Source_Profiles.thy ===== *)
theory Source_Profiles imports Setup begin

text \<open>
  The profiles of a repository's \<^verbatim>\<open>.brick\<close> directory (\<^verbatim>\<open>source_profile.rs\<close>): the config file, one
  file per profile and the name of the selected one. The TOML printer and parser, with what serde
  derives for the three structs, are parameters. Directories can be created and files written.
\<close>

section \<open>State\<close>

record brick_config =
  bc_default_full_evidence_upload :: bool
  bc_metadata_only_local :: bool

definition default_brick_config :: brick_config where
  "default_brick_config = \<lparr>bc_default_full_evidence_upload = False, bc_metadata_only_local = True\<rparr>"

record profile_toml =
  pt_print_config :: "brick_config \<Rightarrow> string"
  pt_parse_config :: "string \<Rightarrow> brick_config option"
  pt_print_profile :: "local_profile \<Rightarrow> string"
  pt_parse_profile :: "string \<Rightarrow> local_profile option"
  pt_print_selected :: "string \<Rightarrow> string"
  pt_parse_selected :: "string \<Rightarrow> string option"

text \<open>The entries of the profile directory are in the order the system lists them.\<close>

record profile_registry =
  pr_config :: config_file
  pr_profiles :: "(string \<times> config_file) list option"
  pr_current :: config_file

definition parse_file :: "(string \<Rightarrow> 'a option) \<Rightarrow> config_file \<Rightarrow> setup_error + 'a option" where
  "parse_file parse f =
     (case f of
        No_File \<Rightarrow> Inr None
      | Unreadable \<Rightarrow> Inl Setup_Unreadable
      | Text t \<Rightarrow> and_then (ok_or (parse t) Setup_Unparsable) (Inr \<circ> Some))"

fun put_entry :: "string \<Rightarrow> config_file \<Rightarrow> (string \<times> config_file) list \<Rightarrow> (string \<times> config_file) list" where
  "put_entry name f [] = [(name, f)]"
| "put_entry name f ((n, g) # es) = (if n = name then (name, f) # es else (n, g) # put_entry name f es)"

definition entry_file :: "string \<Rightarrow> profile_registry \<Rightarrow> config_file" where
  "entry_file name st =
     (case pr_profiles st of None \<Rightarrow> No_File | Some es \<Rightarrow> unwrap_or (map_of es name) No_File)"

section \<open>Names and paths\<close>

definition ascii_alnum :: "char \<Rightarrow> bool" where
  "ascii_alnum c \<longleftrightarrow>
     (let n = of_char c :: nat in 48 \<le> n \<and> n \<le> 57 \<or> 65 \<le> n \<and> n \<le> 90 \<or> 97 \<le> n \<and> n \<le> 122)"

definition validate_profile_name :: "string \<Rightarrow> setup_error + unit" where
  "validate_profile_name name =
     (if name = [] then Inl Profile_Name_Empty
      else if list_all (\<lambda>c. ascii_alnum c \<or> c = CHR ''-'' \<or> c = CHR ''_'') name then Inr ()
      else Inl Profile_Name_Invalid)"

definition config_dir :: "string \<Rightarrow> string" where
  "config_dir root = path_join root ''.brick''"

definition profiles_dir :: "string \<Rightarrow> string" where
  "profiles_dir root = path_join (config_dir root) ''sources''"

definition config_path :: "string \<Rightarrow> string" where
  "config_path root = path_join (config_dir root) ''config.toml''"

definition current_source_path :: "string \<Rightarrow> string" where
  "current_source_path root = path_join (config_dir root) ''source-current.toml''"

definition profile_file :: "string \<Rightarrow> string" where
  "profile_file name = name @ ''.toml''"

definition profile_path :: "string \<Rightarrow> string \<Rightarrow> setup_error + string" where
  "profile_path root name =
     and_then (validate_profile_name name) (\<lambda>_. Inr (path_join (profiles_dir root) (profile_file name)))"

section \<open>Operations\<close>

definition should_upload_full_evidence :: "local_profile \<Rightarrow> brick_config \<Rightarrow> bool" where
  "should_upload_full_evidence p cfg =
     unwrap_or (lp_default_full_evidence_upload p) (bc_default_full_evidence_upload cfg)"

definition write_config :: "profile_toml \<Rightarrow> brick_config \<Rightarrow> profile_registry \<Rightarrow> profile_registry" where
  "write_config pt cfg st = st\<lparr>pr_config := Text (pt_print_config pt cfg)\<rparr>"

definition read_config :: "profile_toml \<Rightarrow> profile_registry \<Rightarrow> setup_error + brick_config" where
  "read_config pt st =
     and_then (parse_file (pt_parse_config pt) (pr_config st)) (\<lambda>c. Inr (unwrap_or c default_brick_config))"

definition write_profile :: "profile_toml \<Rightarrow> local_profile \<Rightarrow> profile_registry \<Rightarrow> profile_registry \<times> (setup_error + unit)" where
  "write_profile pt p st =
     (case validate_profile_name (lp_name p) of
        Inl e \<Rightarrow> (st, Inl e)
      | Inr _ \<Rightarrow>
          (st\<lparr>pr_profiles := Some (put_entry (profile_file (lp_name p)) (Text (pt_print_profile pt p))
                                   (unwrap_or (pr_profiles st) []))\<rparr>, Inr ()))"

definition read_profile :: "profile_toml \<Rightarrow> string \<Rightarrow> profile_registry \<Rightarrow> setup_error + local_profile option" where
  "read_profile pt name st =
     and_then (validate_profile_name name) (\<lambda>_.
       parse_file (pt_parse_profile pt) (entry_file (profile_file name) st))"

text \<open>The extension of a directory entry is that of its name.\<close>

definition toml_entry :: "string \<Rightarrow> bool" where
  "toml_entry name \<longleftrightarrow> snd (split_extension name) = Some ''toml''"

definition list_profiles :: "profile_toml \<Rightarrow> profile_registry \<Rightarrow> setup_error + local_profile list" where
  "list_profiles pt st =
     (case pr_profiles st of
        None \<Rightarrow> Inr []
      | Some es \<Rightarrow>
          and_then (collect_results
             (\<lambda>(n, f). and_then (parse_file (pt_parse_profile pt) f) (\<lambda>p. ok_or p Setup_Unreadable))
             (sort_key fst (filter (toml_entry \<circ> fst) es))) (\<lambda>ps.
          Inr (sort_key lp_name ps)))"

definition profile_or_fail :: "profile_toml \<Rightarrow> string \<Rightarrow> profile_registry \<Rightarrow> setup_error + local_profile" where
  "profile_or_fail pt name st = and_then (read_profile pt name st) (\<lambda>p. ok_or p (Profile_Not_Found name))"

definition use_profile :: "profile_toml \<Rightarrow> string \<Rightarrow> profile_registry \<Rightarrow> profile_registry \<times> (setup_error + local_profile)" where
  "use_profile pt name st =
     (case profile_or_fail pt name st of
        Inl e \<Rightarrow> (st, Inl e)
      | Inr p \<Rightarrow> (st\<lparr>pr_current := Text (pt_print_selected pt (lp_name p))\<rparr>, Inr p))"

definition selected_profile_name :: "profile_toml \<Rightarrow> profile_registry \<Rightarrow> setup_error + string option" where
  "selected_profile_name pt st = parse_file (pt_parse_selected pt) (pr_current st)"

text \<open>The selection is read even where a profile is asked for by name.\<close>

definition selected_profile ::
  "profile_toml \<Rightarrow> string option \<Rightarrow> profile_registry \<Rightarrow> setup_error + local_profile option" where
  "selected_profile pt requested st =
     and_then (selected_profile_name pt st) (\<lambda>chosen.
       case or_else requested chosen of
         None \<Rightarrow> Inr None
       | Some name \<Rightarrow> and_then (profile_or_fail pt name st) (Inr \<circ> Some))"

section \<open>Laws\<close>

lemma map_of_put_entry [simp]: "map_of (put_entry name f es) = (map_of es)(name \<mapsto> f)"
  by (induction es) auto

lemma keys_put_entry: "fst ` set (put_entry name f es) = insert name (fst ` set es)"
  by (induction name f es rule: put_entry.induct) (simp_all add: insert_commute)

lemma distinct_put_entry: "distinct (map fst es) \<Longrightarrow> distinct (map fst (put_entry name f es))"
  by (induction name f es rule: put_entry.induct) (clarsimp simp: keys_put_entry)+

lemma profile_file_inj [simp]: "profile_file a = profile_file b \<longleftrightarrow> a = b"
  by (simp add: profile_file_def)

lemma entry_file_write [simp]:
  "validate_profile_name (lp_name p) = Inr () \<Longrightarrow>
   entry_file n (fst (write_profile pt p st)) =
     (if n = profile_file (lp_name p) then Text (pt_print_profile pt p) else entry_file n st)"
  by (cases "pr_profiles st") (auto simp: write_profile_def entry_file_def)

text \<open>A profile is read back by its name, and writing it leaves the others alone.\<close>

lemma read_profile_write:
  assumes "validate_profile_name (lp_name p) = Inr ()" "pt_parse_profile pt (pt_print_profile pt p) = Some p"
  shows "read_profile pt name (fst (write_profile pt p st)) =
    (if name = lp_name p then Inr (Some p) else read_profile pt name st)"
  using assms by (simp add: read_profile_def parse_file_def)

text \<open>A selected profile is what the next command finds, when the two files read back.\<close>

lemma selected_after_use:
  assumes "use_profile pt name st = (st', Inr p)"
    and "pt_parse_selected pt (pt_print_selected pt (lp_name p)) = Some (lp_name p)"
    and "lp_name p = name"
  shows "selected_profile pt None st' = Inr (Some p)"
proof -
  have found: "profile_or_fail pt name st = Inr p"
    and st': "st' = st\<lparr>pr_current := Text (pt_print_selected pt (lp_name p))\<rparr>"
    using assms(1) by (auto simp: use_profile_def split: sum.splits)
  have "profile_or_fail pt name st' = profile_or_fail pt name st"
    by (simp add: st' profile_or_fail_def read_profile_def entry_file_def)
  then show ?thesis
    using assms(2,3) found by (simp add: selected_profile_def selected_profile_name_def parse_file_def st')
qed

text \<open>A valid name has no separator and no dot, so its file lies in the profile directory.\<close>

lemma valid_name_chars:
  assumes "validate_profile_name name = Inr ()" "c \<in> set name"
  shows "c \<noteq> CHR ''/'' \<and> c \<noteq> CHR ''.''"
  using assms by (auto simp: validate_profile_name_def ascii_alnum_def list_all_iff Let_def split: if_splits)

lemma valid_name_nonempty: "validate_profile_name name = Inr () \<Longrightarrow> name \<noteq> []"
  by (auto simp: validate_profile_name_def)

lemma profile_file_no_slash: "validate_profile_name name = Inr () \<Longrightarrow> CHR ''/'' \<notin> set (profile_file name)"
  using valid_name_chars by (auto simp: profile_file_def)

lemma path_parent_join:
  assumes "CHR ''/'' \<notin> set f" "f \<noteq> []" "p \<noteq> []" "last p \<noteq> CHR ''/''"
  shows "path_parent (path_join p f) = Some p"
proof -
  have rel: "\<not> path_is_absolute f" using assms(1,2) by (cases f) (auto simp: path_is_absolute_def)
  then have join: "path_join p f = p @ ''/'' @ f" using assms by (simp add: path_join_def)
  have "dropWhile (\<lambda>c. c \<noteq> CHR ''/'') (rev f @ CHR ''/'' # rev p) = CHR ''/'' # rev p"
    using assms(1) by (subst dropWhile_append2) auto
  moreover have "p @ ''/'' @ f \<noteq> ''/''" using assms(2) by (cases p) auto
  ultimately show ?thesis using assms(3) by (simp add: join path_parent_def)
qed

lemma path_join_last: "q \<noteq> [] \<Longrightarrow> last (path_join p q) = last q"
  by (simp add: path_join_def)

lemma profiles_dir_shape: "profiles_dir root \<noteq> []" "last (profiles_dir root) \<noteq> CHR ''/''"
  by (simp_all add: profiles_dir_def path_join_last) (simp add: path_join_def)

lemma profile_path_parent:
  assumes "profile_path root name = Inr p"
  shows "path_parent p = Some (profiles_dir root)"
proof -
  have valid: "validate_profile_name name = Inr ()" and p: "p = path_join (profiles_dir root) (profile_file name)"
    using assms by (auto simp: profile_path_def and_then_Inr_iff)
  show ?thesis
    unfolding p using profile_file_no_slash [OF valid] profiles_dir_shape
    by (intro path_parent_join) (auto simp: profile_file_def)
qed

end
