(* ===== verification/Setup_Results.thy ===== *)
theory Setup_Results imports Source_Profiles begin

text \<open>
  Results about a command's surroundings: which repository it belongs to, which identity it
  carries over to the next command, where profiles are written.
\<close>

section \<open>The repository of a directory\<close>

text \<open>
  The repository of a directory is the nearest directory at or above its canonical path that
  holds a git directory, and the search fails exactly when there is none or the start has no
  canonical path.
\<close>

theorem discover_finds_nearest:
  "discover_repo_root pe start =
     (case pe_canonical pe start of
        None \<Rightarrow> Inl (Root_Not_Canonical start)
      | Some p \<Rightarrow> ok_or (List.find (\<lambda>d. pe_exists pe (path_join d ''.git'')) (path_ancestors p)) No_Repository)"
  by (simp add: discover_repo_root_def find_git_root_nearest split: option.split)

section \<open>Identity from command to command\<close>

text \<open>An environment without Brick's variables, and whose own name is not consulted either.\<close>

definition no_brick_variables :: "environment \<Rightarrow> bool" where
  "no_brick_variables env \<longleftrightarrow> (\<forall>name. prefix ''BRICK_'' name \<longrightarrow> env name = None)"

lemma bare_command_resolves:
  assumes "no_brick_variables env"
  shows "resolve_identity_with_profile env u (Some (current_context_of r)) no_overrides None =
    Inr (r\<lparr>ri_session_source := (ri_session_source r)\<lparr>ss_runtime_id := ri_runtime_id r\<rparr>\<rparr>)"
  using assms
  by (simp add: resolve_identity_with_profile_def env_actor_type_def env_id_def env_var_def no_brick_variables_def
      current_context_of_def no_overrides_def Let_def)

lemma resolved_runtime:
  "resolve_identity_with_profile env u current ov profile = Inr r \<Longrightarrow>
   ss_runtime_id (ri_session_source r) = ri_runtime_id r"
  by (auto simp: resolve_identity_with_profile_def and_then_Inr_iff Let_def)

text \<open>
  C40:
  An identity that a command resolved and wrote to the context file is what the next command
  resolves: the same command again, with whatever flags, variables and profile it had, and a bare
  command with none of them. In particular the generated session is continued.
\<close>

theorem identity_carries_over:
  assumes "resolve_identity_with_profile env u current ov profile = Inr r"
    and "ce_json_parse ce (ce_json_print ce (enc_current_context (current_context_of r))) =
      Some (enc_current_context (current_context_of r))"
  shows "\<exists>c. read_current_context ce (write_current_context ce se now (current_context_of r) st) = Inr c \<and>
    resolve_identity_with_profile env u' c ov profile = Inr r \<and>
    (\<forall>env' u''. no_brick_variables env' \<longrightarrow>
       resolve_identity_with_profile env' u'' c no_overrides None = Inr r)"
proof -
  have "r\<lparr>ri_session_source := (ri_session_source r)\<lparr>ss_runtime_id := ri_runtime_id r\<rparr>\<rparr> = r"
    using resolved_runtime [OF assms(1)] by simp
  then show ?thesis
    using read_written_context [OF assms(2)] resolve_again [OF assms(1)] bare_command_resolves by auto
qed

definition sample_environment :: environment where
  "sample_environment = [''USER'' \<mapsto> ''ada'', ''BRICK_APP_ID'' \<mapsto> ''cursor'']"

definition sample_identity :: resolved_identity where
  "sample_identity =
     \<lparr>ri_actor = \<lparr>actor_type = Human, actor_id = ''ada'', display_name = None\<rparr>, ri_runtime_id = None,
      ri_session_id = ''session_u1'',
      ri_session_source =
        \<lparr>ss_app_id = Some ''cursor'', ss_app_session_id = None, ss_app_session_name = None, ss_runtime_id = None\<rparr>,
      ri_mission_id = Some ''mission_1''\<rparr>"

definition sample_json_env :: "json \<Rightarrow> config_env" where
  "sample_json_env j =
     \<lparr>ce_json_parse = (\<lambda>_. Some j), ce_json_print = (\<lambda>_. ''{}''), ce_toml_parse = (\<lambda>_. None),
      ce_toml_print = (\<lambda>_. []), ce_commits = True\<rparr>"

definition sample_context_env :: config_env where
  "sample_context_env = sample_json_env (enc_current_context (current_context_of sample_identity))"

theorem identity_carries_over_witness:
  "\<forall>se now st. \<exists>c.
     read_current_context sample_context_env
       (write_current_context sample_context_env se now (current_context_of sample_identity) st) = Inr c \<and>
     resolve_identity_with_profile Map.empty ''u2'' c no_overrides None = Inr sample_identity"
proof (intro allI)
  fix se now st
  have utf8: "utf8_valid ''ada''" "utf8_valid ''cursor''" by code_simp+
  have resolved: "resolve_identity_with_profile sample_environment ''u1'' None
      (no_overrides\<lparr>io_mission_id := Some ''mission_1''\<rparr>) None = Inr sample_identity"
    by (simp add: resolve_identity_with_profile_def env_actor_type_def env_id_def env_var_def sample_environment_def
        no_overrides_def sample_identity_def new_id_def utf8 Let_def)
  have parsed: "ce_json_parse sample_context_env (ce_json_print sample_context_env
      (enc_current_context (current_context_of sample_identity))) =
      Some (enc_current_context (current_context_of sample_identity))"
    by (simp add: sample_context_env_def sample_json_env_def)
  have "no_brick_variables Map.empty" by (simp add: no_brick_variables_def)
  then show "\<exists>c. read_current_context sample_context_env
       (write_current_context sample_context_env se now (current_context_of sample_identity) st) = Inr c \<and>
     resolve_identity_with_profile Map.empty ''u2'' c no_overrides None = Inr sample_identity"
    using identity_carries_over [OF resolved parsed, of se now st] by metis
qed

text \<open>
  The name that is displayed is always the current actor's: an explicit actor gets the display name
  of whoever was recorded before.
\<close>

lemma override_keeps_display_name:
  assumes "resolve_identity_with_profile env u (Some c) ov profile = Inr r"
    and "cc_actor c = Some a" "io_actor_id ov = Some other"
  shows "actor_id (ri_actor r) = other \<and> display_name (ri_actor r) = display_name a"
  using assms by (auto simp: resolve_identity_with_profile_def and_then_Inr_iff Let_def)

text \<open>A malformed variable fails the command although the flag would have been preferred.\<close>

lemma blank_session_variable_fails:
  assumes "env_actor_type env = Inr t" "env_var env ''BRICK_SESSION_ID'' = Some v" "trim v = []"
  shows "resolve_identity_with_profile env u current ov profile = Inl Trace_Id_Empty"
  using assms by (simp add: resolve_identity_with_profile_def env_id_def id_from_str_def Let_def)

section \<open>Profiles stay in their directory\<close>

text \<open>
  Whatever its name, a profile is either refused with the registry unchanged, or written to a
  file directly inside the profile directory, and then it is the profile read under that name
  while every other name reads as before.
\<close>

theorem profile_written_inside:
  assumes "pt_parse_profile pt (pt_print_profile pt p) = Some p"
  shows "case write_profile pt p st of
      (st', Inl e) \<Rightarrow> st' = st \<and> (\<nexists>path. profile_path root (lp_name p) = Inr path)
    | (st', Inr _) \<Rightarrow>
        (\<exists>path. profile_path root (lp_name p) = Inr path \<and> path_parent path = Some (profiles_dir root)) \<and>
        read_profile pt (lp_name p) st' = Inr (Some p) \<and>
        (\<forall>name. name \<noteq> lp_name p \<longrightarrow> read_profile pt name st' = read_profile pt name st) \<and>
        pr_config st' = pr_config st \<and> pr_current st' = pr_current st"
proof (cases "validate_profile_name (lp_name p)")
  case (Inl e)
  then show ?thesis by (simp add: write_profile_def profile_path_def)
next
  case (Inr u)
  then have valid: "validate_profile_name (lp_name p) = Inr ()" by simp
  have path: "profile_path root (lp_name p) = Inr (path_join (profiles_dir root) (profile_file (lp_name p)))"
    by (simp add: profile_path_def valid)
  obtain st' where st': "write_profile pt p st = (st', Inr ())" "pr_config st' = pr_config st" "pr_current st' = pr_current st"
    by (simp add: write_profile_def valid)
  then have "st' = fst (write_profile pt p st)" by simp
  then show ?thesis
    using path profile_path_parent [OF path] read_profile_write [OF valid assms, of _ st] st' by simp
qed

definition sample_profile :: local_profile where
  "sample_profile = (profile_named ''cursor'')\<lparr>lp_app_id := Some ''cursor''\<rparr>"

definition sample_toml :: profile_toml where
  "sample_toml =
     \<lparr>pt_print_config = (\<lambda>_. []), pt_parse_config = (\<lambda>_. Some default_brick_config),
      pt_print_profile = lp_name, pt_parse_profile = (\<lambda>n. Some (if n = ''cursor'' then sample_profile else profile_named n)),
      pt_print_selected = id, pt_parse_selected = Some\<rparr>"

theorem profile_written_inside_witness:
  "write_profile sample_toml sample_profile \<lparr>pr_config = No_File, pr_profiles = None, pr_current = No_File\<rparr> =
     (\<lparr>pr_config = No_File, pr_profiles = Some [(''cursor.toml'', Text ''cursor'')], pr_current = No_File\<rparr>, Inr ()) \<and>
   read_profile sample_toml ''cursor''
     \<lparr>pr_config = No_File, pr_profiles = Some [(''cursor.toml'', Text ''cursor'')], pr_current = No_File\<rparr> =
     Inr (Some sample_profile)"
proof -
  let ?st = "\<lparr>pr_config = No_File, pr_profiles = None, pr_current = No_File\<rparr>"
  have name: "lp_name sample_profile = ''cursor''" by (simp add: sample_profile_def profile_named_def)
  have run: "write_profile sample_toml sample_profile ?st =
     (\<lparr>pr_config = No_File, pr_profiles = Some [(''cursor.toml'', Text ''cursor'')], pr_current = No_File\<rparr>, Inr ())"
    by (simp add: write_profile_def name validate_profile_name_def ascii_alnum_def profile_file_def sample_toml_def)
  have "pt_parse_profile sample_toml (pt_print_profile sample_toml sample_profile) = Some sample_profile"
    by (simp add: sample_toml_def name)
  from profile_written_inside [OF this, of ?st "''/repo''"] show ?thesis by (simp add: run name)
qed

end
