(* ===== verification/Blob_Store.thy ===== *)
theory Blob_Store imports Paths Prelude begin

text \<open>
  The content-addressed blobs of a store (\<^verbatim>\<open>attachment_store.rs\<close>, \<^verbatim>\<open>log_store.rs\<close>). A file is
  digested, copied to the path its digest names, and the copy is digested again. Nothing is
  locked: other processes may change any file between two of these steps, which is the argument
  \<open>w\<close> of \<open>store_file\<close>. Creating directories is taken to succeed.
\<close>

section \<open>Files\<close>

text \<open>
  \<open>Not_Readable\<close> is a regular file whose bytes cannot be read, \<open>Not_Regular\<close> a directory, pipe or
  device. A missing path and a dangling link have no entry.
\<close>

datatype file_node = Regular string | Not_Readable | Not_Regular

type_synonym files = "string \<Rightarrow> file_node option"

datatype blob_error =
    Blob_No_Metadata string
  | Blob_Not_Regular string
  | Blob_Unreadable string
  | Blob_Already_Exists string
  | Blob_Mismatch string

record evidence_pointer =
  ep_original_path :: string
  ep_sha256 :: string
  ep_size_bytes :: u64

record stored_attachment =
  sat_original_path :: string
  sat_storage_path :: string
  sat_storage_uri :: string
  sat_sha256 :: string
  sat_size_bytes :: u64

record stored_session_log =
  slg_original_path :: string
  slg_storage_path :: string
  slg_storage_uri :: string
  slg_sha256 :: string
  slg_size_bytes :: u64

section \<open>Operations\<close>

text \<open>The bytes are read in pieces of 64 KiB; digest and size are those of the whole.\<close>

definition digest_file :: "(string \<Rightarrow> string) \<Rightarrow> files \<Rightarrow> string \<Rightarrow> blob_error + string \<times> u64" where
  "digest_file sha fs path =
     (case fs path of
        Some (Regular c) \<Rightarrow> Inr (sha c, of_nat (length c))
      | _ \<Rightarrow> Inl (Blob_Unreadable path))"

definition regular_file :: "files \<Rightarrow> string \<Rightarrow> blob_error + unit" where
  "regular_file fs path =
     (case fs path of
        None \<Rightarrow> Inl (Blob_No_Metadata path)
      | Some Not_Regular \<Rightarrow> Inl (Blob_Not_Regular path)
      | Some _ \<Rightarrow> Inr ())"

definition inspect_evidence_file :: "(string \<Rightarrow> string) \<Rightarrow> files \<Rightarrow> string \<Rightarrow> blob_error + evidence_pointer" where
  "inspect_evidence_file sha fs path =
     and_then (regular_file fs path) (\<lambda>_.
     and_then (digest_file sha fs path) (\<lambda>(digest, len).
       Inr \<lparr>ep_original_path = path, ep_sha256 = digest, ep_size_bytes = len\<rparr>))"

definition inspect_file :: "(string \<Rightarrow> string) \<Rightarrow> files \<Rightarrow> string \<Rightarrow> blob_error + evidence_pointer" where
  "inspect_file sha fs source = inspect_evidence_file sha fs source"

definition verify_existing_blob :: "(string \<Rightarrow> string) \<Rightarrow> files \<Rightarrow> string \<Rightarrow> string \<Rightarrow> u64 \<Rightarrow> blob_error + unit" where
  "verify_existing_blob sha fs path digest len =
     and_then (digest_file sha fs path) (\<lambda>(actual, actual_size).
       if actual \<noteq> digest \<or> actual_size \<noteq> len then Inl (Blob_Mismatch path) else Inr ())"

definition copy_new_blob :: "files \<Rightarrow> string \<Rightarrow> string \<Rightarrow> files \<times> (blob_error + unit)" where
  "copy_new_blob fs source target =
     (case fs source of
        Some (Regular c) \<Rightarrow>
          (case fs target of
             None \<Rightarrow> (fs(target \<mapsto> Regular c), Inr ())
           | Some _ \<Rightarrow> (fs, Inl (Blob_Already_Exists target)))
      | _ \<Rightarrow> (fs, Inl (Blob_Unreadable source)))"

definition blob_path :: "string \<Rightarrow> string \<Rightarrow> string" where
  "blob_path root digest = path_join (path_join (path_join root ''blobs'') ''sha256'') digest"

definition store_file ::
  "(string \<Rightarrow> string) \<Rightarrow> (nat \<Rightarrow> files \<Rightarrow> files) \<Rightarrow> string \<Rightarrow> files \<Rightarrow> string \<Rightarrow>
   files \<times> (blob_error + stored_attachment)" where
  "store_file sha w root fs source =
     (case and_then (regular_file fs source) (\<lambda>_. digest_file sha fs source) of
        Inl e \<Rightarrow> (fs, Inl e)
      | Inr (digest, len) \<Rightarrow>
          let target = blob_path root digest;
              fs1 = w 0 fs;
              (fs2, copied) =
                (if fs1 target \<noteq> None then (fs1, Inr ()) else copy_new_blob (w 1 fs1) source target);
              fs3 = w 2 fs2
          in (fs3, and_then copied (\<lambda>_. and_then (verify_existing_blob sha fs3 target digest len) (\<lambda>_.
               Inr \<lparr>sat_original_path = source, sat_storage_path = target,
                    sat_storage_uri = ''brick-blob://sha256/'' @ digest,
                    sat_sha256 = digest, sat_size_bytes = len\<rparr>))))"

definition session_log_of :: "stored_attachment \<Rightarrow> stored_session_log" where
  "session_log_of a =
     \<lparr>slg_original_path = sat_original_path a, slg_storage_path = sat_storage_path a,
      slg_storage_uri = sat_storage_uri a, slg_sha256 = sat_sha256 a,
      slg_size_bytes = sat_size_bytes a\<rparr>"

definition store_log_file ::
  "(string \<Rightarrow> string) \<Rightarrow> (nat \<Rightarrow> files \<Rightarrow> files) \<Rightarrow> string \<Rightarrow> files \<Rightarrow> string \<Rightarrow>
   files \<times> (blob_error + stored_session_log)" where
  "store_log_file sha w root fs source =
     (let (fs', r) = store_file sha w root fs source in (fs', and_then r (Inr \<circ> session_log_of)))"

text \<open>No other process interferes.\<close>

abbreviation alone :: "nat \<Rightarrow> files \<Rightarrow> files" where
  "alone \<equiv> \<lambda>_. id"

section \<open>Each operation\<close>

definition holds :: "(string \<Rightarrow> string) \<Rightarrow> files \<Rightarrow> string \<Rightarrow> string \<Rightarrow> u64 \<Rightarrow> bool" where
  "holds sha fs path digest len \<longleftrightarrow>
     (\<exists>c. fs path = Some (Regular c) \<and> sha c = digest \<and> of_nat (length c) = len)"

lemma digest_file_Inr_iff:
  "digest_file sha fs path = Inr (digest, len) \<longleftrightarrow> holds sha fs path digest len"
  by (auto simp: digest_file_def holds_def split: option.splits file_node.splits)

lemma verify_existing_blob_Inr_iff:
  "verify_existing_blob sha fs path digest len = Inr u \<longleftrightarrow> holds sha fs path digest len"
  by (auto simp: verify_existing_blob_def and_then_Inr_iff digest_file_Inr_iff split: if_splits)

lemma regular_digest_Inr_iff:
  "and_then (regular_file fs path) (\<lambda>_. digest_file sha fs path) = Inr (digest, len) \<longleftrightarrow>
   holds sha fs path digest len"
  by (auto simp: and_then_Inr_iff digest_file_Inr_iff regular_file_def holds_def
      split: option.splits file_node.splits)

text \<open>Copying only ever adds the target.\<close>

lemma copy_new_blob_keeps: "copy_new_blob fs source target = (fs', r) \<Longrightarrow> fs \<subseteq>\<^sub>m fs'"
  by (auto simp: copy_new_blob_def map_le_def split: option.splits file_node.splits)

text \<open>
  Whatever other processes do meanwhile, a store that succeeds leaves at the blob's path bytes of
  the digest and size it reports, and the path and URI are those of that digest.
\<close>

lemma store_file_holds:
  assumes "store_file sha w root fs source = (fs', Inr a)"
  shows "holds sha fs' (sat_storage_path a) (sat_sha256 a) (sat_size_bytes a)"
    and "holds sha fs source (sat_sha256 a) (sat_size_bytes a)"
    and "sat_storage_path a = blob_path root (sat_sha256 a)"
  using assms
  by (auto simp: store_file_def Let_def digest_file_Inr_iff verify_existing_blob_Inr_iff and_then_Inr_iff
      split: sum.splits prod.splits)

text \<open>Without interference no existing file is changed, whether the store succeeds or fails.\<close>

lemma store_file_keeps:
  assumes "store_file sha alone root fs source = (fs', r)"
  shows "fs \<subseteq>\<^sub>m fs'"
  using assms by (auto simp: store_file_def Let_def copy_new_blob_keeps split: sum.splits prod.splits if_splits)

text \<open>When the store succeeds, and what it does to the files.\<close>

lemma store_file_alone:
  assumes "holds sha fs source digest len"
  shows "store_file sha alone root fs source =
    (let target = blob_path root digest;
         fs' = (if fs target = None then fs(target := fs source) else fs)
     in (fs', if holds sha fs' target digest len
              then Inr \<lparr>sat_original_path = source, sat_storage_path = target,
                        sat_storage_uri = ''brick-blob://sha256/'' @ digest,
                        sat_sha256 = digest, sat_size_bytes = len\<rparr>
              else and_then (verify_existing_blob sha fs' target digest len) (\<lambda>_. Inl (Blob_Mismatch target))))"
proof -
  have start: "and_then (regular_file fs source) (\<lambda>_. digest_file sha fs source) = Inr (digest, len)"
    using assms by (simp add: regular_digest_Inr_iff)
  obtain c where c: "fs source = Some (Regular c)" using assms by (auto simp: holds_def)
  have verified: "verify_existing_blob sha g p digest len = Inr ()" if "holds sha g p digest len" for g p
    using that by (simp add: verify_existing_blob_Inr_iff)
  have refused: "\<exists>e. verify_existing_blob sha g p digest len = Inl e" if "\<not> holds sha g p digest len" for g p
    using that verify_existing_blob_Inr_iff [of sha g p digest len] by (cases "verify_existing_blob sha g p digest len") auto
  show ?thesis
    using refused [of fs "blob_path root digest"]
    by (auto simp: store_file_def start Let_def copy_new_blob_def c verified split: option.splits)
      (auto dest!: refused)
qed

section \<open>The interface of the upload commands\<close>

text \<open>A sequence of uploads, with the references of those that succeed.\<close>

fun put_all :: "(files \<Rightarrow> string \<Rightarrow> files \<times> ('e + 'r)) \<Rightarrow> files \<Rightarrow> string list \<Rightarrow> files \<times> 'r list" where
  "put_all put fs [] = (fs, [])"
| "put_all put fs (p # ps) =
     (let (fs1, x) = put fs p; (fs2, rs) = put_all put fs1 ps
      in (fs2, (case x of Inl _ \<Rightarrow> rs | Inr r \<Rightarrow> r # rs)))"

text \<open>
  What a caller relies on: an upload adds at most files, never changes one, and the reference it
  returns names a place that holds bytes of the reference's digest.
\<close>

locale content_store =
  fixes put :: "files \<Rightarrow> string \<Rightarrow> files \<times> (blob_error + 'r)"
    and place :: "'r \<Rightarrow> string" and digest :: "'r \<Rightarrow> string" and size_of :: "'r \<Rightarrow> u64"
    and sha :: "string \<Rightarrow> string"
  assumes put_keeps: "put fs p = (fs', x) \<Longrightarrow> fs \<subseteq>\<^sub>m fs'"
    and put_holds: "put fs p = (fs', Inr r) \<Longrightarrow> holds sha fs' (place r) (digest r) (size_of r)"
begin

lemma put_all_keeps: "fs \<subseteq>\<^sub>m fst (put_all put fs ps)"
proof (induction ps arbitrary: fs)
  case (Cons p ps)
  have "fs \<subseteq>\<^sub>m fst (put fs p)" by (rule put_keeps) (rule prod.collapse [symmetric])
  then show ?case using Cons.IH [of "fst (put fs p)"] by (auto simp: split_beta Let_def intro: map_le_trans)
qed simp

lemma holds_mono: "holds sha fs p d n \<Longrightarrow> fs \<subseteq>\<^sub>m fs' \<Longrightarrow> holds sha fs' p d n"
  by (auto simp: holds_def map_le_def dom_def)

text \<open>Every reference returned by a batch of uploads resolves after the batch.\<close>

lemma references_resolve:
  assumes "put_all put fs ps = (fs', rs)" and "r \<in> set rs"
  shows "holds sha fs' (place r) (digest r) (size_of r)"
  using assms
proof (induction ps arbitrary: fs rs)
  case (Cons p ps)
  obtain fs1 x fs2 qs where steps: "put fs p = (fs1, x)" "put_all put fs1 ps = (fs2, qs)"
    by (metis surj_pair)
  then have fs': "fs' = fs2" and rs: "rs = (case x of Inl _ \<Rightarrow> qs | Inr r \<Rightarrow> r # qs)"
    using Cons.prems(1) by auto
  show ?case
  proof (cases "r \<in> set qs")
    case True
    then show ?thesis using Cons.IH steps(2) fs' by blast
  next
    case False
    then have "x = Inr r" using Cons.prems(2) rs by (auto split: sum.splits)
    then have "holds sha fs1 (place r) (digest r) (size_of r)" using put_holds steps(1) by blast
    moreover have "fs1 \<subseteq>\<^sub>m fs'" using put_all_keeps [of fs1 ps] by (simp add: steps(2) fs')
    ultimately show ?thesis by (rule holds_mono)
  qed
qed simp

end

lemma store_log_file_Inr_iff:
  "store_log_file sha w root fs source = (fs', Inr l) \<longleftrightarrow>
   (\<exists>a. store_file sha w root fs source = (fs', Inr a) \<and> l = session_log_of a)"
  by (auto simp: store_log_file_def and_then_Inr_iff split: prod.splits)

interpretation attachments: content_store "store_file sha alone root" sat_storage_path sat_sha256 sat_size_bytes sha
  for sha root
  by unfold_locales (auto intro: store_file_keeps store_file_holds)

interpretation logs: content_store "store_log_file sha alone root" slg_storage_path slg_sha256 slg_size_bytes sha
  for sha root
proof unfold_locales
  show "fs \<subseteq>\<^sub>m fs'" if "store_log_file sha alone root fs p = (fs', x)" for fs p fs' x
    using that store_file_keeps [of sha root fs p] by (auto simp: store_log_file_def split: prod.splits)
  show "holds sha fs' (slg_storage_path r) (slg_sha256 r) (slg_size_bytes r)"
    if "store_log_file sha alone root fs p = (fs', Inr r)" for fs p fs' r
    using that by (auto simp: store_log_file_Inr_iff session_log_of_def dest: store_file_holds(1))
qed

section \<open>Results\<close>


definition sample_files :: files where
  "sample_files = [''a.txt'' \<mapsto> Regular ''one'', ''b.txt'' \<mapsto> Regular ''two'', ''d'' \<mapsto> Not_Regular]"


text \<open>
  A file that changes between being digested and being copied leaves a wrong blob behind: the
  upload reports the mismatch, but the bytes stay at the path of the first digest, and as long as
  they do every later upload of the right content fails with the same mismatch and repairs
  nothing.
\<close>

theorem changed_source_poisons_blob:
  assumes "fs source = Some (Regular c)" "fs (blob_path root (sha c)) = None" "source \<noteq> blob_path root (sha c)"
    and "sha c' \<noteq> sha c"
  shows "\<exists>fs1. store_file sha (\<lambda>i. if i = 1 then (\<lambda>g. g(source \<mapsto> Regular c')) else id) root fs source =
      (fs1, Inl (Blob_Mismatch (blob_path root (sha c)))) \<and>
    (\<forall>fs2 again. fs1 (blob_path root (sha c)) = fs2 (blob_path root (sha c)) \<longrightarrow>
       fs2 again = Some (Regular c) \<longrightarrow>
       store_file sha alone root fs2 again = (fs2, Inl (Blob_Mismatch (blob_path root (sha c)))))"
proof -
  let ?target = "blob_path root (sha c)"
  let ?fs1 = "fs(source \<mapsto> Regular c', ?target \<mapsto> Regular c')"
  have "store_file sha (\<lambda>i. if i = 1 then (\<lambda>g. g(source \<mapsto> Regular c')) else id) root fs source =
      (?fs1, Inl (Blob_Mismatch ?target))"
    using assms
    by (simp add: store_file_def regular_file_def digest_file_def copy_new_blob_def verify_existing_blob_def Let_def)
  moreover have "store_file sha alone root fs2 again = (fs2, Inl (Blob_Mismatch ?target))"
    if "?fs1 ?target = fs2 ?target" "fs2 again = Some (Regular c)" for fs2 again
  proof -
    have "fs2 ?target = Some (Regular c')" using that(1) by simp
    then show ?thesis
      using that(2) assms(4)
      by (simp add: store_file_def regular_file_def digest_file_def verify_existing_blob_def Let_def)
  qed
  ultimately show ?thesis by blast
qed

theorem changed_source_poisons_blob_witness:
  "\<exists>fs1. store_file id (\<lambda>i. if i = 1 then (\<lambda>g. g(''a.txt'' \<mapsto> Regular ''new'')) else id) ''s'' sample_files ''a.txt'' =
    (fs1, Inl (Blob_Mismatch ''s/blobs/sha256/one''))"
proof -
  have path: "blob_path ''s'' (id ''one'') = ''s/blobs/sha256/one''" by code_simp
  then show ?thesis
    using changed_source_poisons_blob [of sample_files "''a.txt''" "''one''" "''s''" id "''new''"]
    by (auto simp: sample_files_def)
qed

end
