(* ===== verification/Importers.thy ===== *)
theory Importers imports Blob_Store Transcript Config_Files begin

text \<open>
  Importing explicit external files as events (crate \<^verbatim>\<open>brick-importers\<close>): JSONL exports,
  transcripts and summaries of continuous integration. \<open>draw i j k\<close> is the clock and uuid of the
  \<open>k\<close>-th draw for the \<open>j\<close>-th record of the \<open>i\<close>-th path; path 0 is the session itself.
\<close>

section \<open>Requests\<close>

datatype import_source = Import_Cursor | Import_Codex | Import_Claude_Code | Import_CI

fun import_app_id :: "import_source \<Rightarrow> string" where
  "import_app_id Import_Cursor = ''cursor''"
| "import_app_id Import_Codex = ''codex''"
| "import_app_id Import_Claude_Code = ''claude-code''"
| "import_app_id Import_CI = ''ci''"

definition default_actor_type :: "import_source \<Rightarrow> actor_type" where
  "default_actor_type s = (if s = Import_CI then System else Agent)"

definition default_actor :: "import_source \<Rightarrow> actor_ref" where
  "default_actor s = \<lparr>actor_type = default_actor_type s, actor_id = import_app_id s, display_name = None\<rparr>"

datatype import_error =
    No_Import_Path
  | Import_Unreadable string
  | Import_Line_Parse string nat
  | Import_Line_Event string nat
  | Import_Json_Parse string
  | Import_CI_Record
  | Import_Source_Unsupported string

definition import_source_from_str :: "string \<Rightarrow> import_error + import_source" where
  "import_source_from_str s =
     (if s = ''cursor'' then Inr Import_Cursor
      else if s = ''codex'' then Inr Import_Codex
      else if s = ''claude-code'' \<or> s = ''claude_code'' then Inr Import_Claude_Code
      else if s = ''ci'' then Inr Import_CI
      else Inl (Import_Source_Unsupported s))"

record import_request =
  iq_source :: import_source
  iq_paths :: "string list"
  iq_app_session_id :: "string option"
  iq_app_session_name :: "string option"
  iq_actor :: "actor_ref option"
  iq_mission_id :: "string option"
  iq_session_id :: "string option"

definition import_request_new :: "import_source \<Rightarrow> string list \<Rightarrow> import_request" where
  "import_request_new s paths =
     \<lparr>iq_source = s, iq_paths = paths, iq_app_session_id = None, iq_app_session_name = None,
      iq_actor = None, iq_mission_id = None, iq_session_id = None\<rparr>"

type_synonym id_supply = "nat \<Rightarrow> nat \<Rightarrow> nat \<Rightarrow> fresh"

definition imported :: "trace_event \<Rightarrow> trace_event" where
  "imported e = e\<lparr>te_confidence := Conf_Imported\<rparr>"

section \<open>Files\<close>

definition read_to_string :: "files \<Rightarrow> string \<Rightarrow> import_error + string" where
  "read_to_string fs path =
     (case fs path of
        Some (Regular c) \<Rightarrow> if utf8_valid c then Inr c else Inl (Import_Unreadable path)
      | _ \<Rightarrow> Inl (Import_Unreadable path))"

definition file_metadata :: "services \<Rightarrow> files \<Rightarrow> string \<Rightarrow> import_error + string \<times> u64" where
  "file_metadata sv fs path =
     (case fs path of
        Some (Regular c) \<Rightarrow> Inr (sha256_hex sv c, of_nat (length c))
      | _ \<Rightarrow> Inl (Import_Unreadable path))"

definition lower_extension :: "string \<Rightarrow> string option" where
  "lower_extension path = map_option (map ascii_lower) (path_extension path)"

definition infer_session_log_format :: "string \<Rightarrow> session_log_format" where
  "infer_session_log_format path =
     (case lower_extension path of
        None \<Rightarrow> Format_Unknown
      | Some e \<Rightarrow>
          if e = ''txt'' \<or> e = ''log'' then Format_Text
          else if e = ''jsonl'' then Format_Jsonl
          else if e = ''md'' \<or> e = ''markdown'' then Format_Markdown
          else Format_Unknown)"

section \<open>JSONL\<close>

definition looks_like_trace_event :: "json \<Rightarrow> bool" where
  "looks_like_trace_event v \<longleftrightarrow>
     json_get ''event_id'' v \<noteq> None \<and> json_get ''event_type'' v \<noteq> None \<and> json_get ''payload'' v \<noteq> None"

record simple_record =
  sr_title :: "string option"
  sr_message :: "string option"
  sr_role :: "string option"
  sr_kind :: "string option"

definition dec_simple_record :: "json \<Rightarrow> simple_record option" where
  "dec_simple_record j = do {
     src \<leftarrow> struct_src [(''title'', True), (''message'', True), (''role'', True), (''kind'', True)] j;
     t \<leftarrow> opt dec_str (src ''title'');
     m \<leftarrow> opt dec_str (src ''message'');
     r \<leftarrow> opt dec_str (src ''role'');
     k \<leftarrow> opt dec_str (src ''kind'');
     Some \<lparr>sr_title = t, sr_message = m, sr_role = r, sr_kind = k\<rparr>
   }"

definition simple_record_event ::
  "meta_env \<Rightarrow> (nat \<Rightarrow> fresh) \<Rightarrow> json \<Rightarrow> string \<Rightarrow> import_request \<Rightarrow> actor_ref \<Rightarrow> string \<Rightarrow> nat \<Rightarrow> trace_event" where
  "simple_record_event me fr v path rq actor session line =
     (let simple = unwrap_or (dec_simple_record v)
            \<lparr>sr_title = None, sr_message = None, sr_role = None, sr_kind = None\<rparr>;
          name = unwrap_or (sr_title simple)
            (case sr_kind simple of
               Some k \<Rightarrow> ''Imported '' @ k @ '' record''
             | None \<Rightarrow> ''Imported record from line '' @ show_nat line);
          body = unwrap_or (or_else (sr_message simple) (map_option (\<lambda>r. ''role='' @ r) (sr_role simple)))
            (me_json_text me v)
      in imported (artifact_created (fr 1) actor (new_id ArtifactId (fresh_uuid (fr 0)))
           (iq_mission_id rq) (Some session)
           \<lparr>ac_artifact_kind = Kind_Note,
            ac_title = import_app_id (iq_source rq) @ '': '' @ name,
            ac_body = Some (''source_path='' @ from_utf8_lossy path @ [CHR 0x0A] @ body),
            ac_repo_context_id = None\<rparr>))"

definition import_line ::
  "meta_env \<Rightarrow> (nat \<Rightarrow> nat \<Rightarrow> fresh) \<Rightarrow> string \<Rightarrow> import_request \<Rightarrow> actor_ref \<Rightarrow> string \<Rightarrow> nat \<times> string \<Rightarrow>
   import_error + trace_event" where
  "import_line me fr path rq actor session = (\<lambda>(i, line).
     case me_json_parse me line of
       None \<Rightarrow> Inl (Import_Line_Parse path (i + 1))
     | Some v \<Rightarrow>
         if looks_like_trace_event v
         then and_then (ok_or (dec_trace_event (me_services me) v) (Import_Line_Event path (i + 1)))
                (Inr \<circ> imported)
         else Inr (simple_record_event me (fr i) v path rq actor session (i + 1)))"

definition import_jsonl ::
  "meta_env \<Rightarrow> (nat \<Rightarrow> nat \<Rightarrow> fresh) \<Rightarrow> files \<Rightarrow> string \<Rightarrow> import_request \<Rightarrow> actor_ref \<Rightarrow> string \<Rightarrow>
   import_error + trace_event list" where
  "import_jsonl me fr fs path rq actor session =
     and_then (read_to_string fs path) (\<lambda>contents.
       collect_results (import_line me fr path rq actor session)
         (filter (\<lambda>(i, line). trim line \<noteq> []) (enumerate 0 (lines contents))))"

section \<open>Transcripts\<close>

definition import_transcript ::
  "meta_env \<Rightarrow> (nat \<Rightarrow> nat \<Rightarrow> fresh) \<Rightarrow> files \<Rightarrow> string \<Rightarrow> import_request \<Rightarrow> actor_ref \<Rightarrow> string \<Rightarrow>
   import_error + trace_event list" where
  "import_transcript me fr fs path rq actor session =
     and_then (file_metadata (me_services me) fs path) (\<lambda>(digest, len).
       Inr [imported (session_log_uploaded (fr 0 1) actor session
         \<lparr>lu_log_ref_id = new_id LogRefId (fresh_uuid (fr 0 0)),
          lu_original_path = from_utf8_lossy path, lu_format = infer_session_log_format path,
          lu_source = import_app_id (iq_source rq), lu_sha256 = digest, lu_size_bytes = len,
          lu_storage_uri = ''file://'' @ from_utf8_lossy path, lu_local_path = [],
          lu_external_uri = Some (''file://'' @ from_utf8_lossy path),
          lu_availability = LocalPointer, lu_repo_context_id = None\<rparr>)])"

section \<open>Continuous integration\<close>

record ci_record =
  ci_name :: "string option"
  ci_status :: "string option"
  ci_url :: "string option"
  ci_commit :: "string option"
  ci_raw_value :: json

text \<open>
  A field with \<^verbatim>\<open>#[serde(alias = ..)]\<close> may be spelled in several ways; an object with two of the
  spellings is refused as a duplicate field. In an array the field is at its position.
\<close>

definition aliased_str :: "string list \<Rightarrow> nat \<Rightarrow> json \<Rightarrow> string option option" where
  "aliased_str names pos j =
     (case j of
        JObj fs \<Rightarrow>
          (case filter (\<lambda>e. fst e \<in> set names) fs of
             [] \<Rightarrow> Some None
           | [e] \<Rightarrow> opt dec_str (Some (snd e))
           | _ \<Rightarrow> None)
      | JArr xs \<Rightarrow> if pos < length xs then opt dec_str (Some (xs ! pos)) else Some None
      | _ \<Rightarrow> None)"

definition ci_status_names :: "string list" where
  "ci_status_names = [''status'', ''conclusion'']"

definition ci_url_names :: "string list" where
  "ci_url_names = [''url'', ''html_url'', ''web_url'']"

definition ci_record_from_value :: "json \<Rightarrow> import_error + ci_record" where
  "ci_record_from_value v = ok_or (do {
     _ \<leftarrow> (case v of JObj _ \<Rightarrow> Some () | JArr xs \<Rightarrow> if length xs \<le> 4 then Some () else None | _ \<Rightarrow> None);
     n \<leftarrow> aliased_str [''name'', ''job_name''] 0 v;
     s \<leftarrow> aliased_str ci_status_names 1 v;
     u \<leftarrow> aliased_str ci_url_names 2 v;
     c \<leftarrow> aliased_str [''commit'', ''sha'', ''head_sha''] 3 v;
     Some \<lparr>ci_name = n, ci_status = s, ci_url = u, ci_commit = c, ci_raw_value = v\<rparr>
   }) Import_CI_Record"

definition ci_records_from_value :: "json \<Rightarrow> import_error + ci_record list" where
  "ci_records_from_value v =
     (case as_json_array (Some v) of
        Some xs \<Rightarrow> collect_results ci_record_from_value xs
      | None \<Rightarrow> (case as_json_array (json_get ''jobs'' v) of
          Some xs \<Rightarrow> collect_results ci_record_from_value xs
        | None \<Rightarrow> and_then (ci_record_from_value v) (\<lambda>r. Inr [r])))"

definition ci_body :: "meta_env \<Rightarrow> ci_record \<Rightarrow> string" where
  "ci_body me r =
     join [CHR 0x0A]
       ((case ci_status r of Some s \<Rightarrow> [''status='' @ s] | None \<Rightarrow> []) @
        (case ci_commit r of Some c \<Rightarrow> [''commit='' @ c] | None \<Rightarrow> []) @
        (case ci_url r of Some u \<Rightarrow> [''url='' @ u] | None \<Rightarrow> []) @
        [''raw='' @ me_json_text me (ci_raw_value r)])"

definition ci_record_events ::
  "meta_env \<Rightarrow> (nat \<Rightarrow> fresh) \<Rightarrow> import_request \<Rightarrow> actor_ref \<Rightarrow> ci_record \<Rightarrow> trace_event list" where
  "ci_record_events me fr rq actor r =
     (let artifact = new_id ArtifactId (fresh_uuid (fr 0))
      in imported (artifact_created (fr 1) actor artifact (iq_mission_id rq) (iq_session_id rq)
           \<lparr>ac_artifact_kind = Kind_TestResult, ac_title = unwrap_or (ci_name r) ''Imported CI job'',
            ac_body = Some (ci_body me r), ac_repo_context_id = None\<rparr>) #
         (case filter_opt (\<lambda>u. trim u \<noteq> []) (ci_url r) of
            None \<Rightarrow> []
          | Some u \<Rightarrow>
              [imported (external_ref_linked (fr 3) actor (iq_mission_id rq) (iq_session_id rq) (Some artifact)
                \<lparr>er_external_ref_id = new_id ExternalRefId (fresh_uuid (fr 2)),
                 er_provider = import_app_id (iq_source rq), er_ref_type = ''ci_job'',
                 er_target = u, er_repo_context_id = None\<rparr>)]))"

definition import_ci_json ::
  "meta_env \<Rightarrow> (nat \<Rightarrow> nat \<Rightarrow> fresh) \<Rightarrow> files \<Rightarrow> string \<Rightarrow> import_request \<Rightarrow> actor_ref \<Rightarrow>
   import_error + trace_event list" where
  "import_ci_json me fr fs path rq actor =
     and_then (read_to_string fs path) (\<lambda>contents.
     and_then (ok_or (me_json_parse me contents) (Import_Json_Parse path)) (\<lambda>v.
     and_then (ci_records_from_value v) (\<lambda>rs.
       Inr (concat (map (\<lambda>(i, r). ci_record_events me (fr i) rq actor r) (enumerate 0 rs))))))"

section \<open>Requests to events\<close>

definition import_path ::
  "meta_env \<Rightarrow> (nat \<Rightarrow> nat \<Rightarrow> fresh) \<Rightarrow> files \<Rightarrow> import_request \<Rightarrow> actor_ref \<Rightarrow> string \<Rightarrow> string \<Rightarrow>
   import_error + trace_event list" where
  "import_path me fr fs rq actor session path =
     (let e = lower_extension path
      in if e = Some ''jsonl'' then import_jsonl me fr fs path rq actor session
         else if iq_source rq = Import_CI \<and> e = Some ''json'' then import_ci_json me fr fs path rq actor
         else if e \<in> {Some ''txt'', Some ''log'', Some ''md'', Some ''markdown''}
              then import_transcript me fr fs path rq actor session
         else if iq_source rq = Import_CI then import_ci_json me fr fs path rq actor
         else import_transcript me fr fs path rq actor session)"

definition import_traces ::
  "meta_env \<Rightarrow> id_supply \<Rightarrow> files \<Rightarrow> import_request \<Rightarrow> import_error + trace_event list" where
  "import_traces me draw fs rq =
     (if iq_paths rq = [] then Inl No_Import_Path
      else
        let actor = unwrap_or (iq_actor rq) (default_actor (iq_source rq));
            session = unwrap_or (iq_session_id rq) (new_id SessionId (fresh_uuid (draw 0 0 0)));
            start = (if iq_source rq = Import_CI then []
              else [imported (session_started (draw 0 0 1) actor session (iq_mission_id rq)
                \<lparr>st_session_name = iq_app_session_name rq,
                 st_source = \<lparr>ss_app_id = Some (import_app_id (iq_source rq)),
                   ss_app_session_id = iq_app_session_id rq,
                   ss_app_session_name = iq_app_session_name rq, ss_runtime_id = None\<rparr>,
                 st_repo_context_id = None\<rparr>)])
        in and_then (collect_results (\<lambda>(i, p). import_path me (draw (i + 1)) fs rq actor session p)
             (enumerate 0 (iq_paths rq))) (\<lambda>per_path. Inr (start @ concat per_path)))"

definition imported_event_count :: "trace_event list \<Rightarrow> nat" where
  "imported_event_count events = length events"

section \<open>What an import yields\<close>

lemma imported_confidence [simp]: "te_confidence (imported e) = Conf_Imported"
  by (simp add: imported_def)

text \<open>An event the importer builds itself, with the ids its type is about, and in which session.\<close>

definition built_event :: "string option \<Rightarrow> trace_event \<Rightarrow> bool" where
  "built_event session ev \<longleftrightarrow>
     well_formed_event ev \<and> te_confidence ev = Conf_Imported \<and> te_session_id ev = session \<and>
     te_event_type ev \<in> {SessionStarted, ArtifactCreated, SessionLogUploaded, ExternalRefLinked}"

text \<open>An event of the file itself, kept with its id, time and actor.\<close>

definition copied_event :: "services \<Rightarrow> trace_event \<Rightarrow> bool" where
  "copied_event sv ev \<longleftrightarrow>
     (\<exists>v e. looks_like_trace_event v \<and> dec_trace_event sv v = Some e \<and> ev = e\<lparr>te_confidence := Conf_Imported\<rparr>)"

lemmas building = event_constructors from_payload_def well_formed_event_def built_event_def imported_def

lemma simple_record_event_built:
  "built_event (Some session) (simple_record_event me fr v path rq actor session line)"
  by (simp add: simple_record_event_def Let_def building)

lemma ci_record_events_built:
  "ev \<in> set (ci_record_events me fr rq actor r) \<Longrightarrow> built_event (iq_session_id rq) ev"
  by (auto simp: ci_record_events_def Let_def building split: option.splits)

lemma collect_results_all:
  assumes "collect_results f xs = Inr ys" "\<And>x y. x \<in> set xs \<Longrightarrow> f x = Inr y \<Longrightarrow> P y" "y \<in> set ys"
  shows "P y"
proof -
  have all: "list_all2 (\<lambda>x y. f x = Inr y) xs ys" using assms(1) by (simp add: collect_results_Inr)
  obtain i where i: "i < length ys" "y = ys ! i" using assms(3) by (auto simp: in_set_conv_nth)
  then have "f (xs ! i) = Inr y" "xs ! i \<in> set xs" using all by (simp_all add: list_all2_conv_all_nth)
  then show ?thesis using assms(2) by blast
qed

lemma import_line_kinds:
  "import_line me fr path rq actor session il = Inr ev \<Longrightarrow>
   built_event (Some session) ev \<or> copied_event (me_services me) ev"
  by (auto simp: import_line_def copied_event_def imported_def and_then_Inr_iff ok_or_Inr_iff
      intro: simple_record_event_built split: prod.splits option.splits if_splits)

lemma import_jsonl_kinds:
  assumes "import_jsonl me fr fs path rq actor session = Inr evs" "ev \<in> set evs"
  shows "built_event (Some session) ev \<or> copied_event (me_services me) ev"
proof -
  obtain ls where ls: "collect_results (import_line me fr path rq actor session) ls = Inr evs"
    using assms(1) by (auto simp: import_jsonl_def and_then_Inr_iff)
  show ?thesis
    by (rule collect_results_all [OF ls, where P = "\<lambda>ev. built_event (Some session) ev \<or> copied_event (me_services me) ev"])
       (use import_line_kinds assms(2) in auto)
qed

lemma import_transcript_built:
  "import_transcript me fr fs path rq actor session = Inr evs \<Longrightarrow> ev \<in> set evs \<Longrightarrow> built_event (Some session) ev"
  by (auto simp: import_transcript_def and_then_Inr_iff building)

lemma import_ci_json_built:
  "import_ci_json me fr fs path rq actor = Inr evs \<Longrightarrow> ev \<in> set evs \<Longrightarrow> built_event (iq_session_id rq) ev"
  by (auto simp: import_ci_json_def and_then_Inr_iff ci_record_events_built split: prod.splits)

lemma import_path_kinds:
  assumes "import_path me fr fs rq actor session path = Inr evs" "ev \<in> set evs"
  shows "built_event (Some session) ev \<or> copied_event (me_services me) ev \<or>
    iq_source rq = Import_CI \<and> built_event (iq_session_id rq) ev"
  using assms import_jsonl_kinds import_transcript_built import_ci_json_built
  by (fastforce simp: import_path_def Let_def split: if_splits)

text \<open>An object that spells a field in two ways is no record, and fails the whole list.\<close>

lemma aliased_str_two:
  assumes "distinct (map fst fs)" "a \<in> set names" "b \<in> set names" "a \<noteq> b"
    "a \<in> fst ` set fs" "b \<in> fst ` set fs"
  shows "aliased_str names pos (JObj fs) = None"
proof -
  let ?hits = "filter (\<lambda>e. fst e \<in> set names) fs"
  have hits: "{a, b} \<subseteq> fst ` set ?hits" using assms by auto
  have "?hits \<noteq> []"
  proof
    assume none: "?hits = []"
    show False using hits unfolding none by simp
  qed
  moreover have "?hits \<noteq> [e]" for e
  proof
    assume one: "?hits = [e]"
    show False using hits assms(4) unfolding one by simp
  qed
  ultimately show ?thesis by (auto simp: aliased_str_def split: list.splits)
qed

lemma collect_results_Inl: "collect_results f xs = Inl e \<Longrightarrow> \<exists>x\<in>set xs. f x = Inl e"
  by (induction xs) (auto split: sum.splits)

lemma collect_results_error:
  assumes "x \<in> set xs" "f x = Inl e" "\<And>y d. f y = Inl d \<Longrightarrow> d = e"
  shows "collect_results f xs = Inl e"
proof (cases "collect_results f xs")
  case (Inl d)
  then show ?thesis using collect_results_Inl [OF Inl] assms(3) by blast
next
  case (Inr ys)
  then have "\<exists>y. f x = Inr y"
    using assms(1) by (auto simp: collect_results_Inr list_all2_conv_all_nth in_set_conv_nth)
  then show ?thesis using assms(2) by simp
qed

lemma ci_record_error: "ci_record_from_value v = Inl e \<Longrightarrow> e = Import_CI_Record"
  by (simp add: ci_record_from_value_def ok_or_def split: option.splits)

lemma ci_record_two_spellings:
  assumes "distinct (map fst fs)" "a \<in> set names" "b \<in> set names" "a \<noteq> b"
    "a \<in> fst ` set fs" "b \<in> fst ` set fs" "names \<in> {ci_status_names, ci_url_names}"
  shows "ci_record_from_value (JObj fs) = Inl Import_CI_Record"
  using assms(7) aliased_str_two [OF assms(1-6)]
  by (auto simp: ci_record_from_value_def split: Option.bind_splits)

section \<open>Results\<close>



text \<open>
  A summary in which one job spells its status in two ways, as the jobs of GitHub Actions do with
  \<open>status\<close> and \<open>conclusion\<close>, cannot be imported at all, and likewise for its URL: the aliases of a
  field exclude each other.
\<close>

theorem github_jobs_refused:
  assumes "fs path = Some (Regular c)" "utf8_valid c" "lower_extension path = Some ''json''"
    "me_json_parse me c = Some (JObj doc)" "map_of doc ''jobs'' = Some (JArr jobs)"
    "JObj job \<in> set jobs" "distinct (map fst job)" "a \<in> set names" "b \<in> set names" "a \<noteq> b"
    "a \<in> fst ` set job" "b \<in> fst ` set job" "names \<in> {ci_status_names, ci_url_names}"
  shows "import_traces me draw fs (import_request_new Import_CI [path]) = Inl Import_CI_Record"
proof -
  have "collect_results ci_record_from_value jobs = Inl Import_CI_Record"
    by (rule collect_results_error [where x = "JObj job"])
      (use assms(6) ci_record_two_spellings [OF assms(7-13)] ci_record_error in auto)
  then have "ci_records_from_value (JObj doc) = Inl Import_CI_Record"
    using assms(5) by (simp add: ci_records_from_value_def as_json_array_def json_get_def)
  then show ?thesis
    using assms(1-4)
    by (simp add: import_traces_def import_request_new_def import_path_def import_ci_json_def read_to_string_def Let_def)
qed

definition sample_github_job :: "(string \<times> json) list" where
  "sample_github_job = [(''conclusion'', JStr ''success''), (''name'', JStr ''test''), (''status'', JStr ''completed'')]"

theorem github_jobs_refused_witness:
  "import_traces (sample_lines_env [(''{}'', JObj [(''jobs'', JArr [JObj sample_github_job])])])
     (\<lambda>_ _. sample_fresh) [''ci.json'' \<mapsto> Regular ''{}''] (import_request_new Import_CI [''ci.json'']) =
   Inl Import_CI_Record"
proof -
  have "lower_extension ''ci.json'' = Some ''json''" "utf8_valid ''{}''" by code_simp+
  then show ?thesis
    by (intro github_jobs_refused [where c = "''{}''" and a = "''status''" and b = "''conclusion''"
        and names = ci_status_names and job = sample_github_job and jobs = "[JObj sample_github_job]"
        and doc = "[(''jobs'', JArr [JObj sample_github_job])]"])
      (auto simp: sample_lines_env_def sample_github_job_def ci_status_names_def)
qed

end
