(* ===== verification/Gemini_Transcript.thy ===== *)
theory Gemini_Transcript imports Claude_Transcript begin

text \<open>
  The reader of the Gemini CLI's chat files (\<^verbatim>\<open>sources/gemini.rs\<close>): one JSON document per session
  with its messages, whose tool calls carry no ids of their own.
\<close>

definition gemini_parser_version :: string where "gemini_parser_version = ''gemini-chat-json-v1''"
definition gemini_slug :: string where "gemini_slug = ''gemini''"

definition json_items :: "json option \<Rightarrow> json list" where
  "json_items v = (case v of Some (JArr xs) \<Rightarrow> xs | _ \<Rightarrow> [])"

definition read_chat :: "meta_env \<Rightarrow> file_texts \<Rightarrow> string \<Rightarrow> transcript_error + json" where
  "read_chat env files path =
     (case files path of
        None \<Rightarrow> Inl Source_Unreadable
      | Some contents \<Rightarrow> ok_or (me_json_parse env contents) Source_Unparsable)"

section \<open>Chunks\<close>

definition gemini_call :: "string \<Rightarrow> string \<Rightarrow> json \<Rightarrow> nat \<Rightarrow> imported_tool_call" where
  "gemini_call session created_at tool_call n =
     (let name = unwrap_or (as_str (json_get ''name'' tool_call)) ''tool''
      in \<lparr>tc_call_id = session @ ''-'' @ show_nat n, tc_raw_name = name, tc_canonical_name = name,
          tc_args = unwrap_or (json_get ''args'' tool_call) JNull, tc_created_at = created_at\<rparr>)"

definition gemini_tool_call ::
  "meta_env \<Rightarrow> (nat \<Rightarrow> fresh) \<Rightarrow> string \<Rightarrow> string \<Rightarrow> json \<Rightarrow> format_state \<Rightarrow> format_state" where
  "gemini_tool_call env fr session created_at tool_call =
     emit fr (\<lambda>f n. tool_call_chunk env session gemini_slug (gemini_call session created_at tool_call n) [] f n)"

definition message_text :: "json \<Rightarrow> string option" where
  "message_text message =
     filter_opt (\<lambda>t. t \<noteq> []) (map_option trim (as_str (json_get ''content'' message)))"

definition gemini_message ::
  "meta_env \<Rightarrow> (nat \<Rightarrow> fresh) \<Rightarrow> string \<Rightarrow> json \<Rightarrow> format_state \<Rightarrow> format_state" where
  "gemini_message env fr session message st =
     (let created_at = unwrap_or (as_str (json_get ''timestamp'' message)) [];
          kind = as_str (json_get ''type'' message)
      in if kind = Some ''user'' then
           (case message_text message of
              None \<Rightarrow> st
            | Some t \<Rightarrow> emit fr (user_message_chunk env session gemini_slug created_at t) st)
         else if kind = Some ''gemini'' then
           fold (gemini_tool_call env fr session created_at) (json_items (json_get ''toolCalls'' message))
             (case message_text message of
                None \<Rightarrow> st
              | Some t \<Rightarrow> emit fr (assistant_message_chunk env session gemini_slug created_at t) st)
         else st)"

definition gemini_format_chunks ::
  "meta_env \<Rightarrow> (nat \<Rightarrow> fresh) \<Rightarrow> file_texts \<Rightarrow> string \<Rightarrow> string option \<Rightarrow>
   transcript_error + activity_chunk list" where
  "gemini_format_chunks env fr files session source_path =
     (case source_path of
        None \<Rightarrow> Inl Source_Path_Missing
      | Some path \<Rightarrow>
          and_then (read_chat env files path) (\<lambda>v.
            Inr (fo_chunks (fold (gemini_message env fr session) (json_items (json_get ''messages'' v)) format_start))))"

section \<open>Metadata\<close>

definition is_gemini_chat_file :: "string \<Rightarrow> bool" where
  "is_gemini_chat_file path \<longleftrightarrow>
     has_extension ''json'' path \<and>
     Option.bind (Option.bind (path_parent_dir path) file_name) to_str = Some ''chats'' \<and>
     (case Option.bind (file_name path) to_str of Some name \<Rightarrow> prefix ''session-'' name | None \<Rightarrow> False)"

record gemini_scan =
  gs_meta :: native_session_metadata
  gs_input_tokens :: u64
  gs_output_tokens :: u64
  gs_saw_tokens :: bool
  gs_touched_files :: "string list"
  gs_repo_path :: "string option"

definition nonempty_str :: "json option \<Rightarrow> string option" where
  "nonempty_str v = filter_opt (\<lambda>t. t \<noteq> []) (as_str v)"

definition collect_tool_call_edits :: "json \<Rightarrow> string list \<times> string option \<Rightarrow> string list \<times> string option" where
  "collect_tool_call_edits tool_call fr =
     (case fr of (files, repo) \<Rightarrow>
        let name = unwrap_or (as_str (json_get ''name'' tool_call)) [];
            args = json_get ''args'' tool_call
        in if name \<in> {''write_file'', ''replace'', ''edit''} then
             (case nonempty_str (Option.bind args (json_get ''file_path'')) of
                None \<Rightarrow> (files, repo)
              | Some p \<Rightarrow> (bs_insert p files, repo))
           else if name = ''run_shell_command'' then
             ((case as_str (Option.bind args (json_get ''command'')) of
                 None \<Rightarrow> files
               | Some command \<Rightarrow> fold bs_insert (shell_edit_targets command) files),
              or_else repo (nonempty_str (Option.bind args (json_get ''directory''))))
           else (files, repo))"

definition gemini_tokens :: "json option \<Rightarrow> gemini_scan \<Rightarrow> gemini_scan" where
  "gemini_tokens tokens sc =
     (case tokens of
        None \<Rightarrow> sc
      | Some t \<Rightarrow>
          let i = token_value t ''input''; out = token_value t ''output''
          in if 0 < i \<or> 0 < out
             then sc\<lparr>gs_input_tokens := saturating_add (gs_input_tokens sc) i,
                     gs_output_tokens := saturating_add (gs_output_tokens sc) out, gs_saw_tokens := True\<rparr>
             else sc)"

definition gemini_scan_message :: "json \<Rightarrow> gemini_scan \<Rightarrow> gemini_scan" where
  "gemini_scan_message message sc =
     (let meta = gs_meta sc;
          meta = (if nm_title meta = None \<and> as_str (json_get ''type'' message) = Some ''user''
            then meta\<lparr>nm_title := map_option normalize_title (nonempty_str (json_get ''content'' message))\<rparr>
            else meta);
          meta = meta\<lparr>nm_model := or_else (nm_model meta) (as_str (json_get ''model'' message))\<rparr>;
          sc = gemini_tokens (json_get ''tokens'' message) (sc\<lparr>gs_meta := meta\<rparr>);
          (files, repo) = fold collect_tool_call_edits (json_items (json_get ''toolCalls'' message))
            (gs_touched_files sc, gs_repo_path sc)
      in sc\<lparr>gs_touched_files := files, gs_repo_path := repo\<rparr>)"

definition gemini_scan_end :: "gemini_scan \<Rightarrow> native_session_metadata" where
  "gemini_scan_end sc =
     set_touched (gs_touched_files sc)
       ((gs_meta sc)\<lparr>nm_input_tokens := (if gs_saw_tokens sc then Some (gs_input_tokens sc) else None),
          nm_output_tokens := (if gs_saw_tokens sc then Some (gs_output_tokens sc) else None),
          nm_repo_path := gs_repo_path sc\<rparr>)"

definition chat_time :: "meta_env \<Rightarrow> string \<Rightarrow> json \<Rightarrow> instant option" where
  "chat_time env key v = Option.bind (as_str (json_get key v)) (me_parse_time env)"

definition gemini_extract_metadata ::
  "meta_env \<Rightarrow> file_texts \<Rightarrow> string \<Rightarrow> transcript_error + native_session_metadata" where
  "gemini_extract_metadata env files path =
     (if \<not> is_gemini_chat_file path then Inr blank_metadata
      else and_then (read_chat env files path) (\<lambda>v.
        Inr (gemini_scan_end (fold gemini_scan_message (json_items (json_get ''messages'' v))
          \<lparr>gs_meta = blank_metadata\<lparr>nm_parser_version := Some gemini_parser_version,
              nm_session_created_at := chat_time env ''startTime'' v,
              nm_session_updated_at := chat_time env ''lastUpdated'' v\<rparr>,
           gs_input_tokens = 0, gs_output_tokens = 0, gs_saw_tokens = False, gs_touched_files = [],
           gs_repo_path = None\<rparr>))))"

section \<open>The chunks can be stored\<close>

lemma gemini_slug_plain: "CHR ''-'' \<notin> set gemini_slug"
  by (simp add: gemini_slug_def)

lemma gemini_call_numbering:
  "numbering (\<lambda>f n. tool_call_chunk env session gemini_slug (gemini_call session t c n) [] f n)"
  using gemini_slug_plain by (simp add: numbering_def tool_call_chunk_def split_chunk_id)

lemma gemini_message_ok: "format_ok st \<Longrightarrow> format_ok (gemini_message env fr session m st)"
  by (auto simp: gemini_message_def gemini_tool_call_def Let_def
      intro!: fold_keeps [where P = format_ok] emit_ok maker_numbering gemini_call_numbering gemini_slug_plain
      split: option.split)

lemma gemini_no_lines:
  "ac_source_line_number (tool_call_chunk env s slug c output f n) = None"
  "ac_source_line_number (user_message_chunk env s slug t m f n) = None"
  "ac_source_line_number (assistant_message_chunk env s slug t m f n) = None"
  by (simp_all add: tool_call_chunk_def user_message_chunk_def assistant_message_chunk_def activity_chunk_new_def)

lemma gemini_message_lines: "lines_within 0 st \<Longrightarrow> lines_within 0 (gemini_message env fr session m st)"
  by (auto simp: gemini_message_def gemini_tool_call_def Let_def gemini_no_lines
      intro!: fold_keeps [where P = "lines_within 0"] lines_within_emit split: option.split)

interpretation gemini: transcript_reader "gemini_format_chunks env fr"
proof
  fix files session p cs
  assume "gemini_format_chunks env fr files session p = Inr cs"
  then obtain path v where p: "p = Some path" and v: "read_chat env files path = Inr v"
    and cs: "cs = fo_chunks (fold (gemini_message env fr session) (json_items (json_get ''messages'' v)) format_start)"
    by (auto simp: gemini_format_chunks_def and_then_Inr_iff split: option.splits)
  have "format_ok (fold (gemini_message env fr session) ms format_start)" for ms
    by (rule fold_keeps) (simp_all add: gemini_message_ok)
  then show "numbered cs" by (simp add: cs format_ok_def)
  fix c n
  assume c: "c \<in> set cs" and n: "ac_source_line_number c = Some n"
  have "lines_within 0 (fold (gemini_message env fr session) ms format_start)" for ms
    by (rule fold_keeps) (simp_all add: gemini_message_lines)
  then have "line_within 0 n" using c n unfolding cs lines_within_def by blast
  then have "line_within (length (lines body)) n" for body by (auto simp: line_within_def)
  moreover obtain body where "files path = Some body"
    using v by (auto simp: read_chat_def split: option.splits)
  ultimately show "\<exists>path body. p = Some path \<and> files path = Some body \<and> line_within (length (lines body)) n"
    using p by blast
qed

text \<open>Every tool call of a Gemini message is a chunk of its own, with an id made from its position.\<close>

definition tool_calls_of :: "json \<Rightarrow> json list" where
  "tool_calls_of m =
     (if as_str (json_get ''type'' m) = Some ''gemini'' then json_items (json_get ''toolCalls'' m) else [])"

definition tool_chunks :: "activity_chunk list \<Rightarrow> nat" where
  "tool_chunks cs = length (filter (\<lambda>c. ac_action_type c = action_type_tool_call) cs)"

lemma tool_chunks_emit:
  "tool_chunks (fo_chunks (emit fr mk st)) = tool_chunks (fo_chunks st) +
     (if ac_action_type (mk (fr (fo_sequence st)) (fo_sequence st)) = action_type_tool_call then 1 else 0)"
  by (simp add: tool_chunks_def emit_def)

lemma gemini_tool_call_count:
  "tool_chunks (fo_chunks (fold (gemini_tool_call env fr session t) calls st)) =
     tool_chunks (fo_chunks st) + length calls"
  by (induction calls arbitrary: st)
    (simp_all add: gemini_tool_call_def tool_chunks_emit tool_call_chunk_def activity_chunk_new_def)

lemma gemini_message_count:
  "tool_chunks (fo_chunks (gemini_message env fr session m st)) =
     tool_chunks (fo_chunks st) + length (tool_calls_of m)"
  by (auto simp: gemini_message_def Let_def tool_calls_of_def tool_chunks_emit gemini_tool_call_count
      action_type_tool_call_def split: option.split)

lemma gemini_calls_counted:
  assumes "gemini_format_chunks env fr files session (Some path) = Inr cs" "read_chat env files path = Inr v"
  shows "tool_chunks cs = length (concat (map tool_calls_of (json_items (json_get ''messages'' v))))"
proof -
  have "tool_chunks (fo_chunks (fold (gemini_message env fr session) ms st)) =
      tool_chunks (fo_chunks st) + length (concat (map tool_calls_of ms))" for ms st
    by (induction ms arbitrary: st) (simp_all add: gemini_message_count)
  moreover have "tool_chunks (fo_chunks format_start) = 0"
    by (simp add: format_start_def tool_chunks_def)
  moreover have "cs = fo_chunks (fold (gemini_message env fr session)
      (json_items (json_get ''messages'' v)) format_start)"
    using assms by (auto simp: gemini_format_chunks_def)
  ultimately show ?thesis by simp
qed

end
