(* ===== verification/Source_Scan.thy ===== *)
theory Source_Scan imports Identity Transcript "HOL-Library.Product_Lexorder" begin

text \<open>
  Finding the session files of a source (\<^verbatim>\<open>native_source.rs\<close>) and the sources of a machine
  (\<^verbatim>\<open>source_discovery.rs\<close>). What lies at a path is a finite tree of directories in the order
  the system lists them; how a file's metadata is extracted depends on the source and is an
  argument. An error of the walk is the path it happened at.
\<close>

section \<open>Trees\<close>

record file_stat =
  fst_len :: u64
  fst_modified :: "instant option"

text \<open>A file whose metadata cannot be read is \<open>T_File None\<close>, a directory that cannot be read \<open>T_Dir None\<close>.\<close>

datatype fs_tree = T_File "file_stat option" | T_Dir "(string \<times> fs_tree) list option"

type_synonym listing = "(string \<times> fs_tree) list option"

datatype scan_error = Scan_Failed string

record scan_context =
  sx_app_id :: string
  sx_since :: "instant option"
  sx_limit :: "nat option"
  sx_include :: "string \<Rightarrow> bool"
  sx_extract :: "string \<Rightarrow> scan_error + native_session_metadata"

section \<open>One file\<close>

definition is_supported_session_file :: "string \<Rightarrow> bool" where
  "is_supported_session_file path \<longleftrightarrow>
     list_ex (\<lambda>e. has_extension e path) [''jsonl'', ''json'', ''txt'', ''log'', ''md'', ''markdown'']"

definition skip_by_mtime :: "file_stat option \<Rightarrow> instant option \<Rightarrow> bool" where
  "skip_by_mtime st since =
     (case (since, Option.bind st fst_modified) of (Some s, Some m) \<Rightarrow> m \<le> s | _ \<Rightarrow> False)"

definition generic_parser_version :: string where
  "generic_parser_version = ''native-file-v1''"

definition session_from_path ::
  "scan_context \<Rightarrow> string \<Rightarrow> file_stat option \<Rightarrow> scan_error + native_source_session" where
  "session_from_path cx path st =
     (case st of
        None \<Rightarrow> Inl (Scan_Failed path)
      | Some fs \<Rightarrow>
          let external = unwrap_or (path_stem path) ''session''
          in and_then (sx_extract cx path) (\<lambda>m. Inr
            \<lparr>ns_external_session_id = external, ns_source_app_id = sx_app_id cx,
             ns_title = Some (unwrap_or (nm_title m) external), ns_path = path,
             ns_size_bytes = fst_len fs, ns_modified_at = fst_modified fs,
             ns_parser_version = unwrap_or (nm_parser_version m) generic_parser_version,
             ns_session_created_at = nm_session_created_at m,
             ns_session_updated_at = nm_session_updated_at m, ns_model = nm_model m,
             ns_input_tokens = nm_input_tokens m, ns_output_tokens = nm_output_tokens m,
             ns_repo_path = nm_repo_path m, ns_branch = nm_branch m,
             ns_files_changed = nm_files_changed m, ns_lines_added = nm_lines_added m,
             ns_lines_removed = nm_lines_removed m, ns_touched_files = nm_touched_files m,
             ns_listable = nm_listable m, ns_metadata_json = nm_metadata_json m, ns_cwd = nm_cwd m,
             ns_liveness = Liveness_Unknown, ns_last_activity = None\<rparr>))"

definition wanted :: "scan_context \<Rightarrow> string \<Rightarrow> file_stat option \<Rightarrow> bool" where
  "wanted cx path st \<longleftrightarrow> sx_include cx path \<and> \<not> skip_by_mtime st (sx_since cx)"

definition limit_reached :: "scan_context \<Rightarrow> 'a list \<Rightarrow> bool" where
  "limit_reached cx xs \<longleftrightarrow> (case sx_limit cx of None \<Rightarrow> False | Some l \<Rightarrow> l \<le> length xs)"

section \<open>The walk\<close>

text \<open>
  The entries of one directory: subdirectories go on the stack (the last one is on top), files are
  collected until the limit. The Boolean says that the limit was reached.
\<close>

fun scan_entries ::
  "scan_context \<Rightarrow> string \<Rightarrow> (string \<times> fs_tree) list \<Rightarrow> (string \<times> listing) list \<Rightarrow>
   native_source_session list \<Rightarrow>
   scan_error + bool \<times> (string \<times> listing) list \<times> native_source_session list" where
  "scan_entries cx dir [] stack acc = Inr (False, stack, acc)"
| "scan_entries cx dir ((name, T_Dir l) # es) stack acc =
     scan_entries cx dir es ((path_join dir name, l) # stack) acc"
| "scan_entries cx dir ((name, T_File st) # es) stack acc =
     (let path = path_join dir name
      in if \<not> wanted cx path st then scan_entries cx dir es stack acc
         else and_then (session_from_path cx path st) (\<lambda>s.
           if limit_reached cx (acc @ [s]) then Inr (True, stack, acc @ [s])
           else scan_entries cx dir es stack (acc @ [s])))"

fun tree_weight :: "fs_tree \<Rightarrow> nat" where
  "tree_weight (T_File st) = 1"
| "tree_weight (T_Dir None) = 1"
| "tree_weight (T_Dir (Some es)) = Suc (sum_list (map (tree_weight \<circ> snd) es))"

definition stack_weight :: "(string \<times> listing) list \<Rightarrow> nat" where
  "stack_weight stack = sum_list (map (tree_weight \<circ> T_Dir \<circ> snd) stack)"

lemma stack_weight_simps [simp]:
  "stack_weight [] = 0"
  "stack_weight ((p, l) # stack) = tree_weight (T_Dir l) + stack_weight stack"
  by (simp_all add: stack_weight_def)

lemma scan_entries_weight:
  "scan_entries cx dir es stack acc = Inr (stop, stack', acc') \<Longrightarrow>
   stack_weight stack' \<le> sum_list (map (tree_weight \<circ> snd) es) + stack_weight stack"
proof (induction cx dir es stack acc rule: scan_entries.induct)
  case (3 cx dir name st es stack acc)
  show ?case
  proof (cases "wanted cx (path_join dir name) st")
    case False
    then show ?thesis using 3 by (simp add: Let_def)
  next
    case True
    then obtain s where s: "session_from_path cx (path_join dir name) st = Inr s"
      using "3.prems" by (auto simp: Let_def and_then_Inr_iff)
    show ?thesis
    proof (cases "limit_reached cx (acc @ [s])")
      case False
      then have "scan_entries cx dir es stack (acc @ [s]) = Inr (stop, stack', acc')"
        using "3.prems" True s by (simp add: Let_def)
      from "3.IH"(2) [OF refl _ False this] True show ?thesis by simp
    qed (use "3.prems" True s in \<open>simp add: Let_def\<close>)
  qed
qed auto

function scan_stack ::
  "scan_context \<Rightarrow> (string \<times> listing) list \<Rightarrow> native_source_session list \<Rightarrow>
   scan_error + native_source_session list" where
  "scan_stack cx [] acc = Inr acc"
| "scan_stack cx ((dir, None) # stack) acc = Inl (Scan_Failed dir)"
| "scan_stack cx ((dir, Some es) # stack) acc =
     (case scan_entries cx dir es stack acc of
        Inl e \<Rightarrow> Inl e
      | Inr (stop, stack', acc') \<Rightarrow> if stop then Inr acc' else scan_stack cx stack' acc')"
  by pat_completeness auto
termination
  by (relation "measure (\<lambda>(cx, stack, acc). stack_weight stack)") (auto dest: scan_entries_weight)

definition collect_session_files ::
  "scan_context \<Rightarrow> string \<Rightarrow> fs_tree option \<Rightarrow> native_source_session list \<Rightarrow>
   scan_error + native_source_session list" where
  "collect_session_files cx root tree acc =
     (case tree of
        None \<Rightarrow> Inr acc
      | Some (T_File None) \<Rightarrow> Inr acc
      | Some (T_File st) \<Rightarrow>
          if wanted cx root st then and_then (session_from_path cx root st) (\<lambda>s. Inr (acc @ [s])) else Inr acc
      | Some (T_Dir l) \<Rightarrow> scan_stack cx [(root, l)] acc)"

fun collect_roots ::
  "scan_context \<Rightarrow> (string \<Rightarrow> fs_tree option) \<Rightarrow> string list \<Rightarrow> native_source_session list \<Rightarrow>
   scan_error + native_source_session list" where
  "collect_roots cx fs [] acc = Inr acc"
| "collect_roots cx fs (r # rs) acc =
     and_then (collect_session_files cx r (fs r) acc) (\<lambda>acc'.
       if limit_reached cx acc' then Inr acc' else collect_roots cx fs rs acc')"

section \<open>The listing\<close>

text \<open>Rust compares paths by components: separators and inner dots do not matter.\<close>

definition same_path :: "string \<Rightarrow> string \<Rightarrow> bool" where
  "same_path p q \<longleftrightarrow>
     path_is_absolute p = path_is_absolute q \<and> path_components p = path_components q \<and>
     (p = ''.'' \<or> prefix ''./'' p) = (q = ''.'' \<or> prefix ''./'' q)"

fun dedup_by :: "('a \<Rightarrow> 'a \<Rightarrow> bool) \<Rightarrow> 'a list \<Rightarrow> 'a list" where
  "dedup_by eq [] = []"
| "dedup_by eq [x] = [x]"
| "dedup_by eq (x # y # xs) = (if eq y x then dedup_by eq (x # xs) else x # dedup_by eq (y # xs))"

definition newest_key :: "native_source_session \<Rightarrow> nat \<times> int" where
  "newest_key s = (case ns_modified_at s of None \<Rightarrow> (1, 0) | Some t \<Rightarrow> (0, - t))"

definition scan_roots :: "local_profile \<Rightarrow> string list" where
  "scan_roots p =
     (case lp_session_log_path p of None \<Rightarrow> [] | Some r \<Rightarrow> [r]) @
     (case lp_evidence_root p of None \<Rightarrow> [] | Some r \<Rightarrow> [r])"

definition list_file_source_sessions_with_filter ::
  "(string \<Rightarrow> fs_tree option) \<Rightarrow> local_profile \<Rightarrow> nat option \<Rightarrow> instant option \<Rightarrow>
   (string \<Rightarrow> scan_error + native_session_metadata) \<Rightarrow> (string \<Rightarrow> bool) \<Rightarrow>
   scan_error + native_source_session list" where
  "list_file_source_sessions_with_filter fs p limit since extract incl =
     (let cx = \<lparr>sx_app_id = unwrap_or (lp_app_id p) (lp_name p), sx_since = since, sx_limit = limit,
                sx_include = incl, sx_extract = extract\<rparr>
      in and_then (collect_roots cx fs (scan_roots p) []) (\<lambda>ss.
         let sorted_ss = dedup_by (\<lambda>l r. same_path (ns_path l) (ns_path r)) (sort_key newest_key ss)
         in Inr (case limit of None \<Rightarrow> sorted_ss | Some l \<Rightarrow> take l sorted_ss)))"

definition list_file_source_sessions ::
  "(string \<Rightarrow> fs_tree option) \<Rightarrow> local_profile \<Rightarrow> nat option \<Rightarrow> instant option \<Rightarrow>
   (string \<Rightarrow> scan_error + native_session_metadata) \<Rightarrow> scan_error + native_source_session list" where
  "list_file_source_sessions fs p limit since extract =
     list_file_source_sessions_with_filter fs p limit since extract is_supported_session_file"

definition list_native_source_sessions ::
  "(string \<Rightarrow> fs_tree option) \<Rightarrow> local_profile \<Rightarrow> nat option \<Rightarrow> scan_error + native_source_session list" where
  "list_native_source_sessions fs p limit =
     list_file_source_sessions fs p limit None (\<lambda>_. Inr blank_metadata)"

definition since_to_system_time :: "meta_env \<Rightarrow> string option \<Rightarrow> instant option" where
  "since_to_system_time me since = Option.bind since (me_parse_time me)"

definition filter_sessions_since ::
  "meta_env \<Rightarrow> native_source_session list \<Rightarrow> string option \<Rightarrow> native_source_session list" where
  "filter_sessions_since me ss since =
     (case since_to_system_time me since of
        None \<Rightarrow> ss
      | Some t \<Rightarrow> filter (\<lambda>s. case ns_session_updated_at s of Some u \<Rightarrow> t < u | None \<Rightarrow> True) ss)"

section \<open>What the walk finds\<close>

fun tree_files :: "string \<Rightarrow> fs_tree \<Rightarrow> (string \<times> file_stat option) list" where
  "tree_files p (T_File st) = [(p, st)]"
| "tree_files p (T_Dir None) = []"
| "tree_files p (T_Dir (Some es)) = concat (map (\<lambda>(n, t). tree_files (path_join p n) t) es)"

definition entry_files :: "string \<Rightarrow> (string \<times> fs_tree) list \<Rightarrow> (string \<times> file_stat option) set" where
  "entry_files dir es = (\<Union>(n, t)\<in>set es. set (tree_files (path_join dir n) t))"

definition stack_files :: "(string \<times> listing) list \<Rightarrow> (string \<times> file_stat option) set" where
  "stack_files stack = (\<Union>(p, l)\<in>set stack. set (tree_files p (T_Dir l)))"

lemma file_sets [simp]:
  "entry_files dir [] = {}"
  "entry_files dir ((n, t) # es) = set (tree_files (path_join dir n) t) \<union> entry_files dir es"
  "stack_files [] = {}"
  "stack_files ((p, l) # stack) = set (tree_files p (T_Dir l)) \<union> stack_files stack"
  by (auto simp: entry_files_def stack_files_def)

lemma tree_files_dir [simp]: "set (tree_files p (T_Dir (Some es))) = entry_files p es"
  by (auto simp: entry_files_def)

declare tree_files.simps(3) [simp del]

text \<open>The session of a wanted file among given ones, and a list that has one for each of them.\<close>

definition session_of_file ::
  "scan_context \<Rightarrow> (string \<times> file_stat option) set \<Rightarrow> native_source_session \<Rightarrow> bool" where
  "session_of_file cx F s \<longleftrightarrow> (\<exists>(p, st)\<in>F. wanted cx p st \<and> session_from_path cx p st = Inr s)"

definition covers :: "scan_context \<Rightarrow> native_source_session list \<Rightarrow> (string \<times> file_stat option) set \<Rightarrow> bool" where
  "covers cx ss F \<longleftrightarrow>
     (\<forall>(p, st)\<in>F. wanted cx p st \<longrightarrow> (\<exists>s\<in>set ss. session_from_path cx p st = Inr s))"

lemma session_of_file_mono: "session_of_file cx F s \<Longrightarrow> F \<subseteq> G \<Longrightarrow> session_of_file cx G s"
  by (auto simp: session_of_file_def)

lemma covers_mono: "covers cx ss F \<Longrightarrow> set ss \<subseteq> set ss' \<Longrightarrow> G \<subseteq> F \<Longrightarrow> covers cx ss' G"
  by (force simp: covers_def)

lemma covers_Un [simp]: "covers cx ss (F \<union> G) \<longleftrightarrow> covers cx ss F \<and> covers cx ss G"
  by (auto simp: covers_def)

lemma covers_empty [simp]: "covers cx ss {}"
  by (simp add: covers_def)

lemma scan_entries_sound:
  "scan_entries cx dir es stack acc = Inr (stop, stack', acc') \<Longrightarrow>
   (\<forall>s\<in>set acc'. s \<in> set acc \<or> session_of_file cx (entry_files dir es) s) \<and>
   stack_files stack' \<subseteq> entry_files dir es \<union> stack_files stack"
proof (induction cx dir es stack acc rule: scan_entries.induct)
  case (2 cx dir name l es stack acc)
  then show ?case by (auto simp: session_of_file_def)
next
  case (3 cx dir name st es stack acc)
  show ?case
  proof (cases "wanted cx (path_join dir name) st")
    case False
    then show ?thesis using 3 by (auto simp: Let_def session_of_file_def)
  next
    case True
    then obtain s where s: "session_from_path cx (path_join dir name) st = Inr s"
      using "3.prems" by (auto simp: Let_def and_then_Inr_iff)
    then have here: "session_of_file cx (entry_files dir ((name, T_File st) # es)) s"
      using True by (auto simp: session_of_file_def)
    show ?thesis
    proof (cases "limit_reached cx (acc @ [s])")
      case stop: True
      then show ?thesis using "3.prems" True s here by (auto simp: Let_def)
    next
      case False
      then have "scan_entries cx dir es stack (acc @ [s]) = Inr (stop, stack', acc')"
        using "3.prems" True s by (simp add: Let_def)
      from "3.IH"(2) [OF refl _ False this] True here s show ?thesis
        by (auto simp: session_of_file_def)
    qed
  qed
qed auto

lemma scan_stack_sound:
  "scan_stack cx stack acc = Inr ss \<Longrightarrow> s \<in> set ss \<Longrightarrow>
   s \<in> set acc \<or> session_of_file cx (stack_files stack) s"
proof (induction cx stack acc arbitrary: ss rule: scan_stack.induct)
  case (3 cx dir es stack acc)
  obtain stop stack' acc' where run: "scan_entries cx dir es stack acc = Inr (stop, stack', acc')"
    using "3.prems"(1) by (auto split: sum.splits)
  note sound = scan_entries_sound [OF run]
  show ?case
  proof (cases stop)
    case True
    then show ?thesis
      using "3.prems" run sound by (auto intro: session_of_file_mono)
  next
    case False
    then have "scan_stack cx stack' acc' = Inr ss" using "3.prems"(1) run by simp
    from "3.IH" [OF run refl refl False this "3.prems"(2)] sound show ?thesis
      by (auto intro: session_of_file_mono)
  qed
qed auto

text \<open>Without a limit nothing is left out.\<close>

lemma scan_entries_complete:
  "scan_entries cx dir es stack acc = Inr (stop, stack', acc') \<Longrightarrow> sx_limit cx = None \<Longrightarrow>
   \<not> stop \<and> set acc \<subseteq> set acc' \<and> stack_files stack \<subseteq> stack_files stack' \<and>
   (\<forall>(p, st)\<in>entry_files dir es. wanted cx p st \<longrightarrow>
      (p, st) \<in> stack_files stack' \<or> (\<exists>s\<in>set acc'. session_from_path cx p st = Inr s))"
proof (induction cx dir es stack acc rule: scan_entries.induct)
  case (2 cx dir name l es stack acc)
  then show ?case by (cases l) auto
next
  case (3 cx dir name st es stack acc)
  show ?case
  proof (cases "wanted cx (path_join dir name) st")
    case False
    then show ?thesis using 3 by (auto simp: Let_def)
  next
    case True
    then obtain s where s: "session_from_path cx (path_join dir name) st = Inr s"
      using "3.prems" by (auto simp: Let_def and_then_Inr_iff)
    have open_end: "\<not> limit_reached cx (acc @ [s])" by (simp add: limit_reached_def "3.prems"(2))
    then have "scan_entries cx dir es stack (acc @ [s]) = Inr (stop, stack', acc')"
      using "3.prems"(1) True s by (simp add: Let_def)
    from "3.IH"(2) [OF refl _ open_end this "3.prems"(2)] True s show ?thesis by auto
  qed
qed auto

lemma scan_stack_complete:
  "scan_stack cx stack acc = Inr ss \<Longrightarrow> sx_limit cx = None \<Longrightarrow>
   set acc \<subseteq> set ss \<and> covers cx ss (stack_files stack)"
proof (induction cx stack acc arbitrary: ss rule: scan_stack.induct)
  case (3 cx dir es stack acc)
  obtain stop stack' acc' where run: "scan_entries cx dir es stack acc = Inr (stop, stack', acc')"
    using "3.prems"(1) by (auto split: sum.splits)
  note complete = scan_entries_complete [OF run "3.prems"(2)]
  then have rest: "scan_stack cx stack' acc' = Inr ss" using "3.prems"(1) run by simp
  have later: "set acc' \<subseteq> set ss" "covers cx ss (stack_files stack')"
    using "3.IH" [OF run refl refl _ rest "3.prems"(2)] complete by auto
  moreover have "covers cx ss (entry_files dir es)"
    using complete later unfolding covers_def by fast
  moreover have "covers cx ss (stack_files stack)"
    using later(2) complete by (blast intro: covers_mono)
  ultimately show ?case using complete by auto
qed auto

definition root_files :: "(string \<Rightarrow> fs_tree option) \<Rightarrow> string list \<Rightarrow> (string \<times> file_stat option) set" where
  "root_files fs roots =
     {f. \<exists>r\<in>set roots. \<exists>t. fs r = Some t \<and> t \<noteq> T_File None \<and> f \<in> set (tree_files r t)}"

lemma root_files_simps [simp]:
  "root_files fs [] = {}"
  "root_files fs (r # rs) =
     (case fs r of None \<Rightarrow> {} | Some t \<Rightarrow> if t = T_File None then {} else set (tree_files r t)) \<union> root_files fs rs"
  by (auto simp: root_files_def split: option.splits)

lemma collect_session_files_sound:
  assumes "collect_session_files cx r (fs r) acc = Inr ss" "s \<in> set ss"
  shows "s \<in> set acc \<or> session_of_file cx (root_files fs [r]) s"
  using assms scan_stack_sound [of cx _ acc ss s]
  by (fastforce simp: collect_session_files_def and_then_Inr_iff session_of_file_def
      split: option.splits fs_tree.splits if_splits)

lemma collect_session_files_complete:
  assumes "collect_session_files cx r (fs r) acc = Inr ss" "sx_limit cx = None"
  shows "set acc \<subseteq> set ss \<and> covers cx ss (root_files fs [r])"
  using assms scan_stack_complete [of cx _ acc ss]
  by (fastforce simp: collect_session_files_def and_then_Inr_iff covers_def
      split: option.splits fs_tree.splits if_splits)

lemma collect_roots_sound:
  "collect_roots cx fs roots acc = Inr ss \<Longrightarrow> s \<in> set ss \<Longrightarrow>
   s \<in> set acc \<or> session_of_file cx (root_files fs roots) s"
proof (induction cx fs roots acc rule: collect_roots.induct)
  case (2 cx fs r rs acc)
  then show ?case
    using collect_session_files_sound [of cx r fs acc]
    by (fastforce simp: and_then_Inr_iff session_of_file_def simp del: root_files_simps(2)
        simp add: root_files_def split: if_splits)
qed auto

lemma collect_roots_complete:
  "collect_roots cx fs roots acc = Inr ss \<Longrightarrow> sx_limit cx = None \<Longrightarrow>
   set acc \<subseteq> set ss \<and> covers cx ss (root_files fs roots)"
proof (induction cx fs roots acc rule: collect_roots.induct)
  case (2 cx fs r rs acc)
  obtain acc' where first: "collect_session_files cx r (fs r) acc = Inr acc'"
    and rest: "collect_roots cx fs rs acc' = Inr ss"
    using "2.prems" by (auto simp: and_then_Inr_iff limit_reached_def split: if_splits)
  have later: "set acc' \<subseteq> set ss \<and> covers cx ss (root_files fs rs)"
    using "2.IH" [OF _ rest "2.prems"(2)] "2.prems"(2) by (simp add: limit_reached_def)
  have "covers cx ss (root_files fs [r])"
    using collect_session_files_complete [where fs = fs, OF first "2.prems"(2)] later by (blast intro: covers_mono)
  moreover have "root_files fs (r # rs) = root_files fs [r] \<union> root_files fs rs" by simp
  ultimately show ?case
    using collect_session_files_complete [where fs = fs, OF first "2.prems"(2)] later by (simp only: covers_Un) blast
qed auto

lemma dedup_by_subseq: "subseq (dedup_by eq xs) xs"
  by (induction eq xs rule: dedup_by.induct) (auto intro: subseq_order.trans)

lemma listed_subseq: "subseq (take l (dedup_by eq xs)) xs"
  by (rule subseq_order.trans [OF prefix_imp_subseq [OF take_is_prefix] dedup_by_subseq])

lemma dedup_by_keeps:
  assumes "reflp eq" and "transp eq"
  shows "x \<in> set xs \<Longrightarrow> \<exists>y\<in>set (dedup_by eq xs). eq x y"
  using assms
proof (induction eq xs arbitrary: x rule: dedup_by.induct)
  case (3 eq x' y xs)
  note refl = "3.prems"(2) and trans = "3.prems"(3)
  show ?case
  proof (cases "eq y x'")
    case True
    obtain z where z: "z \<in> set (dedup_by eq (x' # xs))" "eq x' z" using "3.IH"(1) [OF True _ refl trans, of x'] by auto
    show ?thesis
    proof (cases "x = y")
      case True
      then have "eq x z" using transpD [OF trans \<open>eq y x'\<close> z(2)] by simp
      then show ?thesis using z(1) \<open>eq y x'\<close> by auto
    next
      case False
      then show ?thesis using "3.IH"(1) [OF \<open>eq y x'\<close> _ refl trans, of x] "3.prems"(1) \<open>eq y x'\<close> by auto
    qed
  next
    case False
    then show ?thesis using "3.IH"(2) [OF False _ refl trans, of x] "3.prems"(1) reflpD [OF refl] by auto
  qed
qed (auto dest: reflpD)

section \<open>Results\<close>

text \<open>The context of a listing.\<close>

definition listing_context ::
  "local_profile \<Rightarrow> nat option \<Rightarrow> instant option \<Rightarrow> (string \<Rightarrow> scan_error + native_session_metadata) \<Rightarrow>
   (string \<Rightarrow> bool) \<Rightarrow> scan_context" where
  "listing_context p limit since extract incl =
     \<lparr>sx_app_id = unwrap_or (lp_app_id p) (lp_name p), sx_since = since, sx_limit = limit,
      sx_include = incl, sx_extract = extract\<rparr>"

lemma listing_unfold:
  "list_file_source_sessions_with_filter fs p limit since extract incl =
     and_then (collect_roots (listing_context p limit since extract incl) fs (scan_roots p) []) (\<lambda>ss.
       Inr ((case limit of None \<Rightarrow> id | Some l \<Rightarrow> take l)
         (dedup_by (\<lambda>l r. same_path (ns_path l) (ns_path r)) (sort_key newest_key ss))))"
  by (cases limit) (simp_all add: list_file_source_sessions_with_filter_def listing_context_def Let_def)

text \<open>
  C25:
  A listing of session files has at most as many sessions as asked for, newest first, each of a
  file below one of the profile's roots that is included and was modified after the watermark;
  and without a limit no such file is missing.
\<close>

theorem session_listing:
  assumes "list_file_source_sessions_with_filter fs p limit since extract incl = Inr ss"
  shows "(\<forall>l. limit = Some l \<longrightarrow> length ss \<le> l) \<and> sorted (map newest_key ss) \<and>
    (\<forall>s\<in>set ss. session_of_file (listing_context p limit since extract incl) (root_files fs (scan_roots p)) s) \<and>
    (limit = None \<longrightarrow> (\<forall>(path, st)\<in>root_files fs (scan_roots p).
       wanted (listing_context p limit since extract incl) path st \<longrightarrow>
       (\<exists>s\<in>set ss. same_path path (ns_path s))))"
proof -
  let ?cx = "listing_context p limit since extract incl"
  let ?eq = "\<lambda>l r. same_path (ns_path l) (ns_path r)"
  obtain all where all: "collect_roots ?cx fs (scan_roots p) [] = Inr all"
    and ss: "Inr ss = (Inr ((case limit of None \<Rightarrow> id | Some l \<Rightarrow> take l) (dedup_by ?eq (sort_key newest_key all))) :: scan_error + native_source_session list)"
  proof -
    obtain all where "collect_roots ?cx fs (scan_roots p) [] = Inr all"
      using assms unfolding listing_unfold by (auto simp: and_then_Inr_iff simp del: collect_roots.simps)
    then show ?thesis using that assms by (simp add: listing_unfold)
  qed
  then have ss: "ss = (case limit of None \<Rightarrow> id | Some l \<Rightarrow> take l) (dedup_by ?eq (sort_key newest_key all))" by simp
  have sub: "subseq ss (sort_key newest_key all)"
    unfolding ss by (cases limit) (simp_all add: dedup_by_subseq listed_subseq)
  have "sorted (map newest_key ss)"
    by (rule subseq_sorted [OF subseq_map [OF sub]]) simp
  moreover have "s \<in> set all" if "s \<in> set ss" for s by (rule list_emb_set [OF sub that]) simp
  then have "\<forall>s\<in>set ss. session_of_file ?cx (root_files fs (scan_roots p)) s"
    using collect_roots_sound [OF all] by auto
  moreover have "\<exists>s\<in>set ss. same_path path (ns_path s)"
    if none: "limit = None" and here: "(path, st) \<in> root_files fs (scan_roots p)" "wanted ?cx path st" for path st
  proof -
    have "covers ?cx all (root_files fs (scan_roots p))"
      using collect_roots_complete [OF all] none by (simp add: listing_context_def)
    then obtain s where s: "s \<in> set all" "session_from_path ?cx path st = Inr s"
      using here by (auto simp: covers_def)
    then have "ns_path s = path" by (auto simp: session_from_path_def and_then_Inr_iff Let_def split: option.splits)
    moreover obtain y where "y \<in> set (dedup_by ?eq (sort_key newest_key all))" "?eq s y"
      using dedup_by_keeps [of ?eq s "sort_key newest_key all"] s(1) by (auto simp: reflp_def transp_def same_path_def)
    ultimately show ?thesis using none by (auto simp: ss)
  qed
  moreover have "length ss \<le> l" if "limit = Some l" for l using that by (simp add: ss)
  ultimately show ?thesis by fast
qed

definition sample_scan_profile :: local_profile where
  "sample_scan_profile = (profile_named ''generic'')\<lparr>lp_session_log_path := Some ''/h/logs''\<rparr>"

definition sample_scan_tree :: "string \<Rightarrow> fs_tree option" where
  "sample_scan_tree =
     [''/h/logs'' \<mapsto> T_Dir (Some [(''old.log'', T_File (Some \<lparr>fst_len = 1, fst_modified = Some 1\<rparr>)),
        (''new.log'', T_File (Some \<lparr>fst_len = 1, fst_modified = Some 9\<rparr>))])]"

definition listed_paths :: "(scan_error + native_source_session list) \<Rightarrow> string list" where
  "listed_paths r = (case r of Inl _ \<Rightarrow> [] | Inr ss \<Rightarrow> map ns_path ss)"

lemma sample_listing:
  "listed_paths (list_file_source_sessions_with_filter sample_scan_tree sample_scan_profile None None
      (\<lambda>_. Inr blank_metadata) (\<lambda>_. True)) = [''/h/logs/new.log'', ''/h/logs/old.log'']"
  by code_simp

theorem session_listing_witness:
  "\<exists>ss. list_file_source_sessions_with_filter sample_scan_tree sample_scan_profile None None
      (\<lambda>_. Inr blank_metadata) (\<lambda>_. True) = Inr ss \<and>
    map ns_path ss = [''/h/logs/new.log'', ''/h/logs/old.log''] \<and> sorted (map newest_key ss)"
proof -
  obtain ss where ss: "list_file_source_sessions_with_filter sample_scan_tree sample_scan_profile None None
      (\<lambda>_. Inr blank_metadata) (\<lambda>_. True) = Inr ss" "map ns_path ss = [''/h/logs/new.log'', ''/h/logs/old.log'']"
    using sample_listing by (auto simp: listed_paths_def split: sum.splits)
  have "sorted (map newest_key ss)" by (rule conjunct1 [OF conjunct2 [OF session_listing [OF ss(1)]]])
  then show ?thesis using ss by (intro exI [of _ ss] conjI)
qed

text \<open>
  With a limit the walk stops at the first files of the directory order, so the newest session can
  be missing; and where the evidence root contains the log root, files of equal time are listed
  twice, since only neighbours are compared.
\<close>

lemma limit_in_directory_order:
  "listed_paths (list_native_source_sessions sample_scan_tree sample_scan_profile (Some 1)) = [''/h/logs/old.log'']"
  by code_simp

definition sample_copied_tree :: "string \<Rightarrow> fs_tree option" where
  "sample_copied_tree =
     (let logs = T_Dir (Some [(''a.log'', T_File (Some \<lparr>fst_len = 1, fst_modified = Some 5\<rparr>)),
        (''b.log'', T_File (Some \<lparr>fst_len = 1, fst_modified = Some 5\<rparr>))])
      in [''/h/logs'' \<mapsto> logs, ''/h'' \<mapsto> T_Dir (Some [(''logs'', logs)])])"

lemma nested_roots_list_twice:
  "listed_paths (list_native_source_sessions sample_copied_tree
      (sample_scan_profile\<lparr>lp_evidence_root := Some ''/h''\<rparr>) None) =
   [''/h/logs/a.log'', ''/h/logs/b.log'', ''/h/logs/a.log'', ''/h/logs/b.log'']"
  by code_simp

end
