(* ===== verification/Known_Sources.thy ===== *)
theory Known_Sources imports Codex_Transcript Gemini_Transcript Source_Scan Setup begin

text \<open>
  The registry of agent tools (\<^verbatim>\<open>sources/traits.rs\<close>) and the liveness of their sessions
  (\<^verbatim>\<open>sources/liveness.rs\<close>). Three of the tools write transcripts that \<open>Claude_Transcript\<close>,
  \<open>Codex_Transcript\<close> and \<open>Gemini_Transcript\<close> read; the readers of the others query databases of
  those tools and are arguments, as is what the machine's disk holds.
\<close>

section \<open>The registry\<close>

datatype known_source =
    Claude_Code | Codex_App | Cursor_Ide | Cursor_Agent | Open_Code | Windsurf_App | Orgii_App | Gemini_Cli

definition known_source_names :: "(string \<times> known_source) list" where
  "known_source_names =
     [(''claude_code'', Claude_Code), (''codex_app'', Codex_App), (''cursor_ide'', Cursor_Ide),
      (''cursor_agent'', Cursor_Agent), (''opencode'', Open_Code), (''windsurf'', Windsurf_App),
      (''orgii'', Orgii_App), (''gemini'', Gemini_Cli)]"

definition known_source_from_name :: "string \<Rightarrow> known_source option" where
  "known_source_from_name name = map_of known_source_names name"

text \<open>
  The disk: the tree below a path, the text of a file that is UTF-8, the bytes of a file, and the
  home directory; and what the database readers answer.
\<close>

record source_machine =
  sm_tree :: "string \<Rightarrow> fs_tree option"
  sm_texts :: file_texts
  sm_bytes :: "string \<Rightarrow> string option"
  sm_home :: "string option"

datatype source_error = Listing_Failed scan_error | Reading_Failed transcript_error | Provider_Failed

type_synonym cursor_plan = "(instant, json) source_plan \<times> (instant, edge_role, json) keyed_plan_edge list"

record database_sources =
  dbs_sessions :: "known_source \<Rightarrow> local_profile \<Rightarrow> nat option \<Rightarrow> string option \<Rightarrow> native_source_session list option"
  dbs_chunks :: "known_source \<Rightarrow> string \<Rightarrow> string option \<Rightarrow> activity_chunk list option"
  dbs_plans :: "local_profile \<Rightarrow> cursor_plan list option"

section \<open>Liveness\<close>

text \<open>Two minutes, in nanoseconds, and the length of the tail that is read.\<close>

definition active_window :: instant where
  "active_window = 120 * 10 ^ 9"

definition tail_bytes :: nat where
  "tail_bytes = 16384"

definition within_active_window :: "instant \<Rightarrow> instant option \<Rightarrow> bool" where
  "within_active_window now modified_at =
     (case modified_at of None \<Rightarrow> False | Some t \<Rightarrow> now < t \<or> now - t \<le> active_window)"

definition tail_lines :: "string \<Rightarrow> string list" where
  "tail_lines content =
     (let start = length content - tail_bytes;
          buf = drop start content;
          ls = lines (from_utf8_lossy buf);
          ls = (if 0 < start \<and> ls \<noteq> [] then tl ls else ls)
      in if \<not> suffix [CHR 0x0A] buf \<and> ls \<noteq> [] then butlast ls else ls)"

definition tail_json :: "meta_env \<Rightarrow> string option \<Rightarrow> json list option" where
  "tail_json env content = map_option (\<lambda>c. List.map_filter (me_json_parse env) (tail_lines c)) content"

definition codex_marker :: "json \<Rightarrow> string option" where
  "codex_marker v =
     or_else (as_str (Option.bind (json_get ''payload'' v) (json_get ''type''))) (as_str (json_get ''type'' v))"

definition codex_markers :: "json list \<Rightarrow> nat option \<times> nat option" where
  "codex_markers values =
     fold (\<lambda>(i, v) (started, complete).
         if codex_marker v = Some ''task_started'' then (Some i, complete)
         else if codex_marker v = Some ''task_complete'' then (started, Some i)
         else (started, complete))
       (List.enumerate 0 values) (None, None)"

definition probe_codex :: "meta_env \<Rightarrow> string option \<Rightarrow> liveness option" where
  "probe_codex env content =
     map_option (\<lambda>values. case codex_markers values of
         (Some started, Some complete) \<Rightarrow> if complete < started then Active else Idle
       | (Some started, None) \<Rightarrow> Active
       | _ \<Rightarrow> Idle) (tail_json env content)"

fun claude_turn_state :: "json list \<Rightarrow> liveness option" where
  "claude_turn_state [] = None"
| "claude_turn_state (v # vs) =
     (let kind = as_str (json_get ''type'' v)
      in if kind = Some ''queue-operation'' then Some Active
         else if kind = Some ''assistant'' then
           (case Option.bind (json_get ''message'' v) (json_get ''stop_reason'') of
              None \<Rightarrow> Some Active
            | Some reason \<Rightarrow> Some (if reason \<noteq> JNull then Idle else Active))
         else if kind = Some ''user'' then Some Active
         else claude_turn_state vs)"

definition probe_claude :: "meta_env \<Rightarrow> string option \<Rightarrow> liveness option" where
  "probe_claude env content = Option.bind (tail_json env content) (claude_turn_state \<circ> rev)"

definition probe_liveness ::
  "meta_env \<Rightarrow> source_machine \<Rightarrow> instant \<Rightarrow> string \<Rightarrow> string \<Rightarrow> instant option \<Rightarrow> liveness" where
  "probe_liveness env mc now path app_id activity_at =
     (if \<not> within_active_window now activity_at then Idle
      else (case known_source_from_name app_id of
              Some Codex_App \<Rightarrow> unwrap_or (probe_codex env (sm_bytes mc path)) Active
            | Some Claude_Code \<Rightarrow> unwrap_or (probe_claude env (sm_bytes mc path)) Active
            | _ \<Rightarrow> Active))"

definition fill_liveness ::
  "meta_env \<Rightarrow> source_machine \<Rightarrow> (nat \<Rightarrow> instant) \<Rightarrow> native_source_session list \<Rightarrow> native_source_session list" where
  "fill_liveness env mc clock ss =
     map (\<lambda>(i, s). let activity = or_else (ns_session_updated_at s) (ns_modified_at s)
            in s\<lparr>ns_liveness := probe_liveness env mc (clock i) (ns_path s) (ns_source_app_id s) activity,
                 ns_last_activity := activity\<rparr>)
       (List.enumerate 0 ss)"

definition is_active :: "native_source_session \<Rightarrow> bool" where
  "is_active s \<longleftrightarrow> ns_liveness s = Active"

section \<open>Listing and reading by tool\<close>

definition scan_result :: "string \<Rightarrow> transcript_error + 'a \<Rightarrow> scan_error + 'a" where
  "scan_result path r = (case r of Inl e \<Rightarrow> Inl (Scan_Failed path) | Inr x \<Rightarrow> Inr x)"

definition listed :: "scan_error + 'a \<Rightarrow> source_error + 'a" where
  "listed r = (case r of Inl e \<Rightarrow> Inl (Listing_Failed e) | Inr x \<Rightarrow> Inr x)"

definition reading :: "transcript_error + 'a \<Rightarrow> source_error + 'a" where
  "reading r = (case r of Inl e \<Rightarrow> Inl (Reading_Failed e) | Inr x \<Rightarrow> Inr x)"

definition claude_list_sessions ::
  "meta_env \<Rightarrow> source_machine \<Rightarrow> local_profile \<Rightarrow> nat option \<Rightarrow> string option \<Rightarrow>
   scan_error + native_source_session list" where
  "claude_list_sessions env mc p limit since =
     and_then (list_file_source_sessions_with_filter (sm_tree mc) p limit (since_to_system_time env since)
         (\<lambda>path. scan_result path (claude_extract_metadata env (sm_texts mc) path)) is_claude_transcript_file)
       (\<lambda>ss. Inr (attach_subagent_ids_to_parents ss))"

definition codex_list_sessions ::
  "meta_env \<Rightarrow> source_machine \<Rightarrow> local_profile \<Rightarrow> nat option \<Rightarrow> string option \<Rightarrow>
   scan_error + native_source_session list" where
  "codex_list_sessions env mc p limit since =
     list_file_source_sessions (sm_tree mc) p limit (since_to_system_time env since)
       (\<lambda>path. scan_result path (codex_extract_metadata env (sm_texts mc) path))"

definition gemini_list_sessions ::
  "meta_env \<Rightarrow> source_machine \<Rightarrow> local_profile \<Rightarrow> nat option \<Rightarrow> string option \<Rightarrow>
   scan_error + native_source_session list" where
  "gemini_list_sessions env mc p limit since =
     list_file_source_sessions_with_filter (sm_tree mc) p limit (since_to_system_time env since)
       (\<lambda>path. scan_result path (gemini_extract_metadata env (sm_texts mc) path)) is_gemini_chat_file"

definition list_source_sessions_since ::
  "meta_env \<Rightarrow> source_machine \<Rightarrow> database_sources \<Rightarrow> (nat \<Rightarrow> instant) \<Rightarrow> local_profile \<Rightarrow> nat option \<Rightarrow>
   string option \<Rightarrow> source_error + native_source_session list" where
  "list_source_sessions_since env mc dbs clock p limit since =
     and_then
       (case known_source_from_name (lp_name p) of
          Some Claude_Code \<Rightarrow> listed (claude_list_sessions env mc p limit since)
        | Some Codex_App \<Rightarrow> listed (codex_list_sessions env mc p limit since)
        | Some Gemini_Cli \<Rightarrow> listed (gemini_list_sessions env mc p limit since)
        | Some k \<Rightarrow> ok_or (dbs_sessions dbs k p limit since) Provider_Failed
        | None \<Rightarrow> listed (list_native_source_sessions (sm_tree mc) p limit))
       (\<lambda>ss. Inr (fill_liveness env mc clock ss))"

definition list_profile_sessions ::
  "meta_env \<Rightarrow> source_machine \<Rightarrow> database_sources \<Rightarrow> (nat \<Rightarrow> instant) \<Rightarrow> local_profile \<Rightarrow> nat option \<Rightarrow>
   source_error + native_source_session list" where
  "list_profile_sessions env mc dbs clock p limit = list_source_sessions_since env mc dbs clock p limit None"

text \<open>\<open>fr\<close> draws the chunks' clock and uuids, \<open>drain\<close> the order of a hash map.\<close>

definition format_source_session_chunks ::
  "meta_env \<Rightarrow> source_machine \<Rightarrow> database_sources \<Rightarrow> (nat \<Rightarrow> fresh) \<Rightarrow> (string list \<Rightarrow> string list) \<Rightarrow>
   string \<Rightarrow> string \<Rightarrow> string option \<Rightarrow> source_error + activity_chunk list" where
  "format_source_session_chunks env mc dbs fr drain source_id session source_path =
     (case known_source_from_name source_id of
        Some Claude_Code \<Rightarrow> reading (claude_format_chunks env fr drain (sm_texts mc) session source_path)
      | Some Codex_App \<Rightarrow> reading (codex_format_chunks env fr drain (sm_texts mc) session source_path)
      | Some Gemini_Cli \<Rightarrow> reading (gemini_format_chunks env fr (sm_texts mc) session source_path)
      | Some k \<Rightarrow> ok_or (dbs_chunks dbs k session source_path) Provider_Failed
      | None \<Rightarrow> Inr [])"

definition list_profile_plans :: "database_sources \<Rightarrow> local_profile \<Rightarrow> source_error + cursor_plan list" where
  "list_profile_plans dbs p =
     (if known_source_from_name (lp_name p) = Some Cursor_Ide then ok_or (dbs_plans dbs p) Provider_Failed
      else Inr [])"

section \<open>The work scope of a session\<close>

text \<open>A leading dot is a component of its own.\<close>

definition component_count :: "string \<Rightarrow> nat" where
  "component_count p = length (path_components p) + (if p = ''.'' \<or> prefix ''./'' p then 1 else 0)"

definition is_too_shallow :: "string option \<Rightarrow> string \<Rightarrow> bool" where
  "is_too_shallow home p \<longleftrightarrow>
     (case home of Some h \<Rightarrow> same_path p h | None \<Rightarrow> False) \<or> component_count p < 2"

definition work_scope :: "source_machine \<Rightarrow> native_source_session \<Rightarrow> string option" where
  "work_scope mc s =
     filter_opt (\<lambda>p. \<not> is_too_shallow (sm_home mc) p) (or_else (ns_repo_path s) (ns_cwd s))"

section \<open>What the tail of a transcript tells\<close>

text \<open>Decoding goes line by line: a line feed ends every character that is cut off before it.\<close>

lemma utf8_step_before_newline: "a \<noteq> [] \<Longrightarrow> utf8_step (a @ CHR 0x0A # b) = utf8_step a"
  by (cases a; cases "tl a"; cases "tl (tl a)"; cases "tl (tl (tl a))")
    (simp_all add: utf8_step_def cont_byte_def Let_def)

lemma utf8_step_length: "a \<noteq> [] \<Longrightarrow> fst (utf8_step a) \<le> length a"
  by (cases a; cases "tl a"; cases "tl (tl a)"; cases "tl (tl (tl a))")
    (simp_all add: utf8_step_def cont_byte_def Let_def)

lemma lossy_newline: "from_utf8_lossy (a @ CHR 0x0A # b) = from_utf8_lossy a @ CHR 0x0A # from_utf8_lossy b"
proof (induction a rule: from_utf8_lossy.induct)
  case (1 a)
  show ?case
  proof (cases "a = []")
    case True
    have "utf8_step (CHR 0x0A # b) = (1, True)" by (simp add: utf8_step_def)
    then show ?thesis using True
      by (subst from_utf8_lossy.simps) (simp add: from_utf8_lossy.simps [of "[]"])
  next
    case False
    note step = utf8_step_before_newline [OF False, of b]
    have "drop (fst (utf8_step a)) (a @ CHR 0x0A # b) = drop (fst (utf8_step a)) a @ CHR 0x0A # b"
      "take (fst (utf8_step a)) (a @ CHR 0x0A # b) = take (fst (utf8_step a)) a"
      using utf8_step_length [OF False] by simp_all
    then have "from_utf8_lossy (a @ CHR 0x0A # b) =
        (if snd (utf8_step a) then take (fst (utf8_step a)) a else [CHR 0xEF, CHR 0xBF, CHR 0xBD]) @
        from_utf8_lossy (drop (fst (utf8_step a)) a @ CHR 0x0A # b)"
      using False by (subst from_utf8_lossy.simps) (simp add: step)
    also have "\<dots> = from_utf8_lossy a @ CHR 0x0A # from_utf8_lossy b"
      using "1.IH" [OF False] False by (simp add: from_utf8_lossy.simps [of a])
    finally show ?thesis .
  qed
qed

lemma lossy_set: "CHR 0x0A \<notin> set a \<Longrightarrow> CHR 0x0A \<notin> set (from_utf8_lossy a)"
proof (induction a rule: from_utf8_lossy.induct)
  case (1 a)
  then show ?case
    by (subst from_utf8_lossy.simps) (auto dest: in_set_takeD in_set_dropD)
qed

lemma lossy_empty [simp]: "from_utf8_lossy a = [] \<longleftrightarrow> a = []"
  by (subst from_utf8_lossy.simps) (use utf8_step_pos [of a] in auto)

definition ended :: "string \<Rightarrow> string" where
  "ended l = l @ [CHR 0x0A]"

lemma decoded_lines:
  assumes "\<forall>l\<in>set ls. CHR 0x0A \<notin> set l" "CHR 0x0A \<notin> set rest"
  shows "lines (from_utf8_lossy (concat (map ended ls) @ rest)) =
    map (strip_cr \<circ> from_utf8_lossy) ls @ (if rest = [] then [] else [from_utf8_lossy rest])"
  using assms(1)
proof (induction ls)
  case Nil
  have "split_on (CHR 0x0A) (from_utf8_lossy rest) = [from_utf8_lossy rest]"
    using lossy_set [OF assms(2)] by (rule split_on_no_sep)
  then show ?case by (simp add: lines_def Let_def)
next
  case (Cons l ls)
  then show ?case by (simp add: ended_def lossy_newline lines_step lossy_set)
qed

text \<open>Cutting off the front leaves a piece of a line, or nothing, in front of whole lines.\<close>

lemma drop_lines:
  "\<exists>segs rest' k. drop n (concat (map ended rs) @ rest) = concat (map ended segs) @ rest' \<and> k \<le> length rs \<and>
     (segs = drop k rs \<and> rest' = rest \<and> (n = 0 \<longrightarrow> k = 0) \<or>
      0 < n \<and> (\<exists>part r. segs = part # drop k rs \<and> rest' = rest \<and> r \<in> set rs \<and> suffix part r) \<or>
      0 < n \<and> segs = [] \<and> suffix rest' rest \<and> k = length rs)"
proof (induction rs arbitrary: n)
  case Nil
  show ?case by (rule exI [of _ "[]"], rule exI [of _ "drop n rest"], rule exI [of _ 0]) (cases n; simp add: suffix_drop)
next
  case (Cons r rs)
  show ?case
  proof (cases "n \<le> length r")
    case True
    then have d: "drop n (concat (map ended (r # rs)) @ rest) = concat (map ended (drop n r # rs)) @ rest"
      by (simp add: ended_def)
    show ?thesis
    proof (cases "n = 0")
      case True
      then show ?thesis
        by (intro exI [of _ "r # rs"] exI [of _ rest] exI [of _ 0]) simp
    next
      case False
      then show ?thesis unfolding d
        by (intro exI [of _ "drop n r # rs"] exI [of _ rest] exI [of _ "Suc 0"]) (auto simp: suffix_drop)
    qed
  next
    case False
    then have "n - length r = Suc (n - Suc (length r))" by simp
    with False have d: "drop n (concat (map ended (r # rs)) @ rest) = drop (n - Suc (length r)) (concat (map ended rs) @ rest)"
      by (simp add: ended_def)
    from Cons.IH [of "n - Suc (length r)"] obtain segs rest' k where
      "drop n (concat (map ended (r # rs)) @ rest) = concat (map ended segs) @ rest'" "k \<le> length rs"
      "segs = drop k rs \<and> rest' = rest \<or> (\<exists>part r. segs = part # drop k rs \<and> rest' = rest \<and> r \<in> set rs \<and> suffix part r) \<or>
        segs = [] \<and> suffix rest' rest \<and> k = length rs"
      unfolding d by blast
    then show ?thesis using False
      by (intro exI [of _ segs] exI [of _ rest'] exI [of _ "Suc k"]) auto
  qed
qed

lemma drop_lines_decoded:
  fixes n rs rest
  defines "buf \<equiv> drop n (concat (map ended rs) @ rest)"
  assumes "\<forall>r\<in>set rs. CHR 0x0A \<notin> set r" "CHR 0x0A \<notin> set rest"
  obtains segs rest' k where "buf = concat (map ended segs) @ rest'" "k \<le> length rs"
    "lines (from_utf8_lossy buf) = map (strip_cr \<circ> from_utf8_lossy) segs @ (if rest' = [] then [] else [from_utf8_lossy rest'])"
    "if n = 0 then segs = rs \<and> k = 0 else tl segs = drop k rs" "CHR 0x0A \<notin> set rest'"
proof -
  obtain segs rest' k where b: "buf = concat (map ended segs) @ rest'" "k \<le> length rs"
    and s: "segs = drop k rs \<and> rest' = rest \<and> (n = 0 \<longrightarrow> k = 0) \<or>
      0 < n \<and> (\<exists>part r. segs = part # drop k rs \<and> rest' = rest \<and> r \<in> set rs \<and> suffix part r) \<or>
      0 < n \<and> segs = [] \<and> suffix rest' rest \<and> k = length rs"
    using drop_lines [of n rs rest] unfolding buf_def by blast
  have plain: "CHR 0x0A \<notin> set l" if "suffix l r" "CHR 0x0A \<notin> set r" for l r :: string
    using that set_mono_suffix by blast
  have "\<forall>l\<in>set segs. \<exists>r\<in>set rs. suffix l r" "suffix rest' rest"
    using s by (elim disjE exE conjE; auto dest: in_set_dropD)+
  then have "\<forall>l\<in>set segs. CHR 0x0A \<notin> set l" "CHR 0x0A \<notin> set rest'"
    using plain assms(2,3) by blast+
  note dec = this(2) decoded_lines [OF this, folded b(1)]
  show ?thesis
  proof (cases "n = 0")
    case True
    then show ?thesis using b s dec by (intro that [of segs rest' 0]) auto
  next
    case False
    from s show ?thesis
    proof (elim disjE exE conjE)
      assume "segs = drop k rs"
      then have "tl segs = drop (min (Suc k) (length rs)) rs"
        using b(2) by (cases "k < length rs") (simp_all add: tl_drop drop_Suc min_def)
      then show ?thesis using False b dec by (intro that [of segs rest' "min (Suc k) (length rs)"]) auto
    qed (use False b dec in \<open>auto intro!: that [of segs rest' k]\<close>)
  qed
qed

text \<open>
  The lines read from the end of a growing transcript are complete records of it: the last ones, in
  order, never a piece of a record and never the record that is being written; at most 16 KiB of
  them, and all of them when the file is no longer than that.
\<close>

lemma tail_lines_complete:
  assumes "content = concat (map ended rs) @ rest"
    and "\<forall>r\<in>set rs. CHR 0x0A \<notin> set r \<and> utf8_valid r \<and> strip_cr r = r" "CHR 0x0A \<notin> set rest"
  shows "\<exists>k\<le>length rs. tail_lines content = drop k rs \<and>
    length (concat (map ended (tail_lines content))) \<le> tail_bytes \<and> (length content \<le> tail_bytes \<longrightarrow> k = 0)"
proof -
  define n where "n = length content - tail_bytes"
  obtain segs rest' k where seg: "drop n content = concat (map ended segs) @ rest'" "k \<le> length rs"
    "lines (from_utf8_lossy (drop n content)) =
       map (strip_cr \<circ> from_utf8_lossy) segs @ (if rest' = [] then [] else [from_utf8_lossy rest'])"
    "if n = 0 then segs = rs \<and> k = 0 else tl segs = drop k rs" "CHR 0x0A \<notin> set rest'"
    by (rule drop_lines_decoded [of rs rest n, folded assms(1)]) (use assms in auto)
  have nl: "suffix [CHR 0x0A] (drop n content) \<longleftrightarrow> rest' = [] \<and> segs \<noteq> []"
  proof (cases "rest' = []")
    case True
    then show ?thesis by (cases segs rule: rev_cases) (simp_all add: seg(1) ended_def suffix_def)
  next
    case False
    then have "last rest' \<noteq> CHR 0x0A" using seg(5) last_in_set by metis
    then show ?thesis using False by (auto simp: seg(1) suffix_def dest: arg_cong [of _ _ last])
  qed
  have valid: "map (strip_cr \<circ> from_utf8_lossy) (drop j rs) = drop j rs" for j
    by (rule map_idI) (use assms(2) in \<open>auto simp: from_utf8_lossy_valid dest: in_set_dropD\<close>)
  have maps: "n = 0 \<Longrightarrow> map (strip_cr \<circ> from_utf8_lossy) segs = drop k rs"
    "0 < n \<Longrightarrow> map (strip_cr \<circ> from_utf8_lossy) (tl segs) = drop k rs"
    using seg(4) valid [of 0] valid [of k] by simp_all
  have tail: "tail_lines content = drop k rs"
  proof (cases "n = 0")
    case True
    show ?thesis
      using maps(1) [OF True] nl seg(3) unfolding tail_lines_def n_def [symmetric] Let_def True by auto
  next
    case False
    show ?thesis
      using maps(2) nl seg(3) False unfolding tail_lines_def n_def [symmetric] Let_def
      by (cases segs) auto
  qed
  have "length (concat (map ended (drop k rs))) \<le> length (drop n content)"
    using seg(4) by (cases segs) (auto simp: seg(1) split: if_splits)
  then show ?thesis
    using seg(2,4) tail by (intro exI [of _ k]) (auto simp: n_def)
qed

section \<open>Open turns\<close>

definition task_markers :: "json list \<Rightarrow> string list" where
  "task_markers values =
     filter (\<lambda>m. m \<in> {''task_started'', ''task_complete''}) (List.map_filter codex_marker values)"

lemma task_markers_snoc:
  "task_markers (vs @ [v]) = task_markers vs @
     (case codex_marker v of Some m \<Rightarrow> if m \<in> {''task_started'', ''task_complete''} then [m] else [] | None \<Rightarrow> [])"
  by (auto simp: task_markers_def map_filter_append map_filter_simps split: option.split)

lemma codex_markers_snoc:
  "codex_markers (vs @ [v]) =
     (if codex_marker v = Some ''task_started'' then (Some (length vs), snd (codex_markers vs))
      else if codex_marker v = Some ''task_complete'' then (fst (codex_markers vs), Some (length vs))
      else codex_markers vs)"
  by (simp add: codex_markers_def enumerate_append_eq split_beta)

lemma codex_markers_last:
  "(\<forall>i\<in>set_option (fst (codex_markers vs)) \<union> set_option (snd (codex_markers vs)). i < length vs) \<and>
   (case codex_markers vs of
      (Some s, Some c) \<Rightarrow> task_markers vs \<noteq> [] \<and> last (task_markers vs) = (if c < s then ''task_started'' else ''task_complete'')
    | (Some s, None) \<Rightarrow> task_markers vs \<noteq> [] \<and> last (task_markers vs) = ''task_started''
    | (None, Some c) \<Rightarrow> task_markers vs \<noteq> [] \<and> last (task_markers vs) = ''task_complete''
    | (None, None) \<Rightarrow> task_markers vs = [])"
proof (induction vs rule: rev_induct)
  case Nil
  show ?case by (simp add: codex_markers_def task_markers_def map_filter_simps)
next
  case (snoc v vs)
  obtain s c where sc: "codex_markers vs = (s, c)" by fastforce
  show ?case
    using snoc by (cases s; cases c) (auto simp: codex_markers_snoc task_markers_snoc sc split: option.split)
qed

lemma codex_turn_open:
  "probe_codex env (Some content) = Some Active \<longleftrightarrow>
     (let ms = task_markers (List.map_filter (me_json_parse env) (tail_lines content))
      in ms \<noteq> [] \<and> last ms = ''task_started'')"
  using codex_markers_last [of "List.map_filter (me_json_parse env) (tail_lines content)"]
  by (auto simp: probe_codex_def tail_json_def Let_def split: option.splits prod.splits if_splits)


text \<open>
  The markers themselves may lie before the tail: a turn that has written more than 16 KiB since it
  started is reported as idle while it runs.
\<close>

lemma long_codex_turn_idle:
  assumes "content = concat (map ended (start # rs))"
    and "\<forall>r\<in>set (start # rs). CHR 0x0A \<notin> set r \<and> utf8_valid r \<and> strip_cr r = r"
    and "tail_bytes \<le> length (concat (map ended rs))"
    and "\<forall>r\<in>set rs. \<forall>v. me_json_parse env r = Some v \<longrightarrow> codex_marker v \<notin> Some ` {''task_started'', ''task_complete''}"
  shows "probe_codex env (Some content) = Some Idle"
proof -
  have "content = concat (map ended (start # rs)) @ []" using assms(1) by simp
  then have "\<exists>k. tail_lines content = drop k (start # rs) \<and>
      length (concat (map ended (tail_lines content))) \<le> tail_bytes"
    using tail_lines_complete assms(2) list.set(1) empty_iff by metis
  then obtain k where k: "tail_lines content = drop k (start # rs)"
      "length (concat (map ended (tail_lines content))) \<le> tail_bytes"
    by blast
  have "k \<noteq> 0" using k(2) assms(3) by (cases k) (simp_all add: k(1) ended_def)
  then have "set (tail_lines content) \<subseteq> set rs" using k(1) by (cases k) (auto dest: in_set_dropD)
  then have "codex_marker v \<notin> Some ` {''task_started'', ''task_complete''}"
    if "v \<in> set (List.map_filter (me_json_parse env) (tail_lines content))" for v
    using that assms(4) by (fastforce simp: set_map_filter)
  then have "task_markers (List.map_filter (me_json_parse env) (tail_lines content)) = []"
    by (auto simp: task_markers_def set_map_filter filter_empty_conv)
  then show ?thesis
    using codex_markers_last [of "List.map_filter (me_json_parse env) (tail_lines content)"]
    by (auto simp: probe_codex_def tail_json_def split: option.splits prod.splits)
qed

section \<open>A small example\<close>

definition sample_machine :: "string \<Rightarrow> source_machine" where
  "sample_machine content =
     \<lparr>sm_tree = (\<lambda>_. None), sm_texts = (\<lambda>_. Some content), sm_bytes = (\<lambda>_. Some content), sm_home = Some ''/h''\<rparr>"

definition marker_env :: meta_env where
  "marker_env = sample_lines_env
     [(''start'', JObj [(''type'', JStr ''task_started'')]), (''end'', JObj [(''type'', JStr ''task_complete'')])]"


end
