(* ===== verification/Source_Discovery.thy ===== *)
theory Source_Discovery imports Setup Source_Scan begin

text \<open>
  The sources of coding agents on a machine (\<^verbatim>\<open>source_discovery.rs\<close>): candidate paths below the
  home directory, per tool and operating system, of which those that exist are reported. The
  compilation target is an argument.
\<close>

datatype discovered_source_kind =
    Disc_Orgii | Disc_Cursor | Disc_Cursor_Agent | Disc_Claude_Code | Disc_Codex | Disc_Windsurf
  | Disc_Open_Code | Disc_Gemini

fun discovered_profile_name :: "discovered_source_kind \<Rightarrow> string" where
  "discovered_profile_name Disc_Orgii = ''orgii''"
| "discovered_profile_name Disc_Cursor = ''cursor_ide''"
| "discovered_profile_name Disc_Cursor_Agent = ''cursor_agent''"
| "discovered_profile_name Disc_Claude_Code = ''claude_code''"
| "discovered_profile_name Disc_Codex = ''codex_app''"
| "discovered_profile_name Disc_Windsurf = ''windsurf''"
| "discovered_profile_name Disc_Open_Code = ''opencode''"
| "discovered_profile_name Disc_Gemini = ''gemini''"

definition discovered_app_id :: "discovered_source_kind \<Rightarrow> string" where
  "discovered_app_id k = discovered_profile_name k"

fun discovered_source_label :: "discovered_source_kind \<Rightarrow> string" where
  "discovered_source_label Disc_Orgii = ''ORGII''"
| "discovered_source_label Disc_Cursor = ''Cursor''"
| "discovered_source_label Disc_Cursor_Agent = ''cursor-agent CLI''"
| "discovered_source_label Disc_Claude_Code = ''Claude Code''"
| "discovered_source_label Disc_Codex = ''Codex''"
| "discovered_source_label Disc_Windsurf = ''Windsurf''"
| "discovered_source_label Disc_Open_Code = ''OpenCode''"
| "discovered_source_label Disc_Gemini = ''Gemini''"

datatype discovered_path_kind =
    Evidence_Root | Session_Database | Cursor_State_Database | Session_Log_Root | History_Database

fun discovered_path_label :: "discovered_path_kind \<Rightarrow> string" where
  "discovered_path_label Evidence_Root = ''evidence_root''"
| "discovered_path_label Session_Database = ''session_db_path''"
| "discovered_path_label Cursor_State_Database = ''cursor_state_db_path''"
| "discovered_path_label Session_Log_Root = ''session_log_path''"
| "discovered_path_label History_Database = ''history_db_path''"

record discovered_source_path =
  dp_kind :: discovered_path_kind
  dp_path :: string

record discovered_source =
  ds_source :: discovered_source_kind
  ds_paths :: "discovered_source_path list"

datatype target_os = Mac_OS | Windows_OS | Other_OS

definition disc_path :: "discovered_path_kind \<Rightarrow> string \<Rightarrow> discovered_source_path" where
  "disc_path k p = \<lparr>dp_kind = k, dp_path = p\<rparr>"

definition unique_paths :: "string list \<Rightarrow> string list" where
  "unique_paths ps = fold (\<lambda>p u. if list_ex (same_path p) u then u else u @ [p]) ps []"

definition platform_data_roots :: "string \<Rightarrow> string \<Rightarrow> string list \<Rightarrow> string list" where
  "platform_data_roots home app others =
     concat (map (\<lambda>name. map (\<lambda>r. path_join (path_join home r) name)
       [''Library/Application Support'', ''AppData/Roaming'', ''AppData/Local'', ''.config'', ''.local/share''])
       (app # others))"

definition app_state_db_candidates :: "string \<Rightarrow> string \<Rightarrow> string list \<Rightarrow> string list" where
  "app_state_db_candidates home app fallback =
     map (\<lambda>r. path_join r ''User/globalStorage/state.vscdb'')
       (unique_paths (map (path_join home) fallback @ platform_data_roots home app []))"

definition opencode_roots :: "string \<Rightarrow> string list" where
  "opencode_roots home =
     unique_paths ([path_join home ''.opencode'', path_join home ''.local/share/opencode''] @
       platform_data_roots home ''opencode'' [''ai.opencode.desktop''])"

definition opencode_db_candidates :: "string \<Rightarrow> string list" where
  "opencode_db_candidates home = map (\<lambda>r. path_join r ''opencode.db'') (opencode_roots home)"

definition windsurf_state_db_candidates :: "string \<Rightarrow> string list" where
  "windsurf_state_db_candidates home = app_state_db_candidates home ''Windsurf'' [''.windsurf'']"

definition codex_session_dir_candidates :: "target_os \<Rightarrow> string \<Rightarrow> string list" where
  "codex_session_dir_candidates os home =
     map (\<lambda>r. path_join r ''sessions'')
       (path_join home ''.codex'' #
        (case os of
           Mac_OS \<Rightarrow> [path_join home ''Library/Application Support/codex'']
         | Windows_OS \<Rightarrow> [path_join home ''AppData/Roaming/codex'', path_join home ''AppData/Local/codex'']
         | Other_OS \<Rightarrow> [path_join home ''.config/codex'', path_join home ''.local/share/codex'']))"

definition cursor_state_db_path :: "target_os \<Rightarrow> string \<Rightarrow> string" where
  "cursor_state_db_path os home =
     path_join home
       (case os of
          Mac_OS \<Rightarrow> ''Library/Application Support/Cursor/User/globalStorage/state.vscdb''
        | Windows_OS \<Rightarrow> ''AppData/Roaming/Cursor/User/globalStorage/state.vscdb''
        | Other_OS \<Rightarrow> ''.config/Cursor/User/globalStorage/state.vscdb'')"

definition cursor_agent_chats_candidates :: "string \<Rightarrow> string list" where
  "cursor_agent_chats_candidates home =
     unique_paths [path_join home ''.cursor/chats'', path_join home ''.config/cursor/chats'']"

definition orgii_paths :: "string \<Rightarrow> discovered_source_path list" where
  "orgii_paths home =
     (let root = path_join home ''.orgii''
      in [disc_path Evidence_Root root,
          disc_path Session_Database (path_join root ''sessions.db''),
          disc_path Session_Log_Root (path_join root ''logs''),
          disc_path Evidence_Root (path_join root ''cursor-cli-profiles''),
          disc_path Evidence_Root (path_join root ''claude-code-cli-profiles''),
          disc_path Evidence_Root (path_join root ''codex-cli-profiles''),
          disc_path Evidence_Root (path_join root ''opencode-cli-profiles'')])"

definition claude_code_paths :: "string \<Rightarrow> discovered_source_path list" where
  "claude_code_paths home =
     [disc_path Evidence_Root (path_join home ''.claude''),
      disc_path Session_Log_Root (path_join (path_join home ''.claude'') ''projects'')]"

definition source_paths :: "target_os \<Rightarrow> string \<Rightarrow> discovered_source_kind \<Rightarrow> discovered_source_path list" where
  "source_paths os home k =
     (case k of
        Disc_Orgii \<Rightarrow> orgii_paths home
      | Disc_Cursor \<Rightarrow> [disc_path Cursor_State_Database (cursor_state_db_path os home)]
      | Disc_Cursor_Agent \<Rightarrow> map (disc_path Session_Log_Root) (cursor_agent_chats_candidates home)
      | Disc_Claude_Code \<Rightarrow> claude_code_paths home
      | Disc_Codex \<Rightarrow> map (disc_path Session_Log_Root) (codex_session_dir_candidates os home)
      | Disc_Windsurf \<Rightarrow> map (disc_path Cursor_State_Database) (windsurf_state_db_candidates home)
      | Disc_Open_Code \<Rightarrow> map (disc_path Session_Database) (opencode_db_candidates home)
      | Disc_Gemini \<Rightarrow> [disc_path Session_Log_Root (path_join (path_join home ''.gemini'') ''tmp'')])"

definition push_source ::
  "path_env \<Rightarrow> discovered_source_kind \<Rightarrow> discovered_source_path list \<Rightarrow> discovered_source list \<Rightarrow> discovered_source list" where
  "push_source pe k candidates sources =
     (let existing = filter (\<lambda>c. pe_exists pe (dp_path c)) candidates
      in if existing = [] then sources else sources @ [\<lparr>ds_source = k, ds_paths = existing\<rparr>])"

definition discovery_order :: "discovered_source_kind list" where
  "discovery_order =
     [Disc_Orgii, Disc_Cursor, Disc_Cursor_Agent, Disc_Claude_Code, Disc_Codex, Disc_Windsurf,
      Disc_Open_Code, Disc_Gemini]"

definition discover_sources :: "target_os \<Rightarrow> path_env \<Rightarrow> environment \<Rightarrow> discovered_source list" where
  "discover_sources os pe env =
     (case user_home_dir env of
        None \<Rightarrow> []
      | Some home \<Rightarrow> fold (\<lambda>k. push_source pe k (source_paths os home k)) discovery_order [])"

text \<open>
  Every source is reported at most once, in a fixed order, and exactly when one of its candidates
  exists, with the existing ones.
\<close>

lemma fold_push_source:
  "fold (\<lambda>k. push_source pe k (cands k)) ks acc =
     acc @ map (\<lambda>k. \<lparr>ds_source = k, ds_paths = filter (\<lambda>c. pe_exists pe (dp_path c)) (cands k)\<rparr>)
       (filter (\<lambda>k. \<exists>c\<in>set (cands k). pe_exists pe (dp_path c)) ks)"
  by (induction ks arbitrary: acc) (auto simp: push_source_def Let_def filter_empty_conv)

lemma discovered_exactly:
  assumes "user_home_dir env = Some home"
  shows "map ds_source (discover_sources os pe env) =
      filter (\<lambda>k. \<exists>c\<in>set (source_paths os home k). pe_exists pe (dp_path c)) discovery_order"
    and "\<forall>d\<in>set (discover_sources os pe env). ds_paths d \<noteq> [] \<and>
      ds_paths d = filter (\<lambda>c. pe_exists pe (dp_path c)) (source_paths os home (ds_source d))"
  using assms by (auto simp: discover_sources_def fold_push_source comp_def filter_empty_conv)

end
