(* ===== verification/History_Refresh.thy ===== *)
theory History_Refresh imports Known_Sources Session_Event Source_Discovery Source_Profiles begin

text \<open>
  The refresh that runs before a query (\<^verbatim>\<open>crates/cli/src/history.rs\<close>): it lists the sessions of
  every source, indexes the changed ones in the metadata database and appends an event for each to
  the local event store. A step returns the stores with its result, so an error leaves what was
  written before it. Clock, uuids and the disk may differ at every step.
\<close>

section \<open>Results that carry the stores\<close>

definition and_run :: "'s \<times> ('e + 'a) \<Rightarrow> ('a \<Rightarrow> 's \<Rightarrow> 's \<times> ('e + 'b)) \<Rightarrow> 's \<times> ('e + 'b)" where
  "and_run m f = (case m of (s, Inl e) \<Rightarrow> (s, Inl e) | (s, Inr x) \<Rightarrow> f x s)"

lemma and_run_simps [simp]:
  "and_run (s, Inl e) f = (s, Inl e)" "and_run (s, Inr x) f = f x s"
  by (simp_all add: and_run_def)

lemma and_run_Inr:
  "and_run m f = (s', Inr y) \<longleftrightarrow> (\<exists>s x. m = (s, Inr x) \<and> f x s = (s', Inr y))"
  by (cases m; cases "snd m") auto

datatype refresh_error =
    Refresh_Source source_error
  | Refresh_Db meta_error
  | Refresh_Store brick_error

type_synonym refresh_state = "meta_db \<times> db_file"

definition in_meta :: "meta_db \<times> (meta_error + 'a) \<Rightarrow> db_file \<Rightarrow> refresh_state \<times> (refresh_error + 'a)" where
  "in_meta m f = (case m of (db, Inl e) \<Rightarrow> ((db, f), Inl (Refresh_Db e)) | (db, Inr x) \<Rightarrow> ((db, f), Inr x))"

definition from_meta :: "meta_error + 'a \<Rightarrow> refresh_state \<Rightarrow> refresh_state \<times> (refresh_error + 'a)" where
  "from_meta r st = (st, case r of Inl e \<Rightarrow> Inl (Refresh_Db e) | Inr x \<Rightarrow> Inr x)"

definition from_source :: "source_error + 'a \<Rightarrow> refresh_state \<Rightarrow> refresh_state \<times> (refresh_error + 'a)" where
  "from_source r st = (st, case r of Inl e \<Rightarrow> Inl (Refresh_Source e) | Inr x \<Rightarrow> Inr x)"

text \<open>
  What a refresh of one profile draws from outside. \<open>re_disk\<close> is the disk at the check of the parser
  version (0), at the listing (1) and at the \<open>j\<close>-th session (\<open>j + 2\<close>); the other functions of two
  numbers count the readings within the \<open>j\<close>-th session.
\<close>

record refresh_env =
  re_meta :: meta_env
  re_disk :: "nat \<Rightarrow> source_machine"
  re_dbs :: database_sources
  re_uuid5 :: "string \<Rightarrow> uuid"
  re_drain :: "string list \<Rightarrow> string list"
  re_begun :: instant
  re_finished :: instant
  re_refreshed :: instant
  re_roots :: "nat \<Rightarrow> instant"
  re_plans :: "nat \<Rightarrow> instant"
  re_check_probe :: "nat \<Rightarrow> instant"
  re_list_probe :: "nat \<Rightarrow> instant"
  re_now :: "nat \<Rightarrow> nat \<Rightarrow> instant"
  re_chunk :: "nat \<Rightarrow> nat \<Rightarrow> fresh"
  re_event :: "nat \<Rightarrow> fresh"
  re_uuid :: "nat \<Rightarrow> uuid"
  re_error_text :: "refresh_error \<Rightarrow> string"

section \<open>Profiles of discovered sources\<close>

definition first_path :: "(discovered_path_kind \<Rightarrow> bool) \<Rightarrow> discovered_source \<Rightarrow> string option" where
  "first_path wanted_kind src = map_option dp_path (find (\<lambda>p. wanted_kind (dp_kind p)) (ds_paths src))"

definition profile_from_discovered_source :: "discovered_source \<Rightarrow> local_profile" where
  "profile_from_discovered_source src =
     \<lparr>lp_name = discovered_profile_name (ds_source src), lp_app_id = Some (discovered_app_id (ds_source src)),
      lp_actor_id = None, lp_actor_type = None, lp_store_root = None,
      lp_session_db_path = first_path (\<lambda>k. k = Session_Database \<or> k = History_Database) src,
      lp_session_log_path = first_path (\<lambda>k. k = Session_Log_Root) src,
      lp_evidence_root = first_path (\<lambda>k. k = Evidence_Root \<or> k = Session_Log_Root) src,
      lp_cursor_state_db_path = first_path (\<lambda>k. k = Cursor_State_Database) src,
      lp_default_full_evidence_upload = None, lp_notes = Some ''Discovered by brick source scan''\<rparr>"

definition source_actor :: "local_profile \<Rightarrow> actor_ref" where
  "source_actor p =
     \<lparr>actor_type = unwrap_or (lp_actor_type p) Agent,
      actor_id = unwrap_or (lp_actor_id p) (unwrap_or (lp_app_id p) (lp_name p)),
      display_name = or_else (lp_app_id p) (Some (lp_name p))\<rparr>"

section \<open>The row of a listed session\<close>

definition source_session_metadata :: "local_profile \<Rightarrow> native_source_session \<Rightarrow> json option" where
  "source_session_metadata p s =
     (let base = bt_of_list [(''app_id'', JStr (ns_source_app_id s)), (''actor_id'', enc_opt JStr (lp_actor_id p)),
            (''actor_type'', enc_opt enc_actor_type (lp_actor_type p))]
      in Some (JObj (case ns_metadata_json s of
           None \<Rightarrow> base
         | Some (JObj fs) \<Rightarrow> fold (\<lambda>(k, v). bt_insert k v) fs base
         | Some v \<Rightarrow> bt_insert ''sourceMetadata'' v base)))"

definition session_fingerprint :: "meta_env \<Rightarrow> native_source_session \<Rightarrow> string option" where
  "session_fingerprint env s =
     map_option (\<lambda>t. time_text env t @ '':'' @ show_nat (unat (ns_size_bytes s)) @ '':'' @ ns_parser_version s)
       (ns_modified_at s)"

definition source_session_upsert :: "meta_env \<Rightarrow> instant \<Rightarrow> local_profile \<Rightarrow> native_source_session \<Rightarrow> session_upsert" where
  "source_session_upsert env now p s =
     \<lparr>ss_source_id = lp_name p, ss_external_id = ns_external_session_id s, ss_title = ns_title s,
      ss_name = ns_title s, ss_source_path = Some (ns_path s),
      ss_source_uri = Some (''file://'' @ from_utf8_lossy (ns_path s)), ss_source_mtime = ns_modified_at s,
      ss_source_size = Some (ns_size_bytes s), ss_fingerprint = session_fingerprint env s,
      ss_parser_version = Some (ns_parser_version s), ss_session_created_at = ns_session_created_at s,
      ss_session_updated_at = ns_session_updated_at s, ss_model = ns_model s,
      ss_input_tokens = ns_input_tokens s, ss_output_tokens = ns_output_tokens s,
      ss_repo_path = ns_repo_path s, ss_branch = ns_branch s, ss_files_changed = ns_files_changed s,
      ss_lines_added = ns_lines_added s, ss_lines_removed = ns_lines_removed s,
      ss_touched_files = Some (enc_vec JStr (ns_touched_files s)), ss_listable = ns_listable s,
      ss_discovered_at = now,
      ss_last_seen_at = unwrap_or (or_else (ns_session_updated_at s) (ns_modified_at s)) now,
      ss_metadata = source_session_metadata p s\<rparr>"

text \<open>A row is up to date when its fingerprint and parser version are those of the file.\<close>

definition session_unchanged :: "session_record option \<Rightarrow> session_upsert \<Rightarrow> bool" where
  "session_unchanged existing u \<longleftrightarrow>
     (case (existing, ss_fingerprint u) of
        (Some r, Some fp) \<Rightarrow> ss_fingerprint r = Some fp \<and> ss_parser_version r = ss_parser_version u
      | _ \<Rightarrow> False)"

section \<open>The steps of one session\<close>

definition read_chunks :: "refresh_env \<Rightarrow> nat \<Rightarrow> session_upsert \<Rightarrow> source_error + activity_chunk list" where
  "read_chunks env j u =
     format_source_session_chunks (re_meta env) (re_disk env (j + 2)) (re_dbs env) (re_chunk env j) (re_drain env)
       (ss_source_id u) (ss_external_id u) (ss_source_path u)"

definition store_chunks ::
  "refresh_env \<Rightarrow> session_upsert \<Rightarrow> activity_chunk list \<Rightarrow> refresh_state \<Rightarrow> refresh_state \<times> (refresh_error + unit)" where
  "store_chunks env u chunks st =
     in_meta (upsert_source_session_chunks (re_meta env) (ss_source_id u) (ss_external_id u) chunks (fst st)) (snd st)"

definition source_session_chunks_or_backfill ::
  "refresh_env \<Rightarrow> nat \<Rightarrow> session_upsert \<Rightarrow> refresh_state \<Rightarrow> refresh_state \<times> (refresh_error + activity_chunk list)" where
  "source_session_chunks_or_backfill env j u st =
     and_run (from_meta (list_source_session_chunks (re_meta env) (fst st) (ss_source_id u) (ss_external_id u)) st)
       (\<lambda>rows st.
         let stored = List.map_filter (\<lambda>r. dec_activity_chunk (sk_raw r)) rows
         in if stored \<noteq> [] then (st, Inr stored)
            else and_run (from_source (read_chunks env j u) st) (\<lambda>chunks st.
              if chunks = [] then (st, Inr [])
              else and_run (store_chunks env u chunks st) (\<lambda>_ st. (st, Inr chunks))))"

definition index_session ::
  "refresh_env \<Rightarrow> nat \<Rightarrow> session_upsert \<Rightarrow> refresh_state \<Rightarrow> refresh_state \<times> (refresh_error + activity_chunk list)" where
  "index_session env j u st =
     and_run (in_meta (upsert_source_session (re_meta env) (re_now env j 1) u (fst st)) (snd st)) (\<lambda>_ st.
     and_run (from_source (read_chunks env j u) st) (\<lambda>chunks st.
     and_run (store_chunks env u chunks st) (\<lambda>_ st. (st, Inr chunks))))"

definition touch_session ::
  "refresh_env \<Rightarrow> nat \<Rightarrow> session_upsert \<Rightarrow> refresh_state \<Rightarrow> refresh_state \<times> (refresh_error + activity_chunk list)" where
  "touch_session env j u st =
     source_session_chunks_or_backfill env j u
       (fst (touch_source_session_last_seen (re_meta env) (re_now env j 1) (ss_source_id u) (ss_external_id u)
              (ss_last_seen_at u) (fst st)), snd st)"

definition append_session_event ::
  "refresh_env \<Rightarrow> nat \<Rightarrow> string \<Rightarrow> local_profile \<Rightarrow> session_record \<Rightarrow> activity_chunk list \<Rightarrow> refresh_state \<Rightarrow>
   refresh_state \<times> (refresh_error + unit)" where
  "append_session_event env j repo p r chunks st =
     (case append_event (me_services (re_meta env)) (re_now env j 2) repo
             (build_source_session_event_with_chunks (re_meta env) (re_uuid5 env) (re_event env j) (re_uuid env j)
                (source_actor p) r repo chunks) (snd st) of
        (db, Inl e) \<Rightarrow> ((fst st, Some db), Inl (Refresh_Store e))
      | (db, Inr _) \<Rightarrow> ((fst st, Some db), Inr ()))"

definition link_session_repo ::
  "refresh_env \<Rightarrow> nat \<Rightarrow> session_upsert \<Rightarrow> string option \<Rightarrow> refresh_state \<Rightarrow> refresh_state \<times> (refresh_error + unit)" where
  "link_session_repo env j u repo_path st =
     (case (filter_opt (\<lambda>q. q \<noteq> []) repo_path, read_source_session_id (fst st) (ss_source_id u) (ss_external_id u)) of
        (Some q, Some session) \<Rightarrow>
          and_run (in_meta (upsert_workspace_root (re_meta env) (re_now env j 3) q None (fst st)) (snd st)) (\<lambda>workspace st.
          and_run (in_meta (link_session_workspace_root session workspace (fst st)) (snd st)) (\<lambda>_ st.
          and_run (in_meta (upsert_git_repository (re_meta env) (re_now env j 4) (Some q) None None None (fst st)) (snd st)) (\<lambda>repo st.
          in_meta (link_session_git_repository session repo (fst st)) (snd st))))
      | _ \<Rightarrow> (st, Inr ()))"

record refresh_stats =
  rs_scanned :: nat
  rs_reindexed :: nat
  rs_skipped :: nat

definition refresh_session ::
  "refresh_env \<Rightarrow> nat \<Rightarrow> string \<Rightarrow> local_profile \<Rightarrow> native_source_session \<Rightarrow> refresh_state \<Rightarrow>
   refresh_state \<times> (refresh_error + bool)" where
  "refresh_session env j repo p s st =
     (let menv = re_meta env; u = source_session_upsert menv (re_now env j 0) p s
      in and_run (from_meta (read_source_session menv (fst st) (ss_source_id u) (ss_external_id u)) st) (\<lambda>existing st.
         let unchanged = session_unchanged existing u
         in and_run (if unchanged then touch_session env j u st else index_session env j u st) (\<lambda>chunks st.
         and_run (from_meta (read_source_session menv (fst st) (ss_source_id u) (ss_external_id u)) st) (\<lambda>record st.
         and_run (case record of
                    None \<Rightarrow> (st, Inr ())
                  | Some r \<Rightarrow> append_session_event env j repo p r chunks st) (\<lambda>_ st.
         and_run (link_session_repo env j u (map_option from_utf8_lossy (ns_repo_path s)) st) (\<lambda>_ st.
           (st, Inr unchanged)))))))"

fun refresh_sessions ::
  "refresh_env \<Rightarrow> nat \<Rightarrow> string \<Rightarrow> local_profile \<Rightarrow> native_source_session list \<Rightarrow> refresh_stats \<Rightarrow> refresh_state \<Rightarrow>
   refresh_state \<times> (refresh_error + refresh_stats)" where
  "refresh_sessions env j repo p [] stats st = (st, Inr stats)"
| "refresh_sessions env j repo p (s # ss) stats st =
     and_run (refresh_session env j repo p s st) (\<lambda>unchanged st.
       refresh_sessions env (Suc j) repo p ss
         (if unchanged then stats\<lparr>rs_scanned := Suc (rs_scanned stats), rs_skipped := Suc (rs_skipped stats)\<rparr>
          else stats\<lparr>rs_scanned := Suc (rs_scanned stats), rs_reindexed := Suc (rs_reindexed stats)\<rparr>) st)"

section \<open>One profile\<close>

text \<open>The greatest update time, compared as text.\<close>

definition max_updated_at :: "meta_env \<Rightarrow> native_source_session list \<Rightarrow> string option" where
  "max_updated_at env ss =
     fold (\<lambda>s best. case map_option (time_text env) (ns_session_updated_at s) of
         None \<Rightarrow> best
       | Some updated \<Rightarrow> (case best of Some current \<Rightarrow> if current < updated then Some updated else best
                                      | None \<Rightarrow> Some updated)) ss None"

fun record_roots ::
  "meta_env \<Rightarrow> (nat \<Rightarrow> instant) \<Rightarrow> nat \<Rightarrow> string \<Rightarrow> string list \<Rightarrow> refresh_state \<Rightarrow> refresh_state \<times> (refresh_error + unit)" where
  "record_roots menv now i source_id [] st = (st, Inr ())"
| "record_roots menv now i source_id (root # roots) st =
     and_run (in_meta (upsert_source_root menv (now i) source_id (Some (from_utf8_lossy root)) None (fst st)) (snd st))
       (\<lambda>_ st. record_roots menv now (Suc i) source_id roots st)"

definition record_source_roots :: "refresh_env \<Rightarrow> local_profile \<Rightarrow> refresh_state \<Rightarrow> refresh_state \<times> (refresh_error + unit)" where
  "record_source_roots env p st =
     record_roots (re_meta env) (re_roots env) 0 (lp_name p)
       (List.map_filter (\<lambda>r. r) [lp_session_log_path p, lp_evidence_root p, lp_session_db_path p, lp_cursor_state_db_path p]) st"

fun store_plans ::
  "meta_env \<Rightarrow> (nat \<Rightarrow> instant) \<Rightarrow> nat \<Rightarrow> cursor_plan list \<Rightarrow> refresh_state \<Rightarrow> refresh_state \<times> (refresh_error + unit)" where
  "store_plans menv now i [] st = (st, Inr ())"
| "store_plans menv now i ((plan, edges) # plans) st =
     and_run (in_meta (upsert_source_plan_with_edges menv (now i) plan edges (fst st)) (snd st))
       (\<lambda>_ st. store_plans menv now (Suc i) plans st)"

definition no_stats :: refresh_stats where
  "no_stats = \<lparr>rs_scanned = 0, rs_reindexed = 0, rs_skipped = 0\<rparr>"

definition refresh_single_profile ::
  "refresh_env \<Rightarrow> string \<Rightarrow> local_profile \<Rightarrow> nat option \<Rightarrow> string option \<Rightarrow> refresh_state \<Rightarrow>
   refresh_state \<times> (refresh_error + refresh_stats \<times> string option)" where
  "refresh_single_profile env repo p limit since st =
     and_run (record_source_roots env p st) (\<lambda>_ st.
     and_run (from_source (list_source_sessions_since (re_meta env) (re_disk env 1) (re_dbs env) (re_list_probe env)
                p limit since) st) (\<lambda>ss st.
     and_run (refresh_sessions env 0 repo p ss no_stats st) (\<lambda>stats st.
     and_run (from_source (list_profile_plans (re_dbs env) p) st) (\<lambda>plans st.
     and_run (store_plans (re_meta env) (re_plans env) 0 plans st) (\<lambda>_ st.
       (st, Inr (stats, max_updated_at (re_meta env) ss)))))))"

definition stats_json :: "refresh_stats \<Rightarrow> json" where
  "stats_json s =
     JObj (bt_of_list [(''scanned'', enc_u64 (of_nat (rs_scanned s))), (''reindexed'', enc_u64 (of_nat (rs_reindexed s))),
       (''skipped'', enc_u64 (of_nat (rs_skipped s)))])"

definition parser_changed ::
  "refresh_env \<Rightarrow> local_profile \<Rightarrow> meta_db \<Rightarrow> source_error + bool" where
  "parser_changed env p db =
     and_then (list_profile_sessions (re_meta env) (re_disk env 0) (re_dbs env) (re_check_probe env) p (Some 1)) (\<lambda>ss.
       Inr (case ss of [] \<Rightarrow> False | s # _ \<Rightarrow> source_has_parser_version_mismatch db (lp_name p) (ns_parser_version s)))"

definition refresh_profile ::
  "refresh_env \<Rightarrow> string \<Rightarrow> nat option \<Rightarrow> local_profile \<Rightarrow> refresh_state \<Rightarrow>
   refresh_state \<times> (refresh_error + refresh_stats)" where
  "refresh_profile env repo limit p st =
     (let menv = re_meta env; (db1, scan) = begin_source_scan menv (re_begun env) (lp_name p) (fst st)
      in and_run (from_source (parser_changed env p db1) (db1, snd st)) (\<lambda>changed st.
         let since = (if changed then None else Option.bind (get_source_watermark (fst st) (lp_name p)) fst)
         in case refresh_single_profile env repo p limit since st of
              ((db, f), Inr (stats, max_updated)) \<Rightarrow>
                ((set_source_watermark (lp_name p) max_updated (time_text menv (re_refreshed env))
                    (finish_source_scan menv (re_finished env) scan Scan_Completed (Some (stats_json stats)) db), f),
                 Inr stats)
            | ((db, f), Inl e) \<Rightarrow>
                ((finish_source_scan menv (re_finished env) scan Scan_Error
                    (Some (JObj (bt_of_list [(''error'', JStr (re_error_text env e))]))) db, f), Inl e)))"

definition merge_stats :: "refresh_stats \<Rightarrow> refresh_stats \<Rightarrow> refresh_stats" where
  "merge_stats a b =
     \<lparr>rs_scanned = rs_scanned a + rs_scanned b, rs_reindexed = rs_reindexed a + rs_reindexed b,
      rs_skipped = rs_skipped a + rs_skipped b\<rparr>"

section \<open>All profiles\<close>

fun refresh_profiles_to_metadata ::
  "(nat \<Rightarrow> refresh_env) \<Rightarrow> nat \<Rightarrow> string \<Rightarrow> nat option \<Rightarrow> local_profile list \<Rightarrow> refresh_stats \<Rightarrow> refresh_state \<Rightarrow>
   refresh_state \<times> (refresh_error + refresh_stats)" where
  "refresh_profiles_to_metadata envs i repo limit [] totals st = (st, Inr totals)"
| "refresh_profiles_to_metadata envs i repo limit (p # ps) totals st =
     and_run (refresh_profile (envs i) repo limit p st) (\<lambda>stats st.
       refresh_profiles_to_metadata envs (Suc i) repo limit ps (merge_stats totals stats) st)"

text \<open>Whole seconds since the last refresh are at least ten exactly when ten seconds have passed.\<close>

definition auto_refresh_throttle_secs :: int where
  "auto_refresh_throttle_secs = 10"

definition source_index_refresh_limit :: nat where
  "source_index_refresh_limit = 100"

definition refresh_due :: "meta_env \<Rightarrow> instant \<Rightarrow> meta_db \<Rightarrow> local_profile \<Rightarrow> bool" where
  "refresh_due menv now db p =
     (case get_source_watermark db (lp_name p) of
        None \<Rightarrow> True
      | Some (_, refreshed) \<Rightarrow>
          (case me_parse_time menv refreshed of
             None \<Rightarrow> True
           | Some t \<Rightarrow> auto_refresh_throttle_secs * 10 ^ 9 \<le> now - t))"

definition refresh_repo_sources ::
  "(nat \<Rightarrow> refresh_env) \<Rightarrow> meta_env \<Rightarrow> instant \<Rightarrow> path_env \<Rightarrow> environment \<Rightarrow> target_os \<Rightarrow> string \<Rightarrow> local_profile list \<Rightarrow>
   refresh_state \<Rightarrow> refresh_state \<times> (refresh_error + unit)" where
  "refresh_repo_sources envs menv now pe env os root registered st =
     (let profiles = (if registered = [] then map profile_from_discovered_source (discover_sources os pe env) else registered);
          due = filter (refresh_due menv now (fst st)) profiles
      in if due = [] then (st, Inr ())
         else and_run (refresh_profiles_to_metadata envs 0 (repo_id_for_root (me_services menv) pe root)
                (Some source_index_refresh_limit) due no_stats st) (\<lambda>_ st. (st, Inr ())))"

end
