(* ===== verification/Refresh_Props.thy ===== *)
theory Refresh_Props imports History_Refresh begin

text \<open>
  What a refresh does to the two stores, in every outcome. A relation between the states before and
  after that every single store operation satisfies is satisfied by the whole refresh: that is the
  locale; its interpretations are the invariants, the growth of the event log, and the rows a
  session's steps leave alone.
\<close>

section \<open>Relations that every step satisfies\<close>

definition same_sessions :: "meta_db \<Rightarrow> meta_db \<Rightarrow> bool" where
  "same_sessions db db' \<longleftrightarrow> md_sessions db' = md_sessions db"

lemma insert_chunks_sessions: "insert_chunks env session n cs db = Inr db' \<Longrightarrow> md_sessions db' = md_sessions db"
  by (induction env session n cs db rule: insert_chunks.induct) (auto split: option.splits if_splits)

lemma linked_tables_sessions:
  "same_sessions db (fst (upsert_source_session_chunks env a b cs db))"
  "same_sessions db (fst (upsert_workspace_root env now w uri db))"
  "same_sessions db (fst (upsert_git_repository env now path uri remote commit_id db))"
  "same_sessions db (fst (upsert_source_root env now src path uri db))"
  "same_sessions db (fst (link_session_workspace_root i k db))"
  "same_sessions db (fst (link_session_git_repository i k db))"
  "same_sessions db (fst (begin_source_scan env now src db))"
  "same_sessions db (finish_source_scan env now i st j db)"
  "same_sessions db (set_source_watermark src l t' db)"
  by (auto simp: same_sessions_def upsert_source_session_chunks_def upsert_workspace_root_def
      upsert_git_repository_def upsert_source_root_def link_session_workspace_root_def
      link_session_git_repository_def begin_source_scan_def finish_source_scan_def set_source_watermark_def
      Let_def insert_chunks_sessions split: option.splits sum.splits)

lemma plan_sessions: "same_sessions db (fst (upsert_source_plan_with_edges env now p es db))"
  by (auto simp: same_sessions_def upsert_source_plan_with_edges_def Let_def split: option.splits sum.splits)

lemmas untouched_sessions = linked_tables_sessions plan_sessions

locale refresh_relation =
  fixes R :: "refresh_state \<Rightarrow> refresh_state \<Rightarrow> bool" and may_change :: "string \<times> string \<Rightarrow> bool" and repo :: string
  assumes refl: "R st st"
    and trans: "R st st1 \<Longrightarrow> R st1 st2 \<Longrightarrow> R st st2"
    and upsert: "may_change (ss_source_id u, ss_external_id u) \<Longrightarrow>
      R (db, f) (fst (upsert_source_session menv now u db), f)"
    and touch: "may_change (a, b) \<Longrightarrow> R (db, f) (fst (touch_source_session_last_seen menv now a b t db), f)"
    and other: "meta_step menv db db' \<Longrightarrow> same_sessions db db' \<Longrightarrow> R (db, f) (db', f)"
    and event: "te_event_type ev = SourceSessionObserved \<Longrightarrow> te_repo_id ev = Some repo \<Longrightarrow>
      R (db, f) (db, Some (fst (append_event svc now repo ev f)))"
begin

lemma and_run_moves:
  assumes "R st (fst m)" "\<And>x s. m = (s, Inr x) \<Longrightarrow> R st s \<Longrightarrow> R s (fst (f x s))"
  shows "R st (fst (and_run m f))"
proof -
  obtain s r where m: "m = (s, r)" by fastforce
  show ?thesis using assms by (cases r) (auto simp: m intro: trans)
qed

lemma pure_moves [simp]: "R st (fst (from_meta r st))" "R st (fst (from_source r' st))" "R st (fst (st, r''))"
  by (simp_all add: from_meta_def from_source_def refl)

lemma in_meta_moves: "R st (fst m, f) \<Longrightarrow> R st (fst (in_meta m f))"
  by (cases m; cases "snd m") (auto simp: in_meta_def)

lemma other_moves: "meta_step menv (fst st) (fst m) \<Longrightarrow> same_sessions (fst st) (fst m) \<Longrightarrow> R st (fst (in_meta m (snd st)))"
  by (rule in_meta_moves) (use other [of menv "fst st" "fst m" "snd st"] in simp)

lemma store_chunks_moves: "R st (fst (store_chunks env u chunks st))"
  unfolding store_chunks_def
  by (rule other_moves [OF meta_step.chunks untouched_sessions(1)]) (rule prod.collapse [symmetric])

lemma index_session_moves:
  "may_change (ss_source_id u, ss_external_id u) \<Longrightarrow> R st (fst (index_session env j u st))"
  unfolding index_session_def
  by (intro and_run_moves in_meta_moves store_chunks_moves pure_moves)
    (use upsert [of u "fst st" "snd st"] in simp)

lemma touch_session_moves:
  assumes "may_change (ss_source_id u, ss_external_id u)"
  shows "R st (fst (touch_session env j u st))"
proof -
  have moved: "R st (fst (source_session_chunks_or_backfill env j u st))" for st
    unfolding source_session_chunks_or_backfill_def Let_def
    by (auto intro!: and_run_moves store_chunks_moves simp: refl)
  show ?thesis
    unfolding touch_session_def by (rule trans [OF _ moved]) (use touch [OF assms, of "fst st" "snd st"] in simp)
qed

lemma append_session_event_moves: "R st (fst (append_session_event env j repo p r chunks st))"
proof -
  let ?ev = "build_source_session_event_with_chunks (re_meta env) (re_uuid5 env) (re_event env j) (re_uuid env j)
                (source_actor p) r repo chunks"
  have "R (fst st, snd st) (fst st, Some (fst (append_event (me_services (re_meta env)) (re_now env j 2) repo ?ev (snd st))))"
    by (rule event) simp_all
  then show ?thesis by (auto simp: append_session_event_def split: prod.split sum.split)
qed

lemma link_session_repo_moves: "R st (fst (link_session_repo env j u path st))"
proof -
  have "R st (fst (and_run (in_meta (upsert_workspace_root (re_meta env) (re_now env j 3) q None (fst st)) (snd st)) (\<lambda>workspace st.
          and_run (in_meta (link_session_workspace_root session workspace (fst st)) (snd st)) (\<lambda>_ st.
          and_run (in_meta (upsert_git_repository (re_meta env) (re_now env j 4) (Some q) None None None (fst st)) (snd st)) (\<lambda>repo st.
          in_meta (link_session_git_repository session repo (fst st)) (snd st))))))" for q session
    by (intro and_run_moves other_moves untouched_sessions)
      (rule meta_step.intros, rule prod.collapse [symmetric])+
  then show ?thesis by (simp add: link_session_repo_def refl split: option.split)
qed

lemma refresh_session_moves:
  assumes "may_change (lp_name p, ns_external_session_id s)"
  shows "R st (fst (refresh_session env j repo p s st))"
proof -
  have key: "may_change (ss_source_id (source_session_upsert menv now p s), ss_external_id (source_session_upsert menv now p s))"
    for menv now
    using assms by (simp add: source_session_upsert_def)
  show ?thesis
    unfolding refresh_session_def Let_def
    by (intro and_run_moves link_session_repo_moves pure_moves)
      (auto intro: touch_session_moves [OF key] index_session_moves [OF key] append_session_event_moves
        simp: refl split: option.split)
qed

lemma refresh_sessions_moves:
  "\<forall>s\<in>set ss. may_change (lp_name p, ns_external_session_id s) \<Longrightarrow>
   R st (fst (refresh_sessions env j repo p ss stats st))"
proof (induction ss arbitrary: j stats st)
  case (Cons s ss)
  show ?case unfolding refresh_sessions.simps
    by (rule and_run_moves) (use refresh_session_moves Cons in auto)
qed (simp add: refl)

lemma record_roots_moves: "R st (fst (record_roots menv now i src roots st))"
proof (induction roots arbitrary: i st)
  case (Cons root roots)
  show ?case unfolding record_roots.simps
    by (rule and_run_moves [OF other_moves [OF meta_step.root untouched_sessions(4)] Cons.IH]) (rule prod.collapse [symmetric])
qed (simp add: refl)

lemma store_plans_moves: "R st (fst (store_plans menv now i plans st))"
proof (induction plans arbitrary: i st)
  case (Cons x plans)
  obtain plan es where x: "x = (plan, es)" by fastforce
  show ?case unfolding x store_plans.simps
    by (rule and_run_moves [OF other_moves [OF meta_step.plan plan_sessions] Cons.IH]) (rule prod.collapse [symmetric])
qed (simp add: refl)

lemma refresh_single_profile_moves:
  assumes "\<And>ss s. list_source_sessions_since (re_meta env) (re_disk env 1) (re_dbs env) (re_list_probe env) p limit since = Inr ss \<Longrightarrow>
      s \<in> set ss \<Longrightarrow> may_change (lp_name p, ns_external_session_id s)"
  shows "R st (fst (refresh_single_profile env repo p limit since st))"
  unfolding refresh_single_profile_def record_source_roots_def
  by (intro and_run_moves record_roots_moves store_plans_moves pure_moves)
    (auto intro!: refresh_sessions_moves assms simp: from_source_def simp del: One_nat_def split: sum.splits)

text \<open>When every session may change, so may all of a refresh.\<close>

lemma refresh_profile_moves:
  assumes "\<And>k. may_change k"
  shows "R st (fst (refresh_profile env repo limit p st))"
proof -
  let ?menv = "re_meta env"
  obtain db1 scan where begun: "begin_source_scan ?menv (re_begun env) (lp_name p) (fst st) = (db1, scan)" by fastforce
  have "R (fst st, snd st) (db1, snd st)"
    using other [OF meta_step.begin_scan [OF begun]] untouched_sessions(7) [of "fst st"] by (metis begun fst_conv)
  moreover have "R st2 (fst (case refresh_single_profile env repo p limit since st2 of
      ((db, f), Inr (stats, max_updated)) \<Rightarrow>
        ((set_source_watermark (lp_name p) max_updated (time_text ?menv (re_refreshed env))
            (finish_source_scan ?menv (re_finished env) scan Scan_Completed (Some (stats_json stats)) db), f), Inr stats)
    | ((db, f), Inl e) \<Rightarrow>
        ((finish_source_scan ?menv (re_finished env) scan Scan_Error
            (Some (JObj (bt_of_list [(''error'', JStr (re_error_text env e))]))) db, f), Inl e)))" for since st2
  proof -
    obtain db f r where run: "refresh_single_profile env repo p limit since st2 = ((db, f), r)" by (metis surj_pair)
    have "R st2 (db, f)"
      using refresh_single_profile_moves [of env p limit since st2] assms by (metis run fst_conv)
    then have finished: "R st2 (finish_source_scan ?menv t i status j db, f)" for t i status j
      by (rule trans [OF _ other [OF meta_step.finish_scan untouched_sessions(8)]])
    then have "R st2 (set_source_watermark a l t' (finish_source_scan ?menv t i status j db), f)" for a l t' t i status j
      by (rule trans [OF _ other [OF meta_step.set_watermark untouched_sessions(9)]])
    with finished show ?thesis by (cases r) (auto simp: run split: prod.split)
  qed
  ultimately show ?thesis
    unfolding refresh_profile_def Let_def begun prod.case prod.collapse
    by (elim trans) (intro and_run_moves; simp add: from_source_def refl)
qed

lemma refresh_profiles_moves:
  assumes "\<And>k. may_change k"
  shows "R st (fst (refresh_profiles_to_metadata envs i repo limit ps totals st))"
proof (induction ps arbitrary: i totals st)
  case (Cons p ps)
  show ?case unfolding refresh_profiles_to_metadata.simps
    by (rule and_run_moves [OF refresh_profile_moves Cons.IH]) (rule assms)
qed (simp add: refl)

end

section \<open>The stores stay consistent\<close>

definition stores_ok :: "refresh_state \<Rightarrow> bool" where
  "stores_ok st \<longleftrightarrow> meta_inv (fst st) \<and> db_inv (init_db (snd st))"

text \<open>The log has grown by rows of one repository only.\<close>

definition log_grown :: "string \<Rightarrow> db_file \<Rightarrow> db_file \<Rightarrow> bool" where
  "log_grown repo f f' \<longleftrightarrow>
     (\<exists>added. db_events (init_db f') = db_events (init_db f) @ added \<and> (\<forall>row\<in>set added. row_repo_id row = repo))"

lemma append_grows:
  assumes "te_repo_id ev = Some repo"
  shows "log_grown repo f (Some (fst (append_event svc now repo ev f)))"
proof -
  have "row_repo_id (event_row_of svc now repo (stamp_repo repo ev) compact) = repo" for compact
    by (simp add: event_row_of_def assms)
  then show ?thesis
    by (auto simp: log_grown_def append_event_def Let_def insert_or_ignore_def init_db_def [of "Some _"] split: sum.split)
qed

definition refresh_moves :: "string \<Rightarrow> refresh_state \<Rightarrow> refresh_state \<Rightarrow> bool" where
  "refresh_moves repo st st' \<longleftrightarrow> (stores_ok st \<longrightarrow> stores_ok st') \<and> log_grown repo (snd st) (snd st')"

interpretation kept: refresh_relation "refresh_moves repo" "\<lambda>_. True" repo for repo
proof
  show "refresh_moves repo st st" for st by (simp add: refresh_moves_def log_grown_def)
  show "refresh_moves repo st st2" if "refresh_moves repo st st1" "refresh_moves repo st1 st2" for st st1 st2
    using that by (fastforce simp: refresh_moves_def log_grown_def)
  have meta: "refresh_moves repo (db, f) (db', f)" if "meta_step menv db db'" for db db' f menv
    using that by (auto simp: refresh_moves_def log_grown_def stores_ok_def dest: meta_step_inv)
  show "refresh_moves repo (db, f) (fst (upsert_source_session menv now u db), f)" for db f menv now u
    by (rule meta [OF meta_step.session]) (rule prod.collapse [symmetric])
  show "refresh_moves repo (db, f) (fst (touch_source_session_last_seen menv now a b t db), f)" for db f menv now a b t
    by (rule meta [OF meta_step.touch]) (rule prod.collapse [symmetric])
  show "refresh_moves repo (db, f) (db', f)" if "meta_step menv db db'" for menv db db' f
    using that by (rule meta)
  show "refresh_moves repo (db, f) (db, Some (fst (append_event svc now repo ev f)))"
    if "te_repo_id ev = Some repo" for db f svc now and ev :: trace_event
    using append_grows [OF that] append_event_inv [of f svc now repo ev]
    by (auto simp: refresh_moves_def stores_ok_def init_db_def [of "Some _"] prod_eq_iff)
qed

text \<open>
  C22:
  Whatever a refresh does and however it ends, the metadata database and the event store stay
  consistent, no stored event changes or goes away, and every event it adds is filed under the
  repository the command runs in, wherever the session worked.
\<close>

theorem refresh_keeps_stores:
  assumes "refresh_profiles_to_metadata envs i repo limit ps totals st = (st', r)"
    and "meta_inv (fst st)" "db_inv (init_db (snd st))"
  shows "meta_inv (fst st') \<and> db_inv (init_db (snd st')) \<and>
    (\<exists>added. db_events (init_db (snd st')) = db_events (init_db (snd st)) @ added \<and>
       (\<forall>row\<in>set added. row_repo_id row = repo))"
  using kept.refresh_profiles_moves [of repo st envs i limit ps totals] assms
  by (simp add: refresh_moves_def stores_ok_def log_grown_def)

section \<open>Every listed session is observed\<close>

text \<open>The row of a session stays, and known event ids stay known.\<close>

definition leaves_session :: "string \<times> string \<Rightarrow> refresh_state \<Rightarrow> refresh_state \<Rightarrow> bool" where
  "leaves_session k st st' \<longleftrightarrow>
     find_session (fst st') (fst k) (snd k) = find_session (fst st) (fst k) (snd k) \<and>
     (\<forall>i. event_exists i (snd st) \<longrightarrow> event_exists i (snd st'))"

lemma append_keeps_ids:
  "event_exists i f \<Longrightarrow> event_exists i (Some (fst (append_event svc now repo ev f)))"
  by (auto simp: event_exists_def append_event_def Let_def init_db_def insert_or_ignore_def
      split: option.splits sum.splits)

lemma append_event_known:
  "append_event svc now repo ev f = (db, Inr u) \<Longrightarrow> event_exists (te_event_id ev) (Some db)"
  by (auto simp: event_exists_def append_event_def Let_def insert_or_ignore_def split: sum.splits if_splits)

lemma upsert_other_session:
  assumes "(ss_source_id u, ss_external_id u) \<noteq> (a, b)"
  shows "find_session (fst (upsert_source_session menv now u db)) a b = find_session db a b"
proof -
  obtain db' r where up: "upsert_source_session menv now u db = (db', r)" by fastforce
  from upsert_session_cases [OF up] show ?thesis
  proof (elim disjE exE conjE)
    fix p assume p: "session_params menv u = Some p" and db': "db' = db\<lparr>md_sessions := sql_upsert session_key
        (\<lambda>r. session_row_of p (ss_created_at r) (time_text menv now))
        (session_row_of p (time_text menv now) (time_text menv now)) (md_sessions db)\<rparr>"
    show ?thesis unfolding up fst_conv db' by (rule read_source_session_other [OF p assms [symmetric]])
  qed (simp add: up)
qed

lemma find_map_same: "(\<And>x. P (h x) \<longleftrightarrow> P x) \<Longrightarrow> find P (map h xs) = map_option h (find P xs)"
  by (induction xs) simp_all

lemma touch_find:
  "find_session (fst (touch_source_session_last_seen menv now a b t db)) c d =
     map_option (\<lambda>(i, r). (i, if is_session a b r
            then r\<lparr>ss_last_seen_at := time_text menv t, ss_updated_at := time_text menv now\<rparr> else r)) (find_session db c d)"
  unfolding touch_source_session_last_seen_def find_session_def find_row_def
  by (simp add: split_beta) (rule find_map_same, simp add: split_beta is_session_def)

lemma touch_other_session:
  "(a, b) \<noteq> (c, d) \<Longrightarrow> find_session (fst (touch_source_session_last_seen menv now a b t db)) c d = find_session db c d"
  unfolding touch_find
  by (cases "find_session db c d") (auto simp: is_session_def find_session_def dest!: find_row_Some)

interpretation others: refresh_relation "leaves_session k" "\<lambda>k'. k' \<noteq> k" repo for k repo
proof
  show "leaves_session k st st" for st by (simp add: leaves_session_def)
  show "leaves_session k st st2" if "leaves_session k st st1" "leaves_session k st1 st2" for st st1 st2
    using that by (simp add: leaves_session_def)
  show "leaves_session k (db, f) (fst (upsert_source_session menv now u db), f)"
    if "(ss_source_id u, ss_external_id u) \<noteq> k" for u :: session_upsert and db f menv now
    using that upsert_other_session [of u "fst k" "snd k"] by (simp add: leaves_session_def)
  show "leaves_session k (db, f) (fst (touch_source_session_last_seen menv now a b t db), f)"
    if "(a, b) \<noteq> k" for a b db f menv now t
    using that touch_other_session [of a b "fst k" "snd k"] by (simp add: leaves_session_def)
  show "leaves_session k (db, f) (db', f)" if "same_sessions db db'" for db db' f
    using that by (simp add: leaves_session_def same_sessions_def find_session_def)
  show "leaves_session k (db, f) (db, Some (fst (append_event svc now repo ev f)))" for db f svc now and ev :: trace_event
    by (simp add: leaves_session_def append_keeps_ids)
qed

definition observed :: "meta_env \<Rightarrow> (string \<Rightarrow> uuid) \<Rightarrow> string \<times> string \<Rightarrow> refresh_state \<Rightarrow> bool" where
  "observed menv uuid5 k st \<longleftrightarrow>
     (\<exists>r. read_source_session menv (fst st) (fst k) (snd k) = Inr (Some r) \<and>
        event_exists (source_session_event_id uuid5 r) (snd st))"

lemma observed_kept: "leaves_session k st st' \<Longrightarrow> observed menv uuid5 k st \<Longrightarrow> observed menv uuid5 k st'"
  by (auto simp: observed_def leaves_session_def read_source_session_def)

lemma in_meta_Inr: "in_meta m f = (st', Inr x) \<longleftrightarrow> (\<exists>db. m = (db, Inr x) \<and> st' = (db, f))"
  by (auto simp: in_meta_def split: prod.splits sum.splits)

lemma from_meta_Inr: "from_meta r st = (st', Inr x) \<longleftrightarrow> st' = st \<and> r = Inr x"
  by (auto simp: from_meta_def split: sum.splits)

lemma from_source_Inr: "from_source r st = (st', Inr x) \<longleftrightarrow> st' = st \<and> r = Inr x"
  by (auto simp: from_source_def split: sum.splits)

lemmas run_Inr = and_run_Inr in_meta_Inr from_meta_Inr from_source_Inr

lemma store_chunks_sessions:
  "store_chunks env u chunks st = (st', Inr x) \<Longrightarrow> md_sessions (fst st') = md_sessions (fst st)"
  using untouched_sessions(1) [of "fst st" "re_meta env" "ss_source_id u" "ss_external_id u" chunks]
  by (auto simp: store_chunks_def run_Inr same_sessions_def)

text \<open>After the step that indexes or touches a session its row exists.\<close>

lemma indexed_row:
  assumes "index_session env j u st = (st', Inr chunks)"
  shows "find_session (fst st') (ss_source_id u) (ss_external_id u) \<noteq> None"
proof -
  obtain db r st2 y where up: "upsert_source_session (re_meta env) (re_now env j 1) u (fst st) = (db, Inr r)"
    and st2: "store_chunks env u chunks (db, snd st) = (st2, Inr y)" "st' = st2"
    using assms by (auto simp: index_session_def run_Inr)
  have "find_session db (ss_source_id u) (ss_external_id u) \<noteq> None"
    using up by (auto simp: upsert_source_session_def read_source_session_def Let_def split: option.splits sum.splits prod.splits)
  then show ?thesis using store_chunks_sessions [OF st2(1)] st2(2) by (simp add: find_session_def)
qed

lemma touched_row:
  assumes "touch_session env j u st = (st', Inr chunks)"
    and "find_session (fst st) (ss_source_id u) (ss_external_id u) \<noteq> None"
  shows "find_session (fst st') (ss_source_id u) (ss_external_id u) \<noteq> None"
proof -
  define st1 where "st1 = (fst (touch_source_session_last_seen (re_meta env) (re_now env j 1) (ss_source_id u) (ss_external_id u)
              (ss_last_seen_at u) (fst st)), snd st)"
  have "find_session (fst st1) (ss_source_id u) (ss_external_id u) \<noteq> None"
    using assms(2) by (simp add: st1_def touch_find)
  moreover have "md_sessions (fst st') = md_sessions (fst st1)"
    using assms(1) unfolding touch_session_def st1_def [symmetric] source_session_chunks_or_backfill_def Let_def
    by (auto simp: run_Inr dest!: store_chunks_sessions split: if_splits)
  ultimately show ?thesis by (simp add: find_session_def)
qed

lemma refresh_session_observed:
  assumes "refresh_session env j repo p s st = (st', Inr b)"
  shows "observed (re_meta env) (re_uuid5 env) (lp_name p, ns_external_session_id s) st'"
proof -
  define u where "u = source_session_upsert (re_meta env) (re_now env j 0) p s"
  have key: "ss_source_id u = lp_name p" "ss_external_id u = ns_external_session_id s"
    by (simp_all add: u_def source_session_upsert_def)
  obtain existing chunks st1 found st2 y where
    ex: "read_source_session (re_meta env) (fst st) (ss_source_id u) (ss_external_id u) = Inr existing"
    and step: "(if session_unchanged existing u then touch_session env j u st else index_session env j u st) = (st1, Inr chunks)"
    and rec: "read_source_session (re_meta env) (fst st1) (ss_source_id u) (ss_external_id u) = Inr found"
    and app: "(case found of None \<Rightarrow> (st1, Inr ()) | Some r \<Rightarrow> append_session_event env j repo p r chunks st1) = (st2, Inr y)"
    and link: "fst (link_session_repo env j u (map_option from_utf8_lossy (ns_repo_path s)) st2) = st'"
    using assms unfolding refresh_session_def Let_def u_def [symmetric] run_Inr by auto
  have "find_session (fst st1) (ss_source_id u) (ss_external_id u) \<noteq> None"
  proof (cases "session_unchanged existing u")
    case True
    then have "existing \<noteq> None" by (cases existing) (simp_all add: session_unchanged_def)
    then have "find_session (fst st) (ss_source_id u) (ss_external_id u) \<noteq> None"
      using ex by (cases "find_session (fst st) (ss_source_id u) (ss_external_id u)") (auto simp: read_source_session_def)
    then show ?thesis using touched_row step True by (auto simp del: not_None_eq)
  next
    case False
    then show ?thesis using indexed_row step by (auto simp del: not_None_eq)
  qed
  then obtain r where r: "found = Some r"
    using rec by (cases found) (auto simp: read_source_session_def split: option.splits)
  have "fst st2 = fst st1" "event_exists (source_session_event_id (re_uuid5 env) r) (snd st2)"
    using app append_event_known by (auto simp: r append_session_event_def split: prod.splits sum.splits) force
  then have "observed (re_meta env) (re_uuid5 env) (lp_name p, ns_external_session_id s) st2"
    using rec by (simp add: observed_def r key)
  then show ?thesis
    using observed_kept [OF others.link_session_repo_moves] link by metis
qed

lemma refresh_sessions_observed:
  assumes "refresh_sessions env j repo p ss stats st = (st', Inr stats')"
  shows "(\<forall>s\<in>set ss. observed (re_meta env) (re_uuid5 env) (lp_name p, ns_external_session_id s) st') \<and>
    rs_scanned stats' = rs_scanned stats + length ss \<and>
    rs_reindexed stats' + rs_skipped stats' = rs_reindexed stats + rs_skipped stats + length ss"
  using assms
proof (induction ss arbitrary: j stats st)
  case (Cons s ss)
  obtain st1 b where one: "refresh_session env j repo p s st = (st1, Inr b)"
    and rest: "refresh_sessions env (Suc j) repo p ss
      (if b then stats\<lparr>rs_scanned := Suc (rs_scanned stats), rs_skipped := Suc (rs_skipped stats)\<rparr>
       else stats\<lparr>rs_scanned := Suc (rs_scanned stats), rs_reindexed := Suc (rs_reindexed stats)\<rparr>) st1 = (st', Inr stats')"
    using Cons.prems by (auto simp: and_run_Inr)
  have "observed (re_meta env) (re_uuid5 env) (lp_name p, ns_external_session_id s) st'"
  proof (cases "\<exists>s'\<in>set ss. ns_external_session_id s' = ns_external_session_id s")
    case True
    then show ?thesis using Cons.IH [OF rest] by auto
  next
    case False
    then have "leaves_session (lp_name p, ns_external_session_id s) st1 st'"
      using others.refresh_sessions_moves [of ss p "(lp_name p, ns_external_session_id s)"] rest by (metis fst_conv prod.inject)
    then show ?thesis using refresh_session_observed [OF one] by (rule observed_kept)
  qed
  then show ?case using Cons.IH [OF rest] by (cases b) auto
qed simp

text \<open>
  C20:
  When the refresh of a source succeeds, every session it listed is in the metadata database and the
  event of its row, by its content-derived id, is in the event store; and each listed session was
  counted once, as reindexed or as skipped.
\<close>

theorem refresh_observes_every_session:
  assumes "refresh_single_profile env repo p limit since st = (st', Inr (stats, best))"
  shows "\<exists>ss. list_source_sessions_since (re_meta env) (re_disk env 1) (re_dbs env) (re_list_probe env) p limit since = Inr ss \<and>
    rs_scanned stats = length ss \<and> rs_reindexed stats + rs_skipped stats = length ss \<and>
    (\<forall>s\<in>set ss. \<exists>r. read_source_session (re_meta env) (fst st') (lp_name p) (ns_external_session_id s) = Inr (Some r) \<and>
       event_exists (source_session_event_id (re_uuid5 env) r) (snd st'))"
proof -
  obtain st1 ss st2 plans where
    listed: "list_source_sessions_since (re_meta env) (re_disk env 1) (re_dbs env) (re_list_probe env) p limit since = Inr ss"
    and run: "refresh_sessions env 0 repo p ss no_stats st1 = (st2, Inr stats)"
    and plans: "store_plans (re_meta env) (re_plans env) 0 plans st2 = (st', Inr ())"
    using assms by (auto simp: refresh_single_profile_def run_Inr simp del: One_nat_def)
  have "leaves_session k st2 st'" for k
    using others.store_plans_moves [of k st2 "re_meta env" "re_plans env" 0 plans] plans by simp
  then have "observed (re_meta env) (re_uuid5 env) (lp_name p, ns_external_session_id s) st'" if "s \<in> set ss" for s
    using refresh_sessions_observed [OF run] that by (blast intro: observed_kept)
  then show ?thesis
    using listed refresh_sessions_observed [OF run] by (auto simp: no_stats_def observed_def)
qed

section \<open>Which repository sees a session\<close>

text \<open>
  The id of the event does not depend on the repository, and rows are never replaced: a session
  belongs to the repository that refreshed first, even when it worked in the one that refreshes now.
\<close>

lemma first_repository_keeps_session:
  assumes "refresh_profiles_to_metadata envs i repo limit ps totals st = (st', r)" "stores_ok st"
    and "row \<in> set (db_events (init_db (snd st)))" "row' \<in> set (db_events (init_db (snd st')))"
    and "row_event_id row' = row_event_id row"
  shows "row' = row"
proof -
  have moved: "refresh_moves repo st st'"
    using kept.refresh_profiles_moves [of repo st envs i limit ps totals] assms(1) by simp
  then have "row \<in> set (db_events (init_db (snd st')))" "distinct (map row_event_id (db_events (init_db (snd st'))))"
    using assms(2,3) by (auto simp: refresh_moves_def stores_ok_def log_grown_def db_inv_def)
  then show ?thesis using assms(4,5) by (metis eq_key_imp_eq_value image_eqI inj_onD distinct_map)
qed

text \<open>Two versions of a parser among the rows of a source switch the incremental refresh off.\<close>

lemma mixed_versions_rescan:
  assumes "(i, r) \<in> set (snd (md_sessions db))" "(i', r') \<in> set (snd (md_sessions db))"
    and "ss_source_id r = a" "ss_source_id r' = a" "ss_listable r" "ss_listable r'"
    and "ss_parser_version r \<noteq> ss_parser_version r'"
  shows "source_has_parser_version_mismatch db a version"
proof -
  have "ss_parser_version r \<noteq> Some version \<or> ss_parser_version r' \<noteq> Some version" using assms(7) by auto
  then show ?thesis
    using assms(1-6) unfolding source_has_parser_version_mismatch_def list_ex_iff by (elim disjE) force+
qed

text \<open>An error in the check of the parser version leaves the scan marked as running.\<close>

lemma failed_check_leaves_scan_running:
  assumes "parser_changed env p (fst (begin_source_scan (re_meta env) (re_begun env) (lp_name p) (fst st))) = Inl e"
  shows "refresh_profile env repo limit p st =
    ((fst (begin_source_scan (re_meta env) (re_begun env) (lp_name p) (fst st)), snd st), Inl (Refresh_Source e))"
  using assms by (simp add: refresh_profile_def from_source_def split_beta Let_def)

section \<open>A refresh that succeeds\<close>

text \<open>A session that is new to the database is indexed, if its numbers and chunks fit.\<close>

lemma new_session_refreshed:
  fixes env j p s
  defines "u \<equiv> source_session_upsert (re_meta env) (re_now env j 0) p s"
  assumes "session_params (re_meta env) u = Some q" "session_reads_back (re_meta env) u"
    and "time_reads_back (re_meta env) (re_now env j 1)"
    and "read_source_session (re_meta env) (fst st) (lp_name p) (ns_external_session_id s) = Inr None"
    and "read_chunks env j u = Inr cs" "distinct (map ac_chunk_id cs)" "\<forall>c\<in>set cs. chunk_reads_back (re_meta env) c"
    and "ns_repo_path s = None"
  shows "\<exists>st'. refresh_session env j repo p s st = (st', Inr False) \<and>
    md_roots (fst st') = md_roots (fst st)"
proof -
  have key: "ss_source_id u = lp_name p" "ss_external_id u = ns_external_session_id s" "ss_metadata u \<noteq> Some JNull"
    by (simp_all add: u_def source_session_upsert_def source_session_metadata_def Let_def)
  obtain db where up: "upsert_source_session (re_meta env) (re_now env j 1) u (fst st) =
        (db, Inr (session_record_of u (re_now env j 1) (re_now env j 1)))"
    and read: "read_source_session (re_meta env) db (lp_name p) (ns_external_session_id s) =
        Inr (Some (session_record_of u (re_now env j 1) (re_now env j 1)))"
    by (rule upsert_session_Inr [OF assms(2-4), of "fst st" None]) (simp_all add: key assms(5))
  have roots: "md_roots db = md_roots (fst st)"
    using up by (auto simp: upsert_source_session_def Let_def split: option.splits sum.splits prod.splits)
  obtain session where session: "read_source_session_id db (lp_name p) (ns_external_session_id s) = Some session"
    using read by (cases "find_session db (lp_name p) (ns_external_session_id s)")
      (auto simp: read_source_session_def read_source_session_id_def)
  have params: "chunk_params (re_meta env) n c = Some (the (chunk_params (re_meta env) n c))" if "c \<in> set cs" for n c
    using chunk_row_reads_back [of "re_meta env" c n] assms(8) that by fastforce
  from upsert_chunks_Inr [OF session assms(7) params] obtain db2 where
    chunks: "upsert_source_session_chunks (re_meta env) (lp_name p) (ns_external_session_id s) cs db = (db2, Inr ())"
    and same: "md_sessions db2 = md_sessions db" "md_roots db2 = md_roots db" by auto
  let ?r = "session_record_of u (re_now env j 1) (re_now env j 1)"
  have meta: "ss_metadata (session_record_of u a b) = ss_metadata u" for a b by (simp add: session_record_of_def source_session.defs)
  let ?ev = "build_source_session_event_with_chunks (re_meta env) (re_uuid5 env) (re_event env j) (re_uuid env j)
      (source_actor p) ?r repo cs"
  have "so_metadata_json (source_session_payload_of (re_meta env) ?r) \<noteq> Some JNull"
    using key(3) by (simp add: source_session_payload_of_def meta)
  then obtain pl where "dec_source_session_payload (te_payload ?ev) = Some pl"
    by (simp add: dec_source_session_payload_enc)
  then obtain f where app: "append_event (me_services (re_meta env)) (re_now env j 2) repo ?ev (snd st) = (f, Inr ())"
    by (simp add: append_event_def Let_def compact_event_and_chunks_def)
  have read2: "read_source_session (re_meta env) db2 (lp_name p) (ns_external_session_id s) = Inr (Some ?r)"
    using read by (simp add: read_source_session_def find_session_def same)
  have "refresh_session env j repo p s st = ((db2, Some f), Inr False)"
    unfolding refresh_session_def Let_def u_def [symmetric]
    by (simp add: key from_meta_def assms(5,6,9) session_unchanged_def index_session_def in_meta_def up from_source_def
        store_chunks_def chunks read2 append_session_event_def app link_session_repo_def filter_opt_def del: One_nat_def)
  then show ?thesis using same(2) roots by simp
qed

section \<open>A small example\<close>

definition sample_notes :: local_profile where
  "sample_notes = (profile_named ''notes'')\<lparr>lp_session_log_path := Some ''/h/a.log''\<rparr>"

definition sample_note :: native_source_session where
  "sample_note =
     \<lparr>ns_external_session_id = ''a'', ns_source_app_id = ''notes'', ns_title = Some ''a'', ns_path = ''/h/a.log'',
      ns_size_bytes = 1, ns_modified_at = Some 5, ns_parser_version = generic_parser_version,
      ns_session_created_at = None, ns_session_updated_at = None, ns_model = None, ns_input_tokens = None,
      ns_output_tokens = None, ns_repo_path = None, ns_branch = None, ns_files_changed = None,
      ns_lines_added = None, ns_lines_removed = None, ns_touched_files = [], ns_listable = True,
      ns_metadata_json = None, ns_cwd = None, ns_liveness = Active, ns_last_activity = Some 5\<rparr>"

text \<open>An environment that reads back the two JSON texts of such a session.\<close>

definition note_env :: meta_env where
  "note_env = sample_meta_env\<lparr>
     me_json_text := (\<lambda>j. if j = JArr [] then ''[]'' else ''m''),
     me_json_parse := (\<lambda>t. if t = ''[]'' then Some (JArr []) else source_session_metadata sample_notes sample_note)\<rparr>"

definition note_refresh_env :: refresh_env where
  "note_refresh_env =
     \<lparr>re_meta = note_env,
      re_disk = (\<lambda>_. (sample_machine [])\<lparr>sm_tree := [''/h/a.log'' \<mapsto> T_File (Some \<lparr>fst_len = 1, fst_modified = Some 5\<rparr>)]\<rparr>),
      re_dbs = \<lparr>dbs_sessions = (\<lambda>_ _ _ _. None), dbs_chunks = (\<lambda>_ _ _. None), dbs_plans = (\<lambda>_. None)\<rparr>,
      re_uuid5 = (\<lambda>t. t), re_drain = (\<lambda>xs. xs), re_begun = 6, re_finished = 7, re_refreshed = 8,
      re_roots = (\<lambda>_. 6), re_plans = (\<lambda>_. 6), re_check_probe = (\<lambda>_. 6), re_list_probe = (\<lambda>_. 6),
      re_now = (\<lambda>_ _. 7), re_chunk = (\<lambda>_. sample_fresh), re_event = sample_fresh, re_uuid = (\<lambda>_. ''u''),
      re_error_text = (\<lambda>_. [])\<rparr>"

lemma note_env_simps [simp]:
  "re_meta note_refresh_env = note_env" "time_reads_back note_env t"
  by (simp_all add: note_refresh_env_def note_env_def time_reads_back_def time_text_def)
    (simp add: sample_meta_env_def plain_services_def)

lemma note_profile_simps [simp]:
  "lp_name sample_notes = ''notes''" "lp_session_log_path sample_notes = Some ''/h/a.log''"
  "lp_evidence_root sample_notes = None" "lp_session_db_path sample_notes = None"
  "lp_cursor_state_db_path sample_notes = None" "lp_app_id sample_notes = None"
  "known_source_from_name ''notes'' = None"
  by (simp_all add: sample_notes_def profile_named_def known_source_from_name_def known_source_names_def)

lemma notes_listed:
  "list_source_sessions_since note_env (re_disk note_refresh_env i) (re_dbs note_refresh_env)
     (\<lambda>_. 6) sample_notes (Some (Suc n)) None = Inr [sample_note]"
proof -
  have ext: "is_supported_session_file ''/h/a.log''" "path_stem ''/h/a.log'' = Some ''a''" by code_simp+
  show ?thesis
    by (simp add: list_source_sessions_since_def list_native_source_sessions_def list_file_source_sessions_def
        list_file_source_sessions_with_filter_def scan_roots_def collect_session_files_def wanted_def ext
        skip_by_mtime_def session_from_path_def blank_metadata_def note_refresh_env_def sample_machine_def
        Let_def listed_def limit_reached_def fill_liveness_def probe_liveness_def within_active_window_def
        active_window_def sample_note_def or_else_def)
qed

lemma note_refreshed:
  assumes start: "md_sessions db0 = (1, [])" "md_roots db0 = (1, [])"
  shows "\<exists>st'. refresh_single_profile note_refresh_env ''repo_1'' sample_notes (Some 1) None (db0, None) =
    (st', Inr (\<lparr>rs_scanned = 1, rs_reindexed = 1, rs_skipped = 0\<rparr>, None)) \<and> (\<exists>i. event_exists i (snd st'))"
proof -
  obtain db i where root: "upsert_source_root note_env 6 ''notes'' (Some ''/h/a.log'') None db0 = (db, Inr i)"
    and rows: "md_sessions db = (1, [])"
    by (simp add: upsert_source_root_def start sql_upsert_def root_key_def Let_def find_row_def)
  have lossy: "from_utf8_lossy ''/h/a.log'' = ''/h/a.log''"
    by (rule from_utf8_lossy_valid [OF utf8_valid_ascii]) simp
  define u where "u = source_session_upsert note_env 7 sample_notes sample_note"
  have one: "optional_u64_to_i64 (Some 1) = Some (Some 1)" "optional_u64_to_i64 None = Some None"
    by (simp_all add: optional_u64_to_i64_def)
  have "\<exists>q. session_params note_env u = Some q"
    by (simp add: session_params_def u_def source_session_upsert_def sample_note_def one)
  then obtain q where q: "session_params note_env u = Some q" ..
  have meta: "ss_metadata u = source_session_metadata sample_notes sample_note" "ss_touched_files u = Some (JArr [])"
    by (simp_all add: u_def source_session_upsert_def enc_vec_def) (simp add: sample_note_def)
  have "json_value_reads_back note_env j" if "j = JArr [] \<or> Some j = source_session_metadata sample_notes sample_note" for j
    using that by (auto simp: json_value_reads_back_def note_env_def source_session_metadata_def Let_def)
  then have back_ok: "session_reads_back note_env u" by (simp add: session_reads_back_def meta)
  have fresh: "read_source_session note_env (fst (db, None)) (lp_name sample_notes) (ns_external_session_id sample_note) = Inr None"
    by (simp add: read_source_session_def find_session_def rows find_row_def)
  have none: "read_chunks note_refresh_env 0 u = Inr []"
    by (simp add: read_chunks_def format_source_session_chunks_def u_def source_session_upsert_def)
  obtain st' where session: "refresh_session note_refresh_env 0 ''repo_1'' sample_notes sample_note (db, None) = (st', Inr False)"
    using new_session_refreshed [of note_refresh_env 0 sample_notes sample_note q "(db, None)" "[]" "''repo_1''"] q back_ok fresh none
    by (auto simp: u_def note_refresh_env_def sample_note_def)
  have drawn: "re_roots note_refresh_env n = 6" "re_list_probe note_refresh_env = (\<lambda>_. 6)" "ns_session_updated_at sample_note = None" for n
    by (simp_all add: note_refresh_env_def sample_note_def)
  have "\<exists>i. event_exists i (snd st')"
    using refresh_session_observed [OF session] by (auto simp: observed_def)
  then show ?thesis
    using notes_listed [of 1 0]
    by (simp add: refresh_single_profile_def record_source_roots_def in_meta_def drawn root lossy from_source_def session
        list_profile_plans_def no_stats_def max_updated_at_def map_filter_simps)
qed

lemma refresh_observes_every_session_witness:
  "\<exists>st' r. refresh_single_profile note_refresh_env ''repo_1'' sample_notes (Some 1) None (empty_meta_db, None) =
      (st', Inr (\<lparr>rs_scanned = 1, rs_reindexed = 1, rs_skipped = 0\<rparr>, None)) \<and>
    read_source_session note_env (fst st') ''notes'' ''a'' = Inr (Some r) \<and>
    event_exists (source_session_event_name r) (snd st')"
proof -
  obtain st' where run: "refresh_single_profile note_refresh_env ''repo_1'' sample_notes (Some 1) None (empty_meta_db, None) =
    (st', Inr (\<lparr>rs_scanned = 1, rs_reindexed = 1, rs_skipped = 0\<rparr>, None))"
    using note_refreshed [of empty_meta_db] by (auto simp: empty_meta_db_def)
  have "re_uuid5 note_refresh_env = (\<lambda>t. t)" "re_list_probe note_refresh_env = (\<lambda>_. 6)" "ns_external_session_id sample_note = ''a''"
    by (simp_all add: note_refresh_env_def sample_note_def)
  then show ?thesis
    using refresh_observes_every_session [OF run] notes_listed [of 1 0] run
    by (auto simp: source_session_event_id_def)
qed

lemma refresh_keeps_stores_witness:
  "\<exists>st' row. fst (refresh_profiles_to_metadata (\<lambda>_. note_refresh_env) 0 ''repo_1'' (Some 1) [sample_notes] no_stats
      (empty_meta_db, None)) = st' \<and> meta_inv (fst st') \<and> db_inv (init_db (snd st')) \<and>
    row \<in> set (db_events (init_db (snd st'))) \<and> row_repo_id row = ''repo_1''"
proof -
  define db0 where "db0 = fst (begin_source_scan note_env 6 ''notes'' empty_meta_db)"
  obtain scan where begun: "begin_source_scan note_env 6 ''notes'' empty_meta_db = (db0, scan)"
    unfolding db0_def by (metis prod.collapse)
  have "md_sessions db0 = (1, [])" "md_roots db0 = (1, [])" and mark: "get_source_watermark db0 a = None" for a
    by (simp_all add: db0_def begin_source_scan_def Let_def empty_meta_db_def get_source_watermark_def find_row_def)
  then obtain db f i where run: "refresh_single_profile note_refresh_env ''repo_1'' sample_notes (Some 1) None (db0, None) =
      ((db, f), Inr (\<lparr>rs_scanned = 1, rs_reindexed = 1, rs_skipped = 0\<rparr>, None))" "event_exists i f"
    using note_refreshed by (metis surj_pair snd_conv)
  have drawn: "re_check_probe note_refresh_env = (\<lambda>_. 6)" "re_list_probe note_refresh_env = (\<lambda>_. 6)"
    "re_begun note_refresh_env = 6"
    by (simp_all add: note_refresh_env_def)
  obtain changed where check: "parser_changed note_refresh_env sample_notes db0 = Inr changed"
    using notes_listed [of 0 0] by (simp add: parser_changed_def list_profile_sessions_def drawn)
  define final where "final = refresh_profiles_to_metadata (\<lambda>_. note_refresh_env) 0 ''repo_1'' (Some 1) [sample_notes] no_stats
      (empty_meta_db, None)"
  have f: "snd (fst final) = f"
    by (simp add: final_def refresh_profile_def begun drawn check from_source_def mark run split: option.split del: One_nat_def)
  have "final = (fst final, snd final)" by simp
  from refresh_keeps_stores [OF this [unfolded final_def], folded final_def]
  have "meta_inv (fst (fst final))" "db_inv (init_db f)" "\<forall>row\<in>set (db_events (init_db f)). row_repo_id row = ''repo_1''"
    using meta_inv_empty empty_db_inv by (auto simp: f init_db_def [of None] empty_db_def)
  then show ?thesis
    using run(2) unfolding final_def [symmetric]
    by (auto simp: f event_exists_def init_db_def split: option.splits)
qed

end
