(* ===== verification/Live_Broadcast.thy ===== *)
theory Live_Broadcast imports Known_Sources begin

text \<open>
  The warning about other agents at work (\<^verbatim>\<open>build_live_broadcast\<close> of
  \<^verbatim>\<open>crates/cli/src/history.rs\<close>): the active sessions of all sources that touched the file
  about to be edited, or else those that work in a directory above it.
\<close>

record live_session_row =
  lv_source_id :: string
  lv_app_id :: string
  lv_external_session_id :: string
  lv_title :: "string option"
  lv_path :: string
  lv_work_scope :: "string option"
  lv_repo_path :: "string option"
  lv_branch :: "string option"
  lv_last_activity :: "string option"
  lv_touched_files :: "string list"

datatype broadcast_tier = File_Tier | Scope_Tier

record live_broadcast =
  lb_tier :: broadcast_tier
  lb_message :: string
  lb_sessions :: "live_session_row list"

text \<open>A source that cannot be listed is passed over.\<close>

definition live_of_profile ::
  "meta_env \<Rightarrow> source_machine \<Rightarrow> database_sources \<Rightarrow> (nat \<Rightarrow> instant) \<Rightarrow> nat \<Rightarrow> local_profile \<Rightarrow>
   native_source_session list" where
  "live_of_profile env mc dbs clock limit p =
     (case list_profile_sessions env mc dbs clock p (Some (max limit 50)) of
        Inl e \<Rightarrow> []
      | Inr ss \<Rightarrow> filter is_active ss)"

definition activity_key :: "native_source_session \<Rightarrow> nat \<times> int" where
  "activity_key s = (case ns_last_activity s of None \<Rightarrow> (1, 0) | Some t \<Rightarrow> (0, - t))"

definition collect_live_sessions ::
  "meta_env \<Rightarrow> source_machine \<Rightarrow> database_sources \<Rightarrow> (nat \<Rightarrow> nat \<Rightarrow> instant) \<Rightarrow> local_profile list \<Rightarrow> nat \<Rightarrow>
   native_source_session list" where
  "collect_live_sessions env mc dbs clock ps limit =
     take limit (sort_key activity_key
       (concat (map (\<lambda>(i, p). live_of_profile env mc dbs (clock i) limit p) (List.enumerate 0 ps))))"

definition row_of_live_session :: "meta_env \<Rightarrow> source_machine \<Rightarrow> native_source_session \<Rightarrow> live_session_row" where
  "row_of_live_session env mc s =
     \<lparr>lv_source_id = ns_source_app_id s, lv_app_id = ns_source_app_id s,
      lv_external_session_id = ns_external_session_id s, lv_title = ns_title s,
      lv_path = from_utf8_lossy (ns_path s), lv_work_scope = map_option from_utf8_lossy (work_scope mc s),
      lv_repo_path = map_option from_utf8_lossy (ns_repo_path s), lv_branch = ns_branch s,
      lv_last_activity = map_option (time_text env) (ns_last_activity s),
      lv_touched_files = ns_touched_files s\<rparr>"

definition path_starts_with :: "string \<Rightarrow> string \<Rightarrow> bool" where
  "path_starts_with p base \<longleftrightarrow>
     path_is_absolute p = path_is_absolute base \<and> prefix (path_components base) (path_components p) \<and>
     ((base = ''.'' \<or> prefix ''./'' base) \<longrightarrow> (p = ''.'' \<or> prefix ''./'' p)) \<and>
     ((p = ''.'' \<or> prefix ''./'' p) \<and> path_components base \<noteq> [] \<longrightarrow> (base = ''.'' \<or> prefix ''./'' base))"

definition touched_same :: "string \<Rightarrow> native_source_session \<Rightarrow> bool" where
  "touched_same target s \<longleftrightarrow>
     list_ex (\<lambda>t. t = target \<or> file_name t = file_name target) (ns_touched_files s)"

definition in_scope :: "source_machine \<Rightarrow> string \<Rightarrow> native_source_session \<Rightarrow> bool" where
  "in_scope mc target s \<longleftrightarrow>
     (case work_scope mc s of None \<Rightarrow> False | Some scope \<Rightarrow> path_starts_with target scope)"

definition not_self :: "string option \<Rightarrow> native_source_session \<Rightarrow> bool" where
  "not_self self_path s \<longleftrightarrow> self_path \<noteq> Some (from_utf8_lossy (ns_path s))"

definition describe_sessions :: "live_session_row list \<Rightarrow> string" where
  "describe_sessions rows =
     join ''; '' (map (\<lambda>r. lv_app_id r @ '' \"'' @ unwrap_or (lv_title r) ''(no title)'' @ ''\"'') (take 3 rows))"

text \<open>The messages start with a warning and an information sign, each with a variation selector.\<close>

definition file_message :: "live_session_row list \<Rightarrow> string" where
  "file_message rows =
     [CHR 0xE2, CHR 0x9A, CHR 0xA0, CHR 0xEF, CHR 0xB8, CHR 0x8F] @ '' '' @ show_nat (length rows) @
     '' active session(s) recently changed this same file: '' @ describe_sessions rows @
     ''. Coordinate or re-check the file before editing.''"

definition scope_message :: "live_session_row list \<Rightarrow> string" where
  "scope_message rows =
     [CHR 0xE2, CHR 0x84, CHR 0xB9, CHR 0xEF, CHR 0xB8, CHR 0x8F] @ '' '' @ show_nat (length rows) @
     '' active session(s) are working in this same project right now: '' @ describe_sessions rows @
     ''. Your view of the code here may change under you.''"

definition broadcast_of :: "meta_env \<Rightarrow> source_machine \<Rightarrow> native_source_session list \<Rightarrow> string \<Rightarrow> string option \<Rightarrow> live_broadcast option" where
  "broadcast_of env mc live target self_path =
     (let others = filter (not_self self_path) live;
          file_hits = map (row_of_live_session env mc) (filter (touched_same target) others);
          scope_hits = map (row_of_live_session env mc)
            (filter (\<lambda>s. \<not> touched_same target s \<and> in_scope mc target s) others)
      in if file_hits \<noteq> [] then
           Some \<lparr>lb_tier = File_Tier, lb_message = file_message file_hits, lb_sessions = file_hits\<rparr>
         else if scope_hits \<noteq> [] then
           Some \<lparr>lb_tier = Scope_Tier, lb_message = scope_message scope_hits, lb_sessions = scope_hits\<rparr>
         else None)"

definition build_live_broadcast ::
  "meta_env \<Rightarrow> source_machine \<Rightarrow> database_sources \<Rightarrow> (nat \<Rightarrow> nat \<Rightarrow> instant) \<Rightarrow> local_profile list \<Rightarrow> string \<Rightarrow>
   string option \<Rightarrow> live_broadcast option" where
  "build_live_broadcast env mc dbs clock ps target self_path =
     broadcast_of env mc (collect_live_sessions env mc dbs clock ps 50) target self_path"

section \<open>When there is a warning\<close>

text \<open>
  There is none exactly when no other active session touched a file of that name or works above it.
\<close>

lemma no_broadcast_iff:
  "broadcast_of env mc live target self_path = None \<longleftrightarrow>
     (\<forall>s\<in>set live. not_self self_path s \<longrightarrow> \<not> touched_same target s \<and> \<not> in_scope mc target s)"
  by (auto simp: broadcast_of_def Let_def filter_empty_conv)

lemma live_sessions_active:
  assumes "s \<in> set (collect_live_sessions env mc dbs clock ps limit)"
  shows "is_active s"
  using assms
  by (auto simp: collect_live_sessions_def live_of_profile_def dest!: in_set_takeD split: sum.splits)

text \<open>
  A file counts as the same when only its name is: two projects with a file of that name warn of
  each other.
\<close>

lemma same_name_is_same_file:
  "touched_same ''/work/a/src/mod.rs'' (sample\<lparr>ns_touched_files := [''/other/b/mod.rs'']\<rparr>)"
proof -
  have "file_name ''/work/a/src/mod.rs'' = file_name ''/other/b/mod.rs''" by code_simp
  then show ?thesis by (simp add: touched_same_def)
qed

text \<open>A scope is never a home directory, and lies at least two levels below the root.\<close>

lemma work_scope_deep:
  assumes "work_scope mc s = Some p"
  shows "2 \<le> component_count p \<and> (\<forall>h. sm_home mc = Some h \<longrightarrow> \<not> same_path p h) \<and>
    or_else (ns_repo_path s) (ns_cwd s) = Some p"
proof -
  have p: "or_else (ns_repo_path s) (ns_cwd s) = Some p" "\<not> is_too_shallow (sm_home mc) p"
    using assms by (auto simp: work_scope_def filter_opt_def split: option.splits if_splits)
  then show ?thesis by (auto simp: is_too_shallow_def split: option.splits)
qed

end
