(* ===== verification/Spec2Isabelle.thy ===== *)
theory Spec2Isabelle imports Session_Query Local_Store Diff_Capture Explain Sync_Client Claude_Hook Mcp_Config Native_Hook Source_Blame
  Codex_Transcript Cache_Results Setup_Results Importers Refresh_Props Live_Broadcast
begin

text \<open>
  Brick records what people and agents do to a repository as an append-only log of events, derives an
  index and explanations from it, and syncs it between machines through a small server. Beside the
  log it indexes the transcripts of coding agents, and hooks itself into their configuration. This
  development models the protocol, the local core, the metadata database, the agent configuration,
  the sync client and the server, from the Rust crates under \<^verbatim>\<open>src/crates\<close>.

  \<^bold>\<open>How the parts interact.\<close> Every component reads or writes \<open>trace_event\<close>s. The command line builds
  them (constructors of \<open>Trace_Event\<close>), \<open>Event_Store\<close> keeps them in one database shared by all
  repositories, \<open>Local_Store\<close> is one repository's view of it with the cached index. The index
  (\<open>Trace_Index\<close>) is a fold over a log; \<open>Session_Query\<close> reads it. \<open>Diff_Capture\<close> turns git's output
  into a diff payload, \<open>Blame\<close> finds such payloads back by patch id, \<open>Explain\<close> walks the log from an
  anchor. \<open>Sync_Client\<close> pushes a store's events to the server and pulls others'. The server keeps a
  log of its own (\<open>Server_Store\<close>), guarded by tokens (\<open>Server_Auth\<close>) in front of its routes
  (\<open>Server_Routes\<close>), which answer with pages of the log and with the same index. The metadata
  database (\<open>Metadata_Db\<close>) holds the sessions that the transcript readers found, their chunks and the
  lines their edits wrote; \<open>Source_Blame\<close> answers from it which session touched a file or wrote a
  line. A refresh (\<open>History_Refresh\<close>) lists the sessions of every tool on the machine
  (\<open>Known_Sources\<close>), indexes the changed ones there and appends an event for each to the event store,
  from where a push carries them to other machines. The installers (\<open>Claude_Hook\<close>, \<open>Mcp_Config\<close>, \<open>Native_Hook\<close>) edit the agents' own files.

  \<^bold>\<open>Theories and sources.\<close>
  \<^item> \<open>Prelude\<close>: errors as sums, options, the \<open>services\<close> of chrono, uuid and sha2, generic list lemmas.
    \<open>Rust_Str\<close>: strings as UTF-8 byte lists with the operations of \<^verbatim>\<open>str\<close>. \<open>BTree\<close>: ordered maps and
    sets. \<open>Paths\<close>: path operations. \<open>Json\<close>: serde's data model.
  \<^item> \<open>Protocol_Types\<close>, \<open>Payload_Codec\<close>, \<open>Trace_Event\<close>: \<^verbatim>\<open>protocol/src\<close>. One record per struct, one
    datatype per enum, with the codecs that derive generates. Lemmas: decoding an encoding.
  \<^item> \<open>Index_Types\<close>, \<open>Trace_Index\<close>: \<^verbatim>\<open>core/src/index_types.rs\<close>, \<^verbatim>\<open>index.rs\<close>. \<open>Index_Graph\<close>, \<open>Index_Inv\<close>
    and \<open>Index_Props\<close> show that the edges of a built index are the pairs the log declares, from both
    ends, that the maps are well formed, and when a build fails. \<open>Session_Query\<close>: \<^verbatim>\<open>session_query.rs\<close>.
  \<^item> \<open>Event_Store\<close>: \<^verbatim>\<open>local_event_store.rs\<close>, two tables as lists of rows; appending keeps the keys
    unique, chunks come back. \<open>Local_Store\<close>: \<^verbatim>\<open>store.rs\<close>; the cached index is never stale, whatever
    other processes append in between.
  \<^item> \<open>Cache_Types\<close>, \<open>Query_Cache\<close>: \<^verbatim>\<open>sqlite_schema.rs\<close>, \<^verbatim>\<open>sqlite_index.rs\<close>, the SQL projection of the index and
    its queries. \<open>Cache_Props\<close>: the contract \<open>checked_insert\<close>, a run of inserts succeeds when the
    unchecked result satisfies every key. \<open>Cache_Results\<close>: when a rebuild succeeds, why a diff of
    several files makes it fail, and that session queries agree with the index.
  \<^item> \<open>Git\<close>, \<open>Diff_Capture\<close>: \<^verbatim>\<open>diff_capture.rs\<close>; the parsers read back what git prints. \<open>Blame\<close>:
    \<^verbatim>\<open>blame.rs\<close>, refined from a specification that names the attribution of each line. \<open>Explain\<close>:
    \<^verbatim>\<open>explain.rs\<close> and the row type of \<^verbatim>\<open>file_session_blame.rs\<close>.
  \<^item> \<open>Server_Store\<close>: \<^verbatim>\<open>server/src/store.rs\<close> and \<^verbatim>\<open>sync/src/wire.rs\<close>; a push appends the fresh events,
    a repository never changes its org (by induction over \<open>server_step\<close>), pages.
    \<open>Server_Auth\<close>: \<^verbatim>\<open>server/src/auth.rs\<close> and the token commands of \<^verbatim>\<open>main.rs\<close>; the life of a token.
    \<open>Server_Routes\<close>: \<^verbatim>\<open>server/src/routes.rs\<close> and \<^verbatim>\<open>index.rs\<close>. \<open>Server_Gate\<close>: what a token limited to
    one repository can read and change, audit, bound actors. \<open>Server_Members\<close>: membership checks
    and where they are missing. \<open>Server_Samples\<close>: a small server for the concrete instances.
  \<^item> \<open>Source_Match\<close>: path and text matching of \<^verbatim>\<open>core/src/metadata_db.rs\<close> and the chunk of
    \<^verbatim>\<open>activity.rs\<close>. \<open>Metadata_Types\<close>, \<open>Metadata_Db\<close>: its records, columns, tables and operations, with
    those of \<^verbatim>\<open>plan_metadata.rs\<close>. \<open>Metadata_Inv\<close>: the contract \<open>sql_table\<close> of a keyed table, and keys and
    references of every reachable database. \<open>Metadata_Props\<close>: upserts read back, replacement,
    atomicity. \<open>Source_Blame\<close>: its queries; a written line is found, search results are sound.
  \<^item> \<open>Shell_Edits\<close>: \<^verbatim>\<open>core/src/sources/shell_edits.rs\<close>, the files a shell command writes. \<open>Transcript\<close>:
    \<^verbatim>\<open>activity.rs\<close>, \<^verbatim>\<open>sources/jsonl.rs\<close>, the records of \<^verbatim>\<open>native_source.rs\<close> and the contract
    \<open>transcript_reader\<close>: numbered chunks whose lines exist can be stored. \<open>Claude_Transcript\<close>,
    \<open>Codex_Transcript\<close>, \<open>Gemini_Transcript\<close>: \<^verbatim>\<open>sources/claude_code.rs\<close>, \<^verbatim>\<open>codex_app.rs\<close>, \<^verbatim>\<open>gemini.rs\<close>;
    every tool call becomes one chunk.
  \<^item> \<open>Source_Discovery\<close>: \<^verbatim>\<open>core/src/source_discovery.rs\<close>. \<open>Source_Scan\<close>: the directory walk of
    \<^verbatim>\<open>native_source.rs\<close>; which files a listing contains. \<open>Known_Sources\<close>: \<^verbatim>\<open>sources/traits.rs\<close> and
    \<^verbatim>\<open>liveness.rs\<close>; when a Codex session counts as active. \<open>Session_Event\<close>: \<^verbatim>\<open>source_session_event.rs\<close>
    and the ingestion of \<^verbatim>\<open>sync/src/lib.rs\<close>; a published session is read elsewhere as it was.
  \<^item> \<open>History_Refresh\<close>, \<open>Live_Broadcast\<close>: \<^verbatim>\<open>cli/src/history.rs\<close>. \<open>Refresh_Props\<close>: the contract
    \<open>refresh_relation\<close>, a relation that every step of a refresh respects; with it, that the stores stay
    consistent, and that every listed session is observed.
  \<^item> \<open>Identity\<close>: \<^verbatim>\<open>core/src/identity.rs\<close> and the context file of \<^verbatim>\<open>store.rs\<close>. \<open>Setup\<close>: \<^verbatim>\<open>repo.rs\<close>,
    \<^verbatim>\<open>global_home.rs\<close>, \<^verbatim>\<open>store_options.rs\<close>, \<^verbatim>\<open>repo_context.rs\<close> and the paths of a store handle.
    \<open>Source_Profiles\<close>: \<^verbatim>\<open>source_profile.rs\<close>. \<open>Setup_Results\<close>: the nearest repository is found, an
    identity carries over to the next command, profiles stay in their directory.
  \<^item> \<open>Blob_Store\<close>: \<^verbatim>\<open>attachment_store.rs\<close>, \<^verbatim>\<open>log_store.rs\<close>, with other processes between the steps of
    an upload, and the contract \<open>content_store\<close>. \<open>Importers\<close>: \<^verbatim>\<open>importers/src/lib.rs\<close>.
  \<^item> \<open>Config_Files\<close>: another program's configuration file and the contract \<open>managed_entry\<close> of an
    installer. \<open>Claude_Hook\<close>, \<open>Mcp_Config\<close>, \<open>Native_Hook\<close>: \<^verbatim>\<open>cli/src/claude_hook.rs\<close>, \<^verbatim>\<open>mcp_config.rs\<close>,
    \<^verbatim>\<open>native_hook.rs\<close>; what is the user's is kept, removal undoes installation.
  \<^item> \<open>Sync_Client\<close>: \<^verbatim>\<open>sync/src/lib.rs\<close>; the paged download returns the whole log, and pushed events
    arrive in every store that pulls.

  \<^bold>\<open>Conventions.\<close> \<^verbatim>\<open>u64\<close> is \<open>64 word\<close>, \<^verbatim>\<open>usize\<close> is \<open>nat\<close>, an instant is a number of nanoseconds
  without chrono's range limit. A failing operation returns \<open>Inl\<close> of an error. Clock readings,
  random ids, git, HTTP, JWT verification, process calls, the text of JSON and TOML and SQLite's
  full-text ranking are arguments; SQL tables are lists of rows in order of insertion. \<open>plain_services\<close> is the
  concrete instance of the services; \<open>services_read_back\<close> is the hypothesis that printed times and
  uuids parse back.

  \<^bold>\<open>Bounds.\<close> Every loop is structural recursion or a function with a termination proof, except the
  paged download \<open>fetch_all\<close>, which may run for ever against an arbitrary server and is a
  \<^verbatim>\<open>partial_function\<close>; against this server it is shown to return. Logs are assumed to have fewer
  than \<open>2 ^ 64\<close> lines, the range of the sequence numbers.

  \<^bold>\<open>Not modelled.\<close> Opening files and databases and their I/O errors; the
  readers of the databases of Cursor, OpenCode, Windsurf and ORGII, which are parameters; the rest of
  the command line and the MCP server; argument parsing and printing.
\<close>

end
